(* ===== verification/Prelude.thy ===== *)
theory Prelude
  imports Main "HOL-Library.Product_Lexorder" "HOL-Library.List_Lexorder" "HOL-Library.Char_ord"
begin

text \<open>
  Shared vocabulary of the development: outcomes (a Python exception is \<open>Inl\<close>, a
  normal return is \<open>Inr\<close>), the keyed row lists that stand for database tables, and the
  generic lemmas on both.  The collection \<open>outcome\<close> rewrites "this block returned" into the
  conjunction of the guards it passed, which is how every component proof opens its handler.
  The collection \<open>row_simps\<close> holds the facts on row lists.
\<close>

named_theorems outcome "what a normal return says about the guards that were passed"
named_theorems row_simps "lookups in and updates of a keyed list of rows"

section \<open>Outcomes\<close>

definition andthen :: "'e + 'a \<Rightarrow> ('a \<Rightarrow> 'e + 'b) \<Rightarrow> 'e + 'b" where
  "andthen m f = (case m of Inl e \<Rightarrow> Inl e | Inr x \<Rightarrow> f x)"

definition require :: "bool \<Rightarrow> 'e \<Rightarrow> 'e + unit" where
  "require ok e = (if ok then Inr () else Inl e)"

definition demand :: "'a option \<Rightarrow> 'e \<Rightarrow> 'e + 'a" where
  "demand x e = (case x of None \<Rightarrow> Inl e | Some v \<Rightarrow> Inr v)"

fun foldm :: "('x \<Rightarrow> 's \<Rightarrow> 'e + 's) \<Rightarrow> 'x list \<Rightarrow> 's \<Rightarrow> 'e + 's" where
  "foldm f [] s = Inr s"
| "foldm f (x # xs) s = andthen (f x s) (foldm f xs)"

lemma andthen_simps [simp]:
  "andthen (Inl e) f = Inl e"
  "andthen (Inr x) f = f x"
  by (simp_all add: andthen_def)

lemma andthen_cong [fundef_cong]:
  assumes "m = m'" and "\<And>x. m' = Inr x \<Longrightarrow> f x = f' x"
  shows "andthen m f = andthen m' f'"
  using assms by (cases m') simp_all

lemma andthen_returns [outcome]:
  "andthen m f = Inr y \<longleftrightarrow> (\<exists>x. m = Inr x \<and> f x = Inr y)"
  by (cases m) simp_all

lemma andthen_raises:
  "andthen m f = Inl e \<longleftrightarrow> m = Inl e \<or> (\<exists>x. m = Inr x \<and> f x = Inl e)"
  by (cases m) simp_all

lemma require_returns [outcome]: "require ok e = Inr u \<longleftrightarrow> ok"
  by (simp add: require_def)

lemma require_raises: "require ok e = Inl e' \<longleftrightarrow> \<not> ok \<and> e' = e"
  by (auto simp: require_def)

lemma require_simps [simp]:
  "require True e = Inr ()"
  "require False e = Inl e"
  by (simp_all add: require_def)

lemma demand_simps [simp]:
  "demand None e = Inl e"
  "demand (Some x) e = Inr x"
  by (simp_all add: demand_def)

lemma demand_returns [outcome]: "demand x e = Inr v \<longleftrightarrow> x = Some v"
  by (cases x) simp_all

lemma demand_raises: "demand x e = Inl e' \<longleftrightarrow> x = None \<and> e' = e"
  by (cases x) auto

lemma foldm_append:
  "foldm f (xs @ ys) s = andthen (foldm f xs s) (foldm f ys)"
proof (induction xs arbitrary: s)
  case (Cons x xs)
  then show ?case by (cases "f x s") simp_all
qed simp

text \<open>A property that every iteration keeps holds after the loop.\<close>

lemma foldm_invariant:
  assumes "foldm f xs s = Inr s'"
    and "P s"
    and "\<And>x s s'. x \<in> set xs \<Longrightarrow> P s \<Longrightarrow> f x s = Inr s' \<Longrightarrow> P s'"
  shows "P s'"
  using assms
proof (induction xs arbitrary: s)
  case (Cons x xs)
  from Cons.prems(1) obtain t where t: "f x s = Inr t" "foldm f xs t = Inr s'"
    by (auto simp: outcome)
  have "P t" using Cons.prems(2,3) t(1) by auto
  then show ?case using Cons.IH [OF t(2)] Cons.prems(3) by auto
qed simp

lemma fold_keeps:
  assumes "P s" and "\<And>x s. x \<in> set xs \<Longrightarrow> P s \<Longrightarrow> P (f x s)"
  shows "P (fold f xs s)"
  using assms by (induction xs arbitrary: s) auto

section \<open>Keyed rows\<close>

text \<open>
  A database table is the list of its rows in insertion order.  \<open>lookup\<close> is
  \<open>session.get\<close>, \<open>revise\<close> is the update of the row with a given primary key.
\<close>

definition lookup :: "('r \<Rightarrow> 'k) \<Rightarrow> 'k \<Rightarrow> 'r list \<Rightarrow> 'r option" where
  "lookup key k rows = List.find (\<lambda>r. key r = k) rows"

definition revise :: "('r \<Rightarrow> 'k) \<Rightarrow> 'k \<Rightarrow> ('r \<Rightarrow> 'r) \<Rightarrow> 'r list \<Rightarrow> 'r list" where
  "revise key k f rows = map (\<lambda>r. if key r = k then f r else r) rows"

lemma lookup_simps [simp]:
  "lookup key k [] = None"
  "lookup key k (r # rows) = (if key r = k then Some r else lookup key k rows)"
  by (simp_all add: lookup_def)

lemma lookup_SomeD:
  "lookup key k rows = Some r \<Longrightarrow> r \<in> set rows \<and> key r = k"
  by (induction rows) (auto split: if_splits)

lemma lookup_None_iff: "lookup key k rows = None \<longleftrightarrow> k \<notin> key ` set rows"
  by (induction rows) auto

lemma lookup_append [row_simps]:
  "lookup key k (rows @ rows') =
     (case lookup key k rows of None \<Rightarrow> lookup key k rows' | Some r \<Rightarrow> Some r)"
  by (induction rows) auto

lemma lookup_append_Some:
  "lookup key k rows = Some r \<Longrightarrow> lookup key k (rows @ rows') = Some r"
  by (simp add: lookup_append)

lemma lookup_iff:
  assumes "distinct (map key rows)"
  shows "lookup key k rows = Some r \<longleftrightarrow> r \<in> set rows \<and> key r = k"
  using assms by (induction rows) (auto simp: image_iff)

lemma revise_simps [simp]:
  "revise key k f [] = []"
  "revise key k f (r # rows) = (if key r = k then f r else r) # revise key k f rows"
  by (simp_all add: revise_def)

lemma length_revise [simp]: "length (revise key k f rows) = length rows"
  by (simp add: revise_def)

lemma map_revise [row_simps]:
  assumes "\<And>r. g (f r) = g r"
  shows "map g (revise key k f rows) = map g rows"
  using assms by (induction rows) auto

lemma lookup_revise:
  assumes "\<And>r. key (f r) = key r"
  shows "lookup key k' (revise key k f rows) =
    (if k' = k then map_option f (lookup key k rows) else lookup key k' rows)"
  using assms by (induction rows) auto

lemma in_set_revise:
  "r \<in> set (revise key k f rows) \<longleftrightarrow>
     (\<exists>r0 \<in> set rows. r = (if key r0 = k then f r0 else r0))"
  unfolding revise_def by (simp only: set_map image_iff)

lemma filter_revise:
  assumes "\<And>r. p (f r) = p r"
  shows "length (filter p (revise key k f rows)) = length (filter p rows)"
  using assms by (induction rows) auto

text \<open>
  The interface between a handler and a table of the database record: the rows are read by
  \<open>rows\<close> and rewritten by \<open>put\<close>.  The laws below hold for every table once the two agree.
\<close>

locale table =
  fixes rows :: "'d \<Rightarrow> 'r list"
    and put :: "('r list \<Rightarrow> 'r list) \<Rightarrow> 'd \<Rightarrow> 'd"
    and key :: "'r \<Rightarrow> 'k"
  assumes rows_put: "rows (put f d) = f (rows d)"
begin

lemma get_after_insert:
  "lookup key (key r) (rows d) = None \<Longrightarrow>
   lookup key (key r) (rows (put (\<lambda>rs. rs @ [r]) d)) = Some r"
  by (simp add: rows_put lookup_append)

lemma insert_keeps_others:
  "k \<noteq> key r \<Longrightarrow>
   lookup key k (rows (put (\<lambda>rs. rs @ [r]) d)) = lookup key k (rows d)"
  by (simp add: rows_put lookup_append split: option.splits)

lemma get_after_update:
  assumes "\<And>r. key (f r) = key r"
  shows "lookup key k (rows (put (revise key k f) d)) = map_option f (lookup key k (rows d))"
  using assms by (simp add: rows_put lookup_revise)

lemma update_keeps_others:
  assumes "\<And>r. key (f r) = key r" and "k' \<noteq> k"
  shows "lookup key k' (rows (put (revise key k f) d)) = lookup key k' (rows d)"
  using assms by (simp add: rows_put lookup_revise)

lemma update_keeps_keys:
  assumes "\<And>r. key (f r) = key r"
  shows "map key (rows (put (revise key k f) d)) = map key (rows d)"
  using assms by (simp add: rows_put map_revise)

lemma insert_distinct:
  "distinct (map key (rows d)) \<Longrightarrow> key r \<notin> key ` set (rows d) \<Longrightarrow>
   distinct (map key (rows (put (\<lambda>rs. rs @ [r]) d)))"
  by (simp add: rows_put)

end

section \<open>Lists\<close>

lemma find_Some_iff_lookup: "List.find (\<lambda>r. key r = k) rows = lookup key k rows"
  by (simp add: lookup_def)

lemma find_SomeD: "List.find p xs = Some x \<Longrightarrow> x \<in> set xs \<and> p x"
  by (induction xs) (auto split: if_splits)

lemma find_None_iff': "List.find p xs = None \<longleftrightarrow> (\<forall>x \<in> set xs. \<not> p x)"
  by (induction xs) auto

lemma length_filter_append_one:
  "length (filter p (xs @ [x])) = length (filter p xs) + (if p x then 1 else 0)"
  by simp

end
