(* ===== verification/Encoding.thy ===== *)
theory Encoding
  imports Prelude "HOL-Library.Multiset"
begin

text \<open>
  What the services use of Python's \<open>datetime\<close> and \<open>json\<close> modules.  A naive UTC
  \<open>datetime\<close> is the integer number of microseconds since 1970-01-01 (its exact resolution), so
  comparisons and \<open>timedelta\<close> arithmetic are those of \<open>int\<close>.  A Python \<open>str\<close> is a list of
  characters (code points up to 255), a float inside a JSON value is carried by its \<open>repr\<close>.
  \<open>dumps\<close> is \<open>json.dumps\<close> with sorted keys, compact separators, \<open>ensure_ascii\<close> and
  \<open>default=str\<close>, the canonical form every digest is taken of.
\<close>

type_synonym time = int
type_synonym ident = string

section \<open>Decimal numerals\<close>

definition digit_char :: "nat \<Rightarrow> char" where
  "digit_char n = char_of (48 + n)"

fun dec :: "nat \<Rightarrow> string" where
  "dec n = (if n < 10 then [digit_char n] else dec (n div 10) @ [digit_char (n mod 10)])"

declare dec.simps [simp del]

definition show_int :: "int \<Rightarrow> string" where
  "show_int i = (if i < 0 then CHR ''-'' # dec (nat (- i)) else dec (nat i))"

definition pad :: "nat \<Rightarrow> int \<Rightarrow> string" where
  "pad w i = (let s = dec (nat i) in replicate (w - length s) (CHR ''0'') @ s)"

section \<open>Timestamps\<close>

definition microsecond :: time where "microsecond = 1"
definition seconds :: "int \<Rightarrow> time" where "seconds n = 1000000 * n"

text \<open>The proleptic Gregorian date of a day number (days since 1970-01-01).\<close>

definition civil :: "int \<Rightarrow> int \<times> int \<times> int" where
  "civil days =
    (let z = days + 719468;
         era = z div 146097;
         doe = z mod 146097;
         yoe = (doe - doe div 1460 + doe div 36524 - doe div 146096) div 365;
         doy = doe - (365 * yoe + yoe div 4 - yoe div 100);
         mp = (5 * doy + 2) div 153;
         d = doy - (153 * mp + 2) div 5 + 1;
         m = (if mp < 10 then mp + 3 else mp - 9);
         y = yoe + 400 * era + (if m \<le> 2 then 1 else 0)
     in (y, m, d))"

definition show_date :: "time \<Rightarrow> string" where
  "show_date t =
    (case civil (t div 86400000000) of
       (y, m, d) \<Rightarrow> pad 4 y @ ''-'' @ pad 2 m @ ''-'' @ pad 2 d)"

definition show_clock :: "time \<Rightarrow> string" where
  "show_clock t =
    (let s = (t mod 86400000000) div 1000000
     in pad 2 (s div 3600) @ '':'' @ pad 2 (s div 60 mod 60) @ '':'' @ pad 2 (s mod 60))"

definition isoformat :: "time \<Rightarrow> string" where
  "isoformat t = show_date t @ ''T'' @ show_clock t @ ''.'' @ pad 6 (t mod 1000000)"

text \<open>\<open>str(datetime)\<close> leaves the fraction out when it is zero.\<close>

definition str_datetime :: "time \<Rightarrow> string" where
  "str_datetime t = show_date t @ '' '' @ show_clock t @
     (if t mod 1000000 = 0 then [] else ''.'' @ pad 6 (t mod 1000000))"

definition iso_utc :: "time option \<Rightarrow> string option" where
  "iso_utc v = (case v of None \<Rightarrow> None | Some t \<Rightarrow> Some (isoformat t @ ''Z''))"

lemma iso_utc_None_iff [simp]: "iso_utc v = None \<longleftrightarrow> v = None"
  by (simp add: iso_utc_def split: option.split)

text \<open>\<open>datetime.isoformat\<close> of an aware UTC time, which leaves a zero fraction out.\<close>

definition isoformat_utc :: "time \<Rightarrow> string" where
  "isoformat_utc t = show_date t @ ''T'' @ show_clock t @
     (if t mod 1000000 = 0 then [] else ''.'' @ pad 6 (t mod 1000000)) @ ''+00:00''"

section \<open>JSON values\<close>

datatype json =
    JNull
  | JBool bool
  | JInt int
  | JFloat string
  | JStr string
  | JTime time
  | JArr "json list"
  | JObj "(string \<times> json) list"

definition hex_digit :: "nat \<Rightarrow> char" where
  "hex_digit n = (if n < 10 then char_of (48 + n) else char_of (87 + n))"

definition escape_char :: "char \<Rightarrow> string" where
  "escape_char c =
    (let n = of_char c :: nat in
     if c = CHR 0x22 then [CHR 0x5C, CHR 0x22]
     else if c = CHR 0x5C then [CHR 0x5C, CHR 0x5C]
     else if n = 10 then [CHR 0x5C, CHR ''n'']
     else if n = 13 then [CHR 0x5C, CHR ''r'']
     else if n = 9 then [CHR 0x5C, CHR ''t'']
     else if n = 12 then [CHR 0x5C, CHR ''f'']
     else if n = 8 then [CHR 0x5C, CHR ''b'']
     else if n < 32 \<or> 126 < n
       then [CHR 0x5C, CHR ''u'', CHR ''0'', CHR ''0'', hex_digit (n div 16), hex_digit (n mod 16)]
     else [c])"

definition quote :: "string \<Rightarrow> string" where
  "quote s = CHR 0x22 # concat (map escape_char s) @ [CHR 0x22]"

fun join :: "string \<Rightarrow> string list \<Rightarrow> string" where
  "join sep [] = []"
| "join sep [x] = x"
| "join sep (x # y # ys) = x @ sep @ join sep (y # ys)"

definition sort_fields :: "(string \<times> 'a) list \<Rightarrow> (string \<times> 'a) list" where
  "sort_fields = sort_key fst"

primrec dumps :: "json \<Rightarrow> string" where
  "dumps JNull = ''null''"
| "dumps (JBool b) = (if b then ''true'' else ''false'')"
| "dumps (JInt i) = show_int i"
| "dumps (JFloat r) = r"
| "dumps (JStr s) = quote s"
| "dumps (JTime t) = quote (str_datetime t)"
| "dumps (JArr xs) = ''['' @ join '','' (map dumps xs) @ '']''"
| "dumps (JObj kvs) =
     ''{'' @ join '','' (map (\<lambda>(k, v). quote k @ '':'' @ v)
       (sort_fields (map (map_prod id dumps) kvs))) @ ''}''"

definition jopt :: "('a \<Rightarrow> json) \<Rightarrow> 'a option \<Rightarrow> json" where
  "jopt f v = (case v of None \<Rightarrow> JNull | Some x \<Rightarrow> f x)"

definition field :: "string \<Rightarrow> json \<Rightarrow> json option" where
  "field k j = (case j of JObj kvs \<Rightarrow> map_of kvs k | _ \<Rightarrow> None)"

text \<open>
  A dictionary has no order: the canonical text of an object does not depend on the order
  in which its (distinct) keys were inserted, so neither does any digest taken of it.
\<close>

lemma sort_fields_cong:
  assumes "distinct (map fst kvs)" and "set kvs = set kvs'" and "distinct (map fst kvs')"
  shows "sort_fields kvs = sort_fields kvs'"
proof -
  have perm: "mset kvs = mset (sort_key fst kvs')"
    using assms by (simp add: distinct_map set_eq_iff_mset_eq_distinct [symmetric])
  have inj: "inj_on fst (set kvs)"
    using assms(1) by (simp add: distinct_map)
  show ?thesis
    unfolding sort_fields_def
    by (rule sort_key_inj_key_eq [OF perm inj]) simp
qed

lemma dumps_field_order:
  assumes "distinct (map fst kvs)" and "set kvs = set kvs'" and "distinct (map fst kvs')"
  shows "dumps (JObj kvs) = dumps (JObj kvs')"
proof -
  have "sort_fields (map (map_prod id dumps) kvs) = sort_fields (map (map_prod id dumps) kvs')"
    by (rule sort_fields_cong) (use assms in \<open>auto simp: comp_def\<close>)
  then show ?thesis by simp
qed

end
