(* ===== verification/Config.thy ===== *)
theory Config
  imports Encoding
begin

text \<open>
  \<open>config.py\<close>: the settings record, the readers of environment variables and
  \<open>validate_security\<close>, which refuses to start a service whose secrets or bounds are unsafe.
  The properties state what an accepted configuration guarantees to the services.
\<close>

section \<open>Strings the way Python compares them\<close>

definition is_space :: "char \<Rightarrow> bool" where
  "is_space c = (let n = of_char c :: nat in
     9 \<le> n \<and> n \<le> 13 \<or> 28 \<le> n \<and> n \<le> 32 \<or> n = 133 \<or> n = 160)"

definition strip :: "string \<Rightarrow> string" where
  "strip s = rev (dropWhile is_space (rev (dropWhile is_space s)))"

definition lower_char :: "char \<Rightarrow> char" where
  "lower_char c = (let n = of_char c :: nat in
     if 65 \<le> n \<and> n \<le> 90 \<or> 192 \<le> n \<and> n \<le> 222 \<and> n \<noteq> 215 then char_of (n + 32) else c)"

definition upper_char :: "char \<Rightarrow> char" where
  "upper_char c = (let n = of_char c :: nat in if 97 \<le> n \<and> n \<le> 122 then char_of (n - 32) else c)"

fun starts_with :: "string \<Rightarrow> string \<Rightarrow> bool" where
  "starts_with [] s = True"
| "starts_with (c # cs) [] = False"
| "starts_with (c # cs) (d # ds) = (c = d \<and> starts_with cs ds)"

fun contains :: "string \<Rightarrow> string \<Rightarrow> bool" where
  "contains needle [] = (needle = [])"
| "contains needle (c # cs) = (starts_with needle (c # cs) \<or> contains needle cs)"

section \<open>Environment readers\<close>

definition bool_env :: "string option \<Rightarrow> bool \<Rightarrow> string + bool" where
  "bool_env raw dflt =
    (case raw of
       None \<Rightarrow> Inr dflt
     | Some r \<Rightarrow>
         (let normalized = map lower_char (strip r) in
          if normalized \<in> {''1'', ''true'', ''yes'', ''on''} then Inr True
          else if normalized \<in> {''0'', ''false'', ''no'', ''off''} then Inr False
          else Inl ''RuntimeError''))"

definition is_digit :: "char \<Rightarrow> bool" where
  "is_digit c = (let n = of_char c :: nat in 48 \<le> n \<and> n \<le> 57)"

text \<open>The digits of a Python integer literal: underscores may stand between two digits.\<close>

fun parse_digits :: "int \<Rightarrow> string \<Rightarrow> int option" where
  "parse_digits acc [] = Some acc"
| "parse_digits acc (c # cs) =
     (if is_digit c then parse_digits (10 * acc + (of_char c - 48)) cs
      else if c = CHR ''_'' then
        (case cs of
           [] \<Rightarrow> None
         | d # ds \<Rightarrow> if is_digit d then parse_digits (10 * acc + (of_char d - 48)) ds else None)
      else None)"

definition parse_unsigned :: "string \<Rightarrow> int option" where
  "parse_unsigned s = (case s of [] \<Rightarrow> None | c # _ \<Rightarrow> if is_digit c then parse_digits 0 s else None)"

definition parse_int :: "string \<Rightarrow> int option" where
  "parse_int s =
    (case s of
       [] \<Rightarrow> None
     | c # cs \<Rightarrow>
         if c = CHR ''-'' then map_option uminus (parse_unsigned cs)
         else if c = CHR ''+'' then parse_unsigned cs
         else parse_unsigned s)"

definition int_env :: "string option \<Rightarrow> int \<Rightarrow> string + int" where
  "int_env raw dflt =
    (case raw of
       None \<Rightarrow> Inr dflt
     | Some r \<Rightarrow> demand (parse_int (strip r)) ''RuntimeError'')"

fun split_commas :: "string \<Rightarrow> string list" where
  "split_commas [] = [[]]"
| "split_commas (c # cs) =
     (if c = CHR '','' then [] # split_commas cs
      else (case split_commas cs of [] \<Rightarrow> [[c]] | w # ws \<Rightarrow> (c # w) # ws))"

definition csv_env :: "string option \<Rightarrow> string list" where
  "csv_env raw =
    filter (\<lambda>w. w \<noteq> []) (map strip (split_commas (case raw of None \<Rightarrow> [] | Some r \<Rightarrow> r)))"

definition placeholder_markers :: "string list" where
  "placeholder_markers =
    [''change-me'', ''changeme'', ''replace-'', ''generate-'', ''placeholder'', ''example'']"

definition looks_like_placeholder :: "string \<Rightarrow> bool" where
  "looks_like_placeholder v =
    (let normalized = map lower_char (strip v)
     in \<exists>m \<in> set placeholder_markers. contains m normalized)"

section \<open>Settings\<close>

record settings =
  environment :: string
  demo_mode :: bool
  operator_key :: string
  token_hash_secret :: string
  credential_recovery_key :: string
  credential_recovery_ttl_seconds :: int
  spawn_intent_ttl_seconds :: int
  allow_insecure_dev :: bool
  heartbeat_interval_seconds :: int
  lease_ttl_seconds :: int
  lease_scan_interval_seconds :: int
  control_convergence_slo_seconds :: int
  control_plane_workers :: int
  safety_queue_size :: int
  safety_deadline_seconds :: int
  external_io_workers :: int
  external_io_queue_size :: int
  external_io_deadline_seconds :: int
  readiness_cache_seconds :: int
  max_active_runs :: int
  max_nodes_per_run :: int
  max_graph_depth :: int
  max_children_per_node :: int
  max_commands_per_run :: int
  max_actions_per_run :: int
  max_proposals_per_run :: int
  proof_cache_seconds :: int
  max_request_bytes :: int
  rate_limit_per_minute :: int
  proof_rate_limit_per_minute :: int
  rate_limit_max_buckets :: int
  heartbeat_rate_limit_per_minute :: int
  action_rate_limit_per_minute :: int
  spawn_rate_limit_per_minute :: int
  activation_rate_limit_per_minute :: int
  command_rate_limit_per_minute :: int
  operator_read_rate_limit_per_minute :: int
  trusted_proxy_hosts :: "string list"
  otel_metric_export_interval_ms :: int
  otel_export_timeout_ms :: int
  evidence_signing_key :: string

text \<open>
  The process-local secrets are drawn when the module is loaded; they are arguments here.
  Each block returns the error messages it appends, in the order of the source.
\<close>

definition secret_errors :: "string \<Rightarrow> string \<Rightarrow> settings \<Rightarrow> string list" where
  "secret_errors local_secret local_recovery S =
    (if operator_key S = [] then [''TRACEFENCE_OPERATOR_KEY is required'']
     else if length (operator_key S) < 24
       then [''TRACEFENCE_OPERATOR_KEY must contain at least 24 characters'']
     else if looks_like_placeholder (operator_key S)
       then [''TRACEFENCE_OPERATOR_KEY must not be a placeholder value'']
     else []) @
    (if token_hash_secret S = local_secret \<and> \<not> allow_insecure_dev S
       then [''TRACEFENCE_TOKEN_HASH_SECRET must be explicitly configured'']
     else if length (token_hash_secret S) < 32
       then [''TRACEFENCE_TOKEN_HASH_SECRET must contain at least 32 characters'']
     else if looks_like_placeholder (token_hash_secret S)
       then [''TRACEFENCE_TOKEN_HASH_SECRET must not be a placeholder value'']
     else []) @
    (if credential_recovery_key S = local_recovery \<and> \<not> allow_insecure_dev S
       then [''TRACEFENCE_CREDENTIAL_RECOVERY_KEY must be explicitly configured'']
     else if length (credential_recovery_key S) < 32
       then [''TRACEFENCE_CREDENTIAL_RECOVERY_KEY must contain at least 32 characters'']
     else if looks_like_placeholder (credential_recovery_key S)
       then [''TRACEFENCE_CREDENTIAL_RECOVERY_KEY must not be a placeholder value'']
     else if credential_recovery_key S \<in>
         {operator_key S, token_hash_secret S, evidence_signing_key S}
       then [''TRACEFENCE_CREDENTIAL_RECOVERY_KEY must be independent from all other keys'']
     else []) @
    (if evidence_signing_key S = [] then [''TRACEFENCE_EVIDENCE_SIGNING_KEY is required'']
     else if length (evidence_signing_key S) < 32
       then [''TRACEFENCE_EVIDENCE_SIGNING_KEY must contain at least 32 characters'']
     else if looks_like_placeholder (evidence_signing_key S)
       then [''TRACEFENCE_EVIDENCE_SIGNING_KEY must not be a placeholder value'']
     else if evidence_signing_key S = operator_key S
       then [''TRACEFENCE_EVIDENCE_SIGNING_KEY must be independent from TRACEFENCE_OPERATOR_KEY'']
     else if evidence_signing_key S = token_hash_secret S
       then [''TRACEFENCE_EVIDENCE_SIGNING_KEY must be independent from TRACEFENCE_TOKEN_HASH_SECRET'']
     else [])"

definition complain :: "bool \<Rightarrow> string \<Rightarrow> string list" where
  "complain ok msg = (if ok then [] else [msg])"

definition between :: "int \<Rightarrow> int \<Rightarrow> int \<Rightarrow> bool" where
  "between lo x hi \<longleftrightarrow> lo \<le> x \<and> x \<le> hi"

definition runtime_errors :: "settings \<Rightarrow> string list" where
  "runtime_errors S =
    complain (0 < heartbeat_interval_seconds S)
      ''TRACEFENCE_HEARTBEAT_INTERVAL_SECONDS must be positive'' @
    complain (heartbeat_interval_seconds S < lease_ttl_seconds S)
      ''TRACEFENCE_LEASE_TTL_SECONDS must exceed the heartbeat interval'' @
    complain (0 < lease_scan_interval_seconds S)
      ''TRACEFENCE_LEASE_SCAN_INTERVAL_SECONDS must be positive'' @
    complain (0 < control_convergence_slo_seconds S)
      ''TRACEFENCE_CONTROL_CONVERGENCE_SLO_SECONDS must be positive'' @
    complain (between 5 (credential_recovery_ttl_seconds S) 300)
      ''TRACEFENCE_CREDENTIAL_RECOVERY_TTL_SECONDS must be between 5 and 300'' @
    complain (between 5 (spawn_intent_ttl_seconds S) 300)
      ''TRACEFENCE_SPAWN_INTENT_TTL_SECONDS must be between 5 and 300'' @
    complain (between 1 (control_plane_workers S) 64)
      ''TRACEFENCE_CONTROL_PLANE_WORKERS must be between 1 and 64'' @
    complain (between 1 (safety_queue_size S) 10000)
      ''TRACEFENCE_SAFETY_QUEUE_SIZE must be between 1 and 10000'' @
    complain (between 1 (external_io_queue_size S) 10000)
      ''TRACEFENCE_EXTERNAL_IO_QUEUE_SIZE must be between 1 and 10000'' @
    complain (between 1 (external_io_workers S) 64)
      ''TRACEFENCE_EXTERNAL_IO_WORKERS must be between 1 and 64'' @
    complain (between 1 (safety_deadline_seconds S) 300)
      ''TRACEFENCE_SAFETY_DEADLINE_SECONDS must be between 1 and 300'' @
    complain (between 1 (external_io_deadline_seconds S) 300)
      ''TRACEFENCE_EXTERNAL_IO_DEADLINE_SECONDS must be between 1 and 300'' @
    complain (between 1 (readiness_cache_seconds S) 30)
      ''TRACEFENCE_READINESS_CACHE_SECONDS must be between 1 and 30''"

definition quota_errors :: "settings \<Rightarrow> string list" where
  "quota_errors S =
    complain (between 1 (max_active_runs S) 10000)
      ''TRACEFENCE_MAX_ACTIVE_RUNS must be between 1 and 10000'' @
    complain (between 1 (max_nodes_per_run S) 100000)
      ''TRACEFENCE_MAX_NODES_PER_RUN must be between 1 and 100000'' @
    complain (between 1 (max_graph_depth S) 1000)
      ''TRACEFENCE_MAX_GRAPH_DEPTH must be between 1 and 1000'' @
    complain (between 1 (max_children_per_node S) 10000)
      ''TRACEFENCE_MAX_CHILDREN_PER_NODE must be between 1 and 10000'' @
    complain (between 1 (max_commands_per_run S) 100000)
      ''TRACEFENCE_MAX_COMMANDS_PER_RUN must be between 1 and 100000'' @
    complain (between 1 (max_actions_per_run S) 1000000)
      ''TRACEFENCE_MAX_ACTIONS_PER_RUN must be between 1 and 1000000'' @
    complain (between 1 (max_proposals_per_run S) 100000)
      ''TRACEFENCE_MAX_PROPOSALS_PER_RUN must be between 1 and 100000'' @
    complain (max_children_per_node S < max_nodes_per_run S)
      ''TRACEFENCE_MAX_CHILDREN_PER_NODE must be below TRACEFENCE_MAX_NODES_PER_RUN'' @
    complain (0 \<le> proof_cache_seconds S)
      ''TRACEFENCE_PROOF_CACHE_SECONDS cannot be negative'' @
    complain (1024 \<le> max_request_bytes S)
      ''TRACEFENCE_MAX_REQUEST_BYTES must be at least 1024''"

definition rate_errors :: "settings \<Rightarrow> string list" where
  "rate_errors S =
    complain (between 1 (rate_limit_per_minute S) 100000)
      ''TRACEFENCE_RATE_LIMIT_PER_MINUTE must be between 1 and 100000'' @
    complain (between 1 (proof_rate_limit_per_minute S) (rate_limit_per_minute S))
      ''TRACEFENCE_PROOF_RATE_LIMIT_PER_MINUTE must be positive and no greater than TRACEFENCE_RATE_LIMIT_PER_MINUTE'' @
    complain (between 1 (heartbeat_rate_limit_per_minute S) 100000)
      ''TRACEFENCE_HEARTBEAT_RATE_LIMIT_PER_MINUTE must be between 1 and 100000'' @
    complain (between 1 (action_rate_limit_per_minute S) 100000)
      ''TRACEFENCE_ACTION_RATE_LIMIT_PER_MINUTE must be between 1 and 100000'' @
    complain (between 1 (spawn_rate_limit_per_minute S) 100000)
      ''TRACEFENCE_SPAWN_RATE_LIMIT_PER_MINUTE must be between 1 and 100000'' @
    complain (between 1 (activation_rate_limit_per_minute S) 100000)
      ''TRACEFENCE_ACTIVATION_RATE_LIMIT_PER_MINUTE must be between 1 and 100000'' @
    complain (between 1 (command_rate_limit_per_minute S) 100000)
      ''TRACEFENCE_COMMAND_RATE_LIMIT_PER_MINUTE must be between 1 and 100000'' @
    complain (between 1 (operator_read_rate_limit_per_minute S) 100000)
      ''TRACEFENCE_OPERATOR_READ_RATE_LIMIT_PER_MINUTE must be between 1 and 100000'' @
    complain (between 100 (rate_limit_max_buckets S) 1000000)
      ''TRACEFENCE_RATE_LIMIT_MAX_BUCKETS must be between 100 and 1000000'' @
    complain (0 < otel_metric_export_interval_ms S)
      ''TRACEFENCE_OTEL_METRIC_EXPORT_INTERVAL_MS must be positive'' @
    complain (0 < otel_export_timeout_ms S)
      ''TRACEFENCE_OTEL_EXPORT_TIMEOUT_MS must be positive''"

definition validate_security :: "string \<Rightarrow> string \<Rightarrow> settings \<Rightarrow> string + unit" where
  "validate_security local_secret local_recovery S =
    (let errors = secret_errors local_secret local_recovery S @ runtime_errors S @
                  quota_errors S @ rate_errors S
     in if errors = [] then Inr () else Inl (join ''; '' errors))"

lemma complain_Nil [simp]: "complain ok msg = [] \<longleftrightarrow> ok"
  by (simp add: complain_def)

lemma validate_security_returns [outcome]:
  "validate_security l r S = Inr u \<longleftrightarrow>
     secret_errors l r S = [] \<and> runtime_errors S = [] \<and> quota_errors S = [] \<and> rate_errors S = []"
  by (auto simp: validate_security_def Let_def)

text \<open>The secrets of an accepted configuration are long, and three of them are told apart.\<close>

lemma accepted_secrets:
  assumes "secret_errors l r S = []"
  shows "24 \<le> length (operator_key S)" and "32 \<le> length (token_hash_secret S)"
    and "32 \<le> length (credential_recovery_key S)" and "32 \<le> length (evidence_signing_key S)"
    and "distinct [credential_recovery_key S, evidence_signing_key S, operator_key S]"
    and "token_hash_secret S \<notin> {credential_recovery_key S, evidence_signing_key S}"
    and "\<not> allow_insecure_dev S \<Longrightarrow> token_hash_secret S \<noteq> l \<and> credential_recovery_key S \<noteq> r"
  using assms by (auto simp: secret_errors_def split: if_splits)

lemma accepted_runtime:
  assumes "runtime_errors S = []"
  shows "0 < heartbeat_interval_seconds S" and "heartbeat_interval_seconds S < lease_ttl_seconds S"
    and "5 \<le> spawn_intent_ttl_seconds S" and "5 \<le> credential_recovery_ttl_seconds S"
    and "0 < control_convergence_slo_seconds S"
  using assms by (auto simp: runtime_errors_def between_def)

lemma accepted_quotas:
  assumes "quota_errors S = []"
  shows "1 \<le> max_active_runs S" and "1 \<le> max_graph_depth S"
    and "1 \<le> max_children_per_node S" and "max_children_per_node S < max_nodes_per_run S"
    and "1 \<le> max_commands_per_run S" and "1 \<le> max_actions_per_run S"
    and "1 \<le> max_proposals_per_run S"
  using assms by (auto simp: quota_errors_def between_def)

end
