(* ===== verification/Domain.thy ===== *)
theory Domain
  imports Config
begin

text \<open>
  \<open>domain/enums.py\<close>, \<open>domain/errors.py\<close> and \<open>security.py\<close>: the status alphabets with the
  text each member is stored as, the errors a handler can raise, and the digests and token
  checks.  The human-readable message of an error is not modelled; its code and status are.
  The cryptographic primitives (SHA-256, HMAC-SHA256, AES-GCM) and the sequence of drawn UUIDs
  are fields of the environment record, so every theorem holds for whatever they compute.
\<close>

section \<open>Enumerations\<close>

datatype run_status = Run_Created | Run_Running | Run_Completed | Run_Cancelled | Run_Failed

datatype node_status =
    Node_Pending | Node_Active | Node_Waiting | Node_Completed | Node_Cancelled
  | Node_Superseded | Node_Lease_Expired

datatype scope_status = Scope_Active | Scope_Cancelled | Scope_Superseded

datatype command_type = Cancel_Run | Cancel_Subtree | Correct_Subtree

datatype replacement_status =
    Repl_Pending | Repl_Activation_Expired | Repl_Active | Repl_Completed | Repl_Failed

datatype proposal_type = Prop_Cancel | Prop_Correct

datatype proposal_status = Prop_Pending | Prop_Accepted | Prop_Rejected

datatype issuer_type = Human | Agent

datatype action_decision = Allow | Deny

datatype ack_type = Ack_Cooperative | Ack_Gateway_Block | Ack_Lease_Expired

datatype proof_verdict =
    Verified | State_Changed_During_Proof | Incomplete | Partial | Inconsistent
  | Unavailable | Not_Applicable

fun run_status_value :: "run_status \<Rightarrow> string" where
  "run_status_value Run_Created = ''CREATED''"
| "run_status_value Run_Running = ''RUNNING''"
| "run_status_value Run_Completed = ''COMPLETED''"
| "run_status_value Run_Cancelled = ''CANCELLED''"
| "run_status_value Run_Failed = ''FAILED''"

fun node_status_value :: "node_status \<Rightarrow> string" where
  "node_status_value Node_Pending = ''PENDING''"
| "node_status_value Node_Active = ''ACTIVE''"
| "node_status_value Node_Waiting = ''WAITING''"
| "node_status_value Node_Completed = ''COMPLETED''"
| "node_status_value Node_Cancelled = ''CANCELLED''"
| "node_status_value Node_Superseded = ''SUPERSEDED''"
| "node_status_value Node_Lease_Expired = ''LEASE_EXPIRED''"

fun scope_status_value :: "scope_status \<Rightarrow> string" where
  "scope_status_value Scope_Active = ''ACTIVE''"
| "scope_status_value Scope_Cancelled = ''CANCELLED''"
| "scope_status_value Scope_Superseded = ''SUPERSEDED''"

fun command_type_value :: "command_type \<Rightarrow> string" where
  "command_type_value Cancel_Run = ''CANCEL_RUN''"
| "command_type_value Cancel_Subtree = ''CANCEL_SUBTREE''"
| "command_type_value Correct_Subtree = ''CORRECT_SUBTREE''"

fun replacement_status_value :: "replacement_status \<Rightarrow> string" where
  "replacement_status_value Repl_Pending = ''PENDING''"
| "replacement_status_value Repl_Activation_Expired = ''ACTIVATION_EXPIRED''"
| "replacement_status_value Repl_Active = ''ACTIVE''"
| "replacement_status_value Repl_Completed = ''COMPLETED''"
| "replacement_status_value Repl_Failed = ''FAILED''"

fun proposal_type_value :: "proposal_type \<Rightarrow> string" where
  "proposal_type_value Prop_Cancel = ''CANCEL''"
| "proposal_type_value Prop_Correct = ''CORRECT''"

fun action_decision_value :: "action_decision \<Rightarrow> string" where
  "action_decision_value Allow = ''ALLOW''"
| "action_decision_value Deny = ''DENY''"

fun proof_verdict_value :: "proof_verdict \<Rightarrow> string" where
  "proof_verdict_value Verified = ''VERIFIED''"
| "proof_verdict_value State_Changed_During_Proof = ''STATE_CHANGED_DURING_PROOF''"
| "proof_verdict_value Incomplete = ''INCOMPLETE''"
| "proof_verdict_value Partial = ''PARTIAL''"
| "proof_verdict_value Inconsistent = ''INCONSISTENT''"
| "proof_verdict_value Unavailable = ''UNAVAILABLE''"
| "proof_verdict_value Not_Applicable = ''NOT_APPLICABLE''"

section \<open>Errors\<close>

text \<open>
  \<open>TraceFenceError\<close> with its code and HTTP status; any other Python exception that leaves a
  handler (a pydantic \<open>ValidationError\<close>, a \<open>RuntimeError\<close>) by its class name.
\<close>

datatype error = TraceFenceError (err_code: string) (err_status: int) | PyException string

definition authentication_error :: error where
  "authentication_error = TraceFenceError ''AUTHENTICATION_FAILED'' 401"

definition authorization_error :: error where
  "authorization_error = TraceFenceError ''AUTHORIZATION_FAILED'' 403"

definition not_found_error :: error where
  "not_found_error = TraceFenceError ''NOT_FOUND'' 404"

definition conflict_error :: "string \<Rightarrow> error" where
  "conflict_error code = TraceFenceError code 409"

definition service_unavailable_error :: "string \<Rightarrow> error" where
  "service_unavailable_error code = TraceFenceError code 503"

definition rate_limit_error :: "string \<Rightarrow> error" where
  "rate_limit_error category =
     TraceFenceError (map upper_char category @ ''_RATE_LIMIT_EXCEEDED'') 429"

section \<open>The environment of a service\<close>

text \<open>
  Besides the settings: the primitives, and the UUIDs.  Every \<open>uuid4()\<close> of the services names
  one new row of one table, and rows are never deleted, so \<open>uuid E t n\<close> is the identifier
  drawn for the row that becomes number \<open>n\<close> of table \<open>t\<close>.
\<close>

record env = settings +
  sha256 :: "string \<Rightarrow> string"
  hmac_sha256 :: "string \<Rightarrow> string \<Rightarrow> string"
  aes_encrypt :: "string \<Rightarrow> string \<Rightarrow> string \<Rightarrow> string \<Rightarrow> string"
  aes_decrypt :: "string \<Rightarrow> string \<Rightarrow> string \<Rightarrow> string \<Rightarrow> string option"
  uuid :: "string \<Rightarrow> nat \<Rightarrow> ident"

section \<open>Digests and tokens\<close>

definition hash_token :: "env \<Rightarrow> string \<Rightarrow> string" where
  "hash_token E token = hmac_sha256 E (token_hash_secret E) token"

definition token_matches :: "env \<Rightarrow> string \<Rightarrow> string option \<Rightarrow> bool" where
  "token_matches E token expected_hash =
     (case expected_hash of None \<Rightarrow> False | Some h \<Rightarrow> hash_token E token = h)"

definition operator_fingerprint :: "env \<Rightarrow> string \<Rightarrow> string" where
  "operator_fingerprint E key =
     ''human:'' @ take 24 (hmac_sha256 E (token_hash_secret E) key)"

definition operator_key_matches :: "env \<Rightarrow> string option \<Rightarrow> bool" where
  "operator_key_matches E candidate =
     (case candidate of None \<Rightarrow> False
      | Some c \<Rightarrow> operator_key E \<noteq> [] \<and> c = operator_key E)"

definition payload_digest :: "env \<Rightarrow> json \<Rightarrow> string" where
  "payload_digest E payload = sha256 E (dumps payload)"

lemma token_matches_None [simp]: "\<not> token_matches E token None"
  by (simp add: token_matches_def)

lemma token_matches_hash [simp]: "token_matches E token (Some (hash_token E token))"
  by (simp add: token_matches_def)

lemma operator_key_unset: "operator_key E = [] \<Longrightarrow> \<not> operator_key_matches E candidate"
  by (simp add: operator_key_matches_def split: option.split)

text \<open>Equal dictionaries have equal digests, whatever the order they were built in.\<close>

lemma payload_digest_field_order:
  assumes "distinct (map fst kvs)" and "set kvs = set kvs'" and "distinct (map fst kvs')"
  shows "payload_digest E (JObj kvs) = payload_digest E (JObj kvs')"
  unfolding payload_digest_def by (simp only: dumps_field_order [OF assms])

lemma run_status_value_inject [simp]: "run_status_value a = run_status_value b \<longleftrightarrow> a = b"
  by (cases a; cases b) simp_all

lemma node_status_value_inject [simp]: "node_status_value a = node_status_value b \<longleftrightarrow> a = b"
  by (cases a; cases b) simp_all

lemma scope_status_value_inject [simp]: "scope_status_value a = scope_status_value b \<longleftrightarrow> a = b"
  by (cases a; cases b) simp_all

end
