(* ===== verification/Schemas.thy ===== *)
theory Schemas
  imports Domain
begin

text \<open>
  \<open>domain/schemas.py\<close>: the request and response models, their validators, and the recovery
  contract and replacement manifest with the JSON form in which a command stores them.  A
  pydantic model is a record, its \<open>Field\<close> bounds and \<open>model_validator\<close>s are a predicate or a
  normalising function that fails with \<open>ValidationError\<close>; \<open>model_dump\<close> is a function to JSON and
  \<open>model_validate\<close> of a stored manifest is a function from JSON (unknown keys refused, defaults
  filled in, the declared types required exactly).
\<close>

type_synonym fields = "(string \<times> json) list"

definition validation_error :: error where
  "validation_error = PyException ''ValidationError''"

definition len_ok :: "nat \<Rightarrow> string \<Rightarrow> nat \<Rightarrow> bool" where
  "len_ok lo s hi \<longleftrightarrow> lo \<le> length s \<and> length s \<le> hi"

definition allowed_capabilities :: "string set" where
  "allowed_capabilities =
    {''control:descendants'', ''tool:read_metrics'', ''tool:propose_correction'',
     ''tool:restart_postgres'', ''tool:reset_redis_pool''}"

definition canonical_capabilities :: "string list \<Rightarrow> error + string list" where
  "canonical_capabilities values =
    andthen (require (distinct values) validation_error) (\<lambda>_.
    andthen (require (set values \<subseteq> allowed_capabilities) validation_error) (\<lambda>_.
    Inr (sort values)))"

lemma canonical_capabilities_returns [outcome]:
  "canonical_capabilities vs = Inr ws \<longleftrightarrow>
     distinct vs \<and> set vs \<subseteq> allowed_capabilities \<and> ws = sort vs"
  by (auto simp: canonical_capabilities_def outcome)

lemma canonical_capabilities_idem:
  "canonical_capabilities vs = Inr ws \<Longrightarrow> canonical_capabilities ws = Inr ws"
  by (auto simp: outcome sorted_sort_id)

section \<open>Requests\<close>

record run_create =
  rc_name :: string
  rc_root_role :: string
  rc_root_instruction :: fields
  rc_root_capabilities :: "string list"

definition validate_run_create :: "run_create \<Rightarrow> error + run_create" where
  "validate_run_create r =
    andthen (require (len_ok 1 (rc_name r) 120 \<and> len_ok 1 (rc_root_role r) 80 \<and>
      length (rc_root_capabilities r) \<le> 32) validation_error) (\<lambda>_.
    andthen (canonical_capabilities (rc_root_capabilities r)) (\<lambda>caps.
    Inr (r\<lparr>rc_root_capabilities := caps\<rparr>)))"

record spawn_create =
  sp_operation_key :: "string option"
  sp_role :: string
  sp_instruction :: fields
  sp_capabilities :: "string list"
  sp_behavior :: string

definition behaviors :: "string set" where
  "behaviors = {''cooperative'', ''non_compliant''}"

definition opt_ok :: "('a \<Rightarrow> bool) \<Rightarrow> 'a option \<Rightarrow> bool" where
  "opt_ok p v = (case v of None \<Rightarrow> True | Some x \<Rightarrow> p x)"

definition validate_spawn_create :: "spawn_create \<Rightarrow> error + spawn_create" where
  "validate_spawn_create r =
    andthen (require (opt_ok (\<lambda>k. len_ok 4 k 160) (sp_operation_key r) \<and>
      len_ok 1 (sp_role r) 80 \<and> length (sp_capabilities r) \<le> 32 \<and>
      sp_behavior r \<in> behaviors) validation_error) (\<lambda>_.
    andthen (canonical_capabilities (sp_capabilities r)) (\<lambda>caps.
    Inr (r\<lparr>sp_capabilities := caps\<rparr>)))"

record spawn_created =
  scd_child_node_id :: ident
  scd_activation_token :: string
  scd_expires_at :: time
  scd_trace_context :: "(string \<times> string) list"

record node_activate =
  na_operation_key :: "string option"
  na_activation_token :: string
  na_process_id :: "int option"

record node_activated =
  nad_node_id :: ident
  nad_run_id :: ident
  nad_role :: string
  nad_node_token :: string
  nad_lease_expires_at :: time

record checkpoint_response =
  cr_allowed :: bool
  cr_effective_status :: node_status
  cr_command_id :: "ident option"
  cr_reason_code :: "string option"

record proposal_create =
  pc_target_node_id :: ident
  pc_proposal_type :: proposal_type
  pc_reason :: string
  pc_evidence :: fields

text \<open>
  The command body an operator authorises.  \<open>CommandCreate\<close> has the same fields with the replay
  key and the source proposal in front; \<open>validate_command_body\<close> is the shape check both share.
\<close>

record command_body =
  cb_command_type :: command_type
  cb_target_node_id :: ident
  cb_reason_code :: string
  cb_reason_text :: string
  cb_replacement_instruction :: "fields option"
  cb_replacement_expected_tool :: "string option"
  cb_replacement_role :: "string option"
  cb_replacement_behavior :: "string option"
  cb_replacement_capabilities :: "string list option"
  cb_replacement_arguments :: "fields option"
  cb_replacement_max_children :: "int option"
  cb_recovery_stability_seconds :: int

definition body_fields_ok :: "command_body \<Rightarrow> bool" where
  "body_fields_ok b \<longleftrightarrow>
     len_ok 1 (cb_reason_code b) 80 \<and> len_ok 1 (cb_reason_text b) 1000 \<and>
     opt_ok (\<lambda>s. len_ok 1 s 100) (cb_replacement_expected_tool b) \<and>
     opt_ok (\<lambda>s. len_ok 1 s 80) (cb_replacement_role b) \<and>
     opt_ok (\<lambda>s. len_ok 1 s 80) (cb_replacement_behavior b) \<and>
     opt_ok (\<lambda>cs. length cs \<le> 32) (cb_replacement_capabilities b) \<and>
     opt_ok (\<lambda>n. between 0 n 32) (cb_replacement_max_children b) \<and>
     between 0 (cb_recovery_stability_seconds b) 300"

definition replacement_fields_absent :: "command_body \<Rightarrow> bool" where
  "replacement_fields_absent b \<longleftrightarrow>
     cb_replacement_instruction b = None \<and> cb_replacement_expected_tool b = None \<and>
     cb_replacement_role b = None \<and> cb_replacement_behavior b = None \<and>
     cb_replacement_capabilities b = None \<and> cb_replacement_arguments b = None \<and>
     cb_replacement_max_children b = None \<and> cb_recovery_stability_seconds b = 0"

definition body_shape_ok :: "command_body \<Rightarrow> bool" where
  "body_shape_ok b \<longleftrightarrow>
     (if cb_command_type b = Correct_Subtree then cb_replacement_instruction b \<noteq> None
      else replacement_fields_absent b)"

definition validate_command_authorization :: "command_body \<Rightarrow> error + command_body" where
  "validate_command_authorization b =
    andthen (require (body_fields_ok b) validation_error) (\<lambda>_.
    andthen (require (cb_command_type b \<noteq> Cancel_Run) validation_error) (\<lambda>_.
    andthen (require (body_shape_ok b) validation_error) (\<lambda>_.
    case cb_replacement_capabilities b of
      None \<Rightarrow> Inr b
    | Some caps \<Rightarrow>
        andthen (canonical_capabilities caps) (\<lambda>caps'.
        Inr (b\<lparr>cb_replacement_capabilities := Some caps'\<rparr>)))))"

record proposal_review =
  pr_status :: proposal_status
  pr_authorized_command :: "command_body option"

definition validate_proposal_review :: "proposal_review \<Rightarrow> error + proposal_review" where
  "validate_proposal_review r =
    andthen (case pr_authorized_command r of
               None \<Rightarrow> Inr None
             | Some b \<Rightarrow> andthen (validate_command_authorization b) (\<lambda>b'. Inr (Some b'))) (\<lambda>auth.
    andthen (require (pr_status r \<in> {Prop_Accepted, Prop_Rejected}) validation_error) (\<lambda>_.
    andthen (require (\<not> (pr_status r = Prop_Accepted \<and> auth = None)) validation_error) (\<lambda>_.
    andthen (require (\<not> (pr_status r = Prop_Rejected \<and> auth \<noteq> None)) validation_error) (\<lambda>_.
    Inr (r\<lparr>pr_authorized_command := auth\<rparr>)))))"

record command_create =
  cc_idempotency_key :: string
  cc_source_proposal_id :: "ident option"
  cc_body :: command_body

definition validate_command_create :: "command_create \<Rightarrow> error + command_create" where
  "validate_command_create r =
    andthen (require (len_ok 4 (cc_idempotency_key r) 160 \<and> body_fields_ok (cc_body r))
      validation_error) (\<lambda>_.
    andthen (require (body_shape_ok (cc_body r)) validation_error) (\<lambda>_. Inr r))"

definition body_fields :: "command_body \<Rightarrow> fields" where
  "body_fields b =
    [(''command_type'', JStr (command_type_value (cb_command_type b))),
     (''target_node_id'', JStr (cb_target_node_id b)),
     (''reason_code'', JStr (cb_reason_code b)),
     (''reason_text'', JStr (cb_reason_text b)),
     (''replacement_instruction'', jopt JObj (cb_replacement_instruction b)),
     (''replacement_expected_tool'', jopt JStr (cb_replacement_expected_tool b)),
     (''replacement_role'', jopt JStr (cb_replacement_role b)),
     (''replacement_behavior'', jopt JStr (cb_replacement_behavior b)),
     (''replacement_capabilities'', jopt (\<lambda>cs. JArr (map JStr cs)) (cb_replacement_capabilities b)),
     (''replacement_arguments'', jopt JObj (cb_replacement_arguments b)),
     (''replacement_max_children'', jopt JInt (cb_replacement_max_children b)),
     (''recovery_stability_seconds'', JInt (cb_recovery_stability_seconds b))]"

definition command_create_json :: "command_create \<Rightarrow> json" where
  "command_create_json r =
    JObj ([(''idempotency_key'', JStr (cc_idempotency_key r))] @
          take 1 (body_fields (cc_body r)) @
          [(''source_proposal_id'', jopt JStr (cc_source_proposal_id r))] @
          drop 1 (body_fields (cc_body r)))"

definition command_authorization_payload :: "command_create \<Rightarrow> error + json" where
  "command_authorization_payload r =
    andthen (validate_command_authorization (cc_body r)) (\<lambda>b. Inr (JObj (body_fields b)))"

record action_execute =
  ae_idempotency_key :: string
  ae_tool_name :: string
  ae_arguments :: fields

definition action_execute_json :: "action_execute \<Rightarrow> json" where
  "action_execute_json r =
    JObj [(''idempotency_key'', JStr (ae_idempotency_key r)),
          (''tool_name'', JStr (ae_tool_name r)),
          (''arguments'', JObj (ae_arguments r))]"

record action_result =
  ar_action_id :: ident
  ar_decision :: action_decision
  ar_denial_reason :: "string option"
  ar_committed :: bool
  ar_result :: "json option"
  ar_duplicate :: bool

record principal =
  pl_issuer_type :: issuer_type
  pl_node_id :: "ident option"
  pl_principal_id :: "ident option"

section \<open>Recovery contract and replacement manifest\<close>

record recovery_postcondition =
  pcd_service_name :: string
  pcd_field :: string
  pcd_operator :: string
  pcd_expected :: json
  pcd_require_recovery_action :: bool

record recovery_contract =
  ct_schema_version :: int
  ct_expected_tool :: "string option"
  ct_expected_arguments_digest :: string
  ct_allowed_environment :: string
  ct_allowed_resources :: "string list"
  ct_max_committed_invocations :: int
  ct_stability_window_seconds :: int
  ct_postconditions :: "recovery_postcondition list"

record replacement_manifest =
  mf_schema_version :: int
  mf_policy_version :: string
  mf_role :: string
  mf_behavior :: string
  mf_instruction_digest :: string
  mf_instruction_version :: int
  mf_capabilities_exact :: "string list"
  mf_max_children :: int
  mf_recovery_contract :: recovery_contract

definition hex64 :: "string \<Rightarrow> bool" where
  "hex64 s \<longleftrightarrow> length s = 64 \<and> set s \<subseteq> set ''0123456789abcdef''"

definition postcondition_ok :: "recovery_postcondition \<Rightarrow> bool" where
  "postcondition_ok p \<longleftrightarrow>
     len_ok 1 (pcd_service_name p) 80 \<and>
     pcd_field p \<in> {''status'', ''restart_count'', ''pool_reset_count''} \<and>
     pcd_operator p = ''equals''"

definition contract_ok :: "recovery_contract \<Rightarrow> bool" where
  "contract_ok c \<longleftrightarrow>
     ct_schema_version c = 1 \<and>
     opt_ok (\<lambda>t. length t \<le> 100) (ct_expected_tool c) \<and>
     hex64 (ct_expected_arguments_digest c) \<and>
     len_ok 1 (ct_allowed_environment c) 80 \<and>
     length (ct_allowed_resources c) \<le> 32 \<and>
     between 0 (ct_max_committed_invocations c) 16 \<and>
     between 0 (ct_stability_window_seconds c) 300 \<and>
     length (ct_postconditions c) \<le> 32 \<and>
     list_all postcondition_ok (ct_postconditions c) \<and>
     distinct (ct_allowed_resources c) \<and> sorted (ct_allowed_resources c) \<and>
     (if ct_expected_tool c = None
      then ct_max_committed_invocations c = 0 \<and> ct_postconditions c = [] \<and>
           ct_allowed_resources c = []
      else 1 \<le> ct_max_committed_invocations c)"

definition manifest_ok :: "replacement_manifest \<Rightarrow> bool" where
  "manifest_ok m \<longleftrightarrow>
     mf_schema_version m = 1 \<and>
     mf_policy_version m = ''tracefence-replacement-v1'' \<and>
     len_ok 1 (mf_role m) 80 \<and>
     mf_behavior m = ''cooperative'' \<and>
     hex64 (mf_instruction_digest m) \<and>
     1 \<le> mf_instruction_version m \<and>
     length (mf_capabilities_exact m) \<le> 32 \<and>
     between 0 (mf_max_children m) 32 \<and>
     contract_ok (mf_recovery_contract m) \<and>
     distinct (mf_capabilities_exact m) \<and> sorted (mf_capabilities_exact m) \<and>
     (ct_expected_tool (mf_recovery_contract m) = None \<longrightarrow> mf_capabilities_exact m = [])"

definition postcondition_json :: "recovery_postcondition \<Rightarrow> json" where
  "postcondition_json p =
    JObj [(''service_name'', JStr (pcd_service_name p)), (''field'', JStr (pcd_field p)),
          (''operator'', JStr (pcd_operator p)), (''expected'', pcd_expected p),
          (''require_recovery_action'', JBool (pcd_require_recovery_action p))]"

definition contract_json :: "recovery_contract \<Rightarrow> json" where
  "contract_json c =
    JObj [(''schema_version'', JInt (ct_schema_version c)),
          (''expected_tool'', jopt JStr (ct_expected_tool c)),
          (''expected_arguments_digest'', JStr (ct_expected_arguments_digest c)),
          (''allowed_environment'', JStr (ct_allowed_environment c)),
          (''allowed_resources'', JArr (map JStr (ct_allowed_resources c))),
          (''max_committed_invocations'', JInt (ct_max_committed_invocations c)),
          (''stability_window_seconds'', JInt (ct_stability_window_seconds c)),
          (''postconditions'', JArr (map postcondition_json (ct_postconditions c)))]"

definition manifest_json :: "replacement_manifest \<Rightarrow> json" where
  "manifest_json m =
    JObj [(''schema_version'', JInt (mf_schema_version m)),
          (''policy_version'', JStr (mf_policy_version m)),
          (''role'', JStr (mf_role m)),
          (''behavior'', JStr (mf_behavior m)),
          (''instruction_digest'', JStr (mf_instruction_digest m)),
          (''instruction_version'', JInt (mf_instruction_version m)),
          (''capabilities_exact'', JArr (map JStr (mf_capabilities_exact m))),
          (''max_children'', JInt (mf_max_children m)),
          (''recovery_contract'', contract_json (mf_recovery_contract m))]"

section \<open>Reading a stored manifest\<close>

fun as_str :: "json \<Rightarrow> string option" where
  "as_str (JStr s) = Some s" | "as_str _ = None"

fun as_int :: "json \<Rightarrow> int option" where
  "as_int (JInt i) = Some i" | "as_int _ = None"

fun as_bool :: "json \<Rightarrow> bool option" where
  "as_bool (JBool b) = Some b" | "as_bool _ = None"

fun as_opt_str :: "json \<Rightarrow> string option option" where
  "as_opt_str JNull = Some None"
| "as_opt_str (JStr s) = Some (Some s)"
| "as_opt_str _ = None"

fun all_some :: "'a option list \<Rightarrow> 'a list option" where
  "all_some [] = Some []"
| "all_some (None # xs) = None"
| "all_some (Some x # xs) = map_option (Cons x) (all_some xs)"

fun as_list :: "(json \<Rightarrow> 'a option) \<Rightarrow> json \<Rightarrow> 'a list option" where
  "as_list f (JArr xs) = all_some (map f xs)" | "as_list f _ = None"

text \<open>A field that must be present, and one with a default.\<close>

definition needed :: "(json \<Rightarrow> 'a option) \<Rightarrow> string \<Rightarrow> json \<Rightarrow> 'a option" where
  "needed f k j = Option.bind (field k j) f"

definition defaulted :: "'a \<Rightarrow> (json \<Rightarrow> 'a option) \<Rightarrow> string \<Rightarrow> json \<Rightarrow> 'a option" where
  "defaulted d f k j = (case field k j of None \<Rightarrow> Some d | Some v \<Rightarrow> f v)"

fun only_keys :: "string list \<Rightarrow> json \<Rightarrow> bool" where
  "only_keys ks (JObj kvs) = (set (map fst kvs) \<subseteq> set ks)" | "only_keys ks _ = False"

definition postcondition_of_json :: "json \<Rightarrow> recovery_postcondition option" where
  "postcondition_of_json j =
    (if \<not> only_keys [''service_name'', ''field'', ''operator'', ''expected'',
                     ''require_recovery_action''] j then None
     else
       Option.bind (needed as_str ''service_name'' j) (\<lambda>s.
       Option.bind (needed as_str ''field'' j) (\<lambda>f.
       Option.bind (defaulted ''equals'' as_str ''operator'' j) (\<lambda>p.
       Option.bind (needed Some ''expected'' j) (\<lambda>x.
       Option.bind (defaulted True as_bool ''require_recovery_action'' j) (\<lambda>r.
       let c = \<lparr>pcd_service_name = s, pcd_field = f, pcd_operator = p, pcd_expected = x,
                pcd_require_recovery_action = r\<rparr>
       in if postcondition_ok c then Some c else None))))))"

definition contract_of_json :: "json \<Rightarrow> recovery_contract option" where
  "contract_of_json j =
    (if \<not> only_keys [''schema_version'', ''expected_tool'', ''expected_arguments_digest'',
                     ''allowed_environment'', ''allowed_resources'',
                     ''max_committed_invocations'', ''stability_window_seconds'',
                     ''postconditions''] j then None
     else
       Option.bind (defaulted 1 as_int ''schema_version'' j) (\<lambda>v.
       Option.bind (defaulted None as_opt_str ''expected_tool'' j) (\<lambda>t.
       Option.bind (needed as_str ''expected_arguments_digest'' j) (\<lambda>d.
       Option.bind (needed as_str ''allowed_environment'' j) (\<lambda>e.
       Option.bind (defaulted [] (as_list as_str) ''allowed_resources'' j) (\<lambda>r.
       Option.bind (needed as_int ''max_committed_invocations'' j) (\<lambda>m.
       Option.bind (needed as_int ''stability_window_seconds'' j) (\<lambda>w.
       Option.bind (defaulted [] (as_list postcondition_of_json) ''postconditions'' j) (\<lambda>ps.
       let c = \<lparr>ct_schema_version = v, ct_expected_tool = t, ct_expected_arguments_digest = d,
                ct_allowed_environment = e, ct_allowed_resources = r,
                ct_max_committed_invocations = m, ct_stability_window_seconds = w,
                ct_postconditions = ps\<rparr>
       in if contract_ok c then Some c else None)))))))))"

definition manifest_of_json :: "json \<Rightarrow> replacement_manifest option" where
  "manifest_of_json j =
    (if \<not> only_keys [''schema_version'', ''policy_version'', ''role'', ''behavior'',
                     ''instruction_digest'', ''instruction_version'', ''capabilities_exact'',
                     ''max_children'', ''recovery_contract''] j then None
     else
       Option.bind (defaulted 1 as_int ''schema_version'' j) (\<lambda>v.
       Option.bind (needed as_str ''policy_version'' j) (\<lambda>p.
       Option.bind (needed as_str ''role'' j) (\<lambda>r.
       Option.bind (needed as_str ''behavior'' j) (\<lambda>b.
       Option.bind (needed as_str ''instruction_digest'' j) (\<lambda>d.
       Option.bind (needed as_int ''instruction_version'' j) (\<lambda>iv.
       Option.bind (defaulted [] (as_list as_str) ''capabilities_exact'' j) (\<lambda>cs.
       Option.bind (needed as_int ''max_children'' j) (\<lambda>mc.
       Option.bind (needed contract_of_json ''recovery_contract'' j) (\<lambda>c.
       let m = \<lparr>mf_schema_version = v, mf_policy_version = p, mf_role = r, mf_behavior = b,
                mf_instruction_digest = d, mf_instruction_version = iv,
                mf_capabilities_exact = cs, mf_max_children = mc, mf_recovery_contract = c\<rparr>
       in if manifest_ok m then Some m else None))))))))))"

lemma all_some_map:
  "(\<And>x. x \<in> set xs \<Longrightarrow> f (g x) = Some x) \<Longrightarrow> all_some (map (f \<circ> g) xs) = Some xs"
  by (induction xs) auto

lemma as_list_str [simp]: "as_list as_str (JArr (map JStr xs)) = Some xs"
  by (simp add: all_some_map)

lemma as_opt_str_jopt [simp]: "as_opt_str (jopt JStr t) = Some t"
  by (cases t) (simp_all add: jopt_def)

lemma postcondition_roundtrip:
  "postcondition_ok p \<Longrightarrow> postcondition_of_json (postcondition_json p) = Some p"
  by (cases p) (simp add: postcondition_of_json_def postcondition_json_def needed_def defaulted_def field_def
      Let_def)

lemma contract_roundtrip: "contract_ok c \<Longrightarrow> contract_of_json (contract_json c) = Some c"
proof -
  assume ok: "contract_ok c"
  have ps: "as_list postcondition_of_json (JArr (map postcondition_json (ct_postconditions c)))
     = Some (ct_postconditions c)"
    using ok by (auto simp: contract_ok_def list_all_iff intro!: all_some_map postcondition_roundtrip)
  show ?thesis
    using ok ps
    by (cases c) (simp add: contract_of_json_def contract_json_def needed_def defaulted_def field_def Let_def
        del: as_list.simps)
qed

lemma contract_of_json_ok: "contract_of_json j = Some c \<Longrightarrow> contract_ok c"
  by (auto simp: contract_of_json_def Let_def split: if_splits Option.bind_splits)

lemma manifest_of_json_ok: "manifest_of_json j = Some m \<Longrightarrow> manifest_ok m"
  by (auto simp: manifest_of_json_def Let_def split: if_splits Option.bind_splits)

lemma manifest_roundtrip': "manifest_ok m \<Longrightarrow> manifest_of_json (manifest_json m) = Some m"
proof -
  assume ok: "manifest_ok m"
  then have c: "contract_of_json (contract_json (mf_recovery_contract m)) =
      Some (mf_recovery_contract m)"
    by (simp add: manifest_ok_def contract_roundtrip)
  show ?thesis
    using ok c
    by (cases m) (simp add: manifest_of_json_def manifest_json_def needed_def defaulted_def field_def Let_def
        del: as_list.simps)
qed

end
