(* ===== verification/Models.thy ===== *)
theory Models
  imports Schemas
begin

text \<open>
  \<open>db/models.py\<close>: one record per table, with a field per column, and the database as the
  record of its tables.  A table is the list of its rows in insertion order; a JSON column is a
  \<open>json\<close> value (or \<open>fields\<close> when the code always stores a dictionary), the scope snapshot is the
  list of its (scope, version) pairs.  The \<open>CheckConstraint\<close>s of a table are a predicate on its
  rows; the foreign keys are in \<open>Integrity\<close>, the unique constraints and the column types, as the schema
  guard reads them, in \<open>Schema_Shape\<close>.
\<close>

section \<open>Tables\<close>

record run =
  r_id :: ident
  r_name :: string
  r_status :: run_status
  r_root_node_id :: ident
  r_run_scope_id :: ident
  r_created_at :: time
  r_finished_at :: "time option"
  r_proof_revision :: int

record node =
  n_id :: ident
  n_run_id :: ident
  n_parent_id :: "ident option"
  n_supersedes_node_id :: "ident option"
  n_caused_by_command_id :: "ident option"
  n_role :: string
  n_behavior :: string
  n_generation :: int
  n_lineage_path :: string
  n_status :: node_status
  n_own_scope_id :: ident
  n_scope_snapshot :: "(ident \<times> int) list"
  n_instruction_version :: int
  n_instruction :: fields
  n_capabilities :: "string list"
  n_token_hash :: "string option"
  n_registered_at :: time
  n_activated_at :: "time option"
  n_completed_at :: "time option"
  n_last_heartbeat_at :: "time option"
  n_lease_expires_at :: "time option"
  n_process_id :: "int option"

record control_scope =
  sc_id :: ident
  sc_run_id :: ident
  sc_owner_node_id :: "ident option"
  sc_version :: int
  sc_status :: scope_status
  sc_updated_by_node_id :: "ident option"
  sc_reason_code :: "string option"
  sc_updated_at :: time

record spawn_intent =
  si_id :: ident
  si_run_id :: ident
  si_parent_node_id :: ident
  si_child_node_id :: ident
  si_activation_token_hash :: string
  si_requested_role :: string
  si_instruction :: fields
  si_requested_capabilities :: "string list"
  si_trace_context :: "(string \<times> string) list"
  si_expires_at :: time
  si_consumed_at :: "time option"

record envelope =
  cre_id :: ident
  cre_run_id :: ident
  cre_operation_type :: string
  cre_caller_node_id :: ident
  cre_subject_node_id :: ident
  cre_operation_key :: string
  cre_request_payload_digest :: string
  cre_nonce :: string
  cre_ciphertext :: string
  cre_expires_at :: time
  cre_created_at :: time
  cre_updated_at :: time

record proposal =
  p_id :: ident
  p_run_id :: ident
  p_reporter_node_id :: ident
  p_target_node_id :: ident
  p_proposal_type :: proposal_type
  p_evidence :: fields
  p_reason :: string
  p_status :: proposal_status
  p_reviewed_by_node_id :: "ident option"
  p_reviewed_by_principal :: "string option"
  p_accepted_payload_digest :: "string option"
  p_authorized_command :: "json option"
  p_authorized_command_digest :: "string option"
  p_resulting_command_id :: "ident option"
  p_reviewed_at :: "time option"
  p_created_at :: time

record command =
  c_id :: ident
  c_idempotency_key :: string
  c_issuer_fingerprint :: string
  c_request_payload_digest :: string
  c_run_id :: ident
  c_issuer_node_id :: "ident option"
  c_issuer_type :: issuer_type
  c_command_type :: command_type
  c_source_proposal_id :: "ident option"
  c_target_node_id :: ident
  c_target_scope_id :: ident
  c_from_version :: int
  c_to_version :: int
  c_reason_code :: string
  c_reason_text :: string
  c_replacement_parent_id :: "ident option"
  c_replacement_instruction :: "fields option"
  c_replacement_expected_tool :: "string option"
  c_replacement_manifest :: "json option"
  c_replacement_manifest_digest :: "string option"
  c_replacement_node_id :: "ident option"
  c_replacement_status :: "replacement_status option"
  c_created_at :: time

record acknowledgement =
  k_id :: ident
  k_run_id :: ident
  k_command_id :: ident
  k_node_id :: ident
  k_ack_type :: ack_type
  k_observed_at :: time
  k_observed_scope_version :: int

record action =
  a_id :: ident
  a_run_id :: ident
  a_node_id :: ident
  a_tool_name :: string
  a_side_effecting :: bool
  a_idempotency_key :: string
  a_decision :: action_decision
  a_denial_reason :: "string option"
  a_matched_command_id :: "ident option"
  a_matched_scope_id :: "ident option"
  a_matched_snapshot_version :: "int option"
  a_matched_live_version :: "int option"
  a_matched_live_status :: "scope_status option"
  a_scope_evaluation :: json
  a_decision_explanation :: json
  a_request_payload_digest :: string
  a_arguments :: fields
  a_arguments_digest :: string
  a_result :: "json option"
  a_result_digest :: "string option"
  a_attempted_at :: time
  a_committed_at :: "time option"

record action_match =
  m_run_id :: ident
  m_action_id :: ident
  m_command_id :: ident
  m_scope_id :: ident
  m_snapshot_version :: int
  m_live_version :: int
  m_live_status :: scope_status

record violation =
  v_id :: ident
  v_run_id :: ident
  v_command_id :: ident
  v_action_id :: ident
  v_violation_type :: string
  v_details :: json
  v_detected_at :: time

record outbox_row =
  o_id :: ident
  o_event_key :: string
  o_run_id :: ident
  o_event_type :: string
  o_payload :: json
  o_created_at :: time
  o_delivered_at :: "time option"
  o_attempts :: int
  o_last_error :: "string option"
  o_last_attempt_at :: "time option"
  o_next_attempt_at :: "time option"
  o_claim_owner :: "string option"
  o_claim_expires_at :: "time option"

record service_state =
  sv_run_id :: ident
  sv_service_name :: string
  sv_status :: string
  sv_restart_count :: int
  sv_pool_reset_count :: int
  sv_last_action_id :: "ident option"
  sv_updated_at :: time

record runtime_event =
  e_sequence :: int
  e_run_id :: ident
  e_event_type :: string
  e_occurred_at :: time
  e_node_id :: "ident option"
  e_parent_node_id :: "ident option"
  e_command_id :: "ident option"
  e_action_id :: "ident option"
  e_scope_id :: "ident option"
  e_decision :: "action_decision option"
  e_reason_code :: "string option"
  e_snapshot_version :: "int option"
  e_authoritative_version :: "int option"
  e_metadata :: json

record db =
  db_runs :: "run list"
  db_nodes :: "node list"
  db_scopes :: "control_scope list"
  db_intents :: "spawn_intent list"
  db_envelopes :: "envelope list"
  db_proposals :: "proposal list"
  db_commands :: "command list"
  db_acks :: "acknowledgement list"
  db_actions :: "action list"
  db_matches :: "action_match list"
  db_violations :: "violation list"
  db_outbox :: "outbox_row list"
  db_services :: "service_state list"
  db_events :: "runtime_event list"

definition empty_db :: db where
  "empty_db = \<lparr>db_runs = [], db_nodes = [], db_scopes = [], db_intents = [], db_envelopes = [],
     db_proposals = [], db_commands = [], db_acks = [], db_actions = [], db_matches = [],
     db_violations = [], db_outbox = [], db_services = [], db_events = []\<rparr>"

interpretation run_table: table db_runs db_runs_update r_id by unfold_locales simp
interpretation node_table: table db_nodes db_nodes_update n_id by unfold_locales simp
interpretation scope_table: table db_scopes db_scopes_update sc_id by unfold_locales simp
interpretation command_table: table db_commands db_commands_update c_id by unfold_locales simp
interpretation proposal_table: table db_proposals db_proposals_update p_id by unfold_locales simp
interpretation intent_table: table db_intents db_intents_update si_child_node_id
  by unfold_locales simp
interpretation service_table: table db_services db_services_update
  "\<lambda>s. (sv_run_id s, sv_service_name s)" by unfold_locales simp

section \<open>Row access\<close>

text \<open>\<open>session.get\<close> on each table, and the update of one row.\<close>

definition get_run_row :: "ident \<Rightarrow> db \<Rightarrow> run option" where
  "get_run_row k d = lookup r_id k (db_runs d)"

definition get_node_row :: "ident \<Rightarrow> db \<Rightarrow> node option" where
  "get_node_row k d = lookup n_id k (db_nodes d)"

definition get_scope_row :: "ident \<Rightarrow> db \<Rightarrow> control_scope option" where
  "get_scope_row k d = lookup sc_id k (db_scopes d)"

definition get_command_row :: "ident \<Rightarrow> db \<Rightarrow> command option" where
  "get_command_row k d = lookup c_id k (db_commands d)"

definition get_proposal_row :: "ident \<Rightarrow> db \<Rightarrow> proposal option" where
  "get_proposal_row k d = lookup p_id k (db_proposals d)"

definition intent_of_child :: "ident \<Rightarrow> db \<Rightarrow> spawn_intent option" where
  "intent_of_child k d = lookup si_child_node_id k (db_intents d)"

definition update_run :: "ident \<Rightarrow> (run \<Rightarrow> run) \<Rightarrow> db \<Rightarrow> db" where
  "update_run k f d = db_runs_update (revise r_id k f) d"

definition update_node :: "ident \<Rightarrow> (node \<Rightarrow> node) \<Rightarrow> db \<Rightarrow> db" where
  "update_node k f d = db_nodes_update (revise n_id k f) d"

definition update_scope :: "ident \<Rightarrow> (control_scope \<Rightarrow> control_scope) \<Rightarrow> db \<Rightarrow> db" where
  "update_scope k f d = db_scopes_update (revise sc_id k f) d"

definition update_command :: "ident \<Rightarrow> (command \<Rightarrow> command) \<Rightarrow> db \<Rightarrow> db" where
  "update_command k f d = db_commands_update (revise c_id k f) d"

definition update_proposal :: "ident \<Rightarrow> (proposal \<Rightarrow> proposal) \<Rightarrow> db \<Rightarrow> db" where
  "update_proposal k f d = db_proposals_update (revise p_id k f) d"

definition update_intent :: "ident \<Rightarrow> (spawn_intent \<Rightarrow> spawn_intent) \<Rightarrow> db \<Rightarrow> db" where
  "update_intent k f d = db_intents_update (revise si_id k f) d"

lemmas row_update_defs = update_run_def update_node_def update_scope_def update_command_def
  update_proposal_def update_intent_def

lemmas row_get_defs = get_run_row_def get_node_row_def get_scope_row_def get_command_row_def
  get_proposal_row_def intent_of_child_def

section \<open>Constraints\<close>

definition terminal_run_states :: "run_status set" where
  "terminal_run_states = {Run_Completed, Run_Cancelled, Run_Failed}"

definition run_check :: "run \<Rightarrow> bool" where
  "run_check r \<longleftrightarrow>
     (r_status r \<in> terminal_run_states \<and> r_finished_at r \<noteq> None) \<or>
     (r_status r \<in> {Run_Created, Run_Running} \<and> r_finished_at r = None)"

definition node_check :: "node \<Rightarrow> bool" where
  "node_check n \<longleftrightarrow>
     n_behavior n \<in> behaviors \<and> 0 \<le> n_generation n \<and> 1 \<le> n_instruction_version n \<and>
     ((n_generation n = 0 \<and> n_parent_id n = None) \<or>
      (0 < n_generation n \<and> n_parent_id n \<noteq> None)) \<and>
     (n_status n \<notin> {Node_Active, Node_Waiting, Node_Completed} \<or> n_activated_at n \<noteq> None) \<and>
     (n_status n \<noteq> Node_Completed \<or> n_completed_at n \<noteq> None)"

definition scope_check :: "control_scope \<Rightarrow> bool" where
  "scope_check s \<longleftrightarrow> 1 \<le> sc_version s"

definition proposal_check :: "proposal \<Rightarrow> bool" where
  "proposal_check p \<longleftrightarrow>
     (p_status p = Prop_Pending \<and> p_reviewed_at p = None \<and> p_reviewed_by_principal p = None \<and>
      p_accepted_payload_digest p = None \<and> p_authorized_command p = None \<and>
      p_authorized_command_digest p = None \<and> p_resulting_command_id p = None) \<or>
     (p_status p \<in> {Prop_Accepted, Prop_Rejected} \<and> p_reviewed_at p \<noteq> None \<and>
      p_reviewed_by_principal p \<noteq> None \<and> p_accepted_payload_digest p \<noteq> None \<and>
      ((p_status p = Prop_Accepted \<and> p_authorized_command p \<noteq> None \<and>
        p_authorized_command_digest p \<noteq> None) \<or>
       (p_status p = Prop_Rejected \<and> p_authorized_command p = None \<and>
        p_authorized_command_digest p = None \<and> p_resulting_command_id p = None)))"

definition command_check :: "command \<Rightarrow> bool" where
  "command_check c \<longleftrightarrow>
     c_to_version c = c_from_version c + 1 \<and>
     ((c_issuer_type c = Human \<and> c_issuer_node_id c = None) \<or>
      (c_issuer_type c = Agent \<and> c_issuer_node_id c \<noteq> None)) \<and>
     ((c_command_type c = Correct_Subtree \<and> c_replacement_parent_id c \<noteq> None \<and>
       c_replacement_instruction c \<noteq> None \<and> c_replacement_manifest c \<noteq> None \<and>
       c_replacement_manifest_digest c \<noteq> None \<and> c_replacement_status c \<noteq> None) \<or>
      (c_command_type c \<noteq> Correct_Subtree \<and> c_replacement_parent_id c = None \<and>
       c_replacement_instruction c = None \<and> c_replacement_expected_tool c = None \<and>
       c_replacement_manifest c = None \<and> c_replacement_manifest_digest c = None \<and>
       c_replacement_node_id c = None \<and> c_replacement_status c = None))"

definition ack_check :: "acknowledgement \<Rightarrow> bool" where
  "ack_check k \<longleftrightarrow> 1 \<le> k_observed_scope_version k"

definition action_check :: "action \<Rightarrow> bool" where
  "action_check a \<longleftrightarrow>
     ((a_decision a = Deny \<and> a_denial_reason a \<noteq> None \<and> a_committed_at a = None \<and>
       a_result a = None \<and> a_result_digest a = None) \<or>
      (a_decision a = Allow \<and> a_denial_reason a = None \<and> a_committed_at a \<noteq> None \<and>
       a_result a \<noteq> None \<and> a_result_digest a \<noteq> None)) \<and>
     ((a_matched_command_id a = None \<and> a_matched_scope_id a = None \<and>
       a_matched_snapshot_version a = None \<and> a_matched_live_version a = None \<and>
       a_matched_live_status a = None) \<or>
      (a_matched_command_id a \<noteq> None \<and> a_matched_scope_id a \<noteq> None \<and>
       a_matched_snapshot_version a \<noteq> None \<and> a_matched_live_version a \<noteq> None \<and>
       a_matched_live_status a \<noteq> None))"

definition match_check :: "action_match \<Rightarrow> bool" where
  "match_check m \<longleftrightarrow> 1 \<le> m_snapshot_version m \<and> 1 \<le> m_live_version m"

definition violation_check :: "violation \<Rightarrow> bool" where
  "violation_check v \<longleftrightarrow> v_violation_type v = ''STALE_ACTION_COMMITTED''"

definition outbox_check :: "outbox_row \<Rightarrow> bool" where
  "outbox_check o' \<longleftrightarrow>
     0 \<le> o_attempts o' \<and>
     o_event_type o' = ''tracefence.stale_action_committed'' \<and>
     (o_delivered_at o' = None \<or> (1 \<le> o_attempts o' \<and> o_last_error o' = None)) \<and>
     ((o_claim_owner o' = None \<and> o_claim_expires_at o' = None) \<or>
      (o_claim_owner o' \<noteq> None \<and> o_claim_expires_at o' \<noteq> None))"

definition service_check :: "service_state \<Rightarrow> bool" where
  "service_check s \<longleftrightarrow>
     0 \<le> sv_restart_count s \<and> 0 \<le> sv_pool_reset_count s \<and>
     sv_status s \<in> {''healthy'', ''degraded'', ''connection_pool_exhausted''}"

definition event_types :: "string set" where
  "event_types =
    {''RUN_CREATED'', ''NODE_REGISTERED'', ''NODE_ACTIVATED'', ''NODE_WAITING'',
     ''NODE_COMPLETED'', ''LEASE_GRANTED'', ''LEASE_RENEWED'', ''LEASE_EXPIRED'',
     ''COMMAND_ISSUED'', ''SCOPE_CANCELLED'', ''SCOPE_SUPERSEDED'',
     ''ACTION_REQUESTED'', ''ACTION_DENIED'', ''ACTION_COMMITTED'',
     ''REPLACEMENT_CREATED'', ''RECOVERY_COMPLETED'', ''DEMO_WORKER_RELEASED''}"

definition event_check :: "runtime_event \<Rightarrow> bool" where
  "event_check e \<longleftrightarrow>
     e_event_type e \<in> event_types \<and>
     opt_ok (\<lambda>v. 1 \<le> v) (e_snapshot_version e) \<and>
     opt_ok (\<lambda>v. 1 \<le> v) (e_authoritative_version e)"

definition checks_ok :: "db \<Rightarrow> bool" where
  "checks_ok d \<longleftrightarrow>
     list_all run_check (db_runs d) \<and> list_all node_check (db_nodes d) \<and>
     list_all scope_check (db_scopes d) \<and> list_all proposal_check (db_proposals d) \<and>
     list_all command_check (db_commands d) \<and> list_all ack_check (db_acks d) \<and>
     list_all action_check (db_actions d) \<and> list_all match_check (db_matches d) \<and>
     list_all violation_check (db_violations d) \<and> list_all outbox_check (db_outbox d) \<and>
     list_all service_check (db_services d) \<and> list_all event_check (db_events d)"

lemma checks_ok_empty: "checks_ok empty_db"
  by (simp add: checks_ok_def empty_db_def)

lemma list_all_revise:
  assumes "list_all p rows" and "\<And>r. p r \<Longrightarrow> key r = k \<Longrightarrow> p (f r)"
  shows "list_all p (revise key k f rows)"
  using assms by (induction rows) auto

section \<open>Runtime events\<close>

text \<open>
  \<open>runtime_events.py\<close>.  The \<open>sequence\<close> column is an autoincrement primary key of a table from
  which nothing is ever deleted (the two triggers abort it): the next value is the row count plus
  one.  The defaulted columns of a row are those of \<open>blank_event\<close>.
\<close>

definition blank_event :: "ident \<Rightarrow> string \<Rightarrow> time \<Rightarrow> runtime_event" where
  "blank_event run_id event_type occurred_at =
    \<lparr>e_sequence = 0, e_run_id = run_id, e_event_type = event_type, e_occurred_at = occurred_at,
     e_node_id = None, e_parent_node_id = None, e_command_id = None, e_action_id = None,
     e_scope_id = None, e_decision = None, e_reason_code = None, e_snapshot_version = None,
     e_authoritative_version = None, e_metadata = JObj []\<rparr>"

definition record_runtime_event :: "runtime_event \<Rightarrow> db \<Rightarrow> db" where
  "record_runtime_event e d =
     db_events_update (\<lambda>es. es @ [e\<lparr>e_sequence := int (length es) + 1\<rparr>]) d"

definition event_sequence_ok :: "db \<Rightarrow> bool" where
  "event_sequence_ok d \<longleftrightarrow> map e_sequence (db_events d) = map (\<lambda>i. int i + 1) [0..<length (db_events d)]"

lemma record_runtime_event_sequence:
  "event_sequence_ok d \<Longrightarrow> event_sequence_ok (record_runtime_event e d)"
  by (simp add: event_sequence_ok_def record_runtime_event_def)

lemma record_runtime_event_tables [simp]:
  "db_runs (record_runtime_event e d) = db_runs d"
  "db_nodes (record_runtime_event e d) = db_nodes d"
  "db_scopes (record_runtime_event e d) = db_scopes d"
  "db_intents (record_runtime_event e d) = db_intents d"
  "db_envelopes (record_runtime_event e d) = db_envelopes d"
  "db_proposals (record_runtime_event e d) = db_proposals d"
  "db_commands (record_runtime_event e d) = db_commands d"
  "db_acks (record_runtime_event e d) = db_acks d"
  "db_actions (record_runtime_event e d) = db_actions d"
  "db_matches (record_runtime_event e d) = db_matches d"
  "db_violations (record_runtime_event e d) = db_violations d"
  "db_outbox (record_runtime_event e d) = db_outbox d"
  "db_services (record_runtime_event e d) = db_services d"
  by (simp_all add: record_runtime_event_def)

lemma events_record_runtime_event:
  "db_events (record_runtime_event e d) =
     db_events d @ [e\<lparr>e_sequence := int (length (db_events d)) + 1\<rparr>]"
  by (simp add: record_runtime_event_def)

end
