(* ===== verification/RateLimits.thy ===== *)
theory RateLimits
  imports Models Complex_Main
begin

text \<open>
  \<open>rate_limits.py\<close>: the process-local limiter.  The ordered dictionary of buckets is a list of
  (key, deque) pairs, least recently used first; a deque is the list of admission times, oldest
  first, and \<open>time.monotonic()\<close> is a rational number of seconds.  The limiter's state is not part
  of the database: an exception rolls the transaction back but not the limiter, so a check
  returns its new state next to its outcome.
\<close>

type_synonym limiter = "(string \<times> rat list) list"

definition category_limits :: "env \<Rightarrow> string \<Rightarrow> int option" where
  "category_limits E = map_of
    [(''heartbeat'', heartbeat_rate_limit_per_minute E),
     (''action'', action_rate_limit_per_minute E),
     (''spawn'', spawn_rate_limit_per_minute E),
     (''activation'', activation_rate_limit_per_minute E),
     (''command'', command_rate_limit_per_minute E),
     (''proof'', proof_rate_limit_per_minute E),
     (''operator_read'', operator_read_rate_limit_per_minute E)]"

text \<open>The sliding window of one bucket: forget what is at least 60 seconds old, then admit.\<close>

definition prune_bucket :: "rat \<Rightarrow> rat list \<Rightarrow> rat list" where
  "prune_bucket now bucket = dropWhile (\<lambda>t. t \<le> now - 60) bucket"

definition admit :: "int \<Rightarrow> rat \<Rightarrow> rat list \<Rightarrow> bool \<times> rat list" where
  "admit limit now bucket =
    (let b = prune_bucket now bucket
     in if limit \<le> int (length b) then (False, b) else (True, b @ [now]))"

definition evict :: "int \<Rightarrow> limiter \<Rightarrow> error + limiter" where
  "evict max_buckets L =
    (if max_buckets \<le> int (length L)
     then (case L of [] \<Rightarrow> Inl (PyException ''KeyError'') | _ # rest \<Rightarrow> Inr rest)
     else Inr L)"

definition limiter_check ::
    "(string \<Rightarrow> int option) \<Rightarrow> int \<Rightarrow> string \<Rightarrow> string \<Rightarrow> rat \<Rightarrow> limiter \<Rightarrow> (error + unit) \<times> limiter"
where
  "limiter_check limits max_buckets category identity now L =
    (case limits category of
       None \<Rightarrow> (Inl (PyException ''KeyError''), L)
     | Some limit \<Rightarrow>
         (let key = category @ '':'' @ identity;
              opened = (case map_of L key of
                          None \<Rightarrow> andthen (evict max_buckets L) (\<lambda>rest. Inr ([], rest))
                        | Some bucket \<Rightarrow> Inr (bucket, filter (\<lambda>(k, _). k \<noteq> key) L))
          in case opened of
               Inl e \<Rightarrow> (Inl e, L)
             | Inr (bucket, rest) \<Rightarrow>
                 (case admit limit now bucket of
                    (ok, bucket') \<Rightarrow>
                      (if ok then Inr () else Inl (rate_limit_error category),
                       rest @ [(key, bucket')]))))"

section \<open>The dictionary stays bounded and well formed\<close>

definition limiter_ok :: "int \<Rightarrow> limiter \<Rightarrow> bool" where
  "limiter_ok max_buckets L \<longleftrightarrow> distinct (map fst L) \<and> int (length L) \<le> max_buckets"

lemma length_filter_key:
  assumes "map_of L k = Some b"
  shows "length (filter (\<lambda>(k', _). k' \<noteq> k) L) < length L"
proof -
  have "(k, b) \<in> set L" using assms by (rule map_of_SomeD)
  then show ?thesis by (intro length_filter_less) auto
qed

lemma limiter_check_ok:
  assumes ok: "limiter_ok m L" and pos: "1 \<le> m"
  shows "limiter_ok m (snd (limiter_check limits m category identity now L))"
proof (cases "limits category")
  case None
  then show ?thesis using ok by (simp add: limiter_check_def)
next
  case (Some limit)
  let ?key = "category @ '':'' @ identity"
  show ?thesis
  proof (cases "map_of L ?key")
    case None
    then have fresh: "?key \<notin> fst ` set L" by (simp add: map_of_eq_None_iff)
    have "evict m L \<noteq> Inl e" for e
      using pos by (auto simp: evict_def split: list.splits)
    moreover have "distinct (map fst r) \<and> int (length r) < m \<and> set r \<subseteq> set L"
      if "evict m L = Inr r" for r
      using that ok pos
      by (auto simp: evict_def limiter_ok_def split: if_splits list.splits)
    ultimately show ?thesis
      using Some None fresh ok
      by (cases "evict m L"; auto simp: limiter_check_def limiter_ok_def split: prod.splits)
  next
    case (Some b)
    have "distinct (map fst (filter (\<lambda>(k, _). k \<noteq> ?key) L))"
      using ok by (auto simp: limiter_ok_def distinct_map_filter)
    moreover have "length (filter (\<lambda>(k, _). k \<noteq> ?key) L) < length L"
      using Some by (rule length_filter_key)
    ultimately show ?thesis
      using \<open>limits category = Some limit\<close> Some ok
      by (cases "admit limit now b")
        (auto simp: limiter_check_def limiter_ok_def Let_def)
  qed
qed

text \<open>A check only moves its own key; every other bucket that survives keeps its times.\<close>

lemma limiter_check_other_bucket:
  assumes "k \<noteq> category @ '':'' @ identity"
    and "map_of (snd (limiter_check limits m category identity now L)) k = Some b"
    and "distinct (map fst L)"
  shows "map_of L k = Some b"
proof -
  have tl: "map_of rest k = Some b \<Longrightarrow> L = x # rest \<Longrightarrow> map_of L k = Some b" for x rest
    using assms(3) by (cases x) (auto dest: map_of_SomeD simp: rev_image_eqI)
  have flt: "map_of (filter (\<lambda>(k', _). k' \<noteq> c) L) k = Some b \<Longrightarrow> map_of L k = Some b" for c
    using assms(3) by (auto dest!: map_of_SomeD intro!: map_of_is_SomeI)
  show ?thesis
    using assms(1,2) tl flt
    by (auto simp: limiter_check_def Let_def evict_def map_add_def
        split: option.splits prod.splits sum.splits if_splits list.splits)
qed

section \<open>The window bound\<close>

text \<open>
  The requests of one key at times \<open>ts\<close>, and the times at which it was admitted.
\<close>

fun admissions :: "int \<Rightarrow> rat list \<Rightarrow> rat list \<Rightarrow> rat list" where
  "admissions limit bucket [] = []"
| "admissions limit bucket (t # ts) =
     (case admit limit t bucket of
        (ok, bucket') \<Rightarrow> (if ok then [t] else []) @ admissions limit bucket' ts)"

definition in_window :: "rat \<Rightarrow> rat \<Rightarrow> bool" where
  "in_window w t \<longleftrightarrow> w - 60 < t \<and> t \<le> w"

lemma dropWhile_le_filter:
  "sorted (xs :: rat list) \<Longrightarrow> dropWhile (\<lambda>t. t \<le> c) xs = filter (\<lambda>t. c < t) xs"
proof (induction xs)
  case (Cons x xs)
  show ?case
  proof (cases "x \<le> c")
    case True
    then show ?thesis using Cons by simp
  next
    case False
    then have "\<forall>y \<in> set xs. c < y" using Cons.prems by force
    then show ?thesis using False by (simp add: filter_id_conv)
  qed
qed simp

lemma filter_window_prune:
  assumes "now \<le> w"
  shows "length (filter (in_window w) h) \<le> length (filter (\<lambda>t. now - 60 < t) h)"
  using assms by (induction h) (auto simp: in_window_def)

text \<open>
  The history \<open>h\<close> of admissions so far and the deque agree on everything that is recent at the
  prev request, and no window over the history holds more than the limit.
\<close>

definition window_inv :: "int \<Rightarrow> rat \<Rightarrow> rat list \<Rightarrow> rat list \<Rightarrow> bool" where
  "window_inv limit prev h bucket \<longleftrightarrow>
     sorted h \<and> (\<forall>t \<in> set h. t \<le> prev) \<and> bucket = filter (\<lambda>t. prev - 60 < t) h \<and>
     (\<forall>w. int (length (filter (in_window w) h)) \<le> max limit 0)"

lemma admit_window:
  assumes inv: "window_inv limit prev h bucket" and le: "prev \<le> now"
    and step: "admit limit now bucket = (ok, bucket')"
  shows "window_inv limit now (h @ (if ok then [now] else [])) bucket'"
proof -
  have srt: "sorted h" and old: "\<forall>t \<in> set h. t \<le> prev"
    and b: "bucket = filter (\<lambda>t. prev - 60 < t) h"
    using inv by (auto simp: window_inv_def)
  have pruned: "prune_bucket now bucket = filter (\<lambda>t. now - 60 < t) h"
  proof -
    have "sorted bucket" unfolding b using srt sorted_filter [of "\<lambda>t. t" h] by simp
    then have "prune_bucket now bucket = filter (\<lambda>t. now - 60 < t) bucket"
      by (simp add: prune_bucket_def dropWhile_le_filter)
    also have "\<dots> = filter (\<lambda>t. now - 60 < t) h"
      unfolding b by (auto simp: filter_filter intro!: filter_cong) (use le in linarith)
    finally show ?thesis .
  qed
  have old': "\<forall>t \<in> set h. t \<le> now" using old le by auto
  show ?thesis
  proof (cases ok)
    case False
    then show ?thesis
      using step inv srt old' pruned
      by (auto simp: admit_def Let_def window_inv_def split: if_splits)
  next
    case True
    then have few: "int (length (filter (\<lambda>t. now - 60 < t) h)) < limit"
      and b': "bucket' = filter (\<lambda>t. now - 60 < t) h @ [now]"
      using step pruned by (auto simp: admit_def Let_def split: if_splits)
    have "int (length (filter (in_window w) (h @ [now]))) \<le> max limit 0" for w
    proof (cases "in_window w now")
      case True
      then have "now \<le> w" by (simp add: in_window_def)
      from filter_window_prune [OF this, of h] few show ?thesis
        using True by simp
    next
      case False
      then show ?thesis using inv by (simp add: window_inv_def)
    qed
    then show ?thesis
      using True srt old' b' by (simp add: window_inv_def sorted_append)
  qed
qed

lemma admissions_window:
  assumes "window_inv limit prev h bucket" and "sorted (prev # ts)"
  shows "int (length (filter (in_window w) (h @ admissions limit bucket ts))) \<le> max limit 0"
  using assms
proof (induction ts arbitrary: prev h bucket)
  case Nil
  then show ?case by (simp add: window_inv_def)
next
  case (Cons t ts)
  obtain ok bucket' where a: "admit limit t bucket = (ok, bucket')"
    by (cases "admit limit t bucket")
  have "window_inv limit t (h @ (if ok then [t] else [])) bucket'"
    using Cons.prems a by (intro admit_window [where prev = prev]) auto
  moreover have "sorted (t # ts)" using Cons.prems(2) by simp
  ultimately have "int (length (filter (in_window w)
      ((h @ (if ok then [t] else [])) @ admissions limit bucket' ts))) \<le> max limit 0"
    by (rule Cons.IH)
  then show ?case using a by simp
qed

lemma window_inv_empty: "window_inv limit prev [] []"
  by (simp add: window_inv_def)

end
