(* ===== verification/Scopes.thy ===== *)
theory Scopes
  imports Models
begin

text \<open>
  \<open>services/common.py\<close>: the scope evaluation every admission rests on, the liveness check of a
  node, the two walks over the authoritative parent links, and the attribution of scope
  mismatches to commands.
\<close>

section \<open>Row access with errors\<close>

definition get_run :: "ident \<Rightarrow> db \<Rightarrow> error + run" where
  "get_run run_id d = demand (get_run_row run_id d) not_found_error"

definition get_node :: "ident \<Rightarrow> db \<Rightarrow> error + node" where
  "get_node node_id d = demand (get_node_row node_id d) not_found_error"

definition authenticate_node :: "env \<Rightarrow> ident \<Rightarrow> string \<Rightarrow> db \<Rightarrow> error + node" where
  "authenticate_node E node_id token d =
    andthen (get_node node_id d) (\<lambda>node.
    andthen (require (token_matches E token (n_token_hash node)) authentication_error) (\<lambda>_.
    Inr node))"

lemma get_run_returns [outcome]: "get_run k d = Inr r \<longleftrightarrow> get_run_row k d = Some r"
  by (simp add: get_run_def outcome)

lemma get_node_returns [outcome]: "get_node k d = Inr n \<longleftrightarrow> get_node_row k d = Some n"
  by (simp add: get_node_def outcome)

lemma authenticate_node_returns [outcome]:
  "authenticate_node E k token d = Inr n \<longleftrightarrow>
     get_node_row k d = Some n \<and> token_matches E token (n_token_hash n)"
  by (auto simp: authenticate_node_def outcome)

lemma get_node_row_id: "get_node_row k d = Some n \<Longrightarrow> n_id n = k"
  by (auto simp: get_node_row_def dest: lookup_SomeD)

lemma get_node_row_in: "get_node_row k d = Some n \<Longrightarrow> n \<in> set (db_nodes d)"
  by (auto simp: get_node_row_def dest: lookup_SomeD)

lemma get_run_row_id: "get_run_row k d = Some r \<Longrightarrow> r_id r = k"
  by (auto simp: get_run_row_def dest: lookup_SomeD)

section \<open>Scope evaluation\<close>

record scope_mismatch =
  mm_scope_id :: ident
  mm_snapshot_version :: int
  mm_live_version :: "int option"
  mm_live_status :: "scope_status option"
  mm_reason_code :: string

record scope_evaluation =
  se_allowed :: bool
  se_effective_status :: node_status
  se_mismatches :: "scope_mismatch list"
  se_live_scopes :: "(ident \<times> int \<times> scope_status) list"

definition primary_reason :: "scope_evaluation \<Rightarrow> string option" where
  "primary_reason ev =
    (case se_mismatches ev of [] \<Rightarrow> None | m # _ \<Rightarrow> Some (mm_reason_code m))"

definition live_scope :: "db \<Rightarrow> ident \<Rightarrow> ident \<Rightarrow> control_scope option" where
  "live_scope d run_id scope_id =
    List.find (\<lambda>s. sc_id s = scope_id \<and> sc_run_id s = run_id) (db_scopes d)"

text \<open>What one snapshot entry contributes: nothing when it is current, else one mismatch.\<close>

definition entry_mismatch :: "db \<Rightarrow> ident \<Rightarrow> ident \<times> int \<Rightarrow> scope_mismatch option" where
  "entry_mismatch d run_id entry =
    (case entry of (sid, v) \<Rightarrow>
      (case live_scope d run_id sid of
         None \<Rightarrow> Some \<lparr>mm_scope_id = sid, mm_snapshot_version = v, mm_live_version = None,
                      mm_live_status = None, mm_reason_code = ''SCOPE_NOT_FOUND''\<rparr>
       | Some live \<Rightarrow>
           (let mismatch = (\<lambda>reason. Some
                  \<lparr>mm_scope_id = sid, mm_snapshot_version = v,
                   mm_live_version = Some (sc_version live),
                   mm_live_status = Some (sc_status live), mm_reason_code = reason\<rparr>)
            in if sc_status live = Scope_Cancelled then mismatch ''SCOPE_CANCELLED''
               else if sc_status live = Scope_Superseded then mismatch ''SCOPE_SUPERSEDED''
               else if sc_version live \<noteq> v then mismatch ''SCOPE_VERSION_MISMATCH''
               else None)))"

text \<open>How a mismatch moves the effective status accumulated so far.\<close>

definition entry_status :: "node_status \<Rightarrow> scope_mismatch option \<Rightarrow> node_status" where
  "entry_status eff mm =
    (case mm of
       None \<Rightarrow> eff
     | Some m \<Rightarrow>
         if mm_live_status m = None \<or> mm_live_status m = Some Scope_Cancelled
         then Node_Cancelled
         else if mm_live_status m = Some Scope_Superseded
         then (if eff \<noteq> Node_Cancelled then Node_Superseded else eff)
         else (if eff = Node_Active then Node_Superseded else eff))"

definition live_payload :: "db \<Rightarrow> ident \<Rightarrow> ident \<times> int \<Rightarrow> (ident \<times> int \<times> scope_status) list" where
  "live_payload d run_id entry =
    (case live_scope d run_id (fst entry) of
       None \<Rightarrow> [] | Some s \<Rightarrow> [(sc_id s, sc_version s, sc_status s)])"

fun scan_snapshot ::
    "db \<Rightarrow> ident \<Rightarrow> (ident \<times> int) list \<Rightarrow> scope_evaluation \<Rightarrow> scope_evaluation" where
  "scan_snapshot d run_id [] acc = acc"
| "scan_snapshot d run_id (entry # rest) acc =
     (let mm = entry_mismatch d run_id entry
      in scan_snapshot d run_id rest
           (acc\<lparr>se_effective_status := entry_status (se_effective_status acc) mm,
                se_mismatches := se_mismatches acc @ (case mm of None \<Rightarrow> [] | Some m \<Rightarrow> [m]),
                se_live_scopes := se_live_scopes acc @ live_payload d run_id entry\<rparr>))"

definition evaluate_scopes :: "db \<Rightarrow> node \<Rightarrow> scope_evaluation" where
  "evaluate_scopes d node =
    (if n_scope_snapshot node = []
     then \<lparr>se_allowed = False, se_effective_status = Node_Cancelled, se_mismatches = [],
           se_live_scopes = []\<rparr>
     else
       (let acc = scan_snapshot d (n_run_id node) (n_scope_snapshot node)
              \<lparr>se_allowed = False, se_effective_status = Node_Active, se_mismatches = [],
               se_live_scopes = []\<rparr>
        in acc\<lparr>se_allowed := (se_mismatches acc = [])\<rparr>))"

lemma scan_snapshot_mismatches:
  "se_mismatches (scan_snapshot d rid snap acc) =
     se_mismatches acc @ List.map_filter (entry_mismatch d rid) snap"
  by (induction snap arbitrary: acc)
    (auto simp: List.map_filter_simps Let_def split: option.split)

lemma scan_snapshot_status:
  "se_effective_status (scan_snapshot d rid snap acc) =
     foldl entry_status (se_effective_status acc) (map (entry_mismatch d rid) snap)"
  by (induction snap arbitrary: acc) (auto simp: Let_def)

lemma evaluate_mismatches:
  "se_mismatches (evaluate_scopes d n) =
     List.map_filter (entry_mismatch d (n_run_id n)) (n_scope_snapshot n)"
  by (auto simp: evaluate_scopes_def Let_def scan_snapshot_mismatches List.map_filter_simps)

text \<open>A snapshot entry is current: the live scope exists, is active and has the snapshot's version.\<close>

definition entry_current :: "db \<Rightarrow> ident \<Rightarrow> ident \<times> int \<Rightarrow> bool" where
  "entry_current d run_id entry \<longleftrightarrow>
    (\<exists>s. live_scope d run_id (fst entry) = Some s \<and> sc_status s = Scope_Active \<and>
         sc_version s = snd entry)"

lemma entry_mismatch_None_iff: "entry_mismatch d rid entry = None \<longleftrightarrow> entry_current d rid entry"
  by (cases entry)
    (auto simp: entry_mismatch_def entry_current_def Let_def
      intro: scope_status.exhaust split: option.splits if_splits)

lemma map_filter_empty_iff: "List.map_filter f xs = [] \<longleftrightarrow> (\<forall>x \<in> set xs. f x = None)"
  by (induction xs) (auto simp: List.map_filter_simps split: option.split)

lemma in_map_filter: "y \<in> set (List.map_filter f xs) \<longleftrightarrow> (\<exists>x \<in> set xs. f x = Some y)"
  by (induction xs) (auto simp: List.map_filter_simps split: option.split)

lemma evaluate_allowed_iff:
  "se_allowed (evaluate_scopes d n) \<longleftrightarrow>
     n_scope_snapshot n \<noteq> [] \<and> (\<forall>e \<in> set (n_scope_snapshot n). entry_current d (n_run_id n) e)"
proof (cases "n_scope_snapshot n = []")
  case False
  then have "se_allowed (evaluate_scopes d n) \<longleftrightarrow> se_mismatches (evaluate_scopes d n) = []"
    by (simp add: evaluate_scopes_def Let_def)
  then show ?thesis
    using False by (simp add: evaluate_mismatches map_filter_empty_iff entry_mismatch_None_iff)
qed (simp add: evaluate_scopes_def)

lemma evaluate_denied_reason:
  "\<not> se_allowed (evaluate_scopes d n) \<Longrightarrow> n_scope_snapshot n \<noteq> [] \<Longrightarrow>
   \<exists>m. primary_reason (evaluate_scopes d n) = Some (mm_reason_code m) \<and>
       m \<in> set (se_mismatches (evaluate_scopes d n))"
  by (auto simp: evaluate_scopes_def Let_def primary_reason_def split: list.splits)

definition scope_reasons :: "string set" where
  "scope_reasons =
    {''SCOPE_NOT_FOUND'', ''SCOPE_CANCELLED'', ''SCOPE_SUPERSEDED'', ''SCOPE_VERSION_MISMATCH''}"

lemma entry_mismatch_reason:
  "entry_mismatch d rid e = Some m \<Longrightarrow> mm_reason_code m \<in> scope_reasons"
  by (cases e)
    (auto simp: entry_mismatch_def scope_reasons_def Let_def split: option.splits if_splits)

lemma entry_mismatch_fields:
  assumes "entry_mismatch d rid (sid, v) = Some m"
  shows "mm_scope_id m = sid" and "mm_snapshot_version m = v"
    and "mm_live_version m = map_option sc_version (live_scope d rid sid)"
    and "mm_live_status m = map_option sc_status (live_scope d rid sid)"
  using assms by (auto simp: entry_mismatch_def Let_def split: option.splits if_splits)

text \<open>
  The effective status: cancelled as soon as one scope is missing or cancelled, else superseded
  as soon as there is any mismatch, else active.
\<close>

definition missing_or_cancelled :: "db \<Rightarrow> ident \<Rightarrow> ident \<times> int \<Rightarrow> bool" where
  "missing_or_cancelled d run_id entry \<longleftrightarrow>
    (case live_scope d run_id (fst entry) of
       None \<Rightarrow> True | Some s \<Rightarrow> sc_status s = Scope_Cancelled)"

lemma entry_status_cases:
  assumes "eff \<in> {Node_Active, Node_Superseded, Node_Cancelled}"
  shows "entry_status eff (entry_mismatch d rid e) =
    (if missing_or_cancelled d rid e then Node_Cancelled
     else if entry_current d rid e then eff
     else if eff = Node_Cancelled then Node_Cancelled else Node_Superseded)"
proof (cases "live_scope d rid (fst e)")
  case None
  then show ?thesis
    by (cases e) (simp add: entry_mismatch_def entry_status_def missing_or_cancelled_def)
next
  case (Some s)
  then show ?thesis
    using assms
    by (cases e; cases "sc_status s")
      (auto simp: entry_mismatch_def entry_status_def missing_or_cancelled_def entry_current_def)
qed

lemma foldl_entry_status:
  "eff \<in> {Node_Active, Node_Superseded, Node_Cancelled} \<Longrightarrow>
   foldl entry_status eff (map (entry_mismatch d rid) snap) =
    (if eff = Node_Cancelled \<or> (\<exists>e \<in> set snap. missing_or_cancelled d rid e)
     then Node_Cancelled
     else if eff = Node_Superseded \<or> (\<exists>e \<in> set snap. \<not> entry_current d rid e)
     then Node_Superseded
     else Node_Active)"
proof (induction snap arbitrary: eff)
  case (Cons e snap)
  note head = entry_status_cases [OF Cons.prems, of d rid e]
  have mc: "entry_status eff (entry_mismatch d rid e) \<in>
      {Node_Active, Node_Superseded, Node_Cancelled}"
    using Cons.prems by (subst head) auto
  have cur: "entry_current d rid e \<Longrightarrow> \<not> missing_or_cancelled d rid e"
    by (auto simp: missing_or_cancelled_def entry_current_def)
  show ?case
    using Cons.IH [OF mc] Cons.prems cur by (auto simp: head)
qed auto

lemma evaluate_effective_status:
  "se_effective_status (evaluate_scopes d n) =
    (if n_scope_snapshot n = [] \<or>
        (\<exists>e \<in> set (n_scope_snapshot n). missing_or_cancelled d (n_run_id n) e)
     then Node_Cancelled
     else if se_allowed (evaluate_scopes d n) then Node_Active
     else Node_Superseded)"
proof (cases "n_scope_snapshot n = []")
  case False
  then have "se_effective_status (evaluate_scopes d n) =
      foldl entry_status Node_Active (map (entry_mismatch d (n_run_id n)) (n_scope_snapshot n))"
    by (simp add: evaluate_scopes_def Let_def scan_snapshot_status)
  then show ?thesis
    using False by (auto simp: foldl_entry_status evaluate_allowed_iff)
qed (simp add: evaluate_scopes_def)

lemma effective_status_stale:
  "\<not> se_allowed (evaluate_scopes d n) \<Longrightarrow>
   se_effective_status (evaluate_scopes d n) \<in> {Node_Cancelled, Node_Superseded}"
  by (simp add: evaluate_effective_status)

section \<open>Liveness of a node\<close>

definition lease_live :: "time \<Rightarrow> node \<Rightarrow> bool" where
  "lease_live now n \<longleftrightarrow> (case n_lease_expires_at n of None \<Rightarrow> False | Some t \<Rightarrow> now < t)"

definition live_node_statuses :: "node_status set" where
  "live_node_statuses = {Node_Active, Node_Waiting}"

text \<open>The first failing check names the reason; an empty snapshot has no reason (\<open>None\<close>).\<close>

definition validate_node_runtime_state ::
    "time \<Rightarrow> node \<Rightarrow> db \<Rightarrow> error + (bool \<times> string option \<times> scope_evaluation)" where
  "validate_node_runtime_state now n d =
    andthen (get_run (n_run_id n) d) (\<lambda>run.
    let evaluation = evaluate_scopes d n in
    if r_status run \<noteq> Run_Running then Inr (False, Some ''RUN_NOT_ACTIVE'', evaluation)
    else if n_status n \<notin> live_node_statuses then Inr (False, Some ''NODE_NOT_ACTIVE'', evaluation)
    else if \<not> lease_live now n then Inr (False, Some ''LEASE_EXPIRED'', evaluation)
    else if \<not> se_allowed evaluation then Inr (False, primary_reason evaluation, evaluation)
    else Inr (True, None, evaluation))"

definition node_live :: "time \<Rightarrow> node \<Rightarrow> db \<Rightarrow> bool" where
  "node_live now n d \<longleftrightarrow>
     (\<exists>run. get_run_row (n_run_id n) d = Some run \<and> r_status run = Run_Running) \<and>
     n_status n \<in> live_node_statuses \<and> lease_live now n \<and> se_allowed (evaluate_scopes d n)"

lemma validate_returns_True:
  "validate_node_runtime_state now n d = Inr (True, reason, ev) \<longleftrightarrow>
     node_live now n d \<and> reason = None \<and> ev = evaluate_scopes d n"
  by (auto simp: validate_node_runtime_state_def node_live_def outcome Let_def split: if_splits)

lemma validate_returns_eval:
  "validate_node_runtime_state now n d = Inr (ok, reason, ev) \<Longrightarrow> ev = evaluate_scopes d n"
  by (auto simp: validate_node_runtime_state_def outcome Let_def split: if_splits)

text \<open>The opening of most handlers: go on only with a live node.\<close>

lemma live_gate:
  "andthen (validate_node_runtime_state now n d) (\<lambda>(allowed, reason, _).
     andthen (require allowed (err reason)) (\<lambda>_. rest)) = Inr y \<longleftrightarrow>
   node_live now n d \<and> rest = Inr y"
proof
  assume "andthen (validate_node_runtime_state now n d) (\<lambda>(allowed, reason, _).
     andthen (require allowed (err reason)) (\<lambda>_. rest)) = Inr y"
  then obtain ok r ev where "validate_node_runtime_state now n d = Inr (ok, r, ev)" "ok" "rest = Inr y"
    by (auto simp: andthen_returns require_returns)
  then show "node_live now n d \<and> rest = Inr y" by (simp add: validate_returns_True)
next
  assume live: "node_live now n d \<and> rest = Inr y"
  then have "validate_node_runtime_state now n d = Inr (True, None, evaluate_scopes d n)"
    by (simp add: validate_returns_True)
  then show "andthen (validate_node_runtime_state now n d) (\<lambda>(allowed, reason, _).
     andthen (require allowed (err reason)) (\<lambda>_. rest)) = Inr y"
    using live by simp
qed

section \<open>Walks over the parent links\<close>

lemma unvisited_shrinks:
  assumes "c \<in> n_id ` set (db_nodes d)" and "c \<notin> set visited"
  shows "card (n_id ` set (db_nodes d) - set (c # visited)) <
         card (n_id ` set (db_nodes d) - set visited)"
  by (rule psubset_card_mono) (use assms in auto)

text \<open>
  The loop of \<open>is_descendant\<close>: climb from the target until the ancestor, the end of the chain,
  a node outside the run, or a node seen before.  It ends because the set of nodes not yet
  visited shrinks with every step.
\<close>

function climb :: "db \<Rightarrow> ident \<Rightarrow> ident \<Rightarrow> ident list \<Rightarrow> ident option \<Rightarrow> bool" where
  "climb d run_id ancestor visited None = False"
| "climb d run_id ancestor visited (Some c) =
     (if c \<in> set visited then False
      else (case get_node_row c d of
              None \<Rightarrow> False
            | Some node \<Rightarrow>
                if n_run_id node \<noteq> run_id then False
                else if n_parent_id node = Some ancestor then True
                else climb d run_id ancestor (c # visited) (n_parent_id node)))"
  by pat_completeness auto
termination
  by (relation "measure (\<lambda>(d, run_id, ancestor, visited, current).
        case current of None \<Rightarrow> 0
        | Some c \<Rightarrow> Suc (card (n_id ` set (db_nodes d) - set visited)))")
    (auto split: option.splits simp del: list.set
      intro!: unvisited_shrinks dest: get_node_row_in get_node_row_id)

declare climb.simps(2) [simp del]

definition is_descendant :: "db \<Rightarrow> ident \<Rightarrow> ident \<Rightarrow> ident \<Rightarrow> bool" where
  "is_descendant d run_id ancestor target =
    (if ancestor = target then False else climb d run_id ancestor [] (Some target))"

text \<open>
  The specification: the ancestor is reached from the target by one or more authoritative
  parent links, all of them between nodes of the run.
\<close>

inductive child_of :: "db \<Rightarrow> ident \<Rightarrow> ident \<Rightarrow> ident \<Rightarrow> bool" for d run_id ancestor where
  direct: "get_node_row c d = Some n \<Longrightarrow> n_run_id n = run_id \<Longrightarrow>
     n_parent_id n = Some ancestor \<Longrightarrow> child_of d run_id ancestor c"
| step: "get_node_row c d = Some n \<Longrightarrow> n_run_id n = run_id \<Longrightarrow>
     n_parent_id n = Some p \<Longrightarrow> child_of d run_id ancestor p \<Longrightarrow> child_of d run_id ancestor c"

lemma climb_sound: "climb d rid a visited (Some c) \<Longrightarrow> child_of d rid a c"
proof (induction d rid a visited "Some c" arbitrary: c rule: climb.induct)
  case (2 d rid a visited c)
  then obtain n where n: "get_node_row c d = Some n" "n_run_id n = rid" "c \<notin> set visited"
    by (auto simp: climb.simps split: if_splits option.splits)
  show ?case
  proof (cases "n_parent_id n = Some a")
    case True
    with n show ?thesis by (blast intro: child_of.direct)
  next
    case False
    with 2(2) n have up: "climb d rid a (c # visited) (n_parent_id n)"
      by (simp add: climb.simps)
    then obtain p where p: "n_parent_id n = Some p" by (cases "n_parent_id n") auto
    with 2(1) n False up have "child_of d rid a p" by auto
    with n p show ?thesis by (blast intro: child_of.step)
  qed
qed

text \<open>
  For completeness the climb must not meet a visited node.  The length of the shortest chain to
  the ancestor separates the nodes of a chain: a node met twice would have two lengths.
\<close>

inductive child_in :: "db \<Rightarrow> ident \<Rightarrow> ident \<Rightarrow> nat \<Rightarrow> ident \<Rightarrow> bool" for d run_id ancestor where
  one: "get_node_row c d = Some n \<Longrightarrow> n_run_id n = run_id \<Longrightarrow>
     n_parent_id n = Some ancestor \<Longrightarrow> child_in d run_id ancestor 1 c"
| more: "get_node_row c d = Some n \<Longrightarrow> n_run_id n = run_id \<Longrightarrow> n_parent_id n = Some p \<Longrightarrow>
     p \<noteq> ancestor \<Longrightarrow> child_in d run_id ancestor k p \<Longrightarrow> child_in d run_id ancestor (Suc k) c"

lemma child_in_unique: "child_in d rid a k c \<Longrightarrow> child_in d rid a k' c \<Longrightarrow> k = k'"
proof (induction arbitrary: k' rule: child_in.induct)
  case (one c n)
  from one.prems show ?case by cases (use one in auto)
next
  case (more c n p k)
  note row = more.hyps(1,3,4) and IH = more.IH
  from more.prems show ?case
  proof cases
    case (one n')
    then show ?thesis using row by simp
  next
    case (more n' p' m)
    then have "child_in d rid a m p" using row by simp
    then have "k = m" by (rule IH)
    then show ?thesis using more by simp
  qed
qed

lemma child_of_child_in: "child_of d rid a c \<Longrightarrow> \<exists>k. child_in d rid a k c"
proof (induction rule: child_of.induct)
  case (step c n p)
  then show ?case
    by (cases "p = a") (blast intro: child_in.intros)+
qed (blast intro: child_in.intros)

lemma climb_complete:
  "child_in d rid a k c \<Longrightarrow> \<forall>v \<in> set visited. \<exists>k'. k < k' \<and> child_in d rid a k' v \<Longrightarrow>
   climb d rid a visited (Some c)"
proof (induction arbitrary: visited rule: child_in.induct)
  case (one c n)
  then have "c \<notin> set visited" using child_in_unique [OF child_in.one] by blast
  with one show ?case by (simp add: climb.simps)
next
  case (more c n p k)
  have here: "child_in d rid a (Suc k) c" using more.hyps by (blast intro: child_in.more)
  then have fresh: "c \<notin> set visited" using more.prems child_in_unique by blast
  have "climb d rid a (c # visited) (Some p)"
    using more.prems here by (intro more.IH) (auto intro: less_trans)
  with more.hyps fresh show ?case by (simp add: climb.simps)
qed

lemma is_descendant_iff:
  "is_descendant d rid a t \<longleftrightarrow> a \<noteq> t \<and> child_of d rid a t"
proof -
  have "child_of d rid a t \<Longrightarrow> climb d rid a [] (Some t)"
    using child_of_child_in climb_complete [of d rid a _ t "[]"] by fastforce
  then show ?thesis using climb_sound by (auto simp: is_descendant_def)
qed

text \<open>
  The depth-first enumeration: \<open>pop\<close> takes the last stack entry, a node's children are pushed in
  table order.
\<close>

definition children :: "node list \<Rightarrow> ident \<Rightarrow> node list" where
  "children rows k = filter (\<lambda>n. n_parent_id n = Some k) rows"

function collect :: "node list \<Rightarrow> node list \<Rightarrow> ident list \<Rightarrow> node list \<Rightarrow> node list" where
  "collect rows [] visited result = result"
| "collect rows (node # rest) visited result =
     (if n_id node \<in> set visited then collect rows rest visited result
      else collect rows (rev (children rows (n_id node)) @ rest)
             (n_id node # visited) (result @ [node]))"
  by pat_completeness auto
termination
proof (relation "measures
    [\<lambda>(rows, stack, visited, result). card (n_id ` (set rows \<union> set stack) - set visited),
     \<lambda>(rows, stack, visited, result). length stack]", goal_cases)
  case 1
  show ?case by simp
next
  case (2 rows node rest visited result)
  have "card (n_id ` (set rows \<union> set rest) - set visited) \<le>
        card (n_id ` (set rows \<union> set (node # rest)) - set visited)"
    by (rule card_mono) auto
  then show ?case by (simp add: le_less)
next
  case (3 rows node rest visited result)
  have "card (n_id ` (set rows \<union> set (rev (children rows (n_id node)) @ rest)) -
              set (n_id node # visited)) <
        card (n_id ` (set rows \<union> set (node # rest)) - set visited)"
    by (rule psubset_card_mono) (use 3 in \<open>auto simp: children_def\<close>)
  then show ?case by simp
qed

definition descendants_including_self ::
    "db \<Rightarrow> ident \<Rightarrow> ident \<Rightarrow> time option \<Rightarrow> node list" where
  "descendants_including_self d run_id root_id registered_before =
    (let rows = filter (\<lambda>n. n_run_id n = run_id \<and>
           (case registered_before of None \<Rightarrow> True | Some t \<Rightarrow> n_registered_at n \<le> t)) (db_nodes d)
     in case List.find (\<lambda>n. n_id n = root_id) rows of
          None \<Rightarrow> []
        | Some root \<Rightarrow> collect rows [root] [] [])"

section \<open>Attribution of mismatches to commands\<close>

definition command_order :: "command \<Rightarrow> time \<times> ident" where
  "command_order c = (c_created_at c, c_id c)"

text \<open>\<open>by_scope\<close>: the last mismatch of a scope wins, as in the dictionary comprehension.\<close>

definition by_scope :: "scope_mismatch list \<Rightarrow> ident \<Rightarrow> scope_mismatch option" where
  "by_scope mms sid =
    List.find (\<lambda>m. mm_scope_id m = sid) (rev (filter (\<lambda>m. mm_live_version m \<noteq> None) mms))"

definition commands_for_scope_mismatches ::
    "db \<Rightarrow> scope_mismatch list \<Rightarrow> ident \<Rightarrow> command list" where
  "commands_for_scope_mismatches d mms run_id =
    filter (\<lambda>c. case by_scope mms (c_target_scope_id c) of
                  None \<Rightarrow> False | Some m \<Rightarrow> mm_live_version m = Some (c_to_version c))
      (sort_key command_order
        (filter (\<lambda>c. c_run_id c = run_id \<and> by_scope mms (c_target_scope_id c) \<noteq> None)
          (db_commands d)))"

lemma commands_for_scope_mismatches_iff:
  "c \<in> set (commands_for_scope_mismatches d mms rid) \<longleftrightarrow>
     c \<in> set (db_commands d) \<and> c_run_id c = rid \<and>
     (\<exists>m. by_scope mms (c_target_scope_id c) = Some m \<and>
          mm_live_version m = Some (c_to_version c))"
  by (auto simp: commands_for_scope_mismatches_def split: option.splits)

lemma by_scope_SomeD:
  "by_scope mms sid = Some m \<Longrightarrow> m \<in> set mms \<and> mm_scope_id m = sid \<and> mm_live_version m \<noteq> None"
  by (auto simp: by_scope_def dest!: find_SomeD)

end
