(* ===== verification/History.thy ===== *)
theory History
  imports Models "HOL-Library.Sublist"
begin

text \<open>
  What the database promises across transactions, whichever operation runs: the relation
  \<open>evolves d d'\<close>.  No row is ever deleted and rows keep their position; a control scope leaves
  \<open>ACTIVE\<close> at most once and its version moves exactly then; a terminal run is immutable; the
  identity, lineage, snapshot and instruction of a node are immutable and a node that left the live
  statuses never comes back; a command only ever gains its replacement; a proposal that a command has
  used stays used by it; actions, their command
  matches, acknowledgements and runtime events are append only.  Every component proves that its
  operations respect it.
\<close>

section \<open>Tables that only grow\<close>

definition keeps_rows :: "('r \<Rightarrow> 'r \<Rightarrow> bool) \<Rightarrow> 'r list \<Rightarrow> 'r list \<Rightarrow> bool" where
  "keeps_rows R xs ys \<longleftrightarrow> list_all2 R xs (take (length xs) ys)"

lemma keeps_rows_split:
  "keeps_rows R xs ys \<longleftrightarrow> (\<exists>zs ws. ys = zs @ ws \<and> list_all2 R xs zs)"
proof
  assume "keeps_rows R xs ys"
  then show "\<exists>zs ws. ys = zs @ ws \<and> list_all2 R xs zs"
    unfolding keeps_rows_def using append_take_drop_id by metis
next
  assume "\<exists>zs ws. ys = zs @ ws \<and> list_all2 R xs zs"
  then obtain zs ws where "ys = zs @ ws" "list_all2 R xs zs" by blast
  then show "keeps_rows R xs ys"
    by (simp add: keeps_rows_def list_all2_lengthD)
qed

lemma keeps_rows_refl: "(\<And>r. R r r) \<Longrightarrow> keeps_rows R xs xs"
  by (simp add: keeps_rows_def list_all2_refl)

lemma keeps_rows_append: "(\<And>r. R r r) \<Longrightarrow> keeps_rows R xs (xs @ ws)"
  by (simp add: keeps_rows_def list_all2_refl)

lemma keeps_rows_map:
  "(\<And>r. r \<in> set xs \<Longrightarrow> R r (f r)) \<Longrightarrow> keeps_rows R xs (map f xs)"
  by (simp add: keeps_rows_def list_all2_conv_all_nth)

lemma keeps_rows_revise:
  assumes "\<And>r. R r r" and "\<And>r. r \<in> set xs \<Longrightarrow> key r = k \<Longrightarrow> R r (f r)"
  shows "keeps_rows R xs (revise key k f xs)"
  unfolding revise_def by (rule keeps_rows_map) (use assms in auto)

lemma keeps_rows_trans:
  assumes "\<And>a b c. R a b \<Longrightarrow> R b c \<Longrightarrow> R a c"
    and "keeps_rows R xs ys" and "keeps_rows R ys zs"
  shows "keeps_rows R xs zs"
proof -
  obtain ys1 ys2 where ys: "ys = ys1 @ ys2" and a: "list_all2 R xs ys1"
    using assms(2) by (auto simp: keeps_rows_split)
  obtain zs1 zs2 where zs: "zs = zs1 @ zs2" and b: "list_all2 R ys zs1"
    using assms(3) by (auto simp: keeps_rows_split)
  from b obtain us vs where "zs1 = us @ vs" "list_all2 R ys1 us"
    unfolding ys by (auto simp: list_all2_append1)
  moreover have "list_all2 R xs us"
    by (rule list_all2_trans [OF assms(1) a calculation(2)])
  ultimately show ?thesis
    by (auto simp: keeps_rows_split zs)
qed

lemma keeps_rows_lookup:
  assumes "keeps_rows R xs ys" and "lookup key k xs = Some r"
    and "\<And>a b. R a b \<Longrightarrow> key b = key a"
  shows "\<exists>r'. lookup key k ys = Some r' \<and> R r r'"
proof -
  obtain zs ws where ys: "ys = zs @ ws" and z: "list_all2 R xs zs"
    using assms(1) by (auto simp: keeps_rows_split)
  from z assms(2) have "\<exists>r'. lookup key k zs = Some r' \<and> R r r'"
    by (induction rule: list_all2_induct) (auto dest: assms(3) split: if_splits)
  then show ?thesis by (auto simp: ys lookup_append)
qed

lemma keeps_rows_member:
  assumes "keeps_rows R xs ys" and "r \<in> set xs"
  shows "\<exists>r' \<in> set ys. R r r'"
proof -
  obtain zs ws where ys: "ys = zs @ ws" and z: "list_all2 R xs zs"
    using assms(1) by (auto simp: keeps_rows_split)
  from z assms(2) show ?thesis unfolding ys
    by (induction rule: list_all2_induct) auto
qed

section \<open>What may happen to one row\<close>

definition scope_step :: "control_scope \<Rightarrow> control_scope \<Rightarrow> bool" where
  "scope_step s s' \<longleftrightarrow>
     sc_id s' = sc_id s \<and> sc_run_id s' = sc_run_id s \<and> sc_owner_node_id s' = sc_owner_node_id s \<and>
     ((sc_version s' = sc_version s \<and> sc_status s' = sc_status s) \<or>
      (sc_status s = Scope_Active \<and> sc_status s' \<noteq> Scope_Active \<and>
       sc_version s' = sc_version s + 1))"

definition run_step :: "run \<Rightarrow> run \<Rightarrow> bool" where
  "run_step r r' \<longleftrightarrow>
     r_id r' = r_id r \<and> r_name r' = r_name r \<and> r_root_node_id r' = r_root_node_id r \<and>
     r_run_scope_id r' = r_run_scope_id r \<and> r_created_at r' = r_created_at r \<and>
     (r_status r \<in> terminal_run_states \<longrightarrow>
        r_status r' = r_status r \<and> r_finished_at r' = r_finished_at r) \<and>
     (r_status r' = Run_Created \<longrightarrow> r_status r = Run_Created)"

definition dead_node_statuses :: "node_status set" where
  "dead_node_statuses = {Node_Completed, Node_Cancelled, Node_Superseded, Node_Lease_Expired}"

definition node_step :: "node \<Rightarrow> node \<Rightarrow> bool" where
  "node_step n n' \<longleftrightarrow>
     n_id n' = n_id n \<and> n_run_id n' = n_run_id n \<and> n_parent_id n' = n_parent_id n \<and>
     n_supersedes_node_id n' = n_supersedes_node_id n \<and>
     n_caused_by_command_id n' = n_caused_by_command_id n \<and>
     n_role n' = n_role n \<and> n_behavior n' = n_behavior n \<and> n_generation n' = n_generation n \<and>
     n_lineage_path n' = n_lineage_path n \<and> n_own_scope_id n' = n_own_scope_id n \<and>
     n_scope_snapshot n' = n_scope_snapshot n \<and>
     n_instruction_version n' = n_instruction_version n \<and> n_instruction n' = n_instruction n \<and>
     n_capabilities n' = n_capabilities n \<and> n_registered_at n' = n_registered_at n \<and>
     (n_status n \<in> dead_node_statuses \<longrightarrow> n_status n' \<in> dead_node_statuses) \<and>
     (n_status n' = Node_Pending \<longrightarrow> n_status n = Node_Pending)"

definition command_step :: "command \<Rightarrow> command \<Rightarrow> bool" where
  "command_step c c' \<longleftrightarrow>
     c' = c\<lparr>c_replacement_node_id := c_replacement_node_id c',
            c_replacement_status := c_replacement_status c'\<rparr>"

definition proposal_step :: "proposal \<Rightarrow> proposal \<Rightarrow> bool" where
  "proposal_step p p' \<longleftrightarrow> p_id p' = p_id p \<and>
     (p_resulting_command_id p \<noteq> None \<longrightarrow> p_resulting_command_id p' = p_resulting_command_id p)"

lemmas row_steps = scope_step_def run_step_def node_step_def command_step_def proposal_step_def

lemma row_step_refl [simp]:
  "scope_step s s" "run_step r r" "node_step n n" "command_step c c" "proposal_step p p"
  by (simp_all add: row_steps)

lemma scope_step_trans: "scope_step a b \<Longrightarrow> scope_step b c \<Longrightarrow> scope_step a c"
  by (auto simp: scope_step_def)

lemma run_step_trans: "run_step a b \<Longrightarrow> run_step b c \<Longrightarrow> run_step a c"
  unfolding run_step_def by (intro conjI impI; elim conjE; metis)

lemma node_step_trans: "node_step a b \<Longrightarrow> node_step b c \<Longrightarrow> node_step a c"
  unfolding node_step_def by (intro conjI impI; elim conjE; simp)

lemma command_step_trans: "command_step a b \<Longrightarrow> command_step b c \<Longrightarrow> command_step a c"
  by (cases a; cases b; cases c) (simp add: command_step_def)

lemma proposal_step_trans: "proposal_step a b \<Longrightarrow> proposal_step b c \<Longrightarrow> proposal_step a c"
  by (auto simp: proposal_step_def)

lemma command_step_replacement:
  "command_step c (c\<lparr>c_replacement_node_id := x, c_replacement_status := y\<rparr>)"
  "command_step c (c\<lparr>c_replacement_status := y\<rparr>)"
  by (simp_all add: command_step_def)

lemma command_step_fields:
  assumes "command_step c c'"
  shows "c_id c' = c_id c" "c_run_id c' = c_run_id c" "c_command_type c' = c_command_type c"
    "c_target_scope_id c' = c_target_scope_id c" "c_from_version c' = c_from_version c"
    "c_to_version c' = c_to_version c" "c_created_at c' = c_created_at c"
    "c_target_node_id c' = c_target_node_id c"
  using assms by (cases c; cases c'; simp add: command_step_def)+

text \<open>The proposals, found by their keys.\<close>

definition keeps_proposals :: "proposal list \<Rightarrow> proposal list \<Rightarrow> bool" where
  "keeps_proposals ps ps' \<longleftrightarrow>
     (\<forall>k p. lookup p_id k ps = Some p \<longrightarrow> (\<exists>p'. lookup p_id k ps' = Some p' \<and> proposal_step p p'))"

lemma keeps_proposals_refl [simp]: "keeps_proposals ps ps"
  by (simp add: keeps_proposals_def)

lemma keeps_proposals_append [simp]: "keeps_proposals ps (ps @ qs)"
  by (auto simp: keeps_proposals_def lookup_append_Some)

lemma keeps_proposals_trans:
  "keeps_proposals a b \<Longrightarrow> keeps_proposals b c \<Longrightarrow> keeps_proposals a c"
  unfolding keeps_proposals_def using proposal_step_trans by blast

lemma lookup_revise_keyed:
  assumes "\<And>r. key r = k \<Longrightarrow> key (f r) = k"
  shows "lookup key k' (revise key k f rows) =
    (if k' = k then map_option f (lookup key k rows) else lookup key k' rows)"
  using assms by (induction rows) auto

lemma keeps_proposals_revise:
  assumes "\<And>p. lookup p_id k ps = Some p \<Longrightarrow> proposal_step p (f p)" and "\<And>p. p_id p = k \<Longrightarrow> p_id (f p) = k"
  shows "keeps_proposals ps (revise p_id k f ps)"
  using assms by (auto simp: keeps_proposals_def lookup_revise_keyed)

section \<open>The history relation\<close>

definition evolves :: "db \<Rightarrow> db \<Rightarrow> bool" where
  "evolves d d' \<longleftrightarrow>
     keeps_rows run_step (db_runs d) (db_runs d') \<and>
     keeps_rows scope_step (db_scopes d) (db_scopes d') \<and>
     keeps_rows node_step (db_nodes d) (db_nodes d') \<and>
     keeps_rows command_step (db_commands d) (db_commands d') \<and>
     keeps_proposals (db_proposals d) (db_proposals d') \<and>
     prefix (db_actions d) (db_actions d') \<and> prefix (db_matches d) (db_matches d') \<and>
     prefix (db_acks d) (db_acks d') \<and> prefix (db_events d) (db_events d')"

text \<open>The contract of a relation between the database before and after a transaction.\<close>

locale history =
  fixes R :: "'d \<Rightarrow> 'd \<Rightarrow> bool"
  assumes refl: "R d d"
    and trans: "R d1 d2 \<Longrightarrow> R d2 d3 \<Longrightarrow> R d1 d3"
begin

lemma chain3: "R d1 d2 \<Longrightarrow> R d2 d3 \<Longrightarrow> R d3 d4 \<Longrightarrow> R d1 d4"
  by (blast intro: trans)

lemma fold_related: "(\<And>x d. x \<in> set xs \<Longrightarrow> R d (f x d)) \<Longrightarrow> R d (fold f xs d)"
  by (induction xs arbitrary: d) (auto intro: refl trans)

lemma foldm_related:
  assumes "foldm f xs d = Inr d'" and "\<And>x d d'. x \<in> set xs \<Longrightarrow> f x d = Inr d' \<Longrightarrow> R d d'"
  shows "R d d'"
  using assms
proof (induction xs arbitrary: d)
  case Nil
  then show ?case by (simp add: refl)
next
  case (Cons x xs)
  then obtain t where t: "f x d = Inr t" "foldm f xs t = Inr d'" by (auto simp: outcome)
  have "R d t" by (rule Cons.prems(2) [OF _ t(1)]) simp
  moreover have "R t d'" by (rule Cons.IH [OF t(2)]) (rule Cons.prems(2), auto)
  ultimately show ?case by (rule trans)
qed

end

interpretation db_history: history evolves
proof
  show "evolves d d" for d
    by (simp add: evolves_def keeps_rows_refl)
  show "evolves d1 d3" if "evolves d1 d2" "evolves d2 d3" for d1 d2 d3
    using that unfolding evolves_def
    by (auto intro: keeps_rows_trans [OF run_step_trans] keeps_rows_trans [OF scope_step_trans]
        keeps_rows_trans [OF node_step_trans] keeps_rows_trans [OF command_step_trans]
        keeps_proposals_trans
        prefix_order.trans)
qed

section \<open>Identifiers\<close>

text \<open>
  The primary keys of runs, nodes, scopes and commands are the UUIDs drawn for their rows, and
  distinct draws are distinct: this is all the services rely on \<open>uuid4\<close> for.  Every transaction
  keeps the first and, given both, respects the history relation.
\<close>

definition uuid_inj :: "env \<Rightarrow> bool" where
  "uuid_inj E \<longleftrightarrow> (\<forall>t i t' j. uuid E t i = uuid E t' j \<longrightarrow> t = t' \<and> i = j)"

definition drawn :: "env \<Rightarrow> string \<Rightarrow> nat \<Rightarrow> ident list" where
  "drawn E t n = map (uuid E t) [0..<n]"

definition ids_ok :: "env \<Rightarrow> db \<Rightarrow> bool" where
  "ids_ok E d \<longleftrightarrow>
     map r_id (db_runs d) = drawn E ''runs'' (length (db_runs d)) \<and>
     map n_id (db_nodes d) = drawn E ''nodes'' (length (db_nodes d)) \<and>
     map sc_id (db_scopes d) = drawn E ''control_scopes'' (length (db_scopes d)) \<and>
     map c_id (db_commands d) = drawn E ''control_commands'' (length (db_commands d))"

lemma distinct_drawn: "uuid_inj E \<Longrightarrow> distinct (drawn E t n)"
  by (auto simp: drawn_def distinct_map uuid_inj_def inj_on_def)

lemma drawn_Suc: "drawn E t (Suc n) = drawn E t n @ [uuid E t n]"
  by (simp add: drawn_def)

lemma ids_distinct:
  assumes "uuid_inj E" and "ids_ok E d"
  shows "distinct (map r_id (db_runs d))" "distinct (map n_id (db_nodes d))"
    "distinct (map sc_id (db_scopes d))" "distinct (map c_id (db_commands d))"
  using assms distinct_drawn by (simp_all add: ids_ok_def)

definition advances :: "env \<Rightarrow> db \<Rightarrow> db \<Rightarrow> bool" where
  "advances E d d' \<longleftrightarrow> (uuid_inj E \<and> ids_ok E d \<longrightarrow> ids_ok E d' \<and> evolves d d')"

interpretation db_advance: history "advances E" for E
proof
  show "advances E d d" for d
    by (simp add: advances_def db_history.refl)
  show "advances E d1 d3" if "advances E d1 d2" "advances E d2 d3" for d1 d2 d3
    using that db_history.trans by (auto simp: advances_def)
qed

named_theorems evolution "updates and inserts that respect the history relation"

lemma advances_refl [evolution]: "advances E d d"
  by (rule db_advance.refl)

text \<open>Each update, applied after a part that already respects the relation.\<close>

lemma evolves_insert_steps:
  "evolves d (db_runs_update (\<lambda>rs. rs @ xs1) d)"
  "evolves d (db_scopes_update (\<lambda>rs. rs @ xs2) d)"
  "evolves d (db_nodes_update (\<lambda>rs. rs @ xs3) d)"
  "evolves d (db_commands_update (\<lambda>rs. rs @ xs4) d)"
  "evolves d (db_actions_update (\<lambda>rs. rs @ xs5) d)"
  "evolves d (db_matches_update (\<lambda>rs. rs @ xs6) d)"
  "evolves d (db_acks_update (\<lambda>rs. rs @ xs7) d)"
  "evolves d (db_proposals_update (\<lambda>rs. rs @ xs8) d)"
  "evolves d (record_runtime_event e d)"
  by (simp_all add: evolves_def keeps_rows_refl keeps_rows_append record_runtime_event_def)

lemma advances_id_inserts [evolution]:
  assumes "advances E d0 d"
  shows
    "r_id r = uuid E ''runs'' (length (db_runs d)) \<Longrightarrow>
       advances E d0 (db_runs_update (\<lambda>rs. rs @ [r]) d)"
    "sc_id s = uuid E ''control_scopes'' (length (db_scopes d)) \<Longrightarrow>
       advances E d0 (db_scopes_update (\<lambda>rs. rs @ [s]) d)"
    "n_id n = uuid E ''nodes'' (length (db_nodes d)) \<Longrightarrow>
       advances E d0 (db_nodes_update (\<lambda>rs. rs @ [n]) d)"
    "c_id c = uuid E ''control_commands'' (length (db_commands d)) \<Longrightarrow>
       advances E d0 (db_commands_update (\<lambda>rs. rs @ [c]) d)"
  using assms db_history.trans [OF _ evolves_insert_steps(1)]
    db_history.trans [OF _ evolves_insert_steps(2)] db_history.trans [OF _ evolves_insert_steps(3)]
    db_history.trans [OF _ evolves_insert_steps(4)]
  by (auto simp: advances_def ids_ok_def drawn_Suc)

lemma advances_scope_pair [evolution]:
  assumes "advances E d0 d"
    and "sc_id s = uuid E ''control_scopes'' (length (db_scopes d))"
    and "sc_id s' = uuid E ''control_scopes'' (length (db_scopes d) + 1)"
  shows "advances E d0 (db_scopes_update (\<lambda>rs. rs @ [s, s']) d)"
  using assms db_history.trans [OF _ evolves_insert_steps(2)]
  by (auto simp: advances_def ids_ok_def drawn_Suc)

lemma ids_ok_same:
  "map r_id (db_runs d') = map r_id (db_runs d) \<Longrightarrow>
   map n_id (db_nodes d') = map n_id (db_nodes d) \<Longrightarrow>
   map sc_id (db_scopes d') = map sc_id (db_scopes d) \<Longrightarrow>
   map c_id (db_commands d') = map c_id (db_commands d) \<Longrightarrow> ids_ok E d' = ids_ok E d"
  unfolding ids_ok_def by (metis length_map)

lemma advances_step:
  assumes "evolves d d'" and "map r_id (db_runs d') = map r_id (db_runs d)"
    "map n_id (db_nodes d') = map n_id (db_nodes d)"
    "map sc_id (db_scopes d') = map sc_id (db_scopes d)"
    "map c_id (db_commands d') = map c_id (db_commands d)"
  shows "advances E d d'"
  using assms(1) ids_ok_same [OF assms(2-5)] by (simp add: advances_def)

lemma plain_insert_steps:
  "advances E d (db_actions_update (\<lambda>rs. rs @ xs5) d)"
  "advances E d (db_matches_update (\<lambda>rs. rs @ xs6) d)"
  "advances E d (db_acks_update (\<lambda>rs. rs @ xs7) d)"
  "advances E d (record_runtime_event e d)"
  "advances E d (db_proposals_update (\<lambda>rs. rs @ xs8) d)"
  by (auto intro!: advances_step evolves_insert_steps)

lemma other_table_steps:
  "advances E d (db_intents_update f1 d)" "advances E d (db_envelopes_update f2 d)"
  "advances E d (db_violations_update f4 d)"
  "advances E d (db_outbox_update f5 d)" "advances E d (db_services_update f6 d)"
  "advances E d (update_intent k f8 d)"
  by (auto intro!: advances_step simp: evolves_def keeps_rows_refl update_intent_def)

lemmas plain_inserts [evolution] = plain_insert_steps [THEN db_advance.trans [rotated]]
lemmas other_tables [evolution] = other_table_steps [THEN db_advance.trans [rotated]]

lemma map_key_revise:
  "(\<And>r. r \<in> set rows \<Longrightarrow> key r = k \<Longrightarrow> key (f r) = key r) \<Longrightarrow>
   map key (revise key k f rows) = map key rows"
  by (induction rows) auto

lemma lookup_of_member:
  "distinct (map key rows) \<Longrightarrow> r \<in> set rows \<Longrightarrow> key r = k \<Longrightarrow> lookup key k rows = Some r"
  by (simp add: lookup_iff)

lemma revise_found:
  assumes "distinct (map key rows)" and "\<And>r. lookup key k rows = Some r \<Longrightarrow> R r (f r)"
    and "\<And>r. R r r" and "\<And>a b. R a b \<Longrightarrow> key b = key a"
  shows "keeps_rows R rows (revise key k f rows) \<and> map key (revise key k f rows) = map key rows"
proof -
  have "R r (f r)" if "r \<in> set rows" "key r = k" for r
    using that assms(1,2) lookup_of_member by metis
  then show ?thesis
    using assms(3,4) by (blast intro: keeps_rows_revise map_key_revise)
qed

lemma step_keys:
  "run_step r r' \<Longrightarrow> r_id r' = r_id r" "scope_step s s' \<Longrightarrow> sc_id s' = sc_id s"
  "node_step n n' \<Longrightarrow> n_id n' = n_id n" "command_step c c' \<Longrightarrow> c_id c' = c_id c"
  by (simp_all add: run_step_def scope_step_def node_step_def command_step_fields)

text \<open>With distinct keys an update only has to be a step at the row it finds.\<close>

lemma advances_update_run [evolution]:
  assumes "advances E d0 d" and "\<And>r. get_run_row k d = Some r \<Longrightarrow> run_step r (f r)"
  shows "advances E d0 (update_run k f d)"
proof (rule db_advance.trans [OF assms(1)], unfold advances_def, intro impI)
  assume ok: "uuid_inj E \<and> ids_ok E d"
  have "keeps_rows run_step (db_runs d) (revise r_id k f (db_runs d)) \<and>
      map r_id (revise r_id k f (db_runs d)) = map r_id (db_runs d)"
    using ok ids_distinct(1) assms(2) step_keys(1)
    by (intro revise_found) (auto simp: get_run_row_def)
  then show "ids_ok E (update_run k f d) \<and> evolves d (update_run k f d)"
    using ok by (simp add: update_run_def evolves_def ids_ok_def keeps_rows_refl)
qed

lemma advances_update_scope [evolution]:
  assumes "advances E d0 d" and "\<And>s. get_scope_row k d = Some s \<Longrightarrow> scope_step s (f s)"
  shows "advances E d0 (update_scope k f d)"
proof (rule db_advance.trans [OF assms(1)], unfold advances_def, intro impI)
  assume ok: "uuid_inj E \<and> ids_ok E d"
  have "keeps_rows scope_step (db_scopes d) (revise sc_id k f (db_scopes d)) \<and>
      map sc_id (revise sc_id k f (db_scopes d)) = map sc_id (db_scopes d)"
    using ok ids_distinct(3) assms(2) step_keys(2)
    by (intro revise_found) (auto simp: get_scope_row_def)
  then show "ids_ok E (update_scope k f d) \<and> evolves d (update_scope k f d)"
    using ok by (simp add: update_scope_def evolves_def ids_ok_def keeps_rows_refl)
qed

lemma advances_update_node [evolution]:
  assumes "advances E d0 d" and "\<And>n. get_node_row k d = Some n \<Longrightarrow> node_step n (f n)"
  shows "advances E d0 (update_node k f d)"
proof (rule db_advance.trans [OF assms(1)], unfold advances_def, intro impI)
  assume ok: "uuid_inj E \<and> ids_ok E d"
  have "keeps_rows node_step (db_nodes d) (revise n_id k f (db_nodes d)) \<and>
      map n_id (revise n_id k f (db_nodes d)) = map n_id (db_nodes d)"
    using ok ids_distinct(2) assms(2) step_keys(3)
    by (intro revise_found) (auto simp: get_node_row_def)
  then show "ids_ok E (update_node k f d) \<and> evolves d (update_node k f d)"
    using ok by (simp add: update_node_def evolves_def ids_ok_def keeps_rows_refl)
qed

lemma advances_update_command [evolution]:
  assumes "advances E d0 d" and "\<And>c. get_command_row k d = Some c \<Longrightarrow> command_step c (f c)"
  shows "advances E d0 (update_command k f d)"
proof (rule db_advance.trans [OF assms(1)], unfold advances_def, intro impI)
  assume ok: "uuid_inj E \<and> ids_ok E d"
  have "keeps_rows command_step (db_commands d) (revise c_id k f (db_commands d)) \<and>
      map c_id (revise c_id k f (db_commands d)) = map c_id (db_commands d)"
    using ok ids_distinct(4) assms(2) step_keys(4)
    by (intro revise_found) (auto simp: get_command_row_def)
  then show "ids_ok E (update_command k f d) \<and> evolves d (update_command k f d)"
    using ok by (simp add: update_command_def evolves_def ids_ok_def keeps_rows_refl)
qed

lemma advances_update_proposal:
  assumes "\<And>p. get_proposal_row k d = Some p \<Longrightarrow> proposal_step p (f p)" and "\<And>p. p_id p = k \<Longrightarrow> p_id (f p) = k"
  shows "advances E d (update_proposal k f d)"
proof (rule advances_step)
  have "keeps_proposals (db_proposals d) (revise p_id k f (db_proposals d))"
    using assms by (intro keeps_proposals_revise) (auto simp: get_proposal_row_def)
  then show "evolves d (update_proposal k f d)"
    by (simp add: update_proposal_def evolves_def keeps_rows_refl)
qed (simp_all add: update_proposal_def)

text \<open>Reading the relation at one row.\<close>

lemma evolves_scope:
  "evolves d d' \<Longrightarrow> get_scope_row k d = Some s \<Longrightarrow>
   \<exists>s'. get_scope_row k d' = Some s' \<and> scope_step s s'"
  unfolding evolves_def get_scope_row_def
  by (elim conjE) (erule (1) keeps_rows_lookup, simp add: scope_step_def)

lemma evolves_run:
  "evolves d d' \<Longrightarrow> get_run_row k d = Some r \<Longrightarrow>
   \<exists>r'. get_run_row k d' = Some r' \<and> run_step r r'"
  unfolding evolves_def get_run_row_def
  by (elim conjE) (erule (1) keeps_rows_lookup, simp add: run_step_def)

lemma evolves_node:
  "evolves d d' \<Longrightarrow> get_node_row k d = Some n \<Longrightarrow>
   \<exists>n'. get_node_row k d' = Some n' \<and> node_step n n'"
  unfolding evolves_def get_node_row_def
  by (elim conjE) (erule (1) keeps_rows_lookup, simp add: node_step_def)

lemma evolves_proposal:
  "evolves d d' \<Longrightarrow> get_proposal_row k d = Some p \<Longrightarrow>
   \<exists>p'. get_proposal_row k d' = Some p' \<and> proposal_step p p'"
  unfolding evolves_def get_proposal_row_def keeps_proposals_def by blast

lemma evolves_command:
  "evolves d d' \<Longrightarrow> get_command_row k d = Some c \<Longrightarrow>
   \<exists>c'. get_command_row k d' = Some c' \<and> command_step c c'"
  unfolding evolves_def get_command_row_def
  by (elim conjE) (erule (1) keeps_rows_lookup, simp add: command_step_fields)

end
