(* ===== verification/Transactions.thy ===== *)
theory Transactions
  imports RateLimits Scopes History
begin

text \<open>
  How a handler runs.  Every handler opens one \<open>BEGIN IMMEDIATE\<close> transaction, so handlers are
  serialised and a handler is a function from the database to an exception (the transaction is
  rolled back: the database is unchanged) or a result and the new database.  A handler that
  consults the process-local rate limiter first authenticates and answers replays, then checks
  the limiter, then does its work; a rolled back transaction does not give the limiter's
  admission back.  \<open>rate_limited\<close> is that shape, with the handler's own code as its arguments.
\<close>

type_synonym 'a tx = "db \<Rightarrow> error + ('a \<times> db)"

record sys =
  sy_db :: db
  sy_limiter :: limiter

text \<open>What comes before the limiter: a finished answer, or an identity and the data read so far.\<close>

datatype ('a, 'p) admission = Answer 'a db | Proceed string 'p

definition rate_limited ::
    "env \<Rightarrow> string \<Rightarrow> rat \<Rightarrow> (db \<Rightarrow> error + ('a, 'p) admission) \<Rightarrow> ('p \<Rightarrow> 'a tx) \<Rightarrow>
     sys \<Rightarrow> (error + 'a) \<times> sys" where
  "rate_limited E category now front body s =
    (case front (sy_db s) of
       Inl e \<Rightarrow> (Inl e, s)
     | Inr (Answer a d) \<Rightarrow> (Inr a, s\<lparr>sy_db := d\<rparr>)
     | Inr (Proceed identity p) \<Rightarrow>
         (case limiter_check (category_limits E) (rate_limit_max_buckets E) category identity now
                 (sy_limiter s) of
            (Inl e, L) \<Rightarrow> (Inl e, s\<lparr>sy_limiter := L\<rparr>)
          | (Inr _, L) \<Rightarrow>
              (case body p (sy_db s) of
                 Inl e \<Rightarrow> (Inl e, s\<lparr>sy_limiter := L\<rparr>)
               | Inr (a, d) \<Rightarrow> (Inr a, \<lparr>sy_db = d, sy_limiter = L\<rparr>))))"

definition transaction :: "'a tx \<Rightarrow> sys \<Rightarrow> (error + 'a) \<times> sys" where
  "transaction body s =
    (case body (sy_db s) of
       Inl e \<Rightarrow> (Inl e, s)
     | Inr (a, d) \<Rightarrow> (Inr a, s\<lparr>sy_db := d\<rparr>))"

text \<open>
  A handler keeps a relation between databases when its two phases do; the proof about the
  limiter is done once, here.
\<close>

locale kept_by_handler = history R for R :: "db \<Rightarrow> db \<Rightarrow> bool" +
  fixes front :: "db \<Rightarrow> error + ('a, 'p) admission"
    and body :: "'p \<Rightarrow> 'a tx"
  assumes before_keeps: "front d = Inr (Answer a d') \<Longrightarrow> R d d'"
    and body_keeps: "front d = Inr (Proceed i p) \<Longrightarrow> body p d = Inr (a, d') \<Longrightarrow> R d d'"
begin

lemma handler_keeps: "R (sy_db s) (sy_db (snd (rate_limited E category now front body s)))"
  by (auto simp: rate_limited_def refl split: sum.split admission.split prod.split
      intro: before_keeps body_keeps)

end

lemma rate_limited_limiter_ok:
  assumes "limiter_ok (rate_limit_max_buckets E) (sy_limiter s)" and "1 \<le> rate_limit_max_buckets E"
  shows "limiter_ok (rate_limit_max_buckets E)
    (sy_limiter (snd (rate_limited E category now front body s)))"
  using assms limiter_check_ok [OF assms, of "category_limits E" category _ now]
  by (auto simp: rate_limited_def split: sum.split admission.split prod.split)
    (metis snd_conv)+

text \<open>An exception leaves the database as it was, whatever raised it.\<close>

lemma rate_limited_rollback:
  "rate_limited E category now front body s = (Inl e, s') \<Longrightarrow> sy_db s' = sy_db s"
  by (auto simp: rate_limited_def split: sum.splits admission.splits prod.splits)

lemma rate_limited_result:
  "rate_limited E category now front body s = (Inr a, s') \<Longrightarrow>
    front (sy_db s) = Inr (Answer a (sy_db s')) \<or>
    (\<exists>identity p. front (sy_db s) = Inr (Proceed identity p) \<and>
       body p (sy_db s) = Inr (a, sy_db s'))"
  by (auto simp: rate_limited_def split: sum.splits admission.splits prod.splits)

lemma rate_limited_db:
  "sy_db (snd (rate_limited E category now front body s)) = sy_db s \<or>
   (\<exists>a. front (sy_db s) = Inr (Answer a (sy_db (snd (rate_limited E category now front body s))))) \<or>
   (\<exists>a identity p. front (sy_db s) = Inr (Proceed identity p) \<and>
      body p (sy_db s) = Inr (a, sy_db (snd (rate_limited E category now front body s))))"
  by (auto simp: rate_limited_def split: sum.split admission.split prod.split)

lemma transaction_db:
  "sy_db (snd (transaction body s)) = sy_db s \<or>
   (\<exists>a. body (sy_db s) = Inr (a, sy_db (snd (transaction body s))))"
  by (auto simp: transaction_def split: sum.split)

lemma transaction_limiter [simp]: "sy_limiter (snd (transaction body s)) = sy_limiter s"
  by (auto simp: transaction_def split: sum.split)

end
