(* ===== verification/Tools.thy ===== *)
theory Tools
  imports Scopes
begin

text \<open>
  \<open>services/tool_registry.py\<close>: the registry of protected tools, their executors on the
  simulated service state, the recovery contracts they build and the postcondition check.  An
  executor maps the rows of \<open>service_state\<close> to its JSON result and the new rows; \<open>clk i\<close> is its
  \<open>i\<close>-th reading of \<open>utcnow()\<close>.
\<close>

type_synonym services = "service_state list"
type_synonym clock = "nat \<Rightarrow> time"

definition service_key :: "service_state \<Rightarrow> ident \<times> string" where
  "service_key s = (sv_run_id s, sv_service_name s)"

definition get_service :: "ident \<Rightarrow> string \<Rightarrow> services \<Rightarrow> service_state option" where
  "get_service run_id name rows = lookup service_key (run_id, name) rows"

definition fresh_service :: "ident \<Rightarrow> string \<Rightarrow> string \<Rightarrow> time \<Rightarrow> service_state" where
  "fresh_service run_id name default_status now =
    \<lparr>sv_run_id = run_id, sv_service_name = name, sv_status = default_status,
     sv_restart_count = 0, sv_pool_reset_count = 0, sv_last_action_id = None,
     sv_updated_at = now\<rparr>"

text \<open>\<open>_state\<close>: the row of a service, inserted with its default when it is absent.\<close>

definition ensure_state ::
    "time \<Rightarrow> ident \<Rightarrow> string \<Rightarrow> string \<Rightarrow> services \<Rightarrow> service_state \<times> services" where
  "ensure_state now run_id name default_status rows =
    (case get_service run_id name rows of
       Some s \<Rightarrow> (s, rows)
     | None \<Rightarrow> (let s = fresh_service run_id name default_status now in (s, rows @ [s])))"

definition put_service :: "service_state \<Rightarrow> services \<Rightarrow> services" where
  "put_service s rows = revise service_key (service_key s) (\<lambda>_. s) rows"

section \<open>Executors\<close>

definition exec_read_metrics ::
    "clock \<Rightarrow> ident \<Rightarrow> ident \<Rightarrow> fields \<Rightarrow> services \<Rightarrow> json \<times> services" where
  "exec_read_metrics clk run_id action_id arguments rows =
    (JObj [(''services'', JArr (map (\<lambda>s. JObj
        [(''service'', JStr (sv_service_name s)), (''status'', JStr (sv_status s)),
         (''restart_count'', JInt (sv_restart_count s)),
         (''pool_reset_count'', JInt (sv_pool_reset_count s))])
      (filter (\<lambda>s. sv_run_id s = run_id) rows)))], rows)"

definition exec_restart_postgres ::
    "clock \<Rightarrow> ident \<Rightarrow> ident \<Rightarrow> fields \<Rightarrow> services \<Rightarrow> json \<times> services" where
  "exec_restart_postgres clk run_id action_id arguments rows =
    (let (state, rows1) = ensure_state (clk 0) run_id ''postgres'' ''healthy'' rows;
         state' = state\<lparr>sv_restart_count := sv_restart_count state + 1, sv_status := ''healthy'',
                        sv_last_action_id := Some action_id, sv_updated_at := clk 1\<rparr>
     in (JObj [(''service'', JStr ''postgres''), (''status'', JStr ''healthy''),
               (''restart_count'', JInt (sv_restart_count state'))],
         put_service state' rows1))"

definition exec_reset_redis_pool ::
    "clock \<Rightarrow> ident \<Rightarrow> ident \<Rightarrow> fields \<Rightarrow> services \<Rightarrow> json \<times> services" where
  "exec_reset_redis_pool clk run_id action_id arguments rows =
    (let (redis, rows1) = ensure_state (clk 0) run_id ''redis'' ''connection_pool_exhausted'' rows;
         redis' = redis\<lparr>sv_pool_reset_count := sv_pool_reset_count redis + 1,
                        sv_status := ''healthy'', sv_last_action_id := Some action_id,
                        sv_updated_at := clk 1\<rparr>;
         rows2 = put_service redis' rows1;
         (checkout, rows3) = ensure_state (clk 2) run_id ''checkout'' ''degraded'' rows2;
         checkout' = checkout\<lparr>sv_status := ''healthy'', sv_last_action_id := Some action_id,
                              sv_updated_at := clk 3\<rparr>
     in (JObj [(''service'', JStr ''redis''), (''status'', JStr ''healthy''),
               (''pool_reset_count'', JInt (sv_pool_reset_count redis')),
               (''checkout_status'', JStr ''healthy'')],
         put_service checkout' rows3))"

section \<open>Recovery contracts\<close>

definition postcondition :: "string \<Rightarrow> string \<Rightarrow> json \<Rightarrow> bool \<Rightarrow> recovery_postcondition" where
  "postcondition service fld expected causal =
    \<lparr>pcd_service_name = service, pcd_field = fld, pcd_operator = ''equals'',
     pcd_expected = expected, pcd_require_recovery_action = causal\<rparr>"

definition tool_contract ::
    "env \<Rightarrow> string \<Rightarrow> string list \<Rightarrow> fields \<Rightarrow> int \<Rightarrow> recovery_postcondition list \<Rightarrow> recovery_contract"
where
  "tool_contract E tool_name resources arguments stability posts =
    \<lparr>ct_schema_version = 1, ct_expected_tool = Some tool_name,
     ct_expected_arguments_digest = payload_digest E (JObj arguments),
     ct_allowed_environment = environment E, ct_allowed_resources = sort resources,
     ct_max_committed_invocations = 1, ct_stability_window_seconds = stability,
     ct_postconditions = posts\<rparr>"

type_synonym contract_builder =
  "clock \<Rightarrow> ident \<Rightarrow> services \<Rightarrow> recovery_postcondition list \<times> services"

definition restart_postgres_contract :: contract_builder where
  "restart_postgres_contract clk run_id rows =
    (let (postgres, rows1) = ensure_state (clk 0) run_id ''postgres'' ''healthy'' rows
     in ([postcondition ''postgres'' ''status'' (JStr ''healthy'') True,
          postcondition ''postgres'' ''restart_count'' (JInt (sv_restart_count postgres + 1)) True],
         rows1))"

definition reset_redis_contract :: contract_builder where
  "reset_redis_contract clk run_id rows =
    (let (redis, rows1) = ensure_state (clk 0) run_id ''redis'' ''connection_pool_exhausted'' rows;
         (_, rows2) = ensure_state (clk 1) run_id ''checkout'' ''degraded'' rows1;
         (postgres, rows3) = ensure_state (clk 2) run_id ''postgres'' ''healthy'' rows2
     in ([postcondition ''redis'' ''status'' (JStr ''healthy'') True,
          postcondition ''redis'' ''pool_reset_count'' (JInt (sv_pool_reset_count redis + 1)) True,
          postcondition ''checkout'' ''status'' (JStr ''healthy'') True,
          postcondition ''postgres'' ''restart_count'' (JInt (sv_restart_count postgres)) False],
         rows3))"

section \<open>The registry\<close>

record tool_spec =
  ts_name :: string
  ts_capability :: string
  ts_side_effecting :: bool
  ts_allowed_argument_keys :: "string list"
  ts_resources :: "string list"
  ts_executor :: "clock \<Rightarrow> ident \<Rightarrow> ident \<Rightarrow> fields \<Rightarrow> services \<Rightarrow> json \<times> services"
  ts_recommended_replacement_role :: "string option"
  ts_contract_builder :: "contract_builder option"

definition read_metrics_spec :: tool_spec where
  "read_metrics_spec =
    \<lparr>ts_name = ''read_metrics'', ts_capability = ''tool:read_metrics'',
     ts_side_effecting = False, ts_allowed_argument_keys = [], ts_resources = [''metrics''],
     ts_executor = exec_read_metrics, ts_recommended_replacement_role = None,
     ts_contract_builder = None\<rparr>"

definition restart_postgres_spec :: tool_spec where
  "restart_postgres_spec =
    \<lparr>ts_name = ''restart_postgres'', ts_capability = ''tool:restart_postgres'',
     ts_side_effecting = True, ts_allowed_argument_keys = [], ts_resources = [''postgres''],
     ts_executor = exec_restart_postgres,
     ts_recommended_replacement_role = Some ''postgres_recovery'',
     ts_contract_builder = Some restart_postgres_contract\<rparr>"

definition reset_redis_pool_spec :: tool_spec where
  "reset_redis_pool_spec =
    \<lparr>ts_name = ''reset_redis_pool'', ts_capability = ''tool:reset_redis_pool'',
     ts_side_effecting = True, ts_allowed_argument_keys = [],
     ts_resources = [''checkout'', ''postgres'', ''redis''],
     ts_executor = exec_reset_redis_pool,
     ts_recommended_replacement_role = Some ''redis_recovery'',
     ts_contract_builder = Some reset_redis_contract\<rparr>"

definition tool_registry :: "(string \<times> tool_spec) list" where
  "tool_registry =
    [(''read_metrics'', read_metrics_spec),
     (''restart_postgres'', restart_postgres_spec),
     (''reset_redis_pool'', reset_redis_pool_spec)]"

definition get_tool_spec :: "string \<Rightarrow> error + tool_spec" where
  "get_tool_spec tool_name =
    demand (map_of tool_registry tool_name) (conflict_error ''UNSUPPORTED_TOOL'')"

definition validate_arguments :: "tool_spec \<Rightarrow> fields \<Rightarrow> error + unit" where
  "validate_arguments spec arguments =
    require (set (map fst arguments) \<subseteq> set (ts_allowed_argument_keys spec))
      (conflict_error ''INVALID_TOOL_ARGUMENTS'')"

definition execute_tool ::
    "tool_spec \<Rightarrow> clock \<Rightarrow> ident \<Rightarrow> ident \<Rightarrow> fields \<Rightarrow> services \<Rightarrow> error + (json \<times> services)" where
  "execute_tool spec clk run_id action_id arguments rows =
    andthen (validate_arguments spec arguments) (\<lambda>_.
    Inr (ts_executor spec clk run_id action_id arguments rows))"

definition build_recovery_contract ::
    "env \<Rightarrow> tool_spec \<Rightarrow> clock \<Rightarrow> ident \<Rightarrow> fields \<Rightarrow> int \<Rightarrow> services \<Rightarrow> recovery_contract \<times> services" where
  "build_recovery_contract E spec clk run_id arguments stability rows =
    (case ts_contract_builder spec of
       None \<Rightarrow> (tool_contract E (ts_name spec) (ts_resources spec) arguments stability [], rows)
     | Some build \<Rightarrow>
         (case build clk run_id rows of
            (posts, rows') \<Rightarrow>
              (tool_contract E (ts_name spec) (ts_resources spec) arguments stability posts, rows')))"

section \<open>Postconditions\<close>

datatype discrepancy =
    Service_Missing string
  | Postcondition_Failed string string
  | Not_Causally_Bound string string
  | Not_Stable string string
  | Discrepancy string

record postcondition_evaluation =
  pe_discrepancies :: "discrepancy list"
  pe_inconsistent :: bool
  pe_incomplete :: bool
  pe_stability_incomplete :: bool

definition service_field :: "service_state \<Rightarrow> string \<Rightarrow> json" where
  "service_field s f =
    (if f = ''status'' then JStr (sv_status s)
     else if f = ''restart_count'' then JInt (sv_restart_count s)
     else if f = ''pool_reset_count'' then JInt (sv_pool_reset_count s)
     else JNull)"

definition check_postcondition ::
    "services \<Rightarrow> ident \<Rightarrow> ident \<Rightarrow> int \<Rightarrow> time \<Rightarrow> recovery_postcondition \<Rightarrow>
     postcondition_evaluation \<Rightarrow> postcondition_evaluation" where
  "check_postcondition rows run_id action_id window stable_before p acc =
    (let name = pcd_service_name p; note = (\<lambda>x. pe_discrepancies acc @ [x]) in
     case get_service run_id name rows of
       None \<Rightarrow> acc\<lparr>pe_discrepancies := note (Service_Missing name), pe_incomplete := True,
                  pe_stability_incomplete := True\<rparr>
     | Some state \<Rightarrow>
         if service_field state (pcd_field p) \<noteq> pcd_expected p then
           acc\<lparr>pe_discrepancies := note (Postcondition_Failed name (pcd_field p)),
               pe_incomplete := True, pe_stability_incomplete := True\<rparr>
         else if pcd_require_recovery_action p \<and> sv_last_action_id state \<noteq> Some action_id then
           acc\<lparr>pe_discrepancies := note (Not_Causally_Bound name (pcd_field p)),
               pe_inconsistent := True\<rparr>
         else if 0 < window \<and> stable_before < sv_updated_at state then
           acc\<lparr>pe_discrepancies := note (Not_Stable name (pcd_field p)),
               pe_stability_incomplete := True\<rparr>
         else acc)"

definition verify_postconditions ::
    "services \<Rightarrow> ident \<Rightarrow> ident \<Rightarrow> recovery_contract \<Rightarrow> time \<Rightarrow> postcondition_evaluation" where
  "verify_postconditions rows run_id action_id contract stable_before =
    fold (check_postcondition rows run_id action_id (ct_stability_window_seconds contract)
            stable_before) (ct_postconditions contract)
      \<lparr>pe_discrepancies = [], pe_inconsistent = False, pe_incomplete = False,
       pe_stability_incomplete = False\<rparr>"

section \<open>Lemmas\<close>

lemma get_tool_spec_returns:
  "get_tool_spec t = Inr spec \<longleftrightarrow>
     t = ''read_metrics'' \<and> spec = read_metrics_spec \<or>
     t = ''restart_postgres'' \<and> spec = restart_postgres_spec \<or>
     t = ''reset_redis_pool'' \<and> spec = reset_redis_pool_spec"
  by (auto simp: get_tool_spec_def outcome tool_registry_def)

lemmas tool_specs = read_metrics_spec_def restart_postgres_spec_def reset_redis_pool_spec_def

lemma get_tool_spec_name: "get_tool_spec t = Inr spec \<Longrightarrow> ts_name spec = t"
  by (auto simp: get_tool_spec_returns tool_specs)

lemma registry_arguments:
  "get_tool_spec t = Inr spec \<Longrightarrow> validate_arguments spec args = Inr u \<longleftrightarrow> args = []"
  by (auto simp: get_tool_spec_returns outcome tool_specs validate_arguments_def)

lemma execute_tool_returns [outcome]:
  "execute_tool spec clk rid aid args rows = Inr r \<longleftrightarrow>
     validate_arguments spec args = Inr () \<and> r = ts_executor spec clk rid aid args rows"
  by (auto simp: execute_tool_def outcome)

lemma get_service_SomeD:
  "get_service rid name rows = Some s \<Longrightarrow>
   s \<in> set rows \<and> sv_run_id s = rid \<and> sv_service_name s = name"
  by (auto simp: get_service_def service_key_def dest: lookup_SomeD)

lemma ensure_state_key:
  "ensure_state now rid name dflt rows = (s, rows') \<Longrightarrow>
   service_key s = (rid, name) \<and> get_service rid name rows' = Some s"
  by (auto simp: ensure_state_def Let_def fresh_service_def service_key_def get_service_def
      lookup_append dest: lookup_SomeD split: option.splits)

lemma ensure_state_others:
  "ensure_state now rid name dflt rows = (s, rows') \<Longrightarrow> (rid', name') \<noteq> (rid, name) \<Longrightarrow>
   get_service rid' name' rows' = get_service rid' name' rows"
  by (auto simp: ensure_state_def Let_def fresh_service_def service_key_def get_service_def
      lookup_append split: option.splits)

lemma get_put_service:
  "get_service rid name (put_service s rows) =
    (if (rid, name) = service_key s
     then map_option (\<lambda>_. s) (get_service rid name rows)
     else get_service rid name rows)"
  by (induction rows) (auto simp: get_service_def put_service_def service_key_def)

lemma ensure_state_checks:
  assumes "ensure_state now rid name dflt rows = (s, rows')"
    and "list_all service_check rows"
    and "dflt \<in> {''healthy'', ''degraded'', ''connection_pool_exhausted''}"
  shows "service_check s" and "list_all service_check rows'"
  using assms
  by (auto simp: ensure_state_def Let_def fresh_service_def service_check_def list_all_iff
      split: option.splits dest!: get_service_SomeD)

lemma put_service_checks:
  "list_all service_check rows \<Longrightarrow> service_check s \<Longrightarrow> list_all service_check (put_service s rows)"
  by (simp add: put_service_def list_all_revise)

lemma map_key_put_service: "map service_key (put_service s rows) = map service_key rows"
  by (induction rows) (auto simp: put_service_def)

lemma ensure_state_distinct:
  assumes "ensure_state now rid name dflt rows = (s, rows')" and "distinct (map service_key rows)"
  shows "distinct (map service_key rows')"
  using assms
  by (auto simp: ensure_state_def Let_def fresh_service_def service_key_def get_service_def
      lookup_None_iff split: option.splits)

text \<open>What every executor and every contract builder of the registry keeps of the service table.\<close>

definition services_ok :: "services \<Rightarrow> bool" where
  "services_ok rows \<longleftrightarrow> list_all service_check rows \<and> distinct (map service_key rows)"

lemma ensure_state_ok:
  assumes "ensure_state now rid name dflt rows = (s, rows')" and "services_ok rows"
    and "dflt \<in> {''healthy'', ''degraded'', ''connection_pool_exhausted''}"
  shows "services_ok rows' \<and> service_check s"
  using ensure_state_checks [OF assms(1) _ assms(3)] ensure_state_distinct [OF assms(1)] assms(2)
  by (simp only: services_ok_def)

lemma put_service_ok: "services_ok rows \<Longrightarrow> service_check s \<Longrightarrow> services_ok (put_service s rows)"
  by (simp add: services_ok_def put_service_checks map_key_put_service)

lemma executor_ok:
  assumes "get_tool_spec t = Inr spec" and ok: "services_ok rows"
    and "ts_executor spec clk rid aid args rows = (res, rows')"
  shows "services_ok rows'"
proof -
  consider (read) "spec = read_metrics_spec" | (restart) "spec = restart_postgres_spec"
    | (reset) "spec = reset_redis_pool_spec"
    using assms(1) by (auto simp: get_tool_spec_returns)
  then show ?thesis
  proof cases
    case read
    then show ?thesis using assms by (simp add: tool_specs exec_read_metrics_def)
  next
    case restart
    obtain s r1 where e: "ensure_state (clk 0) rid ''postgres'' ''healthy'' rows = (s, r1)"
      by fastforce
    with ok have "services_ok r1" "service_check s" using ensure_state_ok by auto
    with restart e assms(3) show ?thesis
      by (auto simp: tool_specs exec_restart_postgres_def service_check_def intro!: put_service_ok)
  next
    case reset
    obtain s r1 where e:
      "ensure_state (clk 0) rid ''redis'' ''connection_pool_exhausted'' rows = (s, r1)"
      by fastforce
    let ?s = "s\<lparr>sv_pool_reset_count := sv_pool_reset_count s + 1, sv_status := ''healthy'',
               sv_last_action_id := Some aid, sv_updated_at := clk 1\<rparr>"
    obtain c r3 where f:
      "ensure_state (clk 2) rid ''checkout'' ''degraded'' (put_service ?s r1) = (c, r3)"
      by fastforce
    have 1: "services_ok r1" "service_check s" using ensure_state_ok [OF e ok] by auto
    then have "services_ok (put_service ?s r1)"
      by (auto simp: service_check_def intro!: put_service_ok)
    with f have "services_ok r3" "service_check c" using ensure_state_ok by auto
    with reset e f assms(3) show ?thesis
      by (auto simp: tool_specs exec_reset_redis_pool_def Let_def service_check_def
          intro!: put_service_ok)
  qed
qed

lemma restart_contract_ok:
  assumes "services_ok rows" and "restart_postgres_contract clk rid rows = (posts, rows')"
  shows "services_ok rows'"
  using assms(2) ensure_state_ok [OF _ assms(1)]
  by (simp add: restart_postgres_contract_def split: prod.splits)

lemma reset_contract_ok:
  assumes ok: "services_ok rows" and "reset_redis_contract clk rid rows = (posts, rows')"
  shows "services_ok rows'"
proof -
  obtain redis r1 checkout r2 pg where e:
    "ensure_state (clk 0) rid ''redis'' ''connection_pool_exhausted'' rows = (redis, r1)"
    "ensure_state (clk 1) rid ''checkout'' ''degraded'' r1 = (checkout, r2)"
    "ensure_state (clk 2) rid ''postgres'' ''healthy'' r2 = (pg, rows')"
    using assms(2) by (auto simp: reset_redis_contract_def split: prod.splits)
  from ensure_state_ok [OF e(1) ok] have "services_ok r1" by simp
  from ensure_state_ok [OF e(2) this] have "services_ok r2" by simp
  from ensure_state_ok [OF e(3) this] show ?thesis by simp
qed

lemma contract_rows_ok:
  assumes "get_tool_spec t = Inr spec" and ok: "services_ok rows"
    and "build_recovery_contract E spec clk rid args st rows = (c, rows')"
  shows "services_ok rows'"
proof -
  have b: "ts_contract_builder spec \<in>
      {None, Some restart_postgres_contract, Some reset_redis_contract}"
    using assms(1) unfolding get_tool_spec_returns by (elim disjE conjE) (simp_all add: tool_specs)
  then show ?thesis
    using assms(3) restart_contract_ok [OF ok] reset_contract_ok [OF ok] ok
    by (elim insertE) (simp_all add: build_recovery_contract_def split: prod.splits)
qed

end
