(* ===== verification/Runs.thy ===== *)
theory Runs
  imports Transactions Tools
begin

text \<open>
  \<open>services/run_lifecycle.py\<close> and \<open>services/run_service.py\<close>: the state machine of a run, the
  creation of a run with its two scopes and its root node, and the listing of runs.
\<close>

section \<open>The run state machine\<close>

fun run_state_transitions :: "run_status \<Rightarrow> run_status list" where
  "run_state_transitions Run_Created = [Run_Running, Run_Cancelled, Run_Failed]"
| "run_state_transitions Run_Running = [Run_Completed, Run_Cancelled, Run_Failed]"
| "run_state_transitions Run_Completed = []"
| "run_state_transitions Run_Cancelled = []"
| "run_state_transitions Run_Failed = []"

definition is_terminal :: "run_status \<Rightarrow> bool" where
  "is_terminal st \<longleftrightarrow> st \<in> {Run_Completed, Run_Cancelled, Run_Failed}"

text \<open>The conditional \<open>UPDATE\<close>: the source status and the unset end are part of its predicate.\<close>

definition transition_matches :: "run \<Rightarrow> run \<Rightarrow> bool" where
  "transition_matches run row \<longleftrightarrow>
     r_id row = r_id run \<and> r_status row = r_status run \<and> r_finished_at row = None"

definition transition_run :: "run \<Rightarrow> run_status \<Rightarrow> time \<Rightarrow> db \<Rightarrow> error + db" where
  "transition_run run target finished_at d =
    andthen (require (target \<in> set (run_state_transitions (r_status run)))
      (conflict_error (if is_terminal (r_status run) then ''RUN_TERMINAL_STATE''
                       else ''RUN_TRANSITION_INVALID''))) (\<lambda>_.
    andthen (require (length (filter (transition_matches run) (db_runs d)) = 1)
      (conflict_error ''RUN_TERMINAL_STATE'')) (\<lambda>_.
    Inr (db_runs_update
      (map (\<lambda>row. if transition_matches run row
          then row\<lparr>r_status := target,
                   r_finished_at := (if is_terminal target then Some finished_at else None)\<rparr>
          else row)) d)))"

section \<open>Creating a run\<close>

record run_created =
  rcd_run_id :: ident
  rcd_root_node_id :: ident
  rcd_root_token :: string
  rcd_status :: run_status

definition known_capabilities :: "string list" where
  "known_capabilities =
    [''control:descendants'', ''tool:propose_correction''] @ map (ts_capability \<circ> snd) tool_registry"

definition active_run_count :: "db \<Rightarrow> int" where
  "active_run_count d =
    int (length (filter (\<lambda>r. r_status r \<in> {Run_Created, Run_Running}) (db_runs d)))"

definition new_scope :: "ident \<Rightarrow> ident \<Rightarrow> ident option \<Rightarrow> time \<Rightarrow> control_scope" where
  "new_scope scope_id run_id owner now =
    \<lparr>sc_id = scope_id, sc_run_id = run_id, sc_owner_node_id = owner, sc_version = 1,
     sc_status = Scope_Active, sc_updated_by_node_id = None, sc_reason_code = None,
     sc_updated_at = now\<rparr>"

definition lease_until :: "env \<Rightarrow> time \<Rightarrow> time" where
  "lease_until E now = now + seconds (lease_ttl_seconds E)"

definition utc_text :: "time \<Rightarrow> string" where
  "utc_text t = isoformat t @ ''Z''"

definition root_node ::
    "env \<Rightarrow> run_create \<Rightarrow> string \<Rightarrow> time \<Rightarrow> ident \<Rightarrow> ident \<Rightarrow> ident \<Rightarrow> ident \<Rightarrow> node" where
  "root_node E request root_token now run_id root_node_id run_scope_id root_scope_id =
    \<lparr>n_id = root_node_id, n_run_id = run_id, n_parent_id = None, n_supersedes_node_id = None,
     n_caused_by_command_id = None, n_role = rc_root_role request,
     n_behavior = ''cooperative'', n_generation = 0, n_lineage_path = ''/'',
     n_status = Node_Active, n_own_scope_id = root_scope_id,
     n_scope_snapshot = [(run_scope_id, 1), (root_scope_id, 1)],
     n_instruction_version = 1, n_instruction = rc_root_instruction request,
     n_capabilities = sort (remdups (rc_root_capabilities request)),
     n_token_hash = Some (hash_token E root_token), n_registered_at = now,
     n_activated_at = Some now, n_completed_at = None, n_last_heartbeat_at = Some now,
     n_lease_expires_at = Some (lease_until E now), n_process_id = None\<rparr>"

definition run_created_events ::
    "env \<Rightarrow> run_create \<Rightarrow> time \<Rightarrow> ident \<Rightarrow> ident \<Rightarrow> ident \<Rightarrow> runtime_event list" where
  "run_created_events E request now run_id root_node_id root_scope_id =
    [(blank_event run_id ''RUN_CREATED'' now)
       \<lparr>e_metadata := JObj [(''name'', JStr (rc_name request)), (''status'', JStr ''RUNNING'')]\<rparr>,
     (blank_event run_id ''NODE_REGISTERED'' now)
       \<lparr>e_node_id := Some root_node_id, e_scope_id := Some root_scope_id,
        e_snapshot_version := Some 1, e_authoritative_version := Some 1,
        e_metadata := JObj [(''role'', JStr (rc_root_role request)), (''generation'', JInt 0)]\<rparr>,
     (blank_event run_id ''NODE_ACTIVATED'' now)
       \<lparr>e_node_id := Some root_node_id,
        e_metadata := JObj [(''role'', JStr (rc_root_role request))]\<rparr>,
     (blank_event run_id ''LEASE_GRANTED'' now)
       \<lparr>e_node_id := Some root_node_id,
        e_metadata := JObj [(''lease_expires_at'', JStr (utc_text (lease_until E now)))]\<rparr>]"

definition create_run :: "env \<Rightarrow> run_create \<Rightarrow> string \<Rightarrow> time \<Rightarrow> run_created tx" where
  "create_run E request root_token now d =
    andthen (require (set (rc_root_capabilities request) \<subseteq> set known_capabilities)
      (conflict_error ''UNKNOWN_CAPABILITY'')) (\<lambda>_.
    let run_id = uuid E ''runs'' (length (db_runs d));
        root_node_id = uuid E ''nodes'' (length (db_nodes d));
        run_scope_id = uuid E ''control_scopes'' (length (db_scopes d));
        root_scope_id = uuid E ''control_scopes'' (length (db_scopes d) + 1);
        run = \<lparr>r_id = run_id, r_name = rc_name request, r_status = Run_Running,
               r_root_node_id = root_node_id, r_run_scope_id = run_scope_id,
               r_created_at = now, r_finished_at = None, r_proof_revision = 0\<rparr>
    in
    andthen (require (active_run_count d < max_active_runs E)
      (conflict_error ''ACTIVE_RUN_QUOTA_EXCEEDED'')) (\<lambda>_.
    let d1 = db_runs_update (\<lambda>rs. rs @ [run]) d;
        d2 = db_scopes_update (\<lambda>rs. rs @ [new_scope run_scope_id run_id None now,
               new_scope root_scope_id run_id (Some root_node_id) now]) d1;
        d3 = db_nodes_update (\<lambda>rs. rs @ [root_node E request root_token now run_id root_node_id
               run_scope_id root_scope_id]) d2;
        d4 = fold record_runtime_event
               (run_created_events E request now run_id root_node_id root_scope_id) d3
    in Inr (\<lparr>rcd_run_id = run_id, rcd_root_node_id = root_node_id, rcd_root_token = root_token,
             rcd_status = Run_Running\<rparr>, d4)))"

text \<open>The page of runs, newest first; ties keep the order of insertion.\<close>

definition run_summary :: "run \<Rightarrow> json" where
  "run_summary r =
    JObj [(''id'', JStr (r_id r)), (''name'', JStr (r_name r)),
          (''status'', JStr (run_status_value (r_status r))),
          (''root_node_id'', JStr (r_root_node_id r)),
          (''created_at'', jopt JStr (iso_utc (Some (r_created_at r)))),
          (''finished_at'', jopt JStr (iso_utc (r_finished_at r)))]"

definition page :: "nat \<Rightarrow> nat \<Rightarrow> 'r list \<Rightarrow> 'r list" where
  "page limit offset rows = take limit (drop offset rows)"

definition list_runs :: "nat \<Rightarrow> nat \<Rightarrow> db \<Rightarrow> json list" where
  "list_runs limit offset d =
    map run_summary (page limit offset (sort_key (\<lambda>r. - r_created_at r) (db_runs d)))"

section \<open>Lemmas on the state machine\<close>

lemma case_pair_returns: "(case p of (a, b) \<Rightarrow> f a b) = y \<longleftrightarrow> (\<exists>a b. p = (a, b) \<and> f a b = y)"
  by (cases p) simp

lemma is_terminal_iff: "is_terminal st \<longleftrightarrow> st \<in> terminal_run_states"
  by (simp add: is_terminal_def terminal_run_states_def)

lemma transitions_source: "target \<in> set (run_state_transitions st) \<Longrightarrow> \<not> is_terminal st"
  by (cases st) (simp_all add: is_terminal_def)

lemma transitions_target: "target \<in> set (run_state_transitions st) \<Longrightarrow> target \<noteq> Run_Created"
  by (cases st) auto

lemma transition_run_returns [outcome]:
  "transition_run run target fin d = Inr d' \<longleftrightarrow>
     target \<in> set (run_state_transitions (r_status run)) \<and>
     length (filter (transition_matches run) (db_runs d)) = 1 \<and>
     d' = db_runs_update (map (\<lambda>row. if transition_matches run row
          then row\<lparr>r_status := target,
                   r_finished_at := (if is_terminal target then Some fin else None)\<rparr>
          else row)) d"
  by (auto simp: transition_run_def outcome)

lemma transition_run_advances:
  assumes "transition_run run target fin d = Inr d'"
  shows "advances E d d'"
proof (rule advances_step)
  show "evolves d d'"
    using assms unfolding transition_run_returns
    by (auto simp: evolves_def keeps_rows_refl run_step_def transition_matches_def
        is_terminal_iff [symmetric] dest: transitions_source transitions_target
        intro!: keeps_rows_map)
qed (use assms in \<open>auto simp: outcome\<close>)

lemmas transition_run_then = transition_run_advances [THEN db_advance.trans [rotated]]

lemma transition_run_tables:
  assumes "transition_run run target fin d = Inr d'"
  shows "db_nodes d' = db_nodes d" "db_scopes d' = db_scopes d" "db_commands d' = db_commands d"
    "db_actions d' = db_actions d" "db_acks d' = db_acks d" "db_events d' = db_events d"
    "db_services d' = db_services d" "db_intents d' = db_intents d"
    "db_proposals d' = db_proposals d" "db_envelopes d' = db_envelopes d"
    "db_matches d' = db_matches d" "db_violations d' = db_violations d" "db_outbox d' = db_outbox d"
  using assms by (auto simp: outcome)

lemma lookup_map_keyed:
  assumes "\<And>r. key (f r) = key r"
  shows "lookup key k (map f rows) = map_option f (lookup key k rows)"
  using assms by (induction rows) auto

lemma transition_run_row:
  assumes "transition_run run target fin d = Inr d'"
  shows "get_run_row k d' = map_option (\<lambda>row. if transition_matches run row
      then row\<lparr>r_status := target,
               r_finished_at := (if is_terminal target then Some fin else None)\<rparr>
      else row) (get_run_row k d)"
  using assms by (auto simp: outcome get_run_row_def intro: lookup_map_keyed)

lemma transition_run_checks:
  "transition_run run target fin d = Inr d' \<Longrightarrow> list_all run_check (db_runs d) \<Longrightarrow>
   list_all run_check (db_runs d')"
  unfolding transition_run_returns
  by (cases target)
    (auto simp: list_all_iff run_check_def is_terminal_def terminal_run_states_def
      dest: transitions_target)

text \<open>A transition is refused from a terminal state, with the error that says so.\<close>

lemma transition_run_terminal:
  "is_terminal (r_status run) \<Longrightarrow>
   transition_run run target fin d = Inl (conflict_error ''RUN_TERMINAL_STATE'')"
  using transitions_source by (fastforce simp: transition_run_def require_def)

section \<open>Lemmas on a new run\<close>

lemma fold_events_tables [simp]:
  "db_runs (fold record_runtime_event es d) = db_runs d"
  "db_nodes (fold record_runtime_event es d) = db_nodes d"
  "db_scopes (fold record_runtime_event es d) = db_scopes d"
  "db_intents (fold record_runtime_event es d) = db_intents d"
  "db_envelopes (fold record_runtime_event es d) = db_envelopes d"
  "db_proposals (fold record_runtime_event es d) = db_proposals d"
  "db_commands (fold record_runtime_event es d) = db_commands d"
  "db_acks (fold record_runtime_event es d) = db_acks d"
  "db_actions (fold record_runtime_event es d) = db_actions d"
  "db_matches (fold record_runtime_event es d) = db_matches d"
  "db_violations (fold record_runtime_event es d) = db_violations d"
  "db_outbox (fold record_runtime_event es d) = db_outbox d"
  "db_services (fold record_runtime_event es d) = db_services d"
  by (induction es arbitrary: d) simp_all

lemma fold_events_advances [evolution]:
  "advances E d0 d \<Longrightarrow> advances E d0 (fold record_runtime_event es d)"
  by (erule db_advance.trans) (rule db_advance.fold_related, intro evolution)

lemma create_run_tables:
  assumes "create_run E request token now d = Inr (res, d')"
  shows "db_actions d' = db_actions d" "db_commands d' = db_commands d"
    "db_acks d' = db_acks d" "db_services d' = db_services d" "db_intents d' = db_intents d"
    "db_proposals d' = db_proposals d" "db_envelopes d' = db_envelopes d"
  using assms by (auto simp: create_run_def outcome Let_def)

lemma create_run_advances:
  assumes "create_run E request token now d = Inr (res, d')"
  shows "advances E d d'"
  using assms
  by (auto simp: create_run_def outcome Let_def root_node_def new_scope_def intro!: evolution)

end
