(* ===== verification/Authority.thy ===== *)
theory Authority
  imports Scopes
begin

text \<open>
  \<open>services/authority_service.py\<close>: who may issue which command.  The decision is the pair of
  the outcome and its reason code, taken in the order of the code's returns.
\<close>

definition may_issue_command ::
    "principal \<Rightarrow> node option \<Rightarrow> node \<Rightarrow> run \<Rightarrow> command_type \<Rightarrow> bool \<Rightarrow> bool \<times> string" where
  "may_issue_command who issuer_node target run command_type target_is_descendant =
    (if n_run_id target \<noteq> r_id run then (False, ''CROSS_RUN_CONTROL_DENIED'')
     else if command_type = Cancel_Run \<and> n_id target \<noteq> r_root_node_id run
       then (False, ''RUN_CANCELLATION_TARGET_MUST_BE_ROOT'')
     else if pl_issuer_type who = Human then (True, ''HUMAN_OPERATOR'')
     else (case issuer_node of
         None \<Rightarrow> (False, ''ISSUER_NODE_REQUIRED'')
       | Some issuer \<Rightarrow>
           if n_run_id issuer \<noteq> r_id run then (False, ''CROSS_RUN_CONTROL_DENIED'')
           else (let is_root = (n_id issuer = r_root_node_id run) in
             if command_type = Cancel_Run then
               (if \<not> is_root then (False, ''RUN_CANCELLATION_REQUIRES_ROOT'')
                else (True, ''ROOT_COORDINATOR''))
             else if is_root then (True, ''ROOT_COORDINATOR'')
             else if ''control:descendants'' \<notin> set (n_capabilities issuer)
               then (False, ''CONTROL_CAPABILITY_REQUIRED'')
             else if target_is_descendant then (True, ''AUTHORIZED_ANCESTOR'')
             else (False, ''NON_DESCENDANT_TARGET''))))"

text \<open>The policy the table implements, independent of the order of its tests.\<close>

definition authorised_issuer :: "node \<Rightarrow> run \<Rightarrow> command_type \<Rightarrow> bool \<Rightarrow> bool" where
  "authorised_issuer issuer run command_type descendant \<longleftrightarrow>
     n_run_id issuer = r_id run \<and>
     (n_id issuer = r_root_node_id run \<or>
      command_type \<noteq> Cancel_Run \<and> ''control:descendants'' \<in> set (n_capabilities issuer) \<and>
      descendant)"

lemma may_issue_command_iff:
  "fst (may_issue_command who issuer_node target run ty desc) \<longleftrightarrow>
     n_run_id target = r_id run \<and>
     (ty = Cancel_Run \<longrightarrow> n_id target = r_root_node_id run) \<and>
     (pl_issuer_type who = Human \<or>
      (\<exists>issuer. issuer_node = Some issuer \<and> authorised_issuer issuer run ty desc))"
  by (cases "pl_issuer_type who")
    (auto simp: may_issue_command_def authorised_issuer_def Let_def split: option.split)

end
