(* ===== verification/Proposals.thy ===== *)
theory Proposals
  imports Transactions Runs
begin

text \<open>
  \<open>services/proposal_service.py\<close>: a live node with the capability proposes a correction or a
  cancellation, an operator reviews it once, and acceptance binds the exact command that may be
  issued by the digests of the proposal and of the authorised command.
\<close>

section \<open>Creating a proposal\<close>

definition proposal_payload :: "proposal \<Rightarrow> json" where
  "proposal_payload p =
    JObj [(''id'', JStr (p_id p)), (''run_id'', JStr (p_run_id p)),
          (''reporter_node_id'', JStr (p_reporter_node_id p)),
          (''target_node_id'', JStr (p_target_node_id p)),
          (''proposal_type'', JStr (proposal_type_value (p_proposal_type p))),
          (''evidence'', JObj (p_evidence p)), (''reason'', JStr (p_reason p)),
          (''created_at'', JTime (p_created_at p))]"

definition node_identity :: "node \<Rightarrow> string" where
  "node_identity n = n_run_id n @ '':'' @ n_id n"

definition create_before :: "env \<Rightarrow> ident \<Rightarrow> string \<Rightarrow> db \<Rightarrow> error + (proposal, node) admission" where
  "create_before E reporter_node_id reporter_token d =
    andthen (authenticate_node E reporter_node_id reporter_token d) (\<lambda>reporter.
    Inr (Proceed (node_identity reporter) reporter))"

definition proposal_count :: "ident \<Rightarrow> db \<Rightarrow> int" where
  "proposal_count run_id d = int (length (filter (\<lambda>p. p_run_id p = run_id) (db_proposals d)))"

definition create_body :: "env \<Rightarrow> clock \<Rightarrow> proposal_create \<Rightarrow> node \<Rightarrow> proposal tx" where
  "create_body E clk request reporter d =
    andthen (validate_node_runtime_state (clk 0) reporter d) (\<lambda>(allowed, reason, _).
    andthen (require allowed (conflict_error (case reason of None \<Rightarrow> ''REPORTER_NOT_LIVE''
                                                | Some code \<Rightarrow> code))) (\<lambda>_.
    andthen (require (''tool:propose_correction'' \<in> set (n_capabilities reporter))
      authorization_error) (\<lambda>_.
    andthen (get_node (pc_target_node_id request) d) (\<lambda>target.
    andthen (require (n_run_id reporter = n_run_id target) authorization_error) (\<lambda>_.
    andthen (require (proposal_count (n_run_id reporter) d < max_proposals_per_run E)
      (conflict_error ''RUN_PROPOSAL_QUOTA_EXCEEDED'')) (\<lambda>_.
    let p = \<lparr>p_id = uuid E ''correction_proposals'' (length (db_proposals d)),
             p_run_id = n_run_id reporter, p_reporter_node_id = n_id reporter,
             p_target_node_id = n_id target, p_proposal_type = pc_proposal_type request,
             p_evidence = pc_evidence request, p_reason = pc_reason request,
             p_status = Prop_Pending, p_reviewed_by_node_id = None,
             p_reviewed_by_principal = None, p_accepted_payload_digest = None,
             p_authorized_command = None, p_authorized_command_digest = None,
             p_resulting_command_id = None, p_reviewed_at = None, p_created_at = clk 1\<rparr>
    in Inr (p, db_proposals_update (\<lambda>ps. ps @ [p]) d)))))))"

definition create_proposal ::
    "env \<Rightarrow> clock \<Rightarrow> rat \<Rightarrow> ident \<Rightarrow> string \<Rightarrow> proposal_create \<Rightarrow> sys \<Rightarrow> (error + proposal) \<times> sys" where
  "create_proposal E clk tick reporter_node_id reporter_token request =
    rate_limited E ''command'' tick (create_before E reporter_node_id reporter_token)
      (create_body E clk request)"

section \<open>Reviewing a proposal\<close>

definition expected_command_type :: "proposal_type \<Rightarrow> command_type" where
  "expected_command_type t = (if t = Prop_Correct then Correct_Subtree else Cancel_Subtree)"

definition authorized_payload :: "proposal_review \<Rightarrow> proposal \<Rightarrow> error + json option" where
  "authorized_payload request p =
    (if pr_status request = Prop_Accepted then
       andthen (demand (pr_authorized_command request)
         (conflict_error ''PROPOSAL_AUTHORIZATION_REQUIRED'')) (\<lambda>authorization.
       andthen (require (cb_target_node_id authorization = p_target_node_id p)
         (conflict_error ''PROPOSAL_AUTHORIZATION_TARGET_MISMATCH'')) (\<lambda>_.
       andthen (require (cb_command_type authorization = expected_command_type (p_proposal_type p))
         (conflict_error ''PROPOSAL_AUTHORIZATION_TYPE_MISMATCH'')) (\<lambda>_.
       Inr (Some (JObj (body_fields authorization))))))
     else Inr None)"

definition review_proposal ::
    "env \<Rightarrow> clock \<Rightarrow> ident \<Rightarrow> proposal_review \<Rightarrow> string \<Rightarrow> proposal tx" where
  "review_proposal E clk proposal_id request reviewer_principal d =
    andthen (demand (get_proposal_row proposal_id d) not_found_error) (\<lambda>p.
    andthen (require (p_status p = Prop_Pending) (conflict_error ''PROPOSAL_ALREADY_REVIEWED'')) (\<lambda>_.
    andthen (authorized_payload request p) (\<lambda>authorized.
    let p' = p\<lparr>p_status := pr_status request,
               p_reviewed_by_principal := Some reviewer_principal,
               p_accepted_payload_digest := Some (payload_digest E (proposal_payload p)),
               p_authorized_command := authorized,
               p_authorized_command_digest := map_option (payload_digest E) authorized,
               p_reviewed_at := Some (clk 0)\<rparr>
    in Inr (p', update_proposal proposal_id (\<lambda>_. p') d))))"

section \<open>Listing\<close>

definition proposal_summary :: "proposal \<Rightarrow> json" where
  "proposal_summary p =
    JObj [(''id'', JStr (p_id p)), (''run_id'', JStr (p_run_id p)),
          (''reporter_node_id'', JStr (p_reporter_node_id p)),
          (''target_node_id'', JStr (p_target_node_id p)),
          (''proposal_type'', JStr (proposal_type_value (p_proposal_type p))),
          (''reason'', JStr (p_reason p)), (''evidence'', JObj (p_evidence p)),
          (''status'', JStr (case p_status p of Prop_Pending \<Rightarrow> ''PENDING''
             | Prop_Accepted \<Rightarrow> ''ACCEPTED'' | Prop_Rejected \<Rightarrow> ''REJECTED'')),
          (''reviewed_by_principal'', jopt JStr (p_reviewed_by_principal p)),
          (''reviewed_at'', jopt JTime (p_reviewed_at p)),
          (''authorized_command'', jopt id (p_authorized_command p)),
          (''resulting_command_id'', jopt JStr (p_resulting_command_id p)),
          (''created_at'', JTime (p_created_at p))]"

definition list_proposals :: "ident \<Rightarrow> nat \<Rightarrow> nat \<Rightarrow> db \<Rightarrow> error + json list" where
  "list_proposals run_id limit offset d =
    andthen (get_run run_id d) (\<lambda>_.
    Inr (map proposal_summary (page limit offset
      (sort_key p_created_at (filter (\<lambda>p. p_run_id p = run_id) (db_proposals d))))))"

section \<open>Lemmas\<close>

lemma create_body_returns:
  "create_body E clk request reporter d = Inr (p, d') \<Longrightarrow>
   node_live (clk 0) reporter d \<and>
   ''tool:propose_correction'' \<in> set (n_capabilities reporter) \<and>
   (\<exists>target. get_node_row (pc_target_node_id request) d = Some target \<and>
      n_run_id target = n_run_id reporter \<and> p_target_node_id p = n_id target) \<and>
   proposal_count (n_run_id reporter) d < max_proposals_per_run E \<and>
   p_run_id p = n_run_id reporter \<and> p_reporter_node_id p = n_id reporter \<and>
   p_status p = Prop_Pending \<and> proposal_check p \<and>
   d' = db_proposals_update (\<lambda>ps. ps @ [p]) d"
  unfolding create_body_def live_gate
  by (auto simp: outcome Let_def proposal_check_def)

lemma review_returns [outcome]:
  "review_proposal E clk pid request reviewer d = Inr (p', d') \<longleftrightarrow>
   (\<exists>p authorized. get_proposal_row pid d = Some p \<and> p_status p = Prop_Pending \<and>
      authorized_payload request p = Inr authorized \<and>
      p' = p\<lparr>p_status := pr_status request, p_reviewed_by_principal := Some reviewer,
             p_accepted_payload_digest := Some (payload_digest E (proposal_payload p)),
             p_authorized_command := authorized,
             p_authorized_command_digest := map_option (payload_digest E) authorized,
             p_reviewed_at := Some (clk 0)\<rparr> \<and>
      d' = update_proposal pid (\<lambda>_. p') d)"
  by (auto simp: review_proposal_def outcome Let_def)

lemma authorized_payload_returns [outcome]:
  "authorized_payload request p = Inr authorized \<longleftrightarrow>
    (if pr_status request = Prop_Accepted
     then \<exists>b. pr_authorized_command request = Some b \<and>
        cb_target_node_id b = p_target_node_id p \<and>
        cb_command_type b = expected_command_type (p_proposal_type p) \<and>
        authorized = Some (JObj (body_fields b))
     else authorized = None)"
  by (auto simp: authorized_payload_def outcome)

lemma get_proposal_row_id: "get_proposal_row k d = Some p \<Longrightarrow> p_id p = k"
  by (auto simp: get_proposal_row_def dest: lookup_SomeD)

lemma get_after_review:
  assumes "review_proposal E clk pid request reviewer d = Inr (p', d')"
  shows "get_proposal_row pid d' = Some p'"
proof -
  obtain p where "get_proposal_row pid d = Some p" and d': "d' = update_proposal pid (\<lambda>_. p') d"
    and id: "p_id p' = p_id p"
    using assms by (auto simp: outcome)
  then have p: "lookup p_id pid (db_proposals d) = Some p" "p_id p' = pid"
    by (auto simp: get_proposal_row_def dest: lookup_SomeD)
  have "lookup p_id pid (revise p_id pid (\<lambda>_. p') rows) =
      map_option (\<lambda>_. p') (lookup p_id pid rows)" for rows
    using p(2) by (induction rows) auto
  with p(1) show ?thesis by (simp add: d' get_proposal_row_def update_proposal_def)
qed

lemma review_advances:
  assumes "review_proposal E clk pid request reviewer d = Inr (p', d')"
  shows "advances E d d'"
proof -
  obtain p where p: "get_proposal_row pid d = Some p" and d': "d' = update_proposal pid (\<lambda>_. p') d"
    and kept: "p_id p' = p_id p" "p_resulting_command_id p' = p_resulting_command_id p"
    using assms by (auto simp: outcome)
  show ?thesis
    unfolding d' by (rule advances_update_proposal) (use p kept get_proposal_row_id [OF p] in \<open>auto simp: proposal_step_def\<close>)
qed

interpretation create_handler: kept_by_handler "advances E'" "create_before E k token"
  "create_body E clk request" for E' E k token clk request
proof
  show "advances E' d d'" if "create_before E k token d = Inr (Answer a d')" for d d' a
    using that by (auto simp: create_before_def outcome)
  show "advances E' d d'"
    if "create_before E k token d = Inr (Proceed i p)" and "create_body E clk request p d = Inr (a, d')"
    for d d' i p a
    using create_body_returns [OF that(2)] by (auto intro: evolution)
qed

end
