(* ===== verification/Control.thy ===== *)
theory Control
  imports Transactions Runs Authority Proposals
begin

text \<open>
  \<open>services/control_service.py\<close>: \<open>issue_command\<close>, cut at its stages.  A command is authorised,
  an exact replay is answered, the limiter is consulted; then the issuer's liveness, the run, the
  quota and the source proposal are checked, the replacement manifest of a correction is built,
  its parent is chosen, and the target scope is moved once, with the command that explains it.
  Readings of the clock: 0 for the issuer, 1 to 3 for the contract builder, 4 and 5 for the
  candidate parents, 6 for the scope, 7 for the run, 8 for the command.
\<close>

section \<open>Authorisation and replay\<close>

record command_context =
  cx_target :: node
  cx_run :: run
  cx_issuer :: "node option"
  cx_fingerprint :: string

record command_issued =
  ci_command_id :: ident
  ci_target_scope_id :: ident
  ci_from_version :: int
  ci_to_version :: int
  ci_status :: scope_status
  ci_replacement_parent_id :: "ident option"
  ci_replacement_instruction :: "fields option"
  ci_replacement_expected_tool :: "string option"
  ci_replacement_manifest :: "json option"
  ci_replacement_status :: "replacement_status option"
  ci_duplicate :: bool

definition to_response :: "command \<Rightarrow> bool \<Rightarrow> command_issued" where
  "to_response c duplicate =
    \<lparr>ci_command_id = c_id c, ci_target_scope_id = c_target_scope_id c,
     ci_from_version = c_from_version c, ci_to_version = c_to_version c,
     ci_status = (if c_command_type c = Correct_Subtree then Scope_Superseded else Scope_Cancelled),
     ci_replacement_parent_id = c_replacement_parent_id c,
     ci_replacement_instruction = c_replacement_instruction c,
     ci_replacement_expected_tool = c_replacement_expected_tool c,
     ci_replacement_manifest = c_replacement_manifest c,
     ci_replacement_status = c_replacement_status c, ci_duplicate = duplicate\<rparr>"

definition resolve_issuer ::
    "env \<Rightarrow> principal \<Rightarrow> string option \<Rightarrow> db \<Rightarrow> error + (node option \<times> string)" where
  "resolve_issuer E who node_token d =
    (if pl_issuer_type who = Agent then
       (case (pl_node_id who, node_token) of
          (Some node_id, Some token) \<Rightarrow>
            andthen (authenticate_node E node_id token d) (\<lambda>issuer.
            Inr (Some issuer, ''agent:'' @ n_id issuer))
        | _ \<Rightarrow> Inl authorization_error)
     else
       Inr (None, (case pl_principal_id who of
           Some (c # cs) \<Rightarrow> c # cs
         | _ \<Rightarrow> ''human:operator'')))"

definition authorise_command ::
    "env \<Rightarrow> command_create \<Rightarrow> principal \<Rightarrow> string option \<Rightarrow> db \<Rightarrow> error + command_context" where
  "authorise_command E request who node_token d =
    andthen (get_node (cb_target_node_id (cc_body request)) d) (\<lambda>target.
    andthen (get_run (n_run_id target) d) (\<lambda>run.
    andthen (resolve_issuer E who node_token d) (\<lambda>(issuer, fingerprint).
    let target_is_descendant =
          (case issuer of
             None \<Rightarrow> False
           | Some n \<Rightarrow> n_id n \<noteq> r_root_node_id run \<and> is_descendant d (r_id run) (n_id n) (n_id target))
    in
    andthen (require (fst (may_issue_command who issuer target run
        (cb_command_type (cc_body request)) target_is_descendant)) authorization_error) (\<lambda>_.
    andthen (require (\<not> (n_id target = r_root_node_id run \<and>
        cb_command_type (cc_body request) \<noteq> Cancel_Run))
      (conflict_error ''ROOT_SUBTREE_CONTROL_UNSUPPORTED'')) (\<lambda>_.
    Inr \<lparr>cx_target = target, cx_run = run, cx_issuer = issuer, cx_fingerprint = fingerprint\<rparr>)))))"

definition existing_command :: "ident \<Rightarrow> string \<Rightarrow> string \<Rightarrow> db \<Rightarrow> command option" where
  "existing_command run_id fingerprint key d =
    List.find (\<lambda>c. c_run_id c = run_id \<and> c_issuer_fingerprint c = fingerprint \<and>
      c_idempotency_key c = key) (db_commands d)"

definition request_digest :: "env \<Rightarrow> command_create \<Rightarrow> string" where
  "request_digest E request = payload_digest E (command_create_json request)"

definition issue_before ::
    "env \<Rightarrow> command_create \<Rightarrow> principal \<Rightarrow> string option \<Rightarrow> db \<Rightarrow>
     error + (command_issued, command_context) admission" where
  "issue_before E request who node_token d =
    andthen (authorise_command E request who node_token d) (\<lambda>cx.
    case existing_command (r_id (cx_run cx)) (cx_fingerprint cx) (cc_idempotency_key request) d of
      Some c \<Rightarrow>
        andthen (require (c_request_payload_digest c = request_digest E request)
          (conflict_error ''IDEMPOTENCY_PAYLOAD_MISMATCH'')) (\<lambda>_.
        Inr (Answer (to_response c True) d))
    | None \<Rightarrow>
        Inr (Proceed (case cx_issuer cx of None \<Rightarrow> cx_fingerprint cx
                        | Some n \<Rightarrow> node_identity n) cx))"

section \<open>Preconditions\<close>

definition command_count :: "ident \<Rightarrow> db \<Rightarrow> int" where
  "command_count run_id d = int (length (filter (\<lambda>c. c_run_id c = run_id) (db_commands d)))"

definition check_issue_state :: "env \<Rightarrow> clock \<Rightarrow> command_context \<Rightarrow> db \<Rightarrow> error + unit" where
  "check_issue_state E clk cx d =
    andthen (case cx_issuer cx of
        None \<Rightarrow> Inr ()
      | Some issuer \<Rightarrow>
          andthen (validate_node_runtime_state (clk 0) issuer d) (\<lambda>(allowed, _, _).
          require allowed authorization_error)) (\<lambda>_.
    andthen (require (r_status (cx_run cx) = Run_Running)
      (conflict_error ''RUN_TERMINAL_STATE'')) (\<lambda>_.
    require (command_count (r_id (cx_run cx)) d < max_commands_per_run E)
      (conflict_error ''RUN_COMMAND_QUOTA_EXCEEDED'')))"

definition check_source_proposal ::
    "env \<Rightarrow> command_create \<Rightarrow> command_context \<Rightarrow> db \<Rightarrow> error + proposal option" where
  "check_source_proposal E request cx d =
    (case cc_source_proposal_id request of
       None \<Rightarrow> Inr None
     | Some pid \<Rightarrow>
         andthen (demand (get_proposal_row pid d) (conflict_error ''SOURCE_PROPOSAL_NOT_FOUND'')) (\<lambda>p.
         andthen (require (p_run_id p = r_id (cx_run cx))
           (conflict_error ''SOURCE_PROPOSAL_NOT_FOUND'')) (\<lambda>_.
         andthen (require (p_status p = Prop_Accepted)
           (conflict_error ''SOURCE_PROPOSAL_NOT_ACCEPTED'')) (\<lambda>_.
         andthen (require (p_resulting_command_id p = None)
           (conflict_error ''SOURCE_PROPOSAL_ALREADY_USED'')) (\<lambda>_.
         andthen (require (p_target_node_id p = n_id (cx_target cx))
           (conflict_error ''SOURCE_PROPOSAL_TARGET_MISMATCH'')) (\<lambda>_.
         andthen (require (cb_command_type (cc_body request) =
             expected_command_type (p_proposal_type p))
           (conflict_error ''SOURCE_PROPOSAL_TYPE_MISMATCH'')) (\<lambda>_.
         andthen (require (p_accepted_payload_digest p =
             Some (payload_digest E (proposal_payload p)))
           (conflict_error ''SOURCE_PROPOSAL_DIGEST_MISMATCH'')) (\<lambda>_.
         andthen (require (p_authorized_command p \<noteq> None \<and>
             p_authorized_command_digest p = map_option (payload_digest E) (p_authorized_command p))
           (conflict_error ''SOURCE_PROPOSAL_AUTHORIZATION_CORRUPT'')) (\<lambda>_.
         andthen (command_authorization_payload request) (\<lambda>payload.
         andthen (require (Some (payload_digest E payload) = p_authorized_command_digest p)
           (conflict_error ''SOURCE_PROPOSAL_COMMAND_MISMATCH'')) (\<lambda>_.
         Inr (Some p))))))))))))"

section \<open>The manifest of a correction\<close>

definition or_nonempty :: "'a list option \<Rightarrow> 'a list \<Rightarrow> 'a list" where
  "or_nonempty v dflt = (case v of Some (x # xs) \<Rightarrow> x # xs | _ \<Rightarrow> dflt)"

definition expected_role :: "tool_spec option \<Rightarrow> node \<Rightarrow> string" where
  "expected_role spec target =
    or_nonempty (Option.bind spec ts_recommended_replacement_role) (n_role target @ ''_replacement'')"

definition toolless_contract :: "env \<Rightarrow> int \<Rightarrow> recovery_contract" where
  "toolless_contract E stability =
    \<lparr>ct_schema_version = 1, ct_expected_tool = None,
     ct_expected_arguments_digest = payload_digest E (JObj []),
     ct_allowed_environment = environment E, ct_allowed_resources = [],
     ct_max_committed_invocations = 0, ct_stability_window_seconds = stability,
     ct_postconditions = []\<rparr>"

definition command_contract ::
    "env \<Rightarrow> clock \<Rightarrow> command_body \<Rightarrow> tool_spec option \<Rightarrow> ident \<Rightarrow> services \<Rightarrow>
     error + (recovery_contract \<times> services)" where
  "command_contract E clk body spec run_id rows =
    (let expected_arguments = or_nonempty (cb_replacement_arguments body) [] in
     case spec of
       Some sp \<Rightarrow>
         andthen (validate_arguments sp expected_arguments) (\<lambda>_.
         Inr (build_recovery_contract E sp (\<lambda>i. clk (i + 1)) run_id expected_arguments
           (cb_recovery_stability_seconds body) rows))
     | None \<Rightarrow>
         andthen (require (expected_arguments = [])
           (conflict_error ''REPLACEMENT_ARGUMENTS_WITHOUT_TOOL'')) (\<lambda>_.
         Inr (toolless_contract E (cb_recovery_stability_seconds body), rows)))"

definition build_manifest ::
    "env \<Rightarrow> clock \<Rightarrow> command_body \<Rightarrow> node \<Rightarrow> ident \<Rightarrow> services \<Rightarrow>
     error + (replacement_manifest \<times> services)" where
  "build_manifest E clk body target run_id rows =
    andthen (case cb_replacement_expected_tool body of
        None \<Rightarrow> Inr None
      | Some t \<Rightarrow> andthen (get_tool_spec t) (\<lambda>sp. Inr (Some sp))) (\<lambda>spec.
    andthen (require (cb_replacement_role body \<in> {None, Some (expected_role spec target)})
      (conflict_error ''REPLACEMENT_ROLE_POLICY_VIOLATION'')) (\<lambda>_.
    andthen (require (or_nonempty (cb_replacement_behavior body) ''cooperative'' = ''cooperative'')
      (conflict_error ''REPLACEMENT_BEHAVIOR_POLICY_VIOLATION'')) (\<lambda>_.
    let exact = (case spec of None \<Rightarrow> [] | Some sp \<Rightarrow> [ts_capability sp]);
        requested = sort (remdups (or_nonempty (cb_replacement_capabilities body) exact))
    in
    andthen (require (requested = sort exact)
      (conflict_error ''REPLACEMENT_CAPABILITY_POLICY_VIOLATION'')) (\<lambda>_.
    andthen (command_contract E clk body spec run_id rows) (\<lambda>(contract, rows').
    let max_children = (case cb_replacement_max_children body of None \<Rightarrow> 0 | Some n \<Rightarrow> n) in
    andthen (require (max_children = 0)
      (conflict_error ''REPLACEMENT_CHILD_BUDGET_POLICY_VIOLATION'')) (\<lambda>_.
    let manifest =
          \<lparr>mf_schema_version = 1, mf_policy_version = ''tracefence-replacement-v1'',
           mf_role = expected_role spec target, mf_behavior = ''cooperative'',
           mf_instruction_digest =
             payload_digest E (jopt JObj (cb_replacement_instruction body)),
           mf_instruction_version = n_instruction_version target + 1,
           mf_capabilities_exact = requested, mf_max_children = max_children,
           mf_recovery_contract = contract\<rparr>
    in
    andthen (require (manifest_ok manifest) validation_error) (\<lambda>_.
    Inr (manifest, rows'))))))))"

text \<open>The stored form; only a correction has one.\<close>

definition command_manifest ::
    "env \<Rightarrow> clock \<Rightarrow> command_body \<Rightarrow> command_context \<Rightarrow> db \<Rightarrow> error + (json option \<times> db)" where
  "command_manifest E clk body cx d =
    (if cb_command_type body = Correct_Subtree then
       andthen (build_manifest E clk body (cx_target cx) (r_id (cx_run cx)) (db_services d))
         (\<lambda>(m, rows). Inr (Some (manifest_json m), db_services_update (\<lambda>_. rows) d))
     else Inr (None, d))"

section \<open>Target scope and replacement parent\<close>

definition is_live_at :: "time \<Rightarrow> node \<Rightarrow> db \<Rightarrow> error + bool" where
  "is_live_at now n d =
    andthen (validate_node_runtime_state now n d) (\<lambda>(allowed, _, _). Inr allowed)"

definition fallback_parent :: "clock \<Rightarrow> command_context \<Rightarrow> db \<Rightarrow> error + ident" where
  "fallback_parent clk cx d =
    (case get_node_row (r_root_node_id (cx_run cx)) d of
       None \<Rightarrow> Inl (conflict_error ''REPLACEMENT_PARENT_UNAVAILABLE'')
     | Some root_row \<Rightarrow>
         if n_id root_row = n_id (cx_target cx)
           then Inl (conflict_error ''REPLACEMENT_PARENT_UNAVAILABLE'')
         else
           andthen (is_live_at (clk 5) root_row d) (\<lambda>root_live.
           andthen (require root_live (conflict_error ''REPLACEMENT_PARENT_UNAVAILABLE'')) (\<lambda>_.
           Inr (n_id root_row))))"

definition replacement_parent :: "clock \<Rightarrow> command_context \<Rightarrow> db \<Rightarrow> error + ident" where
  "replacement_parent clk cx d =
    (case Option.bind (n_parent_id (cx_target cx)) (\<lambda>k. get_node_row k d) of
       None \<Rightarrow> fallback_parent clk cx d
     | Some intended \<Rightarrow>
         andthen (is_live_at (clk 4) intended d) (\<lambda>intended_live.
         if intended_live then Inr (n_id intended) else fallback_parent clk cx d))"

definition command_target ::
    "clock \<Rightarrow> command_body \<Rightarrow> command_context \<Rightarrow> db \<Rightarrow> error + (ident \<times> ident option)" where
  "command_target clk body cx d =
    (if cb_command_type body = Cancel_Run then Inr (r_run_scope_id (cx_run cx), None)
     else if cb_command_type body = Correct_Subtree then
       andthen (replacement_parent clk cx d) (\<lambda>parent.
       Inr (n_own_scope_id (cx_target cx), Some parent))
     else Inr (n_own_scope_id (cx_target cx), None))"

section \<open>The mutation\<close>

definition command_scope_status :: "command_type \<Rightarrow> scope_status" where
  "command_scope_status ty = (if ty = Correct_Subtree then Scope_Superseded else Scope_Cancelled)"

definition change_scope ::
    "clock \<Rightarrow> command_body \<Rightarrow> command_context \<Rightarrow> ident \<Rightarrow> db \<Rightarrow> error + (control_scope \<times> db)"
where
  "change_scope clk body cx scope_id d =
    andthen (demand (get_scope_row scope_id d) (conflict_error ''SCOPE_NOT_FOUND'')) (\<lambda>scope.
    andthen (require (sc_run_id scope = r_id (cx_run cx)) (conflict_error ''SCOPE_NOT_FOUND'')) (\<lambda>_.
    andthen (require (sc_status scope = Scope_Active) (conflict_error ''SCOPE_NOT_ACTIVE'')) (\<lambda>_.
    let scope' = scope\<lparr>sc_version := sc_version scope + 1,
                       sc_status := command_scope_status (cb_command_type body),
                       sc_updated_by_node_id := map_option n_id (cx_issuer cx),
                       sc_reason_code := Some (cb_reason_code body),
                       sc_updated_at := clk 6\<rparr>;
        d1 = update_scope scope_id (\<lambda>_. scope') d
    in
    andthen (if cb_command_type body = Cancel_Run
             then transition_run (cx_run cx) Run_Cancelled (clk 7) d1
             else Inr d1) (\<lambda>d2.
    Inr (scope', d2)))))"

definition new_command ::
    "env \<Rightarrow> time \<Rightarrow> command_create \<Rightarrow> principal \<Rightarrow> command_context \<Rightarrow> proposal option \<Rightarrow>
     json option \<Rightarrow> ident option \<Rightarrow> control_scope \<Rightarrow> nat \<Rightarrow> command" where
  "new_command E now request who cx source manifest parent scope' index =
    (let body = cc_body request in
    \<lparr>c_id = uuid E ''control_commands'' index,
     c_idempotency_key = cc_idempotency_key request, c_issuer_fingerprint = cx_fingerprint cx,
     c_request_payload_digest = request_digest E request, c_run_id = r_id (cx_run cx),
     c_issuer_node_id = map_option n_id (cx_issuer cx), c_issuer_type = pl_issuer_type who,
     c_command_type = cb_command_type body, c_source_proposal_id = map_option p_id source,
     c_target_node_id = n_id (cx_target cx), c_target_scope_id = sc_id scope',
     c_from_version = sc_version scope' - 1, c_to_version = sc_version scope',
     c_reason_code = cb_reason_code body, c_reason_text = cb_reason_text body,
     c_replacement_parent_id = parent,
     c_replacement_instruction = cb_replacement_instruction body,
     c_replacement_expected_tool = cb_replacement_expected_tool body,
     c_replacement_manifest = manifest,
     c_replacement_manifest_digest = map_option (payload_digest E) manifest,
     c_replacement_node_id = None,
     c_replacement_status =
       (if cb_command_type body = Correct_Subtree then Some Repl_Pending else None),
     c_created_at = now\<rparr>)"

definition command_events :: "command \<Rightarrow> control_scope \<Rightarrow> runtime_event list" where
  "command_events c scope' =
    (let common = (\<lambda>e. e\<lparr>e_node_id := Some (c_target_node_id c), e_command_id := Some (c_id c),
            e_scope_id := Some (sc_id scope'), e_reason_code := Some (c_reason_code c),
            e_snapshot_version := Some (c_from_version c),
            e_authoritative_version := Some (sc_version scope')\<rparr>)
     in [common ((blank_event (c_run_id c) ''COMMAND_ISSUED'' (c_created_at c))
           \<lparr>e_metadata := JObj [(''command_type'', JStr (command_type_value (c_command_type c)))]\<rparr>),
         common ((blank_event (c_run_id c)
             (if c_command_type c = Correct_Subtree then ''SCOPE_SUPERSEDED''
              else ''SCOPE_CANCELLED'') (sc_updated_at scope'))
           \<lparr>e_metadata := JObj [(''from_status'', JStr ''ACTIVE''),
               (''to_status'', JStr (scope_status_value (sc_status scope')))]\<rparr>)])"

definition bind_proposal :: "proposal option \<Rightarrow> ident \<Rightarrow> db \<Rightarrow> db" where
  "bind_proposal source command_id d =
    (case source of
       None \<Rightarrow> d
     | Some p \<Rightarrow> update_proposal (p_id p) (\<lambda>q. q\<lparr>p_resulting_command_id := Some command_id\<rparr>) d)"

definition issue_body ::
    "env \<Rightarrow> clock \<Rightarrow> command_create \<Rightarrow> principal \<Rightarrow> command_context \<Rightarrow> command_issued tx" where
  "issue_body E clk request who cx d =
    andthen (check_issue_state E clk cx d) (\<lambda>_.
    andthen (check_source_proposal E request cx d) (\<lambda>source.
    andthen (command_manifest E clk (cc_body request) cx d) (\<lambda>(manifest, d1).
    andthen (command_target clk (cc_body request) cx d1) (\<lambda>(scope_id, parent).
    andthen (change_scope clk (cc_body request) cx scope_id d1) (\<lambda>(scope', d2).
    let c = new_command E (clk 8) request who cx source manifest parent scope'
              (length (db_commands d));
        d3 = db_commands_update (\<lambda>cs. cs @ [c]) d2;
        d4 = fold record_runtime_event (command_events c scope') d3
    in Inr (to_response c False, bind_proposal source (c_id c) d4))))))"

definition issue_command ::
    "env \<Rightarrow> clock \<Rightarrow> rat \<Rightarrow> command_create \<Rightarrow> principal \<Rightarrow> string option \<Rightarrow>
     sys \<Rightarrow> (error + command_issued) \<times> sys" where
  "issue_command E clk tick request who node_token =
    rate_limited E ''command'' tick (issue_before E request who node_token)
      (issue_body E clk request who)"

section \<open>Lemmas\<close>

lemma authorise_command_returns [outcome]:
  "authorise_command E request who token d = Inr cx \<longleftrightarrow>
   (\<exists>target run issuer fp.
      get_node_row (cb_target_node_id (cc_body request)) d = Some target \<and>
      get_run_row (n_run_id target) d = Some run \<and>
      resolve_issuer E who token d = Inr (issuer, fp) \<and>
      fst (may_issue_command who issuer target run (cb_command_type (cc_body request))
        (case issuer of None \<Rightarrow> False
           | Some n \<Rightarrow> n_id n \<noteq> r_root_node_id run \<and>
               is_descendant d (r_id run) (n_id n) (n_id target))) \<and>
      \<not> (n_id target = r_root_node_id run \<and> cb_command_type (cc_body request) \<noteq> Cancel_Run) \<and>
      cx = \<lparr>cx_target = target, cx_run = run, cx_issuer = issuer, cx_fingerprint = fp\<rparr>)"
  by (auto simp: authorise_command_def outcome Let_def)

lemma issue_before_returns [outcome]:
  "issue_before E request who token d = Inr (Proceed i cx) \<longleftrightarrow>
     authorise_command E request who token d = Inr cx \<and>
     existing_command (r_id (cx_run cx)) (cx_fingerprint cx) (cc_idempotency_key request) d = None \<and>
     i = (case cx_issuer cx of None \<Rightarrow> cx_fingerprint cx | Some n \<Rightarrow> node_identity n)"
  unfolding issue_before_def
  by (auto simp: andthen_returns require_returns split: option.splits)

lemma issue_before_answers:
  assumes "issue_before E request who token d = Inr (Answer r d')"
  shows "d' = d \<and> (\<exists>cx c. authorise_command E request who token d = Inr cx \<and>
     existing_command (r_id (cx_run cx)) (cx_fingerprint cx) (cc_idempotency_key request) d = Some c \<and>
     c_request_payload_digest c = request_digest E request \<and> r = to_response c True)"
  using assms unfolding issue_before_def
  by (auto simp: andthen_returns require_returns split: option.splits)

lemma check_issue_state_returns [outcome]:
  "check_issue_state E clk cx d = Inr u \<longleftrightarrow>
     (\<forall>issuer. cx_issuer cx = Some issuer \<longrightarrow> node_live (clk 0) issuer d) \<and>
     r_status (cx_run cx) = Run_Running \<and>
     command_count (r_id (cx_run cx)) d < max_commands_per_run E"
proof -
  have "(\<exists>a. (\<exists>r ev. validate_node_runtime_state (clk 0) n d = Inr (a, r, ev)) \<and> a) \<longleftrightarrow>
      node_live (clk 0) n d" for n
    using validate_returns_True [of "clk 0" n d] by (metis (full_types))
  then show ?thesis
    by (auto simp: check_issue_state_def outcome split: option.splits)
qed

lemma check_source_proposal_returns:
  "check_source_proposal E request cx d = Inr (Some p) \<longleftrightarrow>
   (\<exists>pid payload. cc_source_proposal_id request = Some pid \<and>
      get_proposal_row pid d = Some p \<and> p_run_id p = r_id (cx_run cx) \<and>
      p_status p = Prop_Accepted \<and> p_resulting_command_id p = None \<and>
      p_target_node_id p = n_id (cx_target cx) \<and>
      cb_command_type (cc_body request) = expected_command_type (p_proposal_type p) \<and>
      p_accepted_payload_digest p = Some (payload_digest E (proposal_payload p)) \<and>
      p_authorized_command p \<noteq> None \<and>
      p_authorized_command_digest p = map_option (payload_digest E) (p_authorized_command p) \<and>
      command_authorization_payload request = Inr payload \<and>
      Some (payload_digest E payload) = p_authorized_command_digest p)"
  by (auto simp: check_source_proposal_def outcome split: option.splits)

lemma change_scope_returns:
  "change_scope clk body cx sid d = Inr (s', d') \<longleftrightarrow>
   (\<exists>s. get_scope_row sid d = Some s \<and> sc_run_id s = r_id (cx_run cx) \<and>
      sc_status s = Scope_Active \<and>
      s' = s\<lparr>sc_version := sc_version s + 1,
             sc_status := command_scope_status (cb_command_type body),
             sc_updated_by_node_id := map_option n_id (cx_issuer cx),
             sc_reason_code := Some (cb_reason_code body), sc_updated_at := clk 6\<rparr> \<and>
      (if cb_command_type body = Cancel_Run
       then transition_run (cx_run cx) Run_Cancelled (clk 7) (update_scope sid (\<lambda>_. s') d) = Inr d'
       else d' = update_scope sid (\<lambda>_. s') d))"
  by (auto simp: change_scope_def outcome Let_def)

lemma command_scope_status_inactive [simp]: "command_scope_status ty \<noteq> Scope_Active"
  by (simp add: command_scope_status_def)

lemma get_scope_row_id: "get_scope_row k d = Some s \<Longrightarrow> sc_id s = k"
  by (auto simp: get_scope_row_def dest: lookup_SomeD)

lemma command_manifest_services:
  assumes "command_manifest E clk body cx d = Inr (m, d')"
  shows "\<exists>rows. d' = db_services_update (\<lambda>_. rows) d"
proof -
  have "d' = db_services_update (\<lambda>_. db_services d') d"
    using assms by (auto simp: command_manifest_def andthen_returns split: if_splits)
  then show ?thesis by blast
qed

lemma change_scope_advances:
  assumes "change_scope clk body cx sid d = Inr (s', d')"
  shows "advances E d d'"
proof -
  obtain s where s: "get_scope_row sid d = Some s" "sc_status s = Scope_Active"
    and s': "s' = s\<lparr>sc_version := sc_version s + 1,
             sc_status := command_scope_status (cb_command_type body),
             sc_updated_by_node_id := map_option n_id (cx_issuer cx),
             sc_reason_code := Some (cb_reason_code body), sc_updated_at := clk 6\<rparr>"
    and d': "if cb_command_type body = Cancel_Run
       then transition_run (cx_run cx) Run_Cancelled (clk 7) (update_scope sid (\<lambda>_. s') d) = Inr d'
       else d' = update_scope sid (\<lambda>_. s') d"
    using assms unfolding change_scope_returns by blast
  have "advances E d (update_scope sid (\<lambda>_. s') d)"
    using s by (intro evolution) (auto simp: s' scope_step_def)
  then show ?thesis using d' transition_run_then by (auto split: if_splits)
qed

lemma change_scope_tables:
  assumes "change_scope clk body cx sid d = Inr (s', d')"
  shows "db_nodes d' = db_nodes d" "db_commands d' = db_commands d" "db_actions d' = db_actions d"
    "db_acks d' = db_acks d" "db_services d' = db_services d" "db_events d' = db_events d"
    "db_scopes d' = revise sc_id sid (\<lambda>_. s') (db_scopes d)"
  using assms transition_run_tables
  by (auto simp: change_scope_returns update_scope_def split: if_splits)

lemma bind_proposal_tables [simp]:
  "db_runs (bind_proposal p k d) = db_runs d" "db_nodes (bind_proposal p k d) = db_nodes d"
  "db_scopes (bind_proposal p k d) = db_scopes d" "db_commands (bind_proposal p k d) = db_commands d"
  "db_actions (bind_proposal p k d) = db_actions d" "db_acks (bind_proposal p k d) = db_acks d"
  "db_services (bind_proposal p k d) = db_services d" "db_events (bind_proposal p k d) = db_events d"
  by (auto simp: bind_proposal_def update_proposal_def split: option.split)

text \<open>The proposal is bound in the table the check has read it from.\<close>

lemma issue_proposals_same:
  assumes "command_manifest E clk body cx d = Inr (m, d1)" and "change_scope clk body cx sid d1 = Inr (s', d2)"
  shows "db_proposals d2 = db_proposals d"
  using command_manifest_services [OF assms(1)] assms(2) transition_run_tables(9)
  by (auto simp: change_scope_returns update_scope_def split: if_splits)

lemma bind_proposal_advances:
  assumes "check_source_proposal E request cx d = Inr source" and "db_proposals d4 = db_proposals d"
  shows "advances E d4 (bind_proposal source k d4)"
proof (cases source)
  case None
  then show ?thesis by (simp add: bind_proposal_def advances_refl)
next
  case (Some p)
  obtain pid where "get_proposal_row pid d = Some p" "p_resulting_command_id p = None"
    using assms(1) [unfolded Some check_source_proposal_returns] by blast
  then have "get_proposal_row (p_id p) d4 = Some p" "p_resulting_command_id p = None"
    using get_proposal_row_id assms(2) by (auto simp: get_proposal_row_def)
  then show ?thesis
    by (auto simp: bind_proposal_def Some proposal_step_def intro!: advances_update_proposal)
qed

lemma issue_body_returns:
  "issue_body E clk request who cx d = Inr (r, d') \<longleftrightarrow>
   check_issue_state E clk cx d = Inr () \<and>
   (\<exists>source manifest d1 sid parent s' d2 c.
      check_source_proposal E request cx d = Inr source \<and>
      command_manifest E clk (cc_body request) cx d = Inr (manifest, d1) \<and>
      command_target clk (cc_body request) cx d1 = Inr (sid, parent) \<and>
      change_scope clk (cc_body request) cx sid d1 = Inr (s', d2) \<and>
      c = new_command E (clk 8) request who cx source manifest parent s' (length (db_commands d)) \<and>
      r = to_response c False \<and>
      d' = bind_proposal source (c_id c) (fold record_runtime_event (command_events c s')
        (db_commands_update (\<lambda>cs. cs @ [c]) d2)))"
  unfolding issue_body_def by (auto simp: andthen_returns Let_def case_pair_returns)

lemma new_command_fields [simp]:
  "c_id (new_command E t request who cx src m par s' i) = uuid E ''control_commands'' i"
  "c_run_id (new_command E t request who cx src m par s' i) = r_id (cx_run cx)"
  "c_command_type (new_command E t request who cx src m par s' i) = cb_command_type (cc_body request)"
  "c_target_node_id (new_command E t request who cx src m par s' i) = n_id (cx_target cx)"
  "c_target_scope_id (new_command E t request who cx src m par s' i) = sc_id s'"
  "c_from_version (new_command E t request who cx src m par s' i) = sc_version s' - 1"
  "c_to_version (new_command E t request who cx src m par s' i) = sc_version s'"
  "c_created_at (new_command E t request who cx src m par s' i) = t"
  "c_idempotency_key (new_command E t request who cx src m par s' i) = cc_idempotency_key request"
  "c_issuer_fingerprint (new_command E t request who cx src m par s' i) = cx_fingerprint cx"
  "c_request_payload_digest (new_command E t request who cx src m par s' i) = request_digest E request"
  by (simp_all add: new_command_def Let_def)

lemma issue_body_advances:
  assumes "issue_body E clk request who cx d = Inr (r, d')"
  shows "advances E d d'"
proof -
  obtain source manifest d1 sid parent s' d2 c where
    src: "check_source_proposal E request cx d = Inr source"
    and m: "command_manifest E clk (cc_body request) cx d = Inr (manifest, d1)"
    and ch: "change_scope clk (cc_body request) cx sid d1 = Inr (s', d2)"
    and c: "c = new_command E (clk 8) request who cx source manifest parent s'
      (length (db_commands d))"
    and d': "d' = bind_proposal source (c_id c) (fold record_runtime_event (command_events c s')
        (db_commands_update (\<lambda>cs. cs @ [c]) d2))"
    using assms unfolding issue_body_returns by blast
  obtain rows where d1: "d1 = db_services_update (\<lambda>_. rows) d"
    using command_manifest_services [OF m] by blast
  have "advances E d d1" unfolding d1 by (intro evolution)
  then have "advances E d d2" using change_scope_advances [OF ch] by (rule db_advance.trans)
  moreover have "db_commands d2 = db_commands d"
    using change_scope_tables(2) [OF ch] by (simp add: d1)
  ultimately have "advances E d (fold record_runtime_event (command_events c s') (db_commands_update (\<lambda>cs. cs @ [c]) d2))"
    by (intro evolution) (simp_all add: c)
  then show ?thesis
    unfolding d' by (rule db_advance.trans) (rule bind_proposal_advances [OF src], simp add: issue_proposals_same [OF m ch])
qed

interpretation issue_handler: kept_by_handler "advances E" "issue_before E request who token"
  "issue_body E clk request who" for E request who token clk
proof
  show "advances E d d'" if "issue_before E request who token d = Inr (Answer a d')" for d d' a
    using issue_before_answers [OF that] by (simp add: advances_refl)
  show "advances E d d'" if "issue_body E clk request who p d = Inr (a, d')" for d d' p a
    using that by (rule issue_body_advances)
qed

end
