(* ===== verification/Credentials.thy ===== *)
theory Credentials
  imports Transactions Runs
begin

text \<open>
  \<open>services/credential_recovery.py\<close>: the encrypted envelope in which the response of a spawn, an
  activation or a replacement is kept, so that a client that lost it can ask again with the same
  operation key.  AES-GCM is a parameter of the environment (its functions take the text of the
  key, the nonce, the plaintext and the associated data); \<open>model_dump_json\<close> and
  \<open>model_validate_json\<close> of the response class are the two functions of a codec.  The standard
  library's URL-safe base64 is modelled as \<open>binascii\<close> implements it.
\<close>

section \<open>Base64\<close>

definition alphabet :: string where
  "alphabet = ''ABCDEFGHIJKLMNOPQRSTUVWXYZabcdefghijklmnopqrstuvwxyz0123456789-_''"

definition b64_char :: "nat \<Rightarrow> char" where "b64_char n = alphabet ! n"

fun position :: "char \<Rightarrow> string \<Rightarrow> nat option" where
  "position c [] = None"
| "position c (x # xs) = (if c = x then Some 0 else map_option Suc (position c xs))"

text \<open>\<open>urlsafe_b64decode\<close> first maps \<open>-_\<close> to \<open>+/\<close>, so both spellings decode.\<close>

definition b64_value :: "char \<Rightarrow> nat option" where
  "b64_value c = position (if c = CHR ''+'' then CHR ''-'' else if c = CHR ''/'' then CHR ''_'' else c)
     alphabet"

fun b64_encode :: "string \<Rightarrow> string" where
  "b64_encode [] = []"
| "b64_encode [a] =
     (let x = of_char a :: nat
      in [b64_char (x div 4), b64_char (x mod 4 * 16), CHR ''='', CHR ''=''])"
| "b64_encode [a, b] =
     (let x = of_char a :: nat; y = of_char b :: nat
      in [b64_char (x div 4), b64_char (x mod 4 * 16 + y div 16), b64_char (y mod 16 * 4), CHR ''=''])"
| "b64_encode (a # b # c # rest) =
     (let x = of_char a :: nat; y = of_char b :: nat; z = of_char c :: nat
      in [b64_char (x div 4), b64_char (x mod 4 * 16 + y div 16),
          b64_char (y mod 16 * 4 + z div 64), b64_char (z mod 64)] @ b64_encode rest)"

text \<open>
  \<open>binascii.a2b_base64\<close> without strict mode: the position in the quad, the bits left over and the
  number of pads seen; characters outside the alphabet are skipped, enough padding ends the input.
\<close>

fun a2b :: "nat \<Rightarrow> nat \<Rightarrow> nat \<Rightarrow> string \<Rightarrow> string option" where
  "a2b q left pads [] = (if q = 0 then Some [] else None)"
| "a2b q left pads (c # cs) =
     (if c = CHR ''='' then
        (if 2 \<le> q then (if 4 \<le> q + (pads + 1) then Some [] else a2b q left (pads + 1) cs)
         else a2b q left pads cs)
      else (case b64_value c of
          None \<Rightarrow> a2b q left pads cs
        | Some v \<Rightarrow>
            if q = 0 then a2b 1 v 0 cs
            else if q = 1 then map_option (Cons (char_of (left * 4 + v div 16))) (a2b 2 (v mod 16) 0 cs)
            else if q = 2 then map_option (Cons (char_of (left * 16 + v div 4))) (a2b 3 (v mod 4) 0 cs)
            else map_option (Cons (char_of (left * 64 + v))) (a2b 0 0 0 cs)))"

definition b64_decode :: "string \<Rightarrow> string option" where
  "b64_decode s = a2b 0 0 0 s"

lemma position_nth:
  "distinct xs \<Longrightarrow> n < length xs \<Longrightarrow> position (xs ! n) xs = Some n"
proof (induction xs arbitrary: n)
  case (Cons x xs)
  then show ?case by (cases n) auto
qed simp

lemma alphabet_facts: "distinct alphabet" "length alphabet = 64"
    "CHR ''='' \<notin> set alphabet" "CHR ''+'' \<notin> set alphabet" "CHR ''/'' \<notin> set alphabet"
  by (simp_all add: alphabet_def)

lemma b64_char_facts:
  assumes "n < 64"
  shows "b64_value (b64_char n) = Some n" and "b64_char n \<noteq> CHR ''=''"
proof -
  have "b64_char n \<in> set alphabet" using assms by (simp add: b64_char_def alphabet_facts)
  then have "b64_char n \<noteq> CHR ''+''" "b64_char n \<noteq> CHR ''/''" "b64_char n \<noteq> CHR ''=''"
    using alphabet_facts by metis+
  then show "b64_value (b64_char n) = Some n" "b64_char n \<noteq> CHR ''=''"
    using assms position_nth [of alphabet n] by (simp_all add: b64_value_def b64_char_def alphabet_facts)
qed

lemma char_bound: "(of_char c :: nat) < 256"
  by (rule nat_of_char_less_256)

lemma a2b_char:
  "v < 64 \<Longrightarrow> a2b q left pads (b64_char v # cs) =
     (if q = 0 then a2b 1 v 0 cs
      else if q = 1 then map_option (Cons (char_of (left * 4 + v div 16))) (a2b 2 (v mod 16) 0 cs)
      else if q = 2 then map_option (Cons (char_of (left * 16 + v div 4))) (a2b 3 (v mod 4) 0 cs)
      else map_option (Cons (char_of (left * 64 + v))) (a2b 0 0 0 cs))"
  by (simp add: b64_char_facts)

lemma b64_sextets:
  fixes x y z :: nat
  assumes "x < 256" "y < 256" "z < 256"
  shows "x div 4 < 64" "x mod 4 * 16 < 64" "x mod 4 * 16 + y div 16 < 64" "y mod 16 * 4 < 64"
    "y mod 16 * 4 + z div 64 < 64" "z mod 64 < 64"
    "x div 4 * 4 + x mod 4 * 16 div 16 = x"
    "x div 4 * 4 + (x mod 4 * 16 + y div 16) div 16 = x"
    "(x mod 4 * 16 + y div 16) mod 16 * 16 + y mod 16 * 4 div 4 = y"
    "(x mod 4 * 16 + y div 16) mod 16 * 16 + (y mod 16 * 4 + z div 64) div 4 = y"
    "(y mod 16 * 4 + z div 64) mod 4 * 64 + z mod 64 = z"
proof -
  have split: "(u * m + w) div m = u" "(u * m + w) mod m = w" if "w < m" for u w m :: nat
    using that by simp_all
  have y: "y div 16 < 16" and z: "z div 64 < 4" using assms by auto
  show "x div 4 < 64" "x mod 4 * 16 < 64" "y mod 16 * 4 < 64" "z mod 64 < 64" using assms by auto
  show "x mod 4 * 16 + y div 16 < 64" using y mod_less_divisor [of 4 x] by linarith
  show "y mod 16 * 4 + z div 64 < 64" using z mod_less_divisor [of 16 y] by linarith
  show "x div 4 * 4 + x mod 4 * 16 div 16 = x" by simp
  show "x div 4 * 4 + (x mod 4 * 16 + y div 16) div 16 = x" by (simp only: split [OF y] div_mult_mod_eq)
  show "(x mod 4 * 16 + y div 16) mod 16 * 16 + y mod 16 * 4 div 4 = y"
    by (simp only: split [OF y]) simp
  show "(x mod 4 * 16 + y div 16) mod 16 * 16 + (y mod 16 * 4 + z div 64) div 4 = y"
    by (simp only: split [OF y] split [OF z] div_mult_mod_eq)
  show "(y mod 16 * 4 + z div 64) mod 4 * 64 + z mod 64 = z"
    by (simp only: split [OF z] div_mult_mod_eq)
qed

lemma b64_roundtrip: "b64_decode (b64_encode s) = Some s"
  unfolding b64_decode_def
proof (induction s rule: b64_encode.induct)
  case (2 a)
  note facts = b64_sextets [OF char_bound [of a] char_bound [of a] char_bound [of a]]
  show ?case
    by (simp only: b64_encode.simps Let_def a2b_char facts) (simp add: facts)
next
  case (3 a b)
  note facts = b64_sextets [OF char_bound [of a] char_bound [of b] char_bound [of b]]
  show ?case
    by (simp only: b64_encode.simps Let_def a2b_char facts) (simp add: facts)
next
  case (4 a b c rest)
  note facts = b64_sextets [OF char_bound [of a] char_bound [of b] char_bound [of c]]
  show ?case
    by (simp only: b64_encode.simps Let_def a2b_char facts append.simps) (simp add: facts 4)
qed simp

section \<open>Envelopes\<close>

record 'r codec =
  dump :: "'r \<Rightarrow> string"
  load :: "string \<Rightarrow> 'r option"

text \<open>The digest of a request leaves its operation key out and names its class.\<close>

definition recovery_request_digest :: "env \<Rightarrow> string \<Rightarrow> string \<Rightarrow> json \<Rightarrow> string" where
  "recovery_request_digest E class_name context_text payload =
    sha256 E (class_name @ [CHR 0x00] @ context_text @ [CHR 0x00] @ dumps payload)"

definition envelope_key :: "env \<Rightarrow> string" where
  "envelope_key E = sha256 E (credential_recovery_key E)"

definition aad :: "string \<Rightarrow> ident \<Rightarrow> string \<Rightarrow> string \<Rightarrow> ident \<Rightarrow> string" where
  "aad operation_type caller operation_key digest subject =
    join [CHR 0x00] [operation_type, caller, operation_key, digest, subject]"

definition find_envelope ::
    "string \<Rightarrow> ident \<Rightarrow> string \<Rightarrow> string \<Rightarrow> db \<Rightarrow> error + envelope option" where
  "find_envelope operation_type caller operation_key digest d =
    (case List.find (\<lambda>e. cre_operation_type e = operation_type \<and> cre_caller_node_id e = caller \<and>
            cre_operation_key e = operation_key) (db_envelopes d) of
       None \<Rightarrow> Inr None
     | Some e \<Rightarrow>
         andthen (require (cre_request_payload_digest e = digest)
           (conflict_error ''OPERATION_KEY_PAYLOAD_MISMATCH'')) (\<lambda>_. Inr (Some e)))"

definition envelope_aad :: "envelope \<Rightarrow> string" where
  "envelope_aad e = aad (cre_operation_type e) (cre_caller_node_id e) (cre_operation_key e)
     (cre_request_payload_digest e) (cre_subject_node_id e)"

definition open_envelope :: "env \<Rightarrow> 'r codec \<Rightarrow> envelope \<Rightarrow> error + 'r" where
  "open_envelope E codec e =
    demand
      (Option.bind (b64_decode (cre_nonce e)) (\<lambda>nonce.
       Option.bind (b64_decode (cre_ciphertext e)) (\<lambda>ciphertext.
       Option.bind (aes_decrypt E (envelope_key E) nonce ciphertext (envelope_aad e)) (\<lambda>plaintext.
       load codec plaintext))))
      (conflict_error ''CREDENTIAL_RECOVERY_ENVELOPE_INVALID'')"

definition fill_envelope ::
    "env \<Rightarrow> 'r codec \<Rightarrow> time \<Rightarrow> string \<Rightarrow> ident \<Rightarrow> 'r \<Rightarrow> string \<Rightarrow> envelope \<Rightarrow> envelope" where
  "fill_envelope E codec now nonce subject response data e =
    e\<lparr>cre_subject_node_id := subject, cre_nonce := b64_encode nonce,
      cre_ciphertext := b64_encode (aes_encrypt E (envelope_key E) nonce (dump codec response) data),
      cre_expires_at := now + seconds (credential_recovery_ttl_seconds E),
      cre_updated_at := now\<rparr>"

definition new_envelope ::
    "env \<Rightarrow> nat \<Rightarrow> time \<Rightarrow> ident \<Rightarrow> string \<Rightarrow> ident \<Rightarrow> ident \<Rightarrow> string \<Rightarrow> string \<Rightarrow> envelope" where
  "new_envelope E index now run_id operation_type caller subject operation_key digest =
    \<lparr>cre_id = uuid E ''credential_recovery_envelopes'' index, cre_run_id = run_id,
     cre_operation_type = operation_type, cre_caller_node_id = caller,
     cre_subject_node_id = subject, cre_operation_key = operation_key,
     cre_request_payload_digest = digest, cre_nonce = [], cre_ciphertext = [],
     cre_expires_at = now, cre_created_at = now, cre_updated_at = now\<rparr>"

definition seal_envelope ::
    "env \<Rightarrow> 'r codec \<Rightarrow> time \<Rightarrow> string \<Rightarrow> envelope option \<Rightarrow> ident \<Rightarrow> string \<Rightarrow> ident \<Rightarrow> ident \<Rightarrow>
     string \<Rightarrow> string \<Rightarrow> 'r \<Rightarrow> db \<Rightarrow> db" where
  "seal_envelope E codec now nonce existing run_id operation_type caller subject operation_key digest
     response d =
    (let fill = fill_envelope E codec now nonce subject response
                  (aad operation_type caller operation_key digest subject)
     in case existing of
          Some e \<Rightarrow> db_envelopes_update (revise cre_id (cre_id e) fill) d
        | None \<Rightarrow> db_envelopes_update (\<lambda>es. es @ [fill (new_envelope E (length es) now run_id
            operation_type caller subject operation_key digest)]) d)"

section \<open>Lemmas\<close>

lemma find_envelope_SomeD:
  "find_envelope ty caller key digest d = Inr (Some e) \<Longrightarrow>
   e \<in> set (db_envelopes d) \<and> cre_operation_type e = ty \<and> cre_caller_node_id e = caller \<and>
   cre_operation_key e = key \<and> cre_request_payload_digest e = digest"
  by (auto simp: find_envelope_def andthen_returns require_returns split: option.splits
      dest!: find_SomeD)

lemma seal_envelope_tables [simp]:
  "db_runs (seal_envelope E C t n ex r ty c s k g resp d) = db_runs d"
  "db_nodes (seal_envelope E C t n ex r ty c s k g resp d) = db_nodes d"
  "db_scopes (seal_envelope E C t n ex r ty c s k g resp d) = db_scopes d"
  "db_intents (seal_envelope E C t n ex r ty c s k g resp d) = db_intents d"
  "db_proposals (seal_envelope E C t n ex r ty c s k g resp d) = db_proposals d"
  "db_commands (seal_envelope E C t n ex r ty c s k g resp d) = db_commands d"
  "db_acks (seal_envelope E C t n ex r ty c s k g resp d) = db_acks d"
  "db_actions (seal_envelope E C t n ex r ty c s k g resp d) = db_actions d"
  "db_matches (seal_envelope E C t n ex r ty c s k g resp d) = db_matches d"
  "db_violations (seal_envelope E C t n ex r ty c s k g resp d) = db_violations d"
  "db_outbox (seal_envelope E C t n ex r ty c s k g resp d) = db_outbox d"
  "db_services (seal_envelope E C t n ex r ty c s k g resp d) = db_services d"
  "db_events (seal_envelope E C t n ex r ty c s k g resp d) = db_events d"
  by (auto simp: seal_envelope_def Let_def split: option.split)

lemma seal_envelope_advances [evolution]:
  assumes "advances E' d0 d"
  shows "advances E' d0 (seal_envelope E C t n ex r ty c s k g resp d)"
  using assms by (auto simp: seal_envelope_def Let_def intro: evolution split: option.split)

text \<open>
  What the code relies on of the cipher and of pydantic: decryption undoes encryption under the
  same key, nonce and associated data, and the dumped response parses back to itself.
\<close>

definition cipher_ok :: "env \<Rightarrow> bool" where
  "cipher_ok E \<longleftrightarrow> (\<forall>k n p a. aes_decrypt E k n (aes_encrypt E k n p a) a = Some p)"

definition codec_ok :: "'r codec \<Rightarrow> 'r \<Rightarrow> bool" where
  "codec_ok C r \<longleftrightarrow> load C (dump C r) = Some r"

text \<open>A sealed response opens to itself, and the operation that sealed it finds it again.\<close>

lemma open_filled:
  assumes "cipher_ok E" and "codec_ok C response"
    and "data = aad (cre_operation_type e) (cre_caller_node_id e) (cre_operation_key e)
      (cre_request_payload_digest e) subject"
  shows "open_envelope E C (fill_envelope E C now nonce subject response data e) = Inr response"
  using assms
  by (simp add: open_envelope_def fill_envelope_def envelope_aad_def b64_roundtrip cipher_ok_def
      codec_ok_def)

lemma find_append:
  "List.find p xs = None \<Longrightarrow> List.find p (xs @ [y]) = (if p y then Some y else None)"
  by (induction xs) (auto split: if_splits)

lemma sealed_is_found:
  assumes "find_envelope ty caller key digest d = Inr None"
    and "d' = seal_envelope E C now nonce None run_id ty caller subject key digest response d"
    and "cipher_ok E" and "codec_ok C response"
  shows "\<exists>e. find_envelope ty caller key digest d' = Inr (Some e) \<and>
     open_envelope E C e = Inr response \<and> cre_subject_node_id e = subject \<and>
     cre_expires_at e = now + seconds (credential_recovery_ttl_seconds E)"
proof -
  let ?e = "fill_envelope E C now nonce subject response (aad ty caller key digest subject)
    (new_envelope E (length (db_envelopes d)) now run_id ty caller subject key digest)"
  have f: "cre_operation_type ?e = ty" "cre_caller_node_id ?e = caller" "cre_operation_key ?e = key"
     "cre_request_payload_digest ?e = digest" "cre_subject_node_id ?e = subject"
     "cre_expires_at ?e = now + seconds (credential_recovery_ttl_seconds E)"
    by (simp_all add: fill_envelope_def new_envelope_def)
  have none: "List.find (\<lambda>e. cre_operation_type e = ty \<and> cre_caller_node_id e = caller \<and>
      cre_operation_key e = key) (db_envelopes d) = None"
    using assms(1) by (auto simp: find_envelope_def andthen_returns split: option.splits)
  have "find_envelope ty caller key digest d' = Inr (Some ?e)"
    by (simp add: assms(2) seal_envelope_def Let_def find_envelope_def find_append [OF none] f)
  moreover have "open_envelope E C ?e = Inr response"
    by (rule open_filled [OF assms(3,4)]) (simp add: new_envelope_def)
  ultimately show ?thesis using f by blast
qed

end
