(* ===== verification/Acks.thy ===== *)
theory Acks
  imports Scopes History
begin

text \<open>
  Command acknowledgements: \<open>_record_ack\<close>, \<open>_record_gateway_ack\<close> and
  \<open>_record_lease_expiry_ack\<close>.  A service adds an acknowledgement unless the command, the node
  and the kind of acknowledgement already have one, so the table has at most one per triple.
\<close>

definition ack_key :: "acknowledgement \<Rightarrow> ident \<times> ident \<times> ack_type" where
  "ack_key k = (k_command_id k, k_node_id k, k_ack_type k)"

definition add_ack ::
    "env \<Rightarrow> ident \<Rightarrow> ident \<Rightarrow> ident \<Rightarrow> ack_type \<Rightarrow> int \<Rightarrow> time \<Rightarrow>
     acknowledgement list \<Rightarrow> acknowledgement list" where
  "add_ack E run_id command_id node_id ack_type observed_version observed_at acks =
    (if (command_id, node_id, ack_type) \<in> ack_key ` set acks then acks
     else acks @ [\<lparr>k_id = uuid E ''command_acknowledgements'' (length acks), k_run_id = run_id,
       k_command_id = command_id, k_node_id = node_id, k_ack_type = ack_type,
       k_observed_at = observed_at, k_observed_scope_version = observed_version\<rparr>])"

text \<open>One acknowledgement per command; \<open>at i\<close> is the time read for the \<open>i\<close>-th of them.\<close>

definition record_acks ::
    "env \<Rightarrow> node \<Rightarrow> ack_type \<Rightarrow> (nat \<Rightarrow> time) \<Rightarrow> command list \<Rightarrow> db \<Rightarrow> db" where
  "record_acks E node ack_type at_time commands d =
    db_acks_update (\<lambda>acks. fold (\<lambda>(i, c). add_ack E (n_run_id node) (c_id c) (n_id node) ack_type
        (c_to_version c) (at_time i)) (enumerate 0 commands) acks) d"

definition record_lease_expiry_ack :: "env \<Rightarrow> node \<Rightarrow> time \<Rightarrow> db \<Rightarrow> db" where
  "record_lease_expiry_ack E node now d =
    record_acks E node Ack_Lease_Expired (\<lambda>_. now)
      (commands_for_scope_mismatches d (se_mismatches (evaluate_scopes d node)) (n_run_id node)) d"

lemma add_ack_prefix: "prefix acks (add_ack E r c n t v o' acks)"
  by (simp add: add_ack_def)

lemma add_ack_distinct:
  "distinct (map ack_key acks) \<Longrightarrow> distinct (map ack_key (add_ack E r c n t v o' acks))"
  by (auto simp: add_ack_def ack_key_def)

lemma add_ack_checks:
  "list_all ack_check acks \<Longrightarrow> 1 \<le> v \<Longrightarrow> list_all ack_check (add_ack E r c n t v o' acks)"
  by (simp add: add_ack_def ack_check_def)

lemma add_ack_covers: "(c, n, t) \<in> ack_key ` set (add_ack E r c n t v o' acks)"
  by (simp add: add_ack_def ack_key_def)

lemma add_ack_mono: "ack_key ` set acks \<subseteq> ack_key ` set (add_ack E r c n t v o' acks)"
  by (auto simp: add_ack_def)

lemma record_acks_tables [simp]:
  "db_runs (record_acks E n t f cs d) = db_runs d"
  "db_nodes (record_acks E n t f cs d) = db_nodes d"
  "db_scopes (record_acks E n t f cs d) = db_scopes d"
  "db_intents (record_acks E n t f cs d) = db_intents d"
  "db_envelopes (record_acks E n t f cs d) = db_envelopes d"
  "db_proposals (record_acks E n t f cs d) = db_proposals d"
  "db_commands (record_acks E n t f cs d) = db_commands d"
  "db_actions (record_acks E n t f cs d) = db_actions d"
  "db_matches (record_acks E n t f cs d) = db_matches d"
  "db_violations (record_acks E n t f cs d) = db_violations d"
  "db_outbox (record_acks E n t f cs d) = db_outbox d"
  "db_services (record_acks E n t f cs d) = db_services d"
  "db_events (record_acks E n t f cs d) = db_events d"
  by (simp_all add: record_acks_def)

lemma record_lease_expiry_ack_tables [simp]:
  "db_runs (record_lease_expiry_ack E n t d) = db_runs d"
  "db_nodes (record_lease_expiry_ack E n t d) = db_nodes d"
  "db_scopes (record_lease_expiry_ack E n t d) = db_scopes d"
  "db_intents (record_lease_expiry_ack E n t d) = db_intents d"
  "db_envelopes (record_lease_expiry_ack E n t d) = db_envelopes d"
  "db_proposals (record_lease_expiry_ack E n t d) = db_proposals d"
  "db_commands (record_lease_expiry_ack E n t d) = db_commands d"
  "db_actions (record_lease_expiry_ack E n t d) = db_actions d"
  "db_matches (record_lease_expiry_ack E n t d) = db_matches d"
  "db_violations (record_lease_expiry_ack E n t d) = db_violations d"
  "db_outbox (record_lease_expiry_ack E n t d) = db_outbox d"
  "db_services (record_lease_expiry_ack E n t d) = db_services d"
  "db_events (record_lease_expiry_ack E n t d) = db_events d"
  by (simp_all add: record_lease_expiry_ack_def)

lemma record_acks_prefix: "prefix (db_acks d) (db_acks (record_acks E n t f cs d))"
  unfolding record_acks_def
  by (simp, rule fold_keeps [where P = "prefix (db_acks d)"])
    (auto intro: prefix_order.trans add_ack_prefix)

lemma record_acks_distinct:
  "distinct (map ack_key (db_acks d)) \<Longrightarrow>
   distinct (map ack_key (db_acks (record_acks E n t f cs d)))"
  unfolding record_acks_def
  by (simp, rule fold_keeps [where P = "\<lambda>acks. distinct (map ack_key acks)"])
    (auto intro: add_ack_distinct)

lemma snd_enumerate: "snd ` set (enumerate n cs) = set cs"
  by (metis map_snd_enumerate list.set_map)

lemma record_acks_checks:
  assumes "list_all ack_check (db_acks d)" and "\<And>c. c \<in> set cs \<Longrightarrow> 1 \<le> c_to_version c"
  shows "list_all ack_check (db_acks (record_acks E n t f cs d))"
proof -
  have "1 \<le> c_to_version (snd ic)" if "ic \<in> set (enumerate 0 cs)" for ic
    using that assms(2) snd_enumerate [of 0 cs] by blast
  then show ?thesis
    unfolding record_acks_def
    by (simp, intro fold_keeps [where P = "list_all ack_check"])
      (use assms in \<open>fastforce intro!: add_ack_checks\<close>)+
qed

lemma fold_add_ack_covers:
  "(c_id c, n_id n, t) \<in> ack_key ` set acks \<or> c \<in> snd ` set ics \<Longrightarrow>
   (c_id c, n_id n, t) \<in> ack_key ` set (fold (\<lambda>(i, c). add_ack E r (c_id c) (n_id n) t
        (c_to_version c) (f i)) ics acks)"
proof (induction ics arbitrary: acks)
  case (Cons ic ics)
  obtain i c' where ic: "ic = (i, c')" by fastforce
  let ?acks = "add_ack E r (c_id c') (n_id n) t (c_to_version c') (f i) acks"
  have "(c_id c, n_id n, t) \<in> ack_key ` set ?acks \<or> c \<in> snd ` set ics"
    using Cons.prems
  proof (elim disjE)
    assume "(c_id c, n_id n, t) \<in> ack_key ` set acks"
    then show ?thesis using add_ack_mono by blast
  next
    assume "c \<in> snd ` set (ic # ics)"
    then show ?thesis using add_ack_covers by (auto simp: ic)
  qed
  then show ?case using Cons.IH by (simp add: ic)
qed auto

lemma record_acks_covers:
  assumes "c \<in> set cs"
  shows "(c_id c, n_id n, t) \<in> ack_key ` set (db_acks (record_acks E n t f cs d))"
  using assms fold_add_ack_covers [of c n t "db_acks d" "enumerate 0 cs"]
  by (simp add: record_acks_def snd_enumerate)

lemma record_acks_advances [evolution]:
  assumes "advances E d0 d"
  shows "advances E d0 (record_acks E' n t f cs d)"
  by (rule db_advance.trans [OF assms], rule advances_step)
    (simp_all add: evolves_def keeps_rows_refl record_acks_prefix)

lemma record_lease_expiry_ack_advances [evolution]:
  "advances E d0 d \<Longrightarrow> advances E d0 (record_lease_expiry_ack E' n now d)"
  unfolding record_lease_expiry_ack_def by (rule record_acks_advances)

end
