(* ===== verification/Spawn.thy ===== *)
theory Spawn
  imports Credentials Acks
begin

text \<open>
  \<open>services/spawn_service.py\<close>, creation and activation: a live parent registers a child that
  inherits its scope snapshot, a replacement is registered under the command that authorises it,
  and the child activates once with its token.  The responses that carry a secret can be recovered
  through an envelope.  \<open>tok i\<close> is the \<open>i\<close>-th generated token and \<open>nonce\<close> the random nonce of the
  operation; the OpenTelemetry carrier is an argument.
\<close>

record codecs =
  spawn_codec :: "spawn_created codec"
  activation_codec :: "node_activated codec"

type_synonym carrier = "(string \<times> string) list"

section \<open>Request digests\<close>

definition spawn_request_json :: "spawn_create \<Rightarrow> json" where
  "spawn_request_json r =
    JObj [(''role'', JStr (sp_role r)), (''instruction'', JObj (sp_instruction r)),
          (''capabilities'', JArr (map JStr (sp_capabilities r))),
          (''behavior'', JStr (sp_behavior r))]"

definition activate_request_json :: "node_activate \<Rightarrow> json" where
  "activate_request_json r =
    JObj [(''activation_token'', JStr (na_activation_token r)),
          (''process_id'', jopt JInt (na_process_id r))]"

section \<open>Budgets and delegation\<close>

definition child_count :: "node \<Rightarrow> db \<Rightarrow> int" where
  "child_count parent d = int (length (filter (\<lambda>n. n_run_id n = n_run_id parent \<and>
     n_parent_id n = Some (n_id parent)) (db_nodes d)))"

definition node_count :: "ident \<Rightarrow> db \<Rightarrow> int" where
  "node_count run_id d = int (length (filter (\<lambda>n. n_run_id n = run_id) (db_nodes d)))"

definition enforce_graph_budget :: "env \<Rightarrow> node \<Rightarrow> db \<Rightarrow> error + unit" where
  "enforce_graph_budget E parent d =
    andthen (require (n_generation parent + 1 \<le> max_graph_depth E)
      (conflict_error ''GRAPH_DEPTH_QUOTA_EXCEEDED'')) (\<lambda>_.
    andthen (require (node_count (n_run_id parent) d < max_nodes_per_run E)
      (conflict_error ''RUN_NODE_QUOTA_EXCEEDED'')) (\<lambda>_.
    require (child_count parent d < max_children_per_node E)
      (conflict_error ''NODE_CHILD_QUOTA_EXCEEDED'')))"

definition enforce_parent_child_budget :: "node \<Rightarrow> db \<Rightarrow> error + unit" where
  "enforce_parent_child_budget parent d =
    (case n_caused_by_command_id parent of
       None \<Rightarrow> Inr ()
     | Some command_id \<Rightarrow>
         andthen (demand (Option.bind (get_command_row command_id d) c_replacement_manifest)
           (conflict_error ''REPLACEMENT_MANIFEST_MISSING'')) (\<lambda>stored.
         andthen (demand (manifest_of_json stored)
           (conflict_error ''REPLACEMENT_MANIFEST_INVALID'')) (\<lambda>manifest.
         require (child_count parent d < mf_max_children manifest)
           (conflict_error ''REPLACEMENT_CHILD_BUDGET_EXCEEDED''))))"

definition validate_capability_delegation :: "node \<Rightarrow> spawn_create \<Rightarrow> error + unit" where
  "validate_capability_delegation parent request =
    require (set (sp_capabilities request) \<subseteq> set (n_capabilities parent)) authorization_error"

section \<open>Registering a child\<close>

record lineage =
  ln_supersedes_node_id :: "ident option"
  ln_caused_by_command_id :: "ident option"
  ln_instruction_version :: int

definition plain_lineage :: lineage where
  "plain_lineage = \<lparr>ln_supersedes_node_id = None, ln_caused_by_command_id = None,
     ln_instruction_version = 1\<rparr>"

definition child_node :: "node \<Rightarrow> spawn_create \<Rightarrow> lineage \<Rightarrow> time \<Rightarrow> ident \<Rightarrow> ident \<Rightarrow> node" where
  "child_node parent request lin now child_id child_scope_id =
    \<lparr>n_id = child_id, n_run_id = n_run_id parent, n_parent_id = Some (n_id parent),
     n_supersedes_node_id = ln_supersedes_node_id lin,
     n_caused_by_command_id = ln_caused_by_command_id lin,
     n_role = sp_role request, n_behavior = sp_behavior request,
     n_generation = n_generation parent + 1,
     n_lineage_path = n_lineage_path parent @ n_id parent @ ''/'',
     n_status = Node_Pending, n_own_scope_id = child_scope_id,
     n_scope_snapshot = n_scope_snapshot parent @ [(child_scope_id, 1)],
     n_instruction_version = ln_instruction_version lin,
     n_instruction = sp_instruction request,
     n_capabilities = sort (remdups (sp_capabilities request)),
     n_token_hash = None, n_registered_at = now, n_activated_at = None, n_completed_at = None,
     n_last_heartbeat_at = None, n_lease_expires_at = None, n_process_id = None\<rparr>"

definition child_intent ::
    "env \<Rightarrow> node \<Rightarrow> spawn_create \<Rightarrow> string \<Rightarrow> carrier \<Rightarrow> time \<Rightarrow> ident \<Rightarrow> nat \<Rightarrow> spawn_intent" where
  "child_intent E parent request token carrier expires_at child_id index =
    \<lparr>si_id = uuid E ''spawn_intents'' index, si_run_id = n_run_id parent,
     si_parent_node_id = n_id parent, si_child_node_id = child_id,
     si_activation_token_hash = hash_token E token, si_requested_role = sp_role request,
     si_instruction = sp_instruction request,
     si_requested_capabilities = sort (remdups (sp_capabilities request)),
     si_trace_context = carrier, si_expires_at = expires_at, si_consumed_at = None\<rparr>"

definition registered_event :: "node \<Rightarrow> runtime_event" where
  "registered_event child =
    (blank_event (n_run_id child)
       (if n_caused_by_command_id child \<noteq> None then ''REPLACEMENT_CREATED'' else ''NODE_REGISTERED'')
       (n_registered_at child))
      \<lparr>e_node_id := Some (n_id child), e_parent_node_id := n_parent_id child,
       e_command_id := n_caused_by_command_id child, e_scope_id := Some (n_own_scope_id child),
       e_snapshot_version := Some 1, e_authoritative_version := Some 1,
       e_metadata := JObj [(''role'', JStr (n_role child)),
         (''generation'', JInt (n_generation child)),
         (''supersedes_node_id'', jopt JStr (n_supersedes_node_id child))]\<rparr>"

definition create_spawn_locked ::
    "env \<Rightarrow> clock \<Rightarrow> string \<Rightarrow> carrier \<Rightarrow> node \<Rightarrow> spawn_create \<Rightarrow> lineage \<Rightarrow> db \<Rightarrow> spawn_created \<times> db"
where
  "create_spawn_locked E clk token carrier parent request lin d =
    (let child_id = uuid E ''nodes'' (length (db_nodes d));
         child_scope_id = uuid E ''control_scopes'' (length (db_scopes d));
         expires_at = clk 0 + seconds (spawn_intent_ttl_seconds E);
         now = clk 1;
         child = child_node parent request lin now child_id child_scope_id;
         d1 = db_scopes_update
           (\<lambda>ss. ss @ [new_scope child_scope_id (n_run_id parent) (Some child_id) now]) d;
         d2 = db_nodes_update (\<lambda>ns. ns @ [child]) d1;
         d3 = db_intents_update (\<lambda>is. is @ [child_intent E parent request token carrier
                expires_at child_id (length is)]) d2
     in (\<lparr>scd_child_node_id = child_id, scd_activation_token = token, scd_expires_at = expires_at,
          scd_trace_context = carrier\<rparr>, record_runtime_event (registered_event child) d3))"

section \<open>Recovering a spawn response\<close>

definition spawn_recoverable :: "time \<Rightarrow> envelope \<Rightarrow> db \<Rightarrow> (node \<times> spawn_intent) option" where
  "spawn_recoverable now e d =
    Option.bind (get_node_row (cre_subject_node_id e) d) (\<lambda>node.
    Option.bind (intent_of_child (cre_subject_node_id e) d) (\<lambda>intent.
    if n_status node = Node_Pending \<and> si_consumed_at intent = None \<and> now < si_expires_at intent
    then Some (node, intent) else None))"

definition recover_spawn_response ::
    "env \<Rightarrow> codecs \<Rightarrow> clock \<Rightarrow> string \<Rightarrow> string \<Rightarrow> envelope \<Rightarrow> spawn_created tx" where
  "recover_spawn_response E C clk token nonce e d =
    andthen (demand (spawn_recoverable (clk 0) e d)
      (conflict_error ''CREDENTIAL_RECOVERY_EXPIRED'')) (\<lambda>(node, intent).
    if clk 0 < cre_expires_at e then
      andthen (open_envelope E (spawn_codec C) e) (\<lambda>recovered. Inr (recovered, d))
    else
      (let expires_at = clk 1 + seconds (spawn_intent_ttl_seconds E);
           d1 = update_intent (si_id intent)
                  (\<lambda>i. i\<lparr>si_activation_token_hash := hash_token E token,
                        si_expires_at := expires_at\<rparr>) d;
           recovered = \<lparr>scd_child_node_id = n_id node, scd_activation_token = token,
                        scd_expires_at = expires_at, scd_trace_context = si_trace_context intent\<rparr>
       in Inr (recovered, seal_envelope E (spawn_codec C) (clk 2) nonce (Some e) (cre_run_id e)
            (cre_operation_type e) (cre_caller_node_id e) (cre_subject_node_id e)
            (cre_operation_key e) (cre_request_payload_digest e) recovered d1)))"

section \<open>\<open>create_spawn\<close>\<close>

definition spawn_digest :: "env \<Rightarrow> string \<Rightarrow> spawn_create \<Rightarrow> string" where
  "spawn_digest E context_text request =
    recovery_request_digest E ''SpawnCreate'' context_text (spawn_request_json request)"

definition create_spawn_before ::
    "env \<Rightarrow> codecs \<Rightarrow> clock \<Rightarrow> string \<Rightarrow> string \<Rightarrow> ident \<Rightarrow> string \<Rightarrow> spawn_create \<Rightarrow> db \<Rightarrow>
     error + (spawn_created, node) admission" where
  "create_spawn_before E C clk token nonce parent_id parent_token request d =
    andthen (authenticate_node E parent_id parent_token d) (\<lambda>parent.
    let proceed = Proceed (n_run_id parent @ '':'' @ n_id parent) parent in
    case sp_operation_key request of
      None \<Rightarrow> Inr proceed
    | Some key \<Rightarrow>
        andthen (find_envelope ''SPAWN'' (n_id parent) key (spawn_digest E [] request) d) (\<lambda>found.
        case found of
          None \<Rightarrow> Inr proceed
        | Some e \<Rightarrow>
            andthen (recover_spawn_response E C clk token nonce e d) (\<lambda>(created, d').
            Inr (Answer created d'))))"

definition seal_spawn ::
    "env \<Rightarrow> codecs \<Rightarrow> time \<Rightarrow> string \<Rightarrow> string \<Rightarrow> string \<Rightarrow> node \<Rightarrow> string option \<Rightarrow> spawn_created \<Rightarrow>
     db \<Rightarrow> db" where
  "seal_spawn E C now nonce operation_type digest parent operation_key created d =
    (case operation_key of
       None \<Rightarrow> d
     | Some key \<Rightarrow> seal_envelope E (spawn_codec C) now nonce None (n_run_id parent) operation_type
         (n_id parent) (scd_child_node_id created) key digest created d)"

definition create_spawn_body ::
    "env \<Rightarrow> codecs \<Rightarrow> clock \<Rightarrow> string \<Rightarrow> string \<Rightarrow> carrier \<Rightarrow> spawn_create \<Rightarrow> node \<Rightarrow> spawn_created tx"
where
  "create_spawn_body E C clk token nonce carrier request parent d =
    andthen (validate_node_runtime_state (clk 0) parent d) (\<lambda>(allowed, reason, _).
    andthen (require allowed (conflict_error (case reason of None \<Rightarrow> ''SPAWN_DENIED''
                                                | Some code \<Rightarrow> code))) (\<lambda>_.
    andthen (enforce_graph_budget E parent d) (\<lambda>_.
    andthen (enforce_parent_child_budget parent d) (\<lambda>_.
    andthen (validate_capability_delegation parent request) (\<lambda>_.
    case create_spawn_locked E (\<lambda>i. clk (i + 1)) token carrier parent request plain_lineage d of
      (created, d1) \<Rightarrow>
        Inr (created, seal_spawn E C (clk 3) nonce ''SPAWN'' (spawn_digest E [] request) parent
          (sp_operation_key request) created d1))))))"

definition create_spawn ::
    "env \<Rightarrow> codecs \<Rightarrow> clock \<Rightarrow> rat \<Rightarrow> string \<Rightarrow> string \<Rightarrow> carrier \<Rightarrow> ident \<Rightarrow> string \<Rightarrow> spawn_create \<Rightarrow>
     sys \<Rightarrow> (error + spawn_created) \<times> sys" where
  "create_spawn E C clk tick token nonce carrier parent_id parent_token request =
    rate_limited E ''spawn'' tick
      (create_spawn_before E C clk token nonce parent_id parent_token request)
      (create_spawn_body E C clk token nonce carrier request)"

section \<open>Activation\<close>

text \<open>
  \<open>activate\<close> reads the clock once, before the transaction; \<open>tok 0\<close> is the permanent token, \<open>tok 1\<close>
  the one a rotation draws, \<open>sealed\<close> the time at which the envelope is sealed.
\<close>

definition activation_digest :: "env \<Rightarrow> node_activate \<Rightarrow> string" where
  "activation_digest E request =
    recovery_request_digest E ''NodeActivate'' [] (activate_request_json request)"

definition activated_response :: "node \<Rightarrow> string \<Rightarrow> time \<Rightarrow> node_activated" where
  "activated_response node token lease =
    \<lparr>nad_node_id = n_id node, nad_run_id = n_run_id node, nad_role = n_role node,
     nad_node_token = token, nad_lease_expires_at = lease\<rparr>"

definition rotate_activation ::
    "env \<Rightarrow> codecs \<Rightarrow> time \<Rightarrow> time \<Rightarrow> string \<Rightarrow> string \<Rightarrow> node \<Rightarrow> envelope \<Rightarrow> string \<Rightarrow> string \<Rightarrow>
     node_activated tx" where
  "rotate_activation E C now sealed token nonce node e key digest d =
    (case n_lease_expires_at node of
       Some lease \<Rightarrow>
         if n_status node \<notin> live_node_statuses \<or> lease \<le> now
         then Inl (conflict_error ''CREDENTIAL_RECOVERY_EXPIRED'')
         else
           (let rotated = activated_response node token lease
            in Inr (rotated,
                 seal_envelope E (activation_codec C) sealed nonce (Some e) (n_run_id node)
                   ''ACTIVATION'' (n_id node) (n_id node) key digest rotated
                   (update_node (n_id node)
                      (\<lambda>n. n\<lparr>n_token_hash := Some (hash_token E token)\<rparr>) d)))
     | None \<Rightarrow> Inl (conflict_error ''CREDENTIAL_RECOVERY_EXPIRED''))"

definition recover_activation ::
    "env \<Rightarrow> codecs \<Rightarrow> time \<Rightarrow> time \<Rightarrow> string \<Rightarrow> string \<Rightarrow> node \<Rightarrow> node_activate \<Rightarrow> db \<Rightarrow>
     error + (node_activated \<times> db) option" where
  "recover_activation E C now sealed token nonce node request d =
    (case na_operation_key request of
       None \<Rightarrow> Inr None
     | Some key \<Rightarrow>
         andthen (find_envelope ''ACTIVATION'' (n_id node) key (activation_digest E request) d)
           (\<lambda>found.
         case found of
           None \<Rightarrow> Inr None
         | Some e \<Rightarrow>
             if now < cre_expires_at e then
               andthen (open_envelope E (activation_codec C) e) (\<lambda>r. Inr (Some (r, d)))
             else
               andthen (rotate_activation E C now sealed token nonce node e key
                 (activation_digest E request) d) (\<lambda>r. Inr (Some r))))"

definition activate_before ::
    "env \<Rightarrow> codecs \<Rightarrow> time \<Rightarrow> time \<Rightarrow> (nat \<Rightarrow> string) \<Rightarrow> string \<Rightarrow> ident \<Rightarrow> node_activate \<Rightarrow> db \<Rightarrow>
     error + (node_activated, node \<times> spawn_intent) admission" where
  "activate_before E C now sealed tok nonce node_id request d =
    andthen (demand (get_node_row node_id d) not_found_error) (\<lambda>node.
    andthen (demand (intent_of_child node_id d) (conflict_error ''INVALID_ACTIVATION_TOKEN''))
      (\<lambda>intent.
    andthen (require (token_matches E (na_activation_token request)
        (Some (si_activation_token_hash intent))) (conflict_error ''INVALID_ACTIVATION_TOKEN'')) (\<lambda>_.
    andthen (recover_activation E C now sealed (tok 1) nonce node request d) (\<lambda>recovered.
    case recovered of
      Some (r, d') \<Rightarrow> Inr (Answer r d')
    | None \<Rightarrow>
        andthen (require (si_consumed_at intent = None) (conflict_error ''ACTIVATION_TOKEN_USED''))
          (\<lambda>_. Inr (Proceed (n_run_id node @ '':'' @ n_id node) (node, intent)))))))"

text \<open>The lifecycle of the command that caused a replacement moves with its node.\<close>

definition advance_replacement ::
    "replacement_status \<Rightarrow> replacement_status \<Rightarrow> node \<Rightarrow> db \<Rightarrow> error + db" where
  "advance_replacement from_status to_status node d =
    (case n_caused_by_command_id node of
       None \<Rightarrow> Inr d
     | Some command_id \<Rightarrow>
         andthen (demand (get_command_row command_id d)
           (conflict_error ''REPLACEMENT_LIFECYCLE_INVALID'')) (\<lambda>command.
         andthen (require (c_replacement_node_id command = Some (n_id node) \<and>
             c_replacement_status command = Some from_status)
           (conflict_error ''REPLACEMENT_LIFECYCLE_INVALID'')) (\<lambda>_.
         Inr (update_command command_id
           (\<lambda>c. c\<lparr>c_replacement_status := Some to_status\<rparr>) d))))"

definition activated_events :: "node \<Rightarrow> time \<Rightarrow> time \<Rightarrow> runtime_event list" where
  "activated_events node now lease =
    [(blank_event (n_run_id node) ''NODE_ACTIVATED'' now)
       \<lparr>e_node_id := Some (n_id node), e_parent_node_id := n_parent_id node,
        e_command_id := n_caused_by_command_id node,
        e_metadata := JObj [(''role'', JStr (n_role node))]\<rparr>,
     (blank_event (n_run_id node) ''LEASE_GRANTED'' now)
       \<lparr>e_node_id := Some (n_id node),
        e_metadata := JObj [(''lease_expires_at'', JStr (utc_text lease))]\<rparr>]"

definition activate_node :: "env \<Rightarrow> time \<Rightarrow> string \<Rightarrow> int option \<Rightarrow> node \<Rightarrow> node" where
  "activate_node E now token process_id n =
    n\<lparr>n_status := Node_Active, n_token_hash := Some (hash_token E token),
      n_activated_at := Some now, n_last_heartbeat_at := Some now,
      n_lease_expires_at := Some (lease_until E now), n_process_id := process_id\<rparr>"

definition activate_body ::
    "env \<Rightarrow> codecs \<Rightarrow> time \<Rightarrow> time \<Rightarrow> (nat \<Rightarrow> string) \<Rightarrow> string \<Rightarrow> node_activate \<Rightarrow>
     node \<times> spawn_intent \<Rightarrow> node_activated tx" where
  "activate_body E C now sealed tok nonce request p d =
    (case p of (node, intent) \<Rightarrow>
    andthen (require (now < si_expires_at intent) (conflict_error ''ACTIVATION_TOKEN_EXPIRED'')) (\<lambda>_.
    andthen (require (n_status node = Node_Pending \<and> n_token_hash node = None)
      (conflict_error ''NODE_NOT_PENDING'')) (\<lambda>_.
    let evaluation = evaluate_scopes d node in
    andthen (require (se_allowed evaluation) (conflict_error (case primary_reason evaluation of
        None \<Rightarrow> ''SCOPE_INVALID'' | Some code \<Rightarrow> code))) (\<lambda>_.
    let d1 = update_intent (si_id intent) (\<lambda>i. i\<lparr>si_consumed_at := Some now\<rparr>) d;
        d2 = update_node (n_id node) (activate_node E now (tok 0) (na_process_id request)) d1
    in
    andthen (advance_replacement Repl_Pending Repl_Active node d2) (\<lambda>d3.
    let activated = activated_response node (tok 0) (lease_until E now);
        d4 = (case na_operation_key request of
                None \<Rightarrow> d3
              | Some key \<Rightarrow> seal_envelope E (activation_codec C) sealed nonce None (n_run_id node)
                  ''ACTIVATION'' (n_id node) (n_id node) key (activation_digest E request)
                  activated d3)
    in Inr (activated, fold record_runtime_event (activated_events node now (lease_until E now)) d4))))))"

definition activate ::
    "env \<Rightarrow> codecs \<Rightarrow> time \<Rightarrow> time \<Rightarrow> rat \<Rightarrow> (nat \<Rightarrow> string) \<Rightarrow> string \<Rightarrow> ident \<Rightarrow> node_activate \<Rightarrow>
     sys \<Rightarrow> (error + node_activated) \<times> sys" where
  "activate E C now sealed tick tok nonce node_id request =
    rate_limited E ''activation'' tick
      (activate_before E C now sealed tok nonce node_id request)
      (activate_body E C now sealed tok nonce request)"

section \<open>Lemmas on creation\<close>

lemma enforce_graph_budget_returns [outcome]:
  "enforce_graph_budget E parent d = Inr u \<longleftrightarrow>
     n_generation parent + 1 \<le> max_graph_depth E \<and>
     node_count (n_run_id parent) d < max_nodes_per_run E \<and>
     child_count parent d < max_children_per_node E"
  by (auto simp: enforce_graph_budget_def outcome)

lemma validate_capability_delegation_returns [outcome]:
  "validate_capability_delegation parent request = Inr u \<longleftrightarrow>
     set (sp_capabilities request) \<subseteq> set (n_capabilities parent)"
  by (simp add: validate_capability_delegation_def outcome)

lemma create_spawn_locked_advances:
  assumes "create_spawn_locked E clk token carrier parent request lin d = (created, d')"
  shows "advances E d d'"
  using assms
  by (auto simp: create_spawn_locked_def Let_def new_scope_def child_node_def intro!: evolution)

lemma create_spawn_locked_tables:
  assumes "create_spawn_locked E clk token carrier parent request lin d = (created, d')"
  shows "db_runs d' = db_runs d" "db_commands d' = db_commands d" "db_actions d' = db_actions d"
    "db_acks d' = db_acks d" "db_services d' = db_services d" "db_envelopes d' = db_envelopes d"
    "db_proposals d' = db_proposals d"
    "scd_child_node_id created = uuid E ''nodes'' (length (db_nodes d))"
    "db_nodes d' = db_nodes d @ [child_node parent request lin (clk 1)
       (scd_child_node_id created) (uuid E ''control_scopes'' (length (db_scopes d)))]"
    "db_scopes d' = db_scopes d @ [new_scope (uuid E ''control_scopes'' (length (db_scopes d)))
       (n_run_id parent) (Some (scd_child_node_id created)) (clk 1)]"
    "scd_expires_at created = clk 0 + seconds (spawn_intent_ttl_seconds E)"
  using assms by (auto simp: create_spawn_locked_def Let_def)

lemma recover_spawn_advances:
  "recover_spawn_response E C clk token nonce e d = Inr (r, d') \<Longrightarrow> advances E' d d'"
  by (auto simp: recover_spawn_response_def outcome Let_def split: if_splits intro!: evolution)

lemma recover_spawn_tables:
  assumes "recover_spawn_response E C clk token nonce e d = Inr (r, d')"
  shows "db_nodes d' = db_nodes d" "db_scopes d' = db_scopes d" "db_runs d' = db_runs d"
    "db_commands d' = db_commands d" "db_actions d' = db_actions d" "db_acks d' = db_acks d"
    "db_services d' = db_services d"
  using assms
  by (auto simp: recover_spawn_response_def outcome Let_def update_intent_def split: if_splits)

lemma create_spawn_before_answers:
  "create_spawn_before E C clk token nonce k ptoken request d = Inr (Answer r d') \<Longrightarrow>
   \<exists>e. recover_spawn_response E C clk token nonce e d = Inr (r, d')"
  by (auto simp: create_spawn_before_def outcome Let_def split: option.splits)

lemma create_spawn_before_proceeds:
  "create_spawn_before E C clk token nonce k ptoken request d = Inr (Proceed i p) \<Longrightarrow>
   get_node_row k d = Some p \<and> token_matches E ptoken (n_token_hash p)"
  by (auto simp: create_spawn_before_def outcome Let_def split: option.splits)

lemma seal_spawn_advances [evolution]:
  "advances E' d0 d \<Longrightarrow> advances E' d0 (seal_spawn E C now nonce ty dg parent key created d)"
  by (auto simp: seal_spawn_def intro: evolution split: option.split)

lemma seal_spawn_tables [simp]:
  "db_runs (seal_spawn E C now nonce ty dg parent key created d) = db_runs d"
  "db_nodes (seal_spawn E C now nonce ty dg parent key created d) = db_nodes d"
  "db_scopes (seal_spawn E C now nonce ty dg parent key created d) = db_scopes d"
  "db_commands (seal_spawn E C now nonce ty dg parent key created d) = db_commands d"
  "db_actions (seal_spawn E C now nonce ty dg parent key created d) = db_actions d"
  "db_acks (seal_spawn E C now nonce ty dg parent key created d) = db_acks d"
  "db_services (seal_spawn E C now nonce ty dg parent key created d) = db_services d"
  "db_intents (seal_spawn E C now nonce ty dg parent key created d) = db_intents d"
  by (auto simp: seal_spawn_def split: option.split)

lemma create_spawn_body_returns:
  "create_spawn_body E C clk token nonce carrier request parent d = Inr (created, d') \<longleftrightarrow>
   node_live (clk 0) parent d \<and> enforce_graph_budget E parent d = Inr () \<and>
   enforce_parent_child_budget parent d = Inr () \<and>
   set (sp_capabilities request) \<subseteq> set (n_capabilities parent) \<and>
   (\<exists>d1. create_spawn_locked E (\<lambda>i. clk (i + 1)) token carrier parent request plain_lineage d =
        (created, d1) \<and>
      d' = seal_spawn E C (clk 3) nonce ''SPAWN'' (spawn_digest E [] request) parent
        (sp_operation_key request) created d1)"
  unfolding create_spawn_body_def live_gate
  by (auto simp: andthen_returns validate_capability_delegation_returns case_pair_returns)

interpretation spawn_handler: kept_by_handler "advances E"
  "create_spawn_before E C clk token nonce k ptoken request"
  "create_spawn_body E C clk token nonce carrier request"
  for E C clk token nonce k ptoken request carrier
proof
  show "advances E d d'"
    if "create_spawn_before E C clk token nonce k ptoken request d = Inr (Answer a d')" for d d' a
    using create_spawn_before_answers [OF that] recover_spawn_advances by blast
  show "advances E d d'"
    if "create_spawn_body E C clk token nonce carrier request p d = Inr (a, d')" for d d' p a
    using that create_spawn_locked_advances
    by (auto simp: create_spawn_body_returns intro!: seal_spawn_advances)
qed

section \<open>Lemmas on activation\<close>

lemma advance_replacement_returns:
  "advance_replacement s t node d = Inr d' \<longleftrightarrow>
   (case n_caused_by_command_id node of
      None \<Rightarrow> d' = d
    | Some k \<Rightarrow> \<exists>c. get_command_row k d = Some c \<and> c_replacement_node_id c = Some (n_id node) \<and>
        c_replacement_status c = Some s \<and>
        d' = update_command k (\<lambda>c. c\<lparr>c_replacement_status := Some t\<rparr>) d)"
  by (auto simp: advance_replacement_def outcome split: option.splits)

lemma advance_replacement_advances:
  "advance_replacement s t node d = Inr d' \<Longrightarrow> advances E' d d'"
  by (auto simp: advance_replacement_returns command_step_replacement split: option.splits
      intro!: evolution)

lemma advance_replacement_tables:
  assumes "advance_replacement s t node d = Inr d'"
  shows "db_nodes d' = db_nodes d" "db_scopes d' = db_scopes d" "db_runs d' = db_runs d"
    "db_actions d' = db_actions d" "db_acks d' = db_acks d" "db_services d' = db_services d"
    "db_intents d' = db_intents d" "db_envelopes d' = db_envelopes d" "db_events d' = db_events d"
  using assms by (auto simp: advance_replacement_returns update_command_def split: option.splits)

lemma activate_before_proceeds:
  "activate_before E C now sealed tok nonce k request d = Inr (Proceed i (node, intent)) \<Longrightarrow>
   get_node_row k d = Some node \<and> intent_of_child k d = Some intent \<and>
   hash_token E (na_activation_token request) = si_activation_token_hash intent \<and>
   si_consumed_at intent = None"
  by (auto simp: activate_before_def outcome token_matches_def split: option.splits)

lemma rotate_activation_advances:
  "rotate_activation E C now sealed token nonce node e key dg d = Inr (r, d') \<Longrightarrow> advances E' d d'"
  by (auto simp: rotate_activation_def Let_def node_step_def split: option.splits if_splits
      intro!: evolution)

lemma activate_before_answers:
  assumes "activate_before E C now sealed tok nonce k request d = Inr (Answer r d')"
  shows "advances E' d d'"
  using assms rotate_activation_advances
  by (auto simp: activate_before_def recover_activation_def outcome advances_refl
      split: option.splits if_splits)

lemma activate_body_returns:
  "activate_body E C now sealed tok nonce request (node, intent) d = Inr (r, d') \<longleftrightarrow>
   now < si_expires_at intent \<and> n_status node = Node_Pending \<and> n_token_hash node = None \<and>
   se_allowed (evaluate_scopes d node) \<and>
   r = activated_response node (tok 0) (lease_until E now) \<and>
   (\<exists>d3. advance_replacement Repl_Pending Repl_Active node
        (update_node (n_id node) (activate_node E now (tok 0) (na_process_id request))
          (update_intent (si_id intent) (\<lambda>i. i\<lparr>si_consumed_at := Some now\<rparr>) d)) = Inr d3 \<and>
      d' = fold record_runtime_event (activated_events node now (lease_until E now))
        (case na_operation_key request of
           None \<Rightarrow> d3
         | Some key \<Rightarrow> seal_envelope E (activation_codec C) sealed nonce None (n_run_id node)
             ''ACTIVATION'' (n_id node) (n_id node) key (activation_digest E request) r d3))"
  by (auto simp: activate_body_def andthen_returns require_returns Let_def)

lemma activate_body_advances:
  assumes "get_node_row k d = Some node"
    and "activate_body E C now sealed tok nonce request (node, intent) d = Inr (r, d')"
  shows "advances E d d'"
proof -
  let ?d1 = "update_intent (si_id intent) (\<lambda>i. i\<lparr>si_consumed_at := Some now\<rparr>) d"
  let ?d2 = "update_node (n_id node) (activate_node E now (tok 0) (na_process_id request)) ?d1"
  obtain d3 where pend: "n_status node = Node_Pending"
    and d3: "advance_replacement Repl_Pending Repl_Active node ?d2 = Inr d3"
    and d': "d' = fold record_runtime_event (activated_events node now (lease_until E now))
        (case na_operation_key request of
           None \<Rightarrow> d3
         | Some key \<Rightarrow> seal_envelope E (activation_codec C) sealed nonce None (n_run_id node)
             ''ACTIVATION'' (n_id node) (n_id node) key (activation_digest E request) r d3)"
    using assms(2) unfolding activate_body_returns by blast
  have "get_node_row (n_id node) ?d1 = Some node"
    using assms(1) by (auto simp: get_node_row_def update_intent_def dest: lookup_SomeD)
  moreover have "node_step node (activate_node E now (tok 0) (na_process_id request) node)"
    using pend by (simp add: node_step_def activate_node_def dead_node_statuses_def)
  ultimately have "advances E d ?d2" by (intro evolution) auto
  then have "advances E d d3" using advance_replacement_advances [OF d3] by (rule db_advance.trans)
  then show ?thesis unfolding d' by (auto intro!: evolution split: option.split)
qed

interpretation activate_handler: kept_by_handler "advances E"
  "activate_before E C now sealed tok nonce k request" "activate_body E C now sealed tok nonce request"
  for E C now sealed tok nonce k request
proof
  show "advances E d d'"
    if "activate_before E C now sealed tok nonce k request d = Inr (Answer a d')" for d d' a
    using that by (rule activate_before_answers)
  show "advances E d d'"
    if "activate_before E C now sealed tok nonce k request d = Inr (Proceed i p)"
      and "activate_body E C now sealed tok nonce request p d = Inr (a, d')" for d d' i p a
  proof -
    obtain node intent where p: "p = (node, intent)" by fastforce
    then have "get_node_row k d = Some node" using that(1) activate_before_proceeds by blast
    then show ?thesis using that(2) unfolding p by (rule activate_body_advances)
  qed
qed

end
