(* ===== verification/Replacement.thy ===== *)
theory Replacement
  imports Spawn
begin

text \<open>
  \<open>create_replacement\<close> of \<open>services/spawn_service.py\<close>: the one child a correction command
  authorises.  Its parent is the one the command names, its role, behaviour, capabilities,
  instruction and instruction version are exactly those of the manifest the command stored, and a
  second one is refused unless the first expired before it was activated.
\<close>

section \<open>Checks on the command\<close>

definition retry_allowed :: "command \<Rightarrow> db \<Rightarrow> bool" where
  "retry_allowed command d \<longleftrightarrow>
    (case c_replacement_node_id command of
       None \<Rightarrow> True
     | Some prior \<Rightarrow>
         c_replacement_status command = Some Repl_Activation_Expired \<and>
         (case get_node_row prior d of None \<Rightarrow> False
          | Some n \<Rightarrow> n_status n = Node_Lease_Expired))"

definition check_replacement_command ::
    "env \<Rightarrow> bool \<Rightarrow> node \<Rightarrow> command \<Rightarrow> db \<Rightarrow> error + unit" where
  "check_replacement_command E recovered parent command d =
    andthen (require (c_command_type command = Correct_Subtree)
      (conflict_error ''REPLACEMENT_COMMAND_INVALID'')) (\<lambda>_.
    andthen (require (c_run_id command = n_run_id parent) authorization_error) (\<lambda>_.
    andthen (require (c_replacement_parent_id command = Some (n_id parent)) authorization_error) (\<lambda>_.
    andthen (require (recovered \<or> retry_allowed command d)
      (conflict_error ''REPLACEMENT_ALREADY_CREATED'')) (\<lambda>_.
    if recovered then Inr () else enforce_graph_budget E parent d))))"

definition check_correction_lineage ::
    "env \<Rightarrow> node \<Rightarrow> command \<Rightarrow> spawn_create \<Rightarrow> db \<Rightarrow> error + node" where
  "check_correction_lineage E parent command request d =
    andthen (demand (get_node_row (c_target_node_id command) d)
      (conflict_error ''CORRECTION_LINEAGE_INVALID'')) (\<lambda>old.
    andthen (demand (get_scope_row (c_target_scope_id command) d)
      (conflict_error ''CORRECTION_LINEAGE_INVALID'')) (\<lambda>scope.
    let root_fallback = (case get_run_row (c_run_id command) d of
          None \<Rightarrow> False
        | Some run \<Rightarrow> n_id parent = r_root_node_id run \<and>
            c_replacement_parent_id command = Some (n_id parent))
    in
    andthen (require (n_run_id old = n_run_id parent \<and>
        (n_parent_id old = Some (n_id parent) \<or> root_fallback))
      (conflict_error ''REPLACEMENT_PARENT_MISMATCH'')) (\<lambda>_.
    andthen (require (n_own_scope_id old = c_target_scope_id command)
      (conflict_error ''CORRECTION_SCOPE_MISMATCH'')) (\<lambda>_.
    andthen (require (sc_status scope = Scope_Superseded \<and> sc_version scope = c_to_version command)
      (conflict_error ''CORRECTION_SCOPE_NOT_SUPERSEDED'')) (\<lambda>_.
    andthen (require (payload_digest E (JObj (sp_instruction request)) =
        payload_digest E (jopt JObj (c_replacement_instruction command)))
      (conflict_error ''REPLACEMENT_INSTRUCTION_MISMATCH'')) (\<lambda>_.
    Inr old))))))"

definition manifest_matches ::
    "env \<Rightarrow> node \<Rightarrow> replacement_manifest \<Rightarrow> spawn_create \<Rightarrow> bool" where
  "manifest_matches E old manifest request \<longleftrightarrow>
     sp_role request = mf_role manifest \<and>
     sp_behavior request = mf_behavior manifest \<and>
     sort (remdups (sp_capabilities request)) = mf_capabilities_exact manifest \<and>
     payload_digest E (JObj (sp_instruction request)) = mf_instruction_digest manifest \<and>
     n_instruction_version old + 1 = mf_instruction_version manifest"

definition check_replacement_manifest ::
    "env \<Rightarrow> node \<Rightarrow> node \<Rightarrow> command \<Rightarrow> spawn_create \<Rightarrow> error + unit" where
  "check_replacement_manifest E parent old command request =
    andthen (demand (c_replacement_manifest command)
      (conflict_error ''REPLACEMENT_MANIFEST_INVALID'')) (\<lambda>stored.
    andthen (require (c_replacement_manifest_digest command = Some (payload_digest E stored))
      (conflict_error ''REPLACEMENT_MANIFEST_INVALID'')) (\<lambda>_.
    andthen (demand (manifest_of_json stored)
      (conflict_error ''REPLACEMENT_MANIFEST_INVALID'')) (\<lambda>manifest.
    andthen (require (manifest_matches E old manifest request)
      (conflict_error ''REPLACEMENT_MANIFEST_MISMATCH'')) (\<lambda>_.
    validate_capability_delegation parent request))))"

definition check_replacement ::
    "env \<Rightarrow> bool \<Rightarrow> node \<Rightarrow> command \<Rightarrow> spawn_create \<Rightarrow> db \<Rightarrow> error + node" where
  "check_replacement E recovered parent command request d =
    andthen (check_replacement_command E recovered parent command d) (\<lambda>_.
    andthen (check_correction_lineage E parent command request d) (\<lambda>old.
    andthen (check_replacement_manifest E parent old command request) (\<lambda>_.
    Inr old)))"

section \<open>The handler\<close>

definition recover_replacement ::
    "env \<Rightarrow> codecs \<Rightarrow> clock \<Rightarrow> string \<Rightarrow> string \<Rightarrow> node \<Rightarrow> ident \<Rightarrow> spawn_create \<Rightarrow> envelope \<Rightarrow>
     spawn_created tx" where
  "recover_replacement E C clk token nonce parent command_id request e d =
    andthen (demand (get_command_row command_id d)
      (conflict_error ''CREDENTIAL_RECOVERY_SUBJECT_MISMATCH'')) (\<lambda>command.
    andthen (require (c_replacement_node_id command = Some (cre_subject_node_id e))
      (conflict_error ''CREDENTIAL_RECOVERY_SUBJECT_MISMATCH'')) (\<lambda>_.
    andthen (recover_spawn_response E C clk token nonce e d) (\<lambda>(created, d1).
    andthen (check_replacement E True parent command request d1) (\<lambda>_.
    Inr (created, d1)))))"

definition create_replacement_before ::
    "env \<Rightarrow> codecs \<Rightarrow> clock \<Rightarrow> string \<Rightarrow> string \<Rightarrow> ident \<Rightarrow> string \<Rightarrow> ident \<Rightarrow> spawn_create \<Rightarrow> db \<Rightarrow>
     error + (spawn_created, node) admission" where
  "create_replacement_before E C clk token nonce parent_id parent_token command_id request d =
    andthen (authenticate_node E parent_id parent_token d) (\<lambda>parent.
    let proceed = Proceed (n_run_id parent @ '':'' @ n_id parent) parent in
    case sp_operation_key request of
      None \<Rightarrow> Inr proceed
    | Some key \<Rightarrow>
        andthen (find_envelope ''REPLACEMENT'' (n_id parent) key
          (spawn_digest E command_id request) d) (\<lambda>found.
        case found of
          None \<Rightarrow> Inr proceed
        | Some e \<Rightarrow>
            andthen (recover_replacement E C clk token nonce parent command_id request e d)
              (\<lambda>(created, d'). Inr (Answer created d'))))"

definition correction_lineage :: "node \<Rightarrow> command \<Rightarrow> lineage" where
  "correction_lineage old command =
    \<lparr>ln_supersedes_node_id = Some (n_id old), ln_caused_by_command_id = Some (c_id command),
     ln_instruction_version = n_instruction_version old + 1\<rparr>"

definition create_replacement_body ::
    "env \<Rightarrow> codecs \<Rightarrow> clock \<Rightarrow> string \<Rightarrow> string \<Rightarrow> carrier \<Rightarrow> ident \<Rightarrow> spawn_create \<Rightarrow> node \<Rightarrow>
     spawn_created tx" where
  "create_replacement_body E C clk token nonce carrier command_id request parent d =
    andthen (validate_node_runtime_state (clk 0) parent d) (\<lambda>(allowed, reason, _).
    andthen (require allowed (conflict_error (case reason of None \<Rightarrow> ''REPLACEMENT_PARENT_DENIED''
                                                | Some code \<Rightarrow> code))) (\<lambda>_.
    andthen (demand (get_command_row command_id d) not_found_error) (\<lambda>command.
    andthen (check_replacement E False parent command request d) (\<lambda>old.
    case create_spawn_locked E (\<lambda>i. clk (i + 1)) token carrier parent request
           (correction_lineage old command) d of
      (created, d1) \<Rightarrow>
        (let d2 = update_command command_id
               (\<lambda>c. c\<lparr>c_replacement_node_id := Some (scd_child_node_id created),
                     c_replacement_status := Some Repl_Pending\<rparr>) d1
         in Inr (created, seal_spawn E C (clk 3) nonce ''REPLACEMENT''
              (spawn_digest E command_id request) parent (sp_operation_key request) created d2))))))"

definition create_replacement ::
    "env \<Rightarrow> codecs \<Rightarrow> clock \<Rightarrow> rat \<Rightarrow> string \<Rightarrow> string \<Rightarrow> carrier \<Rightarrow> ident \<Rightarrow> string \<Rightarrow> ident \<Rightarrow>
     spawn_create \<Rightarrow> sys \<Rightarrow> (error + spawn_created) \<times> sys" where
  "create_replacement E C clk tick token nonce carrier parent_id parent_token command_id request =
    rate_limited E ''spawn'' tick
      (create_replacement_before E C clk token nonce parent_id parent_token command_id request)
      (create_replacement_body E C clk token nonce carrier command_id request)"

section \<open>Lemmas\<close>

lemma check_replacement_command_returns:
  "check_replacement_command E recovered parent command d = Inr u \<longleftrightarrow>
     c_command_type command = Correct_Subtree \<and> c_run_id command = n_run_id parent \<and>
     c_replacement_parent_id command = Some (n_id parent) \<and>
     (recovered \<or> retry_allowed command d \<and> enforce_graph_budget E parent d = Inr ())"
  by (auto simp: check_replacement_command_def andthen_returns require_returns)

lemma check_correction_lineage_returns:
  "check_correction_lineage E parent command request d = Inr old \<longleftrightarrow>
   (\<exists>scope. get_node_row (c_target_node_id command) d = Some old \<and>
      get_scope_row (c_target_scope_id command) d = Some scope \<and>
      n_run_id old = n_run_id parent \<and>
      (n_parent_id old = Some (n_id parent) \<or>
       (\<exists>run. get_run_row (c_run_id command) d = Some run \<and> n_id parent = r_root_node_id run \<and>
          c_replacement_parent_id command = Some (n_id parent))) \<and>
      n_own_scope_id old = c_target_scope_id command \<and>
      sc_status scope = Scope_Superseded \<and> sc_version scope = c_to_version command \<and>
      payload_digest E (JObj (sp_instruction request)) =
        payload_digest E (jopt JObj (c_replacement_instruction command)))"
  by (auto simp: check_correction_lineage_def andthen_returns require_returns demand_returns Let_def
      split: option.splits)

lemma check_replacement_manifest_returns:
  "check_replacement_manifest E parent old command request = Inr u \<longleftrightarrow>
   (\<exists>stored manifest. c_replacement_manifest command = Some stored \<and>
      c_replacement_manifest_digest command = Some (payload_digest E stored) \<and>
      manifest_of_json stored = Some manifest \<and> manifest_matches E old manifest request \<and>
      set (sp_capabilities request) \<subseteq> set (n_capabilities parent))"
  by (auto simp: check_replacement_manifest_def andthen_returns require_returns demand_returns
      validate_capability_delegation_returns)

lemma check_replacement_returns:
  "check_replacement E recovered parent command request d = Inr old \<longleftrightarrow>
     check_replacement_command E recovered parent command d = Inr () \<and>
     check_correction_lineage E parent command request d = Inr old \<and>
     check_replacement_manifest E parent old command request = Inr ()"
  by (auto simp: check_replacement_def andthen_returns)

lemma create_replacement_body_returns:
  "create_replacement_body E C clk token nonce carrier command_id request parent d =
     Inr (created, d') \<longleftrightarrow>
   node_live (clk 0) parent d \<and>
   (\<exists>command old d1. get_command_row command_id d = Some command \<and>
      check_replacement E False parent command request d = Inr old \<and>
      create_spawn_locked E (\<lambda>i. clk (i + 1)) token carrier parent request
        (correction_lineage old command) d = (created, d1) \<and>
      d' = seal_spawn E C (clk 3) nonce ''REPLACEMENT'' (spawn_digest E command_id request) parent
        (sp_operation_key request) created
        (update_command command_id
          (\<lambda>c. c\<lparr>c_replacement_node_id := Some (scd_child_node_id created),
                c_replacement_status := Some Repl_Pending\<rparr>) d1))"
  unfolding create_replacement_body_def live_gate
  by (auto simp: andthen_returns demand_returns Let_def case_pair_returns)

lemma create_replacement_before_answers:
  "create_replacement_before E C clk token nonce k ptoken cid request d = Inr (Answer r d') \<Longrightarrow>
   \<exists>e. recover_spawn_response E C clk token nonce e d = Inr (r, d')"
  by (auto simp: create_replacement_before_def recover_replacement_def andthen_returns Let_def
      split: option.splits)

lemma create_replacement_before_proceeds:
  "create_replacement_before E C clk token nonce k ptoken cid request d = Inr (Proceed i p) \<Longrightarrow>
   get_node_row k d = Some p \<and> token_matches E ptoken (n_token_hash p)"
  by (auto simp: create_replacement_before_def outcome Let_def split: option.splits)

lemma create_replacement_body_advances:
  assumes "create_replacement_body E C clk token nonce carrier cid request parent d = Inr (r, d')"
  shows "advances E d d'"
proof -
  obtain d1 lin where
    "create_spawn_locked E (\<lambda>i. clk (i + 1)) token carrier parent request lin d = (r, d1)"
    and d': "d' = seal_spawn E C (clk 3) nonce ''REPLACEMENT'' (spawn_digest E cid request) parent
        (sp_operation_key request) r
        (update_command cid
          (\<lambda>c. c\<lparr>c_replacement_node_id := Some (scd_child_node_id r),
                c_replacement_status := Some Repl_Pending\<rparr>) d1)"
    using assms unfolding create_replacement_body_returns by blast
  then have "advances E d d1" by (intro create_spawn_locked_advances)
  then show ?thesis unfolding d' by (intro evolution command_step_replacement)
qed

interpretation replacement_handler: kept_by_handler "advances E"
  "create_replacement_before E C clk token nonce k ptoken cid request"
  "create_replacement_body E C clk token nonce carrier cid request"
  for E C clk token nonce k ptoken cid request carrier
proof
  show "advances E d d'"
    if "create_replacement_before E C clk token nonce k ptoken cid request d = Inr (Answer a d')"
    for d d' a
    using create_replacement_before_answers [OF that] recover_spawn_advances by blast
  show "advances E d d'"
    if "create_replacement_body E C clk token nonce carrier cid request p d = Inr (a, d')"
    for d d' p a
    using that by (rule create_replacement_body_advances)
qed

end
