(* ===== verification/Nodes.thy ===== *)
theory Nodes
  imports Spawn
begin

text \<open>
  \<open>services/spawn_service.py\<close>, the life of an active node: \<open>heartbeat\<close> renews the lease of a live
  node, \<open>checkpoint\<close> parks it at a cooperative boundary, \<open>complete\<close> ends it (and the run, when it is
  the root and nothing else is live).  A heartbeat commits its transaction and raises afterwards
  when it was denied, so its body returns the denial code next to the node.
\<close>

definition node_before :: "env \<Rightarrow> ident \<Rightarrow> string \<Rightarrow> db \<Rightarrow> error + ('a, node) admission" where
  "node_before E node_id node_token d =
    andthen (authenticate_node E node_id node_token d) (\<lambda>node.
    Inr (Proceed (n_run_id node @ '':'' @ n_id node) node))"

definition set_status :: "node_status \<Rightarrow> node \<Rightarrow> db \<Rightarrow> db" where
  "set_status st node d = update_node (n_id node) (\<lambda>n. n\<lparr>n_status := st\<rparr>) d"

section \<open>Heartbeat\<close>

definition node_event :: "node \<Rightarrow> string \<Rightarrow> time \<Rightarrow> runtime_event" where
  "node_event node event_type now =
    (blank_event (n_run_id node) event_type now)
      \<lparr>e_node_id := Some (n_id node), e_parent_node_id := n_parent_id node\<rparr>"

definition heartbeat_expired :: "env \<Rightarrow> time \<Rightarrow> node \<Rightarrow> db \<Rightarrow> db" where
  "heartbeat_expired E now node d =
    record_runtime_event (node_event node ''LEASE_EXPIRED'' now)
      (record_lease_expiry_ack E node now (set_status Node_Lease_Expired node d))"

definition heartbeat_stale :: "env \<Rightarrow> time \<Rightarrow> node \<Rightarrow> scope_evaluation \<Rightarrow> db \<Rightarrow> db" where
  "heartbeat_stale E now node evaluation d =
    set_status (se_effective_status evaluation) node
      (record_acks E node Ack_Cooperative (\<lambda>_. now)
        (commands_for_scope_mismatches d (se_mismatches evaluation) (n_run_id node)) d)"

definition renew_lease :: "env \<Rightarrow> time \<Rightarrow> node \<Rightarrow> node" where
  "renew_lease E now n =
    n\<lparr>n_last_heartbeat_at := Some now, n_lease_expires_at := Some (lease_until E now)\<rparr>"

definition heartbeat_renewed :: "env \<Rightarrow> time \<Rightarrow> node \<Rightarrow> db \<Rightarrow> db" where
  "heartbeat_renewed E now node d =
    record_runtime_event ((node_event node ''LEASE_RENEWED'' now)
        \<lparr>e_metadata := JObj [(''lease_expires_at'', JStr (utc_text (lease_until E now)))]\<rparr>)
      (update_node (n_id node) (renew_lease E now) d)"

definition heartbeat_body :: "env \<Rightarrow> time \<Rightarrow> node \<Rightarrow> (string option) tx" where
  "heartbeat_body E now node d =
    andthen (get_run (n_run_id node) d) (\<lambda>run.
    if r_status run \<noteq> Run_Running then Inr (Some ''RUN_NOT_ACTIVE'', d)
    else if n_status node \<notin> live_node_statuses then Inr (Some ''NODE_NOT_ACTIVE'', d)
    else if \<not> lease_live now node then Inr (Some ''LEASE_EXPIRED'', heartbeat_expired E now node d)
    else
      (let evaluation = evaluate_scopes d node in
       if \<not> se_allowed evaluation then
         Inr (Some (case primary_reason evaluation of None \<Rightarrow> ''SCOPE_INVALID'' | Some r \<Rightarrow> r),
              heartbeat_stale E now node evaluation d)
       else Inr (None, heartbeat_renewed E now node d)))"

text \<open>The denial is raised after the commit: the database keeps what the body did.\<close>

definition raise_denial :: "(error + string option) \<times> sys \<Rightarrow> (error + unit) \<times> sys" where
  "raise_denial r =
    (case r of
       (Inl e, s) \<Rightarrow> (Inl e, s)
     | (Inr None, s) \<Rightarrow> (Inr (), s)
     | (Inr (Some code), s) \<Rightarrow> (Inl (conflict_error code), s))"

definition heartbeat ::
    "env \<Rightarrow> time \<Rightarrow> rat \<Rightarrow> ident \<Rightarrow> string \<Rightarrow> sys \<Rightarrow> (error + unit) \<times> sys" where
  "heartbeat E now tick node_id node_token s =
    raise_denial (rate_limited E ''heartbeat'' tick (node_before E node_id node_token)
      (heartbeat_body E now) s)"

section \<open>Checkpoint\<close>

text \<open>Clock: 0 validates the lease, 1 is the time of the event or of the acknowledgements.\<close>

definition checkpoint_waiting :: "clock \<Rightarrow> string \<Rightarrow> node \<Rightarrow> db \<Rightarrow> db" where
  "checkpoint_waiting clk stage node d =
    record_runtime_event ((node_event node ''NODE_WAITING'' (clk 1))
        \<lparr>e_command_id := n_caused_by_command_id node,
         e_metadata := JObj [(''stage'', JStr stage)]\<rparr>)
      (set_status Node_Waiting node d)"

definition checkpoint_denied ::
    "env \<Rightarrow> clock \<Rightarrow> node \<Rightarrow> string option \<Rightarrow> scope_evaluation \<Rightarrow> command list \<Rightarrow> db \<Rightarrow>
     node_status \<times> db" where
  "checkpoint_denied E clk node reason evaluation commands d =
    (if reason = Some ''LEASE_EXPIRED'' then
       (Node_Lease_Expired,
        record_lease_expiry_ack E node (clk 1) (set_status Node_Lease_Expired node d))
     else if commands \<noteq> [] then
       (se_effective_status evaluation,
        set_status (se_effective_status evaluation) node
          (record_acks E node Ack_Cooperative (\<lambda>_. clk 1) commands d))
     else (se_effective_status evaluation, d))"

definition checkpoint_body :: "env \<Rightarrow> clock \<Rightarrow> string \<Rightarrow> node \<Rightarrow> checkpoint_response tx" where
  "checkpoint_body E clk stage node d =
    andthen (validate_node_runtime_state (clk 0) node d) (\<lambda>(allowed, reason, evaluation).
    if allowed then
      Inr (\<lparr>cr_allowed = True, cr_effective_status = Node_Waiting, cr_command_id = None,
            cr_reason_code = None\<rparr>, checkpoint_waiting clk stage node d)
    else
      (let commands = commands_for_scope_mismatches d (se_mismatches evaluation) (n_run_id node)
       in case checkpoint_denied E clk node reason evaluation commands d of
            (effective, d') \<Rightarrow>
              Inr (\<lparr>cr_allowed = False, cr_effective_status = effective,
                    cr_command_id = (if commands = [] then None else Some (c_id (last commands))),
                    cr_reason_code = reason\<rparr>, d')))"

definition checkpoint ::
    "env \<Rightarrow> clock \<Rightarrow> rat \<Rightarrow> ident \<Rightarrow> string \<Rightarrow> string \<Rightarrow> sys \<Rightarrow> (error + checkpoint_response) \<times> sys"
where
  "checkpoint E clk tick node_id node_token stage =
    rate_limited E ''heartbeat'' tick (node_before E node_id node_token)
      (checkpoint_body E clk stage)"

section \<open>Completion\<close>

text \<open>
  The root may complete when every other node of the run is dead, expired by now (it is marked so)
  or stale.  Clock: 0 validates the lease, 1 is the sweep, 2 the end of the run, 3 the completion.
\<close>

definition intent_in_run :: "node \<Rightarrow> db \<Rightarrow> spawn_intent option" where
  "intent_in_run n d =
    List.find (\<lambda>i. si_child_node_id i = n_id n \<and> si_run_id i = n_run_id n) (db_intents d)"

definition has_expired :: "time \<Rightarrow> node \<Rightarrow> db \<Rightarrow> bool" where
  "has_expired now n d \<longleftrightarrow>
    (if n_status n \<in> live_node_statuses then \<not> lease_live now n
     else n_status n = Node_Pending \<and>
       (case intent_in_run n d of
          None \<Rightarrow> True
        | Some i \<Rightarrow> si_consumed_at i = None \<and> si_expires_at i \<le> now))"

definition sweep_node :: "env \<Rightarrow> time \<Rightarrow> node \<Rightarrow> db \<times> ident list \<Rightarrow> db \<times> ident list" where
  "sweep_node E now n acc =
    (case acc of (d, live) \<Rightarrow>
      if n_status n \<in> {Node_Completed, Node_Cancelled, Node_Superseded, Node_Lease_Expired}
        then (d, live)
      else if has_expired now n d
        then (record_lease_expiry_ack E n now (set_status Node_Lease_Expired n d), live)
      else if se_allowed (evaluate_scopes d n) then (d, live @ [n_id n])
      else (d, live))"

definition complete_run :: "env \<Rightarrow> clock \<Rightarrow> run \<Rightarrow> node \<Rightarrow> db \<Rightarrow> error + db" where
  "complete_run E clk run node d =
    (let others = filter (\<lambda>n. n_run_id n = n_run_id node \<and> n_id n \<noteq> n_id node) (db_nodes d) in
     case fold (sweep_node E (clk 1)) others (d, []) of
       (d1, live) \<Rightarrow>
         andthen (require (live = []) (conflict_error ''RUN_HAS_LIVE_NODES'')) (\<lambda>_.
         transition_run run Run_Completed (clk 2) d1))"

definition finish_run :: "env \<Rightarrow> clock \<Rightarrow> run \<Rightarrow> node \<Rightarrow> db \<Rightarrow> error + db" where
  "finish_run E clk run node d =
    (if r_root_node_id run = n_id node then complete_run E clk run node d else Inr d)"

definition completion_events :: "node \<Rightarrow> time \<Rightarrow> runtime_event list" where
  "completion_events node now =
    (let e = (\<lambda>ty. (node_event node ty now)\<lparr>e_command_id := n_caused_by_command_id node\<rparr>)
     in [e ''NODE_COMPLETED''] @
        (if n_caused_by_command_id node \<noteq> None then [e ''RECOVERY_COMPLETED''] else []))"

definition complete_body :: "env \<Rightarrow> clock \<Rightarrow> node \<Rightarrow> unit tx" where
  "complete_body E clk node d =
    andthen (validate_node_runtime_state (clk 0) node d) (\<lambda>(allowed, reason, _).
    andthen (require allowed (conflict_error (case reason of None \<Rightarrow> ''COMPLETE_DENIED''
                                                | Some code \<Rightarrow> code))) (\<lambda>_.
    andthen (get_run (n_run_id node) d) (\<lambda>run.
    andthen (finish_run E clk run node d) (\<lambda>d1.
    let d2 = update_node (n_id node)
               (\<lambda>n. n\<lparr>n_status := Node_Completed, n_completed_at := Some (clk 3)\<rparr>) d1
    in
    andthen (advance_replacement Repl_Active Repl_Completed node d2) (\<lambda>d3.
    Inr ((), fold record_runtime_event (completion_events node (clk 3)) d3))))))"

definition complete ::
    "env \<Rightarrow> clock \<Rightarrow> rat \<Rightarrow> ident \<Rightarrow> string \<Rightarrow> sys \<Rightarrow> (error + unit) \<times> sys" where
  "complete E clk tick node_id node_token =
    rate_limited E ''heartbeat'' tick (node_before E node_id node_token) (complete_body E clk)"

section \<open>Lemmas\<close>

lemma node_before_returns [outcome]:
  "node_before E k token d = Inr (Proceed i n) \<longleftrightarrow>
     get_node_row k d = Some n \<and> token_matches E token (n_token_hash n) \<and>
     i = n_run_id n @ '':'' @ n_id n"
  "node_before E k token d \<noteq> Inr (Answer r d')"
  by (auto simp: node_before_def outcome)

lemma set_status_tables [simp]:
  "db_runs (set_status st n d) = db_runs d" "db_scopes (set_status st n d) = db_scopes d"
  "db_commands (set_status st n d) = db_commands d" "db_actions (set_status st n d) = db_actions d"
  "db_acks (set_status st n d) = db_acks d" "db_services (set_status st n d) = db_services d"
  "db_intents (set_status st n d) = db_intents d" "db_events (set_status st n d) = db_events d"
  "db_envelopes (set_status st n d) = db_envelopes d"
  "db_proposals (set_status st n d) = db_proposals d" "db_matches (set_status st n d) = db_matches d"
  by (simp_all add: set_status_def update_node_def)

lemma node_step_status:
  "(n_status n \<in> dead_node_statuses \<Longrightarrow> st \<in> dead_node_statuses) \<Longrightarrow> st \<noteq> Node_Pending \<Longrightarrow>
   node_step n (n\<lparr>n_status := st\<rparr>)"
  by (simp add: node_step_def)

lemma set_status_advances [evolution]:
  assumes "advances E d0 d"
    and "\<And>n'. get_node_row (n_id n) d = Some n' \<Longrightarrow> n_status n' \<in> dead_node_statuses \<Longrightarrow>
      st \<in> dead_node_statuses"
    and "st \<noteq> Node_Pending"
  shows "advances E d0 (set_status st n d)"
  unfolding set_status_def
  using assms by (intro evolution node_step_status) auto

lemma stale_status_dead:
  "\<not> se_allowed (evaluate_scopes d n) \<Longrightarrow> se_effective_status (evaluate_scopes d n) \<in> dead_node_statuses"
  using effective_status_stale by (auto simp: dead_node_statuses_def)

lemma mismatch_not_allowed:
  "commands_for_scope_mismatches d (se_mismatches (evaluate_scopes d n)) rid \<noteq> [] \<Longrightarrow>
   \<not> se_allowed (evaluate_scopes d n)"
  by (auto simp: evaluate_scopes_def Let_def commands_for_scope_mismatches_def by_scope_def
      split: if_splits)

lemma get_node_row_same_nodes: "db_nodes d' = db_nodes d \<Longrightarrow> get_node_row k d' = get_node_row k d"
  by (simp add: get_node_row_def)

lemma live_not_dead: "n_status n \<in> live_node_statuses \<Longrightarrow> n_status n \<notin> dead_node_statuses"
  by (auto simp: live_node_statuses_def dead_node_statuses_def)

lemma dead_statuses [simp]:
  "Node_Lease_Expired \<in> dead_node_statuses" "Node_Completed \<in> dead_node_statuses"
  by (simp_all add: dead_node_statuses_def)

lemma dead_not_pending: "st \<in> dead_node_statuses \<Longrightarrow> st \<noteq> Node_Pending"
  by (auto simp: dead_node_statuses_def)

lemma heartbeat_body_advances:
  assumes "heartbeat_body E now node d = Inr (r, d')"
  shows "advances E' d d'"
proof -
  have stale: "advances E' d (heartbeat_stale E now node (evaluate_scopes d node) d)"
    if "\<not> se_allowed (evaluate_scopes d node)"
    unfolding heartbeat_stale_def using stale_status_dead [OF that] dead_not_pending
    by (auto intro!: evolution)
  have expired: "advances E' d (heartbeat_expired E now node d)"
    unfolding heartbeat_expired_def by (auto intro!: evolution)
  have renewed: "advances E' d (heartbeat_renewed E now node d)"
    unfolding heartbeat_renewed_def by (auto intro!: evolution simp: node_step_def renew_lease_def)
  show ?thesis
    using assms stale expired renewed
    by (auto simp: heartbeat_body_def outcome Let_def advances_refl split: if_splits)
qed

lemma checkpoint_body_advances:
  assumes "get_node_row k d = Some node"
    and "checkpoint_body E clk stage node d = Inr (r, d')"
  shows "advances E' d d'"
proof -
  have id: "n_id node = k" using assms(1) by (rule get_node_row_id)
  obtain ok reason where v: "validate_node_runtime_state (clk 0) node d =
      Inr (ok, reason, evaluate_scopes d node)"
    using assms(2) validate_returns_eval by (fastforce simp: checkpoint_body_def outcome)
  show ?thesis
  proof (cases ok)
    case True
    with v have "n_status node \<in> live_node_statuses" by (simp add: validate_returns_True node_live_def)
    then have "advances E' d (checkpoint_waiting clk stage node d)"
      unfolding checkpoint_waiting_def using live_not_dead [of node] assms(1) id
      by (auto intro!: evolution)
    then show ?thesis using assms(2) v True by (auto simp: checkpoint_body_def outcome)
  next
    case False
    have stale: "advances E' d (set_status (se_effective_status (evaluate_scopes d node)) node
          (record_acks E node Ack_Cooperative (\<lambda>_. clk 1) cs d))"
      if "\<not> se_allowed (evaluate_scopes d node)" for cs
      using stale_status_dead [OF that] dead_not_pending by (auto intro!: evolution)
    have expired: "advances E' d (record_lease_expiry_ack E node (clk 1)
          (set_status Node_Lease_Expired node d))"
      by (auto intro!: evolution)
    show ?thesis
      using assms(2) v False stale expired mismatch_not_allowed
      by (auto simp: checkpoint_body_def outcome Let_def checkpoint_denied_def advances_refl
          split: if_splits)
  qed
qed

lemma sweep_advances: "advances E' d (fst (sweep_node E now n (d, live)))"
  by (auto simp: sweep_node_def advances_refl intro!: evolution)

lemma fold_sweep_advances: "advances E' d (fst (fold (sweep_node E now) ns (d, live)))"
proof (induction ns arbitrary: d live)
  case (Cons n ns)
  obtain d1 l1 where s: "sweep_node E now n (d, live) = (d1, l1)" by fastforce
  have "advances E' d d1" using sweep_advances [of E' d E now n live] s by simp
  then show ?case using Cons.IH [of d1 l1] by (auto simp: s intro: db_advance.trans)
qed (simp add: advances_refl)

lemma complete_run_advances:
  assumes "complete_run E clk run node d = Inr d'"
  shows "advances E' d d'"
proof -
  let ?others = "filter (\<lambda>n. n_run_id n = n_run_id node \<and> n_id n \<noteq> n_id node) (db_nodes d)"
  obtain d1 live where f: "fold (sweep_node E (clk 1)) ?others (d, []) = (d1, live)" by fastforce
  with assms have "transition_run run Run_Completed (clk 2) d1 = Inr d'"
    by (auto simp: complete_run_def Let_def andthen_returns)
  then have "advances E' d1 d'" by (rule transition_run_advances)
  then show ?thesis
    using fold_sweep_advances [of E' d E "clk 1" ?others "[]"] f by (auto intro: db_advance.trans)
qed

lemma complete_body_returns:
  "complete_body E clk node d = Inr (u, d') \<longleftrightarrow>
   node_live (clk 0) node d \<and>
   (\<exists>run d1 d3. get_run_row (n_run_id node) d = Some run \<and>
      finish_run E clk run node d = Inr d1 \<and>
      advance_replacement Repl_Active Repl_Completed node
        (update_node (n_id node)
          (\<lambda>n. n\<lparr>n_status := Node_Completed, n_completed_at := Some (clk 3)\<rparr>) d1) = Inr d3 \<and>
      d' = fold record_runtime_event (completion_events node (clk 3)) d3)"
  unfolding complete_body_def live_gate
  by (auto simp: andthen_returns get_run_returns Let_def)

lemma complete_body_advances:
  assumes "complete_body E clk node d = Inr (u, d')"
  shows "advances E' d d'"
proof -
  obtain run d1 d3 where
    1: "finish_run E clk run node d = Inr d1"
    and 3: "advance_replacement Repl_Active Repl_Completed node
        (update_node (n_id node)
          (\<lambda>n. n\<lparr>n_status := Node_Completed, n_completed_at := Some (clk 3)\<rparr>) d1) = Inr d3"
    and d': "d' = fold record_runtime_event (completion_events node (clk 3)) d3"
    using assms unfolding complete_body_returns by blast
  have "advances E' d d1"
    using 1 complete_run_advances advances_refl by (auto simp: finish_run_def split: if_splits)
  then have "advances E' d (update_node (n_id node)
          (\<lambda>n. n\<lparr>n_status := Node_Completed, n_completed_at := Some (clk 3)\<rparr>) d1)"
    by (intro evolution) (auto simp: node_step_def)
  then have "advances E' d d3" using advance_replacement_advances [OF 3] by (rule db_advance.trans)
  then show ?thesis unfolding d' by (intro evolution)
qed

interpretation heartbeat_handler: kept_by_handler "advances E'" "node_before E k token"
  "heartbeat_body E now" for E' E k token now
  by unfold_locales (auto simp: node_before_returns intro: heartbeat_body_advances)

interpretation checkpoint_handler: kept_by_handler "advances E'" "node_before E k token"
  "checkpoint_body E clk stage" for E' E k token clk stage
  by unfold_locales (auto simp: node_before_returns intro: checkpoint_body_advances)

interpretation complete_handler: kept_by_handler "advances E'" "node_before E k token"
  "complete_body E clk" for E' E k token clk
  by unfold_locales (auto simp: node_before_returns intro: complete_body_advances)

lemma raise_denial_sys [simp]: "snd (raise_denial r) = snd r"
  by (auto simp: raise_denial_def split: prod.split sum.split option.split)

end
