(* ===== verification/Lease.thy ===== *)
theory Lease
  imports Runs Acks
begin

text \<open>
  \<open>services/lease_service.py\<close>: the scanner that expires the leases of silent nodes and of children
  that were never activated, fails the run of an expired root, and the gauges that count live
  nodes, live nodes under a command, and those that have not converged in time.
\<close>

section \<open>The scan\<close>

definition in_run :: "ident option \<Rightarrow> ident \<Rightarrow> bool" where
  "in_run run_id k \<longleftrightarrow> (case run_id of None \<Rightarrow> True | Some r \<Rightarrow> k = r)"

definition lease_overdue :: "time \<Rightarrow> node \<Rightarrow> bool" where
  "lease_overdue now n \<longleftrightarrow> n_status n \<in> live_node_statuses \<and>
     (case n_lease_expires_at n of None \<Rightarrow> False | Some t \<Rightarrow> t < now)"

definition pending_overdue :: "time \<Rightarrow> db \<Rightarrow> node \<Rightarrow> bool" where
  "pending_overdue now d n \<longleftrightarrow> n_status n = Node_Pending \<and>
     (\<exists>i \<in> set (db_intents d). si_child_node_id i = n_id n \<and> si_consumed_at i = None \<and>
        si_expires_at i < now)"

definition overdue_nodes :: "time \<Rightarrow> ident option \<Rightarrow> db \<Rightarrow> node list" where
  "overdue_nodes now run_id d =
    filter (\<lambda>n. lease_overdue now n \<and> in_run run_id (n_run_id n)) (db_nodes d) @
    filter (\<lambda>n. pending_overdue now d n \<and> in_run run_id (n_run_id n)) (db_nodes d)"

definition expire_replacement :: "node \<Rightarrow> db \<Rightarrow> db" where
  "expire_replacement n d =
    (case n_caused_by_command_id n of
       None \<Rightarrow> d
     | Some k \<Rightarrow> update_command k (\<lambda>c.
         if c_replacement_node_id c = Some (n_id n) \<and> c_replacement_status c = Some Repl_Pending
         then c\<lparr>c_replacement_status := Some Repl_Activation_Expired\<rparr> else c) d)"

definition fail_root_run :: "time \<Rightarrow> node \<Rightarrow> db \<Rightarrow> error + db" where
  "fail_root_run now n d =
    (case get_run_row (n_run_id n) d of
       None \<Rightarrow> Inr d
     | Some run \<Rightarrow>
         if r_root_node_id run = n_id n \<and> r_status run = Run_Running
         then transition_run run Run_Failed now d else Inr d)"

definition lease_event :: "node \<Rightarrow> time \<Rightarrow> runtime_event" where
  "lease_event n now =
    (blank_event (n_run_id n) ''LEASE_EXPIRED'' now)
      \<lparr>e_node_id := Some (n_id n), e_parent_node_id := n_parent_id n,
       e_command_id := n_caused_by_command_id n\<rparr>"

definition expire_node :: "env \<Rightarrow> time \<Rightarrow> node \<Rightarrow> db \<Rightarrow> error + db" where
  "expire_node E now n d =
    (let d1 = update_node (n_id n) (\<lambda>n. n\<lparr>n_status := Node_Lease_Expired\<rparr>) d;
         d2 = expire_replacement n d1
     in
     andthen (fail_root_run now n d2) (\<lambda>d3.
     Inr (record_runtime_event (lease_event n now) (record_lease_expiry_ack E n now d3))))"

definition expire_stale_nodes :: "env \<Rightarrow> time \<Rightarrow> ident option \<Rightarrow> int tx" where
  "expire_stale_nodes E now run_id d =
    (let ns = overdue_nodes now run_id d in
     andthen (foldm (expire_node E now) ns d) (\<lambda>d'. Inr (int (length ns), d')))"

section \<open>Gauges\<close>

record gauges =
  g_active_nodes :: int
  g_live_affected_nodes :: int
  g_unacknowledged_live_nodes :: int
  g_orphan_nodes :: int

definition acknowledged :: "db \<Rightarrow> node \<Rightarrow> command \<Rightarrow> bool" where
  "acknowledged d n c \<longleftrightarrow>
     (\<exists>k \<in> set (db_acks d). k_command_id k = c_id c \<and> k_node_id k = n_id n)"

definition blocked :: "db \<Rightarrow> node \<Rightarrow> command \<Rightarrow> bool" where
  "blocked d n c \<longleftrightarrow>
     (\<exists>m \<in> set (db_matches d). m_command_id m = c_id c \<and>
        (\<exists>a \<in> set (db_actions d). a_id a = m_action_id m \<and> a_node_id a = n_id n \<and>
           a_decision a = Deny))"

definition unresolved_commands :: "db \<Rightarrow> node \<Rightarrow> command list" where
  "unresolved_commands d n =
    filter (\<lambda>c. \<not> acknowledged d n c \<and> \<not> blocked d n c)
      (commands_for_scope_mismatches d (se_mismatches (evaluate_scopes d n)) (n_run_id n))"

definition count_node :: "env \<Rightarrow> time \<Rightarrow> db \<Rightarrow> node \<Rightarrow> gauges \<Rightarrow> gauges" where
  "count_node E now d n g =
    (if se_allowed (evaluate_scopes d n) then g\<lparr>g_active_nodes := g_active_nodes g + 1\<rparr>
     else
       (let commands = commands_for_scope_mismatches d (se_mismatches (evaluate_scopes d n))
              (n_run_id n);
            unresolved = unresolved_commands d n;
            g1 = g\<lparr>g_live_affected_nodes := g_live_affected_nodes g + 1\<rparr>
        in if commands = [] \<or> unresolved \<noteq> [] then
             (let g2 = g1\<lparr>g_unacknowledged_live_nodes := g_unacknowledged_live_nodes g1 + 1\<rparr>
              in if \<exists>c \<in> set unresolved.
                      seconds (control_convergence_slo_seconds E) \<le> now - c_created_at c
                 then g2\<lparr>g_orphan_nodes := g_orphan_nodes g2 + 1\<rparr> else g2)
           else g1))"

definition refresh_runtime_gauges :: "env \<Rightarrow> time \<Rightarrow> db \<Rightarrow> gauges" where
  "refresh_runtime_gauges E now d =
    fold (count_node E now d)
      (filter (\<lambda>n. n_status n \<in> live_node_statuses \<and> lease_live now n) (db_nodes d))
      \<lparr>g_active_nodes = 0, g_live_affected_nodes = 0, g_unacknowledged_live_nodes = 0,
       g_orphan_nodes = 0\<rparr>"

section \<open>Lemmas\<close>

lemma expire_replacement_advances [evolution]:
  "advances E d0 d \<Longrightarrow> advances E d0 (expire_replacement n d)"
  by (auto simp: expire_replacement_def command_step_replacement split: option.split intro!: evolution)

lemma expire_replacement_tables [simp]:
  "db_runs (expire_replacement n d) = db_runs d" "db_nodes (expire_replacement n d) = db_nodes d"
  "db_scopes (expire_replacement n d) = db_scopes d" "db_acks (expire_replacement n d) = db_acks d"
  "db_actions (expire_replacement n d) = db_actions d"
  "db_events (expire_replacement n d) = db_events d"
  "db_intents (expire_replacement n d) = db_intents d"
  "db_services (expire_replacement n d) = db_services d"
  by (auto simp: expire_replacement_def update_command_def split: option.split)

lemma expire_node_advances:
  assumes "expire_node E now n d = Inr d'"
  shows "advances E' d d'"
proof -
  let ?d2 = "expire_replacement n (update_node (n_id n) (\<lambda>n. n\<lparr>n_status := Node_Lease_Expired\<rparr>) d)"
  obtain d3 where f: "fail_root_run now n ?d2 = Inr d3"
    and d': "d' = record_runtime_event (lease_event n now) (record_lease_expiry_ack E n now d3)"
    using assms by (auto simp: expire_node_def andthen_returns Let_def)
  have "advances E' d ?d2"
    by (intro evolution) (simp add: node_step_def dead_node_statuses_def)
  moreover have "advances E' ?d2 d3"
    using f transition_run_advances advances_refl
    by (auto simp: fail_root_run_def split: option.splits if_splits)
  ultimately have "advances E' d d3" by (rule db_advance.trans)
  then show ?thesis unfolding d' by (intro evolution)
qed

lemma expire_stale_nodes_advances:
  "expire_stale_nodes E now rid d = Inr (k, d') \<Longrightarrow> advances E' d d'"
  by (auto simp: expire_stale_nodes_def andthen_returns Let_def
      intro: db_advance.foldm_related expire_node_advances)

text \<open>The gauges partition the live nodes.\<close>

definition gauges_ok :: "gauges \<Rightarrow> bool" where
  "gauges_ok g \<longleftrightarrow> 0 \<le> g_orphan_nodes g \<and> g_orphan_nodes g \<le> g_unacknowledged_live_nodes g \<and>
     g_unacknowledged_live_nodes g \<le> g_live_affected_nodes g"

lemma count_node_ok: "gauges_ok g \<Longrightarrow> gauges_ok (count_node E now d n g)"
  by (auto simp: count_node_def gauges_ok_def Let_def)

lemma count_node_total:
  "g_active_nodes (count_node E now d n g) + g_live_affected_nodes (count_node E now d n g) =
   g_active_nodes g + g_live_affected_nodes g + 1"
  by (auto simp: count_node_def Let_def)

lemma fold_count_total:
  "g_active_nodes (fold (count_node E now d) ns g) + g_live_affected_nodes (fold (count_node E now d) ns g) =
   g_active_nodes g + g_live_affected_nodes g + int (length ns)"
  by (induction ns arbitrary: g) (simp_all add: count_node_total)

lemma count_node_active:
  "g_active_nodes (count_node E now d n g) =
     g_active_nodes g + (if se_allowed (evaluate_scopes d n) then 1 else 0)"
  by (auto simp: count_node_def Let_def)

lemma fold_count_active:
  "g_active_nodes (fold (count_node E now d) ns g) =
     g_active_nodes g + int (length (filter (\<lambda>n. se_allowed (evaluate_scopes d n)) ns))"
  by (induction ns arbitrary: g) (simp_all add: count_node_active)

end
