(* ===== verification/Gateway.thy ===== *)
theory Gateway
  imports Transactions Runs Acks
begin

text \<open>
  \<open>services/action_gateway.py\<close>: the admission of one protected action.  \<open>execute\<close> authenticates
  the node, answers an exact replay, consults the limiter, decides (run, node, lease, scopes,
  recovery contract, capability, arguments, in this order), attributes a stale denial to the
  commands behind it, and either records the denial or runs the tool and records its result.
  Readings of the clock: 0 is the lease check, 1 the attempt, 2 and later those of the
  acknowledgements or of the executor, 8 the commit (an executor reads the clock at most four
  times).
\<close>

definition stale_reasons :: "string set" where
  "stale_reasons = {''SCOPE_CANCELLED'', ''SCOPE_SUPERSEDED'', ''SCOPE_VERSION_MISMATCH''}"

section \<open>The recovery contract of a replacement\<close>

definition committed_count :: "node \<Rightarrow> db \<Rightarrow> int" where
  "committed_count node d = int (length (filter (\<lambda>a. a_run_id a = n_run_id node \<and>
     a_node_id a = n_id node \<and> a_decision a = Allow \<and> a_committed_at a \<noteq> None) (db_actions d)))"

definition contract_denial ::
    "env \<Rightarrow> node \<Rightarrow> action_execute \<Rightarrow> tool_spec \<Rightarrow> command \<Rightarrow> recovery_contract \<Rightarrow> db \<Rightarrow> string option"
where
  "contract_denial E node request spec command contract d =
    (if ct_allowed_environment contract \<noteq> environment E
       then Some ''RECOVERY_ENVIRONMENT_MISMATCH''
     else if Some (ae_tool_name request) \<noteq> ct_expected_tool contract \<or>
             c_replacement_expected_tool command \<noteq> ct_expected_tool contract
       then Some ''RECOVERY_TOOL_MISMATCH''
     else if sort (ts_resources spec) \<noteq> ct_allowed_resources contract
       then Some ''RECOVERY_RESOURCE_MISMATCH''
     else if payload_digest E (JObj (ae_arguments request)) \<noteq> ct_expected_arguments_digest contract
       then Some ''RECOVERY_ARGUMENTS_MISMATCH''
     else if ct_max_committed_invocations contract \<le> committed_count node d
       then Some ''RECOVERY_INVOCATION_LIMIT_EXCEEDED''
     else None)"

definition manifest_denial ::
    "env \<Rightarrow> node \<Rightarrow> action_execute \<Rightarrow> tool_spec \<Rightarrow> command \<Rightarrow> replacement_manifest \<Rightarrow> db \<Rightarrow> string option"
where
  "manifest_denial E node request spec command manifest d =
    (if n_role node \<noteq> mf_role manifest then Some ''RECOVERY_ROLE_MISMATCH''
     else if n_behavior node \<noteq> mf_behavior manifest then Some ''RECOVERY_BEHAVIOR_MISMATCH''
     else if sort (n_capabilities node) \<noteq> mf_capabilities_exact manifest
       then Some ''RECOVERY_CAPABILITIES_MISMATCH''
     else if payload_digest E (JObj (n_instruction node)) \<noteq> mf_instruction_digest manifest
       then Some ''RECOVERY_INSTRUCTION_MISMATCH''
     else if n_instruction_version node \<noteq> mf_instruction_version manifest
       then Some ''RECOVERY_INSTRUCTION_VERSION_MISMATCH''
     else contract_denial E node request spec command (mf_recovery_contract manifest) d)"

definition recovery_contract_denial ::
    "env \<Rightarrow> node \<Rightarrow> action_execute \<Rightarrow> tool_spec \<Rightarrow> db \<Rightarrow> string option" where
  "recovery_contract_denial E node request spec d =
    (case n_caused_by_command_id node of
       None \<Rightarrow> None
     | Some command_id \<Rightarrow>
       (case get_command_row command_id d of
          None \<Rightarrow> Some ''RECOVERY_COMMAND_MISMATCH''
        | Some command \<Rightarrow>
            if c_command_type command \<noteq> Correct_Subtree \<or> c_run_id command \<noteq> n_run_id node
              then Some ''RECOVERY_COMMAND_MISMATCH''
            else if c_replacement_node_id command \<noteq> Some (n_id node) \<or> command_id \<noteq> c_id command
              then Some ''RECOVERY_NODE_MISMATCH''
            else (case c_replacement_manifest command of
                None \<Rightarrow> Some ''RECOVERY_MANIFEST_INVALID''
              | Some stored \<Rightarrow>
                  if c_replacement_manifest_digest command \<noteq> Some (payload_digest E stored)
                    then Some ''RECOVERY_MANIFEST_INVALID''
                  else (case manifest_of_json stored of
                      None \<Rightarrow> Some ''RECOVERY_MANIFEST_INVALID''
                    | Some manifest \<Rightarrow>
                        manifest_denial E node request spec command manifest d))))"

section \<open>The decision\<close>

definition check_json :: "string \<Rightarrow> bool \<Rightarrow> string option \<Rightarrow> json" where
  "check_json name passed reason =
    JObj [(''name'', JStr name), (''outcome'', JStr (if passed then ''PASS'' else ''FAIL'')),
          (''reason'', if passed then JNull else jopt JStr reason)]"

definition passed :: "string \<Rightarrow> json" where "passed name = check_json name True None"
definition failed :: "string \<Rightarrow> string \<Rightarrow> json" where
  "failed name reason = check_json name False (Some reason)"

definition or_else :: "'a option \<Rightarrow> 'a \<Rightarrow> 'a" where
  "or_else v dflt = (case v of None \<Rightarrow> dflt | Some x \<Rightarrow> x)"

definition admission_decision ::
    "env \<Rightarrow> time \<Rightarrow> run \<Rightarrow> node \<Rightarrow> scope_evaluation \<Rightarrow> tool_spec \<Rightarrow> action_execute \<Rightarrow> db \<Rightarrow>
     error + (json list \<times> string option)" where
  "admission_decision E now run node evaluation spec request d =
    (if r_status run \<noteq> Run_Running then
       Inr ([failed ''run_active'' ''RUN_NOT_ACTIVE''], Some ''RUN_NOT_ACTIVE'')
     else if n_status node \<notin> live_node_statuses then
       Inr ([passed ''run_active'', failed ''node_active'' ''NODE_NOT_ACTIVE''],
            Some ''NODE_NOT_ACTIVE'')
     else if \<not> lease_live now node then
       Inr ([passed ''run_active'', passed ''node_active'', failed ''lease_valid'' ''LEASE_EXPIRED''],
            Some ''LEASE_EXPIRED'')
     else if \<not> se_allowed evaluation then
       (let reason = or_else (primary_reason evaluation) ''SCOPE_INVALID''
        in Inr ([passed ''run_active'', passed ''node_active'', passed ''lease_valid'',
                 failed ''scope_current'' reason], Some reason))
     else
       (let denial = recovery_contract_denial E node request spec d;
            checks = [passed ''run_active'', passed ''node_active'', passed ''lease_valid'',
                      passed ''scope_current''] @
              (if n_caused_by_command_id node = None then []
               else [check_json ''recovery_contract'' (denial = None) denial])
        in case denial of
             Some reason \<Rightarrow> Inr (checks, Some reason)
           | None \<Rightarrow>
               if ts_capability spec \<notin> set (n_capabilities node) then
                 Inr (checks @ [failed ''capability_allowed'' ''TOOL_NOT_ALLOWED''],
                      Some ''TOOL_NOT_ALLOWED'')
               else
                 andthen (validate_arguments spec (ae_arguments request)) (\<lambda>_.
                 Inr (checks @ [passed ''capability_allowed'', passed ''arguments_valid''], None))))"

section \<open>Attribution of a stale denial\<close>

record attribution =
  at_commands :: "command list"
  at_command :: "command option"
  at_mismatch :: "scope_mismatch option"

definition mismatch_of :: "scope_evaluation \<Rightarrow> ident \<Rightarrow> scope_mismatch option" where
  "mismatch_of evaluation scope_id =
    List.find (\<lambda>m. mm_scope_id m = scope_id) (se_mismatches evaluation)"

definition is_stale :: "string option \<Rightarrow> bool" where
  "is_stale denial \<longleftrightarrow> (case denial of None \<Rightarrow> False | Some r \<Rightarrow> r \<in> stale_reasons)"

definition attribute_denial ::
    "node \<Rightarrow> scope_evaluation \<Rightarrow> string option \<Rightarrow> db \<Rightarrow> attribution" where
  "attribute_denial node evaluation denial d =
    (if is_stale denial then
       (let commands = commands_for_scope_mismatches d (se_mismatches evaluation) (n_run_id node);
            command = (if commands = [] then None else Some (last commands));
            matched = Option.bind command (\<lambda>c. mismatch_of evaluation (c_target_scope_id c))
        in \<lparr>at_commands = commands, at_command = command,
            at_mismatch = (case matched of
                Some m \<Rightarrow> Some m
              | None \<Rightarrow> (case se_mismatches evaluation of [] \<Rightarrow> None | m # _ \<Rightarrow> Some m))\<rparr>)
     else \<lparr>at_commands = [], at_command = None, at_mismatch = None\<rparr>)"

section \<open>The attempt row\<close>

definition mismatch_json :: "scope_mismatch \<Rightarrow> json" where
  "mismatch_json m =
    JObj [(''scope_id'', JStr (mm_scope_id m)),
          (''snapshot_version'', JInt (mm_snapshot_version m)),
          (''live_version'', jopt JInt (mm_live_version m)),
          (''live_status'', jopt (\<lambda>s. JStr (scope_status_value s)) (mm_live_status m)),
          (''reason_code'', JStr (mm_reason_code m))]"

definition evaluation_json :: "scope_evaluation \<Rightarrow> json" where
  "evaluation_json ev =
    JObj [(''allowed'', JBool (se_allowed ev)),
          (''effective_status'', JStr (node_status_value (se_effective_status ev))),
          (''mismatches'', JArr (map mismatch_json (se_mismatches ev))),
          (''live_scopes'', JArr (map (\<lambda>(sid, v, st). JObj
             [(''scope_id'', JStr sid), (''version'', JInt v),
              (''status'', JStr (scope_status_value st))]) (se_live_scopes ev)))]"

definition explanation_json :: "json list \<Rightarrow> string option \<Rightarrow> json" where
  "explanation_json checks denial =
    JObj [(''schema_version'', JInt 1), (''idempotency'', JStr ''NEW''),
          (''checks'', JArr checks),
          (''final_decision'', JStr (if denial \<noteq> None then ''DENY'' else ''ALLOW'')),
          (''final_reason'', jopt JStr denial)]"

definition new_attempt ::
    "env \<Rightarrow> nat \<Rightarrow> time \<Rightarrow> action_execute \<Rightarrow> node \<Rightarrow> tool_spec \<Rightarrow> scope_evaluation \<Rightarrow>
     json list \<Rightarrow> string option \<Rightarrow> attribution \<Rightarrow> action" where
  "new_attempt E index attempted_at request node spec evaluation checks denial att =
    \<lparr>a_id = uuid E ''action_attempts'' index, a_run_id = n_run_id node, a_node_id = n_id node,
     a_tool_name = ae_tool_name request, a_side_effecting = ts_side_effecting spec,
     a_idempotency_key = ae_idempotency_key request,
     a_decision = (if denial \<noteq> None then Deny else Allow), a_denial_reason = denial,
     a_matched_command_id = map_option c_id (at_command att),
     a_matched_scope_id = map_option mm_scope_id (at_mismatch att),
     a_matched_snapshot_version = map_option mm_snapshot_version (at_mismatch att),
     a_matched_live_version = Option.bind (at_mismatch att) mm_live_version,
     a_matched_live_status = Option.bind (at_mismatch att) mm_live_status,
     a_scope_evaluation = evaluation_json evaluation,
     a_decision_explanation = explanation_json checks denial,
     a_request_payload_digest = payload_digest E (action_execute_json request),
     a_arguments = ae_arguments request,
     a_arguments_digest = payload_digest E (JObj (ae_arguments request)),
     a_result = None, a_result_digest = None, a_attempted_at = attempted_at,
     a_committed_at = None\<rparr>"

definition requested_event :: "action \<Rightarrow> runtime_event" where
  "requested_event a =
    (blank_event (a_run_id a) ''ACTION_REQUESTED'' (a_attempted_at a))
      \<lparr>e_node_id := Some (a_node_id a), e_action_id := Some (a_id a),
       e_command_id := a_matched_command_id a, e_scope_id := a_matched_scope_id a,
       e_snapshot_version := a_matched_snapshot_version a,
       e_authoritative_version := a_matched_live_version a,
       e_metadata := JObj [(''tool_name'', JStr (a_tool_name a))]\<rparr>"

definition command_match :: "action \<Rightarrow> scope_evaluation \<Rightarrow> command \<Rightarrow> action_match option" where
  "command_match a evaluation c =
    Option.bind (mismatch_of evaluation (c_target_scope_id c)) (\<lambda>m.
    Option.bind (mm_live_version m) (\<lambda>v.
    Option.bind (mm_live_status m) (\<lambda>s.
    Some \<lparr>m_run_id = a_run_id a, m_action_id = a_id a, m_command_id = c_id c,
          m_scope_id = mm_scope_id m, m_snapshot_version = mm_snapshot_version m,
          m_live_version = v, m_live_status = s\<rparr>)))"

section \<open>The two outcomes\<close>

definition action_result :: "action \<Rightarrow> bool \<Rightarrow> action_result" where
  "action_result a duplicate =
    \<lparr>ar_action_id = a_id a, ar_decision = a_decision a, ar_denial_reason = a_denial_reason a,
     ar_committed = (a_committed_at a \<noteq> None), ar_result = a_result a,
     ar_duplicate = duplicate\<rparr>"

definition denied_event :: "action \<Rightarrow> runtime_event" where
  "denied_event a =
    (blank_event (a_run_id a) ''ACTION_DENIED'' (a_attempted_at a))
      \<lparr>e_node_id := Some (a_node_id a), e_action_id := Some (a_id a),
       e_command_id := a_matched_command_id a, e_scope_id := a_matched_scope_id a,
       e_decision := Some Deny, e_reason_code := a_denial_reason a,
       e_snapshot_version := a_matched_snapshot_version a,
       e_authoritative_version := a_matched_live_version a,
       e_metadata := JObj [(''tool_name'', JStr (a_tool_name a))]\<rparr>"

definition deny_action ::
    "env \<Rightarrow> clock \<Rightarrow> node \<Rightarrow> scope_evaluation \<Rightarrow> attribution \<Rightarrow> action \<Rightarrow> db \<Rightarrow> action_result \<times> db"
where
  "deny_action E clk node evaluation att a d =
    (let d1 = record_runtime_event (requested_event a) (db_actions_update (\<lambda>as. as @ [a]) d);
         d2 = db_matches_update
                (\<lambda>ms. ms @ List.map_filter (command_match a evaluation) (at_commands att)) d1;
         d3 = (if is_stale (a_denial_reason a)
               then update_node (n_id node)
                      (\<lambda>n. n\<lparr>n_status := se_effective_status evaluation\<rparr>) d2
               else d2);
         d4 = record_acks E node Ack_Gateway_Block (\<lambda>i. clk (i + 2)) (at_commands att) d3
     in (action_result a False, record_runtime_event (denied_event a) d4))"

definition committed_event :: "node \<Rightarrow> action \<Rightarrow> time \<Rightarrow> runtime_event" where
  "committed_event node a committed_at =
    (blank_event (a_run_id a) ''ACTION_COMMITTED'' committed_at)
      \<lparr>e_node_id := Some (a_node_id a), e_action_id := Some (a_id a),
       e_command_id := n_caused_by_command_id node, e_decision := Some Allow,
       e_metadata := JObj [(''tool_name'', JStr (a_tool_name a)),
                           (''result_digest'', jopt JStr (a_result_digest a))]\<rparr>"

definition allow_action ::
    "env \<Rightarrow> clock \<Rightarrow> node \<Rightarrow> tool_spec \<Rightarrow> action_execute \<Rightarrow> action \<Rightarrow> action_result tx" where
  "allow_action E clk node spec request a d =
    andthen (execute_tool spec (\<lambda>i. clk (i + 2)) (n_run_id node) (a_id a)
      (ae_arguments request) (db_services d)) (\<lambda>(result, services).
    let a' = a\<lparr>a_result := Some result, a_result_digest := Some (payload_digest E result),
               a_committed_at := Some (clk 8)\<rparr>;
        d1 = record_runtime_event (requested_event a) (db_actions_update (\<lambda>as. as @ [a']) d);
        d2 = db_services_update (\<lambda>_. services) d1
    in Inr (action_result a' False, record_runtime_event (committed_event node a' (clk 8)) d2))"

section \<open>The handler\<close>

definition existing_attempt :: "ident \<Rightarrow> string \<Rightarrow> db \<Rightarrow> action option" where
  "existing_attempt node_id key d =
    List.find (\<lambda>a. a_node_id a = node_id \<and> a_idempotency_key a = key) (db_actions d)"

definition execute_before ::
    "env \<Rightarrow> ident \<Rightarrow> string \<Rightarrow> action_execute \<Rightarrow> db \<Rightarrow> error + (action_result, node) admission"
where
  "execute_before E node_id node_token request d =
    andthen (authenticate_node E node_id node_token d) (\<lambda>node.
    case existing_attempt node_id (ae_idempotency_key request) d of
      Some a \<Rightarrow>
        andthen (require (a_request_payload_digest a = payload_digest E (action_execute_json request))
          (conflict_error ''IDEMPOTENCY_PAYLOAD_MISMATCH'')) (\<lambda>_.
        Inr (Answer (action_result a True) d))
    | None \<Rightarrow> Inr (Proceed (n_run_id node @ '':'' @ n_id node) node))"

definition action_count :: "ident \<Rightarrow> db \<Rightarrow> int" where
  "action_count run_id d = int (length (filter (\<lambda>a. a_run_id a = run_id) (db_actions d)))"

text \<open>The decision is taken: record the denial, or run the tool.\<close>

definition settle_action ::
    "env \<Rightarrow> clock \<Rightarrow> action_execute \<Rightarrow> node \<Rightarrow> tool_spec \<Rightarrow> json list \<Rightarrow> string option \<Rightarrow> action_result tx"
where
  "settle_action E clk request node spec checks denial d =
    (let evaluation = evaluate_scopes d node;
         att = attribute_denial node evaluation denial d;
         a = new_attempt E (length (db_actions d)) (clk 1) request node spec evaluation checks
               denial att
     in if denial \<noteq> None then Inr (deny_action E clk node evaluation att a d)
        else allow_action E clk node spec request a d)"

definition execute_body :: "env \<Rightarrow> clock \<Rightarrow> action_execute \<Rightarrow> node \<Rightarrow> action_result tx" where
  "execute_body E clk request node d =
    andthen (get_tool_spec (ae_tool_name request)) (\<lambda>spec.
    andthen (require (action_count (n_run_id node) d < max_actions_per_run E)
      (conflict_error ''RUN_ACTION_QUOTA_EXCEEDED'')) (\<lambda>_.
    andthen (get_run (n_run_id node) d) (\<lambda>run.
    let evaluation = evaluate_scopes d node in
    andthen (admission_decision E (clk 0) run node evaluation spec request d) (\<lambda>(checks, denial).
    settle_action E clk request node spec checks denial d))))"

definition execute ::
    "env \<Rightarrow> clock \<Rightarrow> rat \<Rightarrow> ident \<Rightarrow> string \<Rightarrow> action_execute \<Rightarrow> sys \<Rightarrow> (error + action_result) \<times> sys"
where
  "execute E clk tick node_id node_token request =
    rate_limited E ''action'' tick (execute_before E node_id node_token request)
      (execute_body E clk request)"

section \<open>Lemmas\<close>

lemma admission_allows_iff [outcome]:
  "(\<exists>checks. admission_decision E now run node (evaluate_scopes d node) spec request d =
      Inr (checks, None)) \<longleftrightarrow>
     r_status run = Run_Running \<and> n_status node \<in> live_node_statuses \<and> lease_live now node \<and>
     se_allowed (evaluate_scopes d node) \<and>
     recovery_contract_denial E node request spec d = None \<and>
     ts_capability spec \<in> set (n_capabilities node) \<and>
     validate_arguments spec (ae_arguments request) = Inr ()"
  by (auto simp: admission_decision_def Let_def outcome split: option.splits if_splits)

lemma admission_allows:
  assumes "admission_decision E now run node (evaluate_scopes d node) spec request d =
    Inr (checks, None)"
  shows "r_status run = Run_Running" "n_status node \<in> live_node_statuses" "lease_live now node"
    "se_allowed (evaluate_scopes d node)"
    "recovery_contract_denial E node request spec d = None"
    "ts_capability spec \<in> set (n_capabilities node)"
    "validate_arguments spec (ae_arguments request) = Inr ()"
  using assms admission_allows_iff by blast+

lemma execute_before_returns [outcome]:
  "execute_before E k token request d = Inr (Proceed i n) \<longleftrightarrow>
     get_node_row k d = Some n \<and> token_matches E token (n_token_hash n) \<and>
     existing_attempt k (ae_idempotency_key request) d = None \<and>
     i = n_run_id n @ '':'' @ n_id n"
  by (auto simp: execute_before_def outcome split: option.splits)

lemma execute_before_answers:
  "execute_before E k token request d = Inr (Answer r d') \<Longrightarrow>
   d' = d \<and> (\<exists>a. existing_attempt k (ae_idempotency_key request) d = Some a \<and>
     a_request_payload_digest a = payload_digest E (action_execute_json request) \<and>
     r = action_result a True)"
  by (auto simp: execute_before_def outcome split: option.splits)

lemma execute_body_returns:
  "execute_body E clk request node d = Inr res \<longleftrightarrow>
   (\<exists>spec run checks denial. get_tool_spec (ae_tool_name request) = Inr spec \<and>
      action_count (n_run_id node) d < max_actions_per_run E \<and>
      get_run_row (n_run_id node) d = Some run \<and>
      admission_decision E (clk 0) run node (evaluate_scopes d node) spec request d =
        Inr (checks, denial) \<and>
      settle_action E clk request node spec checks denial d = Inr res)"
  by (auto simp: execute_body_def outcome Let_def)

text \<open>The row that is appended, whatever the decision.\<close>

definition attempt_row ::
    "env \<Rightarrow> clock \<Rightarrow> action_execute \<Rightarrow> node \<Rightarrow> tool_spec \<Rightarrow> json list \<Rightarrow> string option \<Rightarrow> db \<Rightarrow> action"
where
  "attempt_row E clk request node spec checks denial d =
     new_attempt E (length (db_actions d)) (clk 1) request node spec (evaluate_scopes d node) checks
       denial (attribute_denial node (evaluate_scopes d node) denial d)"

lemma settle_denied:
  "settle_action E clk request node spec checks (Some reason) d = Inr res \<longleftrightarrow>
   res = deny_action E clk node (evaluate_scopes d node)
     (attribute_denial node (evaluate_scopes d node) (Some reason) d)
     (attempt_row E clk request node spec checks (Some reason) d) d"
  by (auto simp: settle_action_def attempt_row_def Let_def)

lemma settle_allowed:
  "settle_action E clk request node spec checks None d =
   allow_action E clk node spec request (attempt_row E clk request node spec checks None d) d"
  by (auto simp: settle_action_def attempt_row_def Let_def)

lemma new_attempt_fields [simp]:
  "a_decision (new_attempt E i t request node spec ev checks denial att) =
     (if denial \<noteq> None then Deny else Allow)"
  "a_denial_reason (new_attempt E i t request node spec ev checks denial att) = denial"
  "a_attempted_at (new_attempt E i t request node spec ev checks denial att) = t"
  "a_node_id (new_attempt E i t request node spec ev checks denial att) = n_id node"
  "a_run_id (new_attempt E i t request node spec ev checks denial att) = n_run_id node"
  "a_id (new_attempt E i t request node spec ev checks denial att) = uuid E ''action_attempts'' i"
  "a_committed_at (new_attempt E i t request node spec ev checks denial att) = None"
  "a_idempotency_key (new_attempt E i t request node spec ev checks denial att) =
     ae_idempotency_key request"
  by (simp_all add: new_attempt_def)

text \<open>What a denial does to each table.\<close>

lemma deny_action_tables:
  assumes "(r, d') = deny_action E clk node ev att a d"
  shows "db_services d' = db_services d" "db_scopes d' = db_scopes d" "db_runs d' = db_runs d"
    "db_commands d' = db_commands d" "db_actions d' = db_actions d @ [a]"
    "db_intents d' = db_intents d" "db_proposals d' = db_proposals d"
    "db_envelopes d' = db_envelopes d" "r = action_result a False"
  using assms by (auto simp: deny_action_def Let_def update_node_def)

lemma allow_action_returns:
  assumes "allow_action E clk node spec request a d = Inr (r, d')"
  obtains result services a' where
    "validate_arguments spec (ae_arguments request) = Inr ()"
    "ts_executor spec (\<lambda>i. clk (i + 2)) (n_run_id node) (a_id a) (ae_arguments request)
       (db_services d) = (result, services)"
    "a' = a\<lparr>a_result := Some result, a_result_digest := Some (payload_digest E result),
            a_committed_at := Some (clk 8)\<rparr>"
    "r = action_result a' False"
    "d' = record_runtime_event (committed_event node a' (clk 8)) (db_services_update (\<lambda>_. services)
       (record_runtime_event (requested_event a) (db_actions_update (\<lambda>as. as @ [a']) d)))"
  using assms by (auto simp: allow_action_def outcome Let_def split: prod.splits)

lemma deny_action_advances:
  assumes "(r, d') = deny_action E clk node (evaluate_scopes d node) att a d"
    and "is_stale (a_denial_reason a) \<Longrightarrow> \<not> se_allowed (evaluate_scopes d node)"
  shows "advances E d d'"
proof -
  have "node_step n (n\<lparr>n_status := se_effective_status (evaluate_scopes d node)\<rparr>)"
    if "is_stale (a_denial_reason a)" for n
    using effective_status_stale [OF assms(2) [OF that]]
    by (auto simp: node_step_def dead_node_statuses_def)
  then show ?thesis
    using assms(1)
    by (auto simp: deny_action_def Let_def split: if_splits intro!: evolution)
qed

lemma stale_not_allowed:
  assumes "admission_decision E now run node (evaluate_scopes d node) spec request d =
      Inr (checks, denial)" and "is_stale denial"
  shows "\<not> se_allowed (evaluate_scopes d node)"
    and "r_status run = Run_Running" and "n_status node \<in> live_node_statuses"
    and "lease_live now node"
    and "denial = primary_reason (evaluate_scopes d node)"
proof -
  have no: "recovery_contract_denial E node request spec d = Some reason \<Longrightarrow>
      reason \<notin> stale_reasons" for reason
    by (auto simp: recovery_contract_denial_def manifest_denial_def contract_denial_def
        stale_reasons_def split: option.splits if_splits)
  from assms no
  show "\<not> se_allowed (evaluate_scopes d node)" "r_status run = Run_Running"
    "n_status node \<in> live_node_statuses" "lease_live now node"
    "denial = primary_reason (evaluate_scopes d node)"
    by (auto simp: admission_decision_def is_stale_def Let_def stale_reasons_def outcome or_else_def
        split: if_splits option.splits)
qed

lemma attempt_row_fields [simp]:
  "a_decision (attempt_row E clk request node spec checks denial d) =
     (if denial \<noteq> None then Deny else Allow)"
  "a_denial_reason (attempt_row E clk request node spec checks denial d) = denial"
  "a_attempted_at (attempt_row E clk request node spec checks denial d) = clk 1"
  "a_node_id (attempt_row E clk request node spec checks denial d) = n_id node"
  "a_run_id (attempt_row E clk request node spec checks denial d) = n_run_id node"
  "a_idempotency_key (attempt_row E clk request node spec checks denial d) =
     ae_idempotency_key request"
  by (simp_all add: attempt_row_def)

lemma allow_action_advances:
  "allow_action E clk node spec request a d = Inr (r, d') \<Longrightarrow> advances E d d'"
  by (erule allow_action_returns) (simp only:, intro evolution)

lemma execute_body_advances:
  assumes "execute_body E clk request node d = Inr (r, d')"
  shows "advances E d d'"
proof -
  obtain spec run checks denial where dec:
    "admission_decision E (clk 0) run node (evaluate_scopes d node) spec request d =
       Inr (checks, denial)"
    and set: "settle_action E clk request node spec checks denial d = Inr (r, d')"
    using assms by (auto simp: execute_body_returns)
  show ?thesis
  proof (cases denial)
    case None
    then show ?thesis using set by (auto simp: settle_allowed intro: allow_action_advances)
  next
    case (Some reason)
    then show ?thesis
      using set stale_not_allowed(1) [OF dec]
      by (auto simp: settle_denied intro!: deny_action_advances)
  qed
qed

interpretation execute_handler: kept_by_handler "advances E" "execute_before E k token request"
  "execute_body E clk request" for E k token request clk
proof
  show "advances E d d'" if "execute_before E k token request d = Inr (Answer a d')" for d d' a
    using execute_before_answers [OF that] by (simp add: advances_refl)
  show "advances E d d'"
    if "execute_before E k token request d = Inr (Proceed i p)"
      and "execute_body E clk request p d = Inr (a, d')" for d d' i p a
    using that(2) by (rule execute_body_advances)
qed

end
