(* ===== verification/StateGraph.thy ===== *)
theory StateGraph
  imports Gateway
begin

text \<open>
  \<open>services/state_service.py\<close> and \<open>services/graph_service.py\<close>: the one-shot initialisation of the
  fixture of a run, the read-only listings, and the graph view with the effective status of every
  node.  A JSON row is given with its keys in the order of the source.
\<close>

section \<open>The fixture\<close>

definition scenario_defaults :: "(string \<times> string) list" where
  "scenario_defaults =
    [(''postgres'', ''healthy''), (''redis'', ''connection_pool_exhausted''),
     (''checkout'', ''degraded'')]"

definition seed_scenario :: "time \<Rightarrow> ident \<Rightarrow> unit tx" where
  "seed_scenario now run_id d =
    andthen (get_run run_id d) (\<lambda>run.
    andthen (require (filter (\<lambda>s. sv_run_id s = run_id) (db_services d) = [])
      (conflict_error ''SCENARIO_ALREADY_INITIALIZED'')) (\<lambda>_.
    andthen (require
        (filter (\<lambda>n. n_run_id n = run_id \<and> n_id n \<noteq> r_root_node_id run) (db_nodes d) = [] \<and>
         filter (\<lambda>c. c_run_id c = run_id) (db_commands d) = [] \<and>
         filter (\<lambda>a. a_run_id a = run_id) (db_actions d) = [])
      (conflict_error ''SCENARIO_INITIALIZATION_TOO_LATE'')) (\<lambda>_.
    Inr ((), db_services_update
      (\<lambda>ss. ss @ map (\<lambda>(name, status). fresh_service run_id name status now) scenario_defaults) d))))"

section \<open>Listings\<close>

definition service_row_json :: "service_state \<Rightarrow> json" where
  "service_row_json s =
    JObj [(''run_id'', JStr (sv_run_id s)), (''service_name'', JStr (sv_service_name s)),
          (''status'', JStr (sv_status s)), (''restart_count'', JInt (sv_restart_count s)),
          (''pool_reset_count'', JInt (sv_pool_reset_count s)),
          (''last_action_id'', jopt JStr (sv_last_action_id s)),
          (''updated_at'', jopt JStr (iso_utc (Some (sv_updated_at s))))]"

definition list_states :: "ident \<Rightarrow> nat \<Rightarrow> nat \<Rightarrow> db \<Rightarrow> error + json list" where
  "list_states run_id limit offset d =
    andthen (get_run run_id d) (\<lambda>_.
    Inr (map service_row_json (page limit offset
      (sort_key sv_service_name (filter (\<lambda>s. sv_run_id s = run_id) (db_services d))))))"

text \<open>The match columns, shared by the two action views.\<close>

definition match_fields :: "action \<Rightarrow> fields" where
  "match_fields a =
    [(''matched_command_id'', jopt JStr (a_matched_command_id a)),
     (''matched_scope_id'', jopt JStr (a_matched_scope_id a)),
     (''matched_snapshot_version'', jopt JInt (a_matched_snapshot_version a)),
     (''matched_live_version'', jopt JInt (a_matched_live_version a)),
     (''matched_live_status'', jopt (\<lambda>s. JStr (scope_status_value s)) (a_matched_live_status a))]"

definition decision_fields :: "action \<Rightarrow> fields" where
  "decision_fields a =
    [(''node_id'', JStr (a_node_id a)), (''tool_name'', JStr (a_tool_name a)),
     (''side_effecting'', JBool (a_side_effecting a)),
     (''idempotency_key'', JStr (a_idempotency_key a)),
     (''decision'', JStr (action_decision_value (a_decision a))),
     (''denial_reason'', jopt JStr (a_denial_reason a))] @ match_fields a"

definition action_row_json :: "action \<Rightarrow> json" where
  "action_row_json a =
    JObj ([(''id'', JStr (a_id a))] @ decision_fields a @
      [(''request_payload_digest'', JStr (a_request_payload_digest a)),
       (''arguments'', JObj (a_arguments a)), (''arguments_digest'', JStr (a_arguments_digest a)),
       (''result_digest'', jopt JStr (a_result_digest a)),
       (''committed'', JBool (a_committed_at a \<noteq> None)),
       (''attempted_at'', jopt JStr (iso_utc (Some (a_attempted_at a)))),
       (''committed_at'', jopt JStr (iso_utc (a_committed_at a))),
       (''result'', jopt id (a_result a)), (''scope_evaluation'', a_scope_evaluation a),
       (''decision_explanation'', a_decision_explanation a)])"

definition list_actions :: "ident \<Rightarrow> nat \<Rightarrow> nat \<Rightarrow> db \<Rightarrow> error + json list" where
  "list_actions run_id limit offset d =
    andthen (get_run run_id d) (\<lambda>_.
    Inr (map action_row_json (page limit offset
      (sort_key a_attempted_at (filter (\<lambda>a. a_run_id a = run_id) (db_actions d))))))"

definition action_detail_json :: "action \<Rightarrow> json" where
  "action_detail_json a =
    JObj ([(''id'', JStr (a_id a)), (''run_id'', JStr (a_run_id a))] @ decision_fields a @
      [(''scope_evaluation'', a_scope_evaluation a),
       (''decision_explanation'', a_decision_explanation a),
       (''request_payload_digest'', JStr (a_request_payload_digest a)),
       (''arguments'', JObj (a_arguments a)), (''arguments_digest'', JStr (a_arguments_digest a)),
       (''result'', jopt id (a_result a)), (''result_digest'', jopt JStr (a_result_digest a)),
       (''committed'', JBool (a_committed_at a \<noteq> None)),
       (''attempted_at'', jopt JStr (iso_utc (Some (a_attempted_at a)))),
       (''committed_at'', jopt JStr (iso_utc (a_committed_at a)))])"

definition get_action :: "ident \<Rightarrow> ident \<Rightarrow> db \<Rightarrow> error + json" where
  "get_action run_id action_id d =
    andthen (get_run run_id d) (\<lambda>_.
    andthen (demand (List.find (\<lambda>a. a_run_id a = run_id \<and> a_id a = action_id) (db_actions d))
      not_found_error) (\<lambda>a.
    Inr (action_detail_json a)))"

definition event_row_json :: "runtime_event \<Rightarrow> json" where
  "event_row_json e =
    JObj [(''sequence'', JInt (e_sequence e)), (''run_id'', JStr (e_run_id e)),
          (''event_type'', JStr (e_event_type e)),
          (''occurred_at'', jopt JStr (iso_utc (Some (e_occurred_at e)))),
          (''node_id'', jopt JStr (e_node_id e)),
          (''parent_node_id'', jopt JStr (e_parent_node_id e)),
          (''command_id'', jopt JStr (e_command_id e)), (''action_id'', jopt JStr (e_action_id e)),
          (''scope_id'', jopt JStr (e_scope_id e)),
          (''decision'', jopt (\<lambda>x. JStr (action_decision_value x)) (e_decision e)),
          (''reason_code'', jopt JStr (e_reason_code e)),
          (''snapshot_version'', jopt JInt (e_snapshot_version e)),
          (''authoritative_version'', jopt JInt (e_authoritative_version e)),
          (''metadata'', e_metadata e)]"

definition events_after :: "ident \<Rightarrow> int \<Rightarrow> nat \<Rightarrow> db \<Rightarrow> runtime_event list" where
  "events_after run_id after limit d =
    take limit (sort_key e_sequence
      (filter (\<lambda>e. e_run_id e = run_id \<and> after < e_sequence e) (db_events d)))"

definition list_events :: "ident \<Rightarrow> int \<Rightarrow> nat \<Rightarrow> db \<Rightarrow> error + json list" where
  "list_events run_id after limit d =
    andthen (get_run run_id d) (\<lambda>_. Inr (map event_row_json (events_after run_id after limit d)))"

definition violation_row_json :: "violation \<Rightarrow> json" where
  "violation_row_json v =
    JObj [(''id'', JStr (v_id v)), (''run_id'', JStr (v_run_id v)),
          (''command_id'', JStr (v_command_id v)), (''action_id'', JStr (v_action_id v)),
          (''violation_type'', JStr (v_violation_type v)), (''details'', v_details v),
          (''detected_at'', jopt JStr (iso_utc (Some (v_detected_at v))))]"

definition list_violations :: "ident \<Rightarrow> nat \<Rightarrow> nat \<Rightarrow> db \<Rightarrow> error + json list" where
  "list_violations run_id limit offset d =
    andthen (get_run run_id d) (\<lambda>_.
    Inr (map violation_row_json (page limit offset
      (sort_key v_detected_at (filter (\<lambda>v. v_run_id v = run_id) (db_violations d))))))"

section \<open>The graph\<close>

record graph_node =
  gn_id :: ident
  gn_parent_id :: "ident option"
  gn_supersedes_node_id :: "ident option"
  gn_caused_by_command_id :: "ident option"
  gn_role :: string
  gn_behavior :: string
  gn_capabilities :: "string list"
  gn_generation :: int
  gn_declared_status :: node_status
  gn_effective_status :: node_status
  gn_instruction_version :: int
  gn_own_scope_id :: ident
  gn_own_scope_version :: int
  gn_own_scope_status :: scope_status
  gn_inherited_scope_count :: int
  gn_blocking_scope_id :: "ident option"
  gn_blocking_reason :: "string option"
  gn_lease_state :: string

record graph_response =
  gr_run_id :: ident
  gr_status :: run_status
  gr_nodes :: "graph_node list"
  gr_edges :: "(ident \<times> ident \<times> string) list"
  gr_commands :: "json list"

definition effective_node_status :: "db \<Rightarrow> node \<Rightarrow> node_status" where
  "effective_node_status d n =
    (if \<not> se_allowed (evaluate_scopes d n) then se_effective_status (evaluate_scopes d n)
     else n_status n)"

definition lease_state :: "time \<Rightarrow> node \<Rightarrow> string" where
  "lease_state now n =
    (if n_status n = Node_Pending then ''NOT_ACTIVATED''
     else if n_status n \<in> dead_node_statuses then ''TERMINAL''
     else if lease_live now n then ''LIVE'' else ''EXPIRED'')"

definition graph_node_of :: "time \<Rightarrow> db \<Rightarrow> control_scope \<Rightarrow> node \<Rightarrow> graph_node" where
  "graph_node_of now d own n =
    (let mms = se_mismatches (evaluate_scopes d n);
         primary = (case mms of [] \<Rightarrow> None | m # _ \<Rightarrow> Some m)
     in \<lparr>gn_id = n_id n, gn_parent_id = n_parent_id n,
         gn_supersedes_node_id = n_supersedes_node_id n,
         gn_caused_by_command_id = n_caused_by_command_id n, gn_role = n_role n,
         gn_behavior = n_behavior n, gn_capabilities = sort (remdups (n_capabilities n)),
         gn_generation = n_generation n, gn_declared_status = n_status n,
         gn_effective_status = effective_node_status d n,
         gn_instruction_version = n_instruction_version n, gn_own_scope_id = n_own_scope_id n,
         gn_own_scope_version = sc_version own, gn_own_scope_status = sc_status own,
         gn_inherited_scope_count = int (length (n_scope_snapshot n)),
         gn_blocking_scope_id = map_option mm_scope_id primary,
         gn_blocking_reason = map_option mm_reason_code primary,
         gn_lease_state = lease_state now n\<rparr>)"

definition nonempty_id :: "ident option \<Rightarrow> ident list" where
  "nonempty_id k = (case k of None \<Rightarrow> [] | Some s \<Rightarrow> if s = [] then [] else [s])"

definition node_edges :: "node \<Rightarrow> (ident \<times> ident \<times> string) list" where
  "node_edges n =
    map (\<lambda>p. (p, n_id n, ''spawn'')) (nonempty_id (n_parent_id n)) @
    map (\<lambda>p. (p, n_id n, ''supersedes'')) (nonempty_id (n_supersedes_node_id n))"

definition own_scope_of :: "db \<Rightarrow> ident \<Rightarrow> node \<Rightarrow> control_scope option" where
  "own_scope_of d run_id n =
    List.find (\<lambda>s. sc_id s = n_own_scope_id n \<and> sc_run_id s = run_id) (db_scopes d)"

fun graph_nodes :: "time \<Rightarrow> db \<Rightarrow> ident \<Rightarrow> node list \<Rightarrow> error + graph_node list" where
  "graph_nodes now d run_id [] = Inr []"
| "graph_nodes now d run_id (n # ns) =
     andthen (demand (own_scope_of d run_id n) (PyException ''RuntimeError'')) (\<lambda>own.
     andthen (graph_nodes now d run_id ns) (\<lambda>rest.
     Inr (graph_node_of now d own n # rest)))"

definition command_row_json :: "command \<Rightarrow> json" where
  "command_row_json c =
    JObj [(''id'', JStr (c_id c)), (''type'', JStr (command_type_value (c_command_type c))),
          (''target_node_id'', JStr (c_target_node_id c)),
          (''target_scope_id'', JStr (c_target_scope_id c)),
          (''from_version'', JInt (c_from_version c)), (''to_version'', JInt (c_to_version c)),
          (''reason_code'', JStr (c_reason_code c)),
          (''source_proposal_id'', jopt JStr (c_source_proposal_id c)),
          (''replacement_node_id'', jopt JStr (c_replacement_node_id c)),
          (''replacement_status'',
             jopt (\<lambda>s. JStr (replacement_status_value s)) (c_replacement_status c)),
          (''replacement_manifest_digest'', jopt JStr (c_replacement_manifest_digest c)),
          (''replacement_manifest'', jopt id (c_replacement_manifest c)),
          (''created_at'', jopt JStr (iso_utc (Some (c_created_at c))))]"

definition get_graph :: "time \<Rightarrow> ident \<Rightarrow> db \<Rightarrow> error + graph_response" where
  "get_graph now run_id d =
    andthen (get_run run_id d) (\<lambda>run.
    let nodes = sort_key n_registered_at (filter (\<lambda>n. n_run_id n = run_id) (db_nodes d)) in
    andthen (graph_nodes now d run_id nodes) (\<lambda>gns.
    Inr \<lparr>gr_run_id = r_id run, gr_status = r_status run, gr_nodes = gns,
         gr_edges = concat (map node_edges nodes),
         gr_commands = map command_row_json
           (sort_key c_created_at (filter (\<lambda>c. c_run_id c = run_id) (db_commands d)))\<rparr>))"

section \<open>Lemmas\<close>

lemma seed_scenario_returns:
  "seed_scenario now rid d = Inr (u, d') \<longleftrightarrow>
   (\<exists>run. get_run_row rid d = Some run \<and> (\<forall>s \<in> set (db_services d). sv_run_id s \<noteq> rid) \<and>
      (\<forall>n \<in> set (db_nodes d). n_run_id n = rid \<longrightarrow> n_id n = r_root_node_id run) \<and>
      (\<forall>c \<in> set (db_commands d). c_run_id c \<noteq> rid) \<and>
      (\<forall>a \<in> set (db_actions d). a_run_id a \<noteq> rid) \<and>
      d' = db_services_update
        (\<lambda>ss. ss @ map (\<lambda>(name, status). fresh_service rid name status now) scenario_defaults) d)"
  by (auto simp: seed_scenario_def andthen_returns require_returns get_run_returns filter_empty_conv)

lemma seed_scenario_advances: "seed_scenario now rid d = Inr (u, d') \<Longrightarrow> advances E d d'"
  by (auto simp: seed_scenario_returns intro: evolution)

lemma seed_scenario_services:
  assumes "seed_scenario now rid d = Inr (u, d')" and "services_ok (db_services d)"
  shows "services_ok (db_services d')"
  using assms
  by (auto simp: seed_scenario_returns services_ok_def scenario_defaults_def fresh_service_def
      service_check_def service_key_def)

lemma seeded_once:
  assumes "seed_scenario now rid d = Inr (u, d')"
  shows "seed_scenario now' rid d' = Inl (conflict_error ''SCENARIO_ALREADY_INITIALIZED'')"
proof -
  obtain run where run: "get_run_row rid d = Some run"
    and d': "d' = db_services_update
        (\<lambda>ss. ss @ map (\<lambda>(name, status). fresh_service rid name status now) scenario_defaults) d"
    using assms by (auto simp: seed_scenario_returns)
  then have "get_run rid d' = Inr run" by (simp add: get_run_def get_run_row_def)
  moreover have "filter (\<lambda>s. sv_run_id s = rid) (db_services d') \<noteq> []"
    by (simp add: d' scenario_defaults_def fresh_service_def)
  ultimately show ?thesis by (simp add: seed_scenario_def)
qed

lemma graph_nodes_length: "graph_nodes now d rid ns = Inr gns \<Longrightarrow> length gns = length ns"
  by (induction ns arbitrary: gns) (auto simp: andthen_returns)

text \<open>A page of events is the next stretch of the sequence: nothing is skipped or repeated.\<close>

lemma sorted_events: "event_sequence_ok d \<Longrightarrow> sorted (map e_sequence (db_events d))"
  by (auto simp: event_sequence_ok_def sorted_map intro: sorted_wrt_mono_rel [OF _ sorted_wrt_upt])

lemma sorted_filter_map: "sorted (map f xs) \<Longrightarrow> sorted (map f (filter p xs))"
  by (rule sorted_filter)

lemma events_after_eq:
  assumes "event_sequence_ok d"
  shows "events_after rid k limit d =
    take limit (filter (\<lambda>e. e_run_id e = rid \<and> k < e_sequence e) (db_events d))"
  unfolding events_after_def
  using sorted_filter_map [OF sorted_events [OF assms]] by (simp add: sorted_sort_id sort_key_id_if_sorted)

end
