(* ===== verification/Invariants.thy ===== *)
theory Invariants
  imports Runs
begin

text \<open>
  \<open>services/invariant_service.py\<close>: the auditor that looks for side effects committed by a node
  after a command that affected it, persists each violation once together with an outbox row, and
  the delivery of the outbox: rows are claimed for 30 seconds, exported outside any transaction,
  and then marked delivered or put back with a growing delay.
\<close>

section \<open>Finding violations\<close>

definition stale_commit_violation :: string where
  "stale_commit_violation = ''STALE_ACTION_COMMITTED''"

definition stale_commit_event :: string where
  "stale_commit_event = ''tracefence.stale_action_committed''"

record candidate =
  vc_run_id :: ident
  vc_command_id :: ident
  vc_action_id :: ident
  vc_node_id :: ident
  vc_tool_name :: string
  vc_attempted_at :: string
  vc_committed_at :: string

definition node_affected :: "command \<Rightarrow> node \<Rightarrow> bool" where
  "node_affected c n \<longleftrightarrow>
     \<not> c_created_at c < n_registered_at n \<and>
     (c_command_type c = Cancel_Run \<or>
      (c_target_scope_id c, c_from_version c) \<in> set (n_scope_snapshot n))"

definition affected_ids :: "db \<Rightarrow> command \<Rightarrow> ident set" where
  "affected_ids d c =
    n_id ` set (filter (\<lambda>n. n_run_id n = c_run_id c \<and> node_affected c n) (db_nodes d))"

definition stale_commit :: "db \<Rightarrow> command \<Rightarrow> action \<Rightarrow> bool" where
  "stale_commit d c a \<longleftrightarrow>
     a_run_id a = c_run_id c \<and> a_node_id a \<in> affected_ids d c \<and> a_side_effecting a \<and>
     a_decision a = Allow \<and> a_committed_at a \<noteq> None \<and> c_created_at c \<le> a_attempted_at a"

definition candidate_of :: "command \<Rightarrow> action \<Rightarrow> candidate" where
  "candidate_of c a =
    \<lparr>vc_run_id = c_run_id c, vc_command_id = c_id c, vc_action_id = a_id a,
     vc_node_id = a_node_id a, vc_tool_name = a_tool_name a,
     vc_attempted_at = utc_text (a_attempted_at a),
     vc_committed_at = (case iso_utc (a_committed_at a) of None \<Rightarrow> [] | Some t \<Rightarrow> t)\<rparr>"

definition discover_candidates :: "ident option \<Rightarrow> db \<Rightarrow> candidate list" where
  "discover_candidates run_id d =
    concat (map (\<lambda>c. map (candidate_of c) (filter (stale_commit d c) (db_actions d)))
      (filter (\<lambda>c. case run_id of None \<Rightarrow> True | Some r \<Rightarrow> c_run_id c = r)
        (sort_key c_created_at (db_commands d))))"

section \<open>Recording them\<close>

definition candidate_details :: "ident \<Rightarrow> candidate \<Rightarrow> json" where
  "candidate_details violation_id v =
    JObj [(''violation_id'', JStr violation_id), (''run_id'', JStr (vc_run_id v)),
          (''command_id'', JStr (vc_command_id v)), (''action_id'', JStr (vc_action_id v)),
          (''node_id'', JStr (vc_node_id v)), (''tool_name'', JStr (vc_tool_name v)),
          (''attempted_at'', JStr (vc_attempted_at v)),
          (''committed_at'', JStr (vc_committed_at v))]"

definition violation_key :: "violation \<Rightarrow> ident \<times> ident \<times> ident" where
  "violation_key v = (v_run_id v, v_command_id v, v_action_id v)"

definition candidate_key :: "candidate \<Rightarrow> ident \<times> ident \<times> ident" where
  "candidate_key v = (vc_run_id v, vc_command_id v, vc_action_id v)"

definition already_recorded :: "candidate \<Rightarrow> db \<Rightarrow> bool" where
  "already_recorded v d \<longleftrightarrow>
     (\<exists>r \<in> set (db_violations d). violation_key r = candidate_key v \<and>
        v_violation_type r = stale_commit_violation)"

definition event_key :: "candidate \<Rightarrow> string" where
  "event_key v = ''stale-commit:'' @ vc_command_id v @ '':'' @ vc_action_id v"

definition new_violation :: "ident \<Rightarrow> time \<Rightarrow> candidate \<Rightarrow> violation" where
  "new_violation violation_id now v =
    \<lparr>v_id = violation_id, v_run_id = vc_run_id v, v_command_id = vc_command_id v,
     v_action_id = vc_action_id v, v_violation_type = stale_commit_violation,
     v_details = candidate_details violation_id v, v_detected_at = now\<rparr>"

definition new_outbox_row :: "env \<Rightarrow> nat \<Rightarrow> ident \<Rightarrow> time \<Rightarrow> candidate \<Rightarrow> outbox_row" where
  "new_outbox_row E index violation_id now v =
    \<lparr>o_id = uuid E ''telemetry_outbox'' index, o_event_key = event_key v,
     o_run_id = vc_run_id v, o_event_type = stale_commit_event,
     o_payload = candidate_details violation_id v, o_created_at = now, o_delivered_at = None,
     o_attempts = 0, o_last_error = None, o_last_attempt_at = None, o_next_attempt_at = None,
     o_claim_owner = None, o_claim_expires_at = None\<rparr>"

text \<open>
  One transaction per candidate.  The unique event key of the outbox turns a second insert into an
  \<open>IntegrityError\<close>, which rolls both rows back.
\<close>

definition record_candidate :: "env \<Rightarrow> clock \<Rightarrow> candidate \<Rightarrow> db \<times> int \<Rightarrow> db \<times> int" where
  "record_candidate E clk v acc =
    (case acc of (d, created) \<Rightarrow>
      if already_recorded v d then (d, created)
      else if event_key v \<in> o_event_key ` set (db_outbox d) then (d, created)
      else
        (let vid = uuid E ''invariant_violations'' (length (db_violations d)) in
         (db_outbox_update (\<lambda>os. os @ [new_outbox_row E (length os) vid (clk 1) v])
            (db_violations_update (\<lambda>vs. vs @ [new_violation vid (clk 0) v]) d), created + 1)))"

definition scan :: "env \<Rightarrow> clock \<Rightarrow> ident option \<Rightarrow> db \<Rightarrow> int \<times> db" where
  "scan E clk run_id d =
    (case fold (record_candidate E clk) (discover_candidates run_id d) (d, 0) of
       (d', created) \<Rightarrow> (created, d'))"

section \<open>The outbox\<close>

definition claimable :: "time \<Rightarrow> outbox_row \<Rightarrow> bool" where
  "claimable now r \<longleftrightarrow>
     o_delivered_at r = None \<and>
     (case o_next_attempt_at r of None \<Rightarrow> True | Some t \<Rightarrow> t \<le> now) \<and>
     (o_claim_owner r = None \<or>
      (case o_claim_expires_at r of None \<Rightarrow> False | Some t \<Rightarrow> t \<le> now))"

definition claim_row :: "string \<Rightarrow> time \<Rightarrow> outbox_row \<Rightarrow> outbox_row" where
  "claim_row owner now r =
    r\<lparr>o_claim_owner := Some owner, o_claim_expires_at := Some (now + seconds 30),
      o_last_attempt_at := Some now, o_attempts := o_attempts r + 1\<rparr>"

definition claim_pending :: "string \<Rightarrow> nat \<Rightarrow> time \<Rightarrow> db \<Rightarrow> ident list \<times> db" where
  "claim_pending owner limit now d =
    (let ids = map o_id (take limit
           (sort_key o_created_at (filter (claimable now) (db_outbox d))))
     in (ids, db_outbox_update
           (map (\<lambda>r. if o_id r \<in> set ids then claim_row owner now r else r)) d))"

definition backoff_seconds :: "int \<Rightarrow> int" where
  "backoff_seconds attempts = min 300 (2 ^ nat (min attempts 8))"

definition row_of :: "ident \<Rightarrow> db \<Rightarrow> outbox_row option" where
  "row_of k d = lookup o_id k (db_outbox d)"

definition still_mine :: "string \<Rightarrow> outbox_row option \<Rightarrow> bool" where
  "still_mine owner r \<longleftrightarrow>
    (case r of None \<Rightarrow> False
     | Some o' \<Rightarrow> o_delivered_at o' = None \<and> o_claim_owner o' = Some owner)"

definition deliver_row :: "time \<Rightarrow> outbox_row \<Rightarrow> outbox_row" where
  "deliver_row now r =
    r\<lparr>o_delivered_at := Some now, o_last_error := None, o_next_attempt_at := None,
      o_claim_owner := None, o_claim_expires_at := None\<rparr>"

definition postpone_row :: "string \<Rightarrow> time \<Rightarrow> outbox_row \<Rightarrow> outbox_row" where
  "postpone_row err now r =
    r\<lparr>o_last_error := Some (take 1000 err),
      o_next_attempt_at := Some (now + seconds (backoff_seconds (o_attempts r))),
      o_claim_owner := None, o_claim_expires_at := None\<rparr>"

definition unknown_event_error :: "string \<Rightarrow> string" where
  "unknown_event_error ty = ''RuntimeError: Unknown outbox event type: '' @ ty"

definition flush_error :: string where
  "flush_error = ''RuntimeError: Telemetry exporters did not flush the outbox event''"

text \<open>
  One claimed row.  The export runs between two transactions, so other workers may commit in
  between: \<open>meanwhile\<close> is what they do to the database, and the second transaction looks again.
\<close>

definition deliver_one ::
    "string \<Rightarrow> time \<Rightarrow> bool \<Rightarrow> (db \<Rightarrow> db) \<Rightarrow> ident \<Rightarrow> db \<times> int \<Rightarrow> db \<times> int" where
  "deliver_one owner now flushed meanwhile row_id acc =
    (case acc of (d, delivered) \<Rightarrow>
      if \<not> still_mine owner (row_of row_id d) then (d, delivered)
      else (case row_of row_id d of
          None \<Rightarrow> (d, delivered)
        | Some r \<Rightarrow>
            (let d1 = meanwhile d;
                 known = (o_event_type r = stale_commit_event) in
             if known \<and> flushed then
               (if still_mine owner (row_of row_id d1)
                then (db_outbox_update (revise o_id row_id (deliver_row now)) d1, delivered + 1)
                else (d1, delivered))
             else
               (if still_mine owner (row_of row_id d1)
                then (db_outbox_update (revise o_id row_id (postpone_row
                       (if known then flush_error else unknown_event_error (o_event_type r)) now)) d1,
                      delivered)
                else (d1, delivered)))))"

definition pending_count :: "db \<Rightarrow> int" where
  "pending_count d = int (length (filter (\<lambda>r. o_delivered_at r = None) (db_outbox d)))"

text \<open>
  \<open>flushed i\<close> and \<open>meanwhile i\<close> belong to the \<open>i\<close>-th claimed row, \<open>clk 0\<close> is the claim and
  \<open>clk (i + 1)\<close> the time its second transaction reads.
\<close>

definition deliver_pending ::
    "string \<Rightarrow> nat \<Rightarrow> bool \<Rightarrow> (nat \<Rightarrow> bool) \<Rightarrow> (nat \<Rightarrow> db \<Rightarrow> db) \<Rightarrow> clock \<Rightarrow> int tx" where
  "deliver_pending owner limit ready flushed meanwhile clk d =
    (if \<not> ready then Inr (0, d)
     else (case claim_pending owner limit (clk 0) d of
       (ids, d1) \<Rightarrow>
         if ids = [] then
           (if pending_count d1 \<noteq> 0 then Inr (0, d1)
            else andthen (require (flushed 0) (PyException ''RuntimeError'')) (\<lambda>_. Inr (0, d1)))
         else
           (case fold (\<lambda>(i, k). deliver_one owner (clk (i + 1)) (flushed i) (meanwhile i) k)
                   (enumerate 0 ids) (d1, 0) of
              (d2, delivered) \<Rightarrow> Inr (delivered, d2))))"

section \<open>Lemmas on the auditor\<close>

lemma discover_candidates_empty_iff:
  "discover_candidates None d = [] \<longleftrightarrow>
     (\<forall>c \<in> set (db_commands d). \<forall>a \<in> set (db_actions d). \<not> stale_commit d c a)"
  by (auto simp: discover_candidates_def filter_empty_conv)

lemma discover_candidates_run:
  "discover_candidates None d = [] \<Longrightarrow> discover_candidates rid d = []"
  by (auto simp: discover_candidates_def filter_empty_conv)

definition audit_ok :: "db \<Rightarrow> bool" where
  "audit_ok d \<longleftrightarrow>
     distinct (map violation_key (db_violations d)) \<and>
     distinct (map o_event_key (db_outbox d)) \<and>
     list_all violation_check (db_violations d) \<and> list_all outbox_check (db_outbox d)"

lemma record_candidate_ok:
  assumes "audit_ok d" and "record_candidate E clk v (d, n) = (d', n')"
  shows "audit_ok d'"
proof -
  have fresh: "candidate_key v \<notin> violation_key ` set (db_violations d)" if "\<not> already_recorded v d"
    using that assms(1)
    by (auto simp: already_recorded_def audit_ok_def list_all_iff violation_check_def
        stale_commit_violation_def)
  then show ?thesis
    using assms
    by (auto simp: record_candidate_def Let_def audit_ok_def new_violation_def new_outbox_row_def
        violation_key_def candidate_key_def violation_check_def outbox_check_def
        stale_commit_violation_def stale_commit_event_def split: if_splits)
qed

lemma scan_ok:
  assumes "audit_ok d"
  shows "audit_ok (snd (scan E clk rid d))"
proof -
  have "audit_ok (fst (fold (record_candidate E clk) vs (d, n)))" for vs n
    using assms
  proof (induction vs arbitrary: d n)
    case (Cons v vs)
    obtain d1 n1 where "record_candidate E clk v (d, n) = (d1, n1)" by fastforce
    then show ?case using Cons record_candidate_ok by auto
  qed simp
  then show ?thesis by (simp add: scan_def case_prod_beta)
qed

text \<open>A recorded candidate is never recorded again, so a second scan of the same findings adds nothing.\<close>

definition accounted :: "candidate \<Rightarrow> db \<Rightarrow> bool" where
  "accounted v d \<longleftrightarrow> already_recorded v d \<or> event_key v \<in> o_event_key ` set (db_outbox d)"

lemma record_candidate_accounts:
  "record_candidate E clk v (d, n) = (d', n') \<Longrightarrow> accounted v d'"
  by (auto simp: record_candidate_def accounted_def Let_def already_recorded_def new_violation_def
      new_outbox_row_def violation_key_def candidate_key_def split: if_splits)

lemma record_candidate_keeps:
  "record_candidate E clk v (d, n) = (d', n') \<Longrightarrow> accounted w d \<Longrightarrow> accounted w d'"
  by (auto simp: record_candidate_def accounted_def Let_def already_recorded_def split: if_splits)

lemma fold_record_accounts:
  "fold (record_candidate E clk) vs (d, n) = (d', n') \<Longrightarrow>
   v \<in> set vs \<or> accounted v d \<Longrightarrow> accounted v d'"
proof (induction vs arbitrary: d n)
  case (Cons w vs)
  obtain d1 n1 where s: "record_candidate E clk w (d, n) = (d1, n1)" by fastforce
  have "v \<in> set vs \<or> accounted v d1"
    using Cons.prems(2) record_candidate_accounts [OF s] record_candidate_keeps [OF s] by auto
  then show ?case using Cons.IH [of d1 n1] Cons.prems(1) s by simp
qed simp

lemma fold_record_noop:
  "(\<And>v. v \<in> set vs \<Longrightarrow> accounted v d) \<Longrightarrow> fold (record_candidate E clk) vs (d, n) = (d, n)"
proof (induction vs)
  case (Cons w vs)
  have "record_candidate E clk w (d, n) = (d, n)"
    using Cons.prems [of w] by (auto simp: record_candidate_def accounted_def)
  then show ?case using Cons by simp
qed simp

lemma record_candidate_tables:
  assumes "record_candidate E clk v (d, n) = (d', n')"
  shows "db_commands d' = db_commands d" "db_actions d' = db_actions d" "db_nodes d' = db_nodes d"
  using assms by (auto simp: record_candidate_def Let_def split: if_splits)

lemma fold_record_tables:
  "fold (record_candidate E clk) vs (d, n) = (d', n') \<Longrightarrow>
   db_commands d' = db_commands d \<and> db_actions d' = db_actions d \<and> db_nodes d' = db_nodes d"
proof (induction vs arbitrary: d n)
  case (Cons w vs)
  obtain d1 n1 where s: "record_candidate E clk w (d, n) = (d1, n1)" by fastforce
  show ?case using Cons.IH [of d1 n1] Cons.prems s record_candidate_tables [OF s] by simp
qed simp

lemma discover_same_tables:
  "db_commands d' = db_commands d \<Longrightarrow> db_actions d' = db_actions d \<Longrightarrow> db_nodes d' = db_nodes d \<Longrightarrow>
   discover_candidates rid d' = discover_candidates rid d"
  by (simp add: discover_candidates_def stale_commit_def [abs_def] affected_ids_def)

lemma scan_advances: "advances E' d (snd (scan E clk rid d))"
proof -
  have "advances E' d (fst (fold (record_candidate E clk) vs (d, n)))" for vs n
  proof (induction vs arbitrary: d n)
    case (Cons v vs)
    obtain d1 n1 where s: "record_candidate E clk v (d, n) = (d1, n1)" by fastforce
    then have "advances E' d d1"
      by (auto simp: record_candidate_def Let_def advances_refl split: if_splits intro!: evolution)
    then show ?case using Cons.IH [of d1 n1] s by (auto intro: db_advance.trans)
  qed (simp add: advances_refl)
  then show ?thesis by (simp add: scan_def case_prod_beta)
qed

section \<open>Lemmas on the outbox\<close>

lemma seconds_mono: "a < b \<Longrightarrow> seconds a < seconds b"
  by (simp add: seconds_def)

lemma backoff_bounds: "1 \<le> backoff_seconds n \<and> backoff_seconds n \<le> 256"
proof -
  have "(2::int) ^ nat (min n 8) \<le> 2 ^ 8" by (rule power_increasing) auto
  then show ?thesis by (auto simp: backoff_seconds_def min_def)
qed

lemma claimed_rows:
  assumes "claim_pending owner limit now d = (ids, d1)" and "r \<in> set (db_outbox d1)" and "o_id r \<in> set ids"
  shows "o_claim_owner r = Some owner" "o_claim_expires_at r = Some (now + seconds 30)"
  using assms by (auto simp: claim_pending_def Let_def claim_row_def split: if_splits)

lemma claims_only_claimable:
  assumes "claim_pending owner limit now d = (ids, d1)" and "k \<in> set ids"
  shows "\<exists>r \<in> set (db_outbox d). o_id r = k \<and> claimable now r"
proof -
  obtain x where "x \<in> set (take limit (sort_key o_created_at (filter (claimable now) (db_outbox d))))"
    and k: "o_id x = k"
    using assms by (auto simp: claim_pending_def Let_def)
  then have "x \<in> set (db_outbox d)" "claimable now x" by (auto dest!: in_set_takeD)
  with k show ?thesis by blast
qed

lemma claim_row_check: "outbox_check r \<Longrightarrow> outbox_check (claim_row owner now r)"
  by (auto simp: outbox_check_def claim_row_def)

lemma deliver_row_check:
  "outbox_check r \<Longrightarrow> 1 \<le> o_attempts r \<Longrightarrow> outbox_check (deliver_row now r)"
  by (auto simp: outbox_check_def deliver_row_def)

lemma postpone_row_check:
  "outbox_check r \<Longrightarrow> o_delivered_at r = None \<Longrightarrow> outbox_check (postpone_row err now r)"
  by (auto simp: outbox_check_def postpone_row_def)

section \<open>While a claim runs\<close>

text \<open>
  Everything that may happen to the outbox, in any order, while worker \<open>owner\<close> holds its claim on row \<open>k\<close>
  until \<open>until\<close> and has not finished with the row: claims by every worker, the deliveries and failures
  of the other workers on every row and of this one on other rows (with anything of this kind between
  the two transactions of a delivery), and transactions that add rows with new keys.
\<close>

inductive outbox_work :: "string \<Rightarrow> time \<Rightarrow> ident \<Rightarrow> db \<Rightarrow> db \<Rightarrow> bool" for owner "until" k where
  idle: "outbox_work owner until k d d"
| claims: "outbox_work owner until k d d1 \<Longrightarrow> t < until \<Longrightarrow>
    outbox_work owner until k d (snd (claim_pending other limit t d1))"
| delivers: "outbox_work owner until k d d1 \<Longrightarrow> outbox_work owner until k d1 d2 \<Longrightarrow>
    other \<noteq> owner \<or> row_id \<noteq> k \<Longrightarrow>
    outbox_work owner until k d (fst (deliver_one other t flushed (\<lambda>_. d2) row_id (d1, n)))"
| adds: "outbox_work owner until k d d1 \<Longrightarrow> db_outbox d2 = db_outbox d1 @ rows \<Longrightarrow>
    o_id ` set rows \<inter> o_id ` set (db_outbox d1) = {} \<Longrightarrow> outbox_work owner until k d d2"

definition held :: "string \<Rightarrow> time \<Rightarrow> ident \<Rightarrow> db \<Rightarrow> bool" where
  "held owner until k d \<longleftrightarrow> k \<in> o_id ` set (db_outbox d) \<and>
     (\<forall>r \<in> set (db_outbox d). o_id r = k \<longrightarrow>
        o_claim_owner r = Some owner \<and> o_claim_expires_at r = Some until)"

lemma held_not_claimed:
  assumes "held owner until k d" and "t < until" and "claim_pending other limit t d = (ids, d')"
  shows "k \<notin> set ids"
  using claims_only_claimable [OF assms(3)] assms(1,2) by (fastforce simp: held_def claimable_def)

lemma held_same:
  assumes "held owner until k d" and "\<And>r. o_id (f r) = o_id r" and "\<And>r. o_id r = k \<Longrightarrow> f r = r"
  shows "held owner until k (db_outbox_update (map f) d)"
  using assms by (force simp: held_def image_iff)

lemma held_claims:
  assumes "held owner until k d" and "t < until"
  shows "held owner until k (snd (claim_pending other limit t d))"
proof -
  obtain ids d' where c: "claim_pending other limit t d = (ids, d')" by fastforce
  have "k \<notin> set ids" by (rule held_not_claimed [OF assms c])
  moreover have "d' = db_outbox_update (map (\<lambda>r. if o_id r \<in> set ids then claim_row other t r else r)) d"
    using c by (auto simp: claim_pending_def Let_def)
  ultimately show ?thesis
    using held_same [OF assms(1)] c by (simp add: claim_row_def)
qed

lemma held_mine:
  assumes "held owner until k d" and "still_mine other (row_of k d)"
  shows "other = owner"
  using assms by (auto simp: held_def still_mine_def row_of_def split: option.splits dest!: lookup_SomeD)

lemma held_delivers:
  assumes "held owner until k d1" and "held owner until k d2" and "other \<noteq> owner \<or> row_id \<noteq> k"
  shows "held owner until k (fst (deliver_one other t flushed (\<lambda>_. d2) row_id (d1, n)))"
proof -
  have "held owner until k (db_outbox_update (revise o_id row_id f) d2)"
    if "still_mine other (row_of row_id d2)" "\<And>r. o_id (f r) = o_id r" for f
  proof -
    have "row_id \<noteq> k" using held_mine [OF assms(2)] that(1) assms(3) by blast
    then show ?thesis unfolding revise_def by (intro held_same [OF assms(2)]) (simp_all add: that(2))
  qed
  from this [of "deliver_row t"] this [of "postpone_row e t" for e] show ?thesis
    using assms(1,2) by (auto simp: deliver_one_def Let_def deliver_row_def postpone_row_def split: option.split)
qed

lemma outbox_work_held: "outbox_work owner until k d d' \<Longrightarrow> held owner until k d \<Longrightarrow> held owner until k d'"
proof (induction rule: outbox_work.induct)
  case (claims d d1 t other limit)
  then show ?case by (simp add: held_claims)
next
  case (delivers d d1 d2 other row_id t flushed n)
  then show ?case by (intro held_delivers) auto
next
  case (adds d d1 d2 rows)
  then have "held owner until k d1" by simp
  moreover have "o_id r \<noteq> k" if "r \<in> set rows" for r
    using that adds.hyps(3) \<open>held owner until k d1\<close> by (fastforce simp: held_def)
  ultimately show ?case using adds.hyps(2) by (auto simp: held_def)
qed

lemma claim_holds:
  assumes "claim_pending owner limit now d = (ids, d1)" and "k \<in> set ids"
  shows "held owner (now + seconds 30) k d1"
proof -
  obtain r where r: "r \<in> set (db_outbox d)" "o_id r = k" using claims_only_claimable [OF assms] by blast
  let ?f = "\<lambda>r. if o_id r \<in> set ids then claim_row owner now r else r"
  have "db_outbox d1 = map ?f (db_outbox d)" using assms(1) by (auto simp: claim_pending_def Let_def)
  then have "?f r \<in> set (db_outbox d1)" using r(1) by simp
  moreover have "o_id (?f r) = k" using r(2) by (simp add: claim_row_def)
  ultimately have "k \<in> o_id ` set (db_outbox d1)" by (metis imageI)
  then show ?thesis using claimed_rows [OF assms(1)] assms(2) by (auto simp: held_def)
qed

end
