(* ===== verification/Proof.thy ===== *)
theory Proof
  imports Gateway Invariants
begin

text \<open>
  \<open>services/proof_service.py\<close>: the convergence proof of a command.  The verdict lattice, the
  classification of the affected nodes, the evidence collected from the database, the verdicts on
  the replacement and on its recovery, the response, and the cache and stability loop around it.
  What SigNoz answers (verdict, discrepancies, trace ids) is an argument, as is the identity of the
  telemetry export watermark; the single-flight coordination between threads is not modelled.
\<close>

section \<open>The verdict lattice\<close>

definition verdict_severity :: "proof_verdict list" where
  "verdict_severity =
    [Inconsistent, State_Changed_During_Proof, Incomplete, Partial, Unavailable, Verified]"

fun index_of :: "'a \<Rightarrow> 'a list \<Rightarrow> nat" where
  "index_of x [] = 0"
| "index_of x (y # ys) = (if x = y then 0 else Suc (index_of x ys))"

definition severity :: "proof_verdict \<Rightarrow> nat" where
  "severity v = index_of v verdict_severity"

text \<open>\<open>min\<close> with a key keeps the first of the smallest.\<close>

fun least_by :: "('a \<Rightarrow> nat) \<Rightarrow> 'a \<Rightarrow> 'a list \<Rightarrow> 'a" where
  "least_by f best [] = best"
| "least_by f best (x # xs) = least_by f (if f x < f best then x else best) xs"

definition combine_proof_verdicts :: "proof_verdict list \<Rightarrow> proof_verdict" where
  "combine_proof_verdicts verdicts =
    (case filter (\<lambda>v. v \<noteq> Not_Applicable) verdicts of
       [] \<Rightarrow> Not_Applicable
     | v # vs \<Rightarrow> least_by severity v vs)"

section \<open>Affected nodes and their classification\<close>

definition affected_nodes :: "db \<Rightarrow> command \<Rightarrow> node \<Rightarrow> node list" where
  "affected_nodes d c target =
    (if c_command_type c = Cancel_Run
     then filter (\<lambda>n. n_run_id n = c_run_id c \<and> n_registered_at n \<le> c_created_at c) (db_nodes d)
     else descendants_including_self d (c_run_id c) (n_id target) (Some (c_created_at c)))"

definition acked_as :: "db \<Rightarrow> command \<Rightarrow> node \<Rightarrow> ack_type \<Rightarrow> bool" where
  "acked_as d c n ty \<longleftrightarrow>
     (\<exists>k \<in> set (db_acks d). k_command_id k = c_id c \<and> k_node_id k = n_id n \<and> k_ack_type k = ty)"

definition acked_before :: "db \<Rightarrow> command \<Rightarrow> node \<Rightarrow> bool" where
  "acked_before d c n \<longleftrightarrow>
     (\<exists>k \<in> set (db_acks d). k_run_id k = c_run_id c \<and> k_node_id k = n_id n \<and>
        k_observed_at k \<le> c_created_at c \<and> k_command_id k \<noteq> c_id c)"

definition matched_action :: "db \<Rightarrow> command \<Rightarrow> action \<Rightarrow> bool" where
  "matched_action d c a \<longleftrightarrow>
     (\<exists>m \<in> set (db_matches d). m_run_id m = c_run_id c \<and> m_command_id m = c_id c \<and>
        m_action_id m = a_id a)"

definition later_actions :: "db \<Rightarrow> command \<Rightarrow> node list \<Rightarrow> action list" where
  "later_actions d c affected =
    filter (\<lambda>a. a_node_id a \<in> n_id ` set affected \<and> c_created_at c \<le> a_attempted_at a) (db_actions d)"

definition stale_denial :: "db \<Rightarrow> command \<Rightarrow> action \<Rightarrow> bool" where
  "stale_denial d c a \<longleftrightarrow>
     a_decision a = Deny \<and> is_stale (a_denial_reason a) \<and> matched_action d c a"

datatype classification =
    Completed_Before_Command | Converged_Before_Command | Acknowledged | Blocked_At_Gateway
  | Lease_Expired | Unclassified

definition lease_over :: "time \<Rightarrow> node \<Rightarrow> bool" where
  "lease_over now n \<longleftrightarrow> (case n_lease_expires_at n of None \<Rightarrow> False | Some t \<Rightarrow> t \<le> now)"

definition classify :: "db \<Rightarrow> command \<Rightarrow> action list \<Rightarrow> time \<Rightarrow> node \<Rightarrow> classification" where
  "classify d c actions now n =
    (if (case n_completed_at n of None \<Rightarrow> False | Some t \<Rightarrow> t \<le> c_created_at c)
       then Completed_Before_Command
     else if acked_before d c n \<and> n_status n \<in>
         {Node_Cancelled, Node_Superseded, Node_Lease_Expired, Node_Completed}
       then Converged_Before_Command
     else if acked_as d c n Ack_Cooperative then Acknowledged
     else if acked_as d c n Ack_Gateway_Block \<or>
         (\<exists>a \<in> set actions. a_node_id a = n_id n \<and> stale_denial d c a)
       then Blocked_At_Gateway
     else if acked_as d c n Ack_Lease_Expired \<or> n_status n = Node_Lease_Expired \<or> lease_over now n
       then Lease_Expired
     else Unclassified)"

text \<open>The counter of classifications.\<close>

definition class_counts :: "classification list \<Rightarrow> (classification \<times> int) list" where
  "class_counts cs = map (\<lambda>k. (k, int (length (filter (\<lambda>x. x = k) cs)))) (remdups cs)"

section \<open>Evidence\<close>

record evidence =
  ev_affected :: "node list"
  ev_actions :: "action list"
  ev_classes :: "classification list"
  ev_unclassified :: "ident list"
  ev_discrepancies :: "discrepancy list"
  ev_stale_attempts :: int
  ev_stale_committed :: int
  ev_unrelated :: int

definition stale_attempt_count :: "db \<Rightarrow> command \<Rightarrow> action list \<Rightarrow> int" where
  "stale_attempt_count d c actions =
    int (length (filter (\<lambda>a. a_side_effecting a \<and> stale_denial d c a) actions))"

definition stale_committed_count :: "action list \<Rightarrow> int" where
  "stale_committed_count actions =
    int (length (filter (\<lambda>a. a_side_effecting a \<and> a_decision a = Allow \<and> a_committed_at a \<noteq> None)
      actions))"

definition unrelated_interrupted :: "db \<Rightarrow> command \<Rightarrow> node list \<Rightarrow> int" where
  "unrelated_interrupted d c affected =
    (if c_command_type c = Cancel_Run then 0
     else int (length (filter (\<lambda>n. n_run_id n = c_run_id c \<and> n_id n \<notin> n_id ` set affected \<and>
        \<not> se_allowed (evaluate_scopes d n) \<and>
        (\<exists>m \<in> set (se_mismatches (evaluate_scopes d n)). mm_scope_id m = c_target_scope_id c))
       (db_nodes d))))"

definition scope_valid_note :: "node \<Rightarrow> discrepancy" where
  "scope_valid_note n =
    Discrepancy (''Affected node '' @ n_id n @ '' remained scope-valid after command'')"

definition collect_evidence :: "db \<Rightarrow> time \<Rightarrow> command \<Rightarrow> node \<Rightarrow> evidence" where
  "collect_evidence d now c target =
    (let affected = affected_nodes d c target;
         actions = later_actions d c affected;
         unclassified = filter (\<lambda>n. classify d c actions now n = Unclassified) affected
     in \<lparr>ev_affected = affected, ev_actions = actions,
         ev_classes = filter (\<lambda>k. k \<noteq> Unclassified) (map (classify d c actions now) affected),
         ev_unclassified = map n_id unclassified,
         ev_discrepancies = map scope_valid_note
           (filter (\<lambda>n. se_allowed (evaluate_scopes d n)) unclassified),
         ev_stale_attempts = stale_attempt_count d c actions,
         ev_stale_committed = stale_committed_count actions,
         ev_unrelated = unrelated_interrupted d c affected\<rparr>)"

definition control_verdict :: "evidence \<Rightarrow> proof_verdict" where
  "control_verdict ev =
    (if 0 < ev_stale_committed ev then Inconsistent
     else if ev_unclassified ev \<noteq> [] \<or> 0 < ev_unrelated ev then Incomplete
     else Verified)"

section \<open>The replacement and its recovery\<close>

record replacement_verdicts =
  rv_lineage :: proof_verdict
  rv_action :: proof_verdict
  rv_postcondition :: proof_verdict
  rv_stability :: proof_verdict
  rv_notes :: "discrepancy list"

definition all_four :: "proof_verdict \<Rightarrow> string \<Rightarrow> replacement_verdicts" where
  "all_four v note =
    \<lparr>rv_lineage = v, rv_action = v, rv_postcondition = v, rv_stability = v,
     rv_notes = [Discrepancy note]\<rparr>"

definition last_three :: "proof_verdict \<Rightarrow> discrepancy list \<Rightarrow> replacement_verdicts" where
  "last_three v notes =
    \<lparr>rv_lineage = Verified, rv_action = v, rv_postcondition = v, rv_stability = v,
     rv_notes = notes\<rparr>"

definition lineage_matches ::
    "env \<Rightarrow> command \<Rightarrow> node \<Rightarrow> replacement_manifest \<Rightarrow> node \<Rightarrow> bool" where
  "lineage_matches E c target manifest n \<longleftrightarrow>
     n_run_id n = c_run_id c \<and> n_parent_id n = c_replacement_parent_id c \<and>
     n_supersedes_node_id n = Some (n_id target) \<and> n_caused_by_command_id n = Some (c_id c) \<and>
     n_role n = mf_role manifest \<and> n_behavior n = mf_behavior manifest \<and>
     sort (remdups (n_capabilities n)) = mf_capabilities_exact manifest \<and>
     payload_digest E (JObj (n_instruction n)) = mf_instruction_digest manifest \<and>
     n_instruction_version n = mf_instruction_version manifest \<and>
     c_created_at c \<le> n_registered_at n \<and>
     (case n_activated_at n of None \<Rightarrow> False | Some t \<Rightarrow> c_created_at c \<le> t)"

definition recovery_actions ::
    "db \<Rightarrow> command \<Rightarrow> node list \<Rightarrow> recovery_contract \<Rightarrow> string \<Rightarrow> action list" where
  "recovery_actions d c nodes contract tool =
    sort_key (\<lambda>a. (case a_committed_at a of None \<Rightarrow> 0 | Some t \<Rightarrow> t, a_id a))
      (filter (\<lambda>a. a_run_id a = c_run_id c \<and> a_node_id a \<in> n_id ` set nodes \<and>
         a_tool_name a = tool \<and> a_arguments_digest a = ct_expected_arguments_digest contract \<and>
         a_decision a = Allow \<and> a_committed_at a \<noteq> None \<and> c_created_at c \<le> a_attempted_at a)
       (db_actions d))"

definition postcondition_verdicts :: "postcondition_evaluation \<Rightarrow> replacement_verdicts" where
  "postcondition_verdicts pe =
    (let post = (if pe_inconsistent pe then Inconsistent
                 else if pe_incomplete pe then Incomplete else Verified);
         stability = (if pe_stability_incomplete pe \<and> post \<noteq> Inconsistent then Incomplete else post)
     in \<lparr>rv_lineage = Verified, rv_action = Verified, rv_postcondition = post,
         rv_stability = stability, rv_notes = pe_discrepancies pe\<rparr>)"

definition recovery_verdicts ::
    "env \<Rightarrow> db \<Rightarrow> time \<Rightarrow> command \<Rightarrow> node \<Rightarrow> recovery_contract \<Rightarrow> string \<Rightarrow> action list \<Rightarrow>
     replacement_verdicts" where
  "recovery_verdicts E d now c n contract tool committed =
    (if committed = [] then
       last_three Incomplete
         [Discrepancy (''Expected recovery tool '' @ tool @ '' has not committed'')]
     else if ct_max_committed_invocations contract < int (length committed) then
       last_three Inconsistent
         [Discrepancy (''Recovery tool '' @ tool @ '' committed '' @ show_int (int (length committed)) @
            '' times; manifest allows '' @ show_int (ct_max_committed_invocations contract))]
     else
       (let a = last committed in
        if a_result a = None \<or> a_result_digest a \<noteq> map_option (payload_digest E) (a_result a) then
          last_three Inconsistent
            [Discrepancy ''Recovery action result digest is missing or inconsistent'']
        else if n_status n \<noteq> Node_Completed \<or> n_completed_at n = None then
          last_three Incomplete
            [Discrepancy ''Replacement recovery action committed but replacement is not complete'']
        else if (case (a_committed_at a, n_completed_at n) of
                   (Some done_at, Some end_at) \<Rightarrow> end_at < done_at | _ \<Rightarrow> True) then
          last_three Inconsistent
            [Discrepancy ''Replacement completed before its recovery action committed'']
        else
          postcondition_verdicts (verify_postconditions (db_services d) (c_run_id c) (a_id a) contract
            (now - seconds (ct_stability_window_seconds contract)))))"

definition registered_verdicts ::
    "env \<Rightarrow> db \<Rightarrow> time \<Rightarrow> command \<Rightarrow> node \<Rightarrow> replacement_manifest \<Rightarrow> replacement_status \<Rightarrow> node \<Rightarrow>
     replacement_verdicts" where
  "registered_verdicts E d now c target manifest status n =
    (if status = Repl_Pending then
       (if n_status n = Node_Pending
        then all_four Incomplete ''Correction replacement is pending activation''
        else all_four Inconsistent
          ''Pending replacement lifecycle disagrees with the replacement node'')
     else if n_status n \<notin> (if status = Repl_Active then live_node_statuses else {Node_Completed}) then
       all_four Inconsistent
         ''Replacement lifecycle state disagrees with the replacement node status''
     else if \<not> lineage_matches E c target manifest n then
       all_four Inconsistent (''Replacement lineage, identity, capabilities, behavior or instruction '' @
         ''does not match the authorized manifest'')
     else
       (let nodes = descendants_including_self d (c_run_id c) (n_id n) None;
            direct = filter (\<lambda>m. n_parent_id m = Some (n_id n)) nodes;
            contract = mf_recovery_contract manifest
        in if mf_max_children manifest < int (length direct) then
             all_four Inconsistent ''Replacement exceeded its authorized child budget''
           else (case ct_expected_tool contract of
               None \<Rightarrow> last_three Not_Applicable []
             | Some tool \<Rightarrow>
                 recovery_verdicts E d now c n contract tool
                   (recovery_actions d c nodes contract tool))))"

definition manifest_verdicts ::
    "env \<Rightarrow> db \<Rightarrow> time \<Rightarrow> command \<Rightarrow> node \<Rightarrow> replacement_manifest \<Rightarrow> replacement_verdicts" where
  "manifest_verdicts E d now c target manifest =
    (case c_replacement_status c of
       None \<Rightarrow> all_four Inconsistent ''Correction replacement lifecycle state is missing''
     | Some status \<Rightarrow>
         if status \<in> {Repl_Activation_Expired, Repl_Failed} then
           all_four Inconsistent
             (''Replacement lifecycle terminated as '' @ replacement_status_value status)
         else (case c_replacement_node_id c of
             None \<Rightarrow>
               if status \<noteq> Repl_Pending then
                 all_four Inconsistent
                   ''Replacement lifecycle claims progress without a registered node''
               else all_four Incomplete ''Correction replacement is pending registration''
           | Some k \<Rightarrow>
               (case get_node_row k d of
                  None \<Rightarrow> all_four Inconsistent ''Correction references a missing replacement node''
                | Some n \<Rightarrow> registered_verdicts E d now c target manifest status n)))"

definition replacement_verdicts_of ::
    "env \<Rightarrow> db \<Rightarrow> time \<Rightarrow> command \<Rightarrow> node \<Rightarrow> replacement_verdicts" where
  "replacement_verdicts_of E d now c target =
    (if c_command_type c \<noteq> Correct_Subtree then
       \<lparr>rv_lineage = Not_Applicable, rv_action = Not_Applicable, rv_postcondition = Not_Applicable,
        rv_stability = Not_Applicable, rv_notes = []\<rparr>
     else (case c_replacement_manifest c of
         None \<Rightarrow> all_four Inconsistent ''Correction replacement manifest is missing or corrupted''
       | Some stored \<Rightarrow>
           if c_replacement_manifest_digest c \<noteq> Some (payload_digest E stored) then
             all_four Inconsistent ''Correction replacement manifest is missing or corrupted''
           else (case manifest_of_json stored of
               None \<Rightarrow> all_four Inconsistent ''Correction replacement manifest violates its schema''
             | Some manifest \<Rightarrow> manifest_verdicts E d now c target manifest)))"

section \<open>The response\<close>

record telemetry_proof =
  tp_verdict :: proof_verdict
  tp_discrepancies :: "discrepancy list"
  tp_trace_ids :: "string list"

record proof_response =
  pf_command_id :: ident
  pf_command_type :: command_type
  pf_affected_registered_nodes :: int
  pf_classifications :: "(classification \<times> int) list"
  pf_stale_action_attempts :: int
  pf_stale_actions_committed :: int
  pf_unrelated_branches_interrupted :: int
  pf_control_convergence_verdict :: proof_verdict
  pf_replacement_lineage_verdict :: proof_verdict
  pf_recovery_action_verdict :: proof_verdict
  pf_recovery_postcondition_verdict :: proof_verdict
  pf_recovery_stability_verdict :: proof_verdict
  pf_recovery_outcome_verdict :: proof_verdict
  pf_runtime_verdict :: proof_verdict
  pf_telemetry_verdict :: proof_verdict
  pf_overall_verdict :: proof_verdict
  pf_trace_ids :: "string list"
  pf_discrepancies :: "discrepancy list"

definition unclassified_note :: "ident list \<Rightarrow> discrepancy list" where
  "unclassified_note ids =
    (if ids = [] then []
     else [Discrepancy (''Unclassified live affected nodes: '' @ join '', '' ids)])"

definition proof_response_of ::
    "command \<Rightarrow> evidence \<Rightarrow> replacement_verdicts \<Rightarrow> telemetry_proof \<Rightarrow> proof_response" where
  "proof_response_of c ev rv tp =
    (let control = control_verdict ev;
         recovery = combine_proof_verdicts [rv_action rv, rv_postcondition rv, rv_stability rv];
         runtime = combine_proof_verdicts [control, rv_lineage rv, recovery]
     in \<lparr>pf_command_id = c_id c, pf_command_type = c_command_type c,
         pf_affected_registered_nodes = int (length (ev_affected ev)), 
         pf_classifications = class_counts (ev_classes ev),
         pf_stale_action_attempts = ev_stale_attempts ev,
         pf_stale_actions_committed = ev_stale_committed ev,
         pf_unrelated_branches_interrupted = ev_unrelated ev,
         pf_control_convergence_verdict = control,
         pf_replacement_lineage_verdict = rv_lineage rv, pf_recovery_action_verdict = rv_action rv,
         pf_recovery_postcondition_verdict = rv_postcondition rv,
         pf_recovery_stability_verdict = rv_stability rv,
         pf_recovery_outcome_verdict = recovery, pf_runtime_verdict = runtime,
         pf_telemetry_verdict = tp_verdict tp,
         pf_overall_verdict = combine_proof_verdicts [runtime, tp_verdict tp],
         pf_trace_ids = tp_trace_ids tp,
         pf_discrepancies = ev_discrepancies ev @ rv_notes rv @ tp_discrepancies tp @
           unclassified_note (ev_unclassified ev)\<rparr>)"

record proof_context =
  px_run_id :: ident
  px_revision :: int
  px_nearest_lease_expiry :: "time option"

definition nearest_lease_expiry :: "time \<Rightarrow> ident \<Rightarrow> db \<Rightarrow> time option" where
  "nearest_lease_expiry now run_id d =
    (case List.map_filter (\<lambda>n. if n_run_id n = run_id then
              (case n_lease_expires_at n of None \<Rightarrow> None
               | Some t \<Rightarrow> if now < t then Some t else None) else None) (db_nodes d) of
       [] \<Rightarrow> None
     | t # ts \<Rightarrow> Some (fold min ts t))"

definition current_context :: "time \<Rightarrow> ident \<Rightarrow> db \<Rightarrow> error + proof_context" where
  "current_context now command_id d =
    andthen (demand (get_command_row command_id d) not_found_error) (\<lambda>c.
    andthen (get_run (c_run_id c) d) (\<lambda>run.
    Inr \<lparr>px_run_id = r_id run, px_revision = r_proof_revision run,
         px_nearest_lease_expiry = nearest_lease_expiry now (r_id run) d\<rparr>))"

text \<open>\<open>clk 0\<close> classifies, \<open>clk 1\<close> bounds the stability window, the scan uses \<open>clk 2\<close> and 3.\<close>

definition build_uncached ::
    "env \<Rightarrow> clock \<Rightarrow> ident \<Rightarrow> telemetry_proof \<Rightarrow> (proof_response \<times> proof_context) tx" where
  "build_uncached E clk command_id tp d =
    andthen (demand (get_command_row command_id d) not_found_error) (\<lambda>c.
    andthen (get_run (c_run_id c) d) (\<lambda>run.
    andthen (demand (get_node_row (c_target_node_id c) d) not_found_error) (\<lambda>target.
    Inr ((proof_response_of c (collect_evidence d (clk 0) c target)
            (replacement_verdicts_of E d (clk 1) c target) tp,
          \<lparr>px_run_id = c_run_id c, px_revision = r_proof_revision run,
           px_nearest_lease_expiry = nearest_lease_expiry (clk 0) (c_run_id c) d\<rparr>),
         snd (scan E (\<lambda>i. clk (i + 2)) (Some (c_run_id c)) d)))))"

section \<open>Cache and stability loop\<close>

record cache_key =
  ck_command_id :: ident
  ck_revision :: int
  ck_export_watermark :: string
  ck_nearest_lease_expiry :: "time option"

type_synonym proof_cache = "(cache_key \<times> rat \<times> proof_response) list"

definition cache_key_of :: "ident \<Rightarrow> proof_context \<Rightarrow> string \<Rightarrow> cache_key" where
  "cache_key_of command_id px watermark =
    \<lparr>ck_command_id = command_id, ck_revision = px_revision px, ck_export_watermark = watermark,
     ck_nearest_lease_expiry = px_nearest_lease_expiry px\<rparr>"

definition prune_cache :: "rat \<Rightarrow> proof_cache \<Rightarrow> proof_cache" where
  "prune_cache now cache = filter (\<lambda>(_, expires, _). now < expires) cache"

definition drop_superseded :: "ident \<Rightarrow> cache_key option \<Rightarrow> proof_cache \<Rightarrow> proof_cache" where
  "drop_superseded command_id key cache =
    filter (\<lambda>(k, _). \<not> (ck_command_id k = command_id \<and> Some k \<noteq> key)) cache"

definition seconds_between :: "time \<Rightarrow> time \<Rightarrow> rat" where
  "seconds_between a b = of_int (b - a) / 1000000"

definition cache_expiry :: "env \<Rightarrow> time \<Rightarrow> rat \<Rightarrow> time option \<Rightarrow> rat" where
  "cache_expiry E now tick nearest =
    (let ttl = of_int (proof_cache_seconds E) in
     tick + max 0 (case nearest of None \<Rightarrow> ttl
       | Some t \<Rightarrow> min ttl (max 0 (seconds_between now t))))"

definition store_proof ::
    "cache_key option \<Rightarrow> rat \<Rightarrow> rat \<Rightarrow> proof_response \<Rightarrow> proof_cache \<Rightarrow> proof_cache" where
  "store_proof key tick expires response cache =
    (case key of
       None \<Rightarrow> cache
     | Some k \<Rightarrow>
         if tick < expires
         then (k, expires, response) # filter (\<lambda>(k', _). k' \<noteq> k) cache else cache)"

definition unstable_response :: "proof_response \<Rightarrow> proof_response" where
  "unstable_response r =
    r\<lparr>pf_runtime_verdict := State_Changed_During_Proof,
      pf_overall_verdict := State_Changed_During_Proof,
      pf_discrepancies := pf_discrepancies r @ [Discrepancy ''STATE_CHANGED_DURING_PROOF'']\<rparr>"

text \<open>
  One attempt of the loop: what \<open>_build_uncached\<close> returned (with the watermark of its export), the
  revision read afterwards, and the clocks at that point.
\<close>

record proof_attempt =
  pa_response :: proof_response
  pa_context :: proof_context
  pa_watermark :: "string option"
  pa_revision_after :: int
  pa_now :: time
  pa_tick :: rat
  pa_tick_store :: rat

definition stable_attempt :: "proof_attempt \<Rightarrow> bool" where
  "stable_attempt a \<longleftrightarrow> pa_revision_after a = px_revision (pa_context a)"

definition finish_build ::
    "env \<Rightarrow> ident \<Rightarrow> (nat \<Rightarrow> proof_attempt) \<Rightarrow> proof_cache \<Rightarrow> proof_response \<times> proof_cache" where
  "finish_build E command_id attempts cache =
    (case List.find stable_attempt (map attempts [0..<3]) of
       Some a \<Rightarrow>
         (pa_response a,
          store_proof (map_option (cache_key_of command_id (pa_context a)) (pa_watermark a))
            (pa_tick_store a)
            (cache_expiry E (pa_now a) (pa_tick a) (px_nearest_lease_expiry (pa_context a)))
            (pa_response a) cache)
     | None \<Rightarrow> (unstable_response (pa_response (attempts 2)), cache))"

definition build_proof ::
    "env \<Rightarrow> ident \<Rightarrow> proof_context \<Rightarrow> string option \<Rightarrow> rat \<Rightarrow> (nat \<Rightarrow> proof_attempt) \<Rightarrow> proof_cache \<Rightarrow>
     proof_response \<times> proof_cache" where
  "build_proof E command_id px watermark tick attempts cache =
    (let key = map_option (cache_key_of command_id px) watermark;
         cache1 = drop_superseded command_id key (prune_cache tick cache)
     in case Option.bind key (map_of cache1) of
          Some (expires, response) \<Rightarrow>
            if tick < expires then (response, cache1)
            else finish_build E command_id attempts cache1
        | None \<Rightarrow> finish_build E command_id attempts cache1)"

section \<open>Lemmas on the lattice\<close>

lemma severity_simps [simp]:
  "severity Inconsistent = 0" "severity State_Changed_During_Proof = 1" "severity Incomplete = 2"
  "severity Partial = 3" "severity Unavailable = 4" "severity Verified = 5"
  "severity Not_Applicable = 6"
  by (simp_all add: severity_def verdict_severity_def)

lemma severity_inj: "severity a = severity b \<longleftrightarrow> a = b"
  by (cases a; cases b) simp_all

text \<open>The lattice as an order: the worse verdict is the smaller one.\<close>

instantiation proof_verdict :: linorder
begin

definition less_eq_proof_verdict :: "proof_verdict \<Rightarrow> proof_verdict \<Rightarrow> bool" where
  "less_eq_proof_verdict a b \<longleftrightarrow> severity a \<le> severity b"

definition less_proof_verdict :: "proof_verdict \<Rightarrow> proof_verdict \<Rightarrow> bool" where
  "less_proof_verdict a b \<longleftrightarrow> severity a < severity b"

instance
  by standard
    (auto simp: less_eq_proof_verdict_def less_proof_verdict_def severity_inj [symmetric])

end

lemma severity_bounds: "severity v \<le> 6 \<and> (severity v = 6 \<longleftrightarrow> v = Not_Applicable)"
  by (cases v) simp_all

lemma least_by_spec:
  "least_by f b xs \<in> set (b # xs) \<and> (\<forall>x \<in> set (b # xs). f (least_by f b xs) \<le> f x)"
proof (induction xs arbitrary: b)
  case (Cons x xs)
  show ?case using Cons [of "if f x < f b then x else b"] by (auto split: if_splits)
qed simp

lemma combine_spec:
  assumes "v \<in> set vs" and "v \<noteq> Not_Applicable"
  shows "combine_proof_verdicts vs \<in> set vs" "combine_proof_verdicts vs \<noteq> Not_Applicable"
    "severity (combine_proof_verdicts vs) \<le> severity v"
proof -
  have "v \<in> set (filter (\<lambda>v. v \<noteq> Not_Applicable) vs)" using assms by simp
  then obtain w ws where f: "filter (\<lambda>v. v \<noteq> Not_Applicable) vs = w # ws"
    by (cases "filter (\<lambda>v. v \<noteq> Not_Applicable) vs") auto
  then have c: "combine_proof_verdicts vs = least_by severity w ws"
    by (simp add: combine_proof_verdicts_def)
  have s: "set (w # ws) = {v \<in> set vs. v \<noteq> Not_Applicable}" using f [symmetric] by simp
  from least_by_spec [of severity w ws] s assms
  show "combine_proof_verdicts vs \<in> set vs" "combine_proof_verdicts vs \<noteq> Not_Applicable"
    "severity (combine_proof_verdicts vs) \<le> severity v"
    unfolding c by auto
qed

lemma combine_none_applicable:
  "(\<forall>v \<in> set vs. v = Not_Applicable) \<Longrightarrow> combine_proof_verdicts vs = Not_Applicable"
  by (simp add: combine_proof_verdicts_def filter_empty_conv [THEN iffD2])

lemma combine_Min:
  assumes "\<exists>v \<in> set vs. v \<noteq> Not_Applicable"
  shows "combine_proof_verdicts vs = Min (set vs - {Not_Applicable})"
proof -
  obtain v where v: "v \<in> set vs" "v \<noteq> Not_Applicable" using assms by blast
  note c = combine_spec(1,2) [OF v]
  have "combine_proof_verdicts vs \<le> w" if "w \<in> set vs - {Not_Applicable}" for w
    using combine_spec(3) [of w vs] that by (simp add: less_eq_proof_verdict_def)
  then show ?thesis using c by (intro Min_eqI [symmetric]) auto
qed

lemma combine_verified_iff:
  "combine_proof_verdicts vs = Verified \<longleftrightarrow>
     Verified \<in> set vs \<and> set vs \<subseteq> {Verified, Not_Applicable}"
proof
  assume v: "combine_proof_verdicts vs = Verified"
  have ex: "\<exists>v \<in> set vs. v \<noteq> Not_Applicable"
    using v combine_none_applicable by fastforce
  have "v \<in> {Verified, Not_Applicable}" if "v \<in> set vs" for v
  proof (cases "v = Not_Applicable")
    case False
    then have "5 \<le> severity v" using combine_spec(3) [OF that False] v by simp
    then show ?thesis by (cases v) simp_all
  qed simp
  moreover have "Verified \<in> set vs" using ex combine_spec(1) v by metis
  ultimately show "Verified \<in> set vs \<and> set vs \<subseteq> {Verified, Not_Applicable}" by auto
next
  assume "Verified \<in> set vs \<and> set vs \<subseteq> {Verified, Not_Applicable}"
  then have "combine_proof_verdicts vs \<in> {Verified, Not_Applicable}"
    "combine_proof_verdicts vs \<noteq> Not_Applicable"
    using combine_spec [of Verified vs] by auto
  then show "combine_proof_verdicts vs = Verified" by simp
qed

lemma combine_least:
  assumes "set vs = set ws"
  shows "combine_proof_verdicts vs = combine_proof_verdicts ws"
proof (cases "\<exists>v \<in> set vs. v \<noteq> Not_Applicable")
  case True
  then obtain v where v: "v \<in> set vs" "v \<noteq> Not_Applicable" by blast
  note a = combine_spec [OF v] and b = combine_spec [OF v(1) [unfolded assms] v(2)]
  have "severity (combine_proof_verdicts vs) \<le> severity (combine_proof_verdicts ws)"
    using combine_spec(3) [of "combine_proof_verdicts ws" vs] b assms by simp
  moreover have "severity (combine_proof_verdicts ws) \<le> severity (combine_proof_verdicts vs)"
    using combine_spec(3) [of "combine_proof_verdicts vs" ws] a assms by simp
  ultimately show ?thesis using severity_inj by fastforce
next
  case False
  then show ?thesis using assms combine_none_applicable by metis
qed

section \<open>Lemmas on the response\<close>

lemma evidence_partition:
  "length (ev_classes (collect_evidence d now c target)) +
   length (ev_unclassified (collect_evidence d now c target)) =
   length (ev_affected (collect_evidence d now c target))"
proof -
  have "length (filter (\<lambda>k. k \<noteq> Unclassified) (map f xs)) + length (filter (\<lambda>n. f n = Unclassified) xs)
      = length xs" for f :: "node \<Rightarrow> classification" and xs
    by (induction xs) auto
  then show ?thesis by (simp add: collect_evidence_def Let_def)
qed

lemma control_verified_iff:
  "control_verdict (collect_evidence d now c target) = Verified \<longleftrightarrow>
     ev_stale_committed (collect_evidence d now c target) = 0 \<and>
     ev_unclassified (collect_evidence d now c target) = [] \<and>
     ev_unrelated (collect_evidence d now c target) = 0"
  by (auto simp: control_verdict_def collect_evidence_def Let_def stale_committed_count_def
      unrelated_interrupted_def)

lemma control_applicable: "control_verdict ev \<in> {Inconsistent, Incomplete, Verified}"
  by (simp add: control_verdict_def)

lemma overall_verified:
  assumes "pf_overall_verdict (proof_response_of c ev rv tp) = Verified"
  shows "control_verdict ev = Verified" "rv_lineage rv \<in> {Verified, Not_Applicable}"
    "rv_action rv \<in> {Verified, Not_Applicable}" "rv_postcondition rv \<in> {Verified, Not_Applicable}"
    "rv_stability rv \<in> {Verified, Not_Applicable}" "tp_verdict tp \<in> {Verified, Not_Applicable}"
proof -
  let ?rec = "combine_proof_verdicts [rv_action rv, rv_postcondition rv, rv_stability rv]"
  let ?run = "combine_proof_verdicts [control_verdict ev, rv_lineage rv, ?rec]"
  have o: "combine_proof_verdicts [?run, tp_verdict tp] = Verified"
    using assms by (simp add: proof_response_of_def Let_def)
  then have run: "?run \<in> {Verified, Not_Applicable}" and tp: "tp_verdict tp \<in> {Verified, Not_Applicable}"
    unfolding combine_verified_iff by auto
  have "control_verdict ev \<noteq> Not_Applicable" using control_applicable [of ev] by auto
  then have "?run \<noteq> Not_Applicable" by (intro combine_spec(2)) auto
  with run have "?run = Verified" by simp
  then have 1: "set [control_verdict ev, rv_lineage rv, ?rec] \<subseteq> {Verified, Not_Applicable}"
    unfolding combine_verified_iff by blast
  then show "control_verdict ev = Verified" "rv_lineage rv \<in> {Verified, Not_Applicable}"
    "tp_verdict tp \<in> {Verified, Not_Applicable}"
    using control_applicable [of ev] tp by auto
  have "v \<in> {Verified, Not_Applicable}" if "v \<in> set [rv_action rv, rv_postcondition rv, rv_stability rv]" for v
  proof (rule ccontr)
    assume n: "v \<notin> {Verified, Not_Applicable}"
    then have "severity ?rec \<le> severity v" using combine_spec(3) [OF that] by simp
    moreover have "severity v < 5" using n by (cases v) simp_all
    ultimately have "severity ?rec < 5" by simp
    then have "?rec \<notin> {Verified, Not_Applicable}" by auto
    with 1 show False by simp
  qed
  then show "rv_action rv \<in> {Verified, Not_Applicable}" "rv_postcondition rv \<in> {Verified, Not_Applicable}"
    "rv_stability rv \<in> {Verified, Not_Applicable}"
    by simp_all
qed

text \<open>A verified correction has a registered replacement with the authorised lineage.\<close>

lemma all_four_lineage [simp]: "rv_lineage (all_four v note) = v"
  by (simp add: all_four_def)

lemma registered_verified:
  assumes "rv_lineage (registered_verdicts E d now c target manifest status n) = Verified"
  shows "lineage_matches E c target manifest n"
    and "n_status n \<in> (if status = Repl_Active then live_node_statuses else {Node_Completed})"
  using assms by (auto simp: registered_verdicts_def split: if_splits)

lemma replacement_verified:
  assumes "rv_lineage (replacement_verdicts_of E d now c target) \<in> {Verified, Not_Applicable}"
    and "c_command_type c = Correct_Subtree"
  shows "\<exists>stored manifest k n. c_replacement_manifest c = Some stored \<and>
    c_replacement_manifest_digest c = Some (payload_digest E stored) \<and>
    manifest_of_json stored = Some manifest \<and> c_replacement_node_id c = Some k \<and>
    get_node_row k d = Some n \<and> lineage_matches E c target manifest n"
proof -
  obtain stored manifest where m: "c_replacement_manifest c = Some stored"
    "c_replacement_manifest_digest c = Some (payload_digest E stored)"
    "manifest_of_json stored = Some manifest"
    and v: "rv_lineage (manifest_verdicts E d now c target manifest) \<in> {Verified, Not_Applicable}"
    using assms by (auto simp: replacement_verdicts_of_def split: option.splits if_splits)
  obtain status k n where k: "c_replacement_node_id c = Some k" "get_node_row k d = Some n"
    and r: "rv_lineage (registered_verdicts E d now c target manifest status n) \<in> {Verified, Not_Applicable}"
    using v by (auto simp: manifest_verdicts_def split: option.splits if_splits)
  have "rv_lineage (registered_verdicts E d now c target manifest status n) \<noteq> Not_Applicable"
    by (auto simp: registered_verdicts_def Let_def last_three_def recovery_verdicts_def
        postcondition_verdicts_def split: option.splits)
  with r have "rv_lineage (registered_verdicts E d now c target manifest status n) = Verified" by simp
  then show ?thesis using m k registered_verified(1) by blast
qed

section \<open>Lemmas on the cache\<close>

lemma cached_lookup:
  assumes "map_of (drop_superseded cid key (prune_cache tick cache)) k = Some (expires, r)"
  shows "(k, expires, r) \<in> set cache" "tick < expires"
  using map_of_SomeD [OF assms] by (auto simp: drop_superseded_def prune_cache_def)

lemma stored_entries:
  "(k, e, r) \<in> set (store_proof key tick expires response cache) \<Longrightarrow>
   (k, e, r) \<in> set cache \<or> (key = Some k \<and> e = expires \<and> r = response \<and> tick < expires)"
  by (auto simp: store_proof_def split: option.splits if_splits)

lemma cache_expiry_bound:
  "0 \<le> proof_cache_seconds E \<Longrightarrow> cache_expiry E now tick nearest \<le> tick + of_int (proof_cache_seconds E)"
  by (auto simp: cache_expiry_def Let_def split: option.split)

lemma cache_expiry_lease:
  assumes "now \<le> lease"
  shows "cache_expiry E now tick (Some lease) \<le> tick + seconds_between now lease"
proof -
  have "0 \<le> seconds_between now lease" using assms by (simp add: seconds_between_def)
  then show ?thesis by (simp add: cache_expiry_def Let_def)
qed

end
