(* ===== verification/System.thy ===== *)
theory System
  imports Control Replacement Nodes Lease StateGraph Proof
begin

text \<open>
  The services together.  A configuration is the latest time read so far and the state; a step is
  one operation of one service with its arguments, its random draws and its clock readings.  The
  clock is a wall clock and may read anything (\<open>any_readings\<close>), with one exception: the two operations
  whose times the auditor compares, the command and the action, read it inside their \<open>BEGIN IMMEDIATE\<close>
  transactions, and these readings move forward from one such transaction to the next (\<open>readings\<close>).  The
  first component of a configuration is the latest of them.  The invariant \<open>safe\<close> says why no stale action
  can commit: each command names a scope that has left \<open>ACTIVE\<close>, and no admitted side effect of an
  affected node is as late as its command.
\<close>

section \<open>Steps\<close>

definition readings :: "time \<Rightarrow> clock \<Rightarrow> time \<Rightarrow> bool" where
  "readings h clk h' \<longleftrightarrow> (\<forall>i. h < clk i \<and> clk i \<le> h') \<and> (\<forall>i j. i \<le> j \<longrightarrow> clk i \<le> clk j)"

definition any_readings :: "time \<Rightarrow> clock \<Rightarrow> time \<Rightarrow> bool" where
  "any_readings h clk h' \<longleftrightarrow> h \<le> h'"

inductive step :: "env \<Rightarrow> codecs \<Rightarrow> time \<times> sys \<Rightarrow> time \<times> sys \<Rightarrow> bool" for E C where
  create_run: "any_readings h clk h' \<Longrightarrow>
    step E C (h, s) (h', snd (transaction (create_run E request token (clk 0)) s))"
| seed: "any_readings h clk h' \<Longrightarrow>
    step E C (h, s) (h', snd (transaction (seed_scenario (clk 0) run_id) s))"
| spawn: "any_readings h clk h' \<Longrightarrow>
    step E C (h, s) (h', snd (create_spawn E C clk tick token nonce carrier k ptoken spawn_request s))"
| activate: "any_readings h clk h' \<Longrightarrow>
    step E C (h, s) (h', snd (activate E C (clk 0) (clk 1) tick tok nonce k activate_request s))"
| heartbeat: "any_readings h clk h' \<Longrightarrow>
    step E C (h, s) (h', snd (heartbeat E (clk 0) tick k token s))"
| checkpoint: "any_readings h clk h' \<Longrightarrow>
    step E C (h, s) (h', snd (checkpoint E clk tick k token stage s))"
| complete: "any_readings h clk h' \<Longrightarrow>
    step E C (h, s) (h', snd (complete E clk tick k token s))"
| replacement: "any_readings h clk h' \<Longrightarrow>
    step E C (h, s) (h', snd (create_replacement E C clk tick token nonce carrier k ptoken cid
      spawn_request s))"
| propose: "any_readings h clk h' \<Longrightarrow>
    step E C (h, s) (h', snd (create_proposal E clk tick k token proposal_request s))"
| review: "any_readings h clk h' \<Longrightarrow>
    step E C (h, s) (h', snd (transaction (review_proposal E clk pid review_request reviewer) s))"
| issue: "readings h clk h' \<Longrightarrow>
    step E C (h, s) (h', snd (issue_command E clk tick command_request who node_token s))"
| execute: "readings h clk h' \<Longrightarrow>
    step E C (h, s) (h', snd (execute E clk tick k token action_request s))"
| expire: "any_readings h clk h' \<Longrightarrow>
    step E C (h, s) (h', snd (transaction (expire_stale_nodes E (clk 0) run_filter) s))"
| audit: "any_readings h clk h' \<Longrightarrow>
    step E C (h, s) (h', s\<lparr>sy_db := snd (scan E clk run_filter (sy_db s))\<rparr>)"
| claim: "any_readings h clk h' \<Longrightarrow>
    step E C (h, s) (h', s\<lparr>sy_db := snd (claim_pending owner limit (clk 0) (sy_db s))\<rparr>)"
| deliver: "any_readings h clk h' \<Longrightarrow>
    step E C (h, s) (h', s\<lparr>sy_db := fst (deliver_one owner (clk 0) flushed id row_id (sy_db s, 0))\<rparr>)"
| prove: "any_readings h clk h' \<Longrightarrow>
    step E C (h, s) (h', snd (transaction (build_uncached E clk cid tp) s))"

inductive reachable :: "env \<Rightarrow> codecs \<Rightarrow> time \<times> sys \<Rightarrow> bool" for E C where
  start: "reachable E C (h, \<lparr>sy_db = empty_db, sy_limiter = []\<rparr>)"
| next_step: "reachable E C c \<Longrightarrow> step E C c c' \<Longrightarrow> reachable E C c'"

inductive_cases step_cases: "step E C (h, s) (h', s')"

section \<open>Steps that issue no command and attempt no action\<close>

definition quiet :: "db \<Rightarrow> db \<Rightarrow> bool" where
  "quiet d d' \<longleftrightarrow> db_actions d' = db_actions d \<and> length (db_commands d') = length (db_commands d) \<and>
     (\<exists>ss. db_scopes d' = db_scopes d @ ss \<and>
        (\<forall>s \<in> set ss. sc_status s = Scope_Active \<and> sc_version s = 1))"

interpretation db_quiet: history quiet
proof
  show "quiet d d" for d by (simp add: quiet_def)
  show "quiet d1 d3" if "quiet d1 d2" "quiet d2 d3" for d1 d2 d3
    using that by (fastforce simp: quiet_def)
qed

lemma quiet_same:
  "db_actions d' = db_actions d \<Longrightarrow> length (db_commands d') = length (db_commands d) \<Longrightarrow>
   db_scopes d' = db_scopes d \<Longrightarrow> quiet d d'"
  by (simp add: quiet_def)

lemma quiet_scope:
  "db_actions d' = db_actions d \<Longrightarrow> length (db_commands d') = length (db_commands d) \<Longrightarrow>
   db_scopes d' = db_scopes d @ [new_scope k rid owner now] \<Longrightarrow> quiet d d'"
  by (simp add: quiet_def new_scope_def)

lemma update_rows_length [simp]:
  "length (db_commands (update_command k f d)) = length (db_commands d)"
  "db_actions (update_command k f d) = db_actions d" "db_scopes (update_command k f d) = db_scopes d"
  "db_commands (update_node k g d) = db_commands d" "db_actions (update_node k g d) = db_actions d"
  "db_scopes (update_node k g d) = db_scopes d"
  "db_commands (update_intent k i d) = db_commands d" "db_actions (update_intent k i d) = db_actions d"
  "db_scopes (update_intent k i d) = db_scopes d"
  "db_commands (update_proposal k p d) = db_commands d"
  "db_actions (update_proposal k p d) = db_actions d" "db_scopes (update_proposal k p d) = db_scopes d"
  by (simp_all add: row_update_defs)

lemma advance_replacement_quiet: "advance_replacement s t node d = Inr d' \<Longrightarrow> quiet d d'"
  by (auto simp: advance_replacement_returns intro!: quiet_same split: option.splits)

lemma create_run_quiet: "create_run E request token now d = Inr (r, d') \<Longrightarrow> quiet d d'"
  by (auto simp: create_run_def outcome Let_def quiet_def new_scope_def)

lemma seed_quiet: "seed_scenario now rid d = Inr (u, d') \<Longrightarrow> quiet d d'"
  by (auto simp: seed_scenario_returns intro: quiet_same)

lemma create_spawn_locked_quiet:
  assumes "create_spawn_locked E clk token carrier parent request lin d = (created, d')"
  shows "quiet d d'"
  using create_spawn_locked_tables [OF assms] by (auto intro: quiet_scope)

lemma recover_spawn_quiet:
  assumes "recover_spawn_response E C clk token nonce e d = Inr (r, d')"
  shows "quiet d d'"
  using recover_spawn_tables [OF assms] by (auto intro: quiet_same)

lemma activate_body_quiet:
  assumes "activate_body E C now sealed tok nonce request (node, intent) d = Inr (r, d')"
  shows "quiet d d'"
proof -
  let ?d2 = "update_node (n_id node) (activate_node E now (tok 0) (na_process_id request))
          (update_intent (si_id intent) (\<lambda>i. i\<lparr>si_consumed_at := Some now\<rparr>) d)"
  obtain d3 where d3: "advance_replacement Repl_Pending Repl_Active node ?d2 = Inr d3"
    and d': "d' = fold record_runtime_event (activated_events node now (lease_until E now))
        (case na_operation_key request of
           None \<Rightarrow> d3
         | Some key \<Rightarrow> seal_envelope E (activation_codec C) sealed nonce None (n_run_id node)
             ''ACTIVATION'' (n_id node) (n_id node) key (activation_digest E request) r d3)"
    using assms unfolding activate_body_returns by blast
  have 1: "quiet d ?d2" by (rule quiet_same) simp_all
  have 2: "quiet ?d2 d3" using advance_replacement_quiet [OF d3] .
  have 3: "quiet d3 d'" unfolding d' by (auto intro!: quiet_same split: option.split)
  show ?thesis by (rule db_quiet.chain3 [OF 1 2 3])
qed

lemma rotate_activation_quiet:
  "rotate_activation E C now sealed token nonce node e key dg d = Inr (r, d') \<Longrightarrow> quiet d d'"
  by (auto simp: rotate_activation_def Let_def intro!: quiet_same split: option.splits if_splits)

lemma recover_activation_quiet:
  "recover_activation E C now sealed token nonce node request d = Inr (Some (r, d')) \<Longrightarrow> quiet d d'"
  by (auto simp: recover_activation_def andthen_returns db_quiet.refl rotate_activation_quiet
      split: option.splits if_splits)

lemma activate_before_quiet:
  "activate_before E C now sealed tok nonce k request d = Inr (Answer r d') \<Longrightarrow> quiet d d'"
  by (auto simp: activate_before_def outcome recover_activation_quiet split: option.splits)

lemma heartbeat_body_quiet: "heartbeat_body E now node d = Inr (r, d') \<Longrightarrow> quiet d d'"
  by (auto simp: heartbeat_body_def outcome Let_def heartbeat_expired_def heartbeat_stale_def
      heartbeat_renewed_def db_quiet.refl intro!: quiet_same split: if_splits)

lemma checkpoint_body_quiet: "checkpoint_body E clk stage node d = Inr (r, d') \<Longrightarrow> quiet d d'"
  by (auto simp: checkpoint_body_def outcome Let_def checkpoint_denied_def checkpoint_waiting_def
      db_quiet.refl intro!: quiet_same split: if_splits)

lemma sweep_quiet: "quiet d (fst (fold (sweep_node E now) ns (d, live)))"
proof (induction ns arbitrary: d live)
  case (Cons n ns)
  obtain d1 l1 where s: "sweep_node E now n (d, live) = (d1, l1)" by fastforce
  then have "quiet d d1"
    by (auto simp: sweep_node_def db_quiet.refl intro!: quiet_same split: if_splits)
  then show ?case using Cons.IH [of d1 l1] by (auto simp: s intro: db_quiet.trans)
qed (simp add: db_quiet.refl)

lemma transition_quiet: "transition_run run target fin d = Inr d' \<Longrightarrow> quiet d d'"
  using transition_run_tables by (intro quiet_same) auto

lemma finish_run_quiet:
  assumes "finish_run E clk run node d = Inr d'"
  shows "quiet d d'"
proof (cases "r_root_node_id run = n_id node")
  case True
  let ?others = "filter (\<lambda>n. n_run_id n = n_run_id node \<and> n_id n \<noteq> n_id node) (db_nodes d)"
  obtain d1 live where f: "fold (sweep_node E (clk 1)) ?others (d, []) = (d1, live)" by fastforce
  with assms True have "quiet d1 d'"
    by (auto simp: finish_run_def complete_run_def Let_def andthen_returns intro: transition_quiet)
  then show ?thesis
    using sweep_quiet [of d E "clk 1" ?others "[]"] f by (auto intro: db_quiet.trans)
qed (use assms in \<open>simp add: finish_run_def db_quiet.refl\<close>)

lemma complete_body_quiet:
  assumes "complete_body E clk node d = Inr (u, d')"
  shows "quiet d d'"
proof -
  let ?done = "update_node (n_id node)
      (\<lambda>n. n\<lparr>n_status := Node_Completed, n_completed_at := Some (clk 3)\<rparr>)"
  obtain run d1 d3 where 1: "finish_run E clk run node d = Inr d1"
    and 3: "advance_replacement Repl_Active Repl_Completed node (?done d1) = Inr d3"
    and d': "d' = fold record_runtime_event (completion_events node (clk 3)) d3"
    using assms unfolding complete_body_returns by blast
  have a: "quiet d d1" using finish_run_quiet [OF 1] .
  have b: "quiet d1 (?done d1)" by (rule quiet_same) simp_all
  have c: "quiet (?done d1) d3" using advance_replacement_quiet [OF 3] .
  have e: "quiet d3 d'" unfolding d' by (auto intro: quiet_same)
  show ?thesis by (rule db_quiet.trans [OF db_quiet.chain3 [OF a b c] e])
qed

lemma create_spawn_body_quiet:
  assumes "create_spawn_body E C clk token nonce carrier request parent d = Inr (created, d')"
  shows "quiet d d'"
proof -
  obtain d1 where 1: "create_spawn_locked E (\<lambda>i. clk (i + 1)) token carrier parent request
      plain_lineage d = (created, d1)"
    and d': "d' = seal_spawn E C (clk 3) nonce ''SPAWN'' (spawn_digest E [] request) parent
        (sp_operation_key request) created d1"
    using assms unfolding create_spawn_body_returns by blast
  have "quiet d1 d'" unfolding d' by (rule quiet_same) simp_all
  with create_spawn_locked_quiet [OF 1] show ?thesis by (rule db_quiet.trans)
qed

lemma create_replacement_body_quiet:
  assumes "create_replacement_body E C clk token nonce carrier cid request parent d = Inr (created, d')"
  shows "quiet d d'"
proof -
  obtain lin d1 where 1: "create_spawn_locked E (\<lambda>i. clk (i + 1)) token carrier parent request
      lin d = (created, d1)"
    and d': "d' = seal_spawn E C (clk 3) nonce ''REPLACEMENT'' (spawn_digest E cid request) parent
        (sp_operation_key request) created
        (update_command cid (\<lambda>c. c\<lparr>c_replacement_node_id := Some (scd_child_node_id created),
                c_replacement_status := Some Repl_Pending\<rparr>) d1)"
    using assms unfolding create_replacement_body_returns by blast
  have "quiet d1 d'" unfolding d' by (rule quiet_same) simp_all
  with create_spawn_locked_quiet [OF 1] show ?thesis by (rule db_quiet.trans)
qed

lemma review_quiet: "review_proposal E clk pid request reviewer d = Inr (p, d') \<Longrightarrow> quiet d d'"
  by (auto simp: review_returns intro: quiet_same)

lemma propose_quiet: "create_body E clk request reporter d = Inr (p, d') \<Longrightarrow> quiet d d'"
  using create_body_returns by (fastforce intro: quiet_same)

lemma expire_node_quiet:
  assumes "expire_node E now n d = Inr d'"
  shows "quiet d d'"
proof -
  let ?d2 = "expire_replacement n (update_node (n_id n) (\<lambda>n. n\<lparr>n_status := Node_Lease_Expired\<rparr>) d)"
  obtain d3 where f: "fail_root_run now n ?d2 = Inr d3"
    and d': "d' = record_runtime_event (lease_event n now) (record_lease_expiry_ack E n now d3)"
    using assms by (auto simp: expire_node_def andthen_returns Let_def)
  have 1: "quiet d ?d2"
    by (rule quiet_same) (auto simp: expire_replacement_def split: option.split)
  have 2: "quiet ?d2 d3"
    using f transition_quiet db_quiet.refl by (auto simp: fail_root_run_def split: option.splits if_splits)
  have 3: "quiet d3 d'" unfolding d' by (auto intro: quiet_same)
  show ?thesis by (rule db_quiet.chain3 [OF 1 2 3])
qed

lemma expire_quiet: "expire_stale_nodes E now rid d = Inr (k, d') \<Longrightarrow> quiet d d'"
  by (auto simp: expire_stale_nodes_def andthen_returns Let_def
      intro: db_quiet.foldm_related expire_node_quiet)

lemma record_candidate_scopes:
  "fold (record_candidate E clk) vs (d, n) = (d', n') \<Longrightarrow> db_scopes d' = db_scopes d"
proof (induction vs arbitrary: d n)
  case (Cons w vs)
  obtain d1 n1 where s: "record_candidate E clk w (d, n) = (d1, n1)" by fastforce
  then have "db_scopes d1 = db_scopes d"
    by (auto simp: record_candidate_def Let_def split: if_splits)
  then show ?case using Cons.IH [of d1 n1] Cons.prems s by simp
qed simp

lemma scan_quiet: "quiet d (snd (scan E clk rid d))"
proof -
  obtain d' n where f: "fold (record_candidate E clk) (discover_candidates rid d) (d, 0) = (d', n)"
    by fastforce
  have "quiet d d'"
    using fold_record_tables [OF f] record_candidate_scopes [OF f] by (intro quiet_same) simp_all
  then show ?thesis by (simp add: scan_def f)
qed

lemma claim_quiet: "quiet d (snd (claim_pending owner limit now d))"
  by (auto simp: claim_pending_def Let_def intro: quiet_same)

lemma deliver_quiet: "quiet d (fst (deliver_one owner now flushed id k (d, n)))"
  by (auto simp: deliver_one_def Let_def db_quiet.refl intro: quiet_same split: option.split)

lemma claim_advances: "advances E d (snd (claim_pending owner limit now d))"
  by (auto simp: claim_pending_def Let_def intro: evolution)

lemma deliver_advances: "advances E d (fst (deliver_one owner now flushed id k (d, n)))"
  by (auto simp: deliver_one_def Let_def intro: evolution split: option.split)

lemma build_uncached_db:
  "build_uncached E clk cid tp d = Inr (r, d') \<Longrightarrow> \<exists>rid. d' = snd (scan E (\<lambda>i. clk (i + 2)) rid d)"
  by (auto simp: build_uncached_def outcome)

section \<open>The invariant\<close>

definition scopes_explained :: "db \<Rightarrow> bool" where
  "scopes_explained d \<longleftrightarrow> (\<forall>s \<in> set (db_scopes d).
     (sc_status s = Scope_Active \<and> sc_version s = 1) \<or>
     (\<exists>c \<in> set (db_commands d). c_target_scope_id c = sc_id s \<and> c_run_id c = sc_run_id s \<and>
        c_to_version c = sc_version s))"

definition command_enforced :: "db \<Rightarrow> command \<Rightarrow> bool" where
  "command_enforced d c \<longleftrightarrow>
     (\<exists>s. get_scope_row (c_target_scope_id c) d = Some s \<and> sc_run_id s = c_run_id c \<and>
        sc_status s = command_scope_status (c_command_type c) \<and> sc_version s = c_to_version c) \<and>
     c_from_version c = 1 \<and> c_to_version c = 2 \<and>
     (c_command_type c = Cancel_Run \<longrightarrow>
        (\<exists>r. get_run_row (c_run_id c) d = Some r \<and> r_status r = Run_Cancelled))"

definition action_placed :: "db \<Rightarrow> action \<Rightarrow> bool" where
  "action_placed d a \<longleftrightarrow>
     (\<exists>n. get_node_row (a_node_id a) d = Some n \<and> n_run_id n = a_run_id a)"

definition dated :: "time \<Rightarrow> db \<Rightarrow> bool" where
  "dated h d \<longleftrightarrow> (\<forall>c \<in> set (db_commands d). c_created_at c \<le> h) \<and>
     (\<forall>a \<in> set (db_actions d). a_attempted_at a \<le> h)"

definition no_stale_commit :: "db \<Rightarrow> bool" where
  "no_stale_commit d \<longleftrightarrow>
     (\<forall>c \<in> set (db_commands d). \<forall>a \<in> set (db_actions d). \<not> stale_commit d c a)"

definition safe :: "env \<Rightarrow> time \<Rightarrow> db \<Rightarrow> bool" where
  "safe E h d \<longleftrightarrow> ids_ok E d \<and> scopes_explained d \<and> list_all (command_enforced d) (db_commands d) \<and>
     list_all (action_placed d) (db_actions d) \<and> dated h d \<and> no_stale_commit d"

lemma safe_empty: "safe E h empty_db"
  by (simp add: safe_def empty_db_def ids_ok_def drawn_def scopes_explained_def dated_def
      no_stale_commit_def)

text \<open>What survives any transaction that respects the history relation.\<close>

lemma command_enforced_evolves:
  assumes "evolves d d'" and "command_enforced d c" and "command_step c c'"
  shows "command_enforced d' c'"
proof -
  note f = command_step_fields [OF assms(3)]
  obtain s where s: "get_scope_row (c_target_scope_id c) d = Some s" "sc_run_id s = c_run_id c"
    "sc_status s = command_scope_status (c_command_type c)" "sc_version s = c_to_version c"
    using assms(2) unfolding command_enforced_def by blast
  obtain s' where s': "get_scope_row (c_target_scope_id c) d' = Some s'" "scope_step s s'"
    using evolves_scope [OF assms(1) s(1)] by blast
  have "sc_status s \<noteq> Scope_Active" by (simp add: s(3))
  then have "sc_run_id s' = c_run_id c" "sc_status s' = command_scope_status (c_command_type c)"
    "sc_version s' = c_to_version c"
    using s s'(2) by (auto simp: scope_step_def)
  moreover have "\<exists>r'. get_run_row (c_run_id c) d' = Some r' \<and> r_status r' = Run_Cancelled"
    if run: "c_command_type c = Cancel_Run"
  proof -
    obtain r where r: "get_run_row (c_run_id c) d = Some r" "r_status r = Run_Cancelled"
      using assms(2) run unfolding command_enforced_def by blast
    then obtain r' where "get_run_row (c_run_id c) d' = Some r'" "run_step r r'"
      using evolves_run [OF assms(1) r(1)] by blast
    then show ?thesis using r(2) by (auto simp: run_step_def terminal_run_states_def)
  qed
  ultimately show ?thesis
    using assms(2) s'(1) by (simp add: command_enforced_def f)
qed

lemma action_placed_evolves:
  assumes "evolves d d'" and "action_placed d a"
  shows "action_placed d' a"
proof -
  obtain n where n: "get_node_row (a_node_id a) d = Some n" "n_run_id n = a_run_id a"
    using assms(2) by (auto simp: action_placed_def)
  then obtain n' where "get_node_row (a_node_id a) d' = Some n'" "node_step n n'"
    using evolves_node [OF assms(1) n(1)] by blast
  then show ?thesis using n(2) by (auto simp: action_placed_def node_step_def)
qed

text \<open>With distinct identifiers the affected nodes are found by looking them up.\<close>

lemma affected_lookup:
  assumes "uuid_inj E" and "ids_ok E d"
  shows "k \<in> affected_ids d c \<longleftrightarrow>
     (\<exists>n. get_node_row k d = Some n \<and> n_run_id n = c_run_id c \<and> node_affected c n)"
  using ids_distinct(2) [OF assms] by (auto simp: affected_ids_def get_node_row_def lookup_iff)

lemma stale_commit_evolves:
  assumes uuid: "uuid_inj E" and ids: "ids_ok E d" "ids_ok E d'" and ev: "evolves d d'"
    and placed: "action_placed d a" and step: "command_step c c'" and stale: "stale_commit d' c' a"
  shows "stale_commit d c a"
proof -
  note f = command_step_fields [OF step]
  obtain n where n: "get_node_row (a_node_id a) d = Some n" "n_run_id n = a_run_id a"
    using placed by (auto simp: action_placed_def)
  obtain n' where n': "get_node_row (a_node_id a) d' = Some n'" "node_step n n'"
    using evolves_node [OF ev n(1)] by blast
  have "node_affected c' n'"
    using stale n'(1) unfolding stale_commit_def affected_lookup [OF uuid ids(2)] by auto
  then have "node_affected c n" using n'(2) by (simp add: node_affected_def f node_step_def)
  then have "a_node_id a \<in> affected_ids d c"
    using n stale f(2) unfolding affected_lookup [OF uuid ids(1)] by (auto simp: stale_commit_def)
  then show ?thesis using stale by (simp add: stale_commit_def f)
qed

lemma commands_from:
  assumes "evolves d d'" and "length (db_commands d') = length (db_commands d)" and "c' \<in> set (db_commands d')"
  shows "\<exists>c \<in> set (db_commands d). command_step c c'"
proof -
  have "list_all2 command_step (db_commands d) (db_commands d')"
    using assms(1,2) by (simp add: evolves_def keeps_rows_def)
  then show ?thesis using assms(3) by (metis in_set_conv_nth list_all2_conv_all_nth)
qed

lemma scopes_explained_evolves:
  assumes "evolves d d'" and "db_scopes d' = db_scopes d @ ss"
    and "\<forall>s \<in> set ss. sc_status s = Scope_Active \<and> sc_version s = 1" and "scopes_explained d"
  shows "scopes_explained d'"
proof -
  have "\<exists>c' \<in> set (db_commands d'). command_step c c'" if "c \<in> set (db_commands d)" for c
    using assms(1) that keeps_rows_member by (auto simp: evolves_def)
  then have "\<exists>c' \<in> set (db_commands d'). c_target_scope_id c' = c_target_scope_id c \<and>
      c_run_id c' = c_run_id c \<and> c_to_version c' = c_to_version c" if "c \<in> set (db_commands d)" for c
    using that command_step_fields by blast
  then show ?thesis
    using assms(2-4) by (fastforce simp: scopes_explained_def)
qed

lemma quiet_safe:
  assumes uuid: "uuid_inj E" and safe: "safe E h d" and "advances E d d'" and quiet: "quiet d d'"
    and le: "h \<le> h'"
  shows "safe E h' d'"
proof -
  have ids: "ids_ok E d" "ids_ok E d'" and ev: "evolves d d'"
    using assms by (auto simp: advances_def safe_def)
  have len: "length (db_commands d') = length (db_commands d)" and act: "db_actions d' = db_actions d"
    using quiet by (auto simp: quiet_def)
  note origin = commands_from [OF ev len]
  have "list_all (command_enforced d') (db_commands d')"
    using origin safe command_enforced_evolves [OF ev] by (fastforce simp: safe_def list_all_iff)
  moreover have "list_all (action_placed d') (db_actions d')"
    using safe action_placed_evolves [OF ev] by (simp add: safe_def list_all_iff act)
  moreover have "dated h' d'"
    using safe origin le command_step_fields(7) by (fastforce simp: safe_def dated_def act)
  moreover have "no_stale_commit d'"
    using safe origin stale_commit_evolves [OF uuid ids ev]
    by (fastforce simp: safe_def no_stale_commit_def act list_all_iff)
  moreover have "scopes_explained d'"
    using quiet safe scopes_explained_evolves [OF ev] by (auto simp: quiet_def safe_def)
  ultimately show ?thesis using ids by (simp add: safe_def)
qed

section \<open>Actions\<close>

lemma live_scope_row:
  assumes "uuid_inj E" and "ids_ok E d" and "live_scope d rid k = Some s"
  shows "get_scope_row k d = Some s"
  using assms(3) ids_distinct(3) [OF assms(1,2)]
  by (auto simp: live_scope_def get_scope_row_def lookup_iff dest!: find_SomeD)

text \<open>A live node is affected by no command that has been issued.\<close>

lemma live_not_affected:
  assumes uuid: "uuid_inj E" and ids: "ids_ok E d" and enf: "command_enforced d c"
    and live: "r_status run = Run_Running" "get_run_row (n_run_id n) d = Some run"
      "se_allowed (evaluate_scopes d n)" and rid: "n_run_id n = c_run_id c"
  shows "\<not> node_affected c n"
proof
  assume aff: "node_affected c n"
  show False
  proof (cases "c_command_type c = Cancel_Run")
    case True
    then show False using enf live(1,2) rid by (auto simp: command_enforced_def)
  next
    case False
    then have "(c_target_scope_id c, c_from_version c) \<in> set (n_scope_snapshot n)"
      using aff by (simp add: node_affected_def)
    then have "entry_current d (n_run_id n) (c_target_scope_id c, c_from_version c)"
      using live(3) unfolding evaluate_allowed_iff by blast
    then obtain s where s: "live_scope d (n_run_id n) (c_target_scope_id c) = Some s"
      "sc_status s = Scope_Active"
      by (auto simp: entry_current_def)
    obtain s' where "get_scope_row (c_target_scope_id c) d = Some s'"
      "sc_status s' = command_scope_status (c_command_type c)"
      using enf unfolding command_enforced_def by blast
    then have "Scope_Active = command_scope_status (c_command_type c)"
      using s live_scope_row [OF uuid ids s(1)] by simp
    then show False by (metis command_scope_status_inactive)
  qed
qed

lemma get_node_row_of_id: "get_node_row k d = Some n \<Longrightarrow> get_node_row (n_id n) d = Some n"
  using get_node_row_id by fastforce

lemma settle_tables:
  assumes "settle_action E clk request node spec checks denial d = Inr (r, d')"
  obtains a where "db_actions d' = db_actions d @ [a]" "db_commands d' = db_commands d"
    "db_scopes d' = db_scopes d" "a_node_id a = n_id node" "a_run_id a = n_run_id node"
    "a_attempted_at a = clk 1" "a_decision a = (if denial \<noteq> None then Deny else Allow)"
proof (cases denial)
  case None
  then have "allow_action E clk node spec request (attempt_row E clk request node spec checks None d) d =
      Inr (r, d')"
    using assms by (simp add: settle_allowed)
  then show thesis using that None by (elim allow_action_returns) auto
next
  case (Some reason)
  then have "(r, d') = deny_action E clk node (evaluate_scopes d node)
     (attribute_denial node (evaluate_scopes d node) (Some reason) d)
     (attempt_row E clk request node spec checks (Some reason) d) d"
    using assms by (simp add: settle_denied)
  from deny_action_tables [OF this] show thesis using that Some by simp
qed

lemma execute_body_safe:
  assumes uuid: "uuid_inj E" and safe: "safe E h d" and row: "get_node_row k d = Some node"
    and body: "execute_body E clk request node d = Inr (r, d')" and clk: "readings h clk h'"
  shows "safe E h' d'"
proof -
  obtain spec run checks denial where run: "get_run_row (n_run_id node) d = Some run"
    and dec: "admission_decision E (clk 0) run node (evaluate_scopes d node) spec request d =
       Inr (checks, denial)"
    and settle: "settle_action E clk request node spec checks denial d = Inr (r, d')"
    using body by (auto simp: execute_body_returns)
  obtain a where a: "db_actions d' = db_actions d @ [a]" "db_commands d' = db_commands d"
    "db_scopes d' = db_scopes d" "a_node_id a = n_id node" "a_run_id a = n_run_id node"
    "a_attempted_at a = clk 1" "a_decision a = (if denial \<noteq> None then Deny else Allow)"
    using settle_tables [OF settle] by blast
  have ids: "ids_ok E d" "ids_ok E d'" and ev: "evolves d d'"
    using execute_body_advances [OF body] uuid safe by (auto simp: advances_def safe_def)
  have times: "h < clk 1" "clk 1 \<le> h'" using clk by (auto simp: readings_def)
  have here: "get_node_row (n_id node) d = Some node" using row by (rule get_node_row_of_id)
  then have placed: "action_placed d a" using a by (auto simp: action_placed_def)
  have new: "\<not> stale_commit d c a" if "c \<in> set (db_commands d)" for c
  proof
    assume st: "stale_commit d c a"
    then have "denial = None" using a(7) by (auto simp: stale_commit_def split: if_splits)
    then have allow: "admission_decision E (clk 0) run node (evaluate_scopes d node) spec request d =
       Inr (checks, None)"
      using dec by simp
    note ok = admission_allows(1,4) [OF allow]
    have "command_enforced d c" using safe that by (simp add: safe_def list_all_iff)
    moreover have "n_run_id node = c_run_id c" "node_affected c node"
      using st a here unfolding stale_commit_def affected_lookup [OF uuid ids(1)] by auto
    ultimately show False using live_not_affected [OF uuid ids(1) _ ok(1) run ok(2)] by blast
  qed
  have "\<not> stale_commit d' c a'" if "c \<in> set (db_commands d)" "a' \<in> set (db_actions d')" for c a'
  proof -
    have "a' = a \<or> a' \<in> set (db_actions d)" using that(2) a(1) by auto
    then have "action_placed d a'" "\<not> stale_commit d c a'"
      using placed new that(1) safe by (auto simp: safe_def list_all_iff no_stale_commit_def)
    then show ?thesis using stale_commit_evolves [OF uuid ids ev] row_step_refl(4) by blast
  qed
  then have "no_stale_commit d'" by (simp add: no_stale_commit_def a(2))
  moreover have "list_all (command_enforced d') (db_commands d')"
    using safe command_enforced_evolves [OF ev] row_step_refl(4) a(2)
    by (auto simp: safe_def list_all_iff)
  moreover have "list_all (action_placed d') (db_actions d')"
    using safe action_placed_evolves [OF ev] placed a(1) by (auto simp: safe_def list_all_iff)
  moreover have "dated h' d'"
    using safe times a by (auto simp: safe_def dated_def)
  moreover have "scopes_explained d'"
    using safe a(2,3) by (simp add: safe_def scopes_explained_def)
  ultimately show ?thesis using ids by (simp add: safe_def)
qed

section \<open>Commands\<close>

lemma lookup_replaced:
  "key r' = k \<Longrightarrow> lookup key k (revise key k (\<lambda>_. r') rows) = map_option (\<lambda>_. r') (lookup key k rows)"
  by (induction rows) auto

lemma lookup_replaced_other:
  "key r' = k \<Longrightarrow> j \<noteq> k \<Longrightarrow> lookup key j (revise key k (\<lambda>_. r') rows) = lookup key j rows"
  by (induction rows) auto

text \<open>Everything an accepted command does to the tables the invariant reads.\<close>

lemma issue_body_effect:
  assumes body: "issue_body E clk request who cx d = Inr (r, d')"
    and run: "get_run_row (r_id (cx_run cx)) d = Some (cx_run cx)"
    and dist: "distinct (map r_id (db_runs d))"
  obtains s s' c where "get_scope_row (sc_id s) d = Some s" "sc_run_id s = r_id (cx_run cx)"
    "sc_status s = Scope_Active" "db_scopes d' = revise sc_id (sc_id s) (\<lambda>_. s') (db_scopes d)"
    "sc_id s' = sc_id s" "sc_run_id s' = sc_run_id s" "sc_version s' = sc_version s + 1"
    "sc_status s' = command_scope_status (c_command_type c)"
    "db_commands d' = db_commands d @ [c]" "db_actions d' = db_actions d"
    "c_target_scope_id c = sc_id s" "c_run_id c = r_id (cx_run cx)"
    "c_from_version c = sc_version s" "c_to_version c = sc_version s + 1" "c_created_at c = clk 8"
    "c_command_type c = Cancel_Run \<longrightarrow>
       (\<exists>r. get_run_row (c_run_id c) d' = Some r \<and> r_status r = Run_Cancelled)"
proof -
  obtain source manifest d1 sid parent s' d2 c where
    m: "command_manifest E clk (cc_body request) cx d = Inr (manifest, d1)"
    and ch: "change_scope clk (cc_body request) cx sid d1 = Inr (s', d2)"
    and c: "c = new_command E (clk 8) request who cx source manifest parent s'
      (length (db_commands d))"
    and d': "d' = bind_proposal source (c_id c) (fold record_runtime_event (command_events c s')
        (db_commands_update (\<lambda>cs. cs @ [c]) d2))"
    using body unfolding issue_body_returns by blast
  obtain rows where d1: "d1 = db_services_update (\<lambda>_. rows) d"
    using command_manifest_services [OF m] by blast
  obtain s where s: "get_scope_row sid d1 = Some s" "sc_run_id s = r_id (cx_run cx)"
      "sc_status s = Scope_Active"
    and s': "s' = s\<lparr>sc_version := sc_version s + 1,
             sc_status := command_scope_status (cb_command_type (cc_body request)),
             sc_updated_by_node_id := map_option n_id (cx_issuer cx),
             sc_reason_code := Some (cb_reason_code (cc_body request)), sc_updated_at := clk 6\<rparr>"
    and fin: "if cb_command_type (cc_body request) = Cancel_Run
      then transition_run (cx_run cx) Run_Cancelled (clk 7) (update_scope sid (\<lambda>_. s') d1) = Inr d2
      else d2 = update_scope sid (\<lambda>_. s') d1"
    using ch unfolding change_scope_returns by blast
  have sid: "sid = sc_id s" using get_scope_row_id [OF s(1)] by simp
  have cancelled: "\<exists>r. get_run_row (c_run_id c) d' = Some r \<and> r_status r = Run_Cancelled"
    if ty: "c_command_type c = Cancel_Run"
  proof -
    have "transition_run (cx_run cx) Run_Cancelled (clk 7) (update_scope sid (\<lambda>_. s') d1) = Inr d2"
      using fin ty by (simp add: c)
    then have tr: "transition_run (cx_run cx) Run_Cancelled (clk 7) (update_scope sid (\<lambda>_. s') d1) =
       Inr d2" .
    have "length (filter (transition_matches (cx_run cx)) (db_runs d)) = 1"
      using tr by (simp add: transition_run_returns d1 update_scope_def)
    then obtain row where "row \<in> set (db_runs d)" "transition_matches (cx_run cx) row"
      by (metis filter_False length_0_conv zero_neq_one)
    then have "transition_matches (cx_run cx) (cx_run cx)"
      using run lookup_of_member [OF dist] by (fastforce simp: get_run_row_def transition_matches_def)
    then show ?thesis
      using transition_run_row [OF tr, of "r_id (cx_run cx)"] run
      by (auto simp: d' c d1 get_run_row_def update_scope_def)
  qed
  show thesis
    by (rule that [of s s' c])
      (use s cancelled change_scope_tables [OF ch] in
        \<open>simp_all add: d' c sid s' d1 get_scope_row_def\<close>)
qed

text \<open>A scope that is still active is at its first version.\<close>

lemma active_scope_version:
  assumes "safe E h d" and "get_scope_row k d = Some s" and "sc_status s = Scope_Active"
  shows "sc_version s = 1"
proof (rule ccontr)
  assume "sc_version s \<noteq> 1"
  moreover have "s \<in> set (db_scopes d)" "sc_id s = k"
    using assms(2) by (auto simp: get_scope_row_def dest: lookup_SomeD)
  ultimately obtain c where c: "c \<in> set (db_commands d)" "c_target_scope_id c = k"
    using assms(1) unfolding safe_def scopes_explained_def by blast
  then have "command_enforced d c" using assms(1) by (simp add: safe_def list_all_iff)
  then have "sc_status s = command_scope_status (c_command_type c)"
    using assms(2) c(2) unfolding command_enforced_def by auto
  then show False using assms(3) by (metis command_scope_status_inactive)
qed

lemma issue_body_safe:
  assumes uuid: "uuid_inj E" and safe: "safe E h d"
    and run: "get_run_row (r_id (cx_run cx)) d = Some (cx_run cx)"
    and body: "issue_body E clk request who cx d = Inr (r, d')" and clk: "readings h clk h'"
  shows "safe E h' d'"
proof -
  obtain s s' c where s: "get_scope_row (sc_id s) d = Some s" "sc_run_id s = r_id (cx_run cx)"
    "sc_status s = Scope_Active" and scopes: "db_scopes d' = revise sc_id (sc_id s) (\<lambda>_. s') (db_scopes d)"
    and s': "sc_id s' = sc_id s" "sc_run_id s' = sc_run_id s" "sc_version s' = sc_version s + 1"
    "sc_status s' = command_scope_status (c_command_type c)"
    and cs: "db_commands d' = db_commands d @ [c]" and acts: "db_actions d' = db_actions d"
    and c: "c_target_scope_id c = sc_id s" "c_run_id c = r_id (cx_run cx)"
    "c_from_version c = sc_version s" "c_to_version c = sc_version s + 1" "c_created_at c = clk 8"
    and cancelled: "c_command_type c = Cancel_Run \<longrightarrow>
       (\<exists>r. get_run_row (c_run_id c) d' = Some r \<and> r_status r = Run_Cancelled)"
    using issue_body_effect [OF body run] ids_distinct(1) [OF uuid] safe unfolding safe_def by metis
  have ids: "ids_ok E d" "ids_ok E d'" and ev: "evolves d d'"
    using issue_body_advances [OF body] uuid safe by (auto simp: advances_def safe_def)
  have times: "h < clk 8" "clk 8 \<le> h'" using clk by (auto simp: readings_def)
  have version: "sc_version s = 1" using active_scope_version [OF safe s(1,3)] .
  have row: "get_scope_row (sc_id s) d' = Some s'"
    using s(1) s'(1) by (simp add: get_scope_row_def scopes lookup_replaced)
  have "command_enforced d' c"
    unfolding command_enforced_def using row s(2) s' c version cancelled by simp
  then have enforced: "list_all (command_enforced d') (db_commands d')"
    using safe command_enforced_evolves [OF ev] row_step_refl(4)
    by (auto simp: safe_def list_all_iff cs)
  have "\<not> stale_commit d' c a" if "a \<in> set (db_actions d)" for a
    using safe that times c(5) by (fastforce simp: safe_def dated_def stale_commit_def)
  moreover have "\<not> stale_commit d' c' a" if "a \<in> set (db_actions d)" "c' \<in> set (db_commands d)" for a c'
  proof -
    have "action_placed d a" "\<not> stale_commit d c' a"
      using safe that by (auto simp: safe_def list_all_iff no_stale_commit_def)
    then show ?thesis using stale_commit_evolves [OF uuid ids ev] row_step_refl(4) by blast
  qed
  ultimately have "no_stale_commit d'" by (auto simp: no_stale_commit_def acts cs)
  moreover have "scopes_explained d'"
    unfolding scopes_explained_def
  proof
    fix t assume "t \<in> set (db_scopes d')"
    then have "t = s' \<or> t \<in> set (db_scopes d)" by (auto simp: scopes in_set_revise split: if_splits)
    then show "(sc_status t = Scope_Active \<and> sc_version t = 1) \<or>
      (\<exists>c \<in> set (db_commands d'). c_target_scope_id c = sc_id t \<and> c_run_id c = sc_run_id t \<and>
        c_to_version c = sc_version t)"
      using safe c s(2) s' by (auto simp: cs safe_def scopes_explained_def)
  qed
  moreover have "dated h' d'"
    using safe times c(5) by (auto simp: safe_def dated_def acts cs)
  moreover have "list_all (action_placed d') (db_actions d')"
    using safe action_placed_evolves [OF ev] by (simp add: safe_def list_all_iff acts)
  ultimately show ?thesis using ids enforced by (simp add: safe_def)
qed

section \<open>Every step\<close>

text \<open>A handler of the two-phase shape keeps a relation that both of its phases keep.\<close>

lemma rate_limited_keeps:
  assumes "R (sy_db s) (sy_db s)"
    and "\<And>a d'. front (sy_db s) = Inr (Answer a d') \<Longrightarrow> R (sy_db s) d'"
    and "\<And>i p a d'. front (sy_db s) = Inr (Proceed i p) \<Longrightarrow> body p (sy_db s) = Inr (a, d') \<Longrightarrow>
      R (sy_db s) d'"
  shows "R (sy_db s) (sy_db (snd (rate_limited E category now front body s)))"
  using assms rate_limited_db [of E category now front body s] by metis

lemma transaction_keeps:
  assumes "R (sy_db s) (sy_db s)" and "\<And>a d'. body (sy_db s) = Inr (a, d') \<Longrightarrow> R (sy_db s) d'"
  shows "R (sy_db s) (sy_db (snd (transaction body s)))"
  using assms transaction_db [of body s] by metis

interpretation spawn_quiet: kept_by_handler quiet
  "create_spawn_before E C clk token nonce k ptoken request"
  "create_spawn_body E C clk token nonce carrier request"
  for E C clk token nonce k ptoken request carrier
proof
  show "quiet d d'"
    if "create_spawn_before E C clk token nonce k ptoken request d = Inr (Answer a d')" for d d' a
    using create_spawn_before_answers [OF that] recover_spawn_quiet by blast
qed (rule create_spawn_body_quiet)

interpretation activate_quiet: kept_by_handler quiet
  "activate_before E C now sealed tok nonce k request" "activate_body E C now sealed tok nonce request"
  for E C now sealed tok nonce k request
proof
  show "quiet d d'"
    if "activate_before E C now sealed tok nonce k request d = Inr (Answer a d')" for d d' a
    using that by (rule activate_before_quiet)
  show "quiet d d'"
    if "activate_body E C now sealed tok nonce request p d = Inr (a, d')" for d d' a p
    using that activate_body_quiet by (cases p) blast
qed

interpretation heartbeat_quiet: kept_by_handler quiet "node_before E k token" "heartbeat_body E now"
  for E k token now
  by unfold_locales (auto simp: node_before_returns intro: heartbeat_body_quiet)

interpretation checkpoint_quiet: kept_by_handler quiet "node_before E k token"
  "checkpoint_body E clk stage" for E k token clk stage
  by unfold_locales (auto simp: node_before_returns intro: checkpoint_body_quiet)

interpretation complete_quiet: kept_by_handler quiet "node_before E k token" "complete_body E clk"
  for E k token clk
  by unfold_locales (auto simp: node_before_returns intro: complete_body_quiet)

interpretation replacement_quiet: kept_by_handler quiet
  "create_replacement_before E C clk token nonce k ptoken cid request"
  "create_replacement_body E C clk token nonce carrier cid request"
  for E C clk token nonce k ptoken cid request carrier
proof
  show "quiet d d'"
    if "create_replacement_before E C clk token nonce k ptoken cid request d = Inr (Answer a d')"
    for d d' a
    using create_replacement_before_answers [OF that] recover_spawn_quiet by blast
qed (rule create_replacement_body_quiet)

interpretation propose_quiet: kept_by_handler quiet "create_before E k token" "create_body E clk request"
  for E k token clk request
proof
  show "quiet d d'" if "create_before E k token d = Inr (Answer a d')" for d d' a
    using that by (auto simp: create_before_def outcome)
qed (rule propose_quiet)

lemma get_run_row_of_id: "get_run_row k d = Some r \<Longrightarrow> get_run_row (r_id r) d = Some r"
  by (auto simp: get_run_row_def dest: lookup_SomeD)

text \<open>Every step respects the history relation.\<close>

lemma step_advances:
  assumes "step E C c c'"
  shows "advances E (sy_db (snd c)) (sy_db (snd c'))"
  using assms
proof cases
  case (create_run h clk h' s request token)
  then show ?thesis by (auto intro: transaction_keeps create_run_advances db_advance.refl)
next
  case (seed h clk h' s run_id)
  then show ?thesis by (auto intro: transaction_keeps seed_scenario_advances db_advance.refl)
next
  case (review h clk h' s pid review_request reviewer)
  then show ?thesis by (auto intro: transaction_keeps review_advances db_advance.refl)
next
  case (expire h clk h' s run_filter)
  then show ?thesis by (auto intro: transaction_keeps expire_stale_nodes_advances db_advance.refl)
next
  case (prove h clk h' s cid tp)
  then show ?thesis
    by (auto intro!: transaction_keeps scan_advances db_advance.refl dest!: build_uncached_db)
next
  case (heartbeat h clk h' s tick k token)
  then show ?thesis by (simp add: heartbeat_def heartbeat_handler.handler_keeps)
qed (simp_all add: create_spawn_def spawn_handler.handler_keeps
    activate_def activate_handler.handler_keeps checkpoint_def checkpoint_handler.handler_keeps
    complete_def complete_handler.handler_keeps create_replacement_def
    replacement_handler.handler_keeps create_proposal_def create_handler.handler_keeps
    issue_command_def issue_handler.handler_keeps execute_def execute_handler.handler_keeps
    scan_advances claim_advances deliver_advances)

text \<open>Every step other than issuing a command and executing an action is quiet.\<close>

definition active_step :: "env \<Rightarrow> codecs \<Rightarrow> time \<times> sys \<Rightarrow> time \<times> sys \<Rightarrow> bool" where
  "active_step E C c c' \<longleftrightarrow>
     (\<exists>clk tick request who token. readings (fst c) clk (fst c') \<and>
        snd c' = snd (issue_command E clk tick request who token (snd c))) \<or>
     (\<exists>clk tick k token request. readings (fst c) clk (fst c') \<and>
        snd c' = snd (execute E clk tick k token request (snd c)))"

lemma step_quiet:
  assumes "step E C c c'" and "\<not> active_step E C c c'"
  shows "quiet (sy_db (snd c)) (sy_db (snd c'))"
  using assms(1)
proof cases
  case (create_run h clk h' s request token)
  then show ?thesis by (auto intro: transaction_keeps create_run_quiet db_quiet.refl)
next
  case (seed h clk h' s run_id)
  then show ?thesis by (auto intro: transaction_keeps seed_quiet db_quiet.refl)
next
  case (review h clk h' s pid review_request reviewer)
  then show ?thesis by (auto intro: transaction_keeps review_quiet db_quiet.refl)
next
  case (expire h clk h' s run_filter)
  then show ?thesis by (auto intro: transaction_keeps expire_quiet db_quiet.refl)
next
  case (prove h clk h' s cid tp)
  then show ?thesis
    by (auto intro!: transaction_keeps scan_quiet db_quiet.refl dest!: build_uncached_db)
next
  case (issue h clk h' s tick request who token)
  then have "active_step E C c c'" by (simp add: active_step_def) blast
  with assms(2) show ?thesis by blast
next
  case (execute h clk h' s tick k token request)
  then have "active_step E C c c'" by (simp add: active_step_def) blast
  with assms(2) show ?thesis by blast
next
  case (heartbeat h clk h' s tick k token)
  then show ?thesis by (simp add: heartbeat_def heartbeat_quiet.handler_keeps)
qed (simp_all add: create_spawn_def spawn_quiet.handler_keeps
    activate_def activate_quiet.handler_keeps checkpoint_def checkpoint_quiet.handler_keeps
    complete_def complete_quiet.handler_keeps create_replacement_def
    replacement_quiet.handler_keeps create_proposal_def propose_quiet.handler_keeps
    scan_quiet claim_quiet deliver_quiet)

lemma readings_le: "readings h clk h' \<Longrightarrow> h \<le> h'"
  unfolding readings_def by (meson less_le_trans less_imp_le)

lemma readings_any: "readings h clk h' \<Longrightarrow> any_readings h clk h'"
  by (simp add: any_readings_def readings_le)

lemma step_le: "step E C c c' \<Longrightarrow> fst c \<le> fst c'"
  by (erule step.cases) (auto simp: any_readings_def dest: readings_le)

lemma safe_later: "safe E h d \<Longrightarrow> h \<le> h' \<Longrightarrow> safe E h' d"
  by (fastforce simp: safe_def dated_def)

lemma active_step_safe:
  assumes uuid: "uuid_inj E" and safe: "safe E (fst c) (sy_db (snd c))" and "active_step E C c c'"
  shows "safe E (fst c') (sy_db (snd c'))"
proof -
  consider (issue) clk tick request who token where "readings (fst c) clk (fst c')"
      "snd c' = snd (issue_command E clk tick request who token (snd c))"
    | (execute) clk tick k token request where "readings (fst c) clk (fst c')"
      "snd c' = snd (execute E clk tick k token request (snd c))"
    using assms(3) unfolding active_step_def by blast
  moreover have later: "safe E (fst c') (sy_db (snd c))"
    using calculation readings_le safe safe_later by metis
  ultimately show ?thesis
  proof cases
    case issue
    let ?d = "sy_db (snd c)"
    have run: "get_run_row (r_id (cx_run cx)) ?d = Some (cx_run cx)"
      if "issue_before E request who token ?d = Inr (Proceed i cx)" for i cx
      using that get_run_row_of_id by (auto simp: issue_before_returns authorise_command_returns)
    have body: "safe E (fst c') d'"
      if "issue_before E request who token ?d = Inr (Proceed i cx)"
        and "issue_body E clk request who cx ?d = Inr (r, d')" for i cx r d'
      by (rule issue_body_safe [OF uuid safe run [OF that(1)] that(2) issue(1)])
    show ?thesis
      unfolding issue(2) issue_command_def
      by (rule rate_limited_keeps [where R = "\<lambda>_. safe E (fst c')"])
        (use body later issue_before_answers in \<open>blast+\<close>)
  next
    case execute
    let ?d = "sy_db (snd c)"
    have body: "safe E (fst c') d'"
      if "execute_before E k token request ?d = Inr (Proceed i node)"
        and "execute_body E clk request node ?d = Inr (r, d')" for i node r d'
      using execute_body_safe [OF uuid safe _ that(2) execute(1)] that(1) execute_before_returns
      by blast
    show ?thesis
      unfolding execute(2) execute_def
      by (rule rate_limited_keeps [where R = "\<lambda>_. safe E (fst c')"])
        (use body later execute_before_answers in \<open>blast+\<close>)
  qed
qed

lemma step_safe:
  assumes "uuid_inj E" and "safe E (fst c) (sy_db (snd c))" and "step E C c c'"
  shows "safe E (fst c') (sy_db (snd c'))"
proof (cases "active_step E C c c'")
  case True
  then show ?thesis by (rule active_step_safe [OF assms(1,2)])
next
  case False
  show ?thesis
    by (rule quiet_safe [OF assms(1,2) step_advances [OF assms(3)] step_quiet [OF assms(3) False]
        step_le [OF assms(3)]])
qed

lemma reachable_safe:
  assumes "reachable E C c" and "uuid_inj E"
  shows "safe E (fst c) (sy_db (snd c))"
  using assms
proof (induction rule: reachable.induct)
  case (start h)
  then show ?case by (simp add: safe_empty)
next
  case (next_step c c')
  then show ?case using step_safe by blast
qed

end
