(* ===== verification/Sample.thy ===== *)
theory Sample
  imports System
begin

text \<open>
  A concrete environment and a few concrete rows, at which the properties of the development are
  applied.  The digest is 64 hexadecimal digits (as the manifest's schema demands), the cipher
  prepends the associated data, and the identifiers are distinct for distinct tables and rows.
\<close>

section \<open>An environment\<close>

definition sample_digest :: "string \<Rightarrow> string" where
  "sample_digest s = replicate 62 (CHR ''0'') @
     [hex_digit (length s div 16 mod 16), hex_digit (length s mod 16)]"

definition sample_uuid :: "string \<Rightarrow> nat \<Rightarrow> ident" where
  "sample_uuid t i = replicate i (CHR ''1'') @ CHR ''-'' # t"

definition sample_env :: env where
  "sample_env =
    \<lparr>environment = ''test'',
     demo_mode = True,
     operator_key = ''operator-key-0123456789abcdef'',
     token_hash_secret = ''token-hash-0123456789abcdef-0123'',
     credential_recovery_key = ''recovery-0123456789abcdef-012345'',
     credential_recovery_ttl_seconds = 30,
     spawn_intent_ttl_seconds = 30,
     allow_insecure_dev = False,
     heartbeat_interval_seconds = 5,
     lease_ttl_seconds = 15,
     lease_scan_interval_seconds = 5,
     control_convergence_slo_seconds = 5,
     control_plane_workers = 8,
     safety_queue_size = 128,
     safety_deadline_seconds = 10,
     external_io_workers = 4,
     external_io_queue_size = 32,
     external_io_deadline_seconds = 30,
     readiness_cache_seconds = 2,
     max_active_runs = 100,
     max_nodes_per_run = 1000,
     max_graph_depth = 32,
     max_children_per_node = 100,
     max_commands_per_run = 1000,
     max_actions_per_run = 10000,
     max_proposals_per_run = 1000,
     proof_cache_seconds = 2,
     max_request_bytes = 1048576,
     rate_limit_per_minute = 600,
     proof_rate_limit_per_minute = 60,
     rate_limit_max_buckets = 1000,
     heartbeat_rate_limit_per_minute = 600,
     action_rate_limit_per_minute = 600,
     spawn_rate_limit_per_minute = 600,
     activation_rate_limit_per_minute = 600,
     command_rate_limit_per_minute = 600,
     operator_read_rate_limit_per_minute = 600,
     trusted_proxy_hosts = [],
     otel_metric_export_interval_ms = 5000,
     otel_export_timeout_ms = 5000,
     evidence_signing_key = ''evidence-0123456789abcdef-012345'',
     sha256 = sample_digest,
     hmac_sha256 = (\<lambda>k m. k @ m),
     aes_encrypt = (\<lambda>k n p a. a @ p),
     aes_decrypt = (\<lambda>k n c a. Some (drop (length a) c)),
     uuid = sample_uuid\<rparr>"

lemma sample_env_fields [simp]:
  "environment sample_env = ''test''"
  "demo_mode sample_env = True"
  "operator_key sample_env = ''operator-key-0123456789abcdef''"
  "token_hash_secret sample_env = ''token-hash-0123456789abcdef-0123''"
  "credential_recovery_key sample_env = ''recovery-0123456789abcdef-012345''"
  "credential_recovery_ttl_seconds sample_env = 30"
  "spawn_intent_ttl_seconds sample_env = 30"
  "allow_insecure_dev sample_env = False"
  "heartbeat_interval_seconds sample_env = 5"
  "lease_ttl_seconds sample_env = 15"
  "lease_scan_interval_seconds sample_env = 5"
  "control_convergence_slo_seconds sample_env = 5"
  "control_plane_workers sample_env = 8"
  "safety_queue_size sample_env = 128"
  "safety_deadline_seconds sample_env = 10"
  "external_io_workers sample_env = 4"
  "external_io_queue_size sample_env = 32"
  "external_io_deadline_seconds sample_env = 30"
  "readiness_cache_seconds sample_env = 2"
  "max_active_runs sample_env = 100"
  "max_nodes_per_run sample_env = 1000"
  "max_graph_depth sample_env = 32"
  "max_children_per_node sample_env = 100"
  "max_commands_per_run sample_env = 1000"
  "max_actions_per_run sample_env = 10000"
  "max_proposals_per_run sample_env = 1000"
  "proof_cache_seconds sample_env = 2"
  "max_request_bytes sample_env = 1048576"
  "rate_limit_per_minute sample_env = 600"
  "proof_rate_limit_per_minute sample_env = 60"
  "rate_limit_max_buckets sample_env = 1000"
  "heartbeat_rate_limit_per_minute sample_env = 600"
  "action_rate_limit_per_minute sample_env = 600"
  "spawn_rate_limit_per_minute sample_env = 600"
  "activation_rate_limit_per_minute sample_env = 600"
  "command_rate_limit_per_minute sample_env = 600"
  "operator_read_rate_limit_per_minute sample_env = 600"
  "trusted_proxy_hosts sample_env = []"
  "otel_metric_export_interval_ms sample_env = 5000"
  "otel_export_timeout_ms sample_env = 5000"
  "evidence_signing_key sample_env = ''evidence-0123456789abcdef-012345''"
  "sha256 sample_env = sample_digest"
  "hmac_sha256 sample_env = (\<lambda>k m. k @ m)"
  "aes_encrypt sample_env = (\<lambda>k n p a. a @ p)"
  "aes_decrypt sample_env = (\<lambda>k n c a. Some (drop (length a) c))"
  "uuid sample_env = sample_uuid"
  by (simp_all add: sample_env_def)

lemma sample_uuid_inject [simp]: "sample_uuid t i = sample_uuid t' j \<longleftrightarrow> t = t' \<and> i = j"
proof -
  have "takeWhile (\<lambda>c. c = CHR ''1'') (sample_uuid t i) = replicate i (CHR ''1'')" for t i
    by (simp add: sample_uuid_def takeWhile_append)
  then have "i = j" if "sample_uuid t i = sample_uuid t' j"
    using that by (metis length_replicate)
  then show ?thesis by (auto simp: sample_uuid_def)
qed

lemma sample_uuid_inj [simp]: "uuid_inj sample_env"
  by (simp add: uuid_inj_def)

lemma sample_cipher_ok [simp]: "cipher_ok sample_env"
  by (simp add: cipher_ok_def)

lemma hex_digits: "\<forall>n \<in> set [0..<16]. hex_digit n \<in> set ''0123456789abcdef''"
  by code_simp

lemma hex64_sample: "hex64 (sample_digest s)"
proof -
  have "hex_digit (n mod 16) \<in> set ''0123456789abcdef''" for n
    using hex_digits by simp
  then show ?thesis by (simp add: hex64_def sample_digest_def)
qed

lemma hex64_payload: "hex64 (payload_digest sample_env j)"
  by (simp add: payload_digest_def hex64_sample)

section \<open>Rows\<close>

abbreviation noon :: time where "noon \<equiv> 1000000000"

definition sample_run :: run where
  "sample_run = \<lparr>r_id = ''-runs'', r_name = ''incident'', r_status = Run_Running,
     r_root_node_id = ''-nodes'', r_run_scope_id = ''-control_scopes'', r_created_at = noon,
     r_finished_at = None, r_proof_revision = 0\<rparr>"

definition sample_root :: node where
  "sample_root = \<lparr>n_id = ''-nodes'', n_run_id = ''-runs'', n_parent_id = None,
     n_supersedes_node_id = None, n_caused_by_command_id = None, n_role = ''coordinator'',
     n_behavior = ''cooperative'', n_generation = 0, n_lineage_path = ''/'',
     n_status = Node_Active, n_own_scope_id = ''1-control_scopes'', n_scope_snapshot = [(''-control_scopes'', 1), (''1-control_scopes'', 1)],
     n_instruction_version = 1, n_instruction = [],
     n_capabilities = [''tool:restart_postgres''],
     n_token_hash = Some (hash_token sample_env ''t''), n_registered_at = noon,
     n_activated_at = Some noon, n_completed_at = None, n_last_heartbeat_at = Some noon,
     n_lease_expires_at = Some (noon + 15000000), n_process_id = None\<rparr>"

definition sample_child :: node where
  "sample_child = sample_root\<lparr>n_id := ''1-nodes'', n_parent_id := Some ''-nodes'', n_role := ''worker'',
     n_generation := 1, n_lineage_path := ''/-nodes/'', n_own_scope_id := ''11-control_scopes'',
     n_scope_snapshot := [(''-control_scopes'', 1), (''1-control_scopes'', 1), (''11-control_scopes'', 1)]\<rparr>"

definition sample_scope :: "ident \<Rightarrow> ident option \<Rightarrow> control_scope" where
  "sample_scope k owner = new_scope k ''-runs'' owner noon"

definition sample_db :: db where
  "sample_db = empty_db
    \<lparr>db_runs := [sample_run], db_nodes := [sample_root, sample_child],
     db_scopes := [sample_scope ''-control_scopes'' None, sample_scope ''1-control_scopes'' (Some ''-nodes''),
                   sample_scope ''11-control_scopes'' (Some ''1-nodes'')]\<rparr>"

definition sample_sys :: sys where
  "sample_sys = \<lparr>sy_db = sample_db, sy_limiter = []\<rparr>"

definition operator :: principal where
  "operator = \<lparr>pl_issuer_type = Human, pl_node_id = None, pl_principal_id = Some ''human:op''\<rparr>"

lemma sample_run_fields [simp]:
  "r_id sample_run = ''-runs''" "r_status sample_run = Run_Running"
  "r_root_node_id sample_run = ''-nodes''" "r_run_scope_id sample_run = ''-control_scopes''"
  "r_finished_at sample_run = None" "r_created_at sample_run = noon"
  by (simp_all add: sample_run_def)

lemma sample_node_fields [simp]:
  "n_id sample_root = ''-nodes''" "n_id sample_child = ''1-nodes''"
  "n_run_id sample_root = ''-runs''" "n_run_id sample_child = ''-runs''"
  "n_parent_id sample_root = None" "n_parent_id sample_child = Some ''-nodes''"
  "n_status sample_root = Node_Active" "n_status sample_child = Node_Active"
  "n_caused_by_command_id sample_root = None" "n_caused_by_command_id sample_child = None"
  "n_own_scope_id sample_root = ''1-control_scopes''" "n_own_scope_id sample_child = ''11-control_scopes''"
  "n_scope_snapshot sample_root = [(''-control_scopes'', 1), (''1-control_scopes'', 1)]"
  "n_scope_snapshot sample_child = [(''-control_scopes'', 1), (''1-control_scopes'', 1), (''11-control_scopes'', 1)]"
  "n_capabilities sample_root = [''tool:restart_postgres'']"
  "n_capabilities sample_child = [''tool:restart_postgres'']"
  "n_lease_expires_at sample_root = Some (noon + 15000000)"
  "n_lease_expires_at sample_child = Some (noon + 15000000)"
  "n_token_hash sample_root = Some (hash_token sample_env ''t'')"
  "n_token_hash sample_child = Some (hash_token sample_env ''t'')"
  "n_registered_at sample_root = noon" "n_registered_at sample_child = noon"
  "n_generation sample_root = 0" "n_generation sample_child = 1"
  "n_instruction_version sample_root = 1" "n_instruction_version sample_child = 1"
  by (simp_all add: sample_root_def sample_child_def)

lemma sample_scope_fields [simp]:
  "sc_id (sample_scope k w) = k" "sc_run_id (sample_scope k w) = ''-runs''"
  "sc_owner_node_id (sample_scope k w) = w" "sc_status (sample_scope k w) = Scope_Active"
  "sc_version (sample_scope k w) = 1"
  by (simp_all add: sample_scope_def new_scope_def)

lemma sample_db_tables [simp]:
  "db_runs sample_db = [sample_run]" "db_nodes sample_db = [sample_root, sample_child]"
  "db_scopes sample_db = [sample_scope ''-control_scopes'' None, sample_scope ''1-control_scopes'' (Some ''-nodes''),
     sample_scope ''11-control_scopes'' (Some ''1-nodes'')]"
  "db_commands sample_db = []" "db_actions sample_db = []" "db_acks sample_db = []"
  "db_events sample_db = []" "db_intents sample_db = []" "db_envelopes sample_db = []"
  "db_proposals sample_db = []" "db_services sample_db = []" "db_outbox sample_db = []"
  "db_violations sample_db = []" "db_matches sample_db = []"
  by (simp_all add: sample_db_def empty_db_def)

lemma sample_sys_fields [simp]: "sy_db sample_sys = sample_db" "sy_limiter sample_sys = []"
  by (simp_all add: sample_sys_def)

lemma sample_lookups [simp]:
  "get_run_row ''-runs'' sample_db = Some sample_run"
  "get_node_row ''-nodes'' sample_db = Some sample_root"
  "get_node_row ''1-nodes'' sample_db = Some sample_child"
  "get_scope_row ''-control_scopes'' sample_db = Some (sample_scope ''-control_scopes'' None)"
  "get_scope_row ''1-control_scopes'' sample_db = Some (sample_scope ''1-control_scopes'' (Some ''-nodes''))"
  "get_scope_row ''11-control_scopes'' sample_db = Some (sample_scope ''11-control_scopes'' (Some ''1-nodes''))"
  by (simp_all add: row_get_defs)

lemma sample_allowed [simp]:
  "se_allowed (evaluate_scopes sample_db sample_root)"
  "se_allowed (evaluate_scopes sample_db sample_child)"
  by (simp_all add: evaluate_allowed_iff entry_current_def live_scope_def)

lemma sample_live [simp]:
  "now < noon + 15000000 \<Longrightarrow> node_live now sample_root sample_db"
  "now < noon + 15000000 \<Longrightarrow> node_live now sample_child sample_db"
  by (simp_all add: node_live_def live_node_statuses_def lease_live_def)

lemma sample_limiter [simp]:
  assumes "category \<in> {''heartbeat'', ''action'', ''spawn'', ''activation'', ''command''}"
  shows "limiter_check (category_limits sample_env) 1000 category identity tick [] =
    (Inr (), [(category @ '':'' @ identity, [tick])])"
  using assms
  by (auto simp: limiter_check_def category_limits_def evict_def admit_def prune_bucket_def)

lemma sample_authenticated [simp]:
  "authenticate_node sample_env ''-nodes'' ''t'' sample_db = Inr sample_root"
  "authenticate_node sample_env ''1-nodes'' ''t'' sample_db = Inr sample_child"
  by (simp_all add: authenticate_node_returns)

lemma sample_ids [simp]: "ids_ok sample_env sample_db"
  by (simp add: ids_ok_def drawn_def upt_rec sample_uuid_def)

end
