(* ===== verification/Foundation_Properties.thy ===== *)
theory Foundation_Properties
  imports Sample
begin

text \<open>
  The properties of the parts every service builds on: the accepted configuration, the canonical
  digest and the stored manifest, the limiter, the scope evaluation, the walks over the parent
  links, the authority policy, the run state machine and the tool registry.  Each property that has
  hypotheses is followed by its application to concrete values.
\<close>

section \<open>Configuration and encodings\<close>

text \<open>A configuration that \<open>validate_security\<close> accepts has long secrets, a recovery key and an
  evidence key different from every other secret, no generated secret outside insecure development,
  a lease longer than a heartbeat interval, and quotas that leave room for one child.\<close>

theorem validated_configuration:
  assumes "validate_security local_secret local_recovery S = Inr u"
  shows "24 \<le> length (operator_key S) \<and> 32 \<le> length (token_hash_secret S) \<and>
    32 \<le> length (credential_recovery_key S) \<and> 32 \<le> length (evidence_signing_key S) \<and>
    distinct [credential_recovery_key S, evidence_signing_key S, operator_key S] \<and>
    token_hash_secret S \<notin> {credential_recovery_key S, evidence_signing_key S} \<and>
    (\<not> allow_insecure_dev S \<longrightarrow>
       token_hash_secret S \<noteq> local_secret \<and> credential_recovery_key S \<noteq> local_recovery) \<and>
    0 < heartbeat_interval_seconds S \<and> heartbeat_interval_seconds S < lease_ttl_seconds S \<and>
    1 \<le> max_graph_depth S \<and> 1 \<le> max_children_per_node S \<and>
    max_children_per_node S < max_nodes_per_run S"
  using assms accepted_secrets [of local_secret local_recovery S] accepted_runtime(1,2) [of S]
    accepted_quotas(2-4) [of S]
  by (auto simp: validate_security_returns)

definition sample_settings :: settings where
  "sample_settings = settings.truncate sample_env"

theorem validated_configuration_witness:
  "24 \<le> length (operator_key sample_settings) \<and> 32 \<le> length (token_hash_secret sample_settings)"
proof -
  have "validate_security ''l'' ''r'' sample_settings = Inr ()" by code_simp
  from validated_configuration [OF this] show ?thesis by simp
qed

text \<open>Two dictionaries with the same entries have the same digest, in whatever order the keys
  were inserted, so a replay is recognised by its content alone.\<close>

theorem digest_ignores_key_order:
  assumes "distinct (map fst kvs)" and "set kvs = set kvs'" and "distinct (map fst kvs')"
  shows "payload_digest E (JObj kvs) = payload_digest E (JObj kvs')"
  using assms by (rule payload_digest_field_order)

theorem digest_ignores_key_order_witness:
  "payload_digest sample_env (JObj [(''a'', JInt 1), (''b'', JNull)]) =
   payload_digest sample_env (JObj [(''b'', JNull), (''a'', JInt 1)])"
  by (rule digest_ignores_key_order) auto

text \<open>A replacement manifest that satisfies its schema survives being stored in its command and
  read back; nothing is lost or changed.\<close>

theorem manifest_roundtrip:
  assumes "manifest_ok m"
  shows "manifest_of_json (manifest_json m) = Some m"
  using assms by (rule manifest_roundtrip')

definition sample_manifest :: replacement_manifest where
  "sample_manifest =
    \<lparr>mf_schema_version = 1, mf_policy_version = ''tracefence-replacement-v1'', mf_role = ''r'',
     mf_behavior = ''cooperative'', mf_instruction_digest = sample_digest [],
     mf_instruction_version = 2, mf_capabilities_exact = [''tool:restart_postgres''],
     mf_max_children = 0,
     mf_recovery_contract =
       \<lparr>ct_schema_version = 1, ct_expected_tool = Some ''restart_postgres'',
        ct_expected_arguments_digest = sample_digest [], ct_allowed_environment = ''test'',
        ct_allowed_resources = [''postgres''], ct_max_committed_invocations = 1,
        ct_stability_window_seconds = 0,
        ct_postconditions = [postcondition ''postgres'' ''restart_count'' (JInt 1) True]\<rparr>\<rparr>"

theorem manifest_roundtrip_witness:
  "manifest_of_json (manifest_json sample_manifest) = Some sample_manifest"
proof (rule manifest_roundtrip)
  show "manifest_ok sample_manifest" by code_simp
qed

text \<open>The URL-safe base64 in which an envelope stores nonces and ciphertexts decodes to exactly
  the bytes that were encoded, for every length and content.\<close>

theorem base64_roundtrip: "b64_decode (b64_encode s) = Some s"
  by (rule b64_roundtrip)

section \<open>The rate limiter\<close>

text \<open>Whatever the requests of one bucket are, as long as the clock does not go back, no interval
  of 60 seconds contains more admissions than the limit.\<close>

theorem window_limit:
  assumes "0 \<le> limit" and "sorted ts"
  shows "int (length (filter (in_window w) (admissions limit [] ts))) \<le> limit"
proof (cases ts)
  case (Cons t rest)
  have "sorted (t # ts)" using assms(2) Cons by simp
  from admissions_window [OF window_inv_empty this, where w = w and limit = limit] show ?thesis using assms(1) by simp
qed (use assms(1) in simp)

theorem window_limit_witness:
  "int (length (filter (in_window 60) (admissions 2 [] [1, 2, 3, 61, 62]))) \<le> 2"
  by (rule window_limit) auto

text \<open>The dictionary of the limiter never holds more buckets than configured, and a check
  changes no other bucket that it keeps.\<close>

theorem limiter_bounded:
  assumes "limiter_ok m L" and "1 \<le> m"
  shows "limiter_ok m (snd (limiter_check limits m category identity now L)) \<and>
    (\<forall>k b. k \<noteq> category @ '':'' @ identity \<and>
       map_of (snd (limiter_check limits m category identity now L)) k = Some b \<longrightarrow>
       map_of L k = Some b)"
proof -
  have "distinct (map fst L)" using assms(1) by (simp add: limiter_ok_def)
  then show ?thesis using limiter_check_ok [OF assms] limiter_check_other_bucket by blast
qed

theorem limiter_bounded_witness:
  "limiter_ok 1 (snd (limiter_check (\<lambda>_. Some 5) 1 ''action'' ''n'' 7 [(''spawn:m'', [1])]))"
  using limiter_bounded [of 1 "[(''spawn:m'', [1])]" "\<lambda>_. Some 5" "''action''" "''n''" 7]
  by (simp add: limiter_ok_def)

section \<open>Scopes and the graph\<close>

text \<open>A node is allowed exactly when its snapshot is not empty and every scope in it is still
  active at the version that was inherited; otherwise its effective status is \<open>CANCELLED\<close> as soon as
  one of these scopes is missing or cancelled, and \<open>SUPERSEDED\<close> if not.\<close>

theorem scope_evaluation:
  "(se_allowed (evaluate_scopes d n) \<longleftrightarrow>
      n_scope_snapshot n \<noteq> [] \<and> (\<forall>e \<in> set (n_scope_snapshot n). entry_current d (n_run_id n) e)) \<and>
   se_effective_status (evaluate_scopes d n) =
     (if n_scope_snapshot n = [] \<or>
         (\<exists>e \<in> set (n_scope_snapshot n). missing_or_cancelled d (n_run_id n) e)
      then Node_Cancelled
      else if se_allowed (evaluate_scopes d n) then Node_Active else Node_Superseded)"
  using evaluate_allowed_iff evaluate_effective_status by simp

theorem scope_evaluation_witness:
  "se_allowed (evaluate_scopes sample_db sample_child) \<and>
   se_effective_status (evaluate_scopes sample_db sample_child) = Node_Active"
  using scope_evaluation [of sample_db sample_child]
  by (simp add: entry_current_def missing_or_cancelled_def live_scope_def)

text \<open>C38: the climb over the parent links decides exactly the relation it stands for: a target is a
  descendant when it is another node than the ancestor and is reached from it by one or more parent links
  inside the run; and the climb ends on every graph, cyclic ones included (on a cycle a node that reaches
  itself is still not its own descendant).\<close>

theorem descendant_decided:
  "is_descendant d run_id ancestor target \<longleftrightarrow>
     ancestor \<noteq> target \<and> child_of d run_id ancestor target"
  by (rule is_descendant_iff)

section \<open>Authority\<close>

text \<open>Who may issue a command: the target is in the run, a run is cancelled at its root only,
  and the issuer is a human, the root, or an ancestor with the delegation capability.\<close>

theorem command_authority:
  "fst (may_issue_command who issuer_node target run ty descendant) \<longleftrightarrow>
     n_run_id target = r_id run \<and>
     (ty = Cancel_Run \<longrightarrow> n_id target = r_root_node_id run) \<and>
     (pl_issuer_type who = Human \<or>
      (\<exists>issuer. issuer_node = Some issuer \<and> n_run_id issuer = r_id run \<and>
        (n_id issuer = r_root_node_id run \<or>
         ty \<noteq> Cancel_Run \<and> ''control:descendants'' \<in> set (n_capabilities issuer) \<and> descendant)))"
  unfolding may_issue_command_iff authorised_issuer_def by blast

theorem command_authority_witness:
  "\<not> fst (may_issue_command \<lparr>pl_issuer_type = Agent, pl_node_id = Some ''1-nodes'', pl_principal_id = None\<rparr>
     (Some sample_child) sample_root sample_run Cancel_Run True)"
  unfolding command_authority by simp

section \<open>Runs\<close>

text \<open>A run leaves a terminal state never; an accepted transition goes to a successor of its
  state, sets the finishing time exactly on entering a terminal state, and keeps the row constraint
  of every run.\<close>

theorem run_lifecycle:
  assumes "list_all run_check (db_runs d)"
  shows "(is_terminal (r_status run) \<longrightarrow>
      transition_run run target fin d = Inl (conflict_error ''RUN_TERMINAL_STATE'')) \<and>
    (\<forall>d'. transition_run run target fin d = Inr d' \<longrightarrow>
      target \<in> set (run_state_transitions (r_status run)) \<and> list_all run_check (db_runs d') \<and>
      (\<exists>row \<in> set (db_runs d'). r_id row = r_id run \<and> r_status row = target \<and>
         r_finished_at row = (if is_terminal target then Some fin else None)))"
proof (intro conjI impI allI)
  show "transition_run run target fin d = Inl (conflict_error ''RUN_TERMINAL_STATE'')"
    if "is_terminal (r_status run)"
    using that by (rule transition_run_terminal)
  fix d' assume t: "transition_run run target fin d = Inr d'"
  then show "target \<in> set (run_state_transitions (r_status run))"
    by (simp add: transition_run_returns)
  show "list_all run_check (db_runs d')" using transition_run_checks [OF t assms] .
  from t have "filter (transition_matches run) (db_runs d) \<noteq> []"
    by (auto simp: transition_run_returns)
  then obtain row where "row \<in> set (db_runs d)" "transition_matches run row"
    by (auto simp: filter_empty_conv)
  then show "\<exists>row \<in> set (db_runs d'). r_id row = r_id run \<and> r_status row = target \<and>
      r_finished_at row = (if is_terminal target then Some fin else None)"
  proof (intro bexI [where x = "row\<lparr>r_status := target,
      r_finished_at := (if is_terminal target then Some fin else None)\<rparr>"] conjI)
    show "row\<lparr>r_status := target, r_finished_at := (if is_terminal target then Some fin else None)\<rparr>
        \<in> set (db_runs d')"
      using t \<open>row \<in> set (db_runs d)\<close> \<open>transition_matches run row\<close>
      by (force simp: transition_run_returns)
  qed (use \<open>transition_matches run row\<close> in \<open>simp_all add: transition_matches_def\<close>)
qed

theorem run_lifecycle_witness:
  "\<exists>d'. transition_run sample_run Run_Completed (noon + 5) sample_db = Inr d' \<and>
     list_all run_check (db_runs d')"
proof -
  have "transition_run sample_run Run_Completed (noon + 5) sample_db \<noteq> Inl e" for e
    by (simp add: transition_run_def transition_matches_def)
  then obtain d' where "transition_run sample_run Run_Completed (noon + 5) sample_db = Inr d'"
    by (cases "transition_run sample_run Run_Completed (noon + 5) sample_db") auto
  then show ?thesis
    using run_lifecycle [of sample_db sample_run Run_Completed "noon + 5"]
    by (auto simp: run_check_def)
qed

text \<open>Creating a run keeps the number of active runs within the configured quota, and appends one root
  node, active at once, with a full lease and the returned token.\<close>

theorem create_run_within_quota:
  assumes "create_run E request token now d = Inr (r, d')"
  shows "active_run_count d' = active_run_count d + 1 \<and> active_run_count d' \<le> max_active_runs E \<and>
    (\<exists>root. db_nodes d' = db_nodes d @ [root] \<and> n_id root = rcd_root_node_id r \<and>
       n_status root = Node_Active \<and> n_lease_expires_at root = Some (lease_until E now) \<and>
       token_matches E token (n_token_hash root))"
  using assms
  by (auto simp: create_run_def outcome Let_def active_run_count_def root_node_def)

theorem create_run_within_quota_witness:
  "\<exists>r d'. create_run sample_env \<lparr>rc_name = ''r'', rc_root_role = ''x'', rc_root_instruction = [],
      rc_root_capabilities = []\<rparr> ''t'' noon empty_db = Inr (r, d') \<and> active_run_count d' \<le> 100"
proof -
  let ?call = "create_run sample_env \<lparr>rc_name = ''r'', rc_root_role = ''x'',
      rc_root_instruction = [], rc_root_capabilities = []\<rparr> ''t'' noon empty_db"
  have "?call \<noteq> Inl e" for e
    by (simp add: create_run_def active_run_count_def empty_db_def Let_def)
  then obtain r d' where call: "?call = Inr (r, d')" by (cases ?call) auto
  from create_run_within_quota [OF this] show ?thesis using call by auto
qed

section \<open>Tools\<close>

text \<open>C39: a tool runs only with arguments its specification allows; an executor keeps one row per
  service of a run, with counters that are not negative.\<close>

theorem tool_execution:
  assumes "get_tool_spec name = Inr spec" and "services_ok rows"
    and "execute_tool spec clk run_id action_id arguments rows = Inr (result, rows')"
  shows "arguments = [] \<and> services_ok rows'"
proof
  have run: "validate_arguments spec arguments = Inr ()"
    "ts_executor spec clk run_id action_id arguments rows = (result, rows')"
    using assms(3) by (simp_all add: execute_tool_returns)
  show "arguments = []" using run(1) registry_arguments [OF assms(1)] by blast
  show "services_ok rows'" by (rule executor_ok [OF assms(1,2) run(2)])
qed

theorem tool_execution_witness:
  "services_ok (snd (ts_executor reset_redis_pool_spec (\<lambda>i. noon) ''-runs'' ''a'' [] []))"
proof -
  obtain result rows' where r: "ts_executor reset_redis_pool_spec (\<lambda>i. noon) ''-runs'' ''a'' [] [] =
      (result, rows')" by fastforce
  have "services_ok rows'"
    by (rule tool_execution [of "''reset_redis_pool''" reset_redis_pool_spec "[]" "\<lambda>i. noon" "''-runs''"
          "''a''" "[]" result, THEN conjunct2])
      (simp_all add: r services_ok_def execute_tool_returns validate_arguments_def
        get_tool_spec_returns)
  then show ?thesis by (simp add: r)
qed

end
