(* ===== verification/Control_Properties.thy ===== *)
theory Control_Properties
  imports Sample
begin

text \<open>
  The properties of the gateway, of the control commands and of the proposals: what an admitted, a
  denied and a replayed action mean, what an accepted command does to its scope and to every node
  below it, what a correction may authorise, and what the acceptance of a proposal binds.
\<close>

section \<open>The gateway\<close>

text \<open>C3: an action is executed only for an authenticated node that is live at the reading of the
  clock taken inside the transaction (its run is running, its lease holds, every inherited scope is
  still active at the inherited version), that holds the tool's capability, whose recovery contract
  has no objection, and within the quota of its run; exactly one row records it.\<close>

theorem admitted_action:
  assumes "execute E clk tick k token request s = (Inr r, s')"
    and "ar_decision r = Allow" and "\<not> ar_duplicate r"
  shows "\<exists>node spec a. get_node_row k (sy_db s) = Some node \<and>
    token_matches E token (n_token_hash node) \<and> node_live (clk 0) node (sy_db s) \<and>
    get_tool_spec (ae_tool_name request) = Inr spec \<and>
    ts_capability spec \<in> set (n_capabilities node) \<and> ae_arguments request = [] \<and>
    recovery_contract_denial E node request spec (sy_db s) = None \<and>
    action_count (n_run_id node) (sy_db s) < max_actions_per_run E \<and>
    db_actions (sy_db s') = db_actions (sy_db s) @ [a] \<and> a_node_id a = k \<and>
    a_decision a = Allow \<and> a_attempted_at a = clk 1 \<and> a_committed_at a = Some (clk 8)"
proof -
  from rate_limited_result [OF assms(1) [unfolded execute_def]] obtain i node where
    node: "get_node_row k (sy_db s) = Some node" "token_matches E token (n_token_hash node)"
    and body: "execute_body E clk request node (sy_db s) = Inr (r, sy_db s')"
  proof (elim disjE exE conjE)
    assume "execute_before E k token request (sy_db s) = Inr (Answer r (sy_db s'))"
    then show ?thesis using execute_before_answers assms(3) by (fastforce simp: action_result_def)
  qed (use that in \<open>simp add: execute_before_returns\<close>)
  obtain spec run checks denial where spec: "get_tool_spec (ae_tool_name request) = Inr spec"
    and quota: "action_count (n_run_id node) (sy_db s) < max_actions_per_run E"
    and run: "get_run_row (n_run_id node) (sy_db s) = Some run"
    and dec: "admission_decision E (clk 0) run node (evaluate_scopes (sy_db s) node) spec request
      (sy_db s) = Inr (checks, denial)"
    and settle: "settle_action E clk request node spec checks denial (sy_db s) = Inr (r, sy_db s')"
    using body by (auto simp: execute_body_returns)
  have "denial = None"
  proof (cases denial)
    case (Some reason)
    with settle have "(r, sy_db s') = deny_action E clk node (evaluate_scopes (sy_db s) node)
       (attribute_denial node (evaluate_scopes (sy_db s) node) (Some reason) (sy_db s))
       (attempt_row E clk request node spec checks (Some reason) (sy_db s)) (sy_db s)"
      by (simp add: settle_denied)
    then have "r = action_result
        (attempt_row E clk request node spec checks (Some reason) (sy_db s)) False"
      by (rule deny_action_tables(9))
    then show ?thesis using assms(2) by (simp add: action_result_def)
  qed
  then have allow: "admission_decision E (clk 0) run node (evaluate_scopes (sy_db s) node) spec request
      (sy_db s) = Inr (checks, None)"
    and row: "allow_action E clk node spec request
      (attempt_row E clk request node spec checks None (sy_db s)) (sy_db s) = Inr (r, sy_db s')"
    using dec settle by (simp_all add: settle_allowed)
  note ok = admission_allows [OF allow]
  obtain a where "db_actions (sy_db s') = db_actions (sy_db s) @ [a]" "a_node_id a = n_id node"
    "a_decision a = Allow" "a_attempted_at a = clk 1" "a_committed_at a = Some (clk 8)"
    by (rule allow_action_returns [OF row]) simp
  moreover have "node_live (clk 0) node (sy_db s)" using ok run by (simp add: node_live_def)
  moreover have "ae_arguments request = []" using ok(7) registry_arguments [OF spec] by blast
  ultimately show ?thesis using node spec quota ok get_node_row_id [OF node(1)] by blast
qed

definition sample_action :: action_execute where
  "sample_action = \<lparr>ae_idempotency_key = ''key1'', ae_tool_name = ''restart_postgres'',
     ae_arguments = []\<rparr>"

lemma sample_action_allowed:
  "\<exists>r s'. execute sample_env (\<lambda>i. noon + 1) 0 ''-nodes'' ''t'' sample_action sample_sys = (Inr r, s') \<and>
     ar_decision r = Allow \<and> \<not> ar_duplicate r"
  by (simp add: execute_def rate_limited_def execute_before_def existing_attempt_def sample_action_def
      execute_body_def get_tool_spec_def tool_registry_def action_count_def get_run_def
      admission_decision_def live_node_statuses_def lease_live_def recovery_contract_denial_def
      tool_specs validate_arguments_def settle_action_def allow_action_def execute_tool_def
      exec_restart_postgres_def ensure_state_def get_service_def new_attempt_def action_result_def
      Let_def split: prod.split)

theorem admitted_action_witness:
  "\<exists>r s'. execute sample_env (\<lambda>i. noon + 1) 0 ''-nodes'' ''t'' sample_action sample_sys = (Inr r, s') \<and>
     length (db_actions (sy_db s')) = 1"
proof -
  obtain r s' where e: "execute sample_env (\<lambda>i. noon + 1) 0 ''-nodes'' ''t'' sample_action sample_sys =
      (Inr r, s')" and r: "ar_decision r = Allow" "\<not> ar_duplicate r"
    using sample_action_allowed by blast
  from admitted_action [OF e r] show ?thesis using e by auto
qed

text \<open>C25: a replay under the same idempotency key is answered from the recorded attempt, whatever has
  happened to the node, its run or its scopes since; with another payload it is refused.  In both
  cases neither the database nor the limiter changes.\<close>

theorem replayed_action:
  assumes "get_node_row k (sy_db s) = Some node" and "token_matches E token (n_token_hash node)"
    and "existing_attempt k (ae_idempotency_key request) (sy_db s) = Some a"
  shows "execute E clk tick k token request s =
    ((if a_request_payload_digest a = payload_digest E (action_execute_json request)
      then Inr (action_result a True) else Inl (conflict_error ''IDEMPOTENCY_PAYLOAD_MISMATCH'')), s)"
proof -
  have "authenticate_node E k token (sy_db s) = Inr node"
    using assms(1,2) by (simp add: authenticate_node_returns)
  then show ?thesis
    using assms(3) by (simp add: execute_def rate_limited_def execute_before_def)
qed

theorem replayed_action_witness:
  "\<exists>r s'. execute sample_env (\<lambda>i. noon + 1) 0 ''-nodes'' ''t'' sample_action sample_sys = (Inr r, s') \<and>
     (\<exists>a. execute sample_env (\<lambda>i. 2 * noon) 7 ''-nodes'' ''t'' sample_action s' = (a, s'))"
proof -
  obtain r s' where e: "execute sample_env (\<lambda>i. noon + 1) 0 ''-nodes'' ''t'' sample_action sample_sys =
      (Inr r, s')"
    using sample_action_allowed by blast
  have "get_node_row ''-nodes'' (sy_db s') = Some sample_root \<and>
      (\<exists>a. existing_attempt ''-nodes'' ''key1'' (sy_db s') = Some a)"
    using e by (auto simp: execute_def rate_limited_def execute_before_def existing_attempt_def
      sample_action_def execute_body_def get_tool_spec_def tool_registry_def action_count_def
      get_run_def admission_decision_def live_node_statuses_def lease_live_def
      recovery_contract_denial_def tool_specs validate_arguments_def settle_action_def
      allow_action_def execute_tool_def exec_restart_postgres_def ensure_state_def get_service_def
      new_attempt_def get_node_row_def Let_def split: prod.splits)
  then obtain a where n: "get_node_row ''-nodes'' (sy_db s') = Some sample_root"
    and a: "existing_attempt ''-nodes'' (ae_idempotency_key sample_action) (sy_db s') = Some a"
    by (auto simp: sample_action_def)
  from replayed_action [OF n _ a, of sample_env "''t''" "\<lambda>i. 2 * noon" 7] e show ?thesis by auto
qed

text \<open>C24: a denial executes nothing: services, scopes, runs and commands are untouched, one row with
  its reason is appended and stays uncommitted, and when the reason is a stale scope every command
  behind the mismatches is acknowledged as blocked at the gateway.\<close>

theorem denied_action:
  assumes "execute E clk tick k token request s = (Inr r, s')"
    and "ar_decision r = Deny" and "\<not> ar_duplicate r"
  shows "\<exists>node a. get_node_row k (sy_db s) = Some node \<and>
    db_actions (sy_db s') = db_actions (sy_db s) @ [a] \<and> a_node_id a = k \<and> a_decision a = Deny \<and>
    a_committed_at a = None \<and> a_denial_reason a \<noteq> None \<and>
    db_services (sy_db s') = db_services (sy_db s) \<and> db_scopes (sy_db s') = db_scopes (sy_db s) \<and>
    db_runs (sy_db s') = db_runs (sy_db s) \<and> db_commands (sy_db s') = db_commands (sy_db s) \<and>
    (is_stale (a_denial_reason a) \<longrightarrow>
       (\<forall>c \<in> set (commands_for_scope_mismatches (sy_db s)
              (se_mismatches (evaluate_scopes (sy_db s) node)) (n_run_id node)).
          (c_id c, k, Ack_Gateway_Block) \<in> ack_key ` set (db_acks (sy_db s'))))"
proof -
  from rate_limited_result [OF assms(1) [unfolded execute_def]] obtain i node where
    node: "get_node_row k (sy_db s) = Some node"
    and body: "execute_body E clk request node (sy_db s) = Inr (r, sy_db s')"
  proof (elim disjE exE conjE)
    assume "execute_before E k token request (sy_db s) = Inr (Answer r (sy_db s'))"
    then show ?thesis using execute_before_answers assms(3) by (fastforce simp: action_result_def)
  qed (use that in \<open>simp add: execute_before_returns\<close>)
  obtain spec checks denial where
    settle: "settle_action E clk request node spec checks denial (sy_db s) = Inr (r, sy_db s')"
    using body by (auto simp: execute_body_returns)
  obtain reason where d: "denial = Some reason"
  proof (cases denial)
    case None
    then have "allow_action E clk node spec request
      (attempt_row E clk request node spec checks None (sy_db s)) (sy_db s) = Inr (r, sy_db s')"
      using settle by (simp add: settle_allowed)
    then have "ar_decision r = Allow"
      by (rule allow_action_returns) (simp add: action_result_def)
    then show ?thesis using assms(2) by simp
  qed
  let ?ev = "evaluate_scopes (sy_db s) node"
  let ?att = "attribute_denial node ?ev (Some reason) (sy_db s)"
  let ?a = "attempt_row E clk request node spec checks (Some reason) (sy_db s)"
  have deny: "(r, sy_db s') = deny_action E clk node ?ev ?att ?a (sy_db s)"
    using settle by (simp add: d settle_denied)
  have id: "n_id node = k" using node by (rule get_node_row_id)
  have "(c_id c, k, Ack_Gateway_Block) \<in> ack_key ` set (db_acks (sy_db s'))"
    if "is_stale (Some reason)" and "c \<in> set (commands_for_scope_mismatches (sy_db s)
      (se_mismatches ?ev) (n_run_id node))" for c
  proof -
    have "c \<in> set (at_commands ?att)" using that by (simp add: attribute_denial_def Let_def)
    from record_acks_covers [OF this, of node Ack_Gateway_Block] show ?thesis
      using deny id by (auto simp: deny_action_def Let_def)
  qed
  moreover have "a_committed_at ?a = None" by (simp add: attempt_row_def)
  ultimately show ?thesis
    using node id deny_action_tables [OF deny] by (intro exI [of _ node] exI [of _ ?a]) simp
qed

theorem denied_action_witness:
  "\<exists>r s'. execute sample_env (\<lambda>i. 2 * noon) 0 ''-nodes'' ''t'' sample_action sample_sys = (Inr r, s') \<and>
     db_services (sy_db s') = []"
proof -
  have "\<exists>r s'. execute sample_env (\<lambda>i. 2 * noon) 0 ''-nodes'' ''t'' sample_action sample_sys = (Inr r, s') \<and>
     ar_decision r = Deny \<and> \<not> ar_duplicate r"
    by (simp add: execute_def rate_limited_def execute_before_def existing_attempt_def
      sample_action_def execute_body_def get_tool_spec_def tool_registry_def action_count_def
      get_run_def admission_decision_def live_node_statuses_def lease_live_def
      settle_action_def deny_action_def new_attempt_def action_result_def Let_def split: prod.split)
  then obtain r s' where e: "execute sample_env (\<lambda>i. 2 * noon) 0 ''-nodes'' ''t'' sample_action sample_sys =
      (Inr r, s')" and r: "ar_decision r = Deny" "\<not> ar_duplicate r" by blast
  from denied_action [OF e r] show ?thesis using e by auto
qed

section \<open>Commands\<close>

text \<open>The context of a command that was not a replay.\<close>

lemma issued_context:
  assumes "issue_command E clk tick request who token s = (Inr r, s')" and "\<not> ci_duplicate r"
  obtains cx where "authorise_command E request who token (sy_db s) = Inr cx"
    "get_run_row (r_id (cx_run cx)) (sy_db s) = Some (cx_run cx)"
    "issue_body E clk request who cx (sy_db s) = Inr (r, sy_db s')"
proof -
  from rate_limited_result [OF assms(1) [unfolded issue_command_def]] show thesis
  proof (elim disjE exE conjE)
    assume "issue_before E request who token (sy_db s) = Inr (Answer r (sy_db s'))"
    then show thesis using issue_before_answers assms(2) by (fastforce simp: to_response_def)
  next
    fix i cx
    assume p: "issue_before E request who token (sy_db s) = Inr (Proceed i cx)"
      and "issue_body E clk request who cx (sy_db s) = Inr (r, sy_db s')"
    moreover have "get_run_row (r_id (cx_run cx)) (sy_db s) = Some (cx_run cx)"
      using p get_run_row_of_id by (auto simp: issue_before_returns authorise_command_returns)
    ultimately show thesis using that by (simp add: issue_before_returns)
  qed
qed

text \<open>C5: an accepted command moves its target scope once, from \<open>ACTIVE\<close> to the status of its type and
  to the next version, records both versions in one new command row, touches no other scope, and
  cancelling a run leaves its row \<open>CANCELLED\<close>.\<close>

theorem issued_command:
  assumes "issue_command E clk tick request who token s = (Inr r, s')" and "\<not> ci_duplicate r"
    and "distinct (map r_id (db_runs (sy_db s)))"
  shows "\<exists>c scope scope'. db_commands (sy_db s') = db_commands (sy_db s) @ [c] \<and>
    get_scope_row (c_target_scope_id c) (sy_db s) = Some scope \<and>
    get_scope_row (c_target_scope_id c) (sy_db s') = Some scope' \<and>
    sc_run_id scope = c_run_id c \<and> sc_status scope = Scope_Active \<and>
    sc_status scope' = command_scope_status (c_command_type c) \<and>
    c_from_version c = sc_version scope \<and> c_to_version c = sc_version scope + 1 \<and>
    sc_version scope' = c_to_version c \<and>
    (\<forall>k. k \<noteq> c_target_scope_id c \<longrightarrow>
       get_scope_row k (sy_db s') = get_scope_row k (sy_db s)) \<and>
    (c_command_type c = Cancel_Run \<longrightarrow>
       (\<exists>run. get_run_row (c_run_id c) (sy_db s') = Some run \<and> r_status run = Run_Cancelled))"
proof -
  obtain cx where run: "get_run_row (r_id (cx_run cx)) (sy_db s) = Some (cx_run cx)"
    and body: "issue_body E clk request who cx (sy_db s) = Inr (r, sy_db s')"
    by (rule issued_context [OF assms(1,2)])
  obtain t t' c where t: "get_scope_row (sc_id t) (sy_db s) = Some t" "sc_run_id t = r_id (cx_run cx)"
      "sc_status t = Scope_Active"
    and scopes: "db_scopes (sy_db s') = revise sc_id (sc_id t) (\<lambda>_. t') (db_scopes (sy_db s))"
    and t': "sc_id t' = sc_id t" "sc_run_id t' = sc_run_id t" "sc_version t' = sc_version t + 1"
      "sc_status t' = command_scope_status (c_command_type c)"
    and c: "db_commands (sy_db s') = db_commands (sy_db s) @ [c]" "c_target_scope_id c = sc_id t"
      "c_run_id c = r_id (cx_run cx)" "c_from_version c = sc_version t"
      "c_to_version c = sc_version t + 1"
    and run': "c_command_type c = Cancel_Run \<longrightarrow>
      (\<exists>r. get_run_row (c_run_id c) (sy_db s') = Some r \<and> r_status r = Run_Cancelled)"
    by (rule issue_body_effect [OF body run assms(3)])
  have "get_scope_row (sc_id t) (sy_db s') = Some t'"
    using t(1) t'(1) by (simp add: get_scope_row_def scopes lookup_replaced)
  moreover have "get_scope_row k (sy_db s') = get_scope_row k (sy_db s)" if "k \<noteq> sc_id t" for k
    using that t'(1) by (simp add: get_scope_row_def scopes lookup_replaced_other)
  ultimately show ?thesis using t t' c run' by (intro exI [of _ c] exI [of _ t] exI [of _ t']) simp
qed

definition sample_command :: "command_type \<Rightarrow> ident \<Rightarrow> command_create" where
  "sample_command ty target =
    \<lparr>cc_idempotency_key = ''cmd1'', cc_source_proposal_id = None,
     cc_body = \<lparr>cb_command_type = ty, cb_target_node_id = target, cb_reason_code = ''STOP'',
       cb_reason_text = ''stop'', cb_replacement_instruction = None,
       cb_replacement_expected_tool = None, cb_replacement_role = None,
       cb_replacement_behavior = None, cb_replacement_capabilities = None,
       cb_replacement_arguments = None, cb_replacement_max_children = None,
       cb_recovery_stability_seconds = 0\<rparr>\<rparr>"

lemma sample_command_issued:
  "\<exists>r s'. issue_command sample_env (\<lambda>i. noon + 1) 0 (sample_command Cancel_Subtree ''1-nodes'') operator
     None sample_sys = (Inr r, s') \<and> \<not> ci_duplicate r"
  by (simp add: issue_command_def rate_limited_def issue_before_def authorise_command_def
      sample_command_def get_node_def get_run_def resolve_issuer_def operator_def
      may_issue_command_def existing_command_def issue_body_def check_issue_state_def
      command_count_def check_source_proposal_def command_manifest_def command_target_def
      change_scope_def to_response_def Let_def)

theorem issued_command_witness:
  "\<exists>r s'. issue_command sample_env (\<lambda>i. noon + 1) 0 (sample_command Cancel_Subtree ''1-nodes'') operator
     None sample_sys = (Inr r, s') \<and> length (db_commands (sy_db s')) = 1"
proof -
  obtain r s' where i: "issue_command sample_env (\<lambda>i. noon + 1) 0
      (sample_command Cancel_Subtree ''1-nodes'') operator None sample_sys = (Inr r, s')"
    and r: "\<not> ci_duplicate r"
    using sample_command_issued by blast
  from issued_command [OF i r] show ?thesis using i by auto
qed

text \<open>C4: the effect of a command reaches the whole subtree at once: after it, no node whose snapshot
  carries the target scope at the version the command replaced is allowed any more.\<close>

theorem command_cuts_off:
  assumes "issue_command E clk tick request who token s = (Inr r, s')" and "\<not> ci_duplicate r"
    and "uuid_inj E" and "ids_ok E (sy_db s)"
  shows "\<exists>c. db_commands (sy_db s') = db_commands (sy_db s) @ [c] \<and>
    (\<forall>n. n_run_id n = c_run_id c \<and>
       (c_target_scope_id c, c_from_version c) \<in> set (n_scope_snapshot n) \<longrightarrow>
       \<not> se_allowed (evaluate_scopes (sy_db s') n))"
proof -
  obtain cx where run: "get_run_row (r_id (cx_run cx)) (sy_db s) = Some (cx_run cx)"
    and body: "issue_body E clk request who cx (sy_db s) = Inr (r, sy_db s')"
    by (rule issued_context [OF assms(1,2)])
  obtain t t' c where t: "get_scope_row (sc_id t) (sy_db s) = Some t"
    and scopes: "db_scopes (sy_db s') = revise sc_id (sc_id t) (\<lambda>_. t') (db_scopes (sy_db s))"
    and t': "sc_id t' = sc_id t" "sc_status t' = command_scope_status (c_command_type c)"
    and c: "db_commands (sy_db s') = db_commands (sy_db s) @ [c]" "c_target_scope_id c = sc_id t"
    using issue_body_effect [OF body run ids_distinct(1) [OF assms(3,4)]] by metis
  have ids: "ids_ok E (sy_db s')"
    using issue_body_advances [OF body] assms(3,4) by (simp add: advances_def)
  have row: "get_scope_row (sc_id t) (sy_db s') = Some t'"
    using t t'(1) by (simp add: get_scope_row_def scopes lookup_replaced)
  have "\<not> entry_current (sy_db s') rid (sc_id t, v)" for rid v
    using live_scope_row [OF assms(3) ids] row t'(2) command_scope_status_inactive
    by (fastforce simp: entry_current_def)
  then have "\<not> se_allowed (evaluate_scopes (sy_db s') n)"
    if "(c_target_scope_id c, c_from_version c) \<in> set (n_scope_snapshot n)" for n
    using that c(2) evaluate_allowed_iff by metis
  then show ?thesis using c(1) by blast
qed

theorem command_cuts_off_witness:
  "\<exists>r s'. issue_command sample_env (\<lambda>i. noon + 1) 0 (sample_command Cancel_Subtree ''1-nodes'') operator
     None sample_sys = (Inr r, s') \<and>
     (\<exists>c. db_commands (sy_db s') = [c])"
proof -
  obtain r s' where i: "issue_command sample_env (\<lambda>i. noon + 1) 0
      (sample_command Cancel_Subtree ''1-nodes'') operator None sample_sys = (Inr r, s')"
    and r: "\<not> ci_duplicate r"
    using sample_command_issued by blast
  from command_cuts_off [OF i r] show ?thesis using i by auto
qed

text \<open>C21: nobody controls what they may not: whoever gets an answer, a replayed one included, was
  allowed by the authority policy for that target and type, an agent proved its identity with its
  token, and the root is only ever controlled by cancelling the run.\<close>

theorem issuing_needs_authority:
  assumes "issue_command E clk tick request who token s = (Inr r, s')"
  shows "\<exists>target run issuer fingerprint.
    get_node_row (cb_target_node_id (cc_body request)) (sy_db s) = Some target \<and>
    get_run_row (n_run_id target) (sy_db s) = Some run \<and>
    resolve_issuer E who token (sy_db s) = Inr (issuer, fingerprint) \<and>
    (cb_command_type (cc_body request) = Cancel_Run \<longleftrightarrow> n_id target = r_root_node_id run) \<and>
    (pl_issuer_type who = Human \<or>
     (\<exists>n t. issuer = Some n \<and> pl_node_id who = Some (n_id n) \<and> token = Some t \<and>
        token_matches E t (n_token_hash n) \<and> n_run_id n = n_run_id target \<and>
        (n_id n = r_root_node_id run \<or>
         ''control:descendants'' \<in> set (n_capabilities n) \<and>
         child_of (sy_db s) (r_id run) (n_id n) (n_id target))))"
proof -
  obtain cx where "authorise_command E request who token (sy_db s) = Inr cx"
    using rate_limited_result [OF assms [unfolded issue_command_def]] issue_before_answers
    by (fastforce simp: issue_before_returns)
  then obtain target run issuer fp where
    t: "get_node_row (cb_target_node_id (cc_body request)) (sy_db s) = Some target"
      "get_run_row (n_run_id target) (sy_db s) = Some run"
    and iss: "resolve_issuer E who token (sy_db s) = Inr (issuer, fp)"
    and may: "fst (may_issue_command who issuer target run (cb_command_type (cc_body request))
        (case issuer of None \<Rightarrow> False
           | Some n \<Rightarrow> n_id n \<noteq> r_root_node_id run \<and>
               is_descendant (sy_db s) (r_id run) (n_id n) (n_id target)))"
    and root: "n_id target = r_root_node_id run \<longrightarrow> cb_command_type (cc_body request) = Cancel_Run"
    by (auto simp: authorise_command_returns)
  have type: "cb_command_type (cc_body request) = Cancel_Run \<longleftrightarrow> n_id target = r_root_node_id run"
    using may root by (auto simp: may_issue_command_iff)
  have "\<exists>n t. issuer = Some n \<and> pl_node_id who = Some (n_id n) \<and> token = Some t \<and>
        token_matches E t (n_token_hash n) \<and> n_run_id n = n_run_id target \<and>
        (n_id n = r_root_node_id run \<or>
         ''control:descendants'' \<in> set (n_capabilities n) \<and>
         child_of (sy_db s) (r_id run) (n_id n) (n_id target))"
    if agent: "pl_issuer_type who = Agent"
  proof -
    obtain k t n where "pl_node_id who = Some k" "token = Some t" "issuer = Some n"
      and a: "authenticate_node E k t (sy_db s) = Inr n"
      using iss agent by (auto simp: resolve_issuer_def andthen_returns split: option.splits)
    moreover have "n_id n = k" "token_matches E t (n_token_hash n)"
      using a get_node_row_id by (auto simp: authenticate_node_returns)
    ultimately show ?thesis
      using may agent
      by (auto simp: may_issue_command_iff authorised_issuer_def is_descendant_iff)
  qed
  then show ?thesis
    using t iss type by (cases "pl_issuer_type who") auto
qed

theorem issuing_needs_authority_witness:
  "\<exists>r s'. issue_command sample_env (\<lambda>i. noon + 1) 0 (sample_command Cancel_Subtree ''1-nodes'') operator
     None sample_sys = (Inr r, s')"
proof -
  obtain r s' where i: "issue_command sample_env (\<lambda>i. noon + 1) 0
      (sample_command Cancel_Subtree ''1-nodes'') operator None sample_sys = (Inr r, s')"
    using sample_command_issued by blast
  from issuing_needs_authority [OF i] show ?thesis using i by blast
qed

lemma command_contract_tool:
  "command_contract E clk body spec rid rows = Inr (ct, rows') \<Longrightarrow>
   ct_expected_tool ct = map_option ts_name spec \<and> ct_max_committed_invocations ct \<le> 1"
  by (auto simp: command_contract_def andthen_returns require_returns build_recovery_contract_def
      tool_contract_def toolless_contract_def Let_def split: option.splits prod.splits)

text \<open>The manifest a correction stores is valid against its schema and authorises the least that
  the tool needs: exactly the capability of the expected tool (none without a tool), a cooperative
  node without children, the next instruction version, and at most one committed invocation.\<close>

theorem correction_manifest:
  assumes "command_manifest E clk body cx d = Inr (Some stored, d')"
  shows "cb_command_type body = Correct_Subtree \<and>
    (\<exists>m. manifest_of_json stored = Some m \<and> manifest_ok m \<and>
       mf_behavior m = ''cooperative'' \<and> mf_max_children m = 0 \<and>
       mf_instruction_version m = n_instruction_version (cx_target cx) + 1 \<and>
       ct_expected_tool (mf_recovery_contract m) = cb_replacement_expected_tool body \<and>
       ct_max_committed_invocations (mf_recovery_contract m) \<le> 1 \<and>
       (case cb_replacement_expected_tool body of
          None \<Rightarrow> mf_capabilities_exact m = []
        | Some t \<Rightarrow> \<exists>spec. get_tool_spec t = Inr spec \<and>
            mf_capabilities_exact m = [ts_capability spec]))"
proof -
  have ty: "cb_command_type body = Correct_Subtree"
    using assms by (auto simp: command_manifest_def split: if_splits)
  then obtain m rows where b: "build_manifest E clk body (cx_target cx) (r_id (cx_run cx))
      (db_services d) = Inr (m, rows)" and stored: "stored = manifest_json m"
    using assms by (auto simp: command_manifest_def andthen_returns)
  obtain spec where spec: "(case cb_replacement_expected_tool body of None \<Rightarrow> Inr None
      | Some t \<Rightarrow> andthen (get_tool_spec t) (\<lambda>sp. Inr (Some sp))) = Inr spec"
    and ok: "manifest_ok m" "mf_behavior m = ''cooperative''" "mf_max_children m = 0"
      "mf_instruction_version m = n_instruction_version (cx_target cx) + 1"
      "mf_capabilities_exact m = sort (case spec of None \<Rightarrow> [] | Some sp \<Rightarrow> [ts_capability sp])"
    and contract: "command_contract E clk body spec (r_id (cx_run cx)) (db_services d) =
      Inr (mf_recovery_contract m, rows)"
    using b by (auto simp: build_manifest_def andthen_returns require_returns Let_def)
  have tool: "ct_expected_tool (mf_recovery_contract m) = map_option ts_name spec"
    "ct_max_committed_invocations (mf_recovery_contract m) \<le> 1"
    using command_contract_tool [OF contract] by blast+
  have "map_option ts_name spec = cb_replacement_expected_tool body"
    using spec get_tool_spec_name by (auto simp: andthen_returns split: option.splits)
  then show ?thesis
    using ty ok tool spec manifest_roundtrip' [OF ok(1)]
    by (auto simp: stored andthen_returns split: option.splits)
qed

definition sample_correction :: command_body where
  "sample_correction = (cc_body (sample_command Correct_Subtree ''1-nodes''))
     \<lparr>cb_replacement_instruction := Some [], cb_replacement_expected_tool := Some ''restart_postgres''\<rparr>"

definition sample_context :: command_context where
  "sample_context = \<lparr>cx_target = sample_child, cx_run = sample_run, cx_issuer = None,
     cx_fingerprint = ''human:op''\<rparr>"

lemma sample_correction_manifest:
  "\<exists>m d'. command_manifest sample_env (\<lambda>i. noon) sample_correction sample_context sample_db =
     Inr (Some m, d')"
  by (simp add: command_manifest_def build_manifest_def sample_correction_def sample_command_def
      sample_context_def get_tool_spec_def tool_registry_def or_nonempty_def tool_specs
      command_contract_def validate_arguments_def build_recovery_contract_def
      restart_postgres_contract_def ensure_state_def get_service_def fresh_service_def
      tool_contract_def expected_role_def manifest_ok_def contract_ok_def len_ok_def between_def
      payload_digest_def hex64_sample postcondition_ok_def postcondition_def opt_ok_def Let_def)

theorem correction_manifest_witness:
  "\<exists>m d'. command_manifest sample_env (\<lambda>i. noon) sample_correction sample_context sample_db =
     Inr (Some m, d') \<and> (\<exists>x. manifest_of_json m = Some x \<and>
       mf_capabilities_exact x = [''tool:restart_postgres''])"
proof -
  obtain m d' where c: "command_manifest sample_env (\<lambda>i. noon) sample_correction sample_context
      sample_db = Inr (Some m, d')"
    using sample_correction_manifest by blast
  have "cb_replacement_expected_tool sample_correction = Some ''restart_postgres''"
    by (simp add: sample_correction_def)
  with correction_manifest [OF c] c show ?thesis
    by (auto simp: get_tool_spec_returns tool_specs)
qed

text \<open>The row an accepted command inserts satisfies the check constraint of its table, provided
  the request passed its own validation.\<close>

theorem command_row_valid:
  assumes "issue_command E clk tick request who token s = (Inr r, s')" and "\<not> ci_duplicate r"
    and "body_shape_ok (cc_body request)"
  shows "\<exists>c. db_commands (sy_db s') = db_commands (sy_db s) @ [c] \<and> command_check c"
proof -
  obtain cx where auth: "authorise_command E request who token (sy_db s) = Inr cx"
    and body: "issue_body E clk request who cx (sy_db s) = Inr (r, sy_db s')"
    by (rule issued_context [OF assms(1,2)])
  obtain source manifest d1 sid parent t' d2 c where
    m: "command_manifest E clk (cc_body request) cx (sy_db s) = Inr (manifest, d1)"
    and parent: "command_target clk (cc_body request) cx d1 = Inr (sid, parent)"
    and ch: "change_scope clk (cc_body request) cx sid d1 = Inr (t', d2)"
    and c: "c = new_command E (clk 8) request who cx source manifest parent t'
      (length (db_commands (sy_db s)))"
    and d': "sy_db s' = bind_proposal source (c_id c) (fold record_runtime_event (command_events c t')
        (db_commands_update (\<lambda>cs. cs @ [c]) d2))"
    using body unfolding issue_body_returns by blast
  have issuer: "(pl_issuer_type who = Human \<longrightarrow> cx_issuer cx = None) \<and>
      (pl_issuer_type who = Agent \<longrightarrow> cx_issuer cx \<noteq> None)"
    using auth by (auto simp: authorise_command_returns resolve_issuer_def andthen_returns
        split: option.splits if_splits)
  have "(manifest = None \<longleftrightarrow> cb_command_type (cc_body request) \<noteq> Correct_Subtree)"
    using m by (auto simp: command_manifest_def andthen_returns split: if_splits)
  moreover have "(parent = None \<longleftrightarrow> cb_command_type (cc_body request) \<noteq> Correct_Subtree)"
    using parent by (auto simp: command_target_def andthen_returns split: if_splits)
  ultimately have "command_check c"
    using assms(3) issuer
    by (cases "pl_issuer_type who"; cases "cb_command_type (cc_body request)")
      (auto simp: c command_check_def new_command_def Let_def body_shape_ok_def
        replacement_fields_absent_def)
  moreover have "db_commands (sy_db s') = db_commands (sy_db s) @ [c]"
    using change_scope_tables(2) [OF ch] command_manifest_services [OF m] by (auto simp: d')
  ultimately show ?thesis by blast
qed

theorem command_row_valid_witness:
  "\<exists>r s' c. issue_command sample_env (\<lambda>i. noon + 1) 0 (sample_command Cancel_Subtree ''1-nodes'') operator
     None sample_sys = (Inr r, s') \<and> db_commands (sy_db s') = [c] \<and> command_check c"
proof -
  obtain r s' where i: "issue_command sample_env (\<lambda>i. noon + 1) 0
      (sample_command Cancel_Subtree ''1-nodes'') operator None sample_sys = (Inr r, s')"
    and r: "\<not> ci_duplicate r"
    using sample_command_issued by blast
  from command_row_valid [OF i r] show ?thesis
    using i by (auto simp: body_shape_ok_def replacement_fields_absent_def sample_command_def)
qed

section \<open>Proposals\<close>

text \<open>A review happens once: an accepted proposal binds the digest of what was proposed and the
  exact command body that was authorised, which has the target and the type the proposal asks for; a
  rejected one authorises nothing; the reviewed row satisfies its constraint and cannot be reviewed
  again.\<close>

theorem reviewed_proposal:
  assumes "review_proposal E clk pid request reviewer d = Inr (p', d')"
    and "pr_status request \<in> {Prop_Accepted, Prop_Rejected}"
    and "list_all proposal_check (db_proposals d)"
  shows "proposal_check p' \<and> p_accepted_payload_digest p' = Some (payload_digest E (proposal_payload p')) \<and>
    (pr_status request = Prop_Rejected \<longrightarrow> p_authorized_command p' = None) \<and>
    (pr_status request = Prop_Accepted \<longrightarrow>
       (\<exists>b. pr_authorized_command request = Some b \<and> cb_target_node_id b = p_target_node_id p' \<and>
          cb_command_type b = expected_command_type (p_proposal_type p') \<and>
          p_authorized_command p' = Some (JObj (body_fields b)) \<and>
          p_authorized_command_digest p' = Some (payload_digest E (JObj (body_fields b))))) \<and>
    review_proposal E clk' pid request' reviewer' d' =
      Inl (conflict_error ''PROPOSAL_ALREADY_REVIEWED'')"
proof -
  obtain p authorized where row: "get_proposal_row pid d = Some p" and p: "p_status p = Prop_Pending"
    and auth: "authorized_payload request p = Inr authorized"
    and p': "p' = p\<lparr>p_status := pr_status request, p_reviewed_by_principal := Some reviewer,
             p_accepted_payload_digest := Some (payload_digest E (proposal_payload p)),
             p_authorized_command := authorized,
             p_authorized_command_digest := map_option (payload_digest E) authorized,
             p_reviewed_at := Some (clk 0)\<rparr>"
    using assms(1) by (auto simp: review_returns)
  have "review_proposal E clk' pid request' reviewer' d' =
      Inl (conflict_error ''PROPOSAL_ALREADY_REVIEWED'')"
    using get_after_review [OF assms(1)] assms(2) by (auto simp: review_proposal_def p' require_def)
  moreover have "proposal_payload p' = proposal_payload p" by (simp add: proposal_payload_def p')
  moreover have "proposal_check p"
    using row assms(3) by (auto simp: get_proposal_row_def list_all_iff dest: lookup_SomeD)
  ultimately show ?thesis
    using assms(2) auth p
    by (auto simp: p' authorized_payload_returns proposal_check_def split: if_splits)
qed

definition sample_proposal :: proposal where
  "sample_proposal = \<lparr>p_id = ''-p'', p_run_id = ''-runs'', p_reporter_node_id = ''-nodes'',
     p_target_node_id = ''1-nodes'', p_proposal_type = Prop_Cancel, p_evidence = [],
     p_reason = ''x'', p_status = Prop_Pending, p_reviewed_by_node_id = None,
     p_reviewed_by_principal = None, p_accepted_payload_digest = None, p_authorized_command = None,
     p_authorized_command_digest = None, p_resulting_command_id = None, p_reviewed_at = None,
     p_created_at = noon\<rparr>"

theorem reviewed_proposal_witness:
  "\<exists>p d'. review_proposal sample_env (\<lambda>i. noon) ''-p''
     \<lparr>pr_status = Prop_Accepted,
      pr_authorized_command = Some (cc_body (sample_command Cancel_Subtree ''1-nodes''))\<rparr> ''human:op''
     (sample_db\<lparr>db_proposals := [sample_proposal]\<rparr>) = Inr (p, d') \<and> proposal_check p"
proof -
  let ?d = "sample_db\<lparr>db_proposals := [sample_proposal]\<rparr>"
  let ?r = "\<lparr>pr_status = Prop_Accepted,
      pr_authorized_command = Some (cc_body (sample_command Cancel_Subtree ''1-nodes''))\<rparr>"
  have "\<exists>p d'. review_proposal sample_env (\<lambda>i. noon) ''-p'' ?r ''human:op'' ?d = Inr (p, d')"
    by (simp add: review_returns authorized_payload_returns get_proposal_row_def sample_proposal_def
        sample_command_def expected_command_type_def)
  then obtain p d' where
    r: "review_proposal sample_env (\<lambda>i. noon) ''-p'' ?r ''human:op'' ?d = Inr (p, d')" by blast
  have "list_all proposal_check (db_proposals ?d)"
    by (simp add: proposal_check_def sample_proposal_def)
  from reviewed_proposal [OF r _ this] show ?thesis using r by auto
qed

text \<open>What a command that names a proposal has found, and what it leaves in the proposal.\<close>

lemma proposal_used:
  assumes "issue_command E clk tick request who token s = (Inr r, s')" and "\<not> ci_duplicate r"
    and "cc_source_proposal_id request = Some pid"
  shows "\<exists>p payload authorized. get_proposal_row pid (sy_db s) = Some p \<and> p_status p = Prop_Accepted \<and>
    p_resulting_command_id p = None \<and>
    p_accepted_payload_digest p = Some (payload_digest E (proposal_payload p)) \<and>
    p_authorized_command p = Some authorized \<and>
    p_authorized_command_digest p = Some (payload_digest E authorized) \<and>
    command_authorization_payload request = Inr payload \<and>
    payload_digest E payload = payload_digest E authorized \<and>
    cb_target_node_id (cc_body request) = p_target_node_id p \<and>
    get_proposal_row pid (sy_db s') = Some (p\<lparr>p_resulting_command_id := Some (ci_command_id r)\<rparr>) \<and>
    advances E (sy_db s) (sy_db s')"
proof -
  obtain cx where auth: "authorise_command E request who token (sy_db s) = Inr cx"
    and body: "issue_body E clk request who cx (sy_db s) = Inr (r, sy_db s')"
    by (rule issued_context [OF assms(1,2)])
  obtain source manifest d1 sid parent t' d2 c where
    src: "check_source_proposal E request cx (sy_db s) = Inr source"
    and m: "command_manifest E clk (cc_body request) cx (sy_db s) = Inr (manifest, d1)"
    and ch: "change_scope clk (cc_body request) cx sid d1 = Inr (t', d2)"
    and r: "r = to_response c False"
    and d': "sy_db s' = bind_proposal source (c_id c) (fold record_runtime_event (command_events c t')
        (db_commands_update (\<lambda>cs. cs @ [c]) d2))"
    using body unfolding issue_body_returns by blast
  obtain p where p: "source = Some p"
    using src assms(3) by (auto simp: check_source_proposal_def andthen_returns)
  note facts = src [unfolded p check_source_proposal_returns]
  then have row: "get_proposal_row pid (sy_db s) = Some p" using assms(3) by auto
  then have id: "p_id p = pid" by (rule get_proposal_row_id)
  have "db_proposals d2 = db_proposals (sy_db s)"
    using command_manifest_services [OF m] ch transition_run_tables(9)
    by (auto simp: change_scope_returns update_scope_def split: if_splits)
  then have row': "get_proposal_row pid (sy_db s') = Some (p\<lparr>p_resulting_command_id := Some (c_id c)\<rparr>)"
    using row id by (simp add: d' p bind_proposal_def update_proposal_def get_proposal_row_def
        lookup_revise)
  moreover have "ci_command_id r = c_id c" by (simp add: r to_response_def)
  moreover have "cb_target_node_id (cc_body request) = p_target_node_id p"
    using facts auth get_node_row_id by (auto simp: authorise_command_returns)
  ultimately show ?thesis using facts assms(3) row issue_body_advances [OF body] by auto
qed

text \<open>A used proposal stays used.\<close>

lemma used_proposal_later:
  assumes "(step E C)\<^sup>*\<^sup>* c0 c" and "uuid_inj E" and "ids_ok E (sy_db (snd c0))"
    and "get_proposal_row pid (sy_db (snd c0)) = Some p" and "p_resulting_command_id p \<noteq> None"
  shows "\<exists>p'. get_proposal_row pid (sy_db (snd c)) = Some p' \<and> p_resulting_command_id p' = p_resulting_command_id p"
proof -
  have "advances E (sy_db (snd c0)) (sy_db (snd c))"
    using assms(1)
    by (induction rule: rtranclp_induct) (auto intro: db_advance.refl db_advance.trans step_advances)
  then have "evolves (sy_db (snd c0)) (sy_db (snd c))" using assms(2,3) by (simp add: advances_def)
  from evolves_proposal [OF this assms(4)] show ?thesis using assms(5) by (auto simp: proposal_step_def)
qed

text \<open>C22: an accepted proposal is worth one command, the authorised one: a command that names it as its
  source has a body with the digest of the authorised body that is stored with the proposal, itself intact
  (with a collision-free digest, the same canonical JSON), and from then on, whatever the services do, no
  further command that names the proposal is issued: such a request is refused or answered with an earlier
  command.\<close>

theorem proposal_authorises_once:
  assumes "issue_command E clk tick request who token s = (Inr r, s')" and "\<not> ci_duplicate r"
    and "cc_source_proposal_id request = Some pid" and "uuid_inj E" and "ids_ok E (sy_db s)"
  shows "\<exists>p payload authorized. get_proposal_row pid (sy_db s) = Some p \<and> p_status p = Prop_Accepted \<and>
    p_resulting_command_id p = None \<and>
    p_accepted_payload_digest p = Some (payload_digest E (proposal_payload p)) \<and>
    p_authorized_command p = Some authorized \<and>
    p_authorized_command_digest p = Some (payload_digest E authorized) \<and>
    command_authorization_payload request = Inr payload \<and>
    payload_digest E payload = payload_digest E authorized \<and>
    (inj (sha256 E) \<longrightarrow> dumps payload = dumps authorized) \<and>
    cb_target_node_id (cc_body request) = p_target_node_id p \<and>
    (\<forall>C h c clk' tick' request' who' token' r' s''. (step E C)\<^sup>*\<^sup>* (h, s') c \<and>
       cc_source_proposal_id request' = Some pid \<and>
       issue_command E clk' tick' request' who' token' (snd c) = (Inr r', s'') \<longrightarrow> ci_duplicate r')"
proof -
  obtain p payload authorized where p: "get_proposal_row pid (sy_db s) = Some p" "p_status p = Prop_Accepted"
      "p_resulting_command_id p = None" "p_accepted_payload_digest p = Some (payload_digest E (proposal_payload p))"
      "p_authorized_command p = Some authorized" "p_authorized_command_digest p = Some (payload_digest E authorized)"
      "command_authorization_payload request = Inr payload" "payload_digest E payload = payload_digest E authorized"
      "cb_target_node_id (cc_body request) = p_target_node_id p"
    and used: "get_proposal_row pid (sy_db s') = Some (p\<lparr>p_resulting_command_id := Some (ci_command_id r)\<rparr>)"
    and ids: "ids_ok E (sy_db s')"
    using proposal_used [OF assms(1-3)] assms(4,5) by (auto simp: advances_def)
  have "ci_duplicate r'"
    if "(step E C)\<^sup>*\<^sup>* (h, s') c" "cc_source_proposal_id request' = Some pid"
      "issue_command E clk' tick' request' who' token' (snd c) = (Inr r', s'')"
    for C h c clk' tick' request' who' token' r' s''
  proof (rule ccontr)
    assume "\<not> ci_duplicate r'"
    from proposal_used [OF that(3) this that(2)] show False
      using used_proposal_later [OF that(1) assms(4)] ids used by fastforce
  qed
  moreover have "inj (sha256 E) \<longrightarrow> dumps payload = dumps authorized"
    using p(8) by (auto simp: payload_digest_def inj_def)
  ultimately show ?thesis using p by blast
qed

definition sample_accepted :: proposal where
  "sample_accepted = sample_proposal
     \<lparr>p_status := Prop_Accepted, p_reviewed_by_principal := Some ''human:op'',
      p_accepted_payload_digest := Some (payload_digest sample_env (proposal_payload sample_proposal)),
      p_authorized_command :=
        Some (JObj (body_fields (cc_body (sample_command Cancel_Subtree ''1-nodes'')))),
      p_authorized_command_digest := Some (payload_digest sample_env
        (JObj (body_fields (cc_body (sample_command Cancel_Subtree ''1-nodes''))))),
      p_reviewed_at := Some noon\<rparr>"

definition accepted_sys :: sys where
  "accepted_sys = sample_sys\<lparr>sy_db := sample_db\<lparr>db_proposals := [sample_accepted]\<rparr>\<rparr>"

definition accepted_command :: command_create where
  "accepted_command =
     (sample_command Cancel_Subtree ''1-nodes'')\<lparr>cc_source_proposal_id := Some ''-p''\<rparr>"

lemma accepted_command_issued:
  "\<exists>r s'. issue_command sample_env (\<lambda>i. noon + 1) 0 accepted_command operator
     None accepted_sys = (Inr r, s') \<and> \<not> ci_duplicate r"
proof -
  have payload: "proposal_payload sample_accepted = proposal_payload sample_proposal"
    by (simp add: proposal_payload_def sample_accepted_def)
  have auth: "command_authorization_payload accepted_command =
      Inr (JObj (body_fields (cc_body (sample_command Cancel_Subtree ''1-nodes''))))"
    by (simp add: command_authorization_payload_def validate_command_authorization_def
        accepted_command_def sample_command_def body_fields_ok_def len_ok_def opt_ok_def
        body_shape_ok_def replacement_fields_absent_def between_def)
  have "check_source_proposal sample_env accepted_command sample_context
      (sample_db\<lparr>db_proposals := [sample_accepted]\<rparr>) = Inr (Some sample_accepted)"
    unfolding check_source_proposal_returns payload auth
    by (simp add: accepted_command_def sample_context_def sample_accepted_def sample_proposal_def
        sample_command_def get_proposal_row_def expected_command_type_def)
  then show ?thesis
    by (simp add: issue_command_def rate_limited_def issue_before_def authorise_command_def
      accepted_command_def accepted_sys_def sample_context_def
      sample_command_def get_node_def get_run_def resolve_issuer_def operator_def
      may_issue_command_def existing_command_def issue_body_def check_issue_state_def
      command_count_def command_manifest_def command_target_def row_get_defs
      change_scope_def to_response_def Let_def)
qed

theorem proposal_authorises_once_witness:
  "\<exists>r s'. issue_command sample_env (\<lambda>i. noon + 1) 0 accepted_command operator None accepted_sys =
     (Inr r, s') \<and>
     (\<forall>clk tick r' s''. issue_command sample_env clk tick accepted_command operator None s' = (Inr r', s'') \<longrightarrow>
        ci_duplicate r')"
proof -
  obtain r s' where i: "issue_command sample_env (\<lambda>i. noon + 1) 0 accepted_command operator None
      accepted_sys = (Inr r, s')" and r: "\<not> ci_duplicate r"
    using accepted_command_issued by blast
  have source: "cc_source_proposal_id accepted_command = Some ''-p''"
    by (simp add: accepted_command_def)
  have ids: "ids_ok sample_env (sy_db accepted_sys)"
    by (simp add: accepted_sys_def ids_ok_def drawn_def upt_rec sample_uuid_def)
  from proposal_authorises_once [OF i r source sample_uuid_inj ids] show ?thesis
    using i source by (metis rtranclp.rtrancl_refl snd_conv)
qed

end
