(* ===== verification/Lifecycle_Properties.thy ===== *)
theory Lifecycle_Properties
  imports Sample
begin

text \<open>
  The properties of the life of a node: what a spawned child inherits, that an activation token works
  once, how a lost response is recovered, what a heartbeat, a completion and a lease scan do, and how
  exactly a replacement follows the manifest that authorised it.
\<close>

section \<open>Spawning\<close>

text \<open>C19: a child is registered only under a live parent, inside the three graph budgets; it holds no
  capability its parent lacks, carries its parent's whole snapshot and its own new scope, starts
  pending and without a token, and from then on it is never allowed while its parent is not.\<close>

theorem spawned_child:
  assumes "create_spawn_body E C clk token nonce carrier request parent d = Inr (created, d')"
  shows "\<exists>child. db_nodes d' = db_nodes d @ [child] \<and> n_id child = scd_child_node_id created \<and>
    node_live (clk 0) parent d \<and> n_parent_id child = Some (n_id parent) \<and>
    n_run_id child = n_run_id parent \<and> n_status child = Node_Pending \<and> n_token_hash child = None \<and>
    set (n_capabilities child) \<subseteq> set (n_capabilities parent) \<and>
    n_scope_snapshot child = n_scope_snapshot parent @ [(n_own_scope_id child, 1)] \<and>
    n_generation child = n_generation parent + 1 \<and> n_generation child \<le> max_graph_depth E \<and>
    node_count (n_run_id parent) d' \<le> max_nodes_per_run E \<and>
    child_count parent d' \<le> max_children_per_node E \<and>
    (\<forall>later. se_allowed (evaluate_scopes later child) \<longrightarrow> se_allowed (evaluate_scopes later parent))"
proof -
  obtain d1 where live: "node_live (clk 0) parent d"
    and budget: "enforce_graph_budget E parent d = Inr ()"
    and caps: "set (sp_capabilities request) \<subseteq> set (n_capabilities parent)"
    and locked: "create_spawn_locked E (\<lambda>i. clk (i + 1)) token carrier parent request plain_lineage d =
      (created, d1)"
    and d': "d' = seal_spawn E C (clk 3) nonce ''SPAWN'' (spawn_digest E [] request) parent
      (sp_operation_key request) created d1"
    using assms unfolding create_spawn_body_returns by blast
  let ?child = "child_node parent request plain_lineage (clk 2) (scd_child_node_id created)
    (uuid E ''control_scopes'' (length (db_scopes d)))"
  have nodes: "db_nodes d' = db_nodes d @ [?child]"
    using create_spawn_locked_tables(9) [OF locked] by (simp add: d' numeral_2_eq_2)
  have "n_scope_snapshot parent \<noteq> []"
    using live by (simp add: node_live_def evaluate_allowed_iff)
  then have "se_allowed (evaluate_scopes later ?child) \<longrightarrow> se_allowed (evaluate_scopes later parent)"
    for later
    by (simp add: evaluate_allowed_iff child_node_def)
  then show ?thesis
    using nodes live budget caps
    by (intro exI [of _ ?child])
      (auto simp: child_node_def plain_lineage_def enforce_graph_budget_returns node_count_def
        child_count_def)
qed

definition sample_spawn :: spawn_create where
  "sample_spawn = \<lparr>sp_operation_key = Some ''spawn-1'', sp_role = ''worker'', sp_instruction = [],
     sp_capabilities = [''tool:restart_postgres''], sp_behavior = ''cooperative''\<rparr>"

text \<open>The sample codec writes the two strings of a response; the other fields are fixed.\<close>

definition sample_codecs :: codecs where
  "sample_codecs =
    \<lparr>spawn_codec =
       \<lparr>dump = (\<lambda>r. scd_child_node_id r @ '','' @ scd_activation_token r),
        load = (\<lambda>s. Some \<lparr>scd_child_node_id = takeWhile (\<lambda>c. c \<noteq> CHR '','') s,
          scd_activation_token = tl (dropWhile (\<lambda>c. c \<noteq> CHR '','') s),
          scd_expires_at = noon + 30000001, scd_trace_context = []\<rparr>)\<rparr>,
     activation_codec = \<lparr>dump = (\<lambda>r. nad_node_token r), load = (\<lambda>s. None)\<rparr>\<rparr>"

lemma sample_spawned:
  "\<exists>created d'. create_spawn_body sample_env C (\<lambda>i. noon + 1) ''at'' ''nonce'' [] sample_spawn
     sample_root sample_db = Inr (created, d')"
proof -
  obtain created d1 where "create_spawn_locked sample_env (\<lambda>i. noon + 1) ''at'' [] sample_root
      sample_spawn plain_lineage sample_db = (created, d1)"
    by fastforce
  then show ?thesis
    unfolding create_spawn_body_returns
    by (auto simp: enforce_graph_budget_returns enforce_parent_child_budget_def node_count_def
        child_count_def sample_spawn_def)
qed

theorem spawned_child_witness:
  "\<exists>created d'. create_spawn_body sample_env sample_codecs (\<lambda>i. noon + 1) ''at'' ''nonce'' []
     sample_spawn sample_root sample_db = Inr (created, d') \<and> length (db_nodes d') = 3"
proof -
  obtain created d' where s: "create_spawn_body sample_env sample_codecs (\<lambda>i. noon + 1) ''at'' ''nonce''
      [] sample_spawn sample_root sample_db = Inr (created, d')"
    using sample_spawned by blast
  from spawned_child [OF s] show ?thesis using s by auto
qed

text \<open>C23: a client that lost the response of a spawn gets it back: before the envelope and the intent
  expire, the same request with the same operation key returns the very response of the first call,
  registers no second child and changes nothing.\<close>

theorem lost_spawn_response:
  assumes "create_spawn_body E C clk token nonce carrier request parent d = Inr (created, d')"
    and "sp_operation_key request = Some key"
    and "find_envelope ''SPAWN'' (n_id parent) key (spawn_digest E [] request) d = Inr None"
    and "get_node_row k d = Some parent" and "token_matches E ptoken (n_token_hash parent)"
    and "get_node_row (scd_child_node_id created) d = None"
    and "intent_of_child (scd_child_node_id created) d = None"
    and "later 0 < scd_expires_at created"
    and "later 0 < clk 3 + seconds (credential_recovery_ttl_seconds E)"
    and "cipher_ok E" and "codec_ok (spawn_codec C) created"
  shows "create_spawn_before E C later token' nonce' k ptoken request d' = Inr (Answer created d')"
proof -
  obtain d1 where
    locked: "create_spawn_locked E (\<lambda>i. clk (i + 1)) token carrier parent request plain_lineage d =
      (created, d1)"
    and d': "d' = seal_envelope E (spawn_codec C) (clk 3) nonce None (n_run_id parent) ''SPAWN''
      (n_id parent) (scd_child_node_id created) key (spawn_digest E [] request) created d1"
    using assms(1,2) unfolding create_spawn_body_returns by (auto simp: seal_spawn_def)
  have "find_envelope ''SPAWN'' (n_id parent) key (spawn_digest E [] request) d1 = Inr None"
    using assms(3) create_spawn_locked_tables(6) [OF locked] by (simp add: find_envelope_def)
  then obtain e where e: "find_envelope ''SPAWN'' (n_id parent) key (spawn_digest E [] request) d' =
      Inr (Some e)" "open_envelope E (spawn_codec C) e = Inr created"
      "cre_subject_node_id e = scd_child_node_id created"
      "cre_expires_at e = clk 3 + seconds (credential_recovery_ttl_seconds E)"
    using sealed_is_found [OF _ d' assms(10,11)] by blast
  have nodes: "db_nodes d' = db_nodes d @ [child_node parent request plain_lineage (clk 2)
      (scd_child_node_id created) (uuid E ''control_scopes'' (length (db_scopes d)))]"
    using create_spawn_locked_tables(9) [OF locked] by (simp add: d' numeral_2_eq_2)
  have "db_intents d' = db_intents d @ [child_intent E parent request token carrier
      (scd_expires_at created) (scd_child_node_id created) (length (db_intents d))]"
    using locked by (auto simp: d' create_spawn_locked_def Let_def)
  then obtain node intent where "spawn_recoverable (later 0) e d' = Some (node, intent)"
    using assms(6-8) nodes
    by (auto simp: spawn_recoverable_def e(3) get_node_row_def intent_of_child_def lookup_append
        child_node_def child_intent_def)
  then have recovered: "recover_spawn_response E C later token' nonce' e d' = Inr (created, d')"
    using e(2,4) assms(9) by (simp add: recover_spawn_response_def)
  have "get_node_row k d' = Some parent"
    using assms(4) by (simp add: get_node_row_def nodes lookup_append)
  then have "authenticate_node E k ptoken d' = Inr parent"
    using assms(5) by (simp add: authenticate_node_returns)
  then show ?thesis
    using assms(2) e(1) recovered by (simp add: create_spawn_before_def)
qed

theorem lost_spawn_response_witness:
  "\<exists>created d'. create_spawn_body sample_env sample_codecs (\<lambda>i. noon + 1) ''at'' ''nonce'' []
     sample_spawn sample_root sample_db = Inr (created, d') \<and>
     create_spawn_before sample_env sample_codecs (\<lambda>i. noon + 2) ''other'' ''nonce2'' ''-nodes'' ''t''
       sample_spawn d' = Inr (Answer created d')"
proof -
  obtain created d' where s: "create_spawn_body sample_env sample_codecs (\<lambda>i. noon + 1) ''at'' ''nonce''
      [] sample_spawn sample_root sample_db = Inr (created, d')"
    using sample_spawned by blast
  then have created: "created = \<lparr>scd_child_node_id = ''11-nodes'', scd_activation_token = ''at'',
      scd_expires_at = noon + 30000001, scd_trace_context = []\<rparr>"
    by (auto simp: create_spawn_body_returns create_spawn_locked_def Let_def sample_uuid_def seconds_def)
  have "codec_ok (spawn_codec sample_codecs) created"
    by (simp add: codec_ok_def created sample_codecs_def)
  then have "create_spawn_before sample_env sample_codecs (\<lambda>i. noon + 2) ''other'' ''nonce2''
      ''-nodes'' ''t'' sample_spawn d' = Inr (Answer created d')"
    by (intro lost_spawn_response [OF s])
      (simp_all add: sample_spawn_def find_envelope_def created row_get_defs seconds_def)
  then show ?thesis using s by blast
qed

section \<open>Activation\<close>

lemma lookup_revise_by:
  assumes "\<And>r. key (f r) = key r"
  shows "lookup key k (revise id' j f rows) =
    map_option (\<lambda>r. if id' r = j then f r else r) (lookup key k rows)"
  using assms by (induction rows) auto

text \<open>C18: an activation token works once and in time: activating a node that is pending and still
  allowed makes it active with a fresh token and a full lease, and after that no request whatever,
  with the same token or another, gets as far as activating this node again.\<close>

theorem activation_once:
  assumes "activate_before E C now sealed tok nonce k request d = Inr (Proceed i (node, intent))"
    and "activate_body E C now sealed tok nonce request (node, intent) d = Inr (r, d')"
  shows "n_status node = Node_Pending \<and> now < si_expires_at intent \<and>
    token_matches E (na_activation_token request) (Some (si_activation_token_hash intent)) \<and>
    se_allowed (evaluate_scopes d node) \<and>
    get_node_row k d' = Some (activate_node E now (tok 0) (na_process_id request) node) \<and>
    activate_before E C' now' sealed' tok' nonce' k request' d' \<noteq> Inr (Proceed i' p)"
proof -
  note b = activate_before_proceeds [OF assms(1)]
  let ?d1 = "update_intent (si_id intent) (\<lambda>i. i\<lparr>si_consumed_at := Some now\<rparr>) d"
  let ?d2 = "update_node (n_id node) (activate_node E now (tok 0) (na_process_id request)) ?d1"
  obtain d3 where pre: "n_status node = Node_Pending" "now < si_expires_at intent"
      "se_allowed (evaluate_scopes d node)"
    and d3: "advance_replacement Repl_Pending Repl_Active node ?d2 = Inr d3"
    and d': "d' = fold record_runtime_event (activated_events node now (lease_until E now))
        (case na_operation_key request of
           None \<Rightarrow> d3
         | Some key \<Rightarrow> seal_envelope E (activation_codec C) sealed nonce None (n_run_id node)
             ''ACTIVATION'' (n_id node) (n_id node) key (activation_digest E request) r d3)"
    using assms(2) unfolding activate_body_returns by blast
  have tables: "db_nodes d' = db_nodes ?d2" "db_intents d' = db_intents ?d1"
    using advance_replacement_tables [OF d3] by (auto simp: d' update_node_def split: option.split)
  have "get_node_row k d' = Some (activate_node E now (tok 0) (na_process_id request) node)"
    using b get_node_row_id [of k d node]
    by (simp add: get_node_row_def tables update_node_def update_intent_def lookup_revise
        activate_node_def)
  moreover have consumed: "intent_of_child k d' = Some (intent\<lparr>si_consumed_at := Some now\<rparr>)"
    using b by (simp add: intent_of_child_def tables update_intent_def lookup_revise_by)
  have "activate_before E C' now' sealed' tok' nonce' k request' d' \<noteq> Inr (Proceed i' p)"
  proof
    obtain m j where p: "p = (m, j)" by fastforce
    assume "activate_before E C' now' sealed' tok' nonce' k request' d' = Inr (Proceed i' p)"
    then have "intent_of_child k d' = Some j" "si_consumed_at j = None"
      unfolding p by (auto dest: activate_before_proceeds)
    then show False using consumed by auto
  qed
  ultimately show ?thesis using b pre by (simp add: token_matches_def)
qed

definition pending_child :: node where
  "pending_child = sample_child\<lparr>n_status := Node_Pending, n_token_hash := None\<rparr>"

definition sample_intent :: spawn_intent where
  "sample_intent = \<lparr>si_id = ''-spawn_intents'', si_run_id = ''-runs'', si_parent_node_id = ''-nodes'',
     si_child_node_id = ''1-nodes'', si_activation_token_hash = hash_token sample_env ''at'',
     si_requested_role = ''worker'', si_instruction = [], si_requested_capabilities = [],
     si_trace_context = [], si_expires_at = noon + 30000000, si_consumed_at = None\<rparr>"

definition pending_db :: db where
  "pending_db = sample_db\<lparr>db_nodes := [sample_root, pending_child], db_intents := [sample_intent]\<rparr>"

definition sample_activation :: node_activate where
  "sample_activation =
    \<lparr>na_operation_key = None, na_activation_token = ''at'', na_process_id = Some 7\<rparr>"

theorem activation_once_witness:
  "\<exists>r d'. activate_body sample_env sample_codecs (noon + 1) (noon + 1) (\<lambda>i. ''tok'') ''nonce''
     sample_activation (pending_child, sample_intent) pending_db = Inr (r, d') \<and>
     (\<forall>i p. activate_before sample_env sample_codecs (noon + 2) (noon + 2) (\<lambda>i. ''tok'') ''nonce''
        ''1-nodes'' sample_activation d' \<noteq> Inr (Proceed i p))"
proof -
  have before: "activate_before sample_env sample_codecs (noon + 1) (noon + 1) (\<lambda>i. ''tok'') ''nonce''
      ''1-nodes'' sample_activation pending_db =
    Inr (Proceed (''-runs:1-nodes'') (pending_child, sample_intent))"
    by (simp add: activate_before_def row_get_defs pending_db_def pending_child_def sample_intent_def
        sample_activation_def recover_activation_def)
  have "se_allowed (evaluate_scopes pending_db pending_child)"
    by (simp add: evaluate_allowed_iff entry_current_def live_scope_def pending_db_def
        pending_child_def)
  then obtain r d' where body: "activate_body sample_env sample_codecs (noon + 1) (noon + 1)
      (\<lambda>i. ''tok'') ''nonce'' sample_activation (pending_child, sample_intent) pending_db = Inr (r, d')"
    by (simp add: activate_body_def pending_child_def sample_intent_def advance_replacement_def
        sample_activation_def Let_def)
  from activation_once [OF before body] show ?thesis using body by blast
qed

section \<open>Heartbeats\<close>

text \<open>A heartbeat succeeds only for an authenticated node that is live at that moment, an expired
  lease included in what it refuses, and then extends the lease by exactly the configured time and
  changes nothing else of the node.\<close>

theorem heartbeat_renews:
  assumes "heartbeat E now tick k token s = (Inr u, s')"
  shows "\<exists>node. get_node_row k (sy_db s) = Some node \<and> token_matches E token (n_token_hash node) \<and>
    node_live now node (sy_db s) \<and>
    get_node_row k (sy_db s') = Some (node\<lparr>n_last_heartbeat_at := Some now,
      n_lease_expires_at := Some (now + seconds (lease_ttl_seconds E))\<rparr>)"
proof -
  have r: "rate_limited E ''heartbeat'' tick (node_before E k token) (heartbeat_body E now) s =
      (Inr None, s')"
    using assms by (auto simp: heartbeat_def raise_denial_def split: prod.splits sum.splits option.splits)
  from rate_limited_result [OF r] obtain i node where
    node: "get_node_row k (sy_db s) = Some node" "token_matches E token (n_token_hash node)"
    and body: "heartbeat_body E now node (sy_db s) = Inr (None, sy_db s')"
    by (auto simp: node_before_returns)
  then have "node_live now node (sy_db s)" "sy_db s' = heartbeat_renewed E now node (sy_db s)"
    by (auto simp: heartbeat_body_def andthen_returns get_run_returns node_live_def Let_def
        split: if_splits)
  then show ?thesis
    using node get_node_row_id [OF node(1)]
    by (auto simp: heartbeat_renewed_def get_node_row_def update_node_def lookup_revise renew_lease_def
        lease_until_def record_runtime_event_def)
qed

theorem heartbeat_renews_witness:
  "\<exists>s'. heartbeat sample_env (noon + 5) 0 ''-nodes'' ''t'' sample_sys = (Inr (), s') \<and>
     (\<exists>n. get_node_row ''-nodes'' (sy_db s') = Some n \<and>
        n_lease_expires_at n = Some (noon + 15000005))"
proof -
  have "\<exists>s'. heartbeat sample_env (noon + 5) 0 ''-nodes'' ''t'' sample_sys = (Inr (), s')"
    by (simp add: heartbeat_def rate_limited_def node_before_def heartbeat_body_def get_run_def
        live_node_statuses_def lease_live_def raise_denial_def Let_def)
  then obtain s' where h: "heartbeat sample_env (noon + 5) 0 ''-nodes'' ''t'' sample_sys = (Inr (), s')"
    by blast
  from heartbeat_renews [OF h] show ?thesis using h by (auto simp: seconds_def)
qed

section \<open>Completion\<close>

text \<open>The sweep in closed form: which rows it marks, and which nodes it finds still live.\<close>

definition swept :: "time \<Rightarrow> db \<Rightarrow> node \<Rightarrow> bool" where
  "swept now d n \<longleftrightarrow> n_status n \<notin> dead_node_statuses \<and> has_expired now n d"

definition mark_expired :: "ident set \<Rightarrow> node \<Rightarrow> node" where
  "mark_expired ks r = (if n_id r \<in> ks then r\<lparr>n_status := Node_Lease_Expired\<rparr> else r)"

lemma mark_expired_id [simp]: "n_id (mark_expired ks r) = n_id r"
  by (simp add: mark_expired_def)

lemma sweep_node_effect:
  assumes "sweep_node E now n (d, live) = (d1, live1)"
  shows "db_scopes d1 = db_scopes d" "db_intents d1 = db_intents d" "db_runs d1 = db_runs d"
    "db_nodes d1 = map (mark_expired (if swept now d n then {n_id n} else {})) (db_nodes d)"
    "live1 = live @ (if n_status n \<notin> dead_node_statuses \<and> \<not> has_expired now n d \<and>
       se_allowed (evaluate_scopes d n) then [n_id n] else [])"
  using assms
  by (auto simp: sweep_node_def swept_def dead_node_statuses_def mark_expired_def [abs_def]
      set_status_def update_node_def revise_def split: if_splits)

lemma has_expired_same: "db_intents d' = db_intents d \<Longrightarrow> has_expired now n d' = has_expired now n d"
  by (simp add: has_expired_def intent_in_run_def)

lemma scan_snapshot_same:
  assumes "db_scopes d' = db_scopes d"
  shows "scan_snapshot d' rid snap acc = scan_snapshot d rid snap acc"
proof -
  have "live_scope d' = live_scope d" using assms by (simp add: live_scope_def fun_eq_iff)
  then show ?thesis
    by (induction snap arbitrary: acc) (simp_all add: entry_mismatch_def live_payload_def)
qed

lemma evaluate_same:
  assumes "db_scopes d' = db_scopes d" and "n_run_id n' = n_run_id n"
    and "n_scope_snapshot n' = n_scope_snapshot n"
  shows "evaluate_scopes d' n' = evaluate_scopes d n"
  using assms(2,3) by (simp add: evaluate_scopes_def scan_snapshot_same [OF assms(1)])

lemma mark_expired_twice: "mark_expired A (mark_expired B r) = mark_expired (A \<union> B) r"
  by (simp add: mark_expired_def)

lemma map_mark_expired_twice:
  "map (mark_expired A) (map (mark_expired B) rs) = map (mark_expired (A \<union> B)) rs"
  by (simp add: mark_expired_twice)

lemma fold_sweep_effect:
  assumes "fold (sweep_node E now) ns (d, live) = (d1, live1)"
  shows "db_scopes d1 = db_scopes d \<and> db_runs d1 = db_runs d \<and>
    db_nodes d1 = map (mark_expired (n_id ` {n \<in> set ns. swept now d n})) (db_nodes d) \<and>
    live1 = live @ map n_id (filter (\<lambda>n. n_status n \<notin> dead_node_statuses \<and>
       \<not> has_expired now n d \<and> se_allowed (evaluate_scopes d n)) ns)"
  using assms
proof (induction ns arbitrary: d live)
  case Nil
  then show ?case by (simp add: mark_expired_def)
next
  case (Cons n ns)
  obtain d2 live2 where s: "sweep_node E now n (d, live) = (d2, live2)" by fastforce
  note e = sweep_node_effect [OF s]
  have same: "swept now d2 = swept now d" "has_expired now m d2 = has_expired now m d"
    "evaluate_scopes d2 m = evaluate_scopes d m" for m
    using e(1,2) has_expired_same [of d2 d] evaluate_same [of d2 d] by (auto simp: swept_def fun_eq_iff)
  from Cons.prems s have rest: "fold (sweep_node E now) ns (d2, live2) = (d1, live1)" by simp
  have ids: "n_id ` {m \<in> set (n # ns). swept now d m} =
      n_id ` {m \<in> set ns. swept now d m} \<union> (if swept now d n then {n_id n} else {})"
    by auto
  have "db_nodes d1 = map (mark_expired (n_id ` {m \<in> set ns. swept now d m}))
      (map (mark_expired (if swept now d n then {n_id n} else {})) (db_nodes d))"
    using Cons.IH [OF rest] e(4) same(1) by simp
  then have "db_nodes d1 = map (mark_expired (n_id ` {m \<in> set (n # ns). swept now d m})) (db_nodes d)"
    unfolding ids map_mark_expired_twice .
  then show ?case using Cons.IH [OF rest] e(1,3,5) same(2,3) by simp
qed

lemma completes_live:
  assumes "complete_body E clk node d = Inr (u, d')" and "get_run_row (n_run_id node) d = Some run"
  shows "node_live (clk 0) node d \<and> (\<forall>n \<in> set (db_nodes d'). n_id n = n_id node \<longrightarrow> n_status n = Node_Completed)"
proof -
  let ?done = "\<lambda>n. n\<lparr>n_status := Node_Completed, n_completed_at := Some (clk 3)\<rparr>"
  obtain d1 d3 where "node_live (clk 0) node d"
    and adv: "advance_replacement Repl_Active Repl_Completed node (update_node (n_id node) ?done d1) = Inr d3"
    and "d' = fold record_runtime_event (completion_events node (clk 3)) d3"
    using assms unfolding complete_body_returns by auto
  then show ?thesis
    using advance_replacement_tables [OF adv] by (auto simp: update_node_def in_set_revise)
qed

lemma root_completion:
  assumes "complete_body E clk node d = Inr (u, d')" and "get_run_row (n_run_id node) d = Some run"
    and "r_root_node_id run = n_id node"
  shows "(\<forall>n \<in> set (db_nodes d'). n_run_id n = n_run_id node \<longrightarrow>
       n_status n \<in> dead_node_statuses \<or> \<not> se_allowed (evaluate_scopes d' n)) \<and>
    (\<exists>row \<in> set (db_runs d'). r_id row = r_id run \<and> r_status row = Run_Completed)"
proof -
  let ?others = "filter (\<lambda>n. n_run_id n = n_run_id node \<and> n_id n \<noteq> n_id node) (db_nodes d)"
  let ?done = "\<lambda>n. n\<lparr>n_status := Node_Completed, n_completed_at := Some (clk 3)\<rparr>"
  obtain d1 d3 where live: "node_live (clk 0) node d"
    and fin: "finish_run E clk run node d = Inr d1"
    and adv: "advance_replacement Repl_Active Repl_Completed node (update_node (n_id node) ?done d1) =
      Inr d3"
    and d': "d' = fold record_runtime_event (completion_events node (clk 3)) d3"
    using assms(1,2) unfolding complete_body_returns by auto
  obtain d0 found where f: "fold (sweep_node E (clk 1)) ?others (d, []) = (d0, found)" by fastforce
  then have none: "found = []" and t: "transition_run run Run_Completed (clk 2) d0 = Inr d1"
    using fin assms(3) by (auto simp: finish_run_def complete_run_def Let_def andthen_returns require_returns)
  note eff = fold_sweep_effect [OF f]
  have tables: "db_nodes d' = revise n_id (n_id node) ?done (db_nodes d0)"
    "db_scopes d' = db_scopes d" "db_runs d' = db_runs d1"
    using advance_replacement_tables [OF adv] transition_run_tables [OF t] eff
    by (simp_all add: d' update_node_def)
  have "n_status n \<in> dead_node_statuses \<or> \<not> se_allowed (evaluate_scopes d' n)"
    if n: "n \<in> set (db_nodes d')" "n_run_id n = n_run_id node" for n
  proof -
    obtain r1 where "r1 \<in> set (db_nodes d0)" and n1: "n = (if n_id r1 = n_id node then ?done r1 else r1)"
      using n(1) by (auto simp: tables in_set_revise)
    then obtain r0 where r0: "r0 \<in> set (db_nodes d)"
      and r1: "r1 = mark_expired (n_id ` {n \<in> set ?others. swept (clk 1) d n}) r0"
      using eff by auto
    show ?thesis
    proof (cases "n_id r0 = n_id node")
      case True
      then show ?thesis by (simp add: n1 r1)
    next
      case False
      then have "n_run_id r0 = n_run_id node"
        using n(2) by (auto simp: n1 r1 mark_expired_def split: if_splits)
      then have other: "r0 \<in> set ?others" using r0 False by simp
      then have "n_status r0 \<in> dead_node_statuses \<or> has_expired (clk 1) r0 d \<or>
          \<not> se_allowed (evaluate_scopes d r0)"
        using eff none by (auto simp: filter_empty_conv)
      moreover have "evaluate_scopes d' n = evaluate_scopes d r0"
        by (rule evaluate_same [OF tables(2)]) (simp_all add: n1 r1 mark_expired_def False)
      ultimately show ?thesis
        using other False by (auto simp: n1 r1 mark_expired_def swept_def)
    qed
  qed
  moreover have "\<exists>row \<in> set (db_runs d'). r_id row = r_id run \<and> r_status row = Run_Completed"
  proof -
    have "filter (transition_matches run) (db_runs d0) \<noteq> []"
      using t by (auto simp: transition_run_returns)
    then obtain row where "row \<in> set (db_runs d0)" "transition_matches run row"
      by (auto simp: filter_empty_conv)
    then have "row\<lparr>r_status := Run_Completed, r_finished_at := Some (clk 2)\<rparr> \<in> set (db_runs d')"
      using t by (force simp: transition_run_returns tables is_terminal_def)
    moreover have "r_id row = r_id run" using \<open>transition_matches run row\<close>
      by (simp add: transition_matches_def)
    ultimately show ?thesis by (intro bexI) auto
  qed
  ultimately show ?thesis using live by blast
qed

text \<open>C36: a node, the root or another, completes only while it is live, and afterwards it is
  \<open>COMPLETED\<close>; when it is the root, its run ends as \<open>COMPLETED\<close> too, and then every other node of the run
  is in a terminal status or stopped by its scopes: no live node outlives its run.\<close>

theorem run_completion:
  assumes "complete_body E clk node d = Inr (u, d')"
    and "get_run_row (n_run_id node) d = Some run"
  shows "node_live (clk 0) node d \<and>
    (\<forall>n \<in> set (db_nodes d'). n_id n = n_id node \<longrightarrow> n_status n = Node_Completed) \<and>
    (r_root_node_id run = n_id node \<longrightarrow>
      (\<forall>n \<in> set (db_nodes d'). n_run_id n = n_run_id node \<longrightarrow>
         n_status n \<in> dead_node_statuses \<or> \<not> se_allowed (evaluate_scopes d' n)) \<and>
      (\<exists>row \<in> set (db_runs d'). r_id row = r_id run \<and> r_status row = Run_Completed))"
  using completes_live [OF assms] root_completion [OF assms] by blast

definition long_root :: node where
  "long_root = sample_root\<lparr>n_lease_expires_at := Some (noon + 100000000)\<rparr>"

definition long_db :: db where
  "long_db = sample_db\<lparr>db_nodes := [long_root, sample_child]\<rparr>"

lemma long_root_completes:
  "\<exists>d'. complete_body sample_env (\<lambda>i. noon + 20000000) long_root long_db = Inr ((), d')"
proof -
  have live: "node_live (noon + 20000000) long_root long_db"
    by (simp add: node_live_def live_node_statuses_def lease_live_def evaluate_allowed_iff
        entry_current_def live_scope_def long_root_def long_db_def get_run_row_def)
  have expired: "has_expired (noon + 20000000) sample_child long_db"
    by (simp add: has_expired_def live_node_statuses_def lease_live_def)
  obtain d1 where "finish_run sample_env (\<lambda>i. noon + 20000000) sample_run long_root long_db = Inr d1"
    using expired
    by (simp add: finish_run_def complete_run_def long_root_def long_db_def sweep_node_def
        transition_run_def transition_matches_def)
  then show ?thesis
    unfolding complete_body_returns using live
    by (auto simp: long_root_def long_db_def get_run_row_def advance_replacement_def)
qed

theorem run_completion_witness:
  "\<exists>d'. complete_body sample_env (\<lambda>i. noon + 20000000) long_root long_db = Inr ((), d') \<and>
     (\<exists>row \<in> set (db_runs d'). r_status row = Run_Completed)"
proof -
  obtain d' where c: "complete_body sample_env (\<lambda>i. noon + 20000000) long_root long_db = Inr ((), d')"
    using long_root_completes by blast
  have "get_run_row (n_run_id long_root) long_db = Some sample_run"
    by (simp add: long_root_def long_db_def get_run_row_def)
  from run_completion [OF c this] show ?thesis using c by (auto simp: long_root_def)
qed

section \<open>Replacements\<close>

text \<open>C20: a replacement is exactly what its command authorised: the parent, role, behaviour,
  capabilities, instruction and instruction version of the stored, undamaged manifest, linked to the
  node it supersedes and to the command; and while it is pending no second one can be created.\<close>

theorem replacement_exact:
  assumes "create_replacement_body E C clk token nonce carrier cid request parent d = Inr (created, d')"
  shows "\<exists>command stored m old child. get_command_row cid d = Some command \<and>
    c_command_type command = Correct_Subtree \<and>
    c_replacement_parent_id command = Some (n_id parent) \<and>
    c_replacement_manifest command = Some stored \<and>
    c_replacement_manifest_digest command = Some (payload_digest E stored) \<and>
    manifest_of_json stored = Some m \<and> get_node_row (c_target_node_id command) d = Some old \<and>
    db_nodes d' = db_nodes d @ [child] \<and> n_id child = scd_child_node_id created \<and>
    n_parent_id child = Some (n_id parent) \<and> n_supersedes_node_id child = Some (n_id old) \<and>
    n_caused_by_command_id child = Some cid \<and> n_role child = mf_role m \<and>
    n_behavior child = mf_behavior m \<and> n_capabilities child = mf_capabilities_exact m \<and>
    payload_digest E (JObj (n_instruction child)) = mf_instruction_digest m \<and>
    n_instruction_version child = mf_instruction_version m \<and>
    (\<forall>again parent' request'. get_command_row cid d' = Some again \<longrightarrow>
       (\<exists>e. check_replacement E False parent' again request' d' = Inl e))"
proof -
  obtain command old d1 where cmd: "get_command_row cid d = Some command"
    and check: "check_replacement E False parent command request d = Inr old"
    and locked: "create_spawn_locked E (\<lambda>i. clk (i + 1)) token carrier parent request
        (correction_lineage old command) d = (created, d1)"
    and d': "d' = seal_spawn E C (clk 3) nonce ''REPLACEMENT'' (spawn_digest E cid request) parent
        (sp_operation_key request) created
        (update_command cid (\<lambda>c. c\<lparr>c_replacement_node_id := Some (scd_child_node_id created),
                c_replacement_status := Some Repl_Pending\<rparr>) d1)"
    using assms unfolding create_replacement_body_returns by blast
  obtain stored m where ok: "c_command_type command = Correct_Subtree"
      "c_replacement_parent_id command = Some (n_id parent)"
      "get_node_row (c_target_node_id command) d = Some old"
      "c_replacement_manifest command = Some stored"
      "c_replacement_manifest_digest command = Some (payload_digest E stored)"
      "manifest_of_json stored = Some m" "manifest_matches E old m request"
    using check unfolding check_replacement_returns check_replacement_command_returns
      check_correction_lineage_returns check_replacement_manifest_returns by blast
  let ?child = "child_node parent request (correction_lineage old command) (clk 2)
    (scd_child_node_id created) (uuid E ''control_scopes'' (length (db_scopes d)))"
  have "db_nodes d' = db_nodes d @ [?child]"
    using create_spawn_locked_tables(9) [OF locked]
    by (simp add: d' update_command_def numeral_2_eq_2)
  moreover have "c_id command = cid"
    using cmd by (auto simp: get_command_row_def dest: lookup_SomeD)
  moreover have "\<exists>e. check_replacement E False parent' again request' d' = Inl e"
    if again: "get_command_row cid d' = Some again" for again parent' request'
  proof (cases "check_replacement E False parent' again request' d'")
    case (Inr x)
    then have "retry_allowed again d'"
      by (simp add: check_replacement_returns check_replacement_command_returns)
    moreover have "db_commands d1 = db_commands d" using create_spawn_locked_tables(2) [OF locked] .
    then have "c_replacement_node_id again = Some (scd_child_node_id created)"
      "c_replacement_status again = Some Repl_Pending"
      using again cmd
      by (auto simp: d' get_command_row_def update_command_def lookup_revise)
    ultimately show ?thesis by (simp add: retry_allowed_def)
  qed simp
  ultimately show ?thesis
    using cmd ok
    by (intro exI [of _ command] exI [of _ stored] exI [of _ m] exI [of _ old] exI [of _ ?child])
      (simp add: child_node_def correction_lineage_def manifest_matches_def)
qed

definition recovery_manifest :: replacement_manifest where
  "recovery_manifest =
    \<lparr>mf_schema_version = 1, mf_policy_version = ''tracefence-replacement-v1'',
     mf_role = ''postgres_recovery'', mf_behavior = ''cooperative'',
     mf_instruction_digest = payload_digest sample_env (JObj []), mf_instruction_version = 2,
     mf_capabilities_exact = [''tool:restart_postgres''], mf_max_children = 0,
     mf_recovery_contract =
       \<lparr>ct_schema_version = 1, ct_expected_tool = Some ''restart_postgres'',
        ct_expected_arguments_digest = payload_digest sample_env (JObj []),
        ct_allowed_environment = ''test'', ct_allowed_resources = [''postgres''],
        ct_max_committed_invocations = 1, ct_stability_window_seconds = 0,
        ct_postconditions = []\<rparr>\<rparr>"

definition correction_command :: command where
  "correction_command =
    \<lparr>c_id = ''-control_commands'', c_idempotency_key = ''cmd1'', c_issuer_fingerprint = ''human:op'',
     c_request_payload_digest = [], c_run_id = ''-runs'', c_issuer_node_id = None,
     c_issuer_type = Human, c_command_type = Correct_Subtree, c_source_proposal_id = None,
     c_target_node_id = ''1-nodes'', c_target_scope_id = ''11-control_scopes'',
     c_from_version = 1, c_to_version = 2, c_reason_code = ''WRONG'', c_reason_text = ''wrong'',
     c_replacement_parent_id = Some ''-nodes'', c_replacement_instruction = Some [],
     c_replacement_expected_tool = Some ''restart_postgres'',
     c_replacement_manifest = Some (manifest_json recovery_manifest),
     c_replacement_manifest_digest =
       Some (payload_digest sample_env (manifest_json recovery_manifest)),
     c_replacement_node_id = None, c_replacement_status = Some Repl_Pending, c_created_at = noon\<rparr>"

definition corrected_db :: db where
  "corrected_db = sample_db
    \<lparr>db_scopes := [sample_scope ''-control_scopes'' None,
       sample_scope ''1-control_scopes'' (Some ''-nodes''),
       (sample_scope ''11-control_scopes'' (Some ''1-nodes''))
         \<lparr>sc_version := 2, sc_status := Scope_Superseded\<rparr>],
     db_commands := [correction_command]\<rparr>"

definition replacement_request :: spawn_create where
  "replacement_request = sample_spawn\<lparr>sp_operation_key := None, sp_role := ''postgres_recovery''\<rparr>"

lemma recovery_manifest_ok: "manifest_ok recovery_manifest"
  by (simp add: recovery_manifest_def manifest_ok_def contract_ok_def hex64_payload len_ok_def
      between_def opt_ok_def)

lemma sample_replacement_checked:
  "check_replacement sample_env False sample_root correction_command replacement_request corrected_db =
     Inr sample_child"
proof -
  have "check_replacement_command sample_env False sample_root correction_command corrected_db = Inr ()"
    by (simp add: check_replacement_command_returns correction_command_def retry_allowed_def
        enforce_graph_budget_returns node_count_def child_count_def corrected_db_def)
  moreover have "check_correction_lineage sample_env sample_root correction_command
      replacement_request corrected_db = Inr sample_child"
    by (simp add: check_correction_lineage_returns correction_command_def corrected_db_def
        row_get_defs replacement_request_def sample_spawn_def jopt_def)
  moreover have "check_replacement_manifest sample_env sample_root sample_child correction_command
      replacement_request = Inr ()"
    using manifest_roundtrip' [OF recovery_manifest_ok]
    by (simp add: check_replacement_manifest_returns correction_command_def manifest_matches_def
        recovery_manifest_def replacement_request_def sample_spawn_def)
  ultimately show ?thesis by (simp add: check_replacement_returns)
qed

theorem replacement_exact_witness:
  "\<exists>created d'. create_replacement_body sample_env sample_codecs (\<lambda>i. noon + 1) ''at'' ''nonce'' []
     ''-control_commands'' replacement_request sample_root corrected_db = Inr (created, d') \<and>
     length (db_nodes d') = 3"
proof -
  have "node_live (noon + 1) sample_root corrected_db"
    by (simp add: node_live_def live_node_statuses_def lease_live_def evaluate_allowed_iff
        entry_current_def live_scope_def corrected_db_def get_run_row_def)
  moreover have "get_command_row ''-control_commands'' corrected_db = Some correction_command"
    by (simp add: get_command_row_def corrected_db_def correction_command_def)
  moreover obtain created d1 where "create_spawn_locked sample_env (\<lambda>i. noon + 1) ''at'' [] sample_root
      replacement_request (correction_lineage sample_child correction_command) corrected_db = (created, d1)"
    by fastforce
  ultimately have "\<exists>created d'. create_replacement_body sample_env sample_codecs (\<lambda>i. noon + 1) ''at''
      ''nonce'' [] ''-control_commands'' replacement_request sample_root corrected_db = Inr (created, d')"
    unfolding create_replacement_body_returns using sample_replacement_checked by simp
  then obtain created d' where r: "create_replacement_body sample_env sample_codecs (\<lambda>i. noon + 1) ''at''
      ''nonce'' [] ''-control_commands'' replacement_request sample_root corrected_db = Inr (created, d')"
    by blast
  have "length (db_nodes corrected_db) = 2" by (simp add: corrected_db_def)
  with replacement_exact [OF r] show ?thesis using r by auto
qed

section \<open>The lease scan\<close>

lemma expire_node_nodes:
  assumes "expire_node E now n d = Inr d'"
  shows "db_nodes d' = map (mark_expired {n_id n}) (db_nodes d) \<and> db_intents d' = db_intents d"
proof -
  let ?d2 = "expire_replacement n (update_node (n_id n) (\<lambda>n. n\<lparr>n_status := Node_Lease_Expired\<rparr>) d)"
  obtain d3 where f: "fail_root_run now n ?d2 = Inr d3"
    and d': "d' = record_runtime_event (lease_event n now) (record_lease_expiry_ack E n now d3)"
    using assms by (auto simp: expire_node_def andthen_returns Let_def)
  have "db_nodes d3 = db_nodes ?d2" "db_intents d3 = db_intents ?d2"
    using f transition_run_tables by (auto simp: fail_root_run_def split: option.splits if_splits)
  then show ?thesis
    by (auto simp: d' update_node_def revise_def mark_expired_def record_runtime_event_def)
qed

lemma expire_all_nodes:
  "foldm (expire_node E now) ns d = Inr d' \<Longrightarrow>
   db_nodes d' = map (mark_expired (n_id ` set ns)) (db_nodes d) \<and> db_intents d' = db_intents d"
proof (induction ns arbitrary: d)
  case Nil
  then show ?case by (simp add: mark_expired_def)
next
  case (Cons n ns)
  then obtain d1 where d1: "expire_node E now n d = Inr d1" and rest: "foldm (expire_node E now) ns d1 = Inr d'"
    by (auto simp: andthen_returns)
  have "n_id ` set (n # ns) = n_id ` set ns \<union> {n_id n}" by auto
  then show ?case
    using Cons.IH [OF rest] expire_node_nodes [OF d1] map_mark_expired_twice by metis
qed

text \<open>The lease scan marks exactly the overdue nodes of its runs as \<open>LEASE_EXPIRED\<close>, leaves every
  other node as it is, reports how many it marked, and a second scan at the same time finds nothing.\<close>

theorem lease_scan:
  assumes "expire_stale_nodes E now run_filter d = Inr (marked, d')"
  shows "marked = int (length (overdue_nodes now run_filter d)) \<and>
    db_nodes d' = map (\<lambda>n. if n_id n \<in> n_id ` set (overdue_nodes now run_filter d)
        then n\<lparr>n_status := Node_Lease_Expired\<rparr> else n) (db_nodes d) \<and>
    expire_stale_nodes E now run_filter d' = Inr (0, d')"
proof -
  let ?ns = "overdue_nodes now run_filter d"
  have fold: "foldm (expire_node E now) ?ns d = Inr d'" and c: "marked = int (length ?ns)"
    using assms by (auto simp: expire_stale_nodes_def andthen_returns Let_def)
  note eff = expire_all_nodes [OF fold]
  have "overdue_nodes now run_filter d' = []"
  proof -
    have "\<not> (lease_overdue now n \<and> in_run run_filter (n_run_id n)) \<and>
        \<not> (pending_overdue now d' n \<and> in_run run_filter (n_run_id n))"
      if new: "n \<in> set (db_nodes d')" for n
    proof -
      obtain r where r: "r \<in> set (db_nodes d)" and n: "n = mark_expired (n_id ` set ?ns) r"
        using eff new by auto
      show ?thesis
      proof (cases "n_id r \<in> n_id ` set ?ns")
        case True
        then show ?thesis
          by (simp add: n mark_expired_def lease_overdue_def pending_overdue_def live_node_statuses_def)
      next
        case False
        then have "r \<notin> set ?ns" by blast
        then show ?thesis
          using r eff False by (auto simp: n mark_expired_def overdue_nodes_def pending_overdue_def)
      qed
    qed
    then show ?thesis by (auto simp: overdue_nodes_def filter_empty_conv)
  qed
  then show ?thesis
    using c eff by (simp add: expire_stale_nodes_def mark_expired_def)
qed

theorem lease_scan_witness:
  "\<exists>d'. expire_stale_nodes sample_env (noon + 20000000) None long_db = Inr (1, d') \<and>
     map n_status (db_nodes d') = [Node_Active, Node_Lease_Expired]"
proof -
  have over: "overdue_nodes (noon + 20000000) None long_db = [sample_child]"
    by (simp add: overdue_nodes_def long_db_def long_root_def lease_overdue_def live_node_statuses_def
        pending_overdue_def in_run_def)
  then have "\<exists>d'. expire_stale_nodes sample_env (noon + 20000000) None long_db = Inr (1, d')"
    by (simp add: expire_stale_nodes_def expire_node_def fail_root_run_def expire_replacement_def
        long_db_def update_node_def get_run_row_def)
  then obtain d' where e: "expire_stale_nodes sample_env (noon + 20000000) None long_db = Inr (1, d')"
    by blast
  from lease_scan [OF e] show ?thesis using e over by (auto simp: long_db_def long_root_def)
qed

text \<open>The gauges count every live node once, as active exactly when its scopes allow it, and the
  orphans are among the unacknowledged ones, which are among the affected ones.\<close>

theorem gauges_partition:
  "g_active_nodes (refresh_runtime_gauges E now d) + g_live_affected_nodes (refresh_runtime_gauges E now d) =
     int (length (filter (\<lambda>n. n_status n \<in> live_node_statuses \<and> lease_live now n) (db_nodes d))) \<and>
   g_active_nodes (refresh_runtime_gauges E now d) =
     int (length (filter (\<lambda>n. se_allowed (evaluate_scopes d n))
       (filter (\<lambda>n. n_status n \<in> live_node_statuses \<and> lease_live now n) (db_nodes d)))) \<and>
   gauges_ok (refresh_runtime_gauges E now d)"
proof -
  let ?live = "filter (\<lambda>n. n_status n \<in> live_node_statuses \<and> lease_live now n) (db_nodes d)"
  let ?zero = "\<lparr>g_active_nodes = 0, g_live_affected_nodes = 0, g_unacknowledged_live_nodes = 0,
       g_orphan_nodes = 0\<rparr>"
  have "gauges_ok (fold (count_node E now d) ?live ?zero)"
    by (rule fold_keeps [where P = gauges_ok]) (simp_all add: gauges_ok_def [of ?zero] count_node_ok)
  then show ?thesis
    unfolding refresh_runtime_gauges_def
    using fold_count_total [of E now d ?live ?zero] fold_count_active [of E now d ?live ?zero]
    by (simp del: filter_filter)
qed

end
