(* ===== verification/Audit_Properties.thy ===== *)
theory Audit_Properties
  imports Sample
begin

text \<open>
  The properties of the observers: the auditor and its outbox, the convergence proof with its verdict
  lattice and its cache, the one-shot fixture and the paging of events.
\<close>

section \<open>The auditor and the outbox\<close>

text \<open>A violation is recorded once: scanning again what a scan has seen records nothing more and
  changes nothing, and the audit tables keep their constraints and unique keys.\<close>

theorem audit_idempotent:
  "scan E clk' rid (snd (scan E clk rid d)) = (0, snd (scan E clk rid d)) \<and>
   (audit_ok d \<longrightarrow> audit_ok (snd (scan E clk rid d)))"
proof -
  obtain d' n where f: "fold (record_candidate E clk) (discover_candidates rid d) (d, 0) = (d', n)"
    by fastforce
  have "discover_candidates rid d' = discover_candidates rid d"
    using fold_record_tables [OF f] by (intro discover_same_tables) simp_all
  moreover have "fold (record_candidate E clk') (discover_candidates rid d) (d', 0) = (d', 0)"
    by (rule fold_record_noop) (rule fold_record_accounts [OF f], simp)
  moreover have "scan E clk rid d = (n, d')" by (simp add: scan_def f)
  ultimately show ?thesis using scan_ok [of d E clk rid] by (simp add: scan_def)
qed

theorem audit_idempotent_witness:
  "audit_ok (snd (scan sample_env (\<lambda>i. noon) None sample_db))"
  using audit_idempotent [of sample_env "\<lambda>i. noon" None "\<lambda>i. noon" sample_db]
  by (simp add: audit_ok_def)

text \<open>C26: a claim on an outbox row is exclusive: after a worker was given a row, and for the 30 seconds of
  its claim, no claim gives the row to anybody, whatever all the workers do in the meantime (claims,
  deliveries and failures of the others, and its own on other rows), as long as this worker itself does
  not finish with the row; finishing, delivered or given back after a failure, is what ends a claim early.\<close>

theorem claim_exclusive:
  assumes "claim_pending owner limit now d = (ids, d1)" and "k \<in> set ids"
    and "outbox_work owner (now + seconds 30) k d1 d2"
    and "claim_pending other limit' later d2 = (ids', d3)" and "later < now + seconds 30"
  shows "k \<notin> set ids' \<and> (\<forall>r. row_of k d2 = Some r \<longrightarrow> o_claim_owner r = Some owner)"
proof -
  have h: "held owner (now + seconds 30) k d2"
    by (rule outbox_work_held [OF assms(3) claim_holds [OF assms(1,2)]])
  then have "o_claim_owner r = Some owner" if "row_of k d2 = Some r" for r
    using that by (auto simp: held_def row_of_def dest: lookup_SomeD)
  then show ?thesis using held_not_claimed [OF h assms(5,4)] by blast
qed

definition sample_outbox :: outbox_row where
  "sample_outbox = \<lparr>o_id = ''-telemetry_outbox'', o_event_key = ''k'', o_run_id = ''-runs'',
     o_event_type = stale_commit_event, o_payload = JNull, o_created_at = noon,
     o_delivered_at = None, o_attempts = 0, o_last_error = None, o_last_attempt_at = None,
     o_next_attempt_at = None, o_claim_owner = None, o_claim_expires_at = None\<rparr>"

definition outbox_db :: db where
  "outbox_db = sample_db\<lparr>db_outbox := [sample_outbox]\<rparr>"

text \<open>Another worker looks at the outbox, and is given nothing, before and after a third one delivered.\<close>

theorem claim_exclusive_witness:
  "\<exists>d1 d2. claim_pending ''w1'' 10 noon outbox_db = ([''-telemetry_outbox''], d1) \<and>
     d2 = fst (deliver_one ''w3'' (noon + 4) True (\<lambda>_. snd (claim_pending ''w2'' 10 (noon + 3) d1))
       ''-telemetry_outbox'' (d1, 0)) \<and>
     ''-telemetry_outbox'' \<notin> set (fst (claim_pending ''w2'' 10 (noon + 5) d2))"
proof -
  have "fst (claim_pending ''w1'' 10 noon outbox_db) = [''-telemetry_outbox'']"
    by (simp add: claim_pending_def outbox_db_def sample_outbox_def claimable_def)
  then obtain d1 where c: "claim_pending ''w1'' 10 noon outbox_db = ([''-telemetry_outbox''], d1)"
    by (cases "claim_pending ''w1'' 10 noon outbox_db") simp
  let ?look = "snd (claim_pending ''w2'' 10 (noon + 3) d1)"
  let ?d2 = "fst (deliver_one ''w3'' (noon + 4) True (\<lambda>_. ?look) ''-telemetry_outbox'' (d1, 0))"
  note start = outbox_work.idle [of "''w1''" "noon + seconds 30" "''-telemetry_outbox''" d1]
  have "outbox_work ''w1'' (noon + seconds 30) ''-telemetry_outbox'' d1 ?look"
    by (rule outbox_work.claims [OF start]) (simp add: seconds_def)
  from outbox_work.delivers [OF start this]
  have "outbox_work ''w1'' (noon + seconds 30) ''-telemetry_outbox'' d1 ?d2" by simp
  from claim_exclusive [OF c _ this surjective_pairing, of "noon + 5" "''w2''" 10] show ?thesis
    using c by (simp add: seconds_def)
qed

text \<open>C27: a worker that exported an event writes the row only while the row is still undelivered and
  still claimed by it, whatever other workers did during the export; a delivery that is counted is
  recorded, and a failed one is put off by 1 to 256 seconds.\<close>

theorem delivery_guarded:
  assumes "deliver_one owner now flushed meanwhile k (d, n) = (d', m)"
  shows "(\<not> still_mine owner (row_of k d) \<longrightarrow> d' = d \<and> m = n) \<and>
    (still_mine owner (row_of k d) \<and> \<not> still_mine owner (row_of k (meanwhile d)) \<longrightarrow>
       d' = meanwhile d \<and> m = n) \<and>
    (m \<noteq> n \<longrightarrow> m = n + 1 \<and> flushed \<and>
       (\<exists>r. row_of k d' = Some r \<and> o_delivered_at r = Some now)) \<and>
    (still_mine owner (row_of k d) \<and> still_mine owner (row_of k (meanwhile d)) \<and> m = n \<longrightarrow>
       (\<exists>r t. row_of k d' = Some r \<and> o_delivered_at r = None \<and> o_claim_owner r = None \<and>
          o_next_attempt_at r = Some t \<and> now + seconds 1 \<le> t \<and> t \<le> now + seconds 256))"
proof (cases "still_mine owner (row_of k d) \<and> still_mine owner (row_of k (meanwhile d))")
  case False
  then show ?thesis
    using assms by (auto simp: deliver_one_def Let_def still_mine_def split: option.splits if_splits)
next
  case True
  obtain r r1 where r: "row_of k d = Some r" and r1: "row_of k (meanwhile d) = Some r1"
      "o_delivered_at r1 = None"
    using True by (auto simp: still_mine_def split: option.splits)
  have row: "row_of k (db_outbox_update (revise o_id k f) (meanwhile d)) = Some (f r1)"
    if "\<And>r. o_id (f r) = o_id r" for f
    using that r1(1) by (simp add: row_of_def lookup_revise)
  define err where "err = (if o_event_type r = stale_commit_event then flush_error
      else unknown_event_error (o_event_type r))"
  have cases: "(d', m) =
      (if o_event_type r = stale_commit_event \<and> flushed
       then (db_outbox_update (revise o_id k (deliver_row now)) (meanwhile d), n + 1)
       else (db_outbox_update (revise o_id k (postpone_row err now)) (meanwhile d), n))"
    using assms True r by (auto simp: deliver_one_def Let_def err_def)
  have "now + seconds 1 \<le> now + seconds (backoff_seconds (o_attempts r1)) \<and>
      now + seconds (backoff_seconds (o_attempts r1)) \<le> now + seconds 256"
    using backoff_bounds [of "o_attempts r1"] by (simp add: seconds_def)
  then show ?thesis
    using True cases r1 row [of "deliver_row now"] row [of "postpone_row err now"]
    by (auto simp: deliver_row_def postpone_row_def split: if_splits)
qed

theorem delivery_guarded_witness:
  "\<exists>d' r. deliver_one ''w1'' (noon + 2) True id ''-telemetry_outbox''
     (snd (claim_pending ''w1'' 10 noon outbox_db), 0) = (d', 1) \<and>
     row_of ''-telemetry_outbox'' d' = Some r \<and> o_delivered_at r = Some (noon + 2)"
proof -
  let ?d = "snd (claim_pending ''w1'' 10 noon outbox_db)"
  have "snd (deliver_one ''w1'' (noon + 2) True id ''-telemetry_outbox'' (?d, 0)) = 1"
    by (simp add: claim_pending_def outbox_db_def sample_outbox_def claimable_def deliver_one_def
        still_mine_def row_of_def claim_row_def)
  then obtain d' where
    d: "deliver_one ''w1'' (noon + 2) True id ''-telemetry_outbox'' (?d, 0) = (d', 1)"
    by (cases "deliver_one ''w1'' (noon + 2) True id ''-telemetry_outbox'' (?d, 0)") simp
  from delivery_guarded [OF d] show ?thesis using d by auto
qed

section \<open>The convergence proof\<close>

text \<open>Combining verdicts is taking the worst applicable one, in the order of the lattice: the
  result does not depend on order or repetition, and it is \<open>NOT_APPLICABLE\<close> only when nothing
  applies.\<close>

theorem verdict_lattice:
  "combine_proof_verdicts vs =
     (if set vs \<subseteq> {Not_Applicable} then Not_Applicable else Min (set vs - {Not_Applicable})) \<and>
   (combine_proof_verdicts vs = Verified \<longleftrightarrow>
      Verified \<in> set vs \<and> set vs \<subseteq> {Verified, Not_Applicable})"
proof (cases "\<exists>v \<in> set vs. v \<noteq> Not_Applicable")
  case True
  then have "\<not> set vs \<subseteq> {Not_Applicable}" by blast
  then show ?thesis using combine_Min [OF True] combine_verified_iff [of vs] by simp
next
  case False
  then have "set vs \<subseteq> {Not_Applicable}" by blast
  then show ?thesis using False combine_none_applicable [of vs] combine_verified_iff [of vs] by simp
qed

text \<open>C6: an overall \<open>VERIFIED\<close> is earned: no stale side effect was committed, every affected node is
  classified, no unrelated branch was interrupted, the telemetry agrees, and a correction has a
  registered replacement with exactly the authorised lineage.\<close>

theorem verified_means:
  assumes "build_uncached E clk cid tp d = Inr ((response, px), d')"
    and "pf_overall_verdict response = Verified"
  shows "\<exists>c target. get_command_row cid d = Some c \<and> get_node_row (c_target_node_id c) d = Some target \<and>
    (let ev = collect_evidence d (clk 0) c target in
       ev_stale_committed ev = 0 \<and> ev_unclassified ev = [] \<and> ev_unrelated ev = 0 \<and>
       length (ev_classes ev) = length (ev_affected ev)) \<and>
    tp_verdict tp \<in> {Verified, Not_Applicable} \<and>
    (c_command_type c = Correct_Subtree \<longrightarrow>
      (\<exists>stored m k n. c_replacement_manifest c = Some stored \<and>
         c_replacement_manifest_digest c = Some (payload_digest E stored) \<and>
         manifest_of_json stored = Some m \<and> c_replacement_node_id c = Some k \<and>
         get_node_row k d = Some n \<and> lineage_matches E c target m n))"
proof -
  obtain c target where c: "get_command_row cid d = Some c"
      "get_node_row (c_target_node_id c) d = Some target"
    and r: "response = proof_response_of c (collect_evidence d (clk 0) c target)
       (replacement_verdicts_of E d (clk 1) c target) tp"
    using assms(1) by (auto simp: build_uncached_def outcome)
  note v = overall_verified [OF assms(2) [unfolded r]]
  have ev: "ev_stale_committed (collect_evidence d (clk 0) c target) = 0"
      "ev_unclassified (collect_evidence d (clk 0) c target) = []"
      "ev_unrelated (collect_evidence d (clk 0) c target) = 0"
    using v(1) by (simp_all add: control_verified_iff)
  then have "length (ev_classes (collect_evidence d (clk 0) c target)) =
      length (ev_affected (collect_evidence d (clk 0) c target))"
    using evidence_partition [of d "clk 0" c target] by simp
  then show ?thesis
    using c ev v(6) replacement_verified [OF v(2)]
    by (intro exI [of _ c] exI [of _ target]) (simp add: Let_def)
qed

definition stop_command :: command where
  "stop_command =
    \<lparr>c_id = ''-commands'', c_idempotency_key = ''cmd1'', c_issuer_fingerprint = ''f'',
     c_request_payload_digest = ''d'', c_run_id = ''-runs'', c_issuer_node_id = None,
     c_issuer_type = Human, c_command_type = Cancel_Subtree, c_source_proposal_id = None,
     c_target_node_id = ''1-nodes'', c_target_scope_id = ''11-control_scopes'',
     c_from_version = 1, c_to_version = 2, c_reason_code = ''STOP'', c_reason_text = ''stop'',
     c_replacement_parent_id = None, c_replacement_instruction = None,
     c_replacement_expected_tool = None, c_replacement_manifest = None,
     c_replacement_manifest_digest = None, c_replacement_node_id = None,
     c_replacement_status = None, c_created_at = noon + 1\<rparr>"

definition stopped_db :: db where
  "stopped_db = sample_db
    \<lparr>db_scopes := [sample_scope ''-control_scopes'' None,
       sample_scope ''1-control_scopes'' (Some ''-nodes''),
       (sample_scope ''11-control_scopes'' (Some ''1-nodes''))
         \<lparr>sc_status := Scope_Cancelled, sc_version := 2\<rparr>],
     db_commands := [stop_command],
     db_acks := [\<lparr>k_id = ''-acks'', k_run_id = ''-runs'', k_command_id = ''-commands'',
       k_node_id = ''1-nodes'', k_ack_type = Ack_Cooperative, k_observed_at = noon + 2,
       k_observed_scope_version = 2\<rparr>]\<rparr>"

definition no_telemetry :: telemetry_proof where
  "no_telemetry = \<lparr>tp_verdict = Not_Applicable, tp_discrepancies = [], tp_trace_ids = []\<rparr>"

lemma stopped_tables [simp]:
  "db_nodes stopped_db = [sample_root, sample_child]" "db_actions stopped_db = []"
  "get_command_row ''-commands'' stopped_db = Some stop_command"
  "get_node_row ''1-nodes'' stopped_db = Some sample_child"
  "get_run_row ''-runs'' stopped_db = Some sample_run"
  by (simp_all add: stopped_db_def row_get_defs stop_command_def)

lemma stop_command_fields [simp]:
  "c_id stop_command = ''-commands''" "c_run_id stop_command = ''-runs''"
  "c_command_type stop_command = Cancel_Subtree" "c_target_node_id stop_command = ''1-nodes''"
  "c_target_scope_id stop_command = ''11-control_scopes''" "c_created_at stop_command = noon + 1"
  by (simp_all add: stop_command_def)

lemma stopped_affected: "affected_nodes stopped_db stop_command sample_child = [sample_child]"
  by (simp add: affected_nodes_def descendants_including_self_def children_def List.find.simps)

lemma stopped_class: "classify stopped_db stop_command acts now sample_child = Acknowledged"
  by (simp add: classify_def acked_before_def acked_as_def stopped_db_def sample_child_def sample_root_def)

lemma stopped_unrelated: "se_allowed (evaluate_scopes stopped_db sample_root)"
  by (simp add: evaluate_allowed_iff entry_current_def live_scope_def stopped_db_def)

lemma stopped_control:
  "control_verdict (collect_evidence stopped_db now stop_command sample_child) = Verified"
  by (simp add: control_verdict_def collect_evidence_def Let_def stopped_affected stopped_class
      later_actions_def stale_committed_count_def unrelated_interrupted_def stopped_unrelated)

lemma stopped_proof:
  "\<exists>r px d'. build_uncached sample_env (\<lambda>_. noon + 9) ''-commands'' no_telemetry stopped_db =
     Inr ((r, px), d') \<and> pf_overall_verdict r = Verified"
  by (simp add: build_uncached_def get_run_def proof_response_of_def Let_def stopped_control
      replacement_verdicts_of_def no_telemetry_def combine_proof_verdicts_def)

theorem verified_means_witness:
  "\<exists>target. get_node_row ''1-nodes'' stopped_db = Some target \<and>
     ev_unclassified (collect_evidence stopped_db (noon + 9) stop_command target) = []"
proof -
  obtain r px d' where b: "build_uncached sample_env (\<lambda>_. noon + 9) ''-commands'' no_telemetry stopped_db =
     Inr ((r, px), d')" and v: "pf_overall_verdict r = Verified"
    using stopped_proof by blast
  show ?thesis using verified_means [OF b v] by (auto simp: Let_def)
qed

end
