(* ===== verification/Payloads.thy ===== *)
theory Payloads
  imports Config "HOL-Library.AList" "HOL-Library.Log_Nat"
begin

text \<open>
  The values SigNoz sends back and how \<open>signoz/mcp_client.py\<close> reads them: JSON values with Python's
  equality and truth, the conversion of timestamps through binary64, the advisory text blocks, the
  pages and rows of the Query Builder, and the three ways a tool result becomes rows, metric values
  or metric names.  \<open>json.loads\<close> and \<open>datetime.fromisoformat\<close> are fields of \<open>readers\<close>, arguments of
  every function here, so that the facts hold whatever text they accept.
\<close>

section \<open>JSON values\<close>

datatype pyfloat = Fin rat | Pos_Inf | Neg_Inf | NaN

datatype payload =
    PNull
  | PBool bool
  | PInt int
  | PFloat pyfloat
  | PStr string
  | PArr "payload list"
  | PObj "(string \<times> payload) list"

text \<open>A dict is the list of its items in insertion order; a key occurs once.\<close>

type_synonym dict = "(string \<times> payload) list"

definition dict_keys :: "dict \<Rightarrow> string set" where
  "dict_keys kv = fst ` set kv"

text \<open>\<open>d.get(key)\<close>.\<close>

definition dget :: "dict \<Rightarrow> string \<Rightarrow> payload" where
  "dget kv k = (case map_of kv k of None \<Rightarrow> PNull | Some v \<Rightarrow> v)"

text \<open>\<open>bool\<close> and \<open>int\<close> and \<open>float\<close> compare by value; the comparison of an int with a float is exact.\<close>

fun number_of :: "payload \<Rightarrow> pyfloat option" where
  "number_of (PBool b) = Some (Fin (of_bool b))"
| "number_of (PInt i) = Some (Fin (of_int i))"
| "number_of (PFloat f) = Some f"
| "number_of _ = None"

definition same_number :: "payload \<Rightarrow> payload \<Rightarrow> bool" where
  "same_number v w =
    (case (number_of v, number_of w) of
       (Some a, Some b) \<Rightarrow> a \<noteq> NaN \<and> a = b
     | _ \<Rightarrow> False)"

text \<open>
  \<open>v == w\<close>.  Inside a container Python takes identical objects for equal before it compares them,
  and every \<open>NaN\<close> of \<open>json.loads\<close> is the one object of the decoder's table of constants.
\<close>

fun py_eq :: "payload \<Rightarrow> payload \<Rightarrow> bool"
  and items_eq :: "payload list \<Rightarrow> payload list \<Rightarrow> bool"
  and fields_eq :: "dict \<Rightarrow> dict \<Rightarrow> bool" where
  "py_eq PNull w = (w = PNull)"
| "py_eq (PStr s) w = (w = PStr s)"
| "py_eq (PArr vs) w = (case w of PArr ws \<Rightarrow> items_eq vs ws | _ \<Rightarrow> False)"
| "py_eq (PObj kv) w = (case w of PObj lw \<Rightarrow> length kv = length lw \<and> fields_eq kv lw | _ \<Rightarrow> False)"
| "py_eq (PBool b) w = same_number (PBool b) w"
| "py_eq (PInt i) w = same_number (PInt i) w"
| "py_eq (PFloat f) w = same_number (PFloat f) w"
| "items_eq [] ws = (ws = [])"
| "items_eq (v # vs) ws =
     (case ws of
        [] \<Rightarrow> False
      | w # ws' \<Rightarrow> (v = PFloat NaN \<and> w = PFloat NaN \<or> py_eq v w) \<and> items_eq vs ws')"
| "fields_eq [] lw = True"
| "fields_eq ((k, v) # kv) lw =
     ((case map_of lw k of
         None \<Rightarrow> False
       | Some w \<Rightarrow> v = PFloat NaN \<and> w = PFloat NaN \<or> py_eq v w) \<and> fields_eq kv lw)"

text \<open>\<open>bool(v)\<close>.\<close>

fun truthy :: "payload \<Rightarrow> bool" where
  "truthy PNull = False"
| "truthy (PBool b) = b"
| "truthy (PInt i) = (i \<noteq> 0)"
| "truthy (PFloat f) = (f \<noteq> Fin 0)"
| "truthy (PStr s) = (s \<noteq> [])"
| "truthy (PArr vs) = (vs \<noteq> [])"
| "truthy (PObj kv) = (kv \<noteq> [])"

section \<open>Binary64\<close>

definition round_even :: "rat \<Rightarrow> int" where
  "round_even x =
    (let n = \<lfloor>x\<rfloor>; d = x - of_int n
     in if d < 1/2 then n else if 1/2 < d then n + 1 else if even n then n else n + 1)"

definition power_two :: "int \<Rightarrow> rat" where
  "power_two e = (if 0 \<le> e then 2 ^ nat e else 1 / 2 ^ nat (- e))"

text \<open>The \<open>e\<close> with \<open>2^e \<le> x < 2^(e+1)\<close>, for a positive \<open>x\<close>.\<close>

definition binary_exponent :: "rat \<Rightarrow> int" where
  "binary_exponent x =
    (let (p, q) = quotient_of x; e = bitlen p - bitlen q
     in if power_two e \<le> x then e else e - 1)"

text \<open>Round to nearest, ties to even, with 53 bits; the magnitudes met here are normal numbers.\<close>

definition binary64 :: "rat \<Rightarrow> rat" where
  "binary64 x =
    (if x = 0 then 0
     else let unit = power_two (binary_exponent \<bar>x\<bar> - 52)
          in sgn x * of_int (round_even (\<bar>x\<bar> / unit)) * unit)"

definition truncate_int :: "rat \<Rightarrow> int" where
  "truncate_int x = (if x < 0 then \<lceil>x\<rceil> else \<lfloor>x\<rfloor>)"

text \<open>\<open>int(t.timestamp() * 1000)\<close> of a time given in microseconds since the epoch.\<close>

definition epoch_ms :: "time \<Rightarrow> int" where
  "epoch_ms t = truncate_int (binary64 (binary64 (of_int t / 1000000) * 1000))"

text \<open>\<open>float(i)\<close>: an \<open>OverflowError\<close> beyond the largest binary64 number.\<close>

definition float_of_int :: "int \<Rightarrow> rat option" where
  "float_of_int i =
    (let x = binary64 (of_int i) in if \<bar>x\<bar> < power_two 1024 then Some x else None)"

section \<open>Readers and errors\<close>

text \<open>
  \<open>fromisoformat\<close> gives \<open>None\<close> for its \<open>ValueError\<close>, and otherwise whether the text named a time zone
  together with the instant in microseconds.
\<close>

record readers =
  rd_loads :: "string \<Rightarrow> payload option"
  rd_fromisoformat :: "string \<Rightarrow> (bool \<times> time) option"

datatype telemetry_error = Tool_Error string | Schema_Error string

datatype advisory_kind =
    No_Pagination | Page_Complete | Page_Incomplete | Metrics_Decision | Decision_Warning
  | Malformed_Metrics_Decision | Backend_Warning | Unknown_Advisory

section \<open>Advisories\<close>

definition ends_with :: "string \<Rightarrow> string \<Rightarrow> bool" where
  "ends_with suffix s \<longleftrightarrow> length suffix \<le> length s \<and> drop (length s - length suffix) s = suffix"

text \<open>A literal prefix, and \<open>\\d+\<close>, taken off the front of a text.\<close>

definition after_text :: "string \<Rightarrow> string \<Rightarrow> string option" where
  "after_text prefix s = (if starts_with prefix s then Some (drop (length prefix) s) else None)"

definition after_digits :: "string \<Rightarrow> string option" where
  "after_digits s = (if takeWhile is_digit s = [] then None else Some (dropWhile is_digit s))"

text \<open>\<open>.+suffix\<close>: at least one character before the suffix, none of them a line feed.\<close>

definition some_then :: "string \<Rightarrow> string \<Rightarrow> bool" where
  "some_then suffix s \<longleftrightarrow>
     ends_with suffix s \<and> length suffix < length s \<and>
     CHR 0x0A \<notin> set (take (length s - length suffix) s)"

text \<open>What follows \<open>note: returned \\d+ rows (limit \\d+) \<close>.\<close>

definition note_tail :: "string \<Rightarrow> string option" where
  "note_tail s =
    Option.bind (after_text ''note: returned '' s) (\<lambda>s1.
    Option.bind (after_digits s1) (\<lambda>s2.
    Option.bind (after_text '' rows (limit '' s2) (\<lambda>s3.
    Option.bind (after_digits s3) (\<lambda>s4.
    after_text '') '' s4))))"

definition matches_note :: "string list \<Rightarrow> string \<Rightarrow> bool" where
  "matches_note suffixes s =
    (case note_tail s of None \<Rightarrow> False | Some t \<Rightarrow> \<exists>x \<in> set suffixes. some_then x t)"

definition pagination_note :: "string \<Rightarrow> bool" where
  "pagination_note = matches_note [''all matching results returned (hasMore=false).'']"

definition incomplete_pagination_note :: "string \<Rightarrow> bool" where
  "incomplete_pagination_note =
    matches_note [''(hasMore=true).'', ''more results exist.'', ''result limited.'',
      ''results limited.'', ''results truncated.'']"

text \<open>\<open>str.splitlines\<close>; a carriage return with its line feed is one boundary.\<close>

definition is_boundary :: "char \<Rightarrow> bool" where
  "is_boundary c = (let n = of_char c :: nat in
     10 \<le> n \<and> n \<le> 13 \<or> 28 \<le> n \<and> n \<le> 30 \<or> n = 133)"

fun split_lines :: "string \<Rightarrow> string \<Rightarrow> string list" where
  "split_lines acc [] = (if acc = [] then [] else [rev acc])"
| "split_lines acc (c # cs) =
     (if c = CHR 0x0D \<and> cs \<noteq> [] \<and> hd cs = CHR 0x0A then rev acc # split_lines [] (tl cs)
      else if is_boundary c then rev acc # split_lines [] cs
      else split_lines (c # acc) cs)"

definition decision_header :: string where
  "decision_header = ''[Decisions applied]'' @ [CHR 0x0A]"

definition decision_kind :: "string \<Rightarrow> advisory_kind" where
  "decision_kind text =
    (let lower = map lower_char text; lines = drop 1 (split_lines [] text)
     in if contains ''warning:'' lower \<or> contains ''unknown'' lower \<or> contains ''assumed'' lower
        then Decision_Warning
        else if lines \<noteq> [] \<and> list_all (\<lambda>l. starts_with ''  '' l \<and> CHR '':'' \<in> set l) lines
        then Metrics_Decision
        else Malformed_Metrics_Decision)"

definition validate_advisory :: "string \<Rightarrow> advisory_kind" where
  "validate_advisory advisory =
    (let text = strip advisory
     in if pagination_note text then Page_Complete
        else if incomplete_pagination_note text then Page_Incomplete
        else if starts_with decision_header text then decision_kind text
        else if starts_with ''note: signoz backend returned non-fatal warnings:''
            (map lower_char text) then Backend_Warning
        else Unknown_Advisory)"

fun advisory_refusal :: "advisory_kind \<Rightarrow> string option" where
  "advisory_refusal Backend_Warning = Some ''SigNoz backend warning makes evidence ambiguous''"
| "advisory_refusal Decision_Warning =
     Some ''SigNoz decision advisory contains a warning or assumption''"
| "advisory_refusal Malformed_Metrics_Decision =
     Some ''SigNoz metrics decision advisory is malformed''"
| "advisory_refusal Page_Incomplete = Some ''SigNoz evidence page is incomplete''"
| "advisory_refusal Unknown_Advisory =
     Some ''MCP result contained an unknown advisory content block''"
| "advisory_refusal _ = None"

fun advisories_from ::
    "readers \<Rightarrow> advisory_kind \<Rightarrow> string list \<Rightarrow> telemetry_error + advisory_kind" where
  "advisories_from R state [] = Inr state"
| "advisories_from R state (a # rest) =
     andthen (require (rd_loads R a = None)
        (Schema_Error ''MCP result contained ambiguous multiple JSON content blocks'')) (\<lambda>_.
     case advisory_refusal (validate_advisory a) of
       Some text \<Rightarrow> Inl (Schema_Error text)
     | None \<Rightarrow> advisories_from R
         (if validate_advisory a = Page_Complete then Page_Complete else state) rest)"

definition validate_advisories :: "readers \<Rightarrow> string list \<Rightarrow> telemetry_error + advisory_kind" where
  "validate_advisories R advisories = advisories_from R No_Pagination advisories"

section \<open>Rows\<close>

text \<open>\<open>_FIELD_ALIASES\<close>, grouped by the canonical name.\<close>

definition prefixed :: "string \<Rightarrow> string list \<Rightarrow> string \<Rightarrow> (string \<times> string) list" where
  "prefixed p names canonical =
     map (\<lambda>n. (n, canonical)) (names @ map (\<lambda>n. p @ n) names)"

definition field_aliases :: "(string \<times> string) list" where
  "field_aliases =
     [(''trace_id'', ''trace_id''), (''traceID'', ''trace_id''), (''traceId'', ''trace_id'')] @
     (''command_id'', ''command_id'') # prefixed ''attribute.'' [''tracefence.command.id''] ''command_id'' @
     (''run_id'', ''run_id'') # prefixed ''attribute.'' [''tracefence.run.id''] ''run_id'' @
     (''action_id'', ''action_id'') # prefixed ''attribute.'' [''tracefence.action.id''] ''action_id'' @
     (''node_id'', ''node_id'') # prefixed ''attribute.'' [''tracefence.node.id''] ''node_id'' @
     (''target_scope_id'', ''target_scope_id'') #
       prefixed ''attribute.'' [''tracefence.target_scope.id''] ''target_scope_id'' @
     (''snapshot_version'', ''snapshot_version'') #
       prefixed ''attribute.'' [''tracefence.snapshot.version''] ''snapshot_version'' @
     (''live_version'', ''live_version'') #
       prefixed ''attribute.'' [''tracefence.live.version''] ''live_version'' @
     (''live_status'', ''live_status'') #
       prefixed ''attribute.'' [''tracefence.live.status''] ''live_status'' @
     (''denial_reason'', ''denial_reason'') #
       prefixed ''attribute.'' [''tracefence.denial.reason''] ''denial_reason'' @
     [(''operation'', ''operation''), (''name'', ''operation''),
      (''event_name'', ''event_name''), (''event.name'', ''event_name''),
      (''timestamp_ms'', ''timestamp_ms'')] @
     (''service_name'', ''service_name'') #
       prefixed ''resource.'' [''service.name''] ''service_name'' @
     (''service_instance_id'', ''service_instance_id'') #
       prefixed ''resource.'' [''service.instance.id''] ''service_instance_id'' @
     (''process_instance_id'', ''process_instance_id'') #
       prefixed ''attribute.'' [''tracefence.process.instance.id''] ''process_instance_id'' @
     (''build_commit'', ''build_commit'') #
       prefixed ''attribute.'' [''tracefence.build.commit''] ''build_commit'' @
     (''schema_version'', ''schema_version'') #
       prefixed ''attribute.'' [''tracefence.schema.version''] ''schema_version'' @
     (''exported_at_ms'', ''exported_at_ms'') #
       prefixed ''attribute.'' [''tracefence.exported_at_ms''] ''exported_at_ms'' @
     (''sequence'', ''sequence'') #
       prefixed ''attribute.'' [''tracefence.export.sequence''] ''sequence'' @
     [(''metric_name'', ''metric_name''), (''metric.name'', ''metric_name''),
      (''value'', ''value''), (''__result'', ''value''), (''__result_0'', ''value'')]"

section \<open>The Query Builder envelope\<close>

definition put_unambiguous :: "dict \<Rightarrow> string \<Rightarrow> payload \<Rightarrow> telemetry_error + dict" where
  "put_unambiguous target key v =
    (case map_of target key of
       Some old \<Rightarrow>
         if py_eq old v then Inr (AList.update key v target)
         else Inl (Schema_Error (''Conflicting SigNoz aliases for '' @ key))
     | None \<Rightarrow> Inr (AList.update key v target))"

definition timestamp_to_milliseconds :: "readers \<Rightarrow> payload \<Rightarrow> telemetry_error + int" where
  "timestamp_to_milliseconds R v =
    (let malformed = Schema_Error ''SigNoz timestamp is malformed'' in
     case v of
       PInt i \<Rightarrow> Inr i
     | PFloat (Fin x) \<Rightarrow> if of_int \<lfloor>x\<rfloor> = x then Inr \<lfloor>x\<rfloor> else Inl malformed
     | PStr s \<Rightarrow>
         andthen (demand (rd_fromisoformat R
           (concat (map (\<lambda>c. if c = CHR ''Z'' then ''+00:00'' else [c]) s))) malformed) (\<lambda>(zoned, t).
         if zoned then Inr (epoch_ms t) else Inl (Schema_Error ''SigNoz timestamp lacks a timezone''))
     | _ \<Rightarrow> Inl malformed)"

definition column_alias :: "payload \<Rightarrow> telemetry_error + string" where
  "column_alias column =
    (case column of
       PStr s \<Rightarrow> if s \<noteq> [] then Inr s
         else Inl (Schema_Error ''SigNoz Query Builder column metadata is malformed'')
     | PObj kv \<Rightarrow>
         (case (if truthy (dget kv ''alias'') then dget kv ''alias'' else dget kv ''name'') of
            PStr (c # cs) \<Rightarrow> Inr (c # cs)
          | _ \<Rightarrow> Inl (Schema_Error ''SigNoz Query Builder column lacks an alias''))
     | _ \<Rightarrow> Inl (Schema_Error ''SigNoz Query Builder column metadata is malformed''))"

text \<open>A loop that appends one result for each item, or stops at the first error.\<close>

fun map_result :: "('a \<Rightarrow> 'e + 'b) \<Rightarrow> 'a list \<Rightarrow> 'e + 'b list" where
  "map_result f [] = Inr []"
| "map_result f (x # xs) = andthen (f x) (\<lambda>y. andthen (map_result f xs) (\<lambda>ys. Inr (y # ys)))"

definition parse_column_aliases :: "payload \<Rightarrow> telemetry_error + string list option" where
  "parse_column_aliases raw =
    (case raw of
       PNull \<Rightarrow> Inr None
     | PArr (c # cs) \<Rightarrow>
         andthen (map_result column_alias (c # cs)) (\<lambda>aliases.
         andthen (require (distinct aliases)
           (Schema_Error ''SigNoz Query Builder column aliases are duplicated'')) (\<lambda>_.
         Inr (Some aliases)))
     | _ \<Rightarrow> Inl (Schema_Error ''SigNoz Query Builder columns must be a non-empty array''))"

record query_page =
  qp_query_name :: string
  qp_rows :: "payload list"
  qp_columns :: "string list option"
  qp_next_cursor :: "string option"

definition legacy_rows :: "dict \<Rightarrow> telemetry_error + payload list" where
  "legacy_rows kv =
    (case dget kv ''rows'' of
       PNull \<Rightarrow> Inr []
     | PArr rows \<Rightarrow> Inr rows
     | _ \<Rightarrow> Inl (Schema_Error ''SigNoz Query Builder rows must be an array''))"

definition legacy_cursor :: "dict \<Rightarrow> telemetry_error + string option" where
  "legacy_cursor kv =
    (case map_of kv ''nextCursor'' of
       None \<Rightarrow> Inr None
     | Some (PStr s) \<Rightarrow> Inr (Some s)
     | _ \<Rightarrow> Inl (Schema_Error ''SigNoz Query Builder nextCursor must be a string''))"

definition metric_page ::
    "dict \<Rightarrow> telemetry_error + (payload list \<times> string list option)" where
  "metric_page kv =
    (case dget kv ''data'' of
       PArr raw \<Rightarrow>
         andthen (parse_column_aliases (dget kv ''columns'')) (\<lambda>columns.
         case columns of
           None \<Rightarrow>
             if raw = [] then Inr ([], None)
             else Inl (Schema_Error ''SigNoz metric Query Builder data requires columns'')
         | Some aliases \<Rightarrow> Inr (map (\<lambda>row. PObj [(''data'', row)]) raw, Some aliases))
     | _ \<Rightarrow> Inl (Schema_Error ''SigNoz metric Query Builder data must be an array''))"

definition parse_query_builder_page :: "payload \<Rightarrow> telemetry_error + query_page" where
  "parse_query_builder_page result_set =
    (case result_set of
       PObj kv \<Rightarrow>
         (case dget kv ''queryName'' of
            PStr (c # cs) \<Rightarrow>
              if dict_keys kv \<subseteq> {''queryName'', ''rows'', ''columns'', ''nextCursor''} then
                andthen (legacy_rows kv) (\<lambda>rows.
                andthen (legacy_cursor kv) (\<lambda>cursor.
                andthen (parse_column_aliases (dget kv ''columns'')) (\<lambda>columns.
                Inr \<lparr>qp_query_name = c # cs, qp_rows = rows, qp_columns = columns,
                     qp_next_cursor = cursor\<rparr>)))
              else if dict_keys kv = {''queryName'', ''data'', ''columns''} then
                andthen (metric_page kv) (\<lambda>(rows, columns).
                Inr \<lparr>qp_query_name = c # cs, qp_rows = rows, qp_columns = columns,
                     qp_next_cursor = None\<rparr>)
              else Inl (Schema_Error ''SigNoz result set contains an ambiguous row container'')
          | _ \<Rightarrow> Inl (Schema_Error ''SigNoz Query Builder result set lacks queryName''))
     | _ \<Rightarrow> Inl (Schema_Error ''SigNoz Query Builder result set must be an object''))"

definition row_items ::
    "string list option \<Rightarrow> payload \<Rightarrow> telemetry_error + (string \<times> payload) list" where
  "row_items columns raw =
    (case raw of
       PObj kv \<Rightarrow> Inr kv
     | PArr vs \<Rightarrow>
         (case columns of
            Some names \<Rightarrow>
              if length names = length vs then Inr (zip names vs)
              else Inl (Schema_Error ''Positional SigNoz row requires matching column aliases'')
          | None \<Rightarrow> Inl (Schema_Error ''Positional SigNoz row requires matching column aliases''))
     | _ \<Rightarrow> Inl (Schema_Error ''SigNoz Query Builder row data is malformed''))"

definition put_item :: "string \<times> payload \<Rightarrow> dict \<Rightarrow> telemetry_error + dict" where
  "put_item = (\<lambda>(name, v) target.
    (case map_of field_aliases name of
       None \<Rightarrow> Inr target
     | Some canonical \<Rightarrow> put_unambiguous target canonical v))"

definition adapt_query_builder_row ::
    "readers \<Rightarrow> string list option \<Rightarrow> dict \<Rightarrow> payload \<Rightarrow> telemetry_error + dict" where
  "adapt_query_builder_row R columns defaults row =
    (case row of
       PObj kv \<Rightarrow>
         andthen (require (dict_keys kv \<subseteq> {''timestamp'', ''data''})
           (Schema_Error ''SigNoz row contains an ambiguous data container'')) (\<lambda>_.
         andthen (row_items columns (dget kv ''data'')) (\<lambda>items.
         andthen (foldm put_item items defaults) (\<lambda>normalized.
         case map_of kv ''timestamp'' of
           None \<Rightarrow> Inr normalized
         | Some v \<Rightarrow> andthen (timestamp_to_milliseconds R v) (\<lambda>ms.
             put_unambiguous normalized ''timestamp_ms'' (PInt ms)))))
     | _ \<Rightarrow> Inl (Schema_Error ''SigNoz Query Builder row must be an object''))"

definition no_warnings :: "payload \<Rightarrow> telemetry_error + unit" where
  "no_warnings warning =
    (case warning of
       PNull \<Rightarrow> Inr ()
     | PObj kv \<Rightarrow>
         if dict_keys kv = {''warnings''} then
           (case dget kv ''warnings'' of
              PArr [] \<Rightarrow> Inr ()
            | PArr _ \<Rightarrow> Inl (Schema_Error ''SigNoz backend warning makes evidence ambiguous'')
            | _ \<Rightarrow> Inl (Schema_Error ''SigNoz warning list is malformed''))
         else Inl (Schema_Error ''SigNoz warning envelope is malformed'')
     | _ \<Rightarrow> Inl (Schema_Error ''SigNoz warning envelope is malformed''))"

definition is_str :: "payload \<Rightarrow> bool" where
  "is_str v \<longleftrightarrow> (case v of PStr _ \<Rightarrow> True | _ \<Rightarrow> False)"

definition is_obj :: "payload \<Rightarrow> bool" where
  "is_obj v \<longleftrightarrow> (case v of PObj _ \<Rightarrow> True | _ \<Rightarrow> False)"

definition outer_envelope :: "dict \<Rightarrow> telemetry_error + dict" where
  "outer_envelope kv =
    andthen (require (dict_keys kv = {''status'', ''data''})
      (Schema_Error ''SigNoz response contains an ambiguous result container'')) (\<lambda>_.
    andthen (require (py_eq (dget kv ''status'') (PStr ''success''))
      (Schema_Error ''SigNoz Query Builder response was not successful'')) (\<lambda>_.
    case dget kv ''data'' of
      PObj outer \<Rightarrow> Inr outer
    | _ \<Rightarrow> Inl (Schema_Error ''SigNoz Query Builder data envelope must be an object'')))"

definition query_results :: "dict \<Rightarrow> telemetry_error + payload list" where
  "query_results outer =
    (let shape = Schema_Error ''SigNoz Query Builder response must contain data.data.results'' in
     case dget outer ''data'' of
       PObj kv \<Rightarrow>
         if dict_keys kv = {''results''} then
           (case dget kv ''results'' of
              PNull \<Rightarrow> Inr []
            | PArr sets \<Rightarrow> Inr sets
            | _ \<Rightarrow> Inl (Schema_Error ''SigNoz Query Builder results must be an array''))
         else Inl shape
     | _ \<Rightarrow> Inl shape)"

definition result_sets :: "dict \<Rightarrow> telemetry_error + payload list" where
  "result_sets kv =
    andthen (outer_envelope kv) (\<lambda>outer.
    andthen (require (dict_keys outer \<subseteq> {''type'', ''data'', ''meta'', ''warning''})
      (Schema_Error ''SigNoz data envelope contains an ambiguous result container'')) (\<lambda>_.
    andthen (require (is_str (dget outer ''type''))
      (Schema_Error ''SigNoz Query Builder response lacks a result type'')) (\<lambda>_.
    andthen (require (''meta'' \<notin> dict_keys outer \<or> is_obj (dget outer ''meta''))
      (Schema_Error ''SigNoz Query Builder metadata is malformed'')) (\<lambda>_.
    andthen (no_warnings (dget outer ''warning'')) (\<lambda>_.
    query_results outer)))))"

text \<open>One result set: the query names seen, whether a page had a cursor, and the rows so far.\<close>

definition adapt_page ::
    "readers \<Rightarrow> dict \<Rightarrow> payload \<Rightarrow> string list \<times> bool \<times> dict list \<Rightarrow>
     telemetry_error + string list \<times> bool \<times> dict list" where
  "adapt_page R defaults result_set = (\<lambda>(names, cursor, rows).
    andthen (parse_query_builder_page result_set) (\<lambda>page.
    andthen (require (qp_query_name page \<notin> set names)
      (Schema_Error ''SigNoz Query Builder queryName is duplicated'')) (\<lambda>_.
    andthen (map_result (adapt_query_builder_row R (qp_columns page) defaults) (qp_rows page)) (\<lambda>new.
    Inr (qp_query_name page # names,
         cursor \<or> (qp_next_cursor page \<noteq> None \<and> qp_next_cursor page \<noteq> Some []),
         rows @ new)))))"

definition adapt_query_builder_payload ::
    "readers \<Rightarrow> dict \<Rightarrow> advisory_kind \<Rightarrow> dict \<Rightarrow> telemetry_error + dict" where
  "adapt_query_builder_payload R defaults advisory kv =
    andthen (result_sets kv) (\<lambda>sets.
    andthen (foldm (adapt_page R defaults) sets ([], False, [])) (\<lambda>(names, cursor, rows).
    andthen (require (\<not> cursor \<or> advisory = Page_Complete)
      (Schema_Error ''SigNoz evidence page is incomplete'')) (\<lambda>_.
    Inr [(''results'', PArr (map PObj rows))])))"

section \<open>Tool results\<close>

record content_block =
  cb_type :: string
  cb_text :: "string option"

datatype content = No_Content | Text_Content string | Blocks "content_block list"

text \<open>The attributes \<open>getattr\<close> looks for, both spellings; \<open>cb_text\<close> is \<open>None\<close> for anything but a string.\<close>

record tool_result =
  tr_isError :: bool
  tr_is_error :: bool
  tr_structuredContent :: "payload option"
  tr_structured_content :: "payload option"
  tr_content :: content

definition tr_structured :: "tool_result \<Rightarrow> payload option" where
  "tr_structured result =
    (case tr_structuredContent result of
       None \<Rightarrow> tr_structured_content result
     | Some v \<Rightarrow> Some v)"

definition block_text :: "string \<Rightarrow> content_block \<Rightarrow> telemetry_error + string" where
  "block_text complaint block =
    (case cb_text block of
       Some text \<Rightarrow> if cb_type block = ''text'' then Inr text else Inl (Schema_Error complaint)
     | None \<Rightarrow> Inl (Schema_Error complaint))"

definition content_texts ::
    "string \<Rightarrow> string \<Rightarrow> content \<Rightarrow> telemetry_error + string \<times> string list" where
  "content_texts absent unexpected content =
    (case content of
       Blocks (b # bs) \<Rightarrow>
         andthen (block_text unexpected b) (\<lambda>t.
         andthen (map_result (block_text unexpected) bs) (\<lambda>ts. Inr (t, ts)))
     | _ \<Rightarrow> Inl (Schema_Error absent))"

definition structured_evidence :: "content \<Rightarrow> payload \<Rightarrow> telemetry_error + dict" where
  "structured_evidence content v =
    andthen (require (content \<in> {No_Content, Blocks [], Text_Content []})
      (Schema_Error ''MCP result contained additional content beside structured evidence'')) (\<lambda>_.
    case v of
      PObj kv \<Rightarrow> Inr kv
    | _ \<Rightarrow> Inl (Schema_Error ''MCP structured evidence must be an object''))"

definition text_evidence ::
    "readers \<Rightarrow> dict \<Rightarrow> string \<times> string list \<Rightarrow> telemetry_error + dict" where
  "text_evidence R defaults = (\<lambda>(first, rest).
    andthen (demand (rd_loads R first)
      (Schema_Error ''MCP first text block was not valid JSON'')) (\<lambda>parsed.
    case parsed of
      PObj kv \<Rightarrow>
        andthen (validate_advisories R rest) (\<lambda>advisory.
        if dict_keys kv = {''results''} then Inr kv
        else adapt_query_builder_payload R defaults advisory kv)
    | _ \<Rightarrow> Inl (Schema_Error ''MCP first JSON content block must be an object'')))"

definition normalize_tool_result :: "readers \<Rightarrow> dict \<Rightarrow> tool_result \<Rightarrow> telemetry_error + dict" where
  "normalize_tool_result R defaults result =
    andthen (require (\<not> (tr_isError result \<or> tr_is_error result))
      (Tool_Error ''MCP tool returned isError=true'')) (\<lambda>_.
    case tr_structured result of
      Some v \<Rightarrow> structured_evidence (tr_content result) v
    | None \<Rightarrow>
        andthen (content_texts ''MCP result has no unambiguous structured result container''
          ''MCP result contained unexpected executable content'' (tr_content result))
        (text_evidence R defaults))"

section \<open>Metric helpers\<close>

text \<open>\<open>float(value)\<close> of a large int escapes as an \<open>OverflowError\<close>.\<close>

datatype metric_error = Refused telemetry_error | Overflow_Error

definition refuse :: "string \<Rightarrow> metric_error" where
  "refuse text = Refused (Schema_Error text)"

definition metric_value :: "string \<Rightarrow> payload \<Rightarrow> metric_error + rat" where
  "metric_value expected row =
    (case row of
       PObj kv \<Rightarrow>
         andthen (require (dict_keys kv \<subseteq> {''metric_name'', ''value'', ''timestamp_ms''})
           (refuse ''Metric query row has an ambiguous schema'')) (\<lambda>_.
         andthen (require (py_eq (dget kv ''metric_name'') (PStr expected))
           (refuse ''Metric query returned an unexpected metric name'')) (\<lambda>_.
         (case dget kv ''value'' of
            PInt i \<Rightarrow> demand (float_of_int i) Overflow_Error
          | PFloat (Fin x) \<Rightarrow> Inr x
          | PFloat _ \<Rightarrow> Inl (refuse ''Metric query value is non-finite'')
          | _ \<Rightarrow> Inl (refuse ''Metric query value is malformed''))))
     | _ \<Rightarrow> Inl (refuse ''Metric query row has an ambiguous schema''))"

definition normalize_metric_query_values ::
    "readers \<Rightarrow> string \<Rightarrow> tool_result \<Rightarrow> metric_error + rat list" where
  "normalize_metric_query_values R expected result =
    (case normalize_tool_result R [(''metric_name'', PStr expected)] result of
       Inl e \<Rightarrow> Inl (Refused e)
     | Inr kv \<Rightarrow>
         (case (dict_keys kv = {''results''}, dget kv ''results'') of
            (True, PArr rows) \<Rightarrow> map_result (metric_value expected) rows
          | _ \<Rightarrow> Inl (refuse ''Metric query must contain exactly one results array'')))"

definition optional_str :: "dict \<Rightarrow> string \<Rightarrow> bool" where
  "optional_str kv k \<longleftrightarrow> k \<notin> dict_keys kv \<or> is_str (dget kv k)"

definition catalog_name :: "payload \<Rightarrow> string list \<Rightarrow> telemetry_error + string list" where
  "catalog_name metric names =
    (case metric of
       PObj kv \<Rightarrow>
         andthen (require (dict_keys kv \<subseteq> {''description'', ''metricName'', ''type'',
             ''temporality'', ''isMonotonic'', ''unit''})
           (Schema_Error ''MCP metric catalog row has an ambiguous schema'')) (\<lambda>_.
         (case dget kv ''metricName'' of
            PStr (c # cs) \<Rightarrow>
              andthen (require (c # cs \<notin> set names)
                (Schema_Error ''MCP metric catalog contains a duplicate metric name'')) (\<lambda>_.
              andthen (require
                (list_all (optional_str kv) [''description'', ''type'', ''temporality'', ''unit''])
                (Schema_Error ''MCP metric catalog metadata is malformed'')) (\<lambda>_.
              andthen (require (''isMonotonic'' \<notin> dict_keys kv \<or>
                  (case dget kv ''isMonotonic'' of PBool _ \<Rightarrow> True | _ \<Rightarrow> False))
                (Schema_Error ''MCP metric catalog monotonicity metadata is malformed'')) (\<lambda>_.
              Inr ((c # cs) # names))))
          | _ \<Rightarrow> Inl (Schema_Error ''MCP metric catalog row lacks a metric name'')))
     | _ \<Rightarrow> Inl (Schema_Error ''MCP metric catalog row has an ambiguous schema''))"

definition catalog_metrics :: "payload \<Rightarrow> telemetry_error + payload list" where
  "catalog_metrics parsed =
    (case parsed of
       PObj kv \<Rightarrow>
         andthen (require (dict_keys kv = {''status'', ''data''})
           (Schema_Error ''MCP metric catalog result has an ambiguous envelope'')) (\<lambda>_.
         andthen (require (py_eq (dget kv ''status'') (PStr ''success''))
           (Schema_Error ''MCP metric catalog result was not successful'')) (\<lambda>_.
         (case dget kv ''data'' of
            PObj inner \<Rightarrow>
              if dict_keys inner = {''metrics''} then
                (case dget inner ''metrics'' of
                   PArr metrics \<Rightarrow> Inr metrics
                 | _ \<Rightarrow> Inl (Schema_Error ''MCP metric catalog metrics must be an array''))
              else Inl (Schema_Error ''MCP metric catalog data envelope is ambiguous'')
          | _ \<Rightarrow> Inl (Schema_Error ''MCP metric catalog data envelope is ambiguous''))))
     | _ \<Rightarrow> Inl (Schema_Error ''MCP metric catalog result has an ambiguous envelope''))"

text \<open>The set of names, as the list of its elements.\<close>

definition normalize_metric_catalog_names ::
    "readers \<Rightarrow> tool_result \<Rightarrow> telemetry_error + string list" where
  "normalize_metric_catalog_names R result =
    andthen (require (\<not> (tr_isError result \<or> tr_is_error result))
      (Tool_Error ''MCP tool returned isError=true'')) (\<lambda>_.
    andthen (require (tr_structured result = None)
      (Schema_Error (''MCP metric catalog must use the official JSON-first content with a '' @
        ''completeness advisory''))) (\<lambda>_.
    andthen (content_texts ''MCP metric catalog result has no structured content''
      ''MCP metric catalog contained unexpected executable content'' (tr_content result)) (\<lambda>(first, rest).
    andthen (demand (rd_loads R first)
      (Schema_Error ''MCP metric catalog first text block was not JSON'')) (\<lambda>parsed.
    andthen (validate_advisories R rest) (\<lambda>advisory.
    andthen (require (advisory = Page_Complete)
      (Schema_Error ''MCP metric catalog response lacks a complete pagination advisory'')) (\<lambda>_.
    andthen (catalog_metrics parsed) (\<lambda>metrics.
    foldm catalog_name metrics [])))))))"

end
