(* ===== verification/Telemetry.thy ===== *)
theory Telemetry
  imports Payloads Invariants
begin

text \<open>
  The verification of a command against SigNoz, \<open>signoz/mcp_client.py\<close>: the evidence rows and their
  strict parsing, the reconciliation with what the runtime knows, the session of six queries and the
  record of the last observed state of the server.  The remote server is an argument: a function
  from the number of the call, the tool and its arguments to a result or an exception.
\<close>

section \<open>What the runtime knows\<close>

datatype failure_kind =
    Configuration_Unavailable | Exporter_Unavailable | Transport_Unavailable | Mcp_Tool_Error
  | Response_Schema_Mismatch | Evidence_Inconsistent | Internal_Parser_Defect

text \<open>The identity of a process, the common part of a row, a watermark and the context.\<close>

record process_identity =
  pi_service_name :: string
  pi_service_instance_id :: string
  pi_process_instance_id :: string
  pi_build_commit :: string
  pi_schema_version :: int

record export_watermark =
  wm_identity :: process_identity
  wm_run_id :: ident
  wm_command_id :: ident
  wm_exported_at_ms :: int
  wm_sequence :: int

record blocked_action =
  ba_action_id :: ident
  ba_node_id :: ident
  ba_target_scope_id :: ident
  ba_snapshot_version :: int
  ba_live_version :: int
  ba_live_status :: string
  ba_denial_reason :: string

record verification_context =
  vc_command_id :: ident
  vc_run_id :: ident
  vc_command_created_ms :: int
  vc_start_ms :: int
  vc_end_ms :: int
  vc_command_operation :: string
  vc_identity :: process_identity
  vc_blocked_actions :: "blocked_action list"
  vc_export_watermark :: "export_watermark option"

record telemetry_verdict =
  tv_verdict :: proof_verdict
  tv_trace_ids :: "string list"
  tv_discrepancies :: "string list"
  tv_evidence :: dict
  tv_failure_kind :: "failure_kind option"

definition telemetry_failure ::
    "proof_verdict \<Rightarrow> failure_kind \<Rightarrow> string \<Rightarrow> dict \<Rightarrow> telemetry_verdict" where
  "telemetry_failure verdict kind text evidence =
    \<lparr>tv_verdict = verdict, tv_trace_ids = [], tv_discrepancies = [text], tv_evidence = evidence,
     tv_failure_kind = Some kind\<rparr>"

section \<open>Evidence rows\<close>

record command_trace =
  ct_identity :: process_identity
  ct_trace_id :: string
  ct_command_id :: string
  ct_run_id :: string
  ct_operation :: string
  ct_timestamp_ms :: int

text \<open>
  \<open>_BlockedTraceRow\<close> and \<open>_BlockedLogRow\<close>: the fields both have; \<open>br_event\<close> is the operation of a
  trace and the event name of a log.
\<close>

record blocked_row =
  br_identity :: process_identity
  br_command_id :: string
  br_run_id :: string
  br_action :: blocked_action
  br_event :: string
  br_timestamp_ms :: int

record blocked_trace =
  bt_trace_id :: string
  bt_row :: blocked_row

record watermark_row =
  wr_identity :: process_identity
  wr_trace_id :: string
  wr_command_id :: string
  wr_run_id :: string
  wr_operation :: string
  wr_exported_at_ms :: int
  wr_sequence :: int

text \<open>
  Strict fields: a missing field, a value of another type (a bool is not an int, an int is not a
  string) or one outside its bounds is an error at that field; the parameter \<open>complaint\<close> stands for
  the text pydantic writes for a field and its value.
\<close>

type_synonym complaint = "string \<Rightarrow> payload option \<Rightarrow> string"

definition bad_field :: "complaint \<Rightarrow> string \<Rightarrow> dict \<Rightarrow> string \<times> string" where
  "bad_field pyd name kv = (name, pyd name (map_of kv name))"

definition strict_str :: "complaint \<Rightarrow> (string \<Rightarrow> bool) \<Rightarrow> string \<Rightarrow> dict \<Rightarrow> (string \<times> string) + string" where
  "strict_str pyd ok name kv =
    (case map_of kv name of
       Some (PStr s) \<Rightarrow> if ok s then Inr s else Inl (bad_field pyd name kv)
     | _ \<Rightarrow> Inl (bad_field pyd name kv))"

definition strict_int :: "complaint \<Rightarrow> int \<Rightarrow> string \<Rightarrow> dict \<Rightarrow> (string \<times> string) + int" where
  "strict_int pyd least name kv =
    (case map_of kv name of
       Some (PInt i) \<Rightarrow> if least \<le> i then Inr i else Inl (bad_field pyd name kv)
     | _ \<Rightarrow> Inl (bad_field pyd name kv))"

definition non_empty :: "string \<Rightarrow> bool" where
  "non_empty s \<longleftrightarrow> s \<noteq> []"

definition is_trace_id :: "string \<Rightarrow> bool" where
  "is_trace_id s \<longleftrightarrow> length s = 32 \<and>
     list_all (\<lambda>c. is_digit c \<or> (97 \<le> (of_char c :: nat) \<and> (of_char c :: nat) \<le> 102)) s"

text \<open>\<open>extra="forbid"\<close>: the first key that is not a field.\<close>

definition no_extra :: "complaint \<Rightarrow> string list \<Rightarrow> dict \<Rightarrow> (string \<times> string) + unit" where
  "no_extra pyd names kv =
    (case List.find (\<lambda>(k, _). k \<notin> set names) kv of
       None \<Rightarrow> Inr ()
     | Some (k, _) \<Rightarrow> Inl (bad_field pyd k kv))"

definition as_dict :: "complaint \<Rightarrow> payload \<Rightarrow> (string \<times> string) + dict" where
  "as_dict pyd v = (case v of PObj kv \<Rightarrow> Inr kv | _ \<Rightarrow> Inl ([], pyd [] (Some v)))"

definition identity_fields :: "string list" where
  "identity_fields =
    [''service_name'', ''service_instance_id'', ''process_instance_id'', ''build_commit'',
     ''schema_version'']"

definition parse_identity :: "complaint \<Rightarrow> dict \<Rightarrow> (string \<times> string) + process_identity" where
  "parse_identity pyd kv =
    andthen (strict_str pyd non_empty ''service_name'' kv) (\<lambda>name.
    andthen (strict_str pyd non_empty ''service_instance_id'' kv) (\<lambda>instance.
    andthen (strict_str pyd non_empty ''process_instance_id'' kv) (\<lambda>process.
    andthen (strict_str pyd non_empty ''build_commit'' kv) (\<lambda>commit.
    andthen (strict_int pyd 1 ''schema_version'' kv) (\<lambda>version.
    Inr \<lparr>pi_service_name = name, pi_service_instance_id = instance,
         pi_process_instance_id = process, pi_build_commit = commit,
         pi_schema_version = version\<rparr>)))))"

definition parse_command_trace :: "complaint \<Rightarrow> payload \<Rightarrow> (string \<times> string) + command_trace" where
  "parse_command_trace pyd v =
    andthen (as_dict pyd v) (\<lambda>kv.
    andthen (parse_identity pyd kv) (\<lambda>ident.
    andthen (strict_str pyd is_trace_id ''trace_id'' kv) (\<lambda>trace.
    andthen (strict_str pyd non_empty ''command_id'' kv) (\<lambda>command.
    andthen (strict_str pyd non_empty ''run_id'' kv) (\<lambda>run.
    andthen (strict_str pyd non_empty ''operation'' kv) (\<lambda>operation.
    andthen (strict_int pyd 0 ''timestamp_ms'' kv) (\<lambda>ms.
    andthen (no_extra pyd (identity_fields @
      [''trace_id'', ''command_id'', ''run_id'', ''operation'', ''timestamp_ms'']) kv) (\<lambda>_.
    Inr \<lparr>ct_identity = ident, ct_trace_id = trace, ct_command_id = command, ct_run_id = run,
         ct_operation = operation, ct_timestamp_ms = ms\<rparr>))))))))"

definition blocked_fields :: "string list" where
  "blocked_fields =
    [''command_id'', ''run_id'', ''action_id'', ''node_id'', ''target_scope_id'',
     ''snapshot_version'', ''live_version'', ''live_status'', ''denial_reason'', ''timestamp_ms'']"

definition parse_blocked :: "complaint \<Rightarrow> string \<Rightarrow> dict \<Rightarrow> (string \<times> string) + blocked_row" where
  "parse_blocked pyd event_field kv =
    andthen (parse_identity pyd kv) (\<lambda>ident.
    andthen (strict_str pyd non_empty ''command_id'' kv) (\<lambda>command.
    andthen (strict_str pyd non_empty ''run_id'' kv) (\<lambda>run.
    andthen (strict_str pyd non_empty ''action_id'' kv) (\<lambda>action.
    andthen (strict_str pyd non_empty ''node_id'' kv) (\<lambda>node.
    andthen (strict_str pyd non_empty ''target_scope_id'' kv) (\<lambda>scope.
    andthen (strict_int pyd 1 ''snapshot_version'' kv) (\<lambda>snapshot.
    andthen (strict_int pyd 1 ''live_version'' kv) (\<lambda>live.
    andthen (strict_str pyd non_empty ''live_status'' kv) (\<lambda>status.
    andthen (strict_str pyd non_empty ''denial_reason'' kv) (\<lambda>reason.
    andthen (strict_str pyd non_empty event_field kv) (\<lambda>event.
    andthen (strict_int pyd 0 ''timestamp_ms'' kv) (\<lambda>ms.
    Inr \<lparr>br_identity = ident, br_command_id = command, br_run_id = run,
         br_action = \<lparr>ba_action_id = action, ba_node_id = node, ba_target_scope_id = scope,
           ba_snapshot_version = snapshot, ba_live_version = live, ba_live_status = status,
           ba_denial_reason = reason\<rparr>,
         br_event = event, br_timestamp_ms = ms\<rparr>))))))))))))"

definition parse_blocked_trace :: "complaint \<Rightarrow> payload \<Rightarrow> (string \<times> string) + blocked_trace" where
  "parse_blocked_trace pyd v =
    andthen (as_dict pyd v) (\<lambda>kv.
    andthen (parse_identity pyd kv) (\<lambda>_.
    andthen (strict_str pyd is_trace_id ''trace_id'' kv) (\<lambda>trace.
    andthen (parse_blocked pyd ''operation'' kv) (\<lambda>row.
    andthen (no_extra pyd (identity_fields @ ''trace_id'' # ''operation'' # blocked_fields) kv) (\<lambda>_.
    Inr \<lparr>bt_trace_id = trace, bt_row = row\<rparr>)))))"

definition parse_blocked_log :: "complaint \<Rightarrow> payload \<Rightarrow> (string \<times> string) + blocked_row" where
  "parse_blocked_log pyd v =
    andthen (as_dict pyd v) (\<lambda>kv.
    andthen (parse_blocked pyd ''event_name'' kv) (\<lambda>row.
    andthen (no_extra pyd (identity_fields @ ''event_name'' # blocked_fields) kv) (\<lambda>_.
    Inr row)))"

definition watermark_fields :: "string list" where
  "watermark_fields =
    identity_fields @
    [''trace_id'', ''command_id'', ''run_id'', ''operation'', ''exported_at_ms'', ''sequence'']"

definition parse_watermark :: "complaint \<Rightarrow> payload \<Rightarrow> (string \<times> string) + watermark_row" where
  "parse_watermark pyd v =
    andthen (as_dict pyd v) (\<lambda>kv.
    andthen (parse_identity pyd kv) (\<lambda>ident.
    andthen (strict_str pyd is_trace_id ''trace_id'' kv) (\<lambda>trace.
    andthen (strict_str pyd non_empty ''command_id'' kv) (\<lambda>command.
    andthen (strict_str pyd non_empty ''run_id'' kv) (\<lambda>run.
    andthen (strict_str pyd non_empty ''operation'' kv) (\<lambda>operation.
    andthen (strict_int pyd 0 ''exported_at_ms'' kv) (\<lambda>ms.
    andthen (strict_int pyd 1 ''sequence'' kv) (\<lambda>sequence.
    andthen (no_extra pyd watermark_fields kv) (\<lambda>_.
    Inr \<lparr>wr_identity = ident, wr_trace_id = trace, wr_command_id = command, wr_run_id = run,
         wr_operation = operation, wr_exported_at_ms = ms, wr_sequence = sequence\<rparr>)))))))))"

text \<open>\<open>FiniteFloat\<close>, strict: an int is taken when it is in the range of a float, a bool is not.\<close>

definition finite_float :: "complaint \<Rightarrow> string \<Rightarrow> dict \<Rightarrow> (string \<times> string) + rat" where
  "finite_float pyd name kv =
    (case map_of kv name of
       Some (PInt i) \<Rightarrow> demand (float_of_int i) (bad_field pyd name kv)
     | Some (PFloat (Fin x)) \<Rightarrow> Inr x
     | _ \<Rightarrow> Inl (bad_field pyd name kv))"

definition parse_metric :: "complaint \<Rightarrow> payload \<Rightarrow> (string \<times> string) + string \<times> rat" where
  "parse_metric pyd v =
    andthen (as_dict pyd v) (\<lambda>kv.
    andthen (strict_str pyd non_empty ''metric_name'' kv) (\<lambda>name.
    andthen (finite_float pyd ''value'' kv) (\<lambda>x.
    andthen (no_extra pyd [''metric_name'', ''value''] kv) (\<lambda>_.
    Inr (name, x)))))"

definition parse_rows ::
    "(payload \<Rightarrow> (string \<times> string) + 'a) \<Rightarrow> string \<Rightarrow> dict \<Rightarrow> string + 'a list" where
  "parse_rows parse label evidence =
    (case dget evidence label of
       PObj kv \<Rightarrow>
         if dict_keys kv = {''results''} then
           (case dget kv ''results'' of
              PArr rows \<Rightarrow>
                (case map_result parse rows of
                   Inr parsed \<Rightarrow> Inr parsed
                 | Inl (location, msg) \<Rightarrow>
                     Inl (label @ '' row schema mismatch at '' @ location @ '': '' @ msg))
            | _ \<Rightarrow> Inl (label @ ''.results must be an array''))
         else Inl (label @ '' must contain exactly one top-level results array'')
     | _ \<Rightarrow> Inl (label @ '' must contain exactly one top-level results array''))"

section \<open>Discrepancies\<close>

definition remark :: "bool \<Rightarrow> string \<Rightarrow> string list" where
  "remark ok text = (if ok then [] else [text])"

definition duplicates :: "string list \<Rightarrow> string list" where
  "duplicates values =
    snd (fold (\<lambda>v (seen, dups). (List.insert v seen, if v \<in> set seen then List.insert v dups else dups))
      values ([], []))"

definition mismatch :: "string \<Rightarrow> string" where
  "mismatch field_name = field_name @ '' does not match the active TraceFence process''"

definition identity_discrepancies ::
    "verification_context \<Rightarrow> process_identity \<Rightarrow> string list" where
  "identity_discrepancies ctx row =
    (let own = vc_identity ctx in
     remark (pi_service_name row = pi_service_name own) (mismatch ''service_name'') @
     remark (pi_service_instance_id row = pi_service_instance_id own) (mismatch ''service_instance_id'') @
     remark (pi_process_instance_id row = pi_process_instance_id own) (mismatch ''process_instance_id'') @
     remark (pi_build_commit row = pi_build_commit own) (mismatch ''build_commit'') @
     remark (pi_schema_version row = pi_schema_version own) (mismatch ''schema_version''))"

definition in_window :: "verification_context \<Rightarrow> int \<Rightarrow> bool" where
  "in_window ctx ms \<longleftrightarrow> vc_start_ms ctx \<le> ms \<and> ms \<le> vc_end_ms ctx"

definition command_row_discrepancies ::
    "verification_context \<Rightarrow> command_trace \<Rightarrow> string list" where
  "command_row_discrepancies ctx row =
     identity_discrepancies ctx (ct_identity row) @
     remark (ct_command_id row = vc_command_id ctx) ''Command trace belongs to another command'' @
     remark (ct_run_id row = vc_run_id ctx) ''Command trace belongs to another run'' @
     remark (ct_operation row = vc_command_operation ctx) ''Command trace operation does not match'' @
     remark (in_window ctx (ct_timestamp_ms row)) ''Command trace is outside the proof time window''"

definition action_discrepancies :: "blocked_action \<Rightarrow> blocked_action \<Rightarrow> string list" where
  "action_discrepancies row own =
    (let text = (\<lambda>name. ''Blocked action '' @ ba_action_id row @ '' '' @ name @
        '' does not match runtime'') in
     remark (ba_node_id row = ba_node_id own) (text ''node_id'') @
     remark (ba_target_scope_id row = ba_target_scope_id own) (text ''target_scope_id'') @
     remark (ba_snapshot_version row = ba_snapshot_version own) (text ''snapshot_version'') @
     remark (ba_live_version row = ba_live_version own) (text ''live_version'') @
     remark (ba_live_status row = ba_live_status own) (text ''live_status'') @
     remark (ba_denial_reason row = ba_denial_reason own) (text ''denial_reason''))"

definition blocked_row_discrepancies ::
    "verification_context \<Rightarrow> blocked_action option \<Rightarrow> string \<Rightarrow> blocked_row \<Rightarrow> string list" where
  "blocked_row_discrepancies ctx expected event row =
     identity_discrepancies ctx (br_identity row) @
     remark (br_command_id row = vc_command_id ctx) ''Blocked evidence belongs to another command'' @
     remark (br_run_id row = vc_run_id ctx) ''Blocked evidence belongs to another run'' @
     remark (br_event row = event) ''Blocked evidence operation/event does not match'' @
     remark (in_window ctx (br_timestamp_ms row)) ''Blocked evidence is outside the proof time window'' @
     (case expected of
        None \<Rightarrow> [''Blocked action '' @ ba_action_id (br_action row) @ '' is absent from runtime'']
      | Some own \<Rightarrow> action_discrepancies (br_action row) own)"

definition watermark_discrepancies ::
    "verification_context \<Rightarrow> watermark_row \<Rightarrow> string list" where
  "watermark_discrepancies ctx row =
     identity_discrepancies ctx (wr_identity row) @
     (case vc_export_watermark ctx of
        None \<Rightarrow> [''No local successful export watermark exists'']
      | Some own \<Rightarrow>
          (let text = (\<lambda>name. ''Export watermark '' @ name @ '' does not match'');
               ident = wm_identity own; row_ident = wr_identity row in
           remark (wr_command_id row = wm_command_id own) (text ''command_id'') @
           remark (wr_run_id row = wm_run_id own) (text ''run_id'') @
           remark (pi_service_name row_ident = pi_service_name ident) (text ''service_name'') @
           remark (pi_service_instance_id row_ident = pi_service_instance_id ident)
             (text ''service_instance_id'') @
           remark (pi_process_instance_id row_ident = pi_process_instance_id ident)
             (text ''process_instance_id'') @
           remark (pi_build_commit row_ident = pi_build_commit ident) (text ''build_commit'') @
           remark (pi_schema_version row_ident = pi_schema_version ident) (text ''schema_version'') @
           remark (wr_exported_at_ms row = wm_exported_at_ms own) (text ''exported_at_ms'') @
           remark (wr_sequence row = wm_sequence own) (text ''sequence'') @
           remark (wr_operation row = ''tracefence.telemetry.export_watermark'') (text ''operation'') @
           remark (vc_command_created_ms ctx < wr_exported_at_ms row)
             ''Export watermark predates the command'' @
           remark (in_window ctx (wr_exported_at_ms row))
             ''Export watermark is outside the proof time window''))"

text \<open>The rows of the four kinds, once every one of them has been parsed.\<close>

record evidence_rows =
  er_commands :: "command_trace list"
  er_traces :: "blocked_trace list"
  er_logs :: "blocked_row list"
  er_watermarks :: "watermark_row list"

definition parse_evidence :: "complaint \<Rightarrow> dict \<Rightarrow> string + evidence_rows" where
  "parse_evidence pyd evidence =
    andthen (parse_rows (parse_command_trace pyd) ''command_traces'' evidence) (\<lambda>commands.
    andthen (parse_rows (parse_blocked_trace pyd) ''blocked_traces'' evidence) (\<lambda>traces.
    andthen (parse_rows (parse_blocked_log pyd) ''blocked_logs'' evidence) (\<lambda>logs.
    andthen (parse_rows (parse_watermark pyd) ''export_watermarks'' evidence) (\<lambda>watermarks.
    andthen (parse_rows (parse_metric pyd) ''attempts_metric'' evidence) (\<lambda>_.
    andthen (parse_rows (parse_metric pyd) ''committed_metric'' evidence) (\<lambda>_.
    Inr \<lparr>er_commands = commands, er_traces = traces, er_logs = logs,
         er_watermarks = watermarks\<rparr>))))))"

definition evidence_trace_ids :: "evidence_rows \<Rightarrow> string list" where
  "evidence_trace_ids rows =
     map ct_trace_id (er_commands rows) @ map bt_trace_id (er_traces rows) @
     map wr_trace_id (er_watermarks rows)"

definition row_action_id :: "blocked_row \<Rightarrow> string" where
  "row_action_id row = ba_action_id (br_action row)"

text \<open>A dict comprehension: the last action with an id wins.\<close>

definition runtime_by_id :: "verification_context \<Rightarrow> ident \<Rightarrow> blocked_action option" where
  "runtime_by_id ctx = map_of (rev (map (\<lambda>a. (ba_action_id a, a)) (vc_blocked_actions ctx)))"

definition set_discrepancies :: "verification_context \<Rightarrow> evidence_rows \<Rightarrow> string list" where
  "set_discrepancies ctx rows =
    (let trace_actions = map (row_action_id \<circ> bt_row) (er_traces rows);
         log_actions = map row_action_id (er_logs rows);
         runtime = map ba_action_id (vc_blocked_actions ctx);
         repeated = duplicates (evidence_trace_ids rows);
         repeated_actions = remdups (duplicates trace_actions @ duplicates log_actions)
     in remark (length (er_commands rows) = 1)
          (''Expected exactly one command trace, received '' @
             show_int (int (length (er_commands rows)))) @
        remark (length (er_watermarks rows) = 1)
          (''Expected exactly one export watermark, received '' @
             show_int (int (length (er_watermarks rows)))) @
        remark (repeated = []) (''Duplicate trace IDs: '' @ join '', '' (sort repeated)) @
        remark (repeated_actions = [])
          (''Duplicate blocked action IDs: '' @ join '', '' (sort repeated_actions)) @
        remark (length (remdups runtime) = length runtime)
          ''Authoritative runtime action IDs are duplicated'' @
        remark (set runtime = set trace_actions \<and> set runtime = set log_actions)
          ''Runtime, trace and log blocked action-ID sets do not match exactly'')"

definition row_discrepancies :: "verification_context \<Rightarrow> evidence_rows \<Rightarrow> string list" where
  "row_discrepancies ctx rows =
     concat (map (command_row_discrepancies ctx) (er_commands rows)) @
     concat (map (\<lambda>t. blocked_row_discrepancies ctx (runtime_by_id ctx (row_action_id (bt_row t)))
       ''tracefence.action.block'' (bt_row t)) (er_traces rows)) @
     concat (map (\<lambda>l. blocked_row_discrepancies ctx (runtime_by_id ctx (row_action_id l))
       ''action_denied'' l) (er_logs rows)) @
     concat (map (watermark_discrepancies ctx) (er_watermarks rows))"

definition reconcile_rows ::
    "verification_context \<Rightarrow> dict \<Rightarrow> evidence_rows \<Rightarrow> telemetry_verdict" where
  "reconcile_rows ctx evidence rows =
    (let found = set_discrepancies ctx rows @ row_discrepancies ctx rows;
         trace_ids = evidence_trace_ids rows
     in if found \<noteq> []
        then \<lparr>tv_verdict = Inconsistent, tv_trace_ids = sort (remdups trace_ids),
              tv_discrepancies = found, tv_evidence = evidence,
              tv_failure_kind = Some Evidence_Inconsistent\<rparr>
        else \<lparr>tv_verdict = Verified, tv_trace_ids = sort trace_ids, tv_discrepancies = [],
              tv_evidence = evidence, tv_failure_kind = None\<rparr>)"

definition reconcile_evidence ::
    "complaint \<Rightarrow> verification_context \<Rightarrow> dict \<Rightarrow> telemetry_verdict" where
  "reconcile_evidence pyd ctx evidence =
    (case vc_export_watermark ctx of
       None \<Rightarrow> telemetry_failure Unavailable Exporter_Unavailable
         ''OpenTelemetry exporter is disabled or has no successful command export'' evidence
     | Some own \<Rightarrow>
         if wm_exported_at_ms own \<le> vc_command_created_ms ctx
         then telemetry_failure Inconsistent Evidence_Inconsistent
           ''Successful export watermark predates the command'' evidence
         else (case parse_evidence pyd evidence of
             Inl text \<Rightarrow> telemetry_failure Partial Response_Schema_Mismatch text evidence
           | Inr rows \<Rightarrow> reconcile_rows ctx evidence rows))"

section \<open>The session\<close>

record telemetry_settings =
  ts_signoz_mcp_url :: string
  ts_signoz_api_key :: string
  ts_build_commit :: string
  ts_otlp_endpoint :: string
  ts_otel_export_timeout_ms :: int

definition configuration_error ::
    "telemetry_settings \<Rightarrow> verification_context \<Rightarrow> telemetry_verdict option" where
  "configuration_error S ctx =
    (if ts_signoz_api_key S = []
       then Some (telemetry_failure Unavailable Configuration_Unavailable
         ''SIGNOZ_API_KEY is not configured'' [])
     else if pi_build_commit (vc_identity ctx) \<in> {[], ''UNSET''}
       then Some (telemetry_failure Unavailable Configuration_Unavailable
         ''TRACEFENCE_BUILD_COMMIT is required for telemetry verification'' [])
     else if vc_export_watermark ctx = None
       then Some (telemetry_failure Unavailable Exporter_Unavailable
         ''No successful TraceFence export watermark exists for this command'' [])
     else None)"

text \<open>
  What a session with the server may raise: a transport error, an error of the protocol (both with
  the text of the exception), or anything else, which the client lets through.
\<close>

datatype session_error = Transport_Error string | Protocol_Error string | Other_Exception string

record remote =
  rm_sdk_installed :: bool
  rm_connect :: "session_error + unit"
  rm_tools :: "session_error + string list"
  rm_call :: "nat \<Rightarrow> string \<Rightarrow> dict \<Rightarrow> session_error + tool_result"

definition command_filter :: "verification_context \<Rightarrow> string" where
  "command_filter ctx =
     ''attribute.tracefence.command.id = '' @ [CHR 0x27] @ vc_command_id ctx @ [CHR 0x27] @ '' AND '' @
     ''attribute.tracefence.run.id = '' @ [CHR 0x27] @ vc_run_id ctx @ [CHR 0x27]"

definition time_arguments :: "verification_context \<Rightarrow> dict" where
  "time_arguments ctx = [(''start'', PInt (vc_start_ms ctx)), (''end'', PInt (vc_end_ms ctx))]"

definition trace_query :: "verification_context \<Rightarrow> string \<Rightarrow> string \<Rightarrow> dict" where
  "trace_query ctx purpose operation =
     [(''searchContext'', PStr purpose), (''operation'', PStr operation),
      (''filter'', PStr (command_filter ctx)), (''limit'', PInt 100)] @ time_arguments ctx"

definition log_query :: "verification_context \<Rightarrow> dict" where
  "log_query ctx =
     [(''searchContext'', PStr ''TraceFence correlated action-denied logs''),
      (''searchText'', PStr (''action_denied command_id='' @ vc_command_id ctx @ '' run_id='' @
         vc_run_id ctx)),
      (''limit'', PInt 100)] @ time_arguments ctx"

definition metric_query :: "verification_context \<Rightarrow> string \<Rightarrow> string \<Rightarrow> dict" where
  "metric_query ctx purpose name =
     [(''searchContext'', PStr purpose), (''metricName'', PStr name), (''metricType'', PStr ''sum''),
      (''isMonotonic'', PBool True), (''temporality'', PStr ''cumulative''),
      (''timeAggregation'', PStr ''increase''), (''spaceAggregation'', PStr ''sum''),
      (''requestType'', PStr ''scalar''), (''reduceTo'', PStr ''sum'')] @ time_arguments ctx"

definition attempts_metric_name :: string where
  "attempts_metric_name = ''tracefence_stale_action_attempts_total''"

definition committed_metric_name :: string where
  "committed_metric_name = ''tracefence_stale_actions_committed_total''"

text \<open>The six queries, in the order of the calls; the first that raises ends the session.\<close>

record answers =
  an_command :: tool_result
  an_blocked :: tool_result
  an_logs :: tool_result
  an_watermark :: tool_result
  an_attempts :: tool_result
  an_committed :: tool_result

definition run_queries :: "remote \<Rightarrow> verification_context \<Rightarrow> session_error + answers" where
  "run_queries M ctx =
    andthen (rm_call M 0 ''signoz_search_traces''
      (trace_query ctx ''TraceFence command issuance evidence'' (vc_command_operation ctx))) (\<lambda>c.
    andthen (rm_call M 1 ''signoz_search_traces''
      (trace_query ctx ''TraceFence stale action block evidence'' ''tracefence.action.block'')) (\<lambda>b.
    andthen (rm_call M 2 ''signoz_search_logs'' (log_query ctx)) (\<lambda>l.
    andthen (rm_call M 3 ''signoz_search_traces''
      (trace_query ctx ''TraceFence successful export watermark''
        ''tracefence.telemetry.export_watermark'')) (\<lambda>w.
    andthen (rm_call M 4 ''signoz_query_metrics''
      (metric_query ctx ''TraceFence stale action attempt health'' attempts_metric_name)) (\<lambda>a.
    andthen (rm_call M 5 ''signoz_query_metrics''
      (metric_query ctx ''TraceFence stale action commit health'' committed_metric_name)) (\<lambda>m.
    Inr \<lparr>an_command = c, an_blocked = b, an_logs = l, an_watermark = w, an_attempts = a,
         an_committed = m\<rparr>))))))"

definition required_tools :: "string list" where
  "required_tools = [''signoz_search_traces'', ''signoz_search_logs'', ''signoz_query_metrics'']"

definition missing_tools :: "string list \<Rightarrow> string list" where
  "missing_tools tools = sort (filter (\<lambda>t. t \<notin> set tools) required_tools)"

text \<open>The session: \<open>Inr (Inl names)\<close> is the early return for missing tools.\<close>

definition run_session ::
    "remote \<Rightarrow> verification_context \<Rightarrow> session_error + string list + answers" where
  "run_session M ctx =
    andthen (rm_connect M) (\<lambda>_.
    andthen (rm_tools M) (\<lambda>tools.
    if missing_tools tools \<noteq> [] then Inr (Inl tools)
    else andthen (run_queries M ctx) (\<lambda>answers. Inr (Inr answers))))"

definition metric_default :: "string \<Rightarrow> dict" where
  "metric_default name = [(''metric_name'', PStr name)]"

definition collect_answers :: "readers \<Rightarrow> answers \<Rightarrow> telemetry_error + dict" where
  "collect_answers R an =
    andthen (normalize_tool_result R [] (an_command an)) (\<lambda>c.
    andthen (normalize_tool_result R [] (an_blocked an)) (\<lambda>b.
    andthen (normalize_tool_result R [] (an_logs an)) (\<lambda>l.
    andthen (normalize_tool_result R [] (an_watermark an)) (\<lambda>w.
    andthen (normalize_tool_result R (metric_default attempts_metric_name) (an_attempts an)) (\<lambda>a.
    andthen (normalize_tool_result R (metric_default committed_metric_name) (an_committed an)) (\<lambda>m.
    Inr [(''command_traces'', PObj c), (''blocked_traces'', PObj b), (''blocked_logs'', PObj l),
         (''export_watermarks'', PObj w), (''attempts_metric'', PObj a),
         (''committed_metric'', PObj m)]))))))"

section \<open>Health of the server\<close>

record mcp_state =
  ms_available :: "bool option"
  ms_status :: string
  ms_last_success_at :: "time option"

definition initial_mcp_state :: mcp_state where
  "initial_mcp_state =
    \<lparr>ms_available = None, ms_status = ''never_observed'', ms_last_success_at = None\<rparr>"

definition record_mcp_health :: "bool \<Rightarrow> string \<Rightarrow> time option \<Rightarrow> mcp_state \<Rightarrow> mcp_state" where
  "record_mcp_health available status success st =
    st\<lparr>ms_available := Some available, ms_status := status,
       ms_last_success_at :=
         (case success of None \<Rightarrow> ms_last_success_at st | Some now \<Rightarrow> Some now)\<rparr>"

definition mcp_health :: "telemetry_settings \<Rightarrow> mcp_state \<Rightarrow> bool \<times> mcp_state" where
  "mcp_health S st =
    (if ts_signoz_mcp_url S \<noteq> [] \<and> ts_signoz_api_key S \<noteq> [] then (True, st)
     else (False, \<lparr>ms_available = None, ms_status = ''unconfigured'', ms_last_success_at = None\<rparr>))"

fun failure_status :: "failure_kind \<Rightarrow> string" where
  "failure_status Configuration_Unavailable = ''configuration_unavailable''"
| "failure_status Exporter_Unavailable = ''exporter_unavailable''"
| "failure_status Transport_Unavailable = ''transport_unavailable''"
| "failure_status Mcp_Tool_Error = ''mcp_tool_error''"
| "failure_status Response_Schema_Mismatch = ''response_schema_mismatch''"
| "failure_status Evidence_Inconsistent = ''evidence_inconsistent''"
| "failure_status Internal_Parser_Defect = ''internal_parser_defect''"

definition observe_failure :: "failure_kind \<Rightarrow> mcp_state \<Rightarrow> mcp_state" where
  "observe_failure kind = record_mcp_health (kind \<noteq> Transport_Unavailable) (failure_status kind) None"

section \<open>\<open>verify_command\<close>\<close>

text \<open>
  The last part, after six answers: the server is ready, whatever the answers hold.  Reconciliation
  is a total function, so the handler for \<open>INTERNAL_PARSER_DEFECT\<close> is never reached.
\<close>

definition judge_answers ::
    "readers \<Rightarrow> complaint \<Rightarrow> time \<Rightarrow> verification_context \<Rightarrow> answers \<Rightarrow> mcp_state \<Rightarrow>
     telemetry_verdict \<times> mcp_state" where
  "judge_answers R pyd now ctx an st =
    (let ready = record_mcp_health True ''ready'' (Some now) st in
     case collect_answers R an of
       Inl (Tool_Error text) \<Rightarrow>
         (telemetry_failure Unavailable Mcp_Tool_Error text [], observe_failure Mcp_Tool_Error ready)
     | Inl (Schema_Error text) \<Rightarrow>
         (telemetry_failure Partial Response_Schema_Mismatch text [],
          observe_failure Response_Schema_Mismatch ready)
     | Inr evidence \<Rightarrow>
         (let verdict = reconcile_evidence pyd ctx evidence
          in (verdict, (case tv_failure_kind verdict of
                          None \<Rightarrow> ready | Some kind \<Rightarrow> observe_failure kind ready))))"

definition verify_command ::
    "telemetry_settings \<Rightarrow> readers \<Rightarrow> complaint \<Rightarrow> remote \<Rightarrow> time \<Rightarrow> verification_context \<Rightarrow>
     mcp_state \<Rightarrow> (session_error + telemetry_verdict) \<times> mcp_state" where
  "verify_command S R pyd M now ctx st =
    (case configuration_error S ctx of
       Some verdict \<Rightarrow> (Inr verdict, st)
     | None \<Rightarrow>
         if \<not> rm_sdk_installed M
         then (Inr (telemetry_failure Unavailable Configuration_Unavailable
           ''MCP Python SDK is not installed'' []), st)
         else (case run_session M ctx of
             Inl (Transport_Error text) \<Rightarrow>
               (Inr (telemetry_failure Unavailable Transport_Unavailable
                  (''SigNoz MCP transport unavailable: '' @ text) []),
                observe_failure Transport_Unavailable st)
           | Inl (Protocol_Error text) \<Rightarrow>
               (Inr (telemetry_failure Unavailable Mcp_Tool_Error
                  (''SigNoz MCP tool error: '' @ text) []),
                observe_failure Mcp_Tool_Error st)
           | Inl (Other_Exception text) \<Rightarrow> (Inl (Other_Exception text), st)
           | Inr (Inl tools) \<Rightarrow>
               (Inr (telemetry_failure Unavailable Mcp_Tool_Error
                  (''Missing SigNoz MCP tools: '' @ join '', '' (missing_tools tools))
                  [(''available_tools'', PArr (map PStr (sort (remdups tools))))]), st)
           | Inr (Inr answers) \<Rightarrow>
               (let (verdict, st') = judge_answers R pyd now ctx answers st
                in (Inr verdict, st'))))"

end
