(* ===== verification/Exporter.thy ===== *)
theory Exporter
  imports Telemetry
begin

text \<open>
  \<open>telemetry/setup.py\<close>: the process-wide state of the OpenTelemetry export (its status, the
  providers this process owns, the watermark of the last successful export) and the operations on
  it.  What the SDK answers (whether a provider could be installed, what a flush returned) is an
  argument of the operation that asks.
\<close>

section \<open>State\<close>

datatype export_status = Disabled | Configured | Failed | Degraded | Ready | Stopped

text \<open>The providers are kept as "this process owns one"; the two instance ids never change.\<close>

record exporter =
  xp_status :: export_status
  xp_errors :: "string list"
  xp_instrumentation_errors :: "string list"
  xp_service_name :: "string option"
  xp_tracer :: bool
  xp_meter :: bool
  xp_logger :: bool
  xp_log_handler :: bool
  xp_sequence :: int
  xp_last_flush :: "time option"
  xp_watermark :: "export_watermark option"
  xp_service_instance_id :: string
  xp_process_instance_id :: string
  xp_failures_total :: int

definition initial_exporter :: "string \<Rightarrow> string \<Rightarrow> exporter" where
  "initial_exporter instance process =
    \<lparr>xp_status = Disabled, xp_errors = [], xp_instrumentation_errors = [], xp_service_name = None,
     xp_tracer = False, xp_meter = False, xp_logger = False, xp_log_handler = False,
     xp_sequence = 0, xp_last_flush = None, xp_watermark = None,
     xp_service_instance_id = instance, xp_process_instance_id = process, xp_failures_total = 0\<rparr>"

definition telemetry_schema_version :: int where
  "telemetry_schema_version = 1"

definition default_service_name :: string where
  "default_service_name = ''tracefence-control-plane''"

section \<open>Configuration\<close>

text \<open>
  What happens to a provider: the text of the exception its exporter raised, if it did, and whether
  the global slot took it, kept another one, or raised.
\<close>

datatype installation = Owned | Foreign | Raised

record provider_outcome =
  po_exporter_error :: "string option"
  po_installation :: installation

text \<open>The log provider: \<open>Raised\<close> with a flag, whether the exception came after it was kept.\<close>

datatype log_outcome = Log_Owned | Log_Foreign | Log_Raised bool

definition exporter_errors :: "string \<Rightarrow> string \<Rightarrow> provider_outcome \<Rightarrow> string list" where
  "exporter_errors endpoint label outcome =
    (case po_exporter_error outcome of
       Some text \<Rightarrow> if endpoint = [] then [] else [label @ '': '' @ text]
     | None \<Rightarrow> [])"

definition configure_logs :: "log_outcome \<Rightarrow> exporter \<Rightarrow> bool \<times> exporter" where
  "configure_logs outcome st =
    (case outcome of
       Log_Owned \<Rightarrow> (True, st\<lparr>xp_logger := True, xp_log_handler := True\<rparr>)
     | Log_Foreign \<Rightarrow> (False, st)
     | Log_Raised kept \<Rightarrow> (False, if kept then st\<lparr>xp_logger := True\<rparr> else st))"

definition settle_status :: "exporter \<Rightarrow> exporter" where
  "settle_status st =
    (if xp_errors st \<noteq> [] then st\<lparr>xp_status := Failed\<rparr>
     else if \<not> (xp_tracer st \<and> xp_meter st \<and> xp_logger st)
     then st\<lparr>xp_status := Degraded,
            xp_errors := xp_errors st @ [''one or more telemetry providers are owned externally'']\<rparr>
     else st\<lparr>xp_status := Ready\<rparr>)"

definition configure_telemetry ::
    "telemetry_settings \<Rightarrow> string \<Rightarrow> provider_outcome \<Rightarrow> provider_outcome \<Rightarrow> log_outcome \<Rightarrow>
     exporter \<Rightarrow> exporter" where
  "configure_telemetry S name traces metrics logs st =
    (if xp_service_name st \<noteq> None then st
     else
       let endpoint = ts_otlp_endpoint S;
           st1 = st\<lparr>xp_service_name := Some name,
             xp_errors := xp_instrumentation_errors st @
               exporter_errors endpoint ''trace exporter'' traces @
               exporter_errors endpoint ''metric exporter'' metrics,
             xp_status := (if endpoint \<noteq> [] then Configured else Disabled),
             xp_tracer := (xp_tracer st \<or> po_installation traces = Owned),
             xp_meter := (xp_meter st \<or> po_installation metrics = Owned)\<rparr>
       in if endpoint = [] then st1
          else (let (ok, st2) = configure_logs logs st1
                in settle_status (if ok then st2
                     else st2\<lparr>xp_errors := xp_errors st2 @ [''log exporter unavailable'']\<rparr>)))"

definition record_instrumentation_error ::
    "telemetry_settings \<Rightarrow> string \<Rightarrow> exporter \<Rightarrow> exporter" where
  "record_instrumentation_error S text st =
     st\<lparr>xp_instrumentation_errors :=
          (if text \<in> set (xp_instrumentation_errors st) then xp_instrumentation_errors st
           else xp_instrumentation_errors st @ [text]),
        xp_errors := (if text \<in> set (xp_errors st) then xp_errors st else xp_errors st @ [text]),
        xp_status := (if ts_otlp_endpoint S \<noteq> [] then Failed else xp_status st)\<rparr>"

definition shutdown_telemetry :: "exporter \<Rightarrow> exporter" where
  "shutdown_telemetry st =
    (if xp_status st = Stopped then st
     else st\<lparr>xp_tracer := False, xp_meter := False, xp_logger := False, xp_log_handler := False,
             xp_status := Stopped\<rparr>)"

section \<open>Flushing\<close>

text \<open>The order of one process-wide flush: tracer, meter, logger; an exception counts as \<open>False\<close>.\<close>

record flush_results =
  fr_tracer :: "bool option"
  fr_meter :: "bool option"
  fr_logger :: "bool option"

definition owned_results :: "exporter \<Rightarrow> flush_results \<Rightarrow> bool list" where
  "owned_results st fr =
    (let answer = (\<lambda>owned r. if owned then [r = Some True] else [])
     in answer (xp_tracer st) (fr_tracer fr) @ answer (xp_meter st) (fr_meter fr) @
        answer (xp_logger st) (fr_logger fr))"

definition process_identity_of :: "telemetry_settings \<Rightarrow> exporter \<Rightarrow> process_identity" where
  "process_identity_of S st =
    \<lparr>pi_service_name = (case xp_service_name st of Some (c # cs) \<Rightarrow> c # cs | _ \<Rightarrow> default_service_name),
     pi_service_instance_id = xp_service_instance_id st,
     pi_process_instance_id = xp_process_instance_id st,
     pi_build_commit = (if ts_build_commit S = [] then ''UNSET'' else ts_build_commit S),
     pi_schema_version = telemetry_schema_version\<rparr>"

text \<open>
  The subject of a flush: run, command and, when known, the time of the command in milliseconds.
  Without a subject the flush only moves \<open>xp_last_flush\<close>.  The clock is read at 0 for the proposed
  export time and at 1 after the flush.
\<close>

type_synonym flush_subject = "(ident \<times> ident \<times> int option) option"

definition predates :: "time \<Rightarrow> int option \<Rightarrow> bool" where
  "predates t created = (case created of None \<Rightarrow> False | Some ms \<Rightarrow> epoch_ms t \<le> ms)"

definition propose_export :: "flush_subject \<Rightarrow> time \<Rightarrow> exporter \<Rightarrow> exporter option" where
  "propose_export subject t st =
    (case subject of
       None \<Rightarrow> Some st
     | Some (_, _, created) \<Rightarrow>
         if predates t created then None else Some (st\<lparr>xp_sequence := xp_sequence st + 1\<rparr>))"

definition watermark_of ::
    "telemetry_settings \<Rightarrow> exporter \<Rightarrow> ident \<Rightarrow> ident \<Rightarrow> time \<Rightarrow> export_watermark" where
  "watermark_of S st run_id command_id t =
    \<lparr>wm_identity = process_identity_of S st, wm_run_id = run_id, wm_command_id = command_id,
     wm_exported_at_ms = epoch_ms t, wm_sequence = xp_sequence st\<rparr>"

definition force_flush ::
    "telemetry_settings \<Rightarrow> flush_results \<Rightarrow> clock \<Rightarrow> flush_subject \<Rightarrow> exporter \<Rightarrow> bool \<times> exporter"
where
  "force_flush S fr clk subject st =
    (if ts_otlp_endpoint S = [] \<or> xp_status st \<noteq> Ready then (False, st)
     else case propose_export subject (clk 0) st of
       None \<Rightarrow> (False, st)
     | Some st1 \<Rightarrow>
         (let results = owned_results st1 fr in
          if results = [] then (False, st1)
          else if list_all id results then
            (True, st1\<lparr>xp_last_flush := Some (clk 1),
               xp_watermark := (case subject of
                  None \<Rightarrow> xp_watermark st1
                | Some (run_id, command_id, _) \<Rightarrow>
                    Some (watermark_of S st1 run_id command_id (clk 0)))\<rparr>)
          else (False, st1\<lparr>xp_failures_total := xp_failures_total st1 + 1\<rparr>)))"

definition export_context :: "ident \<Rightarrow> ident \<Rightarrow> exporter \<Rightarrow> export_watermark option" where
  "export_context run_id command_id st =
    (case xp_watermark st of
       None \<Rightarrow> None
     | Some wm \<Rightarrow> if wm_run_id wm \<noteq> run_id \<or> wm_command_id wm \<noteq> command_id then None else Some wm)"

text \<open>The identity of the latest export, \<open>service:sequence:time\<close>.\<close>

definition export_watermark_text :: "exporter \<Rightarrow> string option" where
  "export_watermark_text st =
    (case (xp_last_flush st, xp_service_name st) of
       (Some t, Some name) \<Rightarrow>
         Some (name @ '':'' @ show_int (case xp_watermark st of None \<Rightarrow> 0 | Some wm \<Rightarrow> wm_sequence wm) @
           '':'' @ isoformat_utc t)
     | _ \<Rightarrow> None)"

definition telemetry_health ::
    "telemetry_settings \<Rightarrow> exporter \<Rightarrow> export_status \<times> bool \<times> string list \<times> time option" where
  "telemetry_health S st =
     (xp_status st, ts_otlp_endpoint S \<noteq> [], xp_errors st, xp_last_flush st)"

section \<open>The life of the exporter\<close>

inductive exporter_step :: "telemetry_settings \<Rightarrow> exporter \<Rightarrow> exporter \<Rightarrow> bool" for S where
  configure: "exporter_step S st (configure_telemetry S name traces metrics logs st)"
| instrument: "exporter_step S st (record_instrumentation_error S text st)"
| flush: "exporter_step S st (snd (force_flush S fr clk subject st))"
| stop: "exporter_step S st (shutdown_telemetry st)"

inductive exporter_reachable :: "telemetry_settings \<Rightarrow> exporter \<Rightarrow> bool" for S where
  start: "exporter_reachable S (initial_exporter instance process)"
| step: "exporter_reachable S st \<Longrightarrow> exporter_step S st st' \<Longrightarrow> exporter_reachable S st'"

inductive_cases exporter_stepE: "exporter_step S st st'"

text \<open>
  A ready exporter is configured, owns its three providers and has met no error; the watermark
  carries a number that has been given out.
\<close>

definition exporter_ok :: "telemetry_settings \<Rightarrow> exporter \<Rightarrow> bool" where
  "exporter_ok S st \<longleftrightarrow>
     (xp_status st = Ready \<longrightarrow> ts_otlp_endpoint S \<noteq> [] \<and> xp_errors st = [] \<and>
        xp_service_name st \<noteq> None \<and> xp_tracer st \<and> xp_meter st \<and> xp_logger st) \<and>
     (xp_service_name st = None \<longrightarrow> xp_watermark st = None) \<and>
     0 \<le> xp_sequence st \<and>
     (case xp_watermark st of
        None \<Rightarrow> True
      | Some wm \<Rightarrow> 1 \<le> wm_sequence wm \<and> wm_sequence wm \<le> xp_sequence st \<and>
          wm_identity wm = process_identity_of S st)"

definition same_process :: "exporter \<Rightarrow> exporter \<Rightarrow> bool" where
  "same_process st st' \<longleftrightarrow>
     xp_service_instance_id st' = xp_service_instance_id st \<and>
     xp_process_instance_id st' = xp_process_instance_id st \<and>
     (xp_service_name st \<noteq> None \<longrightarrow> xp_service_name st' = xp_service_name st)"

lemma initial_exporter_ok: "exporter_ok S (initial_exporter instance process)"
  by (simp add: exporter_ok_def initial_exporter_def)

lemma process_identity_cong:
  "same_process st st' \<Longrightarrow> xp_service_name st \<noteq> None \<Longrightarrow>
   process_identity_of S st' = process_identity_of S st"
  by (simp add: process_identity_of_def same_process_def)

lemma configure_keeps_process:
  "same_process st (configure_telemetry S name traces metrics logs st)"
  by (simp add: configure_telemetry_def same_process_def configure_logs_def settle_status_def Let_def
      split: log_outcome.splits)

lemma configure_ok:
  assumes "exporter_ok S st"
  shows "exporter_ok S (configure_telemetry S name traces metrics logs st)"
proof (cases "xp_service_name st")
  case None
  then have "xp_watermark st = None" and "0 \<le> xp_sequence st"
    using assms by (simp_all add: exporter_ok_def)
  with None show ?thesis
    by (simp add: exporter_ok_def configure_telemetry_def configure_logs_def settle_status_def Let_def
        split: log_outcome.split)
qed (use assms in \<open>simp add: configure_telemetry_def\<close>)

lemma instrument_ok:
  assumes "exporter_ok S st"
  shows "exporter_ok S (record_instrumentation_error S text st)"
  using assms
  by (auto simp: exporter_ok_def record_instrumentation_error_def process_identity_of_def
      split: option.splits)

lemma shutdown_ok: "exporter_ok S st \<Longrightarrow> exporter_ok S (shutdown_telemetry st)"
  by (auto simp: exporter_ok_def shutdown_telemetry_def process_identity_of_def split: option.splits)

text \<open>A flush that is not refused, seen from its subject.\<close>

lemma propose_export_returns:
  "propose_export subject t st = Some st1 \<longleftrightarrow>
     (case subject of
        None \<Rightarrow> st1 = st
      | Some (run_id, command_id, created) \<Rightarrow>
          \<not> predates t created \<and> st1 = st\<lparr>xp_sequence := xp_sequence st + 1\<rparr>)"
  by (auto simp: propose_export_def split: option.splits)

lemma force_flush_same_process: "same_process st (snd (force_flush S fr clk subject st))"
  by (auto simp: force_flush_def same_process_def propose_export_def Let_def split: option.splits)

lemma force_flush_ok:
  assumes "exporter_ok S st"
  shows "exporter_ok S (snd (force_flush S fr clk subject st))"
proof (cases subject)
  case None
  with assms show ?thesis
    by (auto simp: force_flush_def propose_export_def exporter_ok_def process_identity_of_def Let_def
        split: option.splits)
next
  case (Some subj)
  with assms show ?thesis
    by (cases subj)
      (auto simp: force_flush_def propose_export_def exporter_ok_def process_identity_of_def
        watermark_of_def Let_def split: option.splits)
qed

lemma exporter_step_ok: "exporter_step S st st' \<Longrightarrow> exporter_ok S st \<Longrightarrow> exporter_ok S st'"
  by (elim exporter_stepE) (simp_all add: configure_ok instrument_ok force_flush_ok shutdown_ok)

lemma exporter_reachable_ok: "exporter_reachable S st \<Longrightarrow> exporter_ok S st"
  by (induction rule: exporter_reachable.induct) (auto simp: initial_exporter_ok exporter_step_ok)

lemma exporter_step_sequence: "exporter_step S st st' \<Longrightarrow> xp_sequence st \<le> xp_sequence st'"
  by (elim exporter_stepE)
    (auto simp: configure_telemetry_def configure_logs_def settle_status_def shutdown_telemetry_def
      record_instrumentation_error_def force_flush_def propose_export_def Let_def
      split: log_outcome.splits option.splits)

end
