(* ===== verification/Admission.thy ===== *)
theory Admission
  imports Payloads
begin

text \<open>
  What an accepted result of \<open>Payloads\<close> guarantees: an adapted row holds every item with a canonical
  name, aliases that disagree are refused (Python's equality is transitive, so agreeing with the
  last writer is agreeing with all), and behind the JSON block stand only harmless advisories.
\<close>

section \<open>Equality\<close>

lemma same_number_trans: "same_number u v \<Longrightarrow> same_number v w \<Longrightarrow> same_number u w"
  by (auto simp: same_number_def split: option.splits)

lemma same_number_py_eq: "same_number u v \<Longrightarrow> py_eq v w \<Longrightarrow> same_number u w"
  by (cases v) (auto simp: same_number_def split: option.splits)

text \<open>Identical or equal: how containers compare.\<close>

definition like :: "payload \<Rightarrow> payload \<Rightarrow> bool" where
  "like v w \<longleftrightarrow> v = PFloat NaN \<and> w = PFloat NaN \<or> py_eq v w"

lemma not_py_eq_NaN [simp]: "\<not> py_eq u (PFloat NaN)" "\<not> py_eq (PFloat NaN) u"
  by (cases u; simp add: same_number_def)+

lemma fields_eq_iff:
  "fields_eq kv lw \<longleftrightarrow> (\<forall>(k, v) \<in> set kv. case map_of lw k of None \<Rightarrow> False | Some w \<Rightarrow> like v w)"
  by (induction kv) (auto simp: like_def split: option.splits)

lemma py_eq_trans_all:
  "py_eq u v \<Longrightarrow> py_eq v w \<Longrightarrow> py_eq u w"
  "items_eq us vs \<Longrightarrow> items_eq vs ws \<Longrightarrow> items_eq us ws"
  "fields_eq ku kv \<Longrightarrow> fields_eq kv kw \<Longrightarrow> fields_eq ku kw"
proof (induction u v and us vs and ku kv arbitrary: w and ws and kw
    rule: py_eq_items_eq_fields_eq.induct)
  case (3 vs v)
  then show ?case by (auto split: payload.splits)
next
  case (4 kv v)
  then show ?case by (auto split: payload.splits)
next
  case (5 b v)
  then show ?case by (auto intro: same_number_py_eq)
next
  case (6 i v)
  then show ?case by (auto intro: same_number_py_eq)
next
  case (7 f v)
  then show ?case by (auto intro: same_number_py_eq)
next
  case (9 v vs ws')
  then show ?case by (auto split: list.splits)
next
  case (11 k v kv lw)
  from "11.prems"(1) obtain w where w: "map_of lw k = Some w" "like v w" "fields_eq kv lw"
    by (auto simp: like_def split: option.splits)
  from w(1) have "(k, w) \<in> set lw" by (rule map_of_SomeD)
  with "11.prems"(2) obtain x where x: "map_of kw k = Some x" "like w x"
    by (auto simp: fields_eq_iff split: option.splits)
  have "like v x" using w(1,2) x "11.IH"(1) by (auto simp: like_def)
  with x w "11.IH"(2) "11.prems"(2) show ?case by (auto simp: like_def)
qed (auto split: payload.splits)

section \<open>Adapted rows\<close>

text \<open>A field holds a value that is, or equals, the given one.\<close>

definition holds_value :: "dict \<Rightarrow> string \<Rightarrow> payload \<Rightarrow> bool" where
  "holds_value kv k v \<longleftrightarrow> (\<exists>w. map_of kv k = Some w \<and> (v = w \<or> py_eq v w))"

lemma dict_keys_map_of: "dict_keys kv = dom (map_of kv)"
  by (simp add: dict_keys_def dom_map_of_conv_image_fst)

lemma put_unambiguous_returns [outcome]:
  "put_unambiguous target key v = Inr target' \<longleftrightarrow>
     (\<forall>old. map_of target key = Some old \<longrightarrow> py_eq old v) \<and> target' = AList.update key v target"
  by (auto simp: put_unambiguous_def split: option.splits)

lemma put_unambiguous_keys:
  "put_unambiguous target key v = Inr target' \<Longrightarrow> dict_keys target' = insert key (dict_keys target)"
  by (auto simp: outcome dict_keys_map_of update_conv')

lemma put_unambiguous_holds: "put_unambiguous target key v = Inr target' \<Longrightarrow> holds_value target' key v"
  by (auto simp: outcome holds_value_def update_conv')

lemma put_unambiguous_keeps:
  "put_unambiguous target key v = Inr target' \<Longrightarrow> holds_value target k u \<Longrightarrow> holds_value target' k u"
  using py_eq_trans_all(1) by (auto simp: outcome holds_value_def update_conv')

lemma put_item_keeps:
  "put_item item target = Inr target' \<Longrightarrow> holds_value target k u \<Longrightarrow> holds_value target' k u"
  by (auto simp: put_item_def put_unambiguous_keeps split: prod.splits option.splits)

lemma put_items_keep:
  "foldm put_item items target = Inr target' \<Longrightarrow> holds_value target k u \<Longrightarrow> holds_value target' k u"
  by (erule foldm_invariant) (auto intro: put_item_keeps)

lemma put_items_hold:
  assumes "foldm put_item items target = Inr target'"
    and "(n, v) \<in> set items" and "map_of field_aliases n = Some c"
  shows "holds_value target' c v"
  using assms
proof (induction items arbitrary: target)
  case (Cons item items)
  from Cons.prems(1) obtain t where t: "put_item item target = Inr t" "foldm put_item items t = Inr target'"
    by (auto simp: outcome)
  show ?case
  proof (cases "item = (n, v)")
    case True
    with t(1) Cons.prems(3) have "holds_value t c v"
      by (auto simp: put_item_def intro: put_unambiguous_holds)
    with t(2) show ?thesis by (rule put_items_keep)
  qed (use Cons t in auto)
qed simp

definition canonical_keys :: "dict \<Rightarrow> string set" where
  "canonical_keys items = {c. \<exists>(n, v) \<in> set items. map_of field_aliases n = Some c}"

lemma put_items_keys:
  "foldm put_item items target = Inr target' \<Longrightarrow>
   dict_keys target' = dict_keys target \<union> canonical_keys items"
proof (induction items arbitrary: target)
  case (Cons item items)
  then obtain t where t: "put_item item target = Inr t" "foldm put_item items t = Inr target'"
    by (auto simp: outcome)
  have "dict_keys t = dict_keys target \<union> canonical_keys [item]"
    using t(1) by (cases item)
      (auto simp: put_item_def canonical_keys_def dest: put_unambiguous_keys split: option.splits)
  with Cons.IH [OF t(2)] show ?case by (auto simp: canonical_keys_def)
qed (simp add: canonical_keys_def)

lemma adapt_row_returns:
  "adapt_query_builder_row R columns defaults row = Inr target \<longleftrightarrow>
    (\<exists>kv items mid. row = PObj kv \<and> dict_keys kv \<subseteq> {''timestamp'', ''data''} \<and>
       row_items columns (dget kv ''data'') = Inr items \<and> foldm put_item items defaults = Inr mid \<and>
       (case map_of kv ''timestamp'' of
          None \<Rightarrow> target = mid
        | Some v \<Rightarrow> \<exists>ms. timestamp_to_milliseconds R v = Inr ms \<and>
            put_unambiguous mid ''timestamp_ms'' (PInt ms) = Inr target))"
  by (cases row) (auto simp: adapt_query_builder_row_def andthen_returns require_returns
      split: option.split)

text \<open>
  Every field of an adapted row is a default, the canonical name of an item, or the timestamp; and
  every item with a canonical name is what the row holds under it.
\<close>

lemma adapt_row_keys:
  assumes "adapt_query_builder_row R columns defaults (PObj kv) = Inr target"
    and "row_items columns (dget kv ''data'') = Inr items"
  shows "dict_keys target \<subseteq> dict_keys defaults \<union> canonical_keys items \<union> {''timestamp_ms''}"
  using assms by (auto simp: adapt_row_returns put_items_keys dest!: put_unambiguous_keys
      split: option.splits)

lemma adapt_row_holds:
  assumes "adapt_query_builder_row R columns defaults (PObj kv) = Inr target"
    and "row_items columns (dget kv ''data'') = Inr items"
    and "(n, v) \<in> set items" and "map_of field_aliases n = Some c"
  shows "holds_value target c v"
proof -
  from assms(1,2) obtain mid where "foldm put_item items defaults = Inr mid"
    and "target = mid \<or> (\<exists>ms. put_unambiguous mid ''timestamp_ms'' (PInt ms) = Inr target)"
    unfolding adapt_row_returns by (fastforce split: option.splits)
  then show ?thesis using put_items_hold [OF _ assms(3,4)] put_unambiguous_keeps by blast
qed

section \<open>Advisories\<close>

lemma validate_advisory_not_none: "validate_advisory a \<noteq> No_Pagination"
  by (simp add: validate_advisory_def decision_kind_def Let_def)

lemma advisory_refusal_None:
  "advisory_refusal (validate_advisory a) = None \<longleftrightarrow>
     validate_advisory a \<in> {Page_Complete, Metrics_Decision}"
  using validate_advisory_not_none [of a] by (cases "validate_advisory a") simp_all

definition harmless :: "readers \<Rightarrow> string \<Rightarrow> bool" where
  "harmless R a \<longleftrightarrow> rd_loads R a = None \<and> validate_advisory a \<in> {Page_Complete, Metrics_Decision}"

lemma advisories_from_returns:
  "advisories_from R state as = Inr k \<longleftrightarrow>
     list_all (harmless R) as \<and>
     k = (if \<exists>a \<in> set as. validate_advisory a = Page_Complete then Page_Complete else state)"
proof (induction as arbitrary: state)
  case (Cons a as)
  then show ?case
    using advisory_refusal_None [of a]
    by (cases "advisory_refusal (validate_advisory a)") (auto simp: outcome harmless_def)
qed auto

lemma validate_advisories_returns [outcome]:
  "validate_advisories R as = Inr k \<longleftrightarrow>
     list_all (harmless R) as \<and>
     k = (if \<exists>a \<in> set as. validate_advisory a = Page_Complete then Page_Complete else No_Pagination)"
  by (simp add: validate_advisories_def advisories_from_returns)

section \<open>Admissible results\<close>

lemma map_result_returns:
  "map_result f xs = Inr ys \<longleftrightarrow> list_all2 (\<lambda>x y. f x = Inr y) xs ys"
  by (induction xs arbitrary: ys) (auto simp: outcome list_all2_Cons1)

text \<open>
  What a text result that is turned into evidence looks like: no error, text blocks only, the first
  a JSON object, and behind it nothing but complete-page notes and clean decision notes.
\<close>

definition admissible_text :: "readers \<Rightarrow> tool_result \<Rightarrow> string \<Rightarrow> string list \<Rightarrow> bool" where
  "admissible_text R result first rest \<longleftrightarrow>
     \<not> tr_isError result \<and> \<not> tr_is_error result \<and>
     (\<exists>blocks. tr_content result = Blocks blocks \<and>
        list_all2 (\<lambda>b t. cb_type b = ''text'' \<and> cb_text b = Some t) blocks (first # rest)) \<and>
     list_all (harmless R) rest"

lemma block_text_returns: "block_text c b = Inr t \<longleftrightarrow> cb_type b = ''text'' \<and> cb_text b = Some t"
  by (auto simp: block_text_def split: option.splits)

lemma content_texts_returns:
  "content_texts absent unexpected content = Inr (t, ts) \<longleftrightarrow>
     (\<exists>blocks. content = Blocks blocks \<and>
        list_all2 (\<lambda>b t. cb_type b = ''text'' \<and> cb_text b = Some t) blocks (t # ts))"
  by (auto simp: content_texts_def andthen_returns map_result_returns block_text_returns
      list_all2_Cons1 list_all2_Cons2 split: content.splits list.splits)

lemma text_result_admissible:
  assumes "normalize_tool_result R defaults result = Inr kv" and "tr_structured result = None"
  shows "\<exists>first rest. admissible_text R result first rest \<and>
    (\<exists>parsed. rd_loads R first = Some (PObj parsed) \<and>
      (if dict_keys parsed = {''results''} then kv = parsed
       else adapt_query_builder_payload R defaults
         (if \<exists>a \<in> set rest. validate_advisory a = Page_Complete then Page_Complete else No_Pagination)
         parsed = Inr kv))"
proof -
  from assms have ok: "\<not> tr_isError result" "\<not> tr_is_error result"
    by (auto simp: normalize_tool_result_def outcome)
  from assms obtain first rest where
    texts: "content_texts ''MCP result has no unambiguous structured result container''
        ''MCP result contained unexpected executable content'' (tr_content result) = Inr (first, rest)"
      and kv: "text_evidence R defaults (first, rest) = Inr kv"
    by (auto simp: normalize_tool_result_def outcome)
  from kv obtain v where "rd_loads R first = Some v"
    by (auto simp: text_evidence_def outcome)
  with kv obtain parsed advisory where parsed: "rd_loads R first = Some (PObj parsed)"
    and advisory: "validate_advisories R rest = Inr advisory"
    and "(if dict_keys parsed = {''results''} then Inr parsed
      else adapt_query_builder_payload R defaults advisory parsed) = Inr kv"
    by (cases v) (auto simp: text_evidence_def andthen_returns)
  then show ?thesis
    using ok texts
    by (intro exI [of _ first] exI [of _ rest])
      (auto simp: admissible_text_def content_texts_returns validate_advisories_returns
        split: if_splits)
qed

end
