(* ===== verification/Reconciliation.thy ===== *)
theory Reconciliation
  imports Telemetry Admission
begin

text \<open>
  What a verified telemetry verdict means: a specification of evidence that matches the context
  exactly, and the lemmas that the list of discrepancies is empty just for such evidence.
\<close>

section \<open>Empty discrepancy lists\<close>

lemma remark_simps [simp]:
  "remark True text = []"
  "remark False text = [text]"
  "remark ok text = [] \<longleftrightarrow> ok"
  by (simp_all add: remark_def)

lemma duplicates_loop:
  "set (snd (fold (\<lambda>v (seen, dups). (List.insert v seen,
      if v \<in> set seen then List.insert v dups else dups)) xs (seen, dups))) = {} \<longleftrightarrow>
   distinct xs \<and> set xs \<inter> set seen = {} \<and> dups = []"
  by (induction xs arbitrary: seen dups) (auto simp: List.insert_def)

lemma duplicates_empty [simp]: "duplicates xs = [] \<longleftrightarrow> distinct xs"
  using duplicates_loop [of xs "[]" "[]"] by (simp add: duplicates_def)

lemma identity_discrepancies_empty [simp]:
  "identity_discrepancies ctx row = [] \<longleftrightarrow> row = vc_identity ctx"
  by (cases row; cases "vc_identity ctx") (simp add: identity_discrepancies_def)

lemma action_discrepancies_empty:
  "action_discrepancies row own = [] \<and> ba_action_id own = ba_action_id row \<longleftrightarrow> row = own"
  by (cases row; cases own) (auto simp: action_discrepancies_def)

text \<open>A row of the right process, command and run, of the right kind, inside the window.\<close>

definition attributed :: "verification_context \<Rightarrow> string \<Rightarrow> blocked_row \<Rightarrow> bool" where
  "attributed ctx event row \<longleftrightarrow>
     br_identity row = vc_identity ctx \<and> br_command_id row = vc_command_id ctx \<and>
     br_run_id row = vc_run_id ctx \<and> br_event row = event \<and> in_window ctx (br_timestamp_ms row)"

definition attributed_command :: "verification_context \<Rightarrow> command_trace \<Rightarrow> bool" where
  "attributed_command ctx row \<longleftrightarrow>
     ct_identity row = vc_identity ctx \<and> ct_command_id row = vc_command_id ctx \<and>
     ct_run_id row = vc_run_id ctx \<and> ct_operation row = vc_command_operation ctx \<and>
     in_window ctx (ct_timestamp_ms row)"

definition attributed_watermark ::
    "verification_context \<Rightarrow> export_watermark \<Rightarrow> watermark_row \<Rightarrow> bool" where
  "attributed_watermark ctx own row \<longleftrightarrow>
     wr_identity row = vc_identity ctx \<and> wr_identity row = wm_identity own \<and>
     wr_command_id row = wm_command_id own \<and> wr_run_id row = wm_run_id own \<and>
     wr_exported_at_ms row = wm_exported_at_ms own \<and> wr_sequence row = wm_sequence own \<and>
     wr_operation row = ''tracefence.telemetry.export_watermark'' \<and>
     vc_command_created_ms ctx < wr_exported_at_ms row \<and> in_window ctx (wr_exported_at_ms row)"

text \<open>
  The specification: one command trace and one watermark, both of this command; the blocked traces
  and the blocked logs are, up to order, the actions the runtime blocked, each once; no trace id
  occurs twice.
\<close>

definition exact_match :: "verification_context \<Rightarrow> evidence_rows \<Rightarrow> bool" where
  "exact_match ctx rows \<longleftrightarrow>
     (\<exists>command watermark own.
        er_commands rows = [command] \<and> er_watermarks rows = [watermark] \<and>
        vc_export_watermark ctx = Some own \<and> attributed_command ctx command \<and>
        attributed_watermark ctx own watermark) \<and>
     distinct (map ba_action_id (vc_blocked_actions ctx)) \<and>
     mset (map (br_action \<circ> bt_row) (er_traces rows)) = mset (vc_blocked_actions ctx) \<and>
     mset (map br_action (er_logs rows)) = mset (vc_blocked_actions ctx) \<and>
     list_all (attributed ctx ''tracefence.action.block'' \<circ> bt_row) (er_traces rows) \<and>
     list_all (attributed ctx ''action_denied'') (er_logs rows) \<and>
     distinct (evidence_trace_ids rows)"

lemma command_row_discrepancies_empty [simp]:
  "command_row_discrepancies ctx row = [] \<longleftrightarrow> attributed_command ctx row"
  by (simp add: command_row_discrepancies_def attributed_command_def)

lemma watermark_discrepancies_empty:
  "vc_export_watermark ctx = Some own \<Longrightarrow>
   watermark_discrepancies ctx row = [] \<longleftrightarrow> attributed_watermark ctx own row"
  by (cases "wr_identity row"; cases "wm_identity own")
    (auto simp: watermark_discrepancies_def attributed_watermark_def Let_def)

text \<open>The dict of the runtime actions, when no id is repeated.\<close>

lemma runtime_by_id_Some:
  assumes "distinct (map ba_action_id (vc_blocked_actions ctx))"
  shows "runtime_by_id ctx i = Some a \<longleftrightarrow> a \<in> set (vc_blocked_actions ctx) \<and> ba_action_id a = i"
proof -
  have "distinct (map fst (rev (map (\<lambda>a. (ba_action_id a, a)) (vc_blocked_actions ctx))))"
    using assms by (simp add: rev_map [symmetric] comp_def)
  from map_of_eq_Some_iff [OF this] show ?thesis by (auto simp: runtime_by_id_def)
qed

lemma blocked_row_discrepancies_empty:
  assumes "distinct (map ba_action_id (vc_blocked_actions ctx))"
  shows "blocked_row_discrepancies ctx (runtime_by_id ctx (row_action_id row)) event row = [] \<longleftrightarrow>
    attributed ctx event row \<and> br_action row \<in> set (vc_blocked_actions ctx)"
proof (cases "runtime_by_id ctx (row_action_id row)")
  case None
  with assms show ?thesis
    using runtime_by_id_Some [OF assms, of "row_action_id row" "br_action row"]
    by (simp add: blocked_row_discrepancies_def row_action_id_def)
next
  case (Some own)
  then have own: "own \<in> set (vc_blocked_actions ctx)" "ba_action_id own = ba_action_id (br_action row)"
    using runtime_by_id_Some [OF assms] by (auto simp: row_action_id_def)
  have "br_action row \<in> set (vc_blocked_actions ctx) \<longleftrightarrow> br_action row = own"
    using own Some runtime_by_id_Some [OF assms, of "row_action_id row" "br_action row"]
    by (auto simp: row_action_id_def)
  with Some own action_discrepancies_empty [of "br_action row" own] show ?thesis
    by (auto simp: blocked_row_discrepancies_def attributed_def)
qed

text \<open>A set of rows without repeated ids that covers the runtime ids is the runtime list, reordered.\<close>

lemma same_actions:
  fixes rows :: "blocked_row list"
  assumes "distinct (map ba_action_id own)"
  shows "distinct (map row_action_id rows) \<and> set (map ba_action_id own) = set (map row_action_id rows) \<and>
      (\<forall>r \<in> set rows. br_action r \<in> set own) \<longleftrightarrow>
    mset (map br_action rows) = mset own" (is "?l \<longleftrightarrow> ?r")
proof
  assume l: ?l
  have ids: "map row_action_id rows = map ba_action_id (map br_action rows)"
    by (simp add: row_action_id_def)
  then have d: "distinct (map br_action rows)" using l distinct_map by metis
  have sub: "set (map br_action rows) \<subseteq> set own" using l by auto
  have inj: "inj_on ba_action_id (set own)" using assms by (simp add: distinct_map)
  have "ba_action_id ` set (map br_action rows) = ba_action_id ` set own"
    using l ids by (metis set_map)
  with inj sub have "set (map br_action rows) = set own" by (simp add: inj_on_image_eq_iff)
  with d assms show ?r by (metis distinct_map set_eq_iff_mset_eq_distinct)
next
  assume r: ?r
  have ids: "map row_action_id rows = map ba_action_id (map br_action rows)"
    by (simp add: row_action_id_def)
  from r have m: "mset (map row_action_id rows) = mset (map ba_action_id own)"
    unfolding ids by (metis mset_map)
  from r have "set (map br_action rows) = set own" by (rule mset_eq_setD)
  moreover from m have "distinct (map row_action_id rows)" "set (map row_action_id rows) = set (map ba_action_id own)"
    using assms by (metis mset_eq_imp_distinct_iff, metis mset_eq_setD)
  ultimately show ?l by auto
qed


lemma set_discrepancies_empty:
  "set_discrepancies ctx rows = [] \<longleftrightarrow>
     length (er_commands rows) = 1 \<and> length (er_watermarks rows) = 1 \<and>
     distinct (evidence_trace_ids rows) \<and>
     distinct (map ba_action_id (vc_blocked_actions ctx)) \<and>
     (distinct (map row_action_id (map bt_row (er_traces rows))) \<and>
      set (map ba_action_id (vc_blocked_actions ctx)) =
        set (map row_action_id (map bt_row (er_traces rows)))) \<and>
     (distinct (map row_action_id (er_logs rows)) \<and>
      set (map ba_action_id (vc_blocked_actions ctx)) = set (map row_action_id (er_logs rows)))"
  by (auto simp: set_discrepancies_def Let_def length_remdups_eq simp flip: map_map)

lemma row_discrepancies_empty:
  assumes "distinct (map ba_action_id (vc_blocked_actions ctx))"
    and "vc_export_watermark ctx = Some own"
  shows "row_discrepancies ctx rows = [] \<longleftrightarrow>
    (\<forall>r \<in> set (er_commands rows). attributed_command ctx r) \<and>
    (\<forall>r \<in> set (er_watermarks rows). attributed_watermark ctx own r) \<and>
    list_all (attributed ctx ''tracefence.action.block'' \<circ> bt_row) (er_traces rows) \<and>
    list_all (attributed ctx ''action_denied'') (er_logs rows) \<and>
    (\<forall>r \<in> set (map bt_row (er_traces rows)). br_action r \<in> set (vc_blocked_actions ctx)) \<and>
    (\<forall>r \<in> set (er_logs rows). br_action r \<in> set (vc_blocked_actions ctx))"
  using assms
  by (auto simp: row_discrepancies_def blocked_row_discrepancies_empty watermark_discrepancies_empty
      list_all_iff)

lemma no_discrepancies_iff:
  assumes "vc_export_watermark ctx = Some own"
  shows "set_discrepancies ctx rows @ row_discrepancies ctx rows = [] \<longleftrightarrow> exact_match ctx rows"
proof (cases "distinct (map ba_action_id (vc_blocked_actions ctx))")
  case True
  show ?thesis
    unfolding append_is_Nil_conv set_discrepancies_empty row_discrepancies_empty [OF True assms]
      exact_match_def
    using True assms same_actions [OF True, of "map bt_row (er_traces rows)"]
      same_actions [OF True, of "er_logs rows"]
    by (auto simp: length_Suc_conv comp_assoc)
qed (simp add: set_discrepancies_empty exact_match_def)

section \<open>The verdict\<close>

lemma telemetry_failure_simps [simp]:
  "tv_verdict (telemetry_failure v kind text e) = v"
  "tv_failure_kind (telemetry_failure v kind text e) = Some kind"
  by (simp_all add: telemetry_failure_def)

lemma reconcile_rows_verified:
  assumes "vc_export_watermark ctx = Some own"
  shows "tv_verdict (reconcile_rows ctx evidence rows) = Verified \<longleftrightarrow> exact_match ctx rows"
    and "tv_failure_kind (reconcile_rows ctx evidence rows) = None \<longleftrightarrow> exact_match ctx rows"
  using no_discrepancies_iff [OF assms, of rows]
  by (simp_all add: reconcile_rows_def Let_def del: append_is_Nil_conv)

lemma exact_match_after_command:
  "exact_match ctx rows \<Longrightarrow> vc_export_watermark ctx = Some own \<Longrightarrow>
   vc_command_created_ms ctx < wm_exported_at_ms own"
  by (auto simp: exact_match_def attributed_watermark_def)

lemma reconcile_verified:
  "tv_verdict (reconcile_evidence pyd ctx evidence) = Verified \<longleftrightarrow>
     (\<exists>rows. parse_evidence pyd evidence = Inr rows \<and> exact_match ctx rows)"
proof (cases "vc_export_watermark ctx")
  case None
  then show ?thesis by (simp add: reconcile_evidence_def exact_match_def)
next
  case (Some own)
  then show ?thesis
    using exact_match_after_command [OF _ Some] reconcile_rows_verified(1) [OF Some]
    by (auto simp: reconcile_evidence_def split: sum.split)
qed

lemma reconcile_verified_clean:
  "tv_verdict (reconcile_evidence pyd ctx evidence) = Verified \<Longrightarrow>
   tv_failure_kind (reconcile_evidence pyd ctx evidence) = None"
  using reconcile_rows_verified
  by (auto simp: reconcile_evidence_def split: option.splits sum.splits if_splits)

lemma configuration_error_None:
  "configuration_error S ctx = None \<longleftrightarrow>
     ts_signoz_api_key S \<noteq> [] \<and> pi_build_commit (vc_identity ctx) \<notin> {[], ''UNSET''} \<and>
     vc_export_watermark ctx \<noteq> None"
  by (simp add: configuration_error_def)

lemma configuration_error_Some:
  "configuration_error S ctx = Some v \<Longrightarrow> tv_verdict v = Unavailable"
  by (auto simp: configuration_error_def split: if_splits)

lemma judge_answers_verified:
  assumes "judge_answers R pyd now ctx an st = (v, st')" and "tv_verdict v = Verified"
  shows "\<exists>evidence rows. collect_answers R an = Inr evidence \<and>
    parse_evidence pyd evidence = Inr rows \<and> exact_match ctx rows \<and>
    st' = record_mcp_health True ''ready'' (Some now) st"
  using assms reconcile_verified reconcile_verified_clean
  by (auto simp: judge_answers_def Let_def split: sum.splits telemetry_error.splits)

text \<open>A verified command: the session ran to its end, every answer was accepted, and the rows match.\<close>

lemma verify_command_verified:
  assumes "verify_command S R pyd M now ctx st = (Inr v, st')" and "tv_verdict v = Verified"
  shows "configuration_error S ctx = None \<and> rm_sdk_installed M \<and>
    (\<exists>an evidence rows. run_session M ctx = Inr (Inr an) \<and> collect_answers R an = Inr evidence \<and>
       parse_evidence pyd evidence = Inr rows \<and> exact_match ctx rows \<and>
       st' = record_mcp_health True ''ready'' (Some now) st)"
  using assms judge_answers_verified
  by (auto simp: verify_command_def dest!: configuration_error_Some
      split: option.splits if_splits sum.splits session_error.splits prod.splits)

text \<open>The answers behind the evidence, each normalised on its own.\<close>

lemma collect_answers_returns:
  "collect_answers R an = Inr evidence \<longleftrightarrow>
    (\<exists>c b l w a m.
       normalize_tool_result R [] (an_command an) = Inr c \<and>
       normalize_tool_result R [] (an_blocked an) = Inr b \<and>
       normalize_tool_result R [] (an_logs an) = Inr l \<and>
       normalize_tool_result R [] (an_watermark an) = Inr w \<and>
       normalize_tool_result R (metric_default attempts_metric_name) (an_attempts an) = Inr a \<and>
       normalize_tool_result R (metric_default committed_metric_name) (an_committed an) = Inr m \<and>
       evidence =
         [(''command_traces'', PObj c), (''blocked_traces'', PObj b), (''blocked_logs'', PObj l),
          (''export_watermarks'', PObj w), (''attempts_metric'', PObj a),
          (''committed_metric'', PObj m)])"
  by (auto simp: collect_answers_def outcome)

text \<open>The results of a session, for what holds of each of the six.\<close>

definition all_answers :: "answers \<Rightarrow> tool_result list" where
  "all_answers an =
    [an_command an, an_blocked an, an_logs an, an_watermark an, an_attempts an, an_committed an]"

lemma collected_answer:
  "collect_answers R an = Inr evidence \<Longrightarrow> result \<in> set (all_answers an) \<Longrightarrow>
   \<exists>defaults kv. normalize_tool_result R defaults result = Inr kv"
  by (auto simp: collect_answers_returns all_answers_def)

definition accepted_result :: "readers \<Rightarrow> tool_result \<Rightarrow> bool" where
  "accepted_result R result \<longleftrightarrow>
     \<not> tr_isError result \<and> \<not> tr_is_error result \<and>
     (tr_structured result = None \<longrightarrow> (\<exists>first rest. admissible_text R result first rest))"

lemma normalized_accepted: "normalize_tool_result R defaults result = Inr kv \<Longrightarrow> accepted_result R result"
  using text_result_admissible
  by (fastforce simp: accepted_result_def normalize_tool_result_def andthen_returns require_returns)

end
