(* ===== verification/LiveProof.thy ===== *)
theory LiveProof
  imports Proof Exporter Reconciliation
begin

text \<open>
  The telemetry stage of \<open>ProofService._build_uncached\<close>: what the runtime blocked, the context it
  hands to SigNoz, the flush before the queries, and the proof with the answer in it.  Also the
  attributes the services put on the spans and logs that SigNoz is asked for.
\<close>

section \<open>From the database to the context\<close>

definition text_or_empty :: "string option \<Rightarrow> string" where
  "text_or_empty v = (case v of None \<Rightarrow> [] | Some s \<Rightarrow> s)"

definition int_or_zero :: "int option \<Rightarrow> int" where
  "int_or_zero v = (case v of None \<Rightarrow> 0 | Some i \<Rightarrow> i)"

definition blocked_of :: "action \<Rightarrow> blocked_action" where
  "blocked_of a =
    \<lparr>ba_action_id = a_id a, ba_node_id = a_node_id a,
     ba_target_scope_id = text_or_empty (a_matched_scope_id a),
     ba_snapshot_version = int_or_zero (a_matched_snapshot_version a),
     ba_live_version = int_or_zero (a_matched_live_version a),
     ba_live_status = text_or_empty (map_option scope_status_value (a_matched_live_status a)),
     ba_denial_reason = text_or_empty (a_denial_reason a)\<rparr>"

definition runtime_blocked_actions :: "db \<Rightarrow> command \<Rightarrow> action list \<Rightarrow> blocked_action list" where
  "runtime_blocked_actions d c actions =
     map blocked_of (filter (\<lambda>a. a_side_effecting a \<and> stale_denial d c a) actions)"

definition command_operation_name :: string where
  "command_operation_name = ''tracefence.control.command_issue''"

definition verification_context_of ::
    "process_identity \<Rightarrow> time \<Rightarrow> command \<Rightarrow> blocked_action list \<Rightarrow> export_watermark option \<Rightarrow>
     verification_context" where
  "verification_context_of identity now c blocked watermark =
    (let started = epoch_ms (c_created_at c) in
     \<lparr>vc_command_id = c_id c, vc_run_id = c_run_id c, vc_command_created_ms = started,
      vc_start_ms = max 0 (started - 5000), vc_end_ms = epoch_ms now + 5000,
      vc_command_operation = command_operation_name, vc_identity = identity,
      vc_blocked_actions = blocked, vc_export_watermark = watermark\<rparr>)"

section \<open>The telemetry stage\<close>

text \<open>
  The world outside the database: the settings, the readers of texts, the server, what the flush
  returns and the clock (0 and 1 for the flush, 2 for the end of the window, 3 for the success of
  the queries).
\<close>

record telemetry_world =
  tw_settings :: telemetry_settings
  tw_readers :: readers
  tw_complaint :: complaint
  tw_remote :: remote
  tw_flush :: flush_results
  tw_clock :: clock

definition flush_for_command :: "telemetry_world \<Rightarrow> command \<Rightarrow> exporter \<Rightarrow> bool \<times> exporter" where
  "flush_for_command W c =
     force_flush (tw_settings W) (tw_flush W) (tw_clock W)
       (Some (c_run_id c, c_id c, Some (epoch_ms (c_created_at c))))"

definition context_after_flush ::
    "telemetry_world \<Rightarrow> command \<Rightarrow> blocked_action list \<Rightarrow> bool \<Rightarrow> exporter \<Rightarrow> verification_context"
where
  "context_after_flush W c blocked flushed st =
     verification_context_of (process_identity_of (tw_settings W) st) (tw_clock W 2) c blocked
       (if flushed then export_context (c_run_id c) (c_id c) st else None)"

definition telemetry_stage ::
    "telemetry_world \<Rightarrow> command \<Rightarrow> blocked_action list \<Rightarrow> exporter \<Rightarrow> mcp_state \<Rightarrow>
     (session_error + telemetry_verdict) \<times> exporter \<times> mcp_state" where
  "telemetry_stage W c blocked exporter st =
    (let (flushed, exporter') = flush_for_command W c exporter;
         (outcome, st') = verify_command (tw_settings W) (tw_readers W) (tw_complaint W)
           (tw_remote W) (tw_clock W 3) (context_after_flush W c blocked flushed exporter') st
     in (outcome, exporter', st'))"

definition proof_of_verdict :: "telemetry_verdict \<Rightarrow> telemetry_proof" where
  "proof_of_verdict v =
    \<lparr>tp_verdict = tv_verdict v, tp_discrepancies = map Discrepancy (tv_discrepancies v),
     tp_trace_ids = tv_trace_ids v\<rparr>"

definition command_blocked_actions :: "db \<Rightarrow> command \<Rightarrow> node \<Rightarrow> blocked_action list" where
  "command_blocked_actions d c target =
     runtime_blocked_actions d c (later_actions d c (affected_nodes d c target))"

text \<open>
  \<open>_build_uncached\<close> with its own telemetry: the outer error is one of the service, the inner one an
  exception of the session that the client lets through.
\<close>

definition build_with_telemetry ::
    "env \<Rightarrow> clock \<Rightarrow> telemetry_world \<Rightarrow> ident \<Rightarrow> exporter \<Rightarrow> mcp_state \<Rightarrow> db \<Rightarrow>
     error + session_error + (proof_response \<times> proof_context) \<times> db" where
  "build_with_telemetry E clk W command_id exporter st d =
    andthen (demand (get_command_row command_id d) not_found_error) (\<lambda>c.
    andthen (get_run (c_run_id c) d) (\<lambda>_.
    andthen (demand (get_node_row (c_target_node_id c) d) not_found_error) (\<lambda>target.
    case fst (telemetry_stage W c (command_blocked_actions d c target) exporter st) of
      Inl e \<Rightarrow> Inr (Inl e)
    | Inr verdict \<Rightarrow>
        andthen (build_uncached E clk command_id (proof_of_verdict verdict) d)
          (\<lambda>result. Inr (Inr result)))))"

section \<open>What the services emit\<close>

text \<open>Resource attributes of \<open>configure_telemetry\<close>, on every span and log of the process.\<close>

definition resource_attributes :: "string list" where
  "resource_attributes =
    [''service.name'', ''service.instance.id'', ''process.instance.id'', ''tracefence.build.commit'',
     ''tracefence.telemetry.schema_version'', ''deployment.environment'']"

text \<open>The span of a blocked action (\<open>_set_span\<close>).\<close>

definition action_span_attributes :: "action \<Rightarrow> string list" where
  "action_span_attributes a =
    [''tracefence.run.id'', ''tracefence.node.id'', ''tracefence.node.role'', ''tracefence.action.id'',
     ''tracefence.action.tool'', ''tracefence.action.side_effecting'', ''tracefence.action.decision''] @
    (if text_or_empty (a_denial_reason a) = [] then [] else [''tracefence.action.denial_reason'']) @
    (if text_or_empty (a_matched_command_id a) = [] then [] else [''tracefence.command.id'']) @
    (if text_or_empty (a_matched_scope_id a) = [] then [] else [''tracefence.scope.id'']) @
    (if a_matched_snapshot_version a = None then [] else [''tracefence.scope.snapshot_version'']) @
    (if a_matched_live_version a = None then [] else [''tracefence.scope.live_version'']) @
    (if a_matched_live_status a = None then [] else [''tracefence.scope.status''])"

text \<open>The span of an export watermark, of \<open>force_flush_telemetry\<close>.\<close>

definition watermark_span_attributes :: "string list" where
  "watermark_span_attributes =
    [''tracefence.run.id'', ''tracefence.command.id'', ''tracefence.telemetry.exported_at_ms'',
     ''tracefence.telemetry.export_sequence'', ''tracefence.telemetry.schema_version'']"

text \<open>The span of a command that has been issued.\<close>

definition command_span_attributes :: "string list" where
  "command_span_attributes =
    [''tracefence.run.id'', ''tracefence.command.id'', ''tracefence.command.type'',
     ''tracefence.command.reason_code'', ''tracefence.scope.id'', ''tracefence.scope.snapshot_version'',
     ''tracefence.scope.live_version'', ''tracefence.scope.status'']"

text \<open>
  The columns of a span as the Query Builder may name them: those of the span itself, and each
  attribute bare or under its kind.
\<close>

definition span_columns :: "string list \<Rightarrow> string list" where
  "span_columns attributes =
     [''trace_id'', ''traceID'', ''traceId'', ''name''] @
     concat (map (\<lambda>n. [n, ''attribute.'' @ n, ''resource.'' @ n]) (resource_attributes @ attributes))"

section \<open>Names of the items of a payload\<close>

definition row_item_names :: "string list option \<Rightarrow> payload \<Rightarrow> string list" where
  "row_item_names columns row =
    (case row of
       PObj kv \<Rightarrow>
         (case row_items columns (dget kv ''data'') of Inl _ \<Rightarrow> [] | Inr items \<Rightarrow> map fst items)
     | _ \<Rightarrow> [])"

definition set_item_names :: "payload \<Rightarrow> string list" where
  "set_item_names result_set =
    (case parse_query_builder_page result_set of
       Inl _ \<Rightarrow> []
     | Inr pg \<Rightarrow> concat (map (row_item_names (qp_columns pg)) (qp_rows pg)))"

definition payload_item_names :: "dict \<Rightarrow> string list" where
  "payload_item_names parsed =
    (case result_sets parsed of Inl _ \<Rightarrow> [] | Inr sets \<Rightarrow> concat (map set_item_names sets))"

definition canonical_names :: "string list \<Rightarrow> string set" where
  "canonical_names names = {c. \<exists>n \<in> set names. map_of field_aliases n = Some c}"

lemma canonical_keys_names: "canonical_keys items = canonical_names (map fst items)"
  by (force simp: canonical_keys_def canonical_names_def)

lemma adapt_row_names:
  assumes "adapt_query_builder_row R columns [] row = Inr target"
  shows "dict_keys target \<subseteq> canonical_names (row_item_names columns row) \<union> {''timestamp_ms''}"
proof -
  from assms obtain kv items where "row = PObj kv" "row_items columns (dget kv ''data'') = Inr items"
    by (auto simp: adapt_row_returns)
  with adapt_row_keys [of R columns "[]" kv target items] assms show ?thesis
    by (auto simp: row_item_names_def canonical_keys_names dict_keys_def)
qed

definition few_keys :: "string list \<Rightarrow> dict \<Rightarrow> bool" where
  "few_keys names row \<longleftrightarrow> dict_keys row \<subseteq> canonical_names names \<union> {''timestamp_ms''}"

lemma few_keys_mono: "set names \<subseteq> set names' \<Longrightarrow> few_keys names row \<Longrightarrow> few_keys names' row"
  unfolding few_keys_def canonical_names_def by blast

lemma adapt_page_names:
  assumes "adapt_page R [] result_set (names, cursor, rows) = Inr (names', cursor', rows')"
    and "list_all (few_keys used) rows" and "set (set_item_names result_set) \<subseteq> set used"
  shows "list_all (few_keys used) rows'"
proof -
  from assms(1) obtain pg new where pg: "parse_query_builder_page result_set = Inr pg"
    and new: "map_result (adapt_query_builder_row R (qp_columns pg) []) (qp_rows pg) = Inr new"
    and rows: "rows' = rows @ new"
    by (auto simp: adapt_page_def andthen_returns require_returns)
  have "few_keys used target" if "row \<in> set (qp_rows pg)"
    and "adapt_query_builder_row R (qp_columns pg) [] row = Inr target" for row target
  proof (rule few_keys_mono)
    show "few_keys (row_item_names (qp_columns pg) row) target"
      using adapt_row_names [OF that(2)] by (simp add: few_keys_def)
    show "set (row_item_names (qp_columns pg) row) \<subseteq> set used"
      using assms(3) pg that(1) by (auto simp: set_item_names_def)
  qed
  then have "list_all (few_keys used) new"
    using new by (fastforce simp: map_result_returns list_all2_iff list_all_iff in_set_conv_nth
        in_set_zip)
  with rows assms(2) show ?thesis by simp
qed

lemma adapt_payload_names:
  assumes "adapt_query_builder_payload R [] advisory parsed = Inr kv"
  shows "\<exists>rows. kv = [(''results'', PArr (map PObj rows))] \<and>
    list_all (few_keys (payload_item_names parsed)) rows"
proof -
  from assms obtain sets names cursor rows where sets: "result_sets parsed = Inr sets"
    and loop: "foldm (adapt_page R []) sets ([], False, []) = Inr (names, cursor, rows)"
    and kv: "kv = [(''results'', PArr (map PObj rows))]"
    by (auto simp: adapt_query_builder_payload_def andthen_returns require_returns)
  have "(\<lambda>(names, cursor, rows). list_all (few_keys (payload_item_names parsed)) rows)
    (names, cursor, rows)"
    using loop
  proof (rule foldm_invariant)
    fix rs s s' assume "rs \<in> set sets" "adapt_page R [] rs s = Inr s'"
      "(\<lambda>(names, cursor, rows). list_all (few_keys (payload_item_names parsed)) rows) s"
    moreover from \<open>rs \<in> set sets\<close> have "set (set_item_names rs) \<subseteq> set (payload_item_names parsed)"
      by (auto simp: payload_item_names_def sets)
    ultimately show "(\<lambda>(names, cursor, rows). list_all (few_keys (payload_item_names parsed)) rows) s'"
      by (cases s; cases s') (simp add: adapt_page_names)
  qed simp
  with kv show ?thesis by auto
qed

section \<open>A missing identity\<close>

lemma strict_str_missing:
  "name \<notin> dict_keys kv \<Longrightarrow> strict_str pyd ok name kv \<noteq> Inr s"
  by (auto simp: strict_str_def dict_keys_map_of domIff)

lemma parse_watermark_needs_process:
  "''process_instance_id'' \<notin> dict_keys kv \<Longrightarrow> parse_watermark pyd (PObj kv) \<noteq> Inr row"
  by (auto simp: parse_watermark_def parse_identity_def as_dict_def andthen_returns
      dest: strict_str_missing)

lemma watermark_rows_empty:
  assumes "parse_rows (parse_watermark pyd) label evidence = Inr parsed"
    and "dget evidence label = PObj [(''results'', PArr (map PObj rows))]"
    and "list_all (few_keys names) rows" and "''process_instance_id'' \<notin> canonical_names names"
  shows "parsed = []"
proof -
  from assms(1,2) have "list_all2 (\<lambda>row r. parse_watermark pyd row = Inr r) (map PObj rows) parsed"
    by (auto simp: parse_rows_def dict_keys_def dget_def map_result_returns split: sum.splits)
  moreover have "parse_watermark pyd (PObj row) \<noteq> Inr r" if "row \<in> set rows" for row r
    using assms(3,4) that by (intro parse_watermark_needs_process) (auto simp: few_keys_def list_all_iff)
  ultimately have "rows = []" by (cases rows; cases parsed) auto
  with \<open>list_all2 _ _ parsed\<close> show ?thesis by simp
qed

section \<open>The flush before the queries\<close>

text \<open>A successful flush for a command: what it found and the watermark it left.\<close>

lemma flush_success:
  assumes "force_flush S fr clk (Some (run_id, command_id, created)) st = (True, st')"
  shows "xp_status st = Ready \<and> \<not> predates (clk 0) created \<and>
    owned_results st fr \<noteq> [] \<and> list_all id (owned_results st fr) \<and>
    xp_sequence st' = xp_sequence st + 1 \<and>
    export_context run_id command_id st' = Some
      \<lparr>wm_identity = process_identity_of S st, wm_run_id = run_id, wm_command_id = command_id,
       wm_exported_at_ms = epoch_ms (clk 0), wm_sequence = xp_sequence st + 1\<rparr>"
  using assms
  by (auto simp: force_flush_def propose_export_def export_context_def watermark_of_def Let_def
      owned_results_def process_identity_of_def split: if_splits)

text \<open>A flush that fails leaves the watermark of the last one that succeeded.\<close>

lemma flush_failure_keeps:
  "force_flush S fr clk subject st = (False, st') \<Longrightarrow>
   xp_watermark st' = xp_watermark st \<and> xp_last_flush st' = xp_last_flush st"
  by (auto simp: force_flush_def propose_export_def Let_def split: if_splits option.splits)

lemma export_context_own:
  "export_context run_id command_id st = Some wm \<Longrightarrow>
   xp_watermark st = Some wm \<and> wm_run_id wm = run_id \<and> wm_command_id wm = command_id"
  by (auto simp: export_context_def split: option.splits if_splits)

section \<open>A verified telemetry stage\<close>

lemma reconcile_applicable: "tv_verdict (reconcile_evidence pyd ctx evidence) \<noteq> Not_Applicable"
  by (simp add: reconcile_evidence_def reconcile_rows_def Let_def split: option.split sum.split)

lemma verify_command_applicable:
  assumes "verify_command S R pyd M now ctx st = (Inr v, st')"
  shows "tv_verdict v \<noteq> Not_Applicable"
  using assms reconcile_applicable
  by (auto simp: verify_command_def judge_answers_def Let_def dest!: configuration_error_Some
      split: option.splits if_splits sum.splits session_error.splits prod.splits
        telemetry_error.splits)

text \<open>The context the stage hands to the client, once the flush has been done.\<close>

definition stage_context :: "telemetry_world \<Rightarrow> command \<Rightarrow> blocked_action list \<Rightarrow> exporter \<Rightarrow> verification_context"
where
  "stage_context W c blocked exporter =
    (let (flushed, exporter') = flush_for_command W c exporter
     in context_after_flush W c blocked flushed exporter')"

definition fetched_rows ::
    "readers \<Rightarrow> complaint \<Rightarrow> remote \<Rightarrow> verification_context \<Rightarrow> evidence_rows \<Rightarrow> bool" where
  "fetched_rows R pyd M ctx rows \<longleftrightarrow>
     (\<exists>an evidence. run_session M ctx = Inr (Inr an) \<and>
        list_all (accepted_result R) (all_answers an) \<and> collect_answers R an = Inr evidence \<and>
        parse_evidence pyd evidence = Inr rows)"

definition observed_rows :: "telemetry_world \<Rightarrow> verification_context \<Rightarrow> evidence_rows \<Rightarrow> bool" where
  "observed_rows W = fetched_rows (tw_readers W) (tw_complaint W) (tw_remote W)"

text \<open>
  The interface between the proof service and its SigNoz client: the client always gives an
  applicable verdict, and a verified one only with a local watermark and rows it has fetched that
  match the context exactly.
\<close>

locale telemetry_client =
  fixes verify :: "verification_context \<Rightarrow> 's \<Rightarrow> ('e + telemetry_verdict) \<times> 's"
    and fetched :: "verification_context \<Rightarrow> evidence_rows \<Rightarrow> bool"
  assumes applicable: "fst (verify ctx st) = Inr v \<Longrightarrow> tv_verdict v \<noteq> Not_Applicable"
    and has_watermark: "fst (verify ctx st) = Inr v \<Longrightarrow> tv_verdict v = Verified \<Longrightarrow>
      vc_export_watermark ctx \<noteq> None"
    and has_rows: "fst (verify ctx st) = Inr v \<Longrightarrow> tv_verdict v = Verified \<Longrightarrow>
      \<exists>rows. fetched ctx rows \<and> exact_match ctx rows"
begin

lemma verified_after_flush:
  assumes "fst (verify (stage_context W c blocked exporter) st) = Inr v" and "tv_verdict v = Verified"
  shows "fst (flush_for_command W c exporter)"
  using has_watermark [OF assms]
  by (auto simp: stage_context_def context_after_flush_def verification_context_of_def Let_def
      split: prod.splits if_splits)

lemma verified_blocked_actions:
  assumes "fst (verify (stage_context W c blocked exporter) st) = Inr v" and "tv_verdict v = Verified"
  shows "\<exists>rows. fetched (stage_context W c blocked exporter) rows \<and>
    exact_match (stage_context W c blocked exporter) rows \<and>
    mset (map (br_action \<circ> bt_row) (er_traces rows)) = mset blocked \<and>
    mset (map br_action (er_logs rows)) = mset blocked"
proof -
  have "vc_blocked_actions (stage_context W c blocked exporter) = blocked"
    by (simp add: stage_context_def context_after_flush_def verification_context_of_def Let_def
        split: prod.split)
  with has_rows [OF assms] show ?thesis by (auto simp: exact_match_def)
qed

end

interpretation signoz: telemetry_client "verify_command S R pyd M now" "fetched_rows R pyd M"
  for S R pyd M now
proof
  fix ctx st v assume v: "fst (verify_command S R pyd M now ctx st) = Inr v"
  then obtain st' where c: "verify_command S R pyd M now ctx st = (Inr v, st')"
    by (metis prod.collapse)
  show "tv_verdict v \<noteq> Not_Applicable" by (rule verify_command_applicable [OF c])
  assume "tv_verdict v = Verified"
  from verify_command_verified [OF c this] show "vc_export_watermark ctx \<noteq> None"
    and "\<exists>rows. fetched_rows R pyd M ctx rows \<and> exact_match ctx rows"
    unfolding fetched_rows_def configuration_error_None
    using collected_answer normalized_accepted unfolding list_all_iff by blast+
qed

text \<open>The stage is the client at the context after the flush.\<close>

lemma telemetry_stage_client:
  "fst (telemetry_stage W c blocked exporter st) =
     fst (verify_command (tw_settings W) (tw_readers W) (tw_complaint W) (tw_remote W) (tw_clock W 3)
       (stage_context W c blocked exporter) st)"
  by (simp add: telemetry_stage_def stage_context_def split: prod.split)

lemma telemetry_stage_verified:
  assumes "fst (telemetry_stage W c blocked exporter st) = Inr v" and "tv_verdict v = Verified"
  shows "fst (flush_for_command W c exporter) \<and>
    (\<exists>rows. observed_rows W (stage_context W c blocked exporter) rows \<and>
       exact_match (stage_context W c blocked exporter) rows \<and>
       mset (map (br_action \<circ> bt_row) (er_traces rows)) = mset blocked \<and>
       mset (map br_action (er_logs rows)) = mset blocked)"
proof -
  note v = assms(1) [unfolded telemetry_stage_client] assms(2)
  from signoz.verified_after_flush [OF v] signoz.verified_blocked_actions [OF v] show ?thesis
    by (simp add: observed_rows_def)
qed

lemma build_with_telemetry_stage:
  assumes "build_with_telemetry E clk W command_id exporter st d = Inr (Inr ((response, px), d'))"
  shows "\<exists>c target v. get_command_row command_id d = Some c \<and>
    get_node_row (c_target_node_id c) d = Some target \<and>
    fst (telemetry_stage W c (command_blocked_actions d c target) exporter st) = Inr v \<and>
    tv_verdict v \<noteq> Not_Applicable \<and>
    build_uncached E clk command_id (proof_of_verdict v) d = Inr ((response, px), d')"
proof -
  from assms obtain c target where r: "get_command_row command_id d = Some c"
    "get_node_row (c_target_node_id c) d = Some target"
    and out: "(case fst (telemetry_stage W c (command_blocked_actions d c target) exporter st) of
        Inl e \<Rightarrow> Inr (Inl e)
      | Inr verdict \<Rightarrow> andthen (build_uncached E clk command_id (proof_of_verdict verdict) d)
          (\<lambda>result. Inr (Inr result))) = Inr (Inr ((response, px), d'))"
    unfolding build_with_telemetry_def andthen_returns demand_returns by blast
  from out obtain v where
    "fst (telemetry_stage W c (command_blocked_actions d c target) exporter st) = Inr v"
    "build_uncached E clk command_id (proof_of_verdict v) d = Inr ((response, px), d')"
    by (cases "fst (telemetry_stage W c (command_blocked_actions d c target) exporter st)")
      (auto simp: andthen_returns)
  note r = r this
  moreover have "tv_verdict v \<noteq> Not_Applicable"
    using r(3) signoz.applicable unfolding telemetry_stage_client by blast
  ultimately show ?thesis by blast
qed

lemma build_uncached_telemetry:
  "build_uncached E clk command_id tp d = Inr ((response, px), d') \<Longrightarrow>
   pf_telemetry_verdict response = tp_verdict tp \<and>
   pf_overall_verdict response = combine_proof_verdicts [pf_runtime_verdict response, tp_verdict tp]"
  by (auto simp: build_uncached_def outcome proof_response_of_def Let_def)

end
