(* ===== verification/Flushes.thy ===== *)
theory Flushes
  imports Exporter
begin

text \<open>
  \<open>force_flush_telemetry\<close> of \<open>telemetry/setup.py\<close> when several threads flush at once.  \<open>_provider_lock\<close> is
  held only for pieces of it: the number is drawn under the lock, the providers are copied under the lock,
  the providers are flushed without it, and the watermark is stored under the lock.  Here each piece is a
  step of its own, and the pieces of any number of flushes, configuration, errors of the instrumentation
  and the two pieces of the shutdown come in any order.  \<open>force_flush\<close> is the schedule in which the pieces
  of one flush come together (\<open>force_flush_pieces\<close>).
\<close>

section \<open>The pieces\<close>

text \<open>A call, with what its local variables hold: the time, the number and the providers it copied.\<close>

record flush_call =
  fc_subject :: flush_subject
  fc_time :: time
  fc_number :: "int option"
  fc_providers :: "(bool \<times> bool \<times> bool) option"
  fc_ended :: bool

definition begin_flush ::
    "telemetry_settings \<Rightarrow> flush_subject \<Rightarrow> time \<Rightarrow> exporter \<Rightarrow> (flush_call \<times> exporter) option" where
  "begin_flush S subject t st =
    (if ts_otlp_endpoint S = [] \<or> xp_status st \<noteq> Ready then None
     else map_option (\<lambda>st'. (\<lparr>fc_subject = subject, fc_time = t,
         fc_number = map_option (\<lambda>_. xp_sequence st') subject, fc_providers = None, fc_ended = False\<rparr>, st'))
       (propose_export subject t st))"

definition copy_providers :: "exporter \<Rightarrow> flush_call \<Rightarrow> flush_call" where
  "copy_providers st call = call\<lparr>fc_providers := Some (xp_tracer st, xp_meter st, xp_logger st)\<rparr>"

definition provider_results :: "bool \<times> bool \<times> bool \<Rightarrow> flush_results \<Rightarrow> bool list" where
  "provider_results owned fr =
    (case owned of (tracer, meter, logger) \<Rightarrow>
       (if tracer then [fr_tracer fr = Some True] else []) @
       (if meter then [fr_meter fr = Some True] else []) @
       (if logger then [fr_logger fr = Some True] else []))"

definition call_watermark ::
    "telemetry_settings \<Rightarrow> exporter \<Rightarrow> flush_call \<Rightarrow> export_watermark option" where
  "call_watermark S st call =
    (case (fc_subject call, fc_number call) of
       (Some (run_id, command_id, _), Some n) \<Rightarrow>
         Some \<lparr>wm_identity = process_identity_of S st, wm_run_id = run_id, wm_command_id = command_id,
           wm_exported_at_ms = epoch_ms (fc_time call), wm_sequence = n\<rparr>
     | _ \<Rightarrow> xp_watermark st)"

definition end_flush ::
    "telemetry_settings \<Rightarrow> flush_results \<Rightarrow> time \<Rightarrow> bool \<times> bool \<times> bool \<Rightarrow> flush_call \<Rightarrow> exporter \<Rightarrow> bool \<times> exporter"
where
  "end_flush S fr now owned call st =
    (let results = provider_results owned fr in
     if results = [] then (False, st)
     else if list_all id results then
       (True, st\<lparr>xp_last_flush := Some now, xp_watermark := call_watermark S st call\<rparr>)
     else (False, st\<lparr>xp_failures_total := xp_failures_total st + 1\<rparr>))"

text \<open>The two pieces of the shutdown: the providers under the lock, the status at the very end.\<close>

definition drop_providers :: "exporter \<Rightarrow> exporter" where
  "drop_providers st =
    (if xp_status st = Stopped then st
     else st\<lparr>xp_tracer := False, xp_meter := False, xp_logger := False, xp_log_handler := False\<rparr>)"

definition set_stopped :: "exporter \<Rightarrow> exporter" where
  "set_stopped st = st\<lparr>xp_status := Stopped\<rparr>"

lemma force_flush_pieces:
  "force_flush S fr clk subject st =
    (case begin_flush S subject (clk 0) st of
       None \<Rightarrow> (False, st)
     | Some (call, st1) \<Rightarrow>
         end_flush S fr (clk 1) (xp_tracer st1, xp_meter st1, xp_logger st1) (copy_providers st1 call) st1)"
  by (auto simp: force_flush_def begin_flush_def end_flush_def copy_providers_def provider_results_def
      owned_results_def call_watermark_def watermark_of_def propose_export_def Let_def split: option.split)

lemma shutdown_pieces:
  "xp_status st \<noteq> Stopped \<Longrightarrow> shutdown_telemetry st = set_stopped (drop_providers st)"
  by (simp add: shutdown_telemetry_def set_stopped_def drop_providers_def)

section \<open>Any interleaving\<close>

text \<open>The exporter and every call there has been, in the order in which they began.\<close>

record flushes =
  fl_exporter :: exporter
  fl_calls :: "flush_call list"

inductive flushes_step :: "telemetry_settings \<Rightarrow> flushes \<Rightarrow> flushes \<Rightarrow> bool" for S where
  begins: "begin_flush S subject t st = Some (call, st') \<Longrightarrow>
    flushes_step S \<lparr>fl_exporter = st, fl_calls = calls\<rparr> \<lparr>fl_exporter = st', fl_calls = calls @ [call]\<rparr>"
| copies: "i < length calls \<Longrightarrow> fc_providers (calls ! i) = None \<Longrightarrow>
    flushes_step S \<lparr>fl_exporter = st, fl_calls = calls\<rparr>
      \<lparr>fl_exporter = st, fl_calls = calls[i := copy_providers st (calls ! i)]\<rparr>"
| ends: "i < length calls \<Longrightarrow> \<not> fc_ended (calls ! i) \<Longrightarrow> fc_providers (calls ! i) = Some owned \<Longrightarrow>
    end_flush S fr now owned (calls ! i) st = (ok, st') \<Longrightarrow>
    flushes_step S \<lparr>fl_exporter = st, fl_calls = calls\<rparr>
      \<lparr>fl_exporter = st', fl_calls = calls[i := (calls ! i)\<lparr>fc_ended := True\<rparr>]\<rparr>"
| configures: "flushes_step S \<lparr>fl_exporter = st, fl_calls = calls\<rparr>
    \<lparr>fl_exporter = configure_telemetry S name traces metrics logs st, fl_calls = calls\<rparr>"
| instruments: "flushes_step S \<lparr>fl_exporter = st, fl_calls = calls\<rparr>
    \<lparr>fl_exporter = record_instrumentation_error S text st, fl_calls = calls\<rparr>"
| drops: "flushes_step S \<lparr>fl_exporter = st, fl_calls = calls\<rparr> \<lparr>fl_exporter = drop_providers st, fl_calls = calls\<rparr>"
| stops: "flushes_step S \<lparr>fl_exporter = st, fl_calls = calls\<rparr> \<lparr>fl_exporter = set_stopped st, fl_calls = calls\<rparr>"

inductive flushes_reachable :: "telemetry_settings \<Rightarrow> flushes \<Rightarrow> bool" for S where
  none_yet: "flushes_reachable S \<lparr>fl_exporter = initial_exporter instance process, fl_calls = []\<rparr>"
| one_more: "flushes_reachable S m \<Longrightarrow> flushes_step S m m' \<Longrightarrow> flushes_reachable S m'"

section \<open>The numbers\<close>

text \<open>Numbers grow with the order in which the calls began.\<close>

definition numbered :: "int option list \<Rightarrow> bool" where
  "numbered ns \<longleftrightarrow> sorted_wrt (\<lambda>x y. \<forall>a b. x = Some a \<longrightarrow> y = Some b \<longrightarrow> a < b) ns"

lemma numbered_unique:
  assumes "numbered ns" and "i < length ns" and "j < length ns" and "ns ! i = Some n" and "ns ! j = Some n"
  shows "j = i"
  using assms unfolding numbered_def sorted_wrt_iff_nth_less by (metis less_irrefl linorder_neqE_nat)

text \<open>Once the exporter is ready it owns its three providers, until the shutdown takes all of them.\<close>

definition all_or_none :: "exporter \<Rightarrow> bool" where
  "all_or_none st \<longleftrightarrow> xp_service_name st \<noteq> None \<and>
     (xp_tracer st \<and> xp_meter st \<and> xp_logger st \<or> \<not> xp_tracer st \<and> \<not> xp_meter st \<and> \<not> xp_logger st)"

definition call_ok :: "flush_call \<Rightarrow> bool" where
  "call_ok call \<longleftrightarrow>
     (fc_number call = None \<longleftrightarrow> fc_subject call = None) \<and>
     (case fc_subject call of Some (_, _, created) \<Rightarrow> \<not> predates (fc_time call) created | None \<Rightarrow> True) \<and>
     (case fc_providers call of None \<Rightarrow> True | Some owned \<Rightarrow> owned \<in> {(True, True, True), (False, False, False)})"

definition flushes_ok :: "flushes \<Rightarrow> bool" where
  "flushes_ok m \<longleftrightarrow>
     (xp_status (fl_exporter m) = Ready \<or> fl_calls m \<noteq> [] \<longrightarrow> all_or_none (fl_exporter m)) \<and>
     numbered (map fc_number (fl_calls m)) \<and>
     (\<forall>n. Some n \<in> set (map fc_number (fl_calls m)) \<longrightarrow> n \<le> xp_sequence (fl_exporter m)) \<and>
     list_all call_ok (fl_calls m)"

lemma begin_flush_returns:
  "begin_flush S subject t st = Some (call, st') \<longleftrightarrow>
     ts_otlp_endpoint S \<noteq> [] \<and> xp_status st = Ready \<and> propose_export subject t st = Some st' \<and>
     call = \<lparr>fc_subject = subject, fc_time = t, fc_number = map_option (\<lambda>_. xp_sequence st') subject,
       fc_providers = None, fc_ended = False\<rparr>"
  by (auto simp: begin_flush_def)

lemma end_flush_keeps:
  assumes "end_flush S fr now owned call st = (ok, st')"
  shows "xp_status st' = xp_status st" "xp_sequence st' = xp_sequence st" "all_or_none st' = all_or_none st"
    "xp_service_name st' = xp_service_name st" "process_identity_of S st' = process_identity_of S st"
  using assms by (auto simp: end_flush_def all_or_none_def process_identity_of_def Let_def split: if_splits)

lemma same_numbers:
  assumes "i < length calls" and "fc_number c = fc_number (calls ! i)"
  shows "map fc_number (calls[i := c]) = map fc_number calls"
  using assms by (simp add: map_update list_update_same_conv)

lemma updated_calls:
  "list_all P xs \<Longrightarrow> P c \<Longrightarrow> list_all P (xs[i := c])"
  by (auto simp: list_all_iff dest!: set_update_subset_insert [THEN subsetD])

lemma configure_ready:
  assumes "xp_service_name st = None" and "xp_status (configure_telemetry S name traces metrics logs st) = Ready"
  shows "all_or_none (configure_telemetry S name traces metrics logs st)"
  using assms
  by (auto simp: configure_telemetry_def configure_logs_def settle_status_def all_or_none_def Let_def
      split: log_outcome.splits if_splits)

lemma flushes_step_ok:
  assumes "flushes_step S m m'" and "flushes_ok m"
  shows "flushes_ok m'"
  using assms(1)
proof cases
  case (begins subject t st call st' calls)
  note b = begins(3) [unfolded begin_flush_returns]
  have "all_or_none st'" "xp_status st' = Ready" "xp_sequence st \<le> xp_sequence st'"
    using b assms(2) begins(1) by (auto simp: flushes_ok_def all_or_none_def propose_export_returns split: option.splits)
  moreover have new: "xp_sequence st < n \<and> n = xp_sequence st'" if "fc_number call = Some n" for n
    using b that by (auto simp: propose_export_returns split: option.splits)
  moreover have "a < n" if "Some a \<in> set (map fc_number calls)" "fc_number call = Some n" for a n
    using new [OF that(2)] that(1) assms(2) begins(1) by (fastforce simp: flushes_ok_def)
  then have "numbered (map fc_number (calls @ [call]))"
    using assms(2) begins(1) unfolding flushes_ok_def numbered_def map_append sorted_wrt_append
    by (auto simp del: set_map)
  moreover have "n \<le> xp_sequence st'" if n: "Some n \<in> set (map fc_number (calls @ [call]))" for n
  proof (cases "Some n \<in> set (map fc_number calls)")
    case True
    then show ?thesis using assms(2) begins(1) \<open>xp_sequence st \<le> xp_sequence st'\<close> by (fastforce simp: flushes_ok_def)
  next
    case False
    then have "fc_number call = Some n" using n by auto
    then show ?thesis using new by simp
  qed
  moreover have "call_ok call"
    using b by (auto simp: call_ok_def propose_export_returns split: option.splits)
  ultimately show ?thesis
    using assms(2) begins(1,2) unfolding flushes_ok_def by simp
next
  case (copies i calls st)
  have "all_or_none st" "call_ok (calls ! i)"
    using assms(2) copies(1,3) by (auto simp: flushes_ok_def list_all_length)
  then have "call_ok (copy_providers st (calls ! i))"
    by (auto simp: call_ok_def copy_providers_def all_or_none_def)
  then show ?thesis
    using assms(2) copies same_numbers [OF copies(3), of "copy_providers st (calls ! i)"]
    by (simp add: flushes_ok_def updated_calls copy_providers_def)
next
  case (ends i calls owned fr now st ok st')
  have "call_ok ((calls ! i)\<lparr>fc_ended := True\<rparr>)"
    using assms(2) ends(1,3) by (auto simp: flushes_ok_def list_all_length call_ok_def)
  then show ?thesis
    using assms(2) ends(1,2) end_flush_keeps [OF ends(6)] same_numbers [OF ends(3), of "(calls ! i)\<lparr>fc_ended := True\<rparr>"]
    by (simp add: flushes_ok_def updated_calls)
next
  case (configures st calls name traces metrics logs)
  show ?thesis
  proof (cases "xp_service_name st")
    case None
    then have "calls = []" using assms(2) configures(1) by (auto simp: flushes_ok_def all_or_none_def)
    then show ?thesis using configure_ready [OF None] configures(2) by (simp add: flushes_ok_def numbered_def)
  next
    case (Some name')
    then show ?thesis using assms(2) configures by (simp add: configure_telemetry_def)
  qed
next
  case (instruments st calls message)
  then show ?thesis
    using assms(2) by (auto simp: flushes_ok_def all_or_none_def record_instrumentation_error_def split: if_splits)
next
  case (drops st calls)
  then show ?thesis using assms(2) by (auto simp: flushes_ok_def all_or_none_def drop_providers_def)
next
  case (stops st calls)
  then show ?thesis using assms(2) by (auto simp: flushes_ok_def all_or_none_def set_stopped_def)
qed

lemma flushes_reachable_ok: "flushes_reachable S m \<Longrightarrow> flushes_ok m"
proof (induction rule: flushes_reachable.induct)
  case none_yet
  then show ?case by (simp add: flushes_ok_def initial_exporter_def numbered_def)
qed (rule flushes_step_ok)

text \<open>A number that was given out stays with its call.\<close>

lemma flushes_step_numbers:
  assumes "flushes_step S m m'" and "i < length (fl_calls m)"
  shows "i < length (fl_calls m') \<and> fc_number (fl_calls m' ! i) = fc_number (fl_calls m ! i)"
  using assms by cases (auto simp: nth_append nth_list_update copy_providers_def)

lemma flushes_steps:
  assumes "(flushes_step S)\<^sup>*\<^sup>* m m'" and "flushes_reachable S m" and "i < length (fl_calls m)"
  shows "flushes_reachable S m' \<and> i < length (fl_calls m') \<and>
    fc_number (fl_calls m' ! i) = fc_number (fl_calls m ! i)"
  using assms(1)
proof (induction rule: rtranclp_induct)
  case base
  then show ?case using assms(2,3) by simp
next
  case (step y z)
  then show ?case using flushes_step_numbers [OF step.hyps(2)] flushes_reachable.one_more by metis
qed

lemma flushes_number_unique:
  assumes "flushes_reachable S m" and "i < length (fl_calls m)" and "j < length (fl_calls m)"
    and "fc_number (fl_calls m ! i) = Some n" and "fc_number (fl_calls m ! j) = Some n"
  shows "j = i"
  using numbered_unique [of "map fc_number (fl_calls m)" i j n] flushes_reachable_ok [OF assms(1)] assms(2-5)
  by (simp add: flushes_ok_def)

end
