(* ===== verification/Rounding.thy ===== *)
theory Rounding
  imports Payloads
begin

text \<open>
  How far \<open>int(t.timestamp() * 1000)\<close> is from the exact number of milliseconds.
\<close>

lemma power_two_int: "power_two e = power_int 2 e"
  by (simp add: power_two_def power_int_def inverse_eq_divide power_one_over)

lemma round_even_error: "\<bar>of_int (round_even x) - x\<bar> \<le> 1 / 2"
proof -
  have "of_int \<lfloor>x\<rfloor> \<le> x" "x < of_int \<lfloor>x\<rfloor> + 1" by linarith+
  then show ?thesis by (auto simp: round_even_def Let_def abs_le_iff)
qed

lemma binary_exponent_le:
  assumes "0 < x"
  shows "power_int 2 (binary_exponent x) \<le> x"
proof -
  obtain p q where pq: "quotient_of x = (p, q)" by fastforce
  have q: "0 < q" and x: "x = of_int p / of_int q"
    using quotient_of_denom_pos [OF pq] quotient_of_div [OF pq] by auto
  then have p: "0 < p" using assms by (simp add: zero_less_divide_iff)
  let ?e = "bitlen p - bitlen q"
  have "(2::int) ^ nat (bitlen p - 1) \<le> p" "q < 2 ^ nat (bitlen q)"
    using bitlen_bounds [OF p] bitlen_bounds [OF q] by auto
  then have "(2::rat) ^ nat (bitlen p - 1) \<le> of_int p" "of_int q < (2::rat) ^ nat (bitlen q)"
    by (metis of_int_le_iff of_int_numeral of_int_power, metis of_int_less_iff of_int_numeral of_int_power)
  moreover have "0 < bitlen p" "0 < bitlen q" using p q by (simp_all add: bitlen_alt_def)
  ultimately have b: "power_int (2::rat) (bitlen p - 1) \<le> of_int p" "of_int q \<le> power_int (2::rat) (bitlen q)"
    by (simp_all add: power_int_def)
  have "power_int (2::rat) (?e - 1) = power_int 2 (bitlen p - 1) / power_int 2 (bitlen q)"
  proof -
    have "?e - 1 = (bitlen p - 1) - bitlen q" by simp
    then show ?thesis by (simp only: power_int_diff zero_neq_numeral [symmetric] simp_thms)
  qed
  also have "\<dots> \<le> of_int p / of_int q"
    using b q p by (intro frac_le) auto
  finally have low: "power_int (2::rat) (?e - 1) \<le> x" using x by simp
  show ?thesis using low by (simp add: binary_exponent_def pq power_two_int Let_def)
qed

lemma binary64_error:
  assumes "0 \<le> x"
  shows "\<bar>binary64 x - x\<bar> \<le> x / 2 ^ 53"
proof (cases "x = 0")
  case False
  with assms have x: "0 < x" by simp
  let ?e = "binary_exponent x"
  define unit :: rat where "unit = power_int 2 (?e - 52)"
  have pos: "0 < unit" by (simp add: unit_def)
  have val: "binary64 x = of_int (round_even (x / unit)) * unit"
    using x by (simp add: binary64_def Let_def power_two_int unit_def)
  have "\<bar>binary64 x - x\<bar> = \<bar>of_int (round_even (x / unit)) - x / unit\<bar> * unit"
    using pos by (simp add: val abs_mult [symmetric] field_simps)
  also have "\<dots> \<le> 1 / 2 * unit"
    using round_even_error [of "x / unit"] pos by (intro mult_right_mono) auto
  also have "\<dots> = power_int 2 ?e / 2 ^ 53"
    by (simp add: unit_def power_int_diff)
  also have "\<dots> \<le> x / 2 ^ 53"
    using binary_exponent_le [OF x] by (intro divide_right_mono) auto
  finally show ?thesis .
qed (simp add: binary64_def)

text \<open>
  Up to the year 2041 the two roundings lose less than half a microsecond in a thousand, so the result
  is the exact millisecond, or the one before it when the time is a whole number of milliseconds.
\<close>

lemma epoch_ms_bounds:
  assumes "0 \<le> t" and "t < 2 ^ 51"
  shows "t div 1000 - 1 \<le> epoch_ms t \<and> epoch_ms t \<le> t div 1000 \<and>
    (t mod 1000 \<noteq> 0 \<longrightarrow> epoch_ms t = t div 1000)"
proof -
  define x :: rat where "x = of_int t / 1000000"
  define y where "y = binary64 x * 1000"
  define z where "z = binary64 y"
  have x0: "0 \<le> x" and x1: "x < 2 ^ 51 / 1000000"
    using assms by (simp_all add: x_def divide_strict_right_mono)
  have e1: "\<bar>binary64 x - x\<bar> \<le> x / 2 ^ 53" by (rule binary64_error [OF x0])
  have b1: "x - x / 2 ^ 53 \<le> binary64 x" "binary64 x \<le> x + x / 2 ^ 53" using e1 by linarith+
  then have y0: "0 \<le> y" using x0 by (simp add: y_def field_simps)
  have e2: "\<bar>z - y\<bar> \<le> y / 2 ^ 53" unfolding z_def by (rule binary64_error [OF y0])
  have b2: "y - y / 2 ^ 53 \<le> z" "z \<le> y + y / 2 ^ 53" using e2 by linarith+
  have "z < 1000 * x + 1 / 1000" "1000 * x - 1 / 1000 < z"
    using b1 b2 x0 x1 by (simp_all add: y_def field_simps)
  then have close: "z < of_int t / 1000 + 1 / 1000" "of_int t / 1000 - 1 / 1000 < z"
    by (simp_all add: x_def)
  have "epoch_ms t = truncate_int z" by (simp add: epoch_ms_def x_def y_def z_def)
  also have "\<dots> = \<lfloor>z\<rfloor>"
  proof (cases "z < 0")
    case True
    then show ?thesis using b2(1) y0 by (simp add: field_simps)
  qed (simp add: truncate_int_def)
  finally have fl: "epoch_ms t = \<lfloor>z\<rfloor>" .
  define n r where "n = t div 1000" and "r = t mod 1000"
  have t: "t = 1000 * n + r" "0 \<le> r" "r \<le> 999" by (simp_all add: n_def r_def)
  have up: "z < of_int n + 1"
    using close(1) t by (simp add: field_simps)
  have low: "of_int n - 1 < z" using close(2) t by (simp add: field_simps)
  have mid: "of_int n \<le> z" if "r \<noteq> 0" 
    using close(2) t that by (simp add: field_simps)
  show ?thesis unfolding fl n_def [symmetric] r_def [symmetric]
    using up low mid by (auto simp: floor_le_iff le_floor_iff intro: floor_unique)
qed

end
