(* ===== verification/Telemetry_Properties.thy ===== *)
theory Telemetry_Properties
  imports LiveProof Flushes Rounding Audit_Properties
begin

text \<open>
  The properties of the telemetry side: what a verified telemetry verdict means, that anything less
  than complete and clean answers never verifies, how rows are adapted and timestamps rounded, what
  a flush leaves behind, and what a verified proof has observed.  The witnesses run a small server.
\<close>

section \<open>A sample world\<close>

definition sample_tsettings :: telemetry_settings where
  "sample_tsettings =
    \<lparr>ts_signoz_mcp_url = ''u'', ts_signoz_api_key = ''k'', ts_build_commit = ''c'',
     ts_otlp_endpoint = ''o'', ts_otel_export_timeout_ms = 5\<rparr>"

definition sample_exporter :: exporter where
  "sample_exporter =
    configure_telemetry sample_tsettings ''svc''
      \<lparr>po_exporter_error = None, po_installation = Owned\<rparr>
      \<lparr>po_exporter_error = None, po_installation = Owned\<rparr> Log_Owned (initial_exporter ''i'' ''p'')"

definition sample_identity :: process_identity where
  "sample_identity =
    \<lparr>pi_service_name = ''svc'', pi_service_instance_id = ''i'', pi_process_instance_id = ''p'',
     pi_build_commit = ''c'', pi_schema_version = 1\<rparr>"

definition identity_json :: dict where
  "identity_json =
    [(''service_name'', PStr ''svc''), (''service_instance_id'', PStr ''i''),
     (''process_instance_id'', PStr ''p''), (''build_commit'', PStr ''c''),
     (''schema_version'', PInt 1)]"

definition trace_named :: "char \<Rightarrow> string" where
  "trace_named c = replicate 32 c"

definition subject_json :: dict where
  "subject_json = [(''command_id'', PStr ''-commands''), (''run_id'', PStr ''-runs'')]"

definition blocked_json :: dict where
  "blocked_json = subject_json @
    [(''action_id'', PStr ''a1''), (''node_id'', PStr ''1-nodes''),
     (''target_scope_id'', PStr ''11-control_scopes''), (''snapshot_version'', PInt 1),
     (''live_version'', PInt 2), (''live_status'', PStr ''CANCELLED''),
     (''denial_reason'', PStr ''SCOPE_CANCELLED''), (''timestamp_ms'', PInt 1000005)]"

definition structured_rows :: "dict list \<Rightarrow> tool_result" where
  "structured_rows rows =
    \<lparr>tr_isError = False, tr_is_error = False,
     tr_structuredContent = Some (PObj [(''results'', PArr (map PObj rows))]),
     tr_structured_content = None, tr_content = No_Content\<rparr>"

definition sample_answer :: "nat \<Rightarrow> tool_result" where
  "sample_answer i = [
     structured_rows [identity_json @ subject_json @ [(''trace_id'', PStr (trace_named CHR ''a'')),
       (''operation'', PStr command_operation_name), (''timestamp_ms'', PInt 1000000)]],
     structured_rows [identity_json @ blocked_json @ [(''trace_id'', PStr (trace_named CHR ''b'')),
       (''operation'', PStr ''tracefence.action.block'')]],
     structured_rows [identity_json @ blocked_json @ [(''event_name'', PStr ''action_denied'')]],
     structured_rows [identity_json @ subject_json @ [(''trace_id'', PStr (trace_named CHR ''c'')),
       (''operation'', PStr ''tracefence.telemetry.export_watermark''),
       (''exported_at_ms'', PInt 1000009), (''sequence'', PInt 1)]],
     structured_rows [], structured_rows []] ! i"

definition sample_remote :: remote where
  "sample_remote =
    \<lparr>rm_sdk_installed = True, rm_connect = Inr (), rm_tools = Inr required_tools,
     rm_call = (\<lambda>i tool arguments. Inr (sample_answer i))\<rparr>"

definition sample_readers :: readers where
  "sample_readers = \<lparr>rd_loads = (\<lambda>_. None), rd_fromisoformat = (\<lambda>_. None)\<rparr>"

definition sample_world :: telemetry_world where
  "sample_world =
    \<lparr>tw_settings = sample_tsettings, tw_readers = sample_readers, tw_complaint = (\<lambda>_ _. []),
     tw_remote = sample_remote,
     tw_flush = \<lparr>fr_tracer = Some True, fr_meter = Some True, fr_logger = Some True\<rparr>,
     tw_clock = (\<lambda>i. 1000009001)\<rparr>"

definition sample_blocked :: blocked_action where
  "sample_blocked =
    \<lparr>ba_action_id = ''a1'', ba_node_id = ''1-nodes'', ba_target_scope_id = ''11-control_scopes'',
     ba_snapshot_version = 1, ba_live_version = 2, ba_live_status = ''CANCELLED'',
     ba_denial_reason = ''SCOPE_CANCELLED''\<rparr>"

lemma sample_ms [simp]:
  "epoch_ms 1000009001 = 1000009" "epoch_ms (noon + 1) = 1000000" "epoch_ms 1000000001 = 1000000"
proof -
  show "epoch_ms 1000009001 = 1000009" by code_simp
  show a: "epoch_ms 1000000001 = 1000000" by code_simp
  then show "epoch_ms (noon + 1) = 1000000" by simp
qed

lemma sample_flush:
  "flush_for_command sample_world stop_command sample_exporter =
     (True, sample_exporter\<lparr>xp_sequence := 1, xp_last_flush := Some 1000009001,
        xp_watermark := Some
          \<lparr>wm_identity = sample_identity, wm_run_id = ''-runs'', wm_command_id = ''-commands'',
           wm_exported_at_ms = 1000009, wm_sequence = 1\<rparr>\<rparr>)"
  by (simp add: flush_for_command_def sample_world_def force_flush_def sample_exporter_def
      configure_telemetry_def configure_logs_def settle_status_def initial_exporter_def
      exporter_errors_def propose_export_def predates_def owned_results_def watermark_of_def
      process_identity_of_def sample_identity_def sample_tsettings_def telemetry_schema_version_def
      sample_ms Let_def)

definition sample_context :: verification_context where
  "sample_context =
    \<lparr>vc_command_id = ''-commands'', vc_run_id = ''-runs'', vc_command_created_ms = 1000000,
     vc_start_ms = 995000, vc_end_ms = 1005009, vc_command_operation = command_operation_name,
     vc_identity = sample_identity, vc_blocked_actions = [sample_blocked],
     vc_export_watermark = Some
       \<lparr>wm_identity = sample_identity, wm_run_id = ''-runs'', wm_command_id = ''-commands'',
        wm_exported_at_ms = 1000009, wm_sequence = 1\<rparr>\<rparr>"

lemma sample_verdict:
  "\<exists>v. fst (verify_command sample_tsettings sample_readers (\<lambda>_ _. []) sample_remote t sample_context st) =
     Inr v \<and> tv_verdict v = Verified"
proof -
  have "configuration_error sample_tsettings sample_context = None" by code_simp
  moreover have "case run_session sample_remote sample_context of
      Inr (Inr an) \<Rightarrow> (case collect_answers sample_readers an of
          Inr evidence \<Rightarrow>
            tv_verdict (reconcile_evidence (\<lambda>_ _. []) sample_context evidence) = Verified
        | Inl _ \<Rightarrow> False)
    | _ \<Rightarrow> False"
    by code_simp
  moreover have "rm_sdk_installed sample_remote" by (simp add: sample_remote_def)
  ultimately show ?thesis
    by (auto simp: verify_command_def judge_answers_def Let_def split: sum.splits)
qed

definition denied_action :: action where
  "denied_action =
    \<lparr>a_id = ''a1'', a_run_id = ''-runs'', a_node_id = ''1-nodes'', a_tool_name = ''mutate'',
     a_side_effecting = True, a_idempotency_key = ''k1'', a_decision = Deny,
     a_denial_reason = Some ''SCOPE_CANCELLED'', a_matched_command_id = Some ''-commands'',
     a_matched_scope_id = Some ''11-control_scopes'', a_matched_snapshot_version = Some 1,
     a_matched_live_version = Some 2, a_matched_live_status = Some Scope_Cancelled,
     a_scope_evaluation = JNull, a_decision_explanation = JNull, a_request_payload_digest = ''d'',
     a_arguments = [], a_arguments_digest = ''d'', a_result = None, a_result_digest = None,
     a_attempted_at = noon + 4, a_committed_at = None\<rparr>"

definition blocked_db :: db where
  "blocked_db = stopped_db
    \<lparr>db_actions := [denied_action],
     db_matches := [\<lparr>m_run_id = ''-runs'', m_action_id = ''a1'', m_command_id = ''-commands'',
       m_scope_id = ''11-control_scopes'', m_snapshot_version = 1, m_live_version = 2,
       m_live_status = Scope_Cancelled\<rparr>]\<rparr>"

lemma blocked_tables [simp]:
  "db_nodes blocked_db = [sample_root, sample_child]" "db_actions blocked_db = [denied_action]"
  "get_command_row ''-commands'' blocked_db = Some stop_command"
  "get_node_row ''1-nodes'' blocked_db = Some sample_child"
  "get_run_row ''-runs'' blocked_db = Some sample_run"
  by (simp_all add: blocked_db_def stopped_db_def row_get_defs stop_command_def)

lemma blocked_affected: "affected_nodes blocked_db stop_command sample_child = [sample_child]"
  by (simp add: affected_nodes_def descendants_including_self_def children_def List.find.simps)

lemma denied_stale: "stale_denial blocked_db stop_command denied_action"
  by (simp add: stale_denial_def matched_action_def denied_action_def blocked_db_def is_stale_def
      stale_reasons_def)

lemma blocked_later: "later_actions blocked_db stop_command [sample_child] = [denied_action]"
  by (simp add: later_actions_def denied_action_def sample_child_def sample_root_def)

lemma blocked_runtime: "command_blocked_actions blocked_db stop_command sample_child = [sample_blocked]"
  by (simp add: command_blocked_actions_def blocked_affected blocked_later runtime_blocked_actions_def
      denied_stale)
    (simp add: blocked_of_def denied_action_def sample_blocked_def text_or_empty_def int_or_zero_def)

lemma blocked_control:
  "control_verdict (collect_evidence blocked_db now stop_command sample_child) = Verified"
proof -
  have "classify blocked_db stop_command acts now sample_child = Acknowledged" for acts
    by (simp add: classify_def acked_before_def acked_as_def blocked_db_def stopped_db_def
        sample_child_def sample_root_def)
  moreover have "se_allowed (evaluate_scopes blocked_db sample_root)"
    by (simp add: evaluate_allowed_iff entry_current_def live_scope_def blocked_db_def stopped_db_def)
  moreover have "stale_committed_count [denied_action] = 0"
    by (simp add: stale_committed_count_def denied_action_def)
  ultimately show ?thesis
    by (simp add: control_verdict_def collect_evidence_def Let_def blocked_affected blocked_later
        unrelated_interrupted_def)
qed

lemma sample_stage_context:
  "stage_context sample_world stop_command [sample_blocked] sample_exporter = sample_context"
  unfolding stage_context_def sample_flush
  by (simp add: context_after_flush_def verification_context_of_def
      export_context_def process_identity_of_def sample_context_def sample_world_def Let_def
      sample_tsettings_def sample_exporter_def configure_telemetry_def configure_logs_def
      settle_status_def initial_exporter_def exporter_errors_def sample_identity_def
      telemetry_schema_version_def)

lemma sample_stage:
  "\<exists>v. fst (telemetry_stage sample_world stop_command [sample_blocked] sample_exporter st) = Inr v \<and>
     tv_verdict v = Verified"
proof -
  have "fst (telemetry_stage sample_world stop_command [sample_blocked] sample_exporter st) =
      fst (verify_command sample_tsettings sample_readers (\<lambda>_ _. []) sample_remote 1000009001
        sample_context st)"
    unfolding telemetry_stage_client sample_stage_context by (simp add: sample_world_def)
  with sample_verdict show ?thesis by simp
qed

lemma sample_build:
  "\<exists>r px d'. build_with_telemetry sample_env (\<lambda>_. noon + 9) sample_world ''-commands''
       sample_exporter initial_mcp_state blocked_db = Inr (Inr ((r, px), d')) \<and>
     pf_overall_verdict r = Verified"
proof -
  obtain v where v: "fst (telemetry_stage sample_world stop_command [sample_blocked] sample_exporter
      initial_mcp_state) = Inr v" "tv_verdict v = Verified"
    using sample_stage by blast
  then show ?thesis
    by (simp add: build_with_telemetry_def build_uncached_def get_run_def blocked_runtime
        proof_response_of_def Let_def blocked_control replacement_verdicts_of_def
        proof_of_verdict_def combine_proof_verdicts_def)
qed

section \<open>Properties\<close>

text \<open>C8: the verdict of the telemetry reconciliation is VERIFIED exactly when the evidence parses
  and matches the context: one command trace and one export watermark, both of this process, command
  and run and inside the window, the watermark equal to the local one and later than the command; the
  blocked traces and the blocked logs are, up to order, the actions the runtime blocked, each once,
  with the same node, scope, versions, status and reason; and no trace id occurs twice.\<close>

theorem telemetry_verdict_exact:
  "tv_verdict (reconcile_evidence pyd ctx evidence) = Verified \<longleftrightarrow>
     (\<exists>rows. parse_evidence pyd evidence = Inr rows \<and> exact_match ctx rows)"
  by (rule reconcile_verified)

text \<open>C9: telemetry verification fails closed: whatever the server answers, the command is VERIFIED
  only when the client is configured, a watermark exists, the session of six queries ran to its end,
  and every answer was free of errors, with no text beside its JSON but complete-page notes and clean
  decision notes; the server is then recorded as ready.\<close>

theorem verification_fails_closed:
  assumes "verify_command S R pyd M now ctx st = (Inr v, st')"
    and "tv_verdict v = Verified"
  shows "ts_signoz_api_key S \<noteq> [] \<and> vc_export_watermark ctx \<noteq> None \<and>
    pi_build_commit (vc_identity ctx) \<notin> {[], ''UNSET''} \<and>
    (\<exists>an evidence rows. run_session M ctx = Inr (Inr an) \<and>
       list_all (accepted_result R) (all_answers an) \<and> collect_answers R an = Inr evidence \<and>
       parse_evidence pyd evidence = Inr rows \<and> exact_match ctx rows) \<and>
    ms_available st' = Some True \<and> ms_status st' = ''ready'' \<and> ms_last_success_at st' = Some now"
proof -
  from verify_command_verified [OF assms] obtain an evidence rows where
    v: "configuration_error S ctx = None" "run_session M ctx = Inr (Inr an)"
      "collect_answers R an = Inr evidence" "parse_evidence pyd evidence = Inr rows"
      "exact_match ctx rows" "st' = record_mcp_health True ''ready'' (Some now) st"
    by blast
  have "list_all (accepted_result R) (all_answers an)"
    using collected_answer [OF v(3)] normalized_accepted unfolding list_all_iff by blast
  with v show ?thesis by (auto simp: configuration_error_None record_mcp_health_def)
qed

theorem verification_fails_closed_witness:
  "\<exists>v st'. verify_command sample_tsettings sample_readers (\<lambda>_ _. []) sample_remote 7
     sample_context initial_mcp_state = (Inr v, st') \<and> ms_last_success_at st' = Some 7"
proof -
  obtain v where v: "fst (verify_command sample_tsettings sample_readers (\<lambda>_ _. []) sample_remote 7
      sample_context initial_mcp_state) = Inr v" "tv_verdict v = Verified"
    using sample_verdict by blast
  obtain st' where c: "verify_command sample_tsettings sample_readers (\<lambda>_ _. []) sample_remote 7
      sample_context initial_mcp_state = (Inr v, st')"
    using v(1) by (metis prod.collapse)
  from verification_fails_closed [OF c v(2)] c show ?thesis by blast
qed

text \<open>C7: a proof whose overall verdict is VERIFIED has been observed: the exporters were flushed for
  this command after it was issued, and SigNoz returned, each exactly once and with equal fields, a
  trace and a log for every stale side effect the runtime blocked under the command.\<close>

theorem verified_is_observed:
  assumes "build_with_telemetry E clk W command_id exporter st d = Inr (Inr ((response, px), d'))"
    and "pf_overall_verdict response = Verified"
  shows "\<exists>c target rows. get_command_row command_id d = Some c \<and>
    get_node_row (c_target_node_id c) d = Some target \<and>
    fst (flush_for_command W c exporter) \<and> epoch_ms (c_created_at c) < epoch_ms (tw_clock W 0) \<and>
    observed_rows W (stage_context W c (command_blocked_actions d c target) exporter) rows \<and>
    mset (map (br_action \<circ> bt_row) (er_traces rows)) = mset (command_blocked_actions d c target) \<and>
    mset (map br_action (er_logs rows)) = mset (command_blocked_actions d c target) \<and>
    distinct (evidence_trace_ids rows)"
proof -
  from build_with_telemetry_stage [OF assms(1)] obtain c target v where
    c: "get_command_row command_id d = Some c" "get_node_row (c_target_node_id c) d = Some target"
    and v: "fst (telemetry_stage W c (command_blocked_actions d c target) exporter st) = Inr v"
      "tv_verdict v \<noteq> Not_Applicable"
    and b: "build_uncached E clk command_id (proof_of_verdict v) d = Inr ((response, px), d')"
    by blast
  have "combine_proof_verdicts [pf_runtime_verdict response, tv_verdict v] = Verified"
    using build_uncached_telemetry [OF b] assms(2) by (simp add: proof_of_verdict_def)
  then have "tv_verdict v = Verified" using v(2) unfolding combine_verified_iff by auto
  from telemetry_stage_verified [OF v(1) this] obtain rows where
    t: "fst (flush_for_command W c exporter)"
      "observed_rows W (stage_context W c (command_blocked_actions d c target) exporter) rows"
      "exact_match (stage_context W c (command_blocked_actions d c target) exporter) rows"
      "mset (map (br_action \<circ> bt_row) (er_traces rows)) = mset (command_blocked_actions d c target)"
      "mset (map br_action (er_logs rows)) = mset (command_blocked_actions d c target)"
    by blast
  obtain exporter' where "flush_for_command W c exporter = (True, exporter')"
    using t(1) by (metis prod.collapse)
  then have "\<not> predates (tw_clock W 0) (Some (epoch_ms (c_created_at c)))"
    unfolding flush_for_command_def by (auto dest: flush_success)
  with c t show ?thesis by (auto simp: exact_match_def predates_def)
qed

theorem verified_is_observed_witness:
  "\<exists>rows :: evidence_rows. mset (map br_action (er_logs rows)) =
     mset (command_blocked_actions blocked_db stop_command sample_child) \<and>
     length (er_logs rows) = 1"
proof -
  obtain r px d' where b: "build_with_telemetry sample_env (\<lambda>_. noon + 9) sample_world ''-commands''
      sample_exporter initial_mcp_state blocked_db = Inr (Inr ((r, px), d'))"
    and v: "pf_overall_verdict r = Verified"
    using sample_build by blast
  from verified_is_observed [OF b v] obtain c target and rows :: evidence_rows where
    c: "get_command_row ''-commands'' blocked_db = Some c"
      "get_node_row (c_target_node_id c) blocked_db = Some target"
    and m: "mset (map br_action (er_logs rows)) = mset (command_blocked_actions blocked_db c target)"
    by blast
  from c have "c = stop_command" "target = sample_child" by auto
  with m have m: "mset (map br_action (er_logs rows)) =
      mset (command_blocked_actions blocked_db stop_command sample_child)" by simp
  then have "length (map br_action (er_logs rows)) = length [sample_blocked]"
    unfolding blocked_runtime by (rule mset_eq_length)
  with m show ?thesis by auto
qed

text \<open>A row of the Query Builder is adapted faithfully: under every canonical name the row holds
  each value that came in under one of its aliases (values that disagree are an error), and it holds
  no field that is not a default, an aliased item or the timestamp.\<close>

theorem adapted_row_faithful:
  assumes "adapt_query_builder_row R columns defaults (PObj kv) = Inr row"
    and "row_items columns (dget kv ''data'') = Inr items"
  shows "list_all (\<lambda>(n, v). case map_of field_aliases n of
      None \<Rightarrow> True | Some c \<Rightarrow> holds_value row c v) items \<and>
    dict_keys row \<subseteq> dict_keys defaults \<union> canonical_names (map fst items) \<union> {''timestamp_ms''}"
  using adapt_row_keys [OF assms] adapt_row_holds [OF assms]
  by (auto simp: list_all_iff canonical_keys_names split: option.split)

definition sample_row :: dict where
  "sample_row = [(''data'', PObj [(''run_id'', PStr ''r''), (''tracefence.run.id'', PStr ''r''),
     (''span_id'', PStr ''s'')])]"

theorem adapted_row_faithful_witness:
  "\<exists>row. adapt_query_builder_row sample_readers None [] (PObj sample_row) = Inr row \<and>
     holds_value row ''run_id'' (PStr ''r'')"
proof -
  have a: "adapt_query_builder_row sample_readers None [] (PObj sample_row) =
      Inr [(''run_id'', PStr ''r'')]"
    by code_simp
  have i: "row_items None (dget sample_row ''data'') =
      Inr [(''run_id'', PStr ''r''), (''tracefence.run.id'', PStr ''r''), (''span_id'', PStr ''s'')]"
    by code_simp
  have n: "map_of field_aliases ''run_id'' = Some ''run_id''" by code_simp
  from adapted_row_faithful [OF a i] a n show ?thesis by simp
qed

text \<open>The millisecond of a timestamp, computed through two roundings of binary64, is the exact one
  whenever the time is not a whole number of milliseconds, and otherwise the exact one or the one
  before it, for all times from 1970 to 2041.\<close>

theorem timestamp_rounding:
  assumes "rd_fromisoformat R (concat (map (\<lambda>c. if c = CHR ''Z'' then ''+00:00'' else [c]) s)) =
      Some (True, t)"
    and "0 \<le> t" and "t < 2 ^ 51"
  shows "\<exists>ms. timestamp_to_milliseconds R (PStr s) = Inr ms \<and>
    t div 1000 - 1 \<le> ms \<and> ms \<le> t div 1000 \<and> (t mod 1000 \<noteq> 0 \<longrightarrow> ms = t div 1000)"
  using assms epoch_ms_bounds [OF assms(2,3)] by (simp add: timestamp_to_milliseconds_def)

definition clock_readers :: readers where
  "clock_readers =
    \<lparr>rd_loads = (\<lambda>_. None),
     rd_fromisoformat = (\<lambda>s. if s = ''t+00:00'' then Some (True, 2147483648002000) else None)\<rparr>"

text \<open>The bound is met: from 2038 on there are times that lose their last millisecond.\<close>

lemma lost_millisecond:
  "timestamp_to_milliseconds clock_readers (PStr ''tZ'') = Inr 2147483648001"
  by code_simp

theorem timestamp_rounding_witness:
  "\<exists>ms. timestamp_to_milliseconds clock_readers (PStr ''tZ'') = Inr ms \<and> 2147483648001 \<le> ms"
  using timestamp_rounding [of clock_readers "''tZ''" 2147483648002000]
  by (auto simp: clock_readers_def)

text \<open>C37: however many flushes overlap, a flush for a command that succeeds stores the watermark of that
  command and of no other: later than the command, with the identity of this process and the number that
  was drawn when this flush began, which no other flush has been given before or will ever be given,
  successful or not; and all three providers have confirmed the flush.\<close>

theorem flush_binds_watermark:
  assumes "flushes_reachable S \<lparr>fl_exporter = st, fl_calls = calls\<rparr>" and "i < length calls"
    and "fc_subject (calls ! i) = Some (run_id, command_id, Some created)"
    and "fc_providers (calls ! i) = Some owned" and "\<not> fc_ended (calls ! i)"
    and "end_flush S fr now owned (calls ! i) st = (True, st')"
  shows "fr_tracer fr = Some True \<and> fr_meter fr = Some True \<and> fr_logger fr = Some True \<and>
    (\<exists>wm. export_context run_id command_id st' = Some wm \<and> created < wm_exported_at_ms wm \<and>
       wm_identity wm = process_identity_of S st' \<and> fc_number (calls ! i) = Some (wm_sequence wm) \<and>
       (\<forall>m j. (flushes_step S)\<^sup>*\<^sup>* \<lparr>fl_exporter = st, fl_calls = calls\<rparr> m \<and> j < length (fl_calls m) \<and>
          fc_number (fl_calls m ! j) = Some (wm_sequence wm) \<longrightarrow> j = i)) \<and>
    (\<forall>r c. (r, c) \<noteq> (run_id, command_id) \<longrightarrow> export_context r c st' = None)"
proof -
  have ok: "call_ok (calls ! i)"
    using flushes_reachable_ok [OF assms(1)] assms(2) by (simp add: flushes_ok_def list_all_length)
  obtain n where n: "fc_number (calls ! i) = Some n" using ok assms(3) by (auto simp: call_ok_def)
  have own: "owned = (True, True, True)" and results: "list_all id (provider_results owned fr)"
    using ok assms(4,6) by (auto simp: call_ok_def end_flush_def provider_results_def Let_def split: if_splits)
  have wm: "xp_watermark st' = Some \<lparr>wm_identity = process_identity_of S st, wm_run_id = run_id,
      wm_command_id = command_id, wm_exported_at_ms = epoch_ms (fc_time (calls ! i)), wm_sequence = n\<rparr>"
    using assms(3,6) n by (auto simp: end_flush_def call_watermark_def Let_def split: if_splits)
  have "created < epoch_ms (fc_time (calls ! i))" using ok assms(3) by (simp add: call_ok_def predates_def)
  moreover have "j = i"
    if m: "(flushes_step S)\<^sup>*\<^sup>* \<lparr>fl_exporter = st, fl_calls = calls\<rparr> m" "j < length (fl_calls m)"
      "fc_number (fl_calls m ! j) = Some n" for m j
    using flushes_steps [OF m(1) assms(1), of i] flushes_number_unique [of S m i j n] m(2,3) assms(2) n by simp
  ultimately show ?thesis
    using results wm n end_flush_keeps(5) [OF assms(6)]
    by (auto simp: own provider_results_def export_context_def)
qed

text \<open>Two flushes, for two commands, begin one after the other; the second one ends first.\<close>

definition early_call :: "ident \<Rightarrow> int \<Rightarrow> flush_call" where
  "early_call command_id n = \<lparr>fc_subject = Some (''-runs'', command_id, Some 1000000), fc_time = 1000009001,
     fc_number = Some n, fc_providers = Some (True, True, True), fc_ended = False\<rparr>"

definition all_confirm :: flush_results where
  "all_confirm = \<lparr>fr_tracer = Some True, fr_meter = Some True, fr_logger = Some True\<rparr>"

definition overtaken :: exporter where
  "overtaken = snd (end_flush sample_tsettings all_confirm 1000009001 (True, True, True) (early_call ''1-commands'' 2)
     (sample_exporter\<lparr>xp_sequence := 2\<rparr>))"

lemma sample_exporter_ready [simp]:
  "xp_status sample_exporter = Ready" "xp_tracer sample_exporter" "xp_meter sample_exporter"
  "xp_logger sample_exporter" "xp_sequence sample_exporter = 0" "ts_otlp_endpoint sample_tsettings = ''o''"
  by (simp_all add: sample_exporter_def configure_telemetry_def configure_logs_def settle_status_def
      initial_exporter_def exporter_errors_def sample_tsettings_def Let_def)

lemma overtaken_reached:
  "flushes_reachable sample_tsettings \<lparr>fl_exporter = overtaken,
     fl_calls = [early_call ''-commands'' 1, (early_call ''1-commands'' 2)\<lparr>fc_ended := True\<rparr>]\<rparr>"
proof -
  let ?S = sample_tsettings and ?a = "early_call ''-commands'' 1" and ?b = "early_call ''1-commands'' 2"
  let ?new = "\<lambda>c. c\<lparr>fc_providers := None\<rparr>"
  note more = flushes_reachable.one_more [of ?S]
  have 0: "flushes_reachable ?S \<lparr>fl_exporter = sample_exporter, fl_calls = []\<rparr>"
    unfolding sample_exporter_def by (rule more [OF flushes_reachable.none_yet flushes_step.configures])
  have begun: "begin_flush ?S (Some (''-runs'', k, Some 1000000)) 1000009001 (sample_exporter\<lparr>xp_sequence := n\<rparr>) =
      Some (?new (early_call k (n + 1)), sample_exporter\<lparr>xp_sequence := n + 1\<rparr>)" for k n
    by (simp add: begin_flush_returns propose_export_returns predates_def early_call_def)
  have same: "sample_exporter\<lparr>xp_sequence := 0\<rparr> = sample_exporter" by simp
  have 1: "flushes_reachable ?S \<lparr>fl_exporter = sample_exporter\<lparr>xp_sequence := 1\<rparr>, fl_calls = [?new ?a]\<rparr>"
    using more [OF 0 flushes_step.begins [OF begun [of "''-commands''" 0, unfolded same]]] by simp
  have 2: "flushes_reachable ?S \<lparr>fl_exporter = sample_exporter\<lparr>xp_sequence := 2\<rparr>, fl_calls = [?new ?a, ?new ?b]\<rparr>"
    using more [OF 1 flushes_step.begins [OF begun [of "''1-commands''" 1]]] by simp
  have copied: "copy_providers (sample_exporter\<lparr>xp_sequence := 2\<rparr>) (?new (early_call k n)) = early_call k n" for k n
    by (simp add: copy_providers_def early_call_def)
  have 3: "flushes_reachable ?S \<lparr>fl_exporter = sample_exporter\<lparr>xp_sequence := 2\<rparr>, fl_calls = [?a, ?new ?b]\<rparr>"
    using more [OF 2 flushes_step.copies [of 0]] by (simp add: copied)
  have 4: "flushes_reachable ?S \<lparr>fl_exporter = sample_exporter\<lparr>xp_sequence := 2\<rparr>, fl_calls = [?a, ?b]\<rparr>"
    using more [OF 3 flushes_step.copies [of 1]] by (simp add: copied)
  have e: "end_flush ?S all_confirm 1000009001 (True, True, True) ([?a, ?b] ! 1) (sample_exporter\<lparr>xp_sequence := 2\<rparr>) =
      (True, overtaken)"
    by (simp add: overtaken_def end_flush_def provider_results_def all_confirm_def)
  show ?thesis
    using more [OF 4 flushes_step.ends [OF _ _ _ e]] by (simp add: early_call_def)
qed

theorem flush_binds_watermark_witness:
  "\<exists>st' wm. end_flush sample_tsettings all_confirm 1000009002 (True, True, True) (early_call ''-commands'' 1) overtaken =
     (True, st') \<and> export_context ''-runs'' ''-commands'' st' = Some wm \<and> wm_sequence wm = 1 \<and>
     export_context ''-runs'' ''1-commands'' st' = None"
proof -
  obtain st' where e: "end_flush sample_tsettings all_confirm 1000009002 (True, True, True) (early_call ''-commands'' 1)
      overtaken = (True, st')"
    by (simp add: end_flush_def provider_results_def all_confirm_def)
  have c: "[early_call ''-commands'' 1, (early_call ''1-commands'' 2)\<lparr>fc_ended := True\<rparr>] ! 0 = early_call ''-commands'' 1"
    by simp
  have "fc_number (early_call ''-commands'' 1) = Some 1" by (simp add: early_call_def)
  then show ?thesis
    using flush_binds_watermark [OF overtaken_reached, of 0 "''-runs''" "''-commands''" 1000000 "(True, True, True)"
      all_confirm 1000009002 st'] e unfolding c by (auto simp: early_call_def)
qed

text \<open>So an older flush that ends last replaces the watermark of a newer one: the proof of the other command,
  whose flush succeeded, finds no context any more.\<close>

lemma older_flush_overwrites:
  "export_context ''-runs'' ''1-commands'' overtaken \<noteq> None \<and>
   export_context ''-runs'' ''1-commands'' (snd (end_flush sample_tsettings all_confirm 1000009002 (True, True, True)
     (early_call ''-commands'' 1) overtaken)) = None"
  by (simp add: overtaken_def end_flush_def provider_results_def all_confirm_def export_context_def
      call_watermark_def early_call_def)

text \<open>The aliases of the fields a span of this process would need.\<close>

lemma needed_aliases:
  "map_of field_aliases n = Some ''process_instance_id'' \<Longrightarrow>
     n \<in> set [''process_instance_id'', ''tracefence.process.instance.id'',
       ''attribute.tracefence.process.instance.id'']"
  "map_of field_aliases n = Some ''denial_reason'' \<Longrightarrow>
     n \<in> set [''denial_reason'', ''tracefence.denial.reason'', ''attribute.tracefence.denial.reason'']"
  by (drule map_of_SomeD, simp add: field_aliases_def prefixed_def)+

text \<open>C40: the watermark this process emits cannot be read back: when the columns of the watermark
  answer are those of the span and the attributes the code puts on it (bare, or under
  \<open>attribute.\<close> or \<open>resource.\<close>), the verification never says VERIFIED, because none of them is an alias
  of the required field \<open>process_instance_id\<close>.\<close>

theorem emitted_watermark_unreadable:
  assumes "run_session M ctx = Inr (Inr an)"
    and "tr_structured (an_watermark an) = None"
    and "tr_content (an_watermark an) = Blocks (b # bs)" and "cb_text b = Some first"
    and "rd_loads R first = Some (PObj parsed)" and "dict_keys parsed \<noteq> {''results''}"
    and "set (payload_item_names parsed) \<subseteq> set (span_columns watermark_span_attributes)"
    and "verify_command S R pyd M now ctx st = (Inr v, st')"
  shows "tv_verdict v \<noteq> Verified"
proof
  assume "tv_verdict v = Verified"
  from verify_command_verified [OF assms(8) this] assms(1) obtain evidence rows where
    v: "collect_answers R an = Inr evidence" "parse_evidence pyd evidence = Inr rows"
      "exact_match ctx rows"
    by auto
  from v(1) obtain w where w: "normalize_tool_result R [] (an_watermark an) = Inr w"
      "dget evidence ''export_watermarks'' = PObj w"
    by (auto simp: collect_answers_returns dget_def)
  from text_result_admissible [OF w(1) assms(2)] assms(3-6) obtain advisory where
    "adapt_query_builder_payload R [] advisory parsed = Inr w"
    by (auto simp: admissible_text_def)
  from adapt_payload_names [OF this] obtain rs where
    rs: "w = [(''results'', PArr (map PObj rs))]" "list_all (few_keys (payload_item_names parsed)) rs"
    by blast
  have "list_all (\<lambda>n. n \<notin> set (span_columns watermark_span_attributes))
      [''process_instance_id'', ''tracefence.process.instance.id'',
       ''attribute.tracefence.process.instance.id'']"
    by code_simp
  then have "''process_instance_id'' \<notin> canonical_names (payload_item_names parsed)"
    using assms(7) needed_aliases(1) unfolding canonical_names_def list_all_iff by blast
  with rs w(2) v(2) have "er_watermarks rows = []"
    by (auto simp: parse_evidence_def andthen_returns intro: watermark_rows_empty)
  with v(3) show False by (auto simp: exact_match_def)
qed

definition emitted_row :: dict where
  "emitted_row = [(''data'', PObj
     [(''trace_id'', PStr (trace_named CHR ''c'')), (''name'', PStr ''tracefence.telemetry.export_watermark''),
      (''tracefence.run.id'', PStr ''-runs''), (''tracefence.command.id'', PStr ''-commands''),
      (''tracefence.telemetry.exported_at_ms'', PInt 1000009),
      (''tracefence.telemetry.export_sequence'', PInt 1),
      (''resource.service.name'', PStr ''svc''), (''resource.service.instance.id'', PStr ''i''),
      (''resource.process.instance.id'', PStr ''p''), (''tracefence.build.commit'', PStr ''c''),
      (''resource.tracefence.telemetry.schema_version'', PInt 1)])]"

definition emitted_payload :: dict where
  "emitted_payload = [(''status'', PStr ''success''), (''data'', PObj
     [(''type'', PStr ''raw''), (''data'', PObj [(''results'', PArr [PObj
        [(''queryName'', PStr ''A''), (''rows'', PArr [PObj emitted_row])]])])])]"

definition emitted_readers :: readers where
  "emitted_readers =
    \<lparr>rd_loads = (\<lambda>s. if s = ''j'' then Some (PObj emitted_payload) else None),
     rd_fromisoformat = (\<lambda>_. None)\<rparr>"

definition emitted_answer :: tool_result where
  "emitted_answer =
    \<lparr>tr_isError = False, tr_is_error = False, tr_structuredContent = None,
     tr_structured_content = None,
     tr_content = Blocks [\<lparr>cb_type = ''text'', cb_text = Some ''j''\<rparr>]\<rparr>"

definition emitted_remote :: remote where
  "emitted_remote = sample_remote
    \<lparr>rm_call := (\<lambda>i tool arguments. Inr (if i = 3 then emitted_answer else sample_answer i))\<rparr>"

theorem emitted_watermark_unreadable_witness:
  "\<exists>v. fst (verify_command sample_tsettings emitted_readers (\<lambda>_ _. []) emitted_remote 0 sample_context
     initial_mcp_state) = Inr v \<and> tv_verdict v \<noteq> Verified"
proof -
  obtain an where an: "run_session emitted_remote sample_context = Inr (Inr an)"
    "an_watermark an = emitted_answer"
    by (simp add: run_session_def run_queries_def emitted_remote_def sample_remote_def missing_tools_def)
  have names: "set (payload_item_names emitted_payload) \<subseteq> set (span_columns watermark_span_attributes)"
    by code_simp
  have keys: "dict_keys emitted_payload \<noteq> {''results''}" by code_simp
  have "case fst (verify_command sample_tsettings emitted_readers (\<lambda>_ _. []) emitted_remote 0
      sample_context initial_mcp_state) of Inl _ \<Rightarrow> False | Inr _ \<Rightarrow> True"
    by code_simp
  then obtain v st' where v: "verify_command sample_tsettings emitted_readers (\<lambda>_ _. []) emitted_remote 0
      sample_context initial_mcp_state = (Inr v, st')"
    by (metis prod.collapse sum.case(1) sum.exhaust)
  have "tv_verdict v \<noteq> Verified"
    by (rule emitted_watermark_unreadable [OF an(1) _ _ _ _ keys names v])
      (auto simp: an(2) emitted_answer_def tr_structured_def emitted_readers_def)
  with v show ?thesis by simp
qed

text \<open>The span of a blocked action has the same gap, and its reason goes unread too.\<close>

lemma block_span_unreadable:
  assumes "n \<in> set (span_columns (action_span_attributes denied_action))"
  shows "map_of field_aliases n \<noteq> Some ''process_instance_id''"
    and "map_of field_aliases n \<noteq> Some ''denial_reason''"
proof -
  have "list_all (\<lambda>n. n \<notin> set (span_columns (action_span_attributes denied_action)))
      [''process_instance_id'', ''tracefence.process.instance.id'',
       ''attribute.tracefence.process.instance.id'', ''denial_reason'', ''tracefence.denial.reason'',
       ''attribute.tracefence.denial.reason'']"
    by code_simp
  with assms needed_aliases [of n] show "map_of field_aliases n \<noteq> Some ''process_instance_id''"
    and "map_of field_aliases n \<noteq> Some ''denial_reason''"
    by (auto simp: list_all_iff)
qed

text \<open>A watermark row with a timestamp of its own is refused as well.\<close>

lemma watermark_with_timestamp:
  assumes "''timestamp_ms'' \<in> dict_keys kv"
  shows "parse_watermark pyd (PObj kv) \<noteq> Inr row"
proof -
  have "''timestamp_ms'' \<notin> set watermark_fields"
    by (simp add: watermark_fields_def identity_fields_def)
  then have "List.find (\<lambda>(k, _). k \<notin> set watermark_fields) kv \<noteq> None"
    using assms unfolding find_None_iff' dict_keys_def by fastforce
  then have "no_extra pyd watermark_fields kv \<noteq> Inr ()"
    by (auto simp: no_extra_def split: option.splits)
  then show ?thesis by (auto simp: parse_watermark_def as_dict_def andthen_returns)
qed

text \<open>
  Two commands may stand behind one denial: the action is then matched to both, but its span carries
  one command id.  With traces that carry what the gateway emits, the other command is not matched
  exactly, although nothing went wrong.
\<close>

definition carries_matched_command :: "db \<Rightarrow> blocked_trace \<Rightarrow> bool" where
  "carries_matched_command d t \<longleftrightarrow>
     (\<forall>a \<in> set (db_actions d). a_id a = row_action_id (bt_row t) \<longrightarrow>
        a_matched_command_id a = Some (br_command_id (bt_row t)))"

lemma overlapping_command_unmatched:
  assumes "list_all (carries_matched_command d) (er_traces rows)"
    and "a \<in> set (db_actions d)" and "blocked_of a \<in> set (vc_blocked_actions ctx)"
    and "a_matched_command_id a \<noteq> Some (vc_command_id ctx)"
  shows "\<not> exact_match ctx rows"
proof
  assume m: "exact_match ctx rows"
  then have "set (map (br_action \<circ> bt_row) (er_traces rows)) = set (vc_blocked_actions ctx)"
    unfolding exact_match_def by (blast dest: mset_eq_setD)
  with assms(3) obtain t where t: "t \<in> set (er_traces rows)" "br_action (bt_row t) = blocked_of a"
    by (metis comp_apply imageE list.set_map)
  then have "a_id a = row_action_id (bt_row t)" by (simp add: row_action_id_def blocked_of_def)
  with assms(1,2) t(1) have "a_matched_command_id a = Some (br_command_id (bt_row t))"
    by (auto simp: list_all_iff carries_matched_command_def)
  moreover have "br_command_id (bt_row t) = vc_command_id ctx"
    using m t(1) by (auto simp: exact_match_def list_all_iff attributed_def)
  ultimately show False using assms(4) by simp
qed

end
