(* ===== verification/Integrity.thy ===== *)
theory Integrity
  imports History
begin

text \<open>
  The \<open>ForeignKeyConstraint\<close>s of \<open>db/models.py\<close>.  A composite key carries the run in its first
  column, so a row can only refer to rows of its own run; a key with a null column is not checked
  (SQLite's \<open>MATCH SIMPLE\<close>).  \<open>fk_ok\<close> is the conjunction over all tables.
\<close>

section \<open>Referenced rows\<close>

definition run_exists :: "db \<Rightarrow> ident \<Rightarrow> bool" where
  "run_exists d k \<longleftrightarrow> (\<exists>r \<in> set (db_runs d). r_id r = k)"

definition node_exists :: "db \<Rightarrow> ident \<Rightarrow> ident \<Rightarrow> bool" where
  "node_exists d run_id k \<longleftrightarrow> (\<exists>n \<in> set (db_nodes d). n_run_id n = run_id \<and> n_id n = k)"

definition scope_exists :: "db \<Rightarrow> ident \<Rightarrow> ident \<Rightarrow> bool" where
  "scope_exists d run_id k \<longleftrightarrow> (\<exists>s \<in> set (db_scopes d). sc_run_id s = run_id \<and> sc_id s = k)"

definition owned_scope_exists :: "db \<Rightarrow> ident \<Rightarrow> ident \<Rightarrow> ident \<Rightarrow> bool" where
  "owned_scope_exists d run_id k owner \<longleftrightarrow>
    (\<exists>s \<in> set (db_scopes d). sc_run_id s = run_id \<and> sc_id s = k \<and> sc_owner_node_id s = Some owner)"

definition proposal_exists :: "db \<Rightarrow> ident \<Rightarrow> ident \<Rightarrow> bool" where
  "proposal_exists d run_id k \<longleftrightarrow> (\<exists>p \<in> set (db_proposals d). p_run_id p = run_id \<and> p_id p = k)"

definition command_exists :: "db \<Rightarrow> ident \<Rightarrow> ident \<Rightarrow> bool" where
  "command_exists d run_id k \<longleftrightarrow> (\<exists>c \<in> set (db_commands d). c_run_id c = run_id \<and> c_id c = k)"

definition exact_version_exists :: "db \<Rightarrow> ident \<Rightarrow> ident \<Rightarrow> int \<Rightarrow> bool" where
  "exact_version_exists d run_id k version \<longleftrightarrow>
    (\<exists>c \<in> set (db_commands d). c_run_id c = run_id \<and> c_id c = k \<and> c_to_version c = version)"

definition exact_command_exists :: "db \<Rightarrow> ident \<Rightarrow> ident \<Rightarrow> ident \<Rightarrow> int \<Rightarrow> bool" where
  "exact_command_exists d run_id k scope_id version \<longleftrightarrow>
    (\<exists>c \<in> set (db_commands d). c_run_id c = run_id \<and> c_id c = k \<and> c_target_scope_id c = scope_id \<and>
       c_to_version c = version)"

definition action_exists :: "db \<Rightarrow> ident \<Rightarrow> ident \<Rightarrow> bool" where
  "action_exists d run_id k \<longleftrightarrow> (\<exists>a \<in> set (db_actions d). a_run_id a = run_id \<and> a_id a = k)"

lemmas exists_defs = run_exists_def node_exists_def scope_exists_def owned_scope_exists_def
  proposal_exists_def command_exists_def exact_version_exists_def exact_command_exists_def
  action_exists_def

section \<open>Foreign keys, table by table\<close>

definition run_refs :: "db \<Rightarrow> run \<Rightarrow> bool" where
  "run_refs d r \<longleftrightarrow> node_exists d (r_id r) (r_root_node_id r) \<and> scope_exists d (r_id r) (r_run_scope_id r)"

definition node_refs :: "db \<Rightarrow> node \<Rightarrow> bool" where
  "node_refs d n \<longleftrightarrow>
     run_exists d (n_run_id n) \<and>
     opt_ok (node_exists d (n_run_id n)) (n_parent_id n) \<and>
     opt_ok (node_exists d (n_run_id n)) (n_supersedes_node_id n) \<and>
     opt_ok (command_exists d (n_run_id n)) (n_caused_by_command_id n) \<and>
     owned_scope_exists d (n_run_id n) (n_own_scope_id n) (n_id n)"

definition scope_refs :: "db \<Rightarrow> control_scope \<Rightarrow> bool" where
  "scope_refs d s \<longleftrightarrow>
     run_exists d (sc_run_id s) \<and>
     opt_ok (node_exists d (sc_run_id s)) (sc_owner_node_id s) \<and>
     opt_ok (node_exists d (sc_run_id s)) (sc_updated_by_node_id s)"

definition intent_refs :: "db \<Rightarrow> spawn_intent \<Rightarrow> bool" where
  "intent_refs d i \<longleftrightarrow>
     run_exists d (si_run_id i) \<and> node_exists d (si_run_id i) (si_parent_node_id i) \<and>
     node_exists d (si_run_id i) (si_child_node_id i)"

definition envelope_refs :: "db \<Rightarrow> envelope \<Rightarrow> bool" where
  "envelope_refs d e \<longleftrightarrow>
     run_exists d (cre_run_id e) \<and> node_exists d (cre_run_id e) (cre_caller_node_id e) \<and>
     node_exists d (cre_run_id e) (cre_subject_node_id e)"

definition proposal_refs :: "db \<Rightarrow> proposal \<Rightarrow> bool" where
  "proposal_refs d p \<longleftrightarrow>
     run_exists d (p_run_id p) \<and> node_exists d (p_run_id p) (p_reporter_node_id p) \<and>
     node_exists d (p_run_id p) (p_target_node_id p) \<and>
     opt_ok (node_exists d (p_run_id p)) (p_reviewed_by_node_id p) \<and>
     opt_ok (command_exists d (p_run_id p)) (p_resulting_command_id p)"

definition command_refs :: "db \<Rightarrow> command \<Rightarrow> bool" where
  "command_refs d c \<longleftrightarrow>
     run_exists d (c_run_id c) \<and>
     opt_ok (node_exists d (c_run_id c)) (c_issuer_node_id c) \<and>
     node_exists d (c_run_id c) (c_target_node_id c) \<and>
     scope_exists d (c_run_id c) (c_target_scope_id c) \<and>
     opt_ok (node_exists d (c_run_id c)) (c_replacement_parent_id c) \<and>
     opt_ok (node_exists d (c_run_id c)) (c_replacement_node_id c) \<and>
     opt_ok (proposal_exists d (c_run_id c)) (c_source_proposal_id c)"

definition ack_refs :: "db \<Rightarrow> acknowledgement \<Rightarrow> bool" where
  "ack_refs d k \<longleftrightarrow>
     run_exists d (k_run_id k) \<and> command_exists d (k_run_id k) (k_command_id k) \<and>
     node_exists d (k_run_id k) (k_node_id k) \<and>
     exact_version_exists d (k_run_id k) (k_command_id k) (k_observed_scope_version k)"

definition exact_match_ref :: "db \<Rightarrow> action \<Rightarrow> bool" where
  "exact_match_ref d a \<longleftrightarrow>
    (case (a_matched_command_id a, a_matched_scope_id a, a_matched_live_version a) of
       (Some c, Some s, Some v) \<Rightarrow> exact_command_exists d (a_run_id a) c s v
     | _ \<Rightarrow> True)"

definition action_refs :: "db \<Rightarrow> action \<Rightarrow> bool" where
  "action_refs d a \<longleftrightarrow>
     run_exists d (a_run_id a) \<and> node_exists d (a_run_id a) (a_node_id a) \<and>
     opt_ok (scope_exists d (a_run_id a)) (a_matched_scope_id a) \<and>
     opt_ok (command_exists d (a_run_id a)) (a_matched_command_id a) \<and> exact_match_ref d a"

definition match_refs :: "db \<Rightarrow> action_match \<Rightarrow> bool" where
  "match_refs d m \<longleftrightarrow>
     run_exists d (m_run_id m) \<and> action_exists d (m_run_id m) (m_action_id m) \<and>
     command_exists d (m_run_id m) (m_command_id m) \<and>
     exact_command_exists d (m_run_id m) (m_command_id m) (m_scope_id m) (m_live_version m) \<and>
     scope_exists d (m_run_id m) (m_scope_id m)"

definition violation_refs :: "db \<Rightarrow> violation \<Rightarrow> bool" where
  "violation_refs d v \<longleftrightarrow>
     run_exists d (v_run_id v) \<and> command_exists d (v_run_id v) (v_command_id v) \<and>
     action_exists d (v_run_id v) (v_action_id v)"

definition outbox_refs :: "db \<Rightarrow> outbox_row \<Rightarrow> bool" where
  "outbox_refs d r \<longleftrightarrow> run_exists d (o_run_id r)"

definition service_refs :: "db \<Rightarrow> service_state \<Rightarrow> bool" where
  "service_refs d s \<longleftrightarrow>
     run_exists d (sv_run_id s) \<and> opt_ok (action_exists d (sv_run_id s)) (sv_last_action_id s)"

definition event_refs :: "db \<Rightarrow> runtime_event \<Rightarrow> bool" where
  "event_refs d e \<longleftrightarrow>
     run_exists d (e_run_id e) \<and>
     opt_ok (node_exists d (e_run_id e)) (e_node_id e) \<and>
     opt_ok (node_exists d (e_run_id e)) (e_parent_node_id e) \<and>
     opt_ok (command_exists d (e_run_id e)) (e_command_id e) \<and>
     opt_ok (action_exists d (e_run_id e)) (e_action_id e) \<and>
     opt_ok (scope_exists d (e_run_id e)) (e_scope_id e)"

lemmas refs_defs = run_refs_def node_refs_def scope_refs_def intent_refs_def envelope_refs_def
  proposal_refs_def command_refs_def ack_refs_def exact_match_ref_def action_refs_def match_refs_def
  violation_refs_def outbox_refs_def service_refs_def event_refs_def

text \<open>Every foreign key of every table holds.\<close>

definition fk_ok :: "db \<Rightarrow> bool" where
  "fk_ok d \<longleftrightarrow>
     list_all (run_refs d) (db_runs d) \<and> list_all (node_refs d) (db_nodes d) \<and>
     list_all (scope_refs d) (db_scopes d) \<and> list_all (intent_refs d) (db_intents d) \<and>
     list_all (envelope_refs d) (db_envelopes d) \<and> list_all (proposal_refs d) (db_proposals d) \<and>
     list_all (command_refs d) (db_commands d) \<and> list_all (ack_refs d) (db_acks d) \<and>
     list_all (action_refs d) (db_actions d) \<and> list_all (match_refs d) (db_matches d) \<and>
     list_all (violation_refs d) (db_violations d) \<and> list_all (outbox_refs d) (db_outbox d) \<and>
     list_all (service_refs d) (db_services d) \<and> list_all (event_refs d) (db_events d)"

lemma fk_ok_empty: "fk_ok empty_db"
  by (simp add: fk_ok_def empty_db_def)

end
