(* ===== verification/Revision.thy ===== *)
theory Revision
  imports Proof Integrity
begin

text \<open>
  \<open>db/engine.py\<close>, the trigger half: the proof revision of a run as the database maintains it.  A
  statement is one row change of one table (a statement over several rows is a sequence of them);
  executing it changes the row and fires the installed triggers: after a change of a proof relevant
  table the run named by the row moves to its next revision, after an assignment to a proof relevant
  column of \<open>runs\<close> so does that run, and a change or a deletion of a runtime event aborts.
\<close>

section \<open>Triggers\<close>

definition proof_relevant_run_tables :: "string list" where
  "proof_relevant_run_tables =
    [''nodes'', ''control_scopes'', ''spawn_intents'', ''correction_proposals'', ''control_commands'',
     ''command_acknowledgements'', ''action_attempts'', ''action_command_matches'',
     ''invariant_violations'', ''telemetry_outbox'', ''service_state'']"

definition trigger_operations :: "string list" where
  "trigger_operations = [''insert'', ''update'', ''delete'']"

definition revision_trigger :: "string \<Rightarrow> string \<Rightarrow> string" where
  "revision_trigger tbl operation = ''trg_'' @ tbl @ ''_'' @ operation @ ''_proof_revision''"

definition runs_trigger :: string where
  "runs_trigger = ''trg_runs_update_proof_revision''"

definition runtime_event_trigger_names :: "string list" where
  "runtime_event_trigger_names = [''trg_runtime_events_no_update'', ''trg_runtime_events_no_delete'']"

definition proof_revision_trigger_names :: "string list" where
  "proof_revision_trigger_names =
    concat (map (\<lambda>tbl. map (revision_trigger tbl) trigger_operations) proof_relevant_run_tables) @
    [runs_trigger]"

definition required_triggers :: "string list" where
  "required_triggers = proof_revision_trigger_names @ runtime_event_trigger_names"

definition missing_triggers :: "string list \<Rightarrow> string list" where
  "missing_triggers actual = sort (filter (\<lambda>t. t \<notin> set actual) (remdups required_triggers))"

definition validate_required_triggers :: "string list \<Rightarrow> string + unit" where
  "validate_required_triggers actual =
    require (missing_triggers actual = [])
      (''SCHEMA_MIGRATION_REQUIRED: required database triggers are missing: '' @
        join '', '' (missing_triggers actual))"

text \<open>\<open>CREATE TRIGGER IF NOT EXISTS\<close>, in the order of the loops.\<close>

definition install_proof_revision_triggers :: "string list \<Rightarrow> string list" where
  "install_proof_revision_triggers actual =
    fold (\<lambda>t present. if t \<in> set present then present else present @ [t])
      proof_revision_trigger_names actual"

section \<open>Statements\<close>

datatype 'r change = Insert_Row 'r | Update_Row 'r 'r | Delete_Row 'r

datatype run_assignment =
    Set_Run_Name string | Set_Run_Status run_status | Set_Root_Node ident | Set_Run_Scope ident
  | Set_Finished "time option" | Set_Revision int

datatype statement =
    On_Nodes "node change"
  | On_Scopes "control_scope change"
  | On_Intents "spawn_intent change"
  | On_Proposals "proposal change"
  | On_Commands "command change"
  | On_Acks "acknowledgement change"
  | On_Actions "action change"
  | On_Matches "action_match change"
  | On_Violations "violation change"
  | On_Outbox "outbox_row change"
  | On_Services "service_state change"
  | On_Envelopes "envelope change"
  | On_Events "runtime_event change"
  | Insert_Run run
  | Update_Run ident "run_assignment list"

fun apply_change :: "'r change \<Rightarrow> 'r list \<Rightarrow> 'r list" where
  "apply_change (Insert_Row r) rows = rows @ [r]"
| "apply_change (Update_Row old new) rows = map (\<lambda>r. if r = old then new else r) rows"
| "apply_change (Delete_Row old) rows = filter (\<lambda>r. r \<noteq> old) rows"

fun change_operation :: "'r change \<Rightarrow> string" where
  "change_operation (Insert_Row r) = ''insert''"
| "change_operation (Update_Row old new) = ''update''"
| "change_operation (Delete_Row old) = ''delete''"

text \<open>A row trigger fires when a row is really changed; it reads \<open>OLD\<close> for a deletion, else \<open>NEW\<close>.\<close>

fun hits :: "'r change \<Rightarrow> 'r list \<Rightarrow> bool" where
  "hits (Insert_Row r) rows = True"
| "hits (Update_Row old new) rows = (old \<in> set rows)"
| "hits (Delete_Row old) rows = (old \<in> set rows)"

fun trigger_run :: "('r \<Rightarrow> ident) \<Rightarrow> 'r change \<Rightarrow> ident" where
  "trigger_run run_of (Insert_Row r) = run_of r"
| "trigger_run run_of (Update_Row old new) = run_of new"
| "trigger_run run_of (Delete_Row old) = run_of old"

definition bump_revision :: "ident \<Rightarrow> db \<Rightarrow> db" where
  "bump_revision run_id = update_run run_id (\<lambda>r. r\<lparr>r_proof_revision := r_proof_revision r + 1\<rparr>)"

definition after_change ::
    "string list \<Rightarrow> string \<Rightarrow> ('r \<Rightarrow> ident) \<Rightarrow> 'r change \<Rightarrow> 'r list \<Rightarrow> db \<Rightarrow> db" where
  "after_change triggers tbl run_of c rows d =
    (if hits c rows \<and> tbl \<in> set proof_relevant_run_tables \<and>
        revision_trigger tbl (change_operation c) \<in> set triggers
     then bump_revision (trigger_run run_of c) d else d)"

fun assign_run :: "run_assignment \<Rightarrow> run \<Rightarrow> run" where
  "assign_run (Set_Run_Name v) r = r\<lparr>r_name := v\<rparr>"
| "assign_run (Set_Run_Status v) r = r\<lparr>r_status := v\<rparr>"
| "assign_run (Set_Root_Node v) r = r\<lparr>r_root_node_id := v\<rparr>"
| "assign_run (Set_Run_Scope v) r = r\<lparr>r_run_scope_id := v\<rparr>"
| "assign_run (Set_Finished v) r = r\<lparr>r_finished_at := v\<rparr>"
| "assign_run (Set_Revision v) r = r\<lparr>r_proof_revision := v\<rparr>"

fun watched_column :: "run_assignment \<Rightarrow> bool" where
  "watched_column (Set_Run_Status v) = True"
| "watched_column (Set_Root_Node v) = True"
| "watched_column (Set_Run_Scope v) = True"
| "watched_column (Set_Finished v) = True"
| "watched_column _ = False"

text \<open>The row after the assignments and the trigger with its \<open>WHEN\<close> clause.\<close>

definition updated_run :: "string list \<Rightarrow> run_assignment list \<Rightarrow> run \<Rightarrow> run" where
  "updated_run triggers assignments old =
    (let new = fold assign_run assignments old
     in if runs_trigger \<in> set triggers \<and> list_ex watched_column assignments \<and>
           r_proof_revision new = r_proof_revision old
        then new\<lparr>r_proof_revision := r_proof_revision new + 1\<rparr> else new)"

definition events_guard :: "string list \<Rightarrow> runtime_event change \<Rightarrow> db \<Rightarrow> string + unit" where
  "events_guard triggers c d =
    require (\<not> (hits c (db_events d) \<and>
        ''trg_runtime_events_no_'' @ change_operation c \<in> set triggers))
      ''RUNTIME_EVENTS_APPEND_ONLY''"

fun run_statement :: "string list \<Rightarrow> statement \<Rightarrow> db \<Rightarrow> string + db" where
  "run_statement T (On_Nodes c) d =
     Inr (after_change T ''nodes'' n_run_id c (db_nodes d) (db_nodes_update (apply_change c) d))"
| "run_statement T (On_Scopes c) d =
     Inr (after_change T ''control_scopes'' sc_run_id c (db_scopes d)
       (db_scopes_update (apply_change c) d))"
| "run_statement T (On_Intents c) d =
     Inr (after_change T ''spawn_intents'' si_run_id c (db_intents d)
       (db_intents_update (apply_change c) d))"
| "run_statement T (On_Proposals c) d =
     Inr (after_change T ''correction_proposals'' p_run_id c (db_proposals d)
       (db_proposals_update (apply_change c) d))"
| "run_statement T (On_Commands c) d =
     Inr (after_change T ''control_commands'' c_run_id c (db_commands d)
       (db_commands_update (apply_change c) d))"
| "run_statement T (On_Acks c) d =
     Inr (after_change T ''command_acknowledgements'' k_run_id c (db_acks d)
       (db_acks_update (apply_change c) d))"
| "run_statement T (On_Actions c) d =
     Inr (after_change T ''action_attempts'' a_run_id c (db_actions d)
       (db_actions_update (apply_change c) d))"
| "run_statement T (On_Matches c) d =
     Inr (after_change T ''action_command_matches'' m_run_id c (db_matches d)
       (db_matches_update (apply_change c) d))"
| "run_statement T (On_Violations c) d =
     Inr (after_change T ''invariant_violations'' v_run_id c (db_violations d)
       (db_violations_update (apply_change c) d))"
| "run_statement T (On_Outbox c) d =
     Inr (after_change T ''telemetry_outbox'' o_run_id c (db_outbox d)
       (db_outbox_update (apply_change c) d))"
| "run_statement T (On_Services c) d =
     Inr (after_change T ''service_state'' sv_run_id c (db_services d)
       (db_services_update (apply_change c) d))"
| "run_statement T (On_Envelopes c) d =
     Inr (after_change T ''credential_recovery_envelopes'' cre_run_id c (db_envelopes d)
       (db_envelopes_update (apply_change c) d))"
| "run_statement T (On_Events c) d =
     andthen (events_guard T c d) (\<lambda>_. Inr (db_events_update (apply_change c) d))"
| "run_statement T (Insert_Run r) d = Inr (db_runs_update (\<lambda>rs. rs @ [r]) d)"
| "run_statement T (Update_Run k assignments) d = Inr (update_run k (updated_run T assignments) d)"

definition run_statements :: "string list \<Rightarrow> statement list \<Rightarrow> db \<Rightarrow> string + db" where
  "run_statements T stmts d = foldm (run_statement T) stmts d"

section \<open>What the required triggers guarantee\<close>

lemma missing_triggers_empty: "missing_triggers T = [] \<longleftrightarrow> set required_triggers \<subseteq> set T"
proof -
  have "missing_triggers T = [] \<longleftrightarrow> set (missing_triggers T) = {}" by simp
  also have "\<dots> \<longleftrightarrow> set required_triggers \<subseteq> set T"
    by (auto simp: missing_triggers_def)
  finally show ?thesis .
qed

lemma validate_triggers_returns [outcome]:
  "validate_required_triggers T = Inr u \<longleftrightarrow> set required_triggers \<subseteq> set T"
  by (simp add: validate_required_triggers_def outcome missing_triggers_empty)

lemma change_operation_in: "change_operation c \<in> set trigger_operations"
  by (cases c) (simp_all add: trigger_operations_def)

lemma required_present:
  assumes "set required_triggers \<subseteq> set T"
  shows "tbl \<in> set proof_relevant_run_tables \<Longrightarrow> revision_trigger tbl (change_operation c) \<in> set T"
    and "runs_trigger \<in> set T"
    and "''trg_runtime_events_no_update'' \<in> set T" and "''trg_runtime_events_no_delete'' \<in> set T"
  using assms change_operation_in
  by (auto simp: required_triggers_def proof_revision_trigger_names_def runtime_event_trigger_names_def)

lemma set_install:
  "set (fold (\<lambda>t present. if t \<in> set present then present else present @ [t]) ts actual) =
     set ts \<union> set actual"
  by (induction ts arbitrary: actual) auto

lemma install_presents: "set proof_revision_trigger_names \<subseteq> set (install_proof_revision_triggers T)"
  "set T \<subseteq> set (install_proof_revision_triggers T)"
  by (simp_all add: install_proof_revision_triggers_def set_install)

section \<open>The inputs of a proof\<close>

definition of_run :: "('r \<Rightarrow> ident) \<Rightarrow> ident \<Rightarrow> 'r list \<Rightarrow> 'r list" where
  "of_run run_of R rows = filter (\<lambda>r. run_of r = R) rows"

text \<open>The rows of a run in the proof relevant tables are the same in both databases.\<close>

definition same_inputs :: "ident \<Rightarrow> db \<Rightarrow> db \<Rightarrow> bool" where
  "same_inputs R d d' \<longleftrightarrow>
     of_run n_run_id R (db_nodes d') = of_run n_run_id R (db_nodes d) \<and>
     of_run sc_run_id R (db_scopes d') = of_run sc_run_id R (db_scopes d) \<and>
     of_run si_run_id R (db_intents d') = of_run si_run_id R (db_intents d) \<and>
     of_run p_run_id R (db_proposals d') = of_run p_run_id R (db_proposals d) \<and>
     of_run c_run_id R (db_commands d') = of_run c_run_id R (db_commands d) \<and>
     of_run k_run_id R (db_acks d') = of_run k_run_id R (db_acks d) \<and>
     of_run a_run_id R (db_actions d') = of_run a_run_id R (db_actions d) \<and>
     of_run m_run_id R (db_matches d') = of_run m_run_id R (db_matches d) \<and>
     of_run v_run_id R (db_violations d') = of_run v_run_id R (db_violations d) \<and>
     of_run o_run_id R (db_outbox d') = of_run o_run_id R (db_outbox d) \<and>
     of_run sv_run_id R (db_services d') = of_run sv_run_id R (db_services d)"

definition same_run_row :: "run \<Rightarrow> run \<Rightarrow> bool" where
  "same_run_row r r' \<longleftrightarrow>
     r_status r' = r_status r \<and> r_root_node_id r' = r_root_node_id r \<and>
     r_run_scope_id r' = r_run_scope_id r \<and> r_finished_at r' = r_finished_at r"

interpretation run_inputs: history "same_inputs R" for R
  by unfold_locales (auto simp: same_inputs_def)

text \<open>No statement of the services writes a revision or moves a row to another run.\<close>

fun same_run :: "('r \<Rightarrow> ident) \<Rightarrow> 'r change \<Rightarrow> bool" where
  "same_run run_of (Update_Row old new) = (run_of new = run_of old)"
| "same_run run_of _ = True"

fun run_column_kept :: "statement \<Rightarrow> bool" where
  "run_column_kept (On_Nodes c) = same_run n_run_id c"
| "run_column_kept (On_Scopes c) = same_run sc_run_id c"
| "run_column_kept (On_Intents c) = same_run si_run_id c"
| "run_column_kept (On_Proposals c) = same_run p_run_id c"
| "run_column_kept (On_Commands c) = same_run c_run_id c"
| "run_column_kept (On_Acks c) = same_run k_run_id c"
| "run_column_kept (On_Actions c) = same_run a_run_id c"
| "run_column_kept (On_Matches c) = same_run m_run_id c"
| "run_column_kept (On_Violations c) = same_run v_run_id c"
| "run_column_kept (On_Outbox c) = same_run o_run_id c"
| "run_column_kept (On_Services c) = same_run sv_run_id c"
| "run_column_kept (Update_Run k assignments) =
     (\<not> list_ex (\<lambda>a. case a of Set_Revision _ \<Rightarrow> True | _ \<Rightarrow> False) assignments)"
| "run_column_kept _ = True"

lemma apply_change_other_run:
  "same_run f c \<Longrightarrow> trigger_run f c \<noteq> R \<or> \<not> hits c rows \<Longrightarrow>
   of_run f R (apply_change c rows) = of_run f R rows"
proof (induction rows rule: apply_change.induct)
  case (2 old new rows)
  then show ?case by (induction rows) (auto simp: of_run_def)
next
  case (3 old rows)
  then show ?case by (auto simp: of_run_def intro!: filter_cong)
qed (auto simp: of_run_def)

lemma get_run_row_table [simp]:
  "get_run_row R (db_nodes_update f1 d) = get_run_row R d"
  "get_run_row R (db_scopes_update f2 d) = get_run_row R d"
  "get_run_row R (db_intents_update f3 d) = get_run_row R d"
  "get_run_row R (db_proposals_update f4 d) = get_run_row R d"
  "get_run_row R (db_commands_update f5 d) = get_run_row R d"
  "get_run_row R (db_acks_update f6 d) = get_run_row R d"
  "get_run_row R (db_actions_update f7 d) = get_run_row R d"
  "get_run_row R (db_matches_update f8 d) = get_run_row R d"
  "get_run_row R (db_violations_update f9 d) = get_run_row R d"
  "get_run_row R (db_outbox_update f10 d) = get_run_row R d"
  "get_run_row R (db_services_update f11 d) = get_run_row R d"
  "get_run_row R (db_envelopes_update f12 d) = get_run_row R d"
  "get_run_row R (db_events_update f13 d) = get_run_row R d"
  by (simp_all add: get_run_row_def)

lemma get_run_row_update:
  "(\<And>r. r_id (f r) = r_id r) \<Longrightarrow> get_run_row R (update_run k f d) =
     (if R = k then map_option f (get_run_row R d) else get_run_row R d)"
  by (simp add: get_run_row_def update_run_def lookup_revise)

lemma same_inputs_update_run [simp]:
  "same_inputs R d (update_run k f d') \<longleftrightarrow> same_inputs R d d'"
  by (simp add: same_inputs_def update_run_def)

text \<open>One statement: the revision never falls, and when it stays the inputs stay.\<close>

definition moves_revision :: "ident \<Rightarrow> db \<Rightarrow> db \<Rightarrow> bool" where
  "moves_revision R d d' \<longleftrightarrow>
     (\<forall>r. get_run_row R d = Some r \<longrightarrow>
        (\<exists>r'. get_run_row R d' = Some r' \<and> r_proof_revision r \<le> r_proof_revision r' \<and>
           (r_proof_revision r' = r_proof_revision r \<longrightarrow> same_inputs R d d' \<and> same_run_row r r')))"

interpretation revision_history: history "moves_revision R" for R
proof
  show "moves_revision R d d" for d
    by (simp add: moves_revision_def run_inputs.refl same_run_row_def)
  show "moves_revision R d1 d3" if 1: "moves_revision R d1 d2" and 2: "moves_revision R d2 d3"
    for d1 d2 d3
    unfolding moves_revision_def
  proof (intro allI impI)
    fix r assume "get_run_row R d1 = Some r"
    with 1 obtain r2 where r2: "get_run_row R d2 = Some r2" "r_proof_revision r \<le> r_proof_revision r2"
      "r_proof_revision r2 = r_proof_revision r \<longrightarrow> same_inputs R d1 d2 \<and> same_run_row r r2"
      unfolding moves_revision_def by blast
    with 2 obtain r3 where "get_run_row R d3 = Some r3" "r_proof_revision r2 \<le> r_proof_revision r3"
      "r_proof_revision r3 = r_proof_revision r2 \<longrightarrow> same_inputs R d2 d3 \<and> same_run_row r2 r3"
      unfolding moves_revision_def by blast
    with r2 show "\<exists>r'. get_run_row R d3 = Some r' \<and> r_proof_revision r \<le> r_proof_revision r' \<and>
        (r_proof_revision r' = r_proof_revision r \<longrightarrow> same_inputs R d1 d3 \<and> same_run_row r r')"
      by (auto simp: same_run_row_def intro: run_inputs.trans)
  qed
qed

lemma after_change_row:
  "get_run_row R (after_change T tbl f c rows d) =
    (if hits c rows \<and> tbl \<in> set proof_relevant_run_tables \<and>
        revision_trigger tbl (change_operation c) \<in> set T \<and> R = trigger_run f c
     then map_option (\<lambda>r. r\<lparr>r_proof_revision := r_proof_revision r + 1\<rparr>) (get_run_row R d)
     else get_run_row R d)"
  by (auto simp: after_change_def bump_revision_def get_run_row_update)

lemma same_inputs_after_change [simp]:
  "same_inputs R d (after_change T tbl f c rows d') \<longleftrightarrow> same_inputs R d d'"
  by (simp add: after_change_def bump_revision_def)

lemma relevant_change_moves:
  assumes "set required_triggers \<subseteq> set T" and "tbl \<in> set proof_relevant_run_tables"
    and "same_run f c" and "get_run_row R d' = get_run_row R d"
    and "trigger_run f c \<noteq> R \<or> \<not> hits c rows \<Longrightarrow> same_inputs R d d'"
  shows "moves_revision R d (after_change T tbl f c rows d')"
  using assms required_present(1) [OF assms(1,2), of c]
  by (auto simp: moves_revision_def after_change_row same_run_row_def)

lemma assign_run_id [simp]: "r_id (assign_run a r) = r_id r"
  by (cases a) simp_all

lemma fold_assign_id [simp]: "r_id (fold assign_run xs r) = r_id r"
  by (induction xs arbitrary: r) simp_all

lemma updated_run_id [simp]: "r_id (updated_run T xs r) = r_id r"
  by (simp add: updated_run_def Let_def)

lemma fold_assign_revision:
  "\<not> list_ex (\<lambda>a. case a of Set_Revision _ \<Rightarrow> True | _ \<Rightarrow> False) xs \<Longrightarrow>
   r_proof_revision (fold assign_run xs r) = r_proof_revision r"
proof (induction xs arbitrary: r)
  case (Cons x xs)
  then show ?case by (cases x) auto
qed simp

lemma fold_assign_unwatched:
  "\<not> list_ex watched_column xs \<Longrightarrow> same_run_row r (fold assign_run xs r)"
proof (induction xs arbitrary: r)
  case (Cons x xs)
  have 1: "same_run_row r (assign_run x r)"
    using Cons.prems by (cases x) (simp_all add: same_run_row_def)
  have 2: "same_run_row (assign_run x r) (fold assign_run xs (assign_run x r))"
    using Cons.prems by (intro Cons.IH) simp
  from 1 2 show ?case by (simp add: same_run_row_def)
qed (simp add: same_run_row_def)

lemma update_run_moves:
  assumes "set required_triggers \<subseteq> set T" and "run_column_kept (Update_Run k xs)"
  shows "moves_revision R d (update_run k (updated_run T xs) d)"
proof -
  note rev = fold_assign_revision [OF assms(2) [unfolded run_column_kept.simps]]
  have "moves_revision R d (update_run k (updated_run T xs) d)" if "R = k"
    using that fold_assign_unwatched [of xs] required_present(2) [OF assms(1)]
    by (auto simp: moves_revision_def get_run_row_update updated_run_def Let_def rev run_inputs.refl)
  moreover have "moves_revision R d (update_run k (updated_run T xs) d)" if "R \<noteq> k"
    using that by (simp add: moves_revision_def get_run_row_update run_inputs.refl same_run_row_def)
  ultimately show ?thesis by blast
qed

lemma statement_moves:
  assumes "set required_triggers \<subseteq> set T" and "run_column_kept s" and "run_statement T s d = Inr d'"
  shows "moves_revision R d d'"
proof (cases s)
  case (Insert_Run r)
  have "moves_revision R d (db_runs_update (\<lambda>rs. rs @ [r]) d)"
    by (auto simp: moves_revision_def get_run_row_def lookup_append same_inputs_def same_run_row_def)
  then show ?thesis using assms(3) Insert_Run by simp
next
  case (Update_Run k xs)
  then show ?thesis using assms update_run_moves [of T k xs R d] by simp
next
  case (On_Envelopes c)
  then show ?thesis using assms
    by (auto simp: after_change_def proof_relevant_run_tables_def moves_revision_def same_inputs_def
        same_run_row_def)
next
  case (On_Events c)
  then show ?thesis using assms
    by (auto simp: outcome moves_revision_def same_inputs_def same_run_row_def)
qed (use assms in \<open>auto simp: same_inputs_def proof_relevant_run_tables_def
       intro!: relevant_change_moves apply_change_other_run\<close>)

lemma statements_move:
  assumes "validate_required_triggers T = Inr ()" and "list_all run_column_kept stmts"
    and "run_statements T stmts d = Inr d'"
  shows "moves_revision R d d'"
  using assms unfolding run_statements_def outcome list_all_iff
  by (blast intro: revision_history.foldm_related statement_moves)

text \<open>The runtime events are append only at the level of the statements.\<close>

lemma statement_events:
  assumes "set required_triggers \<subseteq> set T" and "run_statement T s d = Inr d'"
  shows "prefix (db_events d) (db_events d')"
proof (cases s)
  case (On_Events c)
  have "apply_change c rows = rows" if "\<not> hits c rows" for rows
    using that by (cases c) (auto intro!: map_idI filter_True)
  with On_Events assms required_present(3,4) [OF assms(1)] show ?thesis
    by (cases c) (auto simp: events_guard_def outcome)
qed (use assms(2) in \<open>auto simp: after_change_def bump_revision_def update_run_def\<close>)

end
