(* ===== verification/Freshness.thy ===== *)
theory Freshness
  imports Revision
begin

text \<open>
  Why a cached proof may be served: the evidence of a proof is a function of the inputs the revision
  counts and of which leases have run out, and the cache key holds the revision and the next lease
  expiry.  Foreign keys and primary keys keep the rows a proof reads inside its run.
\<close>

section \<open>The inputs of a run as a database\<close>

definition keys_ok :: "db \<Rightarrow> bool" where
  "keys_ok d \<longleftrightarrow> fk_ok d \<and> distinct (map r_id (db_runs d)) \<and> distinct (map n_id (db_nodes d)) \<and>
     distinct (map sc_id (db_scopes d)) \<and> distinct (map c_id (db_commands d))"

definition inputs_of :: "ident \<Rightarrow> db \<Rightarrow> db" where
  "inputs_of R d =
    \<lparr>db_runs = [], db_nodes = of_run n_run_id R (db_nodes d),
     db_scopes = of_run sc_run_id R (db_scopes d), db_intents = of_run si_run_id R (db_intents d),
     db_envelopes = [], db_proposals = of_run p_run_id R (db_proposals d),
     db_commands = of_run c_run_id R (db_commands d), db_acks = of_run k_run_id R (db_acks d),
     db_actions = of_run a_run_id R (db_actions d), db_matches = of_run m_run_id R (db_matches d),
     db_violations = of_run v_run_id R (db_violations d), db_outbox = of_run o_run_id R (db_outbox d),
     db_services = of_run sv_run_id R (db_services d), db_events = []\<rparr>"

lemma same_inputs_iff: "same_inputs R d d' \<longleftrightarrow> inputs_of R d' = inputs_of R d"
  by (simp add: same_inputs_def inputs_of_def)

lemma inputs_tables [simp]:
  "db_nodes (inputs_of R d) = of_run n_run_id R (db_nodes d)"
  "db_scopes (inputs_of R d) = of_run sc_run_id R (db_scopes d)"
  "db_commands (inputs_of R d) = of_run c_run_id R (db_commands d)"
  "db_acks (inputs_of R d) = of_run k_run_id R (db_acks d)"
  "db_actions (inputs_of R d) = of_run a_run_id R (db_actions d)"
  "db_matches (inputs_of R d) = of_run m_run_id R (db_matches d)"
  "db_services (inputs_of R d) = of_run sv_run_id R (db_services d)"
  by (simp_all add: inputs_of_def)

lemma in_of_run [simp]: "x \<in> set (of_run f R rows) \<longleftrightarrow> x \<in> set rows \<and> f x = R"
  by (auto simp: of_run_def)

lemma filter_of_run: "(\<And>x. x \<in> set rows \<Longrightarrow> p x \<Longrightarrow> f x = R) \<Longrightarrow> filter p (of_run f R rows) = filter p rows"
  by (auto simp: of_run_def intro!: filter_cong)

lemma find_of_run:
  "(\<And>x. p x \<Longrightarrow> f x = R) \<Longrightarrow> List.find p (of_run f R rows) = List.find p rows"
  by (induction rows) (auto simp: of_run_def)

lemma lookup_of_run:
  assumes "distinct (map key rows)" and "\<exists>x \<in> set rows. f x = R \<and> key x = k"
  shows "lookup key k (of_run f R rows) = lookup key k rows"
proof -
  obtain x where x: "x \<in> set rows" "f x = R" "key x = k" using assms(2) by blast
  have "distinct (map key (of_run f R rows))"
    using assms(1) by (simp add: of_run_def distinct_map inj_on_def)
  then have "lookup key k (of_run f R rows) = Some x" using x by (simp add: lookup_iff)
  moreover have "lookup key k rows = Some x" using x assms(1) by (simp add: lookup_iff)
  ultimately show ?thesis by simp
qed

section \<open>The evidence reads only the inputs of its run\<close>

lemma live_scope_inputs: "live_scope (inputs_of R d) R sid = live_scope d R sid"
  unfolding live_scope_def inputs_tables by (rule find_of_run) simp

lemma scan_snapshot_inputs: "scan_snapshot (inputs_of R d) R snap acc = scan_snapshot d R snap acc"
  by (induction snap arbitrary: acc)
    (simp_all add: entry_mismatch_def live_payload_def live_scope_inputs Let_def)

lemma evaluate_scopes_inputs:
  "n_run_id n = R \<Longrightarrow> evaluate_scopes (inputs_of R d) n = evaluate_scopes d n"
  by (simp add: evaluate_scopes_def scan_snapshot_inputs)

lemma ack_run:
  assumes "keys_ok d" and "k \<in> set (db_acks d)" and "c \<in> set (db_commands d)"
    and "k_command_id k = c_id c"
  shows "k_run_id k = c_run_id c"
proof -
  have "ack_refs d k" using assms(1,2) by (auto simp: keys_ok_def fk_ok_def list_all_iff)
  then obtain b where "b \<in> set (db_commands d)" "c_run_id b = k_run_id k" "c_id b = k_command_id k"
    by (auto simp: ack_refs_def command_exists_def)
  then show ?thesis using assms by (auto simp: keys_ok_def distinct_map dest: inj_onD)
qed

lemma action_run:
  assumes "keys_ok d" and "a \<in> set (db_actions d)" and "n \<in> set (db_nodes d)"
    and "a_node_id a = n_id n"
  shows "a_run_id a = n_run_id n"
proof -
  have "action_refs d a" using assms(1,2) by (auto simp: keys_ok_def fk_ok_def list_all_iff)
  then obtain b where "b \<in> set (db_nodes d)" "n_run_id b = a_run_id a" "n_id b = a_node_id a"
    by (auto simp: action_refs_def node_exists_def)
  then show ?thesis using assms by (auto simp: keys_ok_def distinct_map dest: inj_onD)
qed

lemma collect_in:
  "set (collect rows stack visited result) \<subseteq> set rows \<union> set stack \<union> set result"
proof (induction rows stack visited result rule: collect.induct)
  case (2 rows node rest visited result)
  show ?case
  proof (cases "n_id node \<in> set visited")
    case True
    then show ?thesis using 2(1) by auto
  next
    case False
    then show ?thesis using 2(2) by (fastforce simp: children_def)
  qed
qed simp

lemma descendants_in:
  assumes "n \<in> set (descendants_including_self d R k before_time)"
  shows "n \<in> set (db_nodes d) \<and> n_run_id n = R"
proof -
  let ?rows = "filter (\<lambda>n. n_run_id n = R \<and>
      (case before_time of None \<Rightarrow> True | Some t \<Rightarrow> n_registered_at n \<le> t)) (db_nodes d)"
  have "set (descendants_including_self d R k before_time) \<subseteq> set ?rows"
  proof (cases "List.find (\<lambda>n. n_id n = k) ?rows")
    case (Some r)
    then have "descendants_including_self d R k before_time = collect ?rows [r] [] []"
      by (simp only: descendants_including_self_def Let_def option.case)
    then show ?thesis using collect_in [of ?rows "[r]" "[]" "[]"] find_SomeD [OF Some] by auto
  qed (simp only: descendants_including_self_def Let_def option.case list.set empty_subsetI)
  then show ?thesis using assms by auto
qed

lemma affected_in:
  "n \<in> set (affected_nodes d c target) \<Longrightarrow> n \<in> set (db_nodes d) \<and> n_run_id n = c_run_id c"
  using descendants_in by (auto simp: affected_nodes_def split: if_splits)

lemma descendants_inputs:
  "descendants_including_self (inputs_of R d) R k t = descendants_including_self d R k t"
proof -
  have "filter (\<lambda>n. n_run_id n = R \<and> p n) (of_run n_run_id R (db_nodes d)) =
      filter (\<lambda>n. n_run_id n = R \<and> p n) (db_nodes d)" for p
    by (rule filter_of_run) simp
  then show ?thesis by (simp add: descendants_including_self_def)
qed

lemma affected_inputs:
  "c_run_id c = R \<Longrightarrow> affected_nodes (inputs_of R d) c target = affected_nodes d c target"
  by (auto simp: affected_nodes_def descendants_inputs intro!: filter_of_run)

lemma acked_before_inputs: "acked_before (inputs_of (c_run_id c) d) c n = acked_before d c n"
  by (auto simp: acked_before_def)

lemma stale_denial_inputs: "stale_denial (inputs_of (c_run_id c) d) c a = stale_denial d c a"
  by (auto simp: stale_denial_def matched_action_def)

lemma classify_inputs:
  assumes "keys_ok d" and "c \<in> set (db_commands d)"
  shows "classify (inputs_of (c_run_id c) d) c actions now n = classify d c actions now n"
proof -
  have "acked_as (inputs_of (c_run_id c) d) c n ty = acked_as d c n ty" for ty
    using ack_run [OF assms(1) _ assms(2)] by (auto simp: acked_as_def)
  then show ?thesis by (simp only: classify_def acked_before_inputs stale_denial_inputs)
qed

lemma later_actions_inputs:
  assumes "keys_ok d" and "set affected \<subseteq> set (of_run n_run_id R (db_nodes d))"
  shows "later_actions (inputs_of R d) c affected = later_actions d c affected"
  unfolding later_actions_def inputs_tables
proof (rule filter_of_run)
  fix a assume "a \<in> set (db_actions d)" "a_node_id a \<in> n_id ` set affected \<and> c_created_at c \<le> a_attempted_at a"
  then show "a_run_id a = R" using assms action_run by fastforce
qed

lemma unrelated_inputs:
  "unrelated_interrupted (inputs_of (c_run_id c) d) c ns = unrelated_interrupted d c ns"
  by (auto simp: unrelated_interrupted_def of_run_def evaluate_scopes_inputs
      intro!: arg_cong [where f = length] filter_cong)

lemma evidence_inputs:
  assumes "keys_ok d" and "c \<in> set (db_commands d)"
  shows "collect_evidence (inputs_of (c_run_id c) d) now c target = collect_evidence d now c target"
proof -
  let ?d = "inputs_of (c_run_id c) d"
  have affected: "set (affected_nodes d c target) \<subseteq> set (of_run n_run_id (c_run_id c) (db_nodes d))"
    using affected_in by auto
  have valid: "filter (\<lambda>n. se_allowed (evaluate_scopes ?d n)) (filter p (affected_nodes d c target)) =
      filter (\<lambda>n. se_allowed (evaluate_scopes d n)) (filter p (affected_nodes d c target))" for p
    using affected by (intro filter_cong) (auto simp: evaluate_scopes_inputs)
  have classes: "classify ?d c actions now = classify d c actions now" for actions
    using classify_inputs [OF assms] by blast
  show ?thesis
    unfolding collect_evidence_def Let_def
    by (simp only: affected_inputs later_actions_inputs [OF assms(1) affected] classes valid
        unrelated_inputs stale_attempt_count_def stale_denial_inputs)
qed

lemma postconditions_inputs:
  "verify_postconditions (db_services (inputs_of R d)) R aid contract t =
   verify_postconditions (db_services d) R aid contract t"
proof -
  have "lookup service_key (R, name) (of_run sv_run_id R rows) = lookup service_key (R, name) rows"
    for name and rows :: "service_state list"
    by (induction rows) (auto simp: of_run_def service_key_def)
  then have "get_service R name (db_services (inputs_of R d)) = get_service R name (db_services d)" for name
    by (simp add: get_service_def)
  then have "check_postcondition (db_services (inputs_of R d)) R aid w t =
      check_postcondition (db_services d) R aid w t" for w
    by (intro ext) (simp only: check_postcondition_def)
  then show ?thesis by (simp only: verify_postconditions_def)
qed

lemma recovery_actions_inputs:
  "recovery_actions (inputs_of (c_run_id c) d) c nodes contract tool =
   recovery_actions d c nodes contract tool"
  unfolding recovery_actions_def inputs_tables
  by (rule arg_cong [where f = "sort_key _"], rule filter_of_run) simp

lemma registered_inputs:
  "registered_verdicts E (inputs_of (c_run_id c) d) now c target manifest status n =
   registered_verdicts E d now c target manifest status n"
  by (simp only: registered_verdicts_def recovery_verdicts_def postconditions_inputs
      descendants_inputs recovery_actions_inputs)

lemma replacement_inputs:
  assumes "keys_ok d" and "c \<in> set (db_commands d)"
  shows "replacement_verdicts_of E (inputs_of (c_run_id c) d) now c target =
    replacement_verdicts_of E d now c target"
proof -
  have row: "get_node_row k (inputs_of (c_run_id c) d) = get_node_row k d"
    if "c_replacement_node_id c = Some k" for k
  proof -
    have "command_refs d c" using assms by (auto simp: keys_ok_def fk_ok_def list_all_iff)
    then have "\<exists>n \<in> set (db_nodes d). n_run_id n = c_run_id c \<and> n_id n = k"
      using that by (auto simp: command_refs_def node_exists_def opt_ok_def)
    then show ?thesis using assms by (simp add: get_node_row_def keys_ok_def lookup_of_run)
  qed
  show ?thesis
    by (simp add: replacement_verdicts_of_def manifest_verdicts_def registered_inputs row
        split: option.split)
qed

section \<open>Time enters only through the leases and the stability window\<close>

lemma nearest_spec:
  assumes "n \<in> set (db_nodes d)" "n_run_id n = R" "n_lease_expires_at n = Some t" "s < t"
  shows "\<exists>m. nearest_lease_expiry s R d = Some m \<and> s < m \<and> m \<le> t"
proof -
  let ?xs = "List.map_filter (\<lambda>n. if n_run_id n = R then (case n_lease_expires_at n of None \<Rightarrow> None
        | Some t \<Rightarrow> if s < t then Some t else None) else None) (db_nodes d)"
  have late: "s < x" if "x \<in> set ?xs" for x
    using that by (auto simp: in_map_filter split: option.splits if_splits)
  have t: "t \<in> set ?xs" using assms by (auto simp: in_map_filter intro!: bexI [of _ n])
  then obtain y ys where ys: "?xs = y # ys" by (cases ?xs) auto
  define m where "m = Min (set (y # ys))"
  have "nearest_lease_expiry s R d = Some m"
    unfolding nearest_lease_expiry_def ys m_def Min.set_eq_fold by simp
  moreover have "m \<in> set ?xs" unfolding ys m_def by (rule Min_in) simp_all
  moreover have "m \<le> t" using t unfolding ys m_def by (intro Min_le) simp_all
  ultimately show ?thesis using late by blast
qed

lemma nearest_later:
  assumes "nearest_lease_expiry s R d = Some m"
  shows "s < m"
proof -
  have "fold min ts t \<in> set (t # ts)" for t and ts :: "time list"
    using Min_in [of "set (t # ts)"] by (simp only: Min.set_eq_fold) simp
  then have "m \<in> set (List.map_filter (\<lambda>n. if n_run_id n = R then (case n_lease_expires_at n of
      None \<Rightarrow> None | Some t \<Rightarrow> if s < t then Some t else None) else None) (db_nodes d))"
    using assms by (auto simp: nearest_lease_expiry_def split: list.splits)
  then show ?thesis by (auto simp: in_map_filter split: option.splits if_splits)
qed

lemma nearest_lease_classifies:
  assumes nearest: "nearest_lease_expiry now R d = nearest_lease_expiry now' R d"
    and n: "n \<in> set (db_nodes d)" "n_run_id n = R"
  shows "lease_over now n = lease_over now' n"
proof -
  have over: "t \<le> s" if eq: "nearest_lease_expiry s R d = nearest_lease_expiry s' R d"
    and t: "n_lease_expires_at n = Some t" "t \<le> s'" for s s' t
    using nearest_spec [OF n t(1), of s] nearest_later [of s' R d] eq t(2) by force
  show ?thesis
    using over [OF nearest] over [OF nearest [symmetric]]
    by (auto simp: lease_over_def split: option.split)
qed

lemma evidence_leases:
  assumes "\<And>n. n \<in> set (db_nodes d) \<Longrightarrow> n_run_id n = c_run_id c \<Longrightarrow> lease_over now n = lease_over now' n"
  shows "collect_evidence d now c target = collect_evidence d now' c target"
proof -
  have eq: "classify d c actions now n = classify d c actions now' n"
    if "n \<in> set (affected_nodes d c target)" for n actions
    using assms affected_in [OF that] by (simp only: classify_def)
  have "map (classify d c actions now) (affected_nodes d c target) =
      map (classify d c actions now') (affected_nodes d c target)"
    "filter (\<lambda>n. classify d c actions now n = Unclassified) (affected_nodes d c target) =
     filter (\<lambda>n. classify d c actions now' n = Unclassified) (affected_nodes d c target)" for actions
    using eq by (auto intro: filter_cong)
  then show ?thesis by (simp only: collect_evidence_def Let_def)
qed

lemma nearest_inputs:
  assumes "same_inputs R d d'"
  shows "nearest_lease_expiry now R d' = nearest_lease_expiry now R d"
proof -
  have "List.map_filter (\<lambda>n. if n_run_id n = R then f n else None) rows =
      List.map_filter f (of_run n_run_id R rows)" for f :: "node \<Rightarrow> time option" and rows
    by (induction rows) (simp_all add: of_run_def List.map_filter_simps split: option.split)
  with assms show ?thesis by (simp add: nearest_lease_expiry_def same_inputs_def)
qed

text \<open>Two databases with the same inputs, at times with the same next lease expiry.\<close>

lemma same_key_same_evidence:
  assumes "keys_ok d" "keys_ok d'" "c \<in> set (db_commands d)" "c \<in> set (db_commands d')"
    and same: "same_inputs (c_run_id c) d d'"
    and nearest: "nearest_lease_expiry now (c_run_id c) d = nearest_lease_expiry now' (c_run_id c) d'"
  shows "collect_evidence d' now' c target = collect_evidence d now c target"
    and "replacement_verdicts_of E d' at_time c target = replacement_verdicts_of E d at_time c target"
proof -
  have "collect_evidence d' now' c target = collect_evidence d now' c target"
    using evidence_inputs [OF assms(1,3), of now' target] evidence_inputs [OF assms(2,4), of now' target]
      same by (simp add: same_inputs_iff)
  also have "\<dots> = collect_evidence d now c target"
    using nearest_lease_classifies nearest nearest_inputs [OF same] by (intro evidence_leases) metis
  finally show "collect_evidence d' now' c target = collect_evidence d now c target" .
  show "replacement_verdicts_of E d' at_time c target = replacement_verdicts_of E d at_time c target"
    using replacement_inputs [OF assms(1,3), of E at_time target]
      replacement_inputs [OF assms(2,4), of E at_time target] same
    by (simp add: same_inputs_iff)
qed

text \<open>The time bounds the stability window only: the other verdicts on a recovery ignore it.\<close>

lemma postconditions_time:
  "pe_inconsistent (verify_postconditions rows R aid ct t) =
     pe_inconsistent (verify_postconditions rows R aid ct t')"
  "pe_incomplete (verify_postconditions rows R aid ct t) =
     pe_incomplete (verify_postconditions rows R aid ct t')"
proof -
  have "pe_inconsistent (fold (check_postcondition rows R aid w t) ps acc) =
      pe_inconsistent (fold (check_postcondition rows R aid w t') ps acc') \<and>
      pe_incomplete (fold (check_postcondition rows R aid w t) ps acc) =
      pe_incomplete (fold (check_postcondition rows R aid w t') ps acc')"
    if "pe_inconsistent acc = pe_inconsistent acc'" "pe_incomplete acc = pe_incomplete acc'"
    for w ps acc acc'
    using that
  proof (induction ps arbitrary: acc acc')
    case (Cons p ps)
    show ?case
      unfolding fold_simps comp_apply
      by (rule Cons.IH) (use Cons.prems in \<open>auto simp: check_postcondition_def Let_def split: option.split\<close>)
  qed simp
  then show "pe_inconsistent (verify_postconditions rows R aid ct t) =
      pe_inconsistent (verify_postconditions rows R aid ct t')"
    "pe_incomplete (verify_postconditions rows R aid ct t) =
      pe_incomplete (verify_postconditions rows R aid ct t')"
    by (simp_all add: verify_postconditions_def)
qed

definition same_but_stability :: "replacement_verdicts \<Rightarrow> replacement_verdicts \<Rightarrow> bool" where
  "same_but_stability a b \<longleftrightarrow>
     rv_lineage a = rv_lineage b \<and> rv_action a = rv_action b \<and> rv_postcondition a = rv_postcondition b"

lemma replacement_time:
  "same_but_stability (replacement_verdicts_of E d t c target) (replacement_verdicts_of E d t' c target)"
proof -
  have "same_but_stability (postcondition_verdicts (verify_postconditions rows R aid ct s))
      (postcondition_verdicts (verify_postconditions rows R aid ct s'))" for rows R aid ct s s'
    using postconditions_time [of rows R aid ct s s']
    by (simp add: same_but_stability_def postcondition_verdicts_def Let_def)
  then have "same_but_stability (recovery_verdicts E d t c n ct tool acts)
      (recovery_verdicts E d t' c n ct tool acts)" for n ct tool acts
    by (simp add: recovery_verdicts_def Let_def) (simp add: same_but_stability_def)
  then have "same_but_stability (registered_verdicts E d t c target m st n)
      (registered_verdicts E d t' c target m st n)" for m st n
    by (simp add: registered_verdicts_def Let_def split: option.split) (simp add: same_but_stability_def)
  then have "same_but_stability (manifest_verdicts E d t c target m) (manifest_verdicts E d t' c target m)"
    for m
    by (simp add: manifest_verdicts_def split: option.split) (simp add: same_but_stability_def)
  then show ?thesis
    by (simp add: replacement_verdicts_of_def split: option.split) (simp add: same_but_stability_def)
qed

lemma replacement_other:
  "c_command_type c \<noteq> Correct_Subtree \<Longrightarrow>
   replacement_verdicts_of E d t c target = replacement_verdicts_of E d t' c target"
  by (simp add: replacement_verdicts_of_def)

end
