(* ===== verification/Schema_Shape.thy ===== *)
theory Schema_Shape
  imports Encoding
begin

text \<open>
  The declared schema of \<open>db/models.py\<close> as the inspector sees it: for each table its columns, its
  primary key, its foreign keys (local columns, referred table, referred columns), its unique
  constraints, the names of its checks and its indexes (unique or not, columns).  A foreign key or
  unique constraint declared on a column counts like one declared on the table.
\<close>

record table_shape =
  tb_columns :: "string list"
  tb_primary_key :: "string list"
  tb_foreign_keys :: "(string list \<times> string \<times> string list) list"
  tb_uniques :: "string list list"
  tb_checks :: "string list"
  tb_indexes :: "(bool \<times> string list) list"

section \<open>The tables\<close>

definition schema_metadata_shape :: table_shape where
  "schema_metadata_shape =
    \<lparr>tb_columns = [''id'', ''version'', ''updated_at''],
     tb_primary_key = [''id''],
     tb_foreign_keys = [],
     tb_uniques = [],
     tb_checks = [],
     tb_indexes = []\<rparr>"

definition runs_shape :: table_shape where
  "runs_shape =
    \<lparr>tb_columns = [''id'', ''name'', ''status'', ''root_node_id'', ''run_scope_id'',
      ''created_at'', ''finished_at'', ''proof_revision''],
     tb_primary_key = [''id''],
     tb_foreign_keys = [([''id'', ''root_node_id''], ''nodes'', [''run_id'', ''id'']),
      ([''id'', ''run_scope_id''], ''control_scopes'', [''run_id'', ''id''])],
     tb_uniques = [],
     tb_checks = [''ck_run_status'', ''ck_run_root_required'', ''ck_run_finished_shape''],
     tb_indexes = []\<rparr>"

definition nodes_shape :: table_shape where
  "nodes_shape =
    \<lparr>tb_columns = [''id'', ''run_id'', ''parent_id'', ''supersedes_node_id'',
      ''caused_by_command_id'', ''role'', ''behavior'', ''generation'', ''lineage_path'',
      ''status'', ''own_scope_id'', ''scope_snapshot_json'', ''instruction_version'',
      ''instruction_json'', ''capabilities_json'', ''token_hash'', ''registered_at'',
      ''activated_at'', ''completed_at'', ''last_heartbeat_at'', ''lease_expires_at'',
      ''process_id''],
     tb_primary_key = [''id''],
     tb_foreign_keys = [([''run_id'', ''parent_id''], ''nodes'', [''run_id'', ''id'']),
      ([''run_id'', ''supersedes_node_id''], ''nodes'', [''run_id'', ''id'']),
      ([''run_id'', ''caused_by_command_id''], ''control_commands'', [''run_id'', ''id'']),
      ([''run_id'', ''own_scope_id'', ''id''], ''control_scopes'', [''run_id'', ''id'', ''owner_node_id'']),
      ([''run_id''], ''runs'', [''id''])],
     tb_uniques = [[''run_id'', ''id'']],
     tb_checks = [''ck_node_status'', ''ck_node_behavior'', ''ck_node_generation_nonnegative'',
      ''ck_node_instruction_version_positive'', ''ck_node_generation_parent_shape'',
      ''ck_node_activation_shape'', ''ck_node_completion_shape''],
     tb_indexes = [(False, [''run_id'']), (False, [''parent_id'']),
      (False, [''caused_by_command_id'']), (False, [''lineage_path'']),
      (False, [''lease_expires_at'']), (False, [''status''])]\<rparr>"

definition control_scopes_shape :: table_shape where
  "control_scopes_shape =
    \<lparr>tb_columns = [''id'', ''run_id'', ''owner_node_id'', ''version'', ''status'',
      ''updated_by_node_id'', ''reason_code'', ''updated_at''],
     tb_primary_key = [''id''],
     tb_foreign_keys = [([''run_id'', ''owner_node_id''], ''nodes'', [''run_id'', ''id'']),
      ([''run_id'', ''updated_by_node_id''], ''nodes'', [''run_id'', ''id'']),
      ([''run_id''], ''runs'', [''id''])],
     tb_uniques = [[''run_id'', ''id''], [''run_id'', ''id'', ''owner_node_id'']],
     tb_checks = [''ck_scope_version_positive'', ''ck_scope_status''],
     tb_indexes = [(False, [''run_id''])]\<rparr>"

definition spawn_intents_shape :: table_shape where
  "spawn_intents_shape =
    \<lparr>tb_columns = [''id'', ''run_id'', ''parent_node_id'', ''child_node_id'',
      ''activation_token_hash'', ''requested_role'', ''instruction_json'',
      ''requested_capabilities_json'', ''trace_context_json'', ''expires_at'', ''consumed_at''],
     tb_primary_key = [''id''],
     tb_foreign_keys = [([''run_id'', ''parent_node_id''], ''nodes'', [''run_id'', ''id'']),
      ([''run_id'', ''child_node_id''], ''nodes'', [''run_id'', ''id'']),
      ([''run_id''], ''runs'', [''id''])],
     tb_uniques = [[''child_node_id'']],
     tb_checks = [],
     tb_indexes = []\<rparr>"

definition credential_recovery_envelopes_shape :: table_shape where
  "credential_recovery_envelopes_shape =
    \<lparr>tb_columns = [''id'', ''run_id'', ''operation_type'', ''caller_node_id'',
      ''subject_node_id'', ''operation_key'', ''request_payload_digest'', ''nonce'',
      ''ciphertext'', ''expires_at'', ''created_at'', ''updated_at''],
     tb_primary_key = [''id''],
     tb_foreign_keys = [([''run_id'', ''caller_node_id''], ''nodes'', [''run_id'', ''id'']),
      ([''run_id'', ''subject_node_id''], ''nodes'', [''run_id'', ''id'']),
      ([''run_id''], ''runs'', [''id''])],
     tb_uniques = [[''operation_type'', ''caller_node_id'', ''operation_key'']],
     tb_checks = [''ck_credential_recovery_operation_type''],
     tb_indexes = []\<rparr>"

definition correction_proposals_shape :: table_shape where
  "correction_proposals_shape =
    \<lparr>tb_columns = [''id'', ''run_id'', ''reporter_node_id'', ''target_node_id'',
      ''proposal_type'', ''evidence_json'', ''reason'', ''status'', ''reviewed_by_node_id'',
      ''reviewed_by_principal'', ''accepted_payload_digest'', ''authorized_command_json'',
      ''authorized_command_digest'', ''resulting_command_id'', ''reviewed_at'', ''created_at''],
     tb_primary_key = [''id''],
     tb_foreign_keys = [([''run_id'', ''reporter_node_id''], ''nodes'', [''run_id'', ''id'']),
      ([''run_id'', ''target_node_id''], ''nodes'', [''run_id'', ''id'']),
      ([''run_id'', ''reviewed_by_node_id''], ''nodes'', [''run_id'', ''id'']),
      ([''run_id'', ''resulting_command_id''], ''control_commands'', [''run_id'', ''id'']),
      ([''run_id''], ''runs'', [''id''])],
     tb_uniques = [[''run_id'', ''id''], [''resulting_command_id'']],
     tb_checks = [''ck_proposal_type'', ''ck_proposal_status'', ''ck_proposal_review_shape''],
     tb_indexes = []\<rparr>"

definition control_commands_shape :: table_shape where
  "control_commands_shape =
    \<lparr>tb_columns = [''id'', ''idempotency_key'', ''issuer_fingerprint'',
      ''request_payload_digest'', ''run_id'', ''issuer_node_id'', ''issuer_type'',
      ''command_type'', ''source_proposal_id'', ''target_node_id'', ''target_scope_id'',
      ''from_version'', ''to_version'', ''reason_code'', ''reason_text'',
      ''replacement_parent_id'', ''replacement_instruction_json'', ''replacement_expected_tool'',
      ''replacement_manifest_json'', ''replacement_manifest_digest'', ''replacement_node_id'',
      ''replacement_status'', ''created_at''],
     tb_primary_key = [''id''],
     tb_foreign_keys = [([''run_id'', ''issuer_node_id''], ''nodes'', [''run_id'', ''id'']),
      ([''run_id'', ''target_node_id''], ''nodes'', [''run_id'', ''id'']),
      ([''run_id'', ''target_scope_id''], ''control_scopes'', [''run_id'', ''id'']),
      ([''run_id'', ''replacement_parent_id''], ''nodes'', [''run_id'', ''id'']),
      ([''run_id'', ''replacement_node_id''], ''nodes'', [''run_id'', ''id'']),
      ([''run_id'', ''source_proposal_id''], ''correction_proposals'', [''run_id'', ''id'']),
      ([''run_id''], ''runs'', [''id''])],
     tb_uniques = [[''run_id'', ''issuer_fingerprint'', ''idempotency_key''],
      [''source_proposal_id''], [''run_id'', ''id''],
      [''run_id'', ''id'', ''target_scope_id'', ''to_version''],
      [''run_id'', ''id'', ''to_version''], [''replacement_node_id'']],
     tb_checks = [''ck_command_issuer_type'', ''ck_command_type'', ''ck_command_version_step'',
      ''ck_command_issuer_shape'', ''ck_command_replacement_shape'',
      ''ck_command_replacement_status''],
     tb_indexes = []\<rparr>"

definition command_acknowledgements_shape :: table_shape where
  "command_acknowledgements_shape =
    \<lparr>tb_columns = [''id'', ''run_id'', ''command_id'', ''node_id'', ''ack_type'',
      ''observed_at'', ''observed_scope_version''],
     tb_primary_key = [''id''],
     tb_foreign_keys = [
      ([''run_id'', ''command_id''], ''control_commands'', [''run_id'', ''id'']),
      ([''run_id'', ''node_id''], ''nodes'', [''run_id'', ''id'']),
      ([''run_id'', ''command_id'', ''observed_scope_version''], ''control_commands'', [''run_id'', ''id'', ''to_version'']),
      ([''run_id''], ''runs'', [''id''])],
     tb_uniques = [[''run_id'', ''command_id'', ''node_id'', ''ack_type'']],
     tb_checks = [''ck_command_ack_type'', ''ck_ack_version_positive''],
     tb_indexes = []\<rparr>"

definition action_attempts_shape :: table_shape where
  "action_attempts_shape =
    \<lparr>tb_columns = [''id'', ''run_id'', ''node_id'', ''tool_name'', ''side_effecting'',
      ''idempotency_key'', ''decision'', ''denial_reason'', ''matched_command_id'',
      ''matched_scope_id'', ''matched_snapshot_version'', ''matched_live_version'',
      ''matched_live_status'', ''scope_evaluation_json'', ''decision_explanation_json'',
      ''request_payload_digest'', ''arguments_json'', ''arguments_digest'', ''result_json'',
      ''result_digest'', ''attempted_at'', ''committed_at''],
     tb_primary_key = [''id''],
     tb_foreign_keys = [([''run_id'', ''node_id''], ''nodes'', [''run_id'', ''id'']),
      ([''run_id'', ''matched_scope_id''], ''control_scopes'', [''run_id'', ''id'']),
      ([''run_id'', ''matched_command_id''], ''control_commands'', [''run_id'', ''id'']),
      ([''run_id'', ''matched_command_id'', ''matched_scope_id'', ''matched_live_version''], ''control_commands'', [''run_id'', ''id'', ''target_scope_id'', ''to_version'']),
      ([''run_id''], ''runs'', [''id''])],
     tb_uniques = [[''node_id'', ''idempotency_key''], [''run_id'', ''id'']],
     tb_checks = [''ck_action_decision'', ''ck_action_result_shape'', ''ck_action_match_shape''],
     tb_indexes = [(False, [''run_id'']), (False, [''node_id'']),
      (False, [''matched_command_id''])]\<rparr>"

definition action_command_matches_shape :: table_shape where
  "action_command_matches_shape =
    \<lparr>tb_columns = [''run_id'', ''action_id'', ''command_id'', ''scope_id'',
      ''snapshot_version'', ''live_version'', ''live_status''],
     tb_primary_key = [''action_id'', ''command_id''],
     tb_foreign_keys = [([''run_id'', ''action_id''], ''action_attempts'', [''run_id'', ''id'']),
      ([''run_id'', ''command_id''], ''control_commands'', [''run_id'', ''id'']),
      ([''run_id'', ''command_id'', ''scope_id'', ''live_version''], ''control_commands'', [''run_id'', ''id'', ''target_scope_id'', ''to_version'']),
      ([''run_id'', ''scope_id''], ''control_scopes'', [''run_id'', ''id'']),
      ([''run_id''], ''runs'', [''id''])],
     tb_uniques = [],
     tb_checks = [''ck_action_match_snapshot_version'', ''ck_action_match_live_version'',
      ''ck_action_match_live_status''],
     tb_indexes = [(False, [''command_id''])]\<rparr>"

definition invariant_violations_shape :: table_shape where
  "invariant_violations_shape =
    \<lparr>tb_columns = [''id'', ''run_id'', ''command_id'', ''action_id'', ''violation_type'',
      ''details_json'', ''detected_at''],
     tb_primary_key = [''id''],
     tb_foreign_keys = [
      ([''run_id'', ''command_id''], ''control_commands'', [''run_id'', ''id'']),
      ([''run_id'', ''action_id''], ''action_attempts'', [''run_id'', ''id'']),
      ([''run_id''], ''runs'', [''id''])],
     tb_uniques = [[''run_id'', ''command_id'', ''action_id'', ''violation_type'']],
     tb_checks = [''ck_invariant_violation_type''],
     tb_indexes = [(False, [''run_id'']), (False, [''command_id''])]\<rparr>"

definition telemetry_outbox_shape :: table_shape where
  "telemetry_outbox_shape =
    \<lparr>tb_columns = [''id'', ''event_key'', ''run_id'', ''event_type'', ''payload_json'',
      ''created_at'', ''delivered_at'', ''attempts'', ''last_error'', ''last_attempt_at'',
      ''next_attempt_at'', ''claim_owner'', ''claim_expires_at''],
     tb_primary_key = [''id''],
     tb_foreign_keys = [([''run_id''], ''runs'', [''id''])],
     tb_uniques = [[''event_key'']],
     tb_checks = [''ck_outbox_attempts_nonnegative'', ''ck_outbox_event_type'',
      ''ck_outbox_delivery_shape'', ''ck_outbox_claim_shape''],
     tb_indexes = [(False, [''delivered_at'', ''created_at'']),
      (False, [''delivered_at'', ''next_attempt_at'', ''claim_expires_at''])]\<rparr>"

definition service_state_shape :: table_shape where
  "service_state_shape =
    \<lparr>tb_columns = [''run_id'', ''service_name'', ''status'', ''restart_count'',
      ''pool_reset_count'', ''last_action_id'', ''updated_at''],
     tb_primary_key = [''run_id'', ''service_name''],
     tb_foreign_keys = [
      ([''run_id'', ''last_action_id''], ''action_attempts'', [''run_id'', ''id'']),
      ([''run_id''], ''runs'', [''id''])],
     tb_uniques = [],
     tb_checks = [''ck_restart_count_nonnegative'', ''ck_pool_reset_count_nonnegative'',
      ''ck_service_state_status''],
     tb_indexes = []\<rparr>"

definition runtime_events_shape :: table_shape where
  "runtime_events_shape =
    \<lparr>tb_columns = [''sequence'', ''run_id'', ''event_type'', ''occurred_at'', ''node_id'',
      ''parent_node_id'', ''command_id'', ''action_id'', ''scope_id'', ''decision'',
      ''reason_code'', ''snapshot_version'', ''authoritative_version'', ''metadata_json''],
     tb_primary_key = [''sequence''],
     tb_foreign_keys = [([''run_id'', ''node_id''], ''nodes'', [''run_id'', ''id'']),
      ([''run_id'', ''parent_node_id''], ''nodes'', [''run_id'', ''id'']),
      ([''run_id'', ''command_id''], ''control_commands'', [''run_id'', ''id'']),
      ([''run_id'', ''action_id''], ''action_attempts'', [''run_id'', ''id'']),
      ([''run_id'', ''scope_id''], ''control_scopes'', [''run_id'', ''id'']),
      ([''run_id''], ''runs'', [''id''])],
     tb_uniques = [],
     tb_checks = [''ck_runtime_event_type'', ''ck_runtime_event_decision'',
      ''ck_runtime_event_snapshot_version'', ''ck_runtime_event_authoritative_version''],
     tb_indexes = [(False, [''run_id'', ''sequence'']), (False, [''action_id''])]\<rparr>"


definition expected_tables :: "(string \<times> table_shape) list" where
  "expected_tables =
    [(''schema_metadata'', schema_metadata_shape), (''runs'', runs_shape),
     (''nodes'', nodes_shape), (''control_scopes'', control_scopes_shape),
     (''spawn_intents'', spawn_intents_shape),
     (''credential_recovery_envelopes'', credential_recovery_envelopes_shape),
     (''correction_proposals'', correction_proposals_shape),
     (''control_commands'', control_commands_shape),
     (''command_acknowledgements'', command_acknowledgements_shape),
     (''action_attempts'', action_attempts_shape),
     (''action_command_matches'', action_command_matches_shape),
     (''invariant_violations'', invariant_violations_shape),
     (''telemetry_outbox'', telemetry_outbox_shape), (''service_state'', service_state_shape),
     (''runtime_events'', runtime_events_shape)]"

lemmas shape_defs = schema_metadata_shape_def runs_shape_def nodes_shape_def control_scopes_shape_def
  spawn_intents_shape_def credential_recovery_envelopes_shape_def correction_proposals_shape_def
  control_commands_shape_def command_acknowledgements_shape_def action_attempts_shape_def
  action_command_matches_shape_def invariant_violations_shape_def telemetry_outbox_shape_def
  service_state_shape_def runtime_events_shape_def

section \<open>Well-formedness\<close>

text \<open>
  A declared schema SQLite can enforce: keys and constraints name columns of the table, and every
  foreign key refers to the primary key or to a unique constraint of an existing table (any other
  parent key is a "foreign key mismatch" at run time).
\<close>

definition parent_key_ok :: "(string \<times> table_shape) list \<Rightarrow> string list \<times> string \<times> string list \<Rightarrow> bool" where
  "parent_key_ok tables fk =
    (case fk of (cols, parent, refs) \<Rightarrow>
      (case map_of tables parent of
         None \<Rightarrow> False
       | Some p \<Rightarrow> length cols = length refs \<and> (refs = tb_primary_key p \<or> refs \<in> set (tb_uniques p))))"

definition shape_ok :: "(string \<times> table_shape) list \<Rightarrow> table_shape \<Rightarrow> bool" where
  "shape_ok tables s =
    (distinct (tb_columns s) \<and> tb_primary_key s \<noteq> [] \<and>
     set (tb_primary_key s) \<subseteq> set (tb_columns s) \<and>
     list_all (\<lambda>(cols, _, _). set cols \<subseteq> set (tb_columns s)) (tb_foreign_keys s) \<and>
     list_all (parent_key_ok tables) (tb_foreign_keys s) \<and>
     list_all (\<lambda>cols. set cols \<subseteq> set (tb_columns s)) (tb_uniques s) \<and>
     list_all (\<lambda>(_, cols). set cols \<subseteq> set (tb_columns s)) (tb_indexes s))"

lemma expected_distinct: "distinct (map fst expected_tables)"
  by code_simp

lemma expected_shapes_ok: "list_all (shape_ok expected_tables) (map snd expected_tables)"
  by code_simp

end
