(* ===== verification/Bootstrap.thy ===== *)
theory Bootstrap
  imports Schema_Shape Revision
begin

text \<open>
  \<open>db/engine.py\<close>, the start-up half: which database URLs are accepted, and the schema guard
  \<open>init_db\<close>.  A database file is its tables with their shapes, its triggers, the version row of
  \<open>schema_metadata\<close> and the rows of \<open>alembic_version\<close>.  Parsing and rendering a URL is SQLAlchemy's
  and a parameter.  What the file system or SQLite may raise at a stage is the argument \<open>faults\<close>; a
  failing \<open>create_all\<close> has created the first \<open>n\<close> tables.  An error carries the data its message is
  rendered from.
\<close>

section \<open>URLs\<close>

record db_url =
  url_driver :: string
  url_rest :: string

definition backend_name :: "db_url \<Rightarrow> string" where
  "backend_name u = takeWhile (\<lambda>c. c \<noteq> CHR ''+'') (url_driver u)"

datatype url_error = Unsupported_Dialect | Unsupported_Driver

definition normalize_url :: "(string \<Rightarrow> db_url) \<Rightarrow> (db_url \<Rightarrow> string) \<Rightarrow> string \<Rightarrow> url_error + string" where
  "normalize_url parse render database_url =
    (let parsed = parse database_url in
     andthen (require (backend_name parsed = ''sqlite'') Unsupported_Dialect) (\<lambda>_.
     let parsed = (if url_driver parsed = ''sqlite+aiosqlite''
                   then parsed\<lparr>url_driver := ''sqlite+pysqlite''\<rparr> else parsed) in
     andthen (require (url_driver parsed \<in> {''sqlite'', ''sqlite+pysqlite''}) Unsupported_Driver) (\<lambda>_.
     Inr (render parsed))))"

text \<open>Every connection of the engine runs these first.\<close>

definition sqlite_pragmas :: "(string \<times> string) list" where
  "sqlite_pragmas =
    [(''journal_mode'', ''WAL''), (''foreign_keys'', ''ON''), (''busy_timeout'', ''5000''),
     (''synchronous'', ''FULL'')]"

section \<open>The database file\<close>

record database =
  dbf_tables :: "(string \<times> table_shape) list"
  dbf_triggers :: "string list"
  dbf_version :: "int option"
  dbf_alembic :: "string list"

definition empty_file :: database where
  "empty_file = \<lparr>dbf_tables = [], dbf_triggers = [], dbf_version = None, dbf_alembic = []\<rparr>"

definition schema_version :: int where "schema_version = 18"

definition alembic_head :: string where "alembic_head = ''002_schema_v18_runtime_inspector''"

definition alembic_shape :: table_shape where
  "alembic_shape = \<lparr>tb_columns = [''version_num''], tb_primary_key = [''version_num''],
     tb_foreign_keys = [], tb_uniques = [], tb_checks = [], tb_indexes = []\<rparr>"

datatype bootstrap_error =
    Dialect_Unsupported
  | Predates_Schema
  | Version_Found "int option"
  | Tables_Missing "string list"
  | Columns_Missing "(string \<times> string list) list"
  | Constraints_Missing "(string \<times> string) list"
  | Alembic_Found "string list"
  | Triggers_Missing string
  | Raised string

section \<open>The shape of an existing database\<close>

definition missing_from :: "'a list \<Rightarrow> 'a list \<Rightarrow> 'a list" where
  "missing_from actual expected = filter (\<lambda>x. x \<notin> set actual) (remdups expected)"

definition missing_tables :: "(string \<times> table_shape) list \<Rightarrow> string list" where
  "missing_tables actual = sort (missing_from (map fst actual) (map fst expected_tables))"

definition shape_of :: "(string \<times> table_shape) list \<Rightarrow> string \<Rightarrow> table_shape" where
  "shape_of actual name = (case map_of actual name of None \<Rightarrow> alembic_shape | Some s \<Rightarrow> s)"

definition column_mismatches :: "(string \<times> table_shape) list \<Rightarrow> (string \<times> string list) list" where
  "column_mismatches actual =
    filter (\<lambda>(_, missing). missing \<noteq> [])
      (map (\<lambda>(name, s). (name,
           sort (missing_from (tb_columns (shape_of actual name)) (tb_columns s)))) expected_tables)"

text \<open>What one table lacks, in the order of the checks.\<close>

definition lacking :: "table_shape \<Rightarrow> table_shape \<Rightarrow> string list" where
  "lacking s a =
    (if tb_primary_key s \<noteq> tb_primary_key a then [''primary key''] else []) @
    (if missing_from (tb_foreign_keys a) (tb_foreign_keys s) \<noteq> [] then [''foreign key''] else []) @
    (if missing_from (tb_uniques a) (tb_uniques s) \<noteq> [] then [''unique constraint''] else []) @
    (if missing_from (tb_checks a) (tb_checks s) \<noteq> [] then [''check constraint''] else []) @
    (if missing_from (tb_indexes a) (tb_indexes s) \<noteq> [] then [''index''] else [])"

definition constraint_mismatches :: "(string \<times> table_shape) list \<Rightarrow> (string \<times> string) list" where
  "constraint_mismatches actual =
    concat (map (\<lambda>(name, s). map (\<lambda>what. (name, what)) (lacking s (shape_of actual name)))
      expected_tables)"

definition validate_schema_shape :: "database \<Rightarrow> bootstrap_error + unit" where
  "validate_schema_shape f =
    andthen (require (missing_tables (dbf_tables f) = [])
      (Tables_Missing (missing_tables (dbf_tables f)))) (\<lambda>_.
    andthen (require (column_mismatches (dbf_tables f) = [])
      (Columns_Missing (column_mismatches (dbf_tables f)))) (\<lambda>_.
    require (constraint_mismatches (dbf_tables f) = [])
      (Constraints_Missing (constraint_mismatches (dbf_tables f)))))"

section \<open>Stages\<close>

datatype stage = Create_Tables | Install_Triggers | Insert_Metadata | Stamp_Head | Read_Triggers
  | Reset_Tables

type_synonym faults = "stage \<Rightarrow> string option"
type_synonym boot = "(bootstrap_error + unit) \<times> database"

definition at_stage :: "faults \<Rightarrow> stage \<Rightarrow> database \<Rightarrow> boot \<Rightarrow> boot" where
  "at_stage faults s f r =
    (case faults s of Some e \<Rightarrow> (Inl (Raised e), f) | None \<Rightarrow> r)"

definition after_stage :: "boot \<Rightarrow> (database \<Rightarrow> boot) \<Rightarrow> boot" where
  "after_stage b f = (case b of (Inl e, d) \<Rightarrow> (Inl e, d) | (Inr _, d) \<Rightarrow> f d)"

text \<open>\<open>create_all\<close> skips what exists; the table of runtime events brings its two triggers.\<close>

definition with_tables :: "(string \<times> table_shape) list \<Rightarrow> database \<Rightarrow> database" where
  "with_tables new f =
    (let fresh = filter (\<lambda>(name, _). name \<notin> fst ` set (dbf_tables f)) new
     in f\<lparr>dbf_tables := dbf_tables f @ fresh,
          dbf_triggers := dbf_triggers f @
            (if ''runtime_events'' \<in> fst ` set fresh then runtime_event_trigger_names else [])\<rparr>)"

definition create_all :: "faults \<Rightarrow> nat \<Rightarrow> database \<Rightarrow> boot" where
  "create_all faults n f =
    at_stage faults Create_Tables (with_tables (take n expected_tables) f)
      (Inr (), with_tables expected_tables f)"

definition install_triggers :: "faults \<Rightarrow> database \<Rightarrow> boot" where
  "install_triggers faults f =
    at_stage faults Install_Triggers f
      (Inr (), f\<lparr>dbf_triggers := install_proof_revision_triggers (dbf_triggers f)\<rparr>)"

definition insert_metadata :: "faults \<Rightarrow> database \<Rightarrow> boot" where
  "insert_metadata faults f =
    at_stage faults Insert_Metadata f (Inr (), f\<lparr>dbf_version := Some schema_version\<rparr>)"

definition stamp_alembic_head :: "faults \<Rightarrow> database \<Rightarrow> boot" where
  "stamp_alembic_head faults f =
    at_stage faults Stamp_Head f
     (let f' = with_tables [(''alembic_version'', alembic_shape)] f in
      if dbf_alembic f' = [] then (Inr (), f'\<lparr>dbf_alembic := [alembic_head]\<rparr>)
      else if dbf_alembic f' \<noteq> [alembic_head] then (Inl (Alembic_Found (dbf_alembic f')), f)
      else (Inr (), f'))"

definition read_triggers :: "faults \<Rightarrow> database \<Rightarrow> boot" where
  "read_triggers faults f =
    at_stage faults Read_Triggers f
      (case validate_required_triggers (dbf_triggers f) of
         Inl e \<Rightarrow> (Inl (Triggers_Missing e), f)
       | Inr _ \<Rightarrow> (Inr (), f))"

text \<open>\<open>LIKE 'sqlite_%'\<close>: the underscore stands for any one character, ASCII case is ignored.\<close>

definition lower_ascii :: "char \<Rightarrow> char" where
  "lower_ascii c = (let n = of_char c :: nat in if 65 \<le> n \<and> n \<le> 90 then char_of (n + 32) else c)"

definition sqlite_internal :: "string \<Rightarrow> bool" where
  "sqlite_internal name \<longleftrightarrow> map lower_ascii (take 6 name) = ''sqlite'' \<and> 7 \<le> length name"

text \<open>Dropping a table drops its triggers and its rows.\<close>

definition trigger_table :: "string \<Rightarrow> string option" where
  "trigger_table trigger =
    (if trigger \<in> set runtime_event_trigger_names then Some ''runtime_events''
     else if trigger = runs_trigger then Some ''runs''
     else List.find (\<lambda>tbl. trigger \<in> set (map (revision_trigger tbl) trigger_operations))
       proof_relevant_run_tables)"

definition drop_tables :: "string list \<Rightarrow> database \<Rightarrow> database" where
  "drop_tables names f =
    f\<lparr>dbf_tables := filter (\<lambda>(name, _). name \<notin> set names) (dbf_tables f),
      dbf_triggers := filter (\<lambda>t. case trigger_table t of None \<Rightarrow> True | Some tbl \<Rightarrow> tbl \<notin> set names)
        (dbf_triggers f),
      dbf_version := (if ''schema_metadata'' \<in> set names then None else dbf_version f),
      dbf_alembic := (if ''alembic_version'' \<in> set names then [] else dbf_alembic f)\<rparr>"

definition reset_failed_empty_bootstrap :: "faults \<Rightarrow> database \<Rightarrow> database" where
  "reset_failed_empty_bootstrap faults f =
    (case faults Reset_Tables of
       Some _ \<Rightarrow> f
     | None \<Rightarrow> drop_tables (filter (\<lambda>name. \<not> sqlite_internal name) (map fst (dbf_tables f))) f)"

section \<open>\<open>init_db\<close>\<close>

definition bootstrap_empty :: "faults \<Rightarrow> nat \<Rightarrow> database \<Rightarrow> boot" where
  "bootstrap_empty faults n f =
    after_stage (create_all faults n f) (\<lambda>f.
    after_stage (install_triggers faults f) (\<lambda>f.
    after_stage (insert_metadata faults f) (\<lambda>f.
    after_stage (stamp_alembic_head faults f) (\<lambda>f.
    read_triggers faults f))))"

definition open_existing :: "faults \<Rightarrow> database \<Rightarrow> boot" where
  "open_existing faults f =
    (if ''schema_metadata'' \<notin> fst ` set (dbf_tables f) then (Inl Predates_Schema, f)
     else if dbf_version f \<noteq> Some schema_version then (Inl (Version_Found (dbf_version f)), f)
     else case validate_schema_shape f of
       Inl e \<Rightarrow> (Inl e, f)
     | Inr _ \<Rightarrow>
         after_stage (stamp_alembic_head faults f) (\<lambda>f.
         after_stage (install_triggers faults f) (\<lambda>f.
         read_triggers faults f)))"

definition init_db :: "string \<Rightarrow> faults \<Rightarrow> nat \<Rightarrow> database \<Rightarrow> boot" where
  "init_db dialect faults n f =
    (if dialect \<noteq> ''sqlite'' then (Inl Dialect_Unsupported, f)
     else if dbf_tables f = [] then
       (case bootstrap_empty faults n f of
          (Inl e, f') \<Rightarrow> (Inl e, reset_failed_empty_bootstrap faults f')
        | (Inr u, f') \<Rightarrow> (Inr u, f'))
     else open_existing faults f)"

definition drop_db :: "database \<Rightarrow> database" where
  "drop_db f = drop_tables (map fst expected_tables) f"

section \<open>What the guard guarantees\<close>

lemma at_stage_returns [outcome]:
  "at_stage faults s f r = (Inr u, f') \<longleftrightarrow> faults s = None \<and> r = (Inr u, f')"
  by (simp add: at_stage_def split: option.split)

lemma after_stage_returns [outcome]:
  "after_stage b g = (Inr u, f') \<longleftrightarrow> (\<exists>v f. b = (Inr v, f) \<and> g f = (Inr u, f'))"
  by (auto simp: after_stage_def split: prod.splits sum.splits)

definition schema_ready :: "database \<Rightarrow> bool" where
  "schema_ready f \<longleftrightarrow>
     ''schema_metadata'' \<in> fst ` set (dbf_tables f) \<and> dbf_version f = Some schema_version \<and>
     validate_schema_shape f = Inr () \<and> ''alembic_version'' \<in> fst ` set (dbf_tables f) \<and>
     dbf_alembic f = [alembic_head] \<and> set required_triggers \<subseteq> set (dbf_triggers f)"

lemma shape_cong:
  assumes "\<And>name. name \<in> fst ` set expected_tables \<Longrightarrow>
    map_of (dbf_tables f') name = map_of (dbf_tables f) name"
  shows "validate_schema_shape f' = validate_schema_shape f"
proof -
  have names: "name \<in> fst ` set (dbf_tables f') \<longleftrightarrow> name \<in> fst ` set (dbf_tables f)"
    if "name \<in> fst ` set expected_tables" for name
    using assms [OF that] by (metis map_of_eq_None_iff)
  then have 1: "missing_tables (dbf_tables f') = missing_tables (dbf_tables f)"
    unfolding missing_tables_def missing_from_def
    by (intro arg_cong [where f = sort] filter_cong) auto
  have shape: "shape_of (dbf_tables f') name = shape_of (dbf_tables f) name"
    if "(name, s) \<in> set expected_tables" for name s
    using that assms [of name] by (force simp: shape_of_def)
  have 2: "column_mismatches (dbf_tables f') = column_mismatches (dbf_tables f)"
    unfolding column_mismatches_def by (intro arg_cong [where f = "filter _"] map_cong) (auto simp: shape)
  have 3: "constraint_mismatches (dbf_tables f') = constraint_mismatches (dbf_tables f)"
    unfolding constraint_mismatches_def by (intro arg_cong [where f = concat] map_cong) (auto simp: shape)
  show ?thesis by (simp only: validate_schema_shape_def 1 2 3)
qed

lemma with_alembic_shape:
  "validate_schema_shape (with_tables [(''alembic_version'', alembic_shape)] f) = validate_schema_shape f"
proof (rule shape_cong)
  fix name assume "name \<in> fst ` set expected_tables"
  moreover have "''alembic_version'' \<notin> fst ` set expected_tables" by code_simp
  ultimately have "name \<noteq> ''alembic_version''" by metis
  then show "map_of (dbf_tables (with_tables [(''alembic_version'', alembic_shape)] f)) name =
      map_of (dbf_tables f) name"
    by (simp add: with_tables_def Let_def map_add_def split: option.split)
qed

lemma validate_schema_shape_tables:
  "dbf_tables f' = dbf_tables f \<Longrightarrow> validate_schema_shape f' = validate_schema_shape f"
  by (simp add: validate_schema_shape_def)

lemma stamp_returns:
  "stamp_alembic_head faults f = (Inr u, f') \<longleftrightarrow>
     faults Stamp_Head = None \<and> dbf_alembic f \<in> {[], [alembic_head]} \<and>
     f' = (with_tables [(''alembic_version'', alembic_shape)] f)\<lparr>dbf_alembic := [alembic_head]\<rparr>"
  by (cases f)
    (auto simp: stamp_alembic_head_def outcome with_tables_def Let_def runtime_event_trigger_names_def
      split: if_splits)

lemma install_returns:
  "install_triggers faults f = (Inr u, f') \<longleftrightarrow>
     faults Install_Triggers = None \<and>
     f' = f\<lparr>dbf_triggers := install_proof_revision_triggers (dbf_triggers f)\<rparr>"
  by (auto simp: install_triggers_def outcome)

lemma read_triggers_returns:
  "read_triggers faults f = (Inr u, f') \<longleftrightarrow>
     faults Read_Triggers = None \<and> set required_triggers \<subseteq> set (dbf_triggers f) \<and> f' = f"
  using validate_triggers_returns [of "dbf_triggers f"]
  by (cases "validate_required_triggers (dbf_triggers f)") (auto simp: read_triggers_def at_stage_returns)

lemma with_alembic_names: "''alembic_version'' \<in> fst ` set (dbf_tables (with_tables [(''alembic_version'', s)] f))"
  by (auto simp: with_tables_def Let_def)

lemma with_alembic_keeps: "set (dbf_tables f) \<subseteq> set (dbf_tables (with_tables new f))"
  by (auto simp: with_tables_def Let_def)

lemma open_existing_ready:
  assumes "open_existing faults f = (Inr u, f')"
  shows "schema_ready f'"
proof -
  let ?f1 = "(with_tables [(''alembic_version'', alembic_shape)] f)\<lparr>dbf_alembic := [alembic_head]\<rparr>"
  have meta: "''schema_metadata'' \<in> fst ` set (dbf_tables f)" and v: "dbf_version f = Some schema_version"
    and shape: "validate_schema_shape f = Inr ()"
    and f': "f' = ?f1\<lparr>dbf_triggers := install_proof_revision_triggers (dbf_triggers ?f1)\<rparr>"
    and trig: "set required_triggers \<subseteq> set (dbf_triggers f')"
    using assms
    by (auto simp: open_existing_def after_stage_returns stamp_returns install_returns read_triggers_returns
        split: if_splits sum.splits)
  have "validate_schema_shape f' = Inr ()"
    using shape with_alembic_shape [of f] validate_schema_shape_tables [of f' "with_tables [(''alembic_version'', alembic_shape)] f"]
    by (simp add: f')
  moreover have "dbf_version f' = Some schema_version" using v by (simp add: f' with_tables_def Let_def)
  moreover have "''schema_metadata'' \<in> fst ` set (dbf_tables f')"
    using meta with_alembic_keeps [of f "[(''alembic_version'', alembic_shape)]"] by (auto simp: f')
  moreover have "''alembic_version'' \<in> fst ` set (dbf_tables f')"
    using with_alembic_names [of alembic_shape f] by (simp add: f')
  ultimately show ?thesis using trig by (simp add: schema_ready_def f')
qed

text \<open>The file an undisturbed bootstrap produces.\<close>

definition fresh_file :: database where
  "fresh_file =
    \<lparr>dbf_tables = expected_tables @ [(''alembic_version'', alembic_shape)],
     dbf_triggers = install_proof_revision_triggers runtime_event_trigger_names,
     dbf_version = Some schema_version, dbf_alembic = [alembic_head]\<rparr>"

lemma expected_names:
  "''runtime_events'' \<in> fst ` set expected_tables" "''schema_metadata'' \<in> fst ` set expected_tables"
  "''alembic_version'' \<notin> fst ` set expected_tables"
  by (simp_all add: expected_tables_def)

lemma create_returns:
  "create_all faults n empty_file = (Inr u, f') \<longleftrightarrow> faults Create_Tables = None \<and>
     f' = \<lparr>dbf_tables = expected_tables, dbf_triggers = runtime_event_trigger_names,
            dbf_version = None, dbf_alembic = []\<rparr>"
  using expected_names(1) by (auto simp: create_all_def outcome with_tables_def empty_file_def Let_def)

lemma insert_metadata_returns:
  "insert_metadata faults f = (Inr u, f') \<longleftrightarrow>
     faults Insert_Metadata = None \<and> f' = f\<lparr>dbf_version := Some schema_version\<rparr>"
  by (auto simp: insert_metadata_def outcome)

lemma fresh_triggers: "set required_triggers \<subseteq> set (dbf_triggers fresh_file)"
  using install_presents [of runtime_event_trigger_names]
  by (auto simp: fresh_file_def required_triggers_def)

lemma bootstrap_returns:
  "bootstrap_empty faults n empty_file = (Inr u, f') \<longleftrightarrow>
     (\<forall>s \<in> {Create_Tables, Install_Triggers, Insert_Metadata, Stamp_Head, Read_Triggers}. faults s = None) \<and>
     f' = fresh_file"
proof -
  have "with_tables [(''alembic_version'', alembic_shape)] \<lparr>dbf_tables = expected_tables,
      dbf_triggers = ts, dbf_version = v, dbf_alembic = []\<rparr> =
    \<lparr>dbf_tables = expected_tables @ [(''alembic_version'', alembic_shape)], dbf_triggers = ts,
      dbf_version = v, dbf_alembic = []\<rparr>" for ts v
    using expected_names(3) by (simp add: with_tables_def Let_def)
  then show ?thesis
    using fresh_triggers
    by (auto simp: bootstrap_empty_def after_stage_returns create_returns insert_metadata_returns
        stamp_returns install_returns read_triggers_returns fresh_file_def)
qed

lemma missing_from_self [simp]: "missing_from xs xs = []"
  by (simp add: missing_from_def)

lemma expected_complete: "dbf_tables f = expected_tables \<Longrightarrow> validate_schema_shape f = Inr ()"
proof -
  assume f: "dbf_tables f = expected_tables"
  have shape: "shape_of expected_tables name = s" if "(name, s) \<in> set expected_tables" for name s
    using that expected_distinct by (simp add: shape_of_def)
  have 1: "missing_tables expected_tables = []" by (simp add: missing_tables_def)
  have 2: "column_mismatches expected_tables = []"
    by (auto simp: column_mismatches_def filter_empty_conv shape)
  have 3: "constraint_mismatches expected_tables = []"
    by (auto simp: constraint_mismatches_def lacking_def shape)
  show ?thesis by (simp add: validate_schema_shape_def f 1 2 3)
qed

lemma fresh_ready: "schema_ready fresh_file"
proof -
  have "validate_schema_shape fresh_file = validate_schema_shape (fresh_file\<lparr>dbf_tables := expected_tables\<rparr>)"
  proof (rule shape_cong)
    fix name assume "name \<in> fst ` set expected_tables"
    then have "name \<noteq> ''alembic_version''" using expected_names(3) by metis
    then show "map_of (dbf_tables fresh_file) name =
        map_of (dbf_tables (fresh_file\<lparr>dbf_tables := expected_tables\<rparr>)) name"
      by (simp add: fresh_file_def map_add_def split: option.split)
  qed
  then have "validate_schema_shape fresh_file = Inr ()" by (simp add: expected_complete)
  then show ?thesis
    using fresh_triggers expected_names by (simp add: schema_ready_def) (simp add: fresh_file_def)
qed

text \<open>A ready file opens again, and opening it changes nothing.\<close>

lemma install_present: "set proof_revision_trigger_names \<subseteq> set T \<Longrightarrow> install_proof_revision_triggers T = T"
proof -
  have "fold (\<lambda>t present. if t \<in> set present then present else present @ [t]) ts T = T"
    if "set ts \<subseteq> set T" for ts
    using that by (induction ts) auto
  then show "set proof_revision_trigger_names \<subseteq> set T \<Longrightarrow> ?thesis"
    by (simp add: install_proof_revision_triggers_def)
qed

lemma ready_opens:
  assumes "schema_ready f"
  shows "open_existing (\<lambda>_. None) f = (Inr (), f)"
proof -
  have "with_tables [(''alembic_version'', alembic_shape)] f = f"
    using assms by (auto simp: schema_ready_def with_tables_def Let_def)
  then have stamp: "stamp_alembic_head (\<lambda>_. None) f = (Inr (), f)"
    using assms by (simp add: stamp_returns schema_ready_def)
  have "install_triggers (\<lambda>_. None) f = (Inr (), f)"
    using assms install_present [of "dbf_triggers f"]
    by (simp add: install_returns schema_ready_def required_triggers_def)
  moreover have "read_triggers (\<lambda>_. None) f = (Inr (), f)"
    using assms by (simp add: read_triggers_returns schema_ready_def)
  ultimately show ?thesis using assms stamp by (simp add: open_existing_def schema_ready_def after_stage_def)
qed

section \<open>A failed bootstrap\<close>

text \<open>Everything in a file came from the declared tables, so the reset leaves nothing.\<close>

definition own_file :: "database \<Rightarrow> bool" where
  "own_file f \<longleftrightarrow>
     fst ` set (dbf_tables f) \<subseteq> insert ''alembic_version'' (fst ` set expected_tables) \<and>
     (\<forall>t \<in> set (dbf_triggers f). \<exists>tbl \<in> fst ` set (dbf_tables f). trigger_table t = Some tbl) \<and>
     (dbf_version f \<noteq> None \<longrightarrow> ''schema_metadata'' \<in> fst ` set (dbf_tables f)) \<and>
     (dbf_alembic f \<noteq> [] \<longrightarrow> ''alembic_version'' \<in> fst ` set (dbf_tables f))"

lemma own_not_internal:
  "own_file f \<Longrightarrow> name \<in> fst ` set (dbf_tables f) \<Longrightarrow> \<not> sqlite_internal name"
proof -
  have "list_all (\<lambda>name. \<not> sqlite_internal name) (''alembic_version'' # map fst expected_tables)"
    by code_simp
  then have "\<forall>x \<in> insert ''alembic_version'' (fst ` set expected_tables). \<not> sqlite_internal x"
    by (simp add: list_all_iff)
  then show "own_file f \<Longrightarrow> name \<in> fst ` set (dbf_tables f) \<Longrightarrow> ?thesis"
    unfolding own_file_def by blast
qed

lemma reset_own:
  assumes "own_file f" and "faults Reset_Tables = None"
  shows "reset_failed_empty_bootstrap faults f = empty_file"
proof -
  have names: "filter (\<lambda>name. \<not> sqlite_internal name) (map fst (dbf_tables f)) = map fst (dbf_tables f)"
    using own_not_internal [OF assms(1)] by (auto intro!: filter_True)
  have trig: "filter (\<lambda>t. case trigger_table t of None \<Rightarrow> True
        | Some tbl \<Rightarrow> tbl \<notin> set (map fst (dbf_tables f))) (dbf_triggers f) = []"
  proof -
    have "\<exists>tbl \<in> set (map fst (dbf_tables f)). trigger_table t = Some tbl" if "t \<in> set (dbf_triggers f)" for t
      using assms(1) that unfolding own_file_def set_map by blast
    then show ?thesis unfolding filter_empty_conv by (metis option.simps(5))
  qed
  have tabs: "filter (\<lambda>(name, _). name \<notin> fst ` set (dbf_tables f)) (dbf_tables f) = []"
    by (force simp: filter_empty_conv)
  have "reset_failed_empty_bootstrap faults f = drop_tables (map fst (dbf_tables f)) f"
    by (simp add: reset_failed_empty_bootstrap_def assms(2) names)
  also have "\<dots> = empty_file"
  proof (rule database.equality)
    show "dbf_version (drop_tables (map fst (dbf_tables f)) f) = dbf_version empty_file"
      "dbf_alembic (drop_tables (map fst (dbf_tables f)) f) = dbf_alembic empty_file"
      using assms(1) by (auto simp: own_file_def drop_tables_def empty_file_def)
    show "dbf_triggers (drop_tables (map fst (dbf_tables f)) f) = dbf_triggers empty_file"
      using trig by (simp add: drop_tables_def empty_file_def)
  qed (simp_all add: drop_tables_def empty_file_def tabs)
  finally show ?thesis .
qed

text \<open>Whatever stage failed, the file is one of our own.\<close>

lemma trigger_tables_known:
  assumes "t \<in> set required_triggers"
  shows "\<exists>tbl \<in> fst ` set expected_tables. trigger_table t = Some tbl"
proof -
  have "list_all (\<lambda>t. case trigger_table t of None \<Rightarrow> False
      | Some tbl \<Rightarrow> tbl \<in> set (map fst expected_tables)) required_triggers"
    by code_simp
  then have "case trigger_table t of None \<Rightarrow> False | Some tbl \<Rightarrow> tbl \<in> set (map fst expected_tables)"
    using assms by (simp only: list_all_iff)
  then show ?thesis by (auto split: option.splits)
qed

lemma own_complete:
  assumes "fst ` set (dbf_tables f) = insert ''alembic_version'' (fst ` set expected_tables) \<or>
      fst ` set (dbf_tables f) = fst ` set expected_tables \<and> dbf_alembic f = []"
    and "set (dbf_triggers f) \<subseteq> set required_triggers"
  shows "own_file f"
proof -
  have names: "fst ` set expected_tables \<subseteq> fst ` set (dbf_tables f)"
    using assms(1) by auto
  have "\<exists>tbl \<in> fst ` set (dbf_tables f). trigger_table t = Some tbl" if "t \<in> set (dbf_triggers f)" for t
    using trigger_tables_known [OF subsetD [OF assms(2) that]] names by (meson subsetD)
  moreover have "''schema_metadata'' \<in> fst ` set (dbf_tables f)"
    by (rule subsetD [OF names expected_names(2)])
  moreover have "fst ` set (dbf_tables f) \<subseteq> insert ''alembic_version'' (fst ` set expected_tables)"
    "dbf_alembic f \<noteq> [] \<longrightarrow> ''alembic_version'' \<in> fst ` set (dbf_tables f)"
    using assms(1) by auto
  ultimately show ?thesis unfolding own_file_def by blast
qed

lemma own_partial: "own_file (with_tables (take n expected_tables) empty_file)"
proof -
  have names: "fst ` set (take n expected_tables) \<subseteq> fst ` set expected_tables"
    by (auto dest: in_set_takeD)
  have trig: "trigger_table t = Some ''runtime_events''" if "t \<in> set runtime_event_trigger_names" for t
    using that by (simp add: trigger_table_def)
  have tables: "dbf_tables (with_tables (take n expected_tables) empty_file) = take n expected_tables"
    by (simp add: with_tables_def empty_file_def Let_def)
  have "\<exists>tbl \<in> fst ` set (take n expected_tables). trigger_table t = Some tbl"
    if "t \<in> set (dbf_triggers (with_tables (take n expected_tables) empty_file))" for t
    using that trig by (auto simp: with_tables_def empty_file_def Let_def split: if_splits)
  moreover have "dbf_version (with_tables (take n expected_tables) empty_file) = None"
    "dbf_alembic (with_tables (take n expected_tables) empty_file) = []"
    by (simp_all add: with_tables_def empty_file_def Let_def)
  ultimately show ?thesis using names unfolding own_file_def tables by blast
qed

lemma install_required:
  "set T \<subseteq> set required_triggers \<Longrightarrow> set (install_proof_revision_triggers T) \<subseteq> set required_triggers"
  by (auto simp: install_proof_revision_triggers_def set_install required_triggers_def)

lemma failed_bootstrap_own:
  assumes "bootstrap_empty faults n empty_file = (Inl e, f')"
  shows "own_file f'"
proof (cases "faults Create_Tables")
  case (Some x)
  then have "f' = with_tables (take n expected_tables) empty_file"
    using assms by (simp add: bootstrap_empty_def after_stage_def create_all_def at_stage_def)
  then show ?thesis using own_partial by simp
next
  case None
  let ?f1 = "\<lparr>dbf_tables = expected_tables, dbf_triggers = runtime_event_trigger_names,
            dbf_version = None, dbf_alembic = []\<rparr>"
  let ?f2 = "?f1\<lparr>dbf_triggers := install_proof_revision_triggers runtime_event_trigger_names\<rparr>"
  let ?f3 = "?f2\<lparr>dbf_version := Some schema_version\<rparr>"
  have create: "create_all faults n empty_file = (Inr (), ?f1)"
    using None by (simp add: create_returns)
  have own: "own_file ?f1" "own_file ?f2" "own_file ?f3" "own_file fresh_file"
    using install_required [of runtime_event_trigger_names]
    by (auto intro!: own_complete simp: fresh_file_def required_triggers_def)
  have stamp: "snd (stamp_alembic_head faults ?f3) \<in> {?f3, fresh_file}"
    using expected_names(3)
    by (auto simp: stamp_alembic_head_def at_stage_def with_tables_def Let_def fresh_file_def
        split: option.split)
  have "f' \<in> {?f1, ?f2, ?f3, fresh_file}"
    using assms stamp
    by (auto simp: bootstrap_empty_def create after_stage_def install_triggers_def insert_metadata_def
        read_triggers_def at_stage_def split: option.splits sum.splits prod.splits)
  then show ?thesis using own by auto
qed

lemma init_fails_empty:
  assumes "init_db ''sqlite'' faults n empty_file = (Inl e, f')" and "faults Reset_Tables = None"
  shows "f' = empty_file"
  using assms failed_bootstrap_own reset_own
  by (auto simp: init_db_def empty_file_def split: prod.splits sum.splits)

text \<open>A database that has tables keeps them all, whatever is raised.\<close>

lemma stamp_keeps:
  "stamp_alembic_head faults f = (r, f') \<Longrightarrow> set (dbf_tables f) \<subseteq> set (dbf_tables f') \<and>
     set (dbf_triggers f) \<subseteq> set (dbf_triggers f') \<and> dbf_version f' = dbf_version f \<and>
     (dbf_alembic f \<noteq> [] \<longrightarrow> dbf_alembic f' = dbf_alembic f)"
  by (auto simp: stamp_alembic_head_def at_stage_def with_tables_def Let_def
      split: option.splits if_splits)

lemma install_keeps:
  "install_triggers faults f = (r, f') \<Longrightarrow> dbf_tables f' = dbf_tables f \<and>
     set (dbf_triggers f) \<subseteq> set (dbf_triggers f') \<and> dbf_version f' = dbf_version f \<and>
     dbf_alembic f' = dbf_alembic f"
  using install_presents(2) [of "dbf_triggers f"]
  by (auto simp: install_triggers_def at_stage_def split: option.splits)

lemma read_triggers_keeps: "read_triggers faults f = (r, f') \<Longrightarrow> f' = f"
  by (auto simp: read_triggers_def at_stage_def split: option.splits sum.splits)

lemma open_existing_keeps:
  assumes "open_existing faults f = (r, f')"
  shows "set (dbf_tables f) \<subseteq> set (dbf_tables f') \<and> set (dbf_triggers f) \<subseteq> set (dbf_triggers f') \<and>
    dbf_version f' = dbf_version f \<and> (dbf_alembic f \<noteq> [] \<longrightarrow> dbf_alembic f' = dbf_alembic f)"
proof -
  obtain r1 f1 where 1: "stamp_alembic_head faults f = (r1, f1)" by fastforce
  obtain r2 f2 where 2: "install_triggers faults f1 = (r2, f2)" by fastforce
  obtain r3 f3 where 3: "read_triggers faults f2 = (r3, f3)" by fastforce
  have "f' \<in> {f, f1, f2, f3}"
    using assms 1 2 3
    by (auto simp: open_existing_def after_stage_def split: if_splits sum.splits)
  then show ?thesis
    using stamp_keeps [OF 1] install_keeps [OF 2] read_triggers_keeps [OF 3] by auto
qed

end
