(* ===== verification/Database_Properties.thy ===== *)
theory Database_Properties
  imports Freshness Bootstrap Audit_Properties
begin

text \<open>
  Properties of the database underneath the services: the proof revision kept by the triggers and
  the cache that relies on it, and the schema guard that runs before the first request.
\<close>

section \<open>The revision and the cached proof\<close>

lemma context_returns:
  "current_context now cid d = Inr px \<longleftrightarrow>
    (\<exists>c r. get_command_row cid d = Some c \<and> get_run_row (c_run_id c) d = Some r \<and>
       px = \<lparr>px_run_id = r_id r, px_revision = r_proof_revision r,
             px_nearest_lease_expiry = nearest_lease_expiry now (r_id r) d\<rparr>)"
  by (auto simp: current_context_def outcome)

lemma build_returns:
  "build_uncached E clk cid tp d = Inr ((response, px), d') \<Longrightarrow>
    \<exists>c target. get_command_row cid d = Some c \<and> get_node_row (c_target_node_id c) d = Some target \<and>
      response = proof_response_of c (collect_evidence d (clk 0) c target)
        (replacement_verdicts_of E d (clk 1) c target) tp"
  by (auto simp: build_uncached_def outcome)

lemma run_row_lookup:
  assumes "keys_ok d" and "keys_ok d'" and "same_inputs R d d'"
  shows "get_command_row k d = Some c \<Longrightarrow> c_run_id c = R \<Longrightarrow> get_command_row k d' = Some c"
    and "get_node_row k d = Some n \<Longrightarrow> n_run_id n = R \<Longrightarrow> get_node_row k d' = Some n"
proof -
  have sets: "set (of_run c_run_id R (db_commands d')) = set (of_run c_run_id R (db_commands d))"
    "set (of_run n_run_id R (db_nodes d')) = set (of_run n_run_id R (db_nodes d))"
    using assms(3) by (simp_all add: same_inputs_def)
  have keys: "distinct (map c_id (db_commands d))" "distinct (map c_id (db_commands d'))"
    "distinct (map n_id (db_nodes d))" "distinct (map n_id (db_nodes d'))"
    using assms(1,2) by (simp_all add: keys_ok_def)
  show "get_command_row k d' = Some c" if "get_command_row k d = Some c" "c_run_id c = R"
  proof -
    have "c \<in> set (of_run c_run_id R (db_commands d))"
      using that keys by (simp add: get_command_row_def lookup_iff)
    then have "c \<in> set (db_commands d')" using sets(1) by (metis in_of_run)
    then show ?thesis using that(1) keys by (simp add: get_command_row_def lookup_iff)
  qed
  show "get_node_row k d' = Some n" if "get_node_row k d = Some n" "n_run_id n = R"
  proof -
    have "n \<in> set (of_run n_run_id R (db_nodes d))"
      using that keys by (simp add: get_node_row_def lookup_iff)
    then have "n \<in> set (db_nodes d')" using sets(2) by (metis in_of_run)
    then show ?thesis using that(1) keys by (simp add: get_node_row_def lookup_iff)
  qed
qed

lemma command_target_run:
  assumes "keys_ok d" and "get_command_row k d = Some c" and "get_node_row (c_target_node_id c) d = Some n"
  shows "n_run_id n = c_run_id c"
proof -
  have "command_refs d c"
    using assms(1,2) by (auto simp: keys_ok_def fk_ok_def list_all_iff get_command_row_def dest: lookup_SomeD)
  then obtain m where m: "m \<in> set (db_nodes d)" "n_run_id m = c_run_id c" "n_id m = c_target_node_id c"
    by (auto simp: command_refs_def node_exists_def)
  then have "get_node_row (c_target_node_id c) d = Some m"
    using assms(1) by (simp add: get_node_row_def keys_ok_def lookup_iff)
  then show ?thesis using m assms(3) by simp
qed

text \<open>C14: a proof is served from the cache only when nothing it says has changed: take a database with the
  required triggers, any statements that neither move a row to another run nor write the proof revision
  themselves (the triggers bump the new run of a row only), unique keys before and after, and the same answer of the telemetry.  When the command has the same cache key (revision,
  next lease expiry, watermark) in the same run before and after, proving it again gives the same classification, the same counts and the
  same verdicts, but for the stability window of a recovery, and the same response when the command
  is not a correction.\<close>

theorem cached_proof_is_current:
  assumes "validate_required_triggers T = Inr ()" and "list_all run_column_kept stmts"
    and "run_statements T stmts d = Inr d'" and "keys_ok d" and "keys_ok d'"
    and "current_context (clk 0) cid d = Inr px" and "current_context (clk' 0) cid d' = Inr px'"
    and "px_run_id px' = px_run_id px"
    and "cache_key_of cid px watermark = cache_key_of cid px' watermark"
    and "build_uncached E clk cid tp d = Inr ((r, q), d1)"
    and "build_uncached E clk' cid tp d' = Inr ((r', q'), d1')"
  shows "pf_classifications r' = pf_classifications r \<and>
    pf_affected_registered_nodes r' = pf_affected_registered_nodes r \<and>
    pf_stale_action_attempts r' = pf_stale_action_attempts r \<and>
    pf_stale_actions_committed r' = pf_stale_actions_committed r \<and>
    pf_unrelated_branches_interrupted r' = pf_unrelated_branches_interrupted r \<and>
    pf_control_convergence_verdict r' = pf_control_convergence_verdict r \<and>
    pf_replacement_lineage_verdict r' = pf_replacement_lineage_verdict r \<and>
    pf_recovery_action_verdict r' = pf_recovery_action_verdict r \<and>
    pf_recovery_postcondition_verdict r' = pf_recovery_postcondition_verdict r \<and>
    (pf_command_type r \<noteq> Correct_Subtree \<longrightarrow> r' = r)"
proof -
  obtain c target where c: "get_command_row cid d = Some c"
      "get_node_row (c_target_node_id c) d = Some target"
    and r: "r = proof_response_of c (collect_evidence d (clk 0) c target)
        (replacement_verdicts_of E d (clk 1) c target) tp"
    using build_returns [OF assms(10)] by blast
  obtain c' target' where c': "get_command_row cid d' = Some c'"
      "get_node_row (c_target_node_id c') d' = Some target'"
    and r': "r' = proof_response_of c' (collect_evidence d' (clk' 0) c' target')
        (replacement_verdicts_of E d' (clk' 1) c' target') tp"
    using build_returns [OF assms(11)] by blast
  obtain run where run: "get_run_row (c_run_id c) d = Some run"
    and px: "px_revision px = r_proof_revision run"
      "px_nearest_lease_expiry px = nearest_lease_expiry (clk 0) (r_id run) d"
    using assms(6) c by (auto simp: context_returns)
  obtain run' where run': "get_run_row (c_run_id c') d' = Some run'"
    and px': "px_revision px' = r_proof_revision run'"
      "px_nearest_lease_expiry px' = nearest_lease_expiry (clk' 0) (r_id run') d'"
    using assms(7) c' by (auto simp: context_returns)
  have key: "px_revision px' = px_revision px" "px_nearest_lease_expiry px' = px_nearest_lease_expiry px"
    using assms(9) by (simp_all add: cache_key_of_def)
  have same_run: "c_run_id c' = c_run_id c"
    using assms(6-8) c(1) c'(1) get_run_row_id by (fastforce simp: context_returns)
  have ids: "r_id run = c_run_id c" "r_id run' = c_run_id c"
    using run run' same_run get_run_row_id by auto
  have same: "same_inputs (c_run_id c) d d'"
    using statements_move [OF assms(1-3), of "c_run_id c"] run run' same_run px px' key(1)
    by (simp add: moves_revision_def)
  have c'_eq: "c' = c"
    using run_row_lookup(1) [OF assms(4,5) same c(1)] c'(1) by simp
  have target_eq: "target' = target"
    using run_row_lookup(2) [OF assms(4,5) same c(2) command_target_run [OF assms(4) c]] c'(2) c'_eq
    by simp
  have member: "c \<in> set (db_commands d)" "c \<in> set (db_commands d')"
    using c(1) c'(1) c'_eq by (auto simp: get_command_row_def dest: lookup_SomeD)
  have nearest: "nearest_lease_expiry (clk 0) (c_run_id c) d = nearest_lease_expiry (clk' 0) (c_run_id c) d'"
    using px px' key ids by simp
  note ev = same_key_same_evidence(1) [OF assms(4,5) member same nearest, of target]
  note rv = same_key_same_evidence(2) [OF assms(4,5) member same nearest, of E _ target]
  have stab: "same_but_stability (replacement_verdicts_of E d (clk' 1) c target)
      (replacement_verdicts_of E d (clk 1) c target)"
    by (rule replacement_time)
  show ?thesis
    unfolding r r' c'_eq target_eq ev rv
    using stab replacement_other [of c E d "clk' 1" target "clk 1"]
    by (simp add: proof_response_of_def Let_def same_but_stability_def)
qed

definition renaming :: "statement list" where
  "renaming = [Update_Run ''-runs'' [Set_Run_Name ''renamed''],
     On_Events (Insert_Row (blank_event ''-runs'' ''RUN_CREATED'' noon))]"

definition renamed_db :: db where
  "renamed_db = stopped_db\<lparr>db_runs := [sample_run\<lparr>r_name := ''renamed''\<rparr>],
     db_events := [blank_event ''-runs'' ''RUN_CREATED'' noon]\<rparr>"

lemma renamed_tables [simp]:
  "db_nodes renamed_db = db_nodes stopped_db" "db_scopes renamed_db = db_scopes stopped_db"
  "db_commands renamed_db = db_commands stopped_db" "db_acks renamed_db = db_acks stopped_db"
  "db_actions renamed_db = []"
  by (simp_all add: renamed_db_def)

lemma inserts_allowed: "''trg_runtime_events_no_insert'' \<notin> set required_triggers"
  by code_simp

lemma renaming_runs:
  "list_all run_column_kept renaming \<and> run_statements required_triggers renaming stopped_db = Inr renamed_db"
  by (simp add: inserts_allowed renaming_def run_statements_def events_guard_def update_run_def updated_run_def
      stopped_db_def renamed_db_def sample_db_def empty_db_def)

lemma stopped_keys: "keys_ok stopped_db" "keys_ok renamed_db"
  by (simp_all add: keys_ok_def fk_ok_def stopped_db_def renamed_db_def refs_defs exists_defs opt_ok_def
      stop_command_def blank_event_def sample_db_def empty_db_def sample_scope_def new_scope_def
      sample_root_def sample_child_def sample_run_def)

lemma renamed_lookups:
  "get_command_row ''-commands'' renamed_db = Some stop_command"
  "get_node_row ''1-nodes'' renamed_db = Some sample_child"
  "get_run_row ''-runs'' renamed_db = Some (sample_run\<lparr>r_name := ''renamed''\<rparr>)"
  by (simp_all add: row_get_defs renamed_db_def stopped_db_def stop_command_def)

theorem cached_proof_is_current_witness:
  "\<exists>r r'. fst (projr (build_uncached sample_env (\<lambda>_. noon + 9) ''-commands'' no_telemetry stopped_db)) = r \<and>
     fst (projr (build_uncached sample_env (\<lambda>_. noon + 12) ''-commands'' no_telemetry renamed_db)) = r' \<and>
     fst r' = fst r"
proof -
  let ?px = "\<lparr>px_run_id = ''-runs'', px_revision = 0,
      px_nearest_lease_expiry = Some (noon + 15000000)\<rparr>"
  have near: "nearest_lease_expiry (noon + k) ''-runs'' d = Some (noon + 15000000)"
    if "db_nodes d = [sample_root, sample_child]" "k \<in> {9, 12}" for d k
    using that by (auto simp: nearest_lease_expiry_def List.map_filter_simps)
  have rev: "r_proof_revision sample_run = 0" by (simp add: sample_run_def)
  have 1: "current_context ((\<lambda>_. noon + 9) (0::nat)) ''-commands'' stopped_db = Inr ?px"
    using near [of stopped_db 9] by (simp add: context_returns rev)
  have 2: "current_context ((\<lambda>_. noon + 12) (0::nat)) ''-commands'' renamed_db = Inr ?px"
    using near [of renamed_db 12] by (simp add: context_returns rev renamed_lookups)
  obtain r q d1 where b: "build_uncached sample_env (\<lambda>_. noon + 9) ''-commands'' no_telemetry stopped_db =
     Inr ((r, q), d1)"
    by (simp add: build_uncached_def get_run_def)
  obtain r' q' d1' where b': "build_uncached sample_env (\<lambda>_. noon + 12) ''-commands'' no_telemetry renamed_db =
     Inr ((r', q'), d1')"
    by (simp add: build_uncached_def get_run_def renamed_lookups)
  have "pf_command_type r = Cancel_Subtree"
    using b by (auto simp: build_uncached_def get_run_def proof_response_of_def Let_def)
  then have "r' = r"
    using cached_proof_is_current [OF _ conjunct1 [OF renaming_runs] conjunct2 [OF renaming_runs]
        stopped_keys 1 2 _ refl b b']
    by (simp add: validate_triggers_returns)
  then show ?thesis using b b' by simp
qed

section \<open>The schema guard\<close>

text \<open>C13: the process starts only on a complete database: when \<open>init_db\<close> returns, from an empty file or an
  existing one, every declared table, column, key, check and index is there, the version and the
  Alembic revision are the required ones and every required trigger exists, and starting again on
  that file returns and changes nothing.\<close>

theorem started_on_complete_schema:
  assumes "init_db dialect faults n f = (Inr u, f')" and "dbf_tables f = [] \<longrightarrow> f = empty_file"
  shows "schema_ready f' \<and> validate_required_triggers (dbf_triggers f') = Inr () \<and>
    init_db dialect (\<lambda>_. None) m f' = (Inr (), f')"
proof -
  have dialect: "dialect = ''sqlite''" using assms(1) by (simp add: init_db_def split: if_splits)
  have ready: "schema_ready f'"
  proof (cases "dbf_tables f = []")
    case True
    then have "f' = fresh_file"
      using assms by (auto simp: init_db_def bootstrap_returns split: if_splits prod.splits sum.splits)
    then show ?thesis by (simp add: fresh_ready)
  next
    case False
    then show ?thesis using assms(1) dialect open_existing_ready by (simp add: init_db_def)
  qed
  then have "dbf_tables f' \<noteq> []" by (auto simp: schema_ready_def)
  then have "init_db dialect (\<lambda>_. None) m f' = (Inr (), f')"
    using ready_opens [OF ready] dialect by (simp add: init_db_def)
  then show ?thesis using ready by (simp add: validate_triggers_returns schema_ready_def)
qed

theorem started_on_complete_schema_witness:
  "init_db ''sqlite'' (\<lambda>_. None) 0 fresh_file = (Inr (), fresh_file)"
proof -
  have "init_db ''sqlite'' (\<lambda>_. None) 0 empty_file = (Inr (), fresh_file)"
    using bootstrap_returns [of "\<lambda>_. None" 0 "()" fresh_file] by (simp add: init_db_def empty_file_def)
  then show ?thesis using started_on_complete_schema by blast
qed

text \<open>C34: a failed start loses nothing: on an empty file whatever stage raised, the reset leaves the file
  empty and a retry succeeds; on an existing database every table, trigger and row the guard reads
  is still there.\<close>

theorem failed_start_loses_nothing:
  assumes "init_db ''sqlite'' faults n f = (Inl e, f')"
  shows "(f = empty_file \<and> faults Reset_Tables = None \<longrightarrow>
      f' = empty_file \<and> init_db ''sqlite'' (\<lambda>_. None) m f' = (Inr (), fresh_file)) \<and>
    (dbf_tables f \<noteq> [] \<longrightarrow> set (dbf_tables f) \<subseteq> set (dbf_tables f') \<and>
      set (dbf_triggers f) \<subseteq> set (dbf_triggers f') \<and> dbf_version f' = dbf_version f \<and>
      (dbf_alembic f \<noteq> [] \<longrightarrow> dbf_alembic f' = dbf_alembic f))"
proof -
  have "init_db ''sqlite'' (\<lambda>_. None) m empty_file = (Inr (), fresh_file)"
    using bootstrap_returns [of "\<lambda>_. None" m "()" fresh_file] by (simp add: init_db_def empty_file_def)
  moreover have "open_existing faults f = (Inl e, f')" if "dbf_tables f \<noteq> []"
    using assms that by (simp add: init_db_def)
  ultimately show ?thesis
    using assms init_fails_empty [of faults n e f'] open_existing_keeps [of faults f "Inl e" f'] by blast
qed

theorem failed_start_loses_nothing_witness:
  "snd (init_db ''sqlite'' ((\<lambda>_. None)(Stamp_Head := Some ''disk full'')) 0 empty_file) = empty_file"
proof -
  let ?faults = "(\<lambda>_. None)(Stamp_Head := Some ''disk full'')"
  have "fst (init_db ''sqlite'' ?faults 0 empty_file) \<noteq> Inr ()"
    using bootstrap_returns [of ?faults 0]
    by (auto simp: init_db_def empty_file_def split: prod.splits sum.splits)
  then obtain e f' where "init_db ''sqlite'' ?faults 0 empty_file = (Inl e, f')"
    by (cases "init_db ''sqlite'' ?faults 0 empty_file"; cases "fst (init_db ''sqlite'' ?faults 0 empty_file)")
      auto
  then show ?thesis using failed_start_loses_nothing [of ?faults 0 empty_file e f'] by simp
qed

text \<open>The trigger list is complete for the declared schema: of all tables with a run column, only the
  sealed recovery envelopes and the append only timeline have no revision trigger; every foreign key
  of the schema refers to a primary key or unique constraint that exists.\<close>

theorem revision_tables_complete:
  "map fst (filter (\<lambda>(name, s). ''run_id'' \<in> set (tb_columns s) \<and> name \<notin> set proof_relevant_run_tables)
      expected_tables) = [''credential_recovery_envelopes'', ''runtime_events''] \<and>
   set proof_relevant_run_tables \<subseteq> fst ` set expected_tables \<and>
   list_all (shape_ok expected_tables) (map snd expected_tables)"
proof -
  have "map fst (filter (\<lambda>(name, s). ''run_id'' \<in> set (tb_columns s) \<and> name \<notin> set proof_relevant_run_tables)
      expected_tables) = [''credential_recovery_envelopes'', ''runtime_events'']"
    by code_simp
  moreover have "set proof_relevant_run_tables \<subseteq> fst ` set expected_tables"
    by (simp add: proof_relevant_run_tables_def expected_tables_def)
  ultimately show ?thesis using expected_shapes_ok by blast
qed

end
