(* ===== verification/Canonical.thy ===== *)
theory Canonical
  imports Config Encoding
begin

text \<open>
  The bytes of an evidence artifact: \<open>canonical_json_bytes\<close> (\<open>json.dumps\<close> with sorted keys, compact
  separators and \<open>ensure_ascii=False\<close>, then UTF-8), the decoding of a text file with its universal
  newlines, and Python's equality of two JSON values.  Characters are code points up to 255.
\<close>

section \<open>UTF-8\<close>

definition utf8_char :: "char \<Rightarrow> string" where
  "utf8_char c =
    (let n = of_char c :: nat in
     if n < 128 then [c] else [char_of (192 + n div 64), char_of (128 + n mod 64)])"

definition utf8 :: "string \<Rightarrow> string" where
  "utf8 s = concat (map utf8_char s)"

text \<open>Decoding fails on a byte that starts no character, or one beyond the code points modelled.\<close>

fun utf8_decode :: "string \<Rightarrow> string option" where
  "utf8_decode [] = Some []"
| "utf8_decode (b # bs) =
     (let n = of_char b :: nat in
      if n < 128 then map_option ((#) b) (utf8_decode bs)
      else if n \<in> {194, 195} then
        (case bs of
           [] \<Rightarrow> None
         | c # cs \<Rightarrow>
             (let m = of_char c :: nat in
              if 128 \<le> m \<and> m < 192
              then map_option ((#) (char_of ((n - 192) * 64 + (m - 128)))) (utf8_decode cs)
              else None))
      else None)"

lemma utf8_decode_char:
  fixes c :: char
  shows "utf8_decode (utf8_char c @ bs) = map_option ((#) c) (utf8_decode bs)"
proof -
  define n where "n = (of_char c :: nat)"
  have c: "c = char_of n" by (simp add: n_def)
  have n: "n < 256" by (simp add: n_def)
  show ?thesis
  proof (cases "n < 128")
    case True
    then show ?thesis by (simp add: utf8_char_def n_def [symmetric])
  next
    case False
    have lead_byte: "of_char (char_of (192 + n div 64) :: char) = 192 + n div 64"
      using n by simp
    have next_byte: "of_char (char_of (128 + n mod 64) :: char) = 128 + n mod 64"
      by simp
    have "n div 64 \<in> {2, 3}" using False n by auto
    then have two: "192 + n div 64 \<in> {194, 195}" by auto
    have code: "(192 + n div 64 - 192) * 64 + (128 + n mod 64 - 128) = n" by simp
    have big: "\<not> 192 + n div 64 < 128" by simp
    have "utf8_char c @ bs = char_of (192 + n div 64) # char_of (128 + n mod 64) # bs"
      using False by (simp add: utf8_char_def n_def [symmetric])
    then show ?thesis
      using two big by (simp only: utf8_decode.simps Let_def lead_byte next_byte if_True if_False list.case code)
        (simp add: c)
  qed
qed

lemma utf8_round_trip: "utf8_decode (utf8 s) = Some s"
proof (induction s)
  case (Cons c s)
  then show ?case by (simp add: utf8_def utf8_decode_char)
qed (simp add: utf8_def)

text \<open>\<open>read_text\<close>: text mode turns every carriage return and every pair CR LF into a line feed.\<close>

fun universal_newlines :: "string \<Rightarrow> string" where
  "universal_newlines [] = []"
| "universal_newlines (c # cs) =
     (if c = CHR 0x0D
      then CHR 0x0A # (case cs of [] \<Rightarrow> [] | d # ds \<Rightarrow>
             if d = CHR 0x0A then universal_newlines ds else universal_newlines cs)
      else c # universal_newlines cs)"

definition read_text :: "string \<Rightarrow> string option" where
  "read_text bytes = map_option universal_newlines (utf8_decode bytes)"

lemma universal_newlines_plain: "CHR 0x0D \<notin> set s \<Longrightarrow> universal_newlines s = s"
  by (induction s) auto

lemma universal_newlines_clean: "CHR 0x0D \<notin> set (universal_newlines s)"
  by (induction s rule: universal_newlines.induct) (auto split: list.splits)

lemma read_text_written:
  "read_text (utf8 s) = Some (universal_newlines s)"
  by (simp add: read_text_def utf8_round_trip)

section \<open>Canonical JSON\<close>

text \<open>With \<open>ensure_ascii=False\<close> only the quote, the backslash and the control characters are escaped.\<close>

definition raw_char :: "char \<Rightarrow> string" where
  "raw_char c = (if 126 < (of_char c :: nat) then [c] else escape_char c)"

definition raw_quote :: "string \<Rightarrow> string" where
  "raw_quote s = CHR 0x22 # concat (map raw_char s) @ [CHR 0x22]"

primrec canonical_json :: "json \<Rightarrow> string" where
  "canonical_json JNull = ''null''"
| "canonical_json (JBool b) = (if b then ''true'' else ''false'')"
| "canonical_json (JInt i) = show_int i"
| "canonical_json (JFloat r) = r"
| "canonical_json (JStr s) = raw_quote s"
| "canonical_json (JTime t) = raw_quote (str_datetime t)"
| "canonical_json (JArr xs) = ''['' @ join '','' (map canonical_json xs) @ '']''"
| "canonical_json (JObj kvs) =
     ''{'' @ join '','' (map (\<lambda>(k, v). raw_quote k @ '':'' @ v)
       (sort_fields (map (map_prod id canonical_json) kvs))) @ ''}''"

definition canonical_json_bytes :: "json \<Rightarrow> string" where
  "canonical_json_bytes v = utf8 (canonical_json v)"

text \<open>A value with its keys in order, which is the value \<open>json.loads\<close> reads back.\<close>

primrec sorted_json :: "json \<Rightarrow> json" where
  "sorted_json JNull = JNull"
| "sorted_json (JBool b) = JBool b"
| "sorted_json (JInt i) = JInt i"
| "sorted_json (JFloat r) = JFloat r"
| "sorted_json (JStr s) = JStr s"
| "sorted_json (JTime t) = JStr (str_datetime t)"
| "sorted_json (JArr xs) = JArr (map sorted_json xs)"
| "sorted_json (JObj kvs) = JObj (sort_fields (map (map_prod id sorted_json) kvs))"

text \<open>
  \<open>==\<close> on JSON values: a bool is an int, a float with a fraction \<open>.0\<close> equals its int, the order of the
  keys does not matter.
\<close>

definition whole_float :: "string \<Rightarrow> int option" where
  "whole_float r = (if 2 < length r \<and> drop (length r - 2) r = ''.0''
     then parse_int (take (length r - 2) r) else None)"

primrec py_value :: "json \<Rightarrow> json" where
  "py_value JNull = JNull"
| "py_value (JBool b) = JInt (if b then 1 else 0)"
| "py_value (JInt i) = JInt i"
| "py_value (JFloat r) = (case whole_float r of None \<Rightarrow> JFloat r | Some i \<Rightarrow> JInt i)"
| "py_value (JStr s) = JStr s"
| "py_value (JTime t) = JTime t"
| "py_value (JArr xs) = JArr (map py_value xs)"
| "py_value (JObj kvs) = JObj (sort_fields (map (map_prod id py_value) kvs))"

definition json_equal :: "json \<Rightarrow> json \<Rightarrow> bool" where
  "json_equal v w \<longleftrightarrow> py_value v = py_value w"

text \<open>\<open>d.get(key, default)\<close> and \<open>d.get(key)\<close>, of a value that is a dictionary.\<close>

definition get_or :: "string \<Rightarrow> json \<Rightarrow> json \<Rightarrow> json" where
  "get_or k dflt j = (case field k j of None \<Rightarrow> dflt | Some v \<Rightarrow> v)"

definition get_key :: "string \<Rightarrow> json \<Rightarrow> json" where
  "get_key k j = get_or k JNull j"

definition is_dict :: "json \<Rightarrow> bool" where
  "is_dict j = (case j of JObj _ \<Rightarrow> True | _ \<Rightarrow> False)"

definition without_key :: "string \<Rightarrow> json \<Rightarrow> json" where
  "without_key k j = (case j of JObj kvs \<Rightarrow> JObj (filter (\<lambda>(name, _). name \<noteq> k) kvs) | _ \<Rightarrow> j)"

section \<open>Numerals\<close>

lemma digit_char_inj: "a < 10 \<Longrightarrow> b < 10 \<Longrightarrow> digit_char a = digit_char b \<Longrightarrow> a = b"
  unfolding digit_char_def by (drule arg_cong [where f = "of_char :: char \<Rightarrow> nat"]) simp

lemma dec_length: "0 < length (dec n)"
  by (subst dec.simps) simp

lemma dec_inj: "dec m = dec n \<Longrightarrow> m = n"
proof (induction m arbitrary: n rule: dec.induct)
  case (1 m)
  show ?case
  proof (cases "m < 10")
    case True
    then have "length (dec m) = 1" by (simp add: dec.simps [of m])
    then have "length (dec n) = 1" using 1(2) by simp
    then have "n < 10" using dec_length [of "n div 10"] by (subst (asm) dec.simps) (auto split: if_splits)
    then show ?thesis using True 1(2) digit_char_inj by (simp add: dec.simps [of m] dec.simps [of n])
  next
    case False
    then have "1 < length (dec m)" using dec_length [of "m div 10"] by (simp add: dec.simps [of m])
    then have n: "\<not> n < 10" using 1(2) by (auto simp: dec.simps [of n])
    have "dec (m div 10) = dec (n div 10)" "digit_char (m mod 10) = digit_char (n mod 10)"
      using False n 1(2) by (simp_all add: dec.simps [of m] dec.simps [of n])
    then have "m div 10 = n div 10" "m mod 10 = n mod 10"
      using 1(1) False digit_char_inj [of "m mod 10" "n mod 10"] by simp_all
    then show ?thesis by (metis div_mult_mod_eq)
  qed
qed

section \<open>Sorting the keys\<close>

lemma insort_map_values:
  "insort_key fst (map_prod id g x) (map (map_prod id g) xs) = map (map_prod id g) (insort_key fst x xs)"
  by (induction xs) (auto simp: map_prod_def split: prod.splits)

lemma sort_fields_map: "sort_fields (map (map_prod id g) xs) = map (map_prod id g) (sort_fields xs)"
  unfolding sort_fields_def
  by (induction xs) (simp_all only: list.map sort_key_simps insort_map_values)

lemma sort_fields_idem [simp]: "sort_fields (sort_fields xs) = sort_fields xs"
proof -
  have "sorted (map fst ys) \<Longrightarrow> sort_fields ys = ys" for ys :: "(string \<times> 'a) list"
    by (induction ys) (auto simp: sort_fields_def insort_is_Cons)
  then show ?thesis by (simp add: sort_fields_def)
qed

lemma map_of_insort: "map_of (insort_key fst x xs) = (map_of xs)(fst x \<mapsto> snd x)"
  by (induction xs) (auto simp: fun_upd_twist)

lemma map_of_sort_fields: "map_of (sort_fields xs) = map_of xs"
  by (induction xs) (auto simp: sort_fields_def map_of_insort)

lemma field_sorted: "field k (sorted_json j) = map_option sorted_json (field k j)"
proof (cases j)
  case (JObj kvs)
  have "map_of (map (map_prod id sorted_json) kvs) k = map_option sorted_json (map_of kvs k)"
    by (induction kvs) auto
  then show ?thesis using JObj by (simp add: field_def map_of_sort_fields)
qed (simp_all add: field_def)

lemma get_or_sorted: "get_or k (sorted_json d) (sorted_json j) = sorted_json (get_or k d j)"
  by (simp add: get_or_def field_sorted split: option.split)

lemma get_key_sorted: "get_key k (sorted_json j) = sorted_json (get_key k j)"
  using get_or_sorted [of k JNull j] by (simp add: get_key_def)

lemma canonical_sorted: "canonical_json (sorted_json j) = canonical_json j"
proof (induction j)
  case (JArr xs)
  then show ?case by (simp cong: map_cong)
next
  case (JObj kvs)
  have "map (map_prod id canonical_json) (map (map_prod id sorted_json) kvs) =
      map (map_prod id canonical_json) kvs"
    by (auto simp: snds.simps dest: JObj)
  then show ?case by (simp only: sorted_json.simps canonical_json.simps sort_fields_map [symmetric]
        sort_fields_idem)
qed simp_all

lemma without_key_sorted: "without_key k (sorted_json j) = sorted_json (without_key k j)"
proof (cases j)
  case (JObj kvs)
  have "filter (\<lambda>(name, _). name \<noteq> k) (map (map_prod id sorted_json) kvs) =
      map (map_prod id sorted_json) (filter (\<lambda>(name, _). name \<noteq> k) kvs)"
    by (induction kvs) auto
  then show ?thesis using JObj by (simp add: without_key_def sort_fields_def filter_sort)
qed (simp_all add: without_key_def)

end
