(* ===== verification/Evidence.thy ===== *)
theory Evidence
  imports Canonical Domain Bootstrap
begin

text \<open>
  \<open>evidence.py\<close>: writing a signed evidence bundle and checking one before anything is concluded from
  it.  The store is the output directory: its resolved path, its bundle directories with the bytes of
  their files, and the pointer \<open>latest.json\<close>.  \<open>json.loads\<close>, \<open>datetime.fromisoformat\<close>, the version of the
  installed package, what \<open>str\<close> writes for a list or a dictionary and the answers of Git are arguments;
  symbolic links and the atomic replacement of a file (a temporary file renamed into place) are not
  modelled.  \<open>EvidenceIntegrityError\<close> is \<open>Integrity\<close> with its message; the other errors are what Python
  raises on bytes that are not JSON or JSON of another shape.
\<close>

section \<open>Parameters and errors\<close>

record evidence_tools =
  et_loads :: "string \<Rightarrow> json option"
  et_fromisoformat :: "string \<Rightarrow> (bool \<times> time) option"
  et_version :: string
  et_str :: "json \<Rightarrow> string"

datatype evidence_error =
    Integrity string | Undecodable | Not_A_Mapping | Missing_Key string | Missing_File | Not_Ascii

definition required_artifacts :: "string list" where
  "required_artifacts =
    [''actions.json'', ''bundle.json'', ''command.json'', ''graph.json'', ''proof.json'', ''recovery.json'',
     ''run.json'', ''services.json'', ''sibling-check.json'', ''violations.json'', ''worker-output.txt'']"

definition bundle_artifacts :: "(string \<times> string) list" where
  "bundle_artifacts =
    [(''actions.json'', ''actions''), (''command.json'', ''command''), (''graph.json'', ''graph''),
     (''proof.json'', ''proof''), (''recovery.json'', ''recovery''), (''run.json'', ''run''),
     (''services.json'', ''services''), (''sibling-check.json'', ''sibling_check''),
     (''violations.json'', ''violations'')]"

text \<open>\<open>str\<close> of a JSON value.\<close>

fun py_str :: "evidence_tools \<Rightarrow> json \<Rightarrow> string" where
  "py_str T JNull = ''None''"
| "py_str T (JBool b) = (if b then ''True'' else ''False'')"
| "py_str T (JInt i) = show_int i"
| "py_str T (JFloat r) = r"
| "py_str T (JStr s) = s"
| "py_str T (JTime t) = str_datetime t"
| "py_str T v = et_str T v"

definition strip_slashes :: "string \<Rightarrow> string" where
  "strip_slashes s = rev (dropWhile (\<lambda>c. c = CHR ''/'') (rev s))"

section \<open>Keys, Git and signatures\<close>

definition evidence_key :: "env \<Rightarrow> string option \<Rightarrow> evidence_error + string" where
  "evidence_key E explicit =
    (let value = (case explicit of Some v \<Rightarrow> if v \<noteq> [] then v else evidence_signing_key E
                  | None \<Rightarrow> evidence_signing_key E)
     in andthen (require (32 \<le> length value)
          (Integrity ''Evidence signing requires an independent key'')) (\<lambda>_. Inr (utf8 value)))"

definition git_metadata ::
    "bool \<Rightarrow> (string list \<Rightarrow> string option) \<Rightarrow> (string \<Rightarrow> bool) \<Rightarrow> string option \<times> bool option" where
  "git_metadata has_git_dir git is_repo_dir =
    (if \<not> has_git_dir then (None, None)
     else case git [''rev-parse'', ''--show-toplevel''] of
       None \<Rightarrow> (None, None)
     | Some top_level \<Rightarrow>
         if \<not> is_repo_dir top_level then (None, None)
         else (git [''rev-parse'', ''HEAD''],
               map_option (\<lambda>status. status \<noteq> []) (git [''status'', ''--porcelain''])))"

definition validate_evidence_generation ::
    "env \<Rightarrow> string option \<times> bool option \<Rightarrow> string option \<Rightarrow> evidence_error + string" where
  "validate_evidence_generation E git signing_key =
    andthen (evidence_key E signing_key) (\<lambda>key.
    andthen (require (fst git \<noteq> None \<and> fst git \<noteq> Some [])
      (Integrity ''Evidence generation requires a Git repository with a committed HEAD'')) (\<lambda>_.
    andthen (require (snd git = Some False)
      (Integrity ''Evidence generation requires a clean Git worktree'')) (\<lambda>_. Inr key)))"

definition document_signature :: "env \<Rightarrow> string \<Rightarrow> json \<Rightarrow> string" where
  "document_signature E key document =
    hmac_sha256 E key (canonical_json_bytes (without_key ''signature'' document))"

definition key_id :: "env \<Rightarrow> string \<Rightarrow> string" where
  "key_id E key = take 16 (sha256 E key)"

definition signature_field :: "env \<Rightarrow> string \<Rightarrow> json \<Rightarrow> json" where
  "signature_field E key document =
    JObj [(''algorithm'', JStr ''HMAC-SHA256''), (''key_id'', JStr (key_id E key)),
          (''value'', JStr (document_signature E key document))]"

definition signed :: "env \<Rightarrow> string \<Rightarrow> (string \<times> json) list \<Rightarrow> json" where
  "signed E key kvs = JObj (kvs @ [(''signature'', signature_field E key (JObj kvs))])"

definition ascii :: "string \<Rightarrow> bool" where
  "ascii s = list_all (\<lambda>c. (of_char c :: nat) < 128) s"

text \<open>The checks on a signature; \<open>compare_digest\<close> refuses a text that is not ASCII.\<close>

definition check_signature_value :: "env \<Rightarrow> string \<Rightarrow> string \<Rightarrow> json \<Rightarrow> json \<Rightarrow> evidence_error + unit" where
  "check_signature_value E what key signature document =
    (case get_key ''value'' signature of
       JStr supplied \<Rightarrow>
         andthen (require (ascii supplied) Not_Ascii) (\<lambda>_.
         require (supplied = document_signature E key document)
           (Integrity (what @ '' signature is invalid'')))
     | _ \<Rightarrow> Inl (Integrity (what @ '' signature is invalid'')))"

definition signature_supported :: "json \<Rightarrow> bool" where
  "signature_supported signature \<longleftrightarrow>
     is_dict signature \<and> get_key ''algorithm'' signature = JStr ''HMAC-SHA256''"

section \<open>The store\<close>

type_synonym files = "(string \<times> string) list"

record store =
  es_root :: "string list"
  es_dirs :: "(string \<times> files) list"
  es_latest :: "string option"

text \<open>The first free directory name: the time, then the time with a counter.\<close>

definition candidate_name :: "string \<Rightarrow> nat \<Rightarrow> string" where
  "candidate_name base k = (if k = 0 then base else base @ ''-'' @ show_int (int k))"

function free_name :: "string list \<Rightarrow> string \<Rightarrow> nat \<Rightarrow> string" where
  "free_name taken base k =
    (if candidate_name base k \<in> set taken then free_name taken base (Suc k) else candidate_name base k)"
  by pat_completeness auto

lemma candidate_inj: "candidate_name base j = candidate_name base k \<Longrightarrow> j = k"
  by (auto simp: candidate_name_def show_int_def dest: dec_inj split: if_splits)

termination free_name
proof (relation "measure (\<lambda>(taken, base, k). card (set taken \<inter> candidate_name base ` {k..}))", goal_cases)
  case (2 taken base k)
  have "candidate_name base k \<notin> candidate_name base ` {Suc k..}"
    using candidate_inj by fastforce
  moreover have "candidate_name base ` {Suc k..} \<subseteq> candidate_name base ` {k..}"
    by (rule image_mono) auto
  ultimately have "set taken \<inter> candidate_name base ` {Suc k..} \<subset> set taken \<inter> candidate_name base ` {k..}"
    using 2 by auto
  then show ?case by (simp add: psubset_card_mono)
qed simp

declare free_name.simps [simp del]

lemma free_name_free: "free_name taken base k \<notin> set taken"
proof (induction taken base k rule: free_name.induct)
  case (1 taken base k)
  show ?case using 1 by (subst free_name.simps) simp
qed

section \<open>Writing a bundle\<close>

text \<open>Other than \<open>isoformat\<close>, the name of the directory keeps a zero fraction.\<close>

definition directory_name :: "time \<Rightarrow> string" where
  "directory_name t =
    show_date t @ ''T'' @ filter (\<lambda>c. c \<noteq> CHR '':'') (show_clock t) @ ''.'' @ pad 6 (t mod 1000000) @ ''Z''"

definition bundle_entry :: "string \<Rightarrow> json \<Rightarrow> evidence_error + json" where
  "bundle_entry k bundle = demand (field k bundle) (Missing_Key k)"

text \<open>The artifacts in the order they are looked up and written, then the worker output.\<close>

definition json_file :: "json \<Rightarrow> string" where
  "json_file v = canonical_json_bytes v @ [CHR 0x0A]"

definition artifact_values :: "json \<Rightarrow> evidence_error + (string \<times> json) list" where
  "artifact_values bundle =
    andthen (bundle_entry ''run'' bundle) (\<lambda>run.
    andthen (bundle_entry ''command'' bundle) (\<lambda>command.
    andthen (bundle_entry ''recovery'' bundle) (\<lambda>recovery.
    andthen (bundle_entry ''sibling_check'' bundle) (\<lambda>sibling_check.
    andthen (bundle_entry ''proof'' bundle) (\<lambda>proof'.
    andthen (bundle_entry ''graph'' bundle) (\<lambda>graph.
    andthen (bundle_entry ''actions'' bundle) (\<lambda>actions.
    andthen (bundle_entry ''services'' bundle) (\<lambda>services.
    Inr [(''run.json'', run), (''command.json'', command), (''recovery.json'', recovery),
         (''sibling-check.json'', sibling_check), (''proof.json'', proof'), (''graph.json'', graph),
         (''actions.json'', actions), (''services.json'', services),
         (''violations.json'', get_or ''violations'' (JArr []) bundle), (''bundle.json'', bundle)]))))))))"

definition worker_output_file :: "evidence_tools \<Rightarrow> json \<Rightarrow> string" where
  "worker_output_file T bundle = utf8 (py_str T (get_or ''worker_output'' (JStr []) bundle))"

definition file_digests :: "env \<Rightarrow> files \<Rightarrow> json" where
  "file_digests E fs = JObj (map (\<lambda>(name, content). (name, JStr (sha256 E content))) (sort_fields fs))"

definition manifest_fields ::
    "env \<Rightarrow> evidence_tools \<Rightarrow> time \<Rightarrow> string option \<Rightarrow> json \<Rightarrow> json \<Rightarrow> string option \<times> bool option \<Rightarrow> files \<Rightarrow>
     (string \<times> json) list" where
  "manifest_fields E T now live_api_url run_id command_id git fs =
    [(''manifest_version'', JInt 2), (''generated_at'', JStr (isoformat_utc now)),
     (''application_version'', JStr (et_version T)), (''schema_version'', JInt schema_version),
     (''live_api_url'', (case live_api_url of None \<Rightarrow> JNull
        | Some u \<Rightarrow> if u = [] then JNull else JStr (strip_slashes u))),
     (''run_id'', run_id), (''command_id'', command_id),
     (''git'', JObj [(''commit'', jopt JStr (fst git)), (''dirty'', jopt JBool (snd git))]),
     (''files'', file_digests E fs)]"

definition put_dir :: "string \<Rightarrow> files \<Rightarrow> store \<Rightarrow> store" where
  "put_dir name fs st = st\<lparr>es_dirs := (name, fs) # filter (\<lambda>(n, _). n \<noteq> name) (es_dirs st)\<rparr>"

definition pointer_fields :: "env \<Rightarrow> string \<Rightarrow> files \<Rightarrow> string \<Rightarrow> (string \<times> json) list" where
  "pointer_fields E name fs manifest_bytes =
    [(''pointer_version'', JInt 2), (''bundle_dir'', JStr name),
     (''manifest_sha256'', JStr (sha256 E manifest_bytes)),
     (''bundle_sha256'', get_key ''bundle.json'' (file_digests E fs))]"

definition written_files :: "evidence_tools \<Rightarrow> json \<Rightarrow> (string \<times> json) list \<Rightarrow> files" where
  "written_files T bundle parts =
    map (\<lambda>(f, v). (f, json_file v)) parts @ [(''worker-output.txt'', worker_output_file T bundle)]"

definition bundle_ids :: "json \<Rightarrow> evidence_error + json \<times> json" where
  "bundle_ids bundle =
    andthen (demand (Option.bind (field ''run'' bundle) (field ''run_id'')) (Missing_Key ''run_id'')) (\<lambda>run_id.
    andthen (demand (Option.bind (field ''command'' bundle) (field ''command_id''))
      (Missing_Key ''command_id'')) (\<lambda>command_id.
    Inr (run_id, command_id)))"

definition bundle_manifest ::
    "env \<Rightarrow> evidence_tools \<Rightarrow> string \<Rightarrow> time \<Rightarrow> string option \<Rightarrow> string option \<times> bool option \<Rightarrow> files \<Rightarrow>
     json \<times> json \<Rightarrow> json" where
  "bundle_manifest E T key now live_api_url git fs ids =
    signed E key (manifest_fields E T now live_api_url (fst ids) (snd ids) git fs)"

definition bundle_pointer :: "env \<Rightarrow> string \<Rightarrow> string \<Rightarrow> files \<Rightarrow> json \<Rightarrow> json" where
  "bundle_pointer E key name fs manifest = signed E key (pointer_fields E name fs (json_file manifest))"

text \<open>
  \<open>write_evidence_bundle\<close>, with what an error leaves behind: nothing before the directory is made, an
  empty directory when an entry is missing, the artifacts without a manifest when an identity is.
\<close>

definition write_evidence_bundle ::
    "env \<Rightarrow> evidence_tools \<Rightarrow> time \<Rightarrow> json \<Rightarrow> string option \<times> bool option \<Rightarrow> string option \<Rightarrow> string option \<Rightarrow>
     store \<Rightarrow> (evidence_error + unit) \<times> store" where
  "write_evidence_bundle E T now bundle git signing_key live_api_url st =
    (case validate_evidence_generation E git signing_key of
       Inl e \<Rightarrow> (Inl e, st)
     | Inr key \<Rightarrow>
         (let name = free_name (map fst (es_dirs st)) (directory_name now) 0 in
          case artifact_values bundle of
            Inl e \<Rightarrow> (Inl e, put_dir name [] st)
          | Inr parts \<Rightarrow>
              (let fs = written_files T bundle parts in
               case bundle_ids bundle of
                 Inl e \<Rightarrow> (Inl e, put_dir name fs st)
               | Inr ids \<Rightarrow>
                   (let manifest = bundle_manifest E T key now live_api_url git fs ids
                    in (Inr (), (put_dir name (fs @ [(''manifest.json'', json_file manifest)]) st)
                         \<lparr>es_latest := Some (json_file (bundle_pointer E key name fs manifest))\<rparr>)))))"

section \<open>Checking a bundle\<close>

definition load_file :: "evidence_tools \<Rightarrow> string \<Rightarrow> evidence_error + json" where
  "load_file T bytes = demand (Option.bind (read_text bytes) (et_loads T)) Undecodable"

definition need_dict :: "json \<Rightarrow> evidence_error + unit" where
  "need_dict j = require (is_dict j) Not_A_Mapping"

text \<open>\<open>Path(name).name == name\<close>: one path component.\<close>

definition safe_filename :: "string \<Rightarrow> bool" where
  "safe_filename f \<longleftrightarrow> f \<noteq> [] \<and> f \<noteq> ''.'' \<and> CHR ''/'' \<notin> set f"

definition replace_z :: "string \<Rightarrow> string" where
  "replace_z s = concat (map (\<lambda>c. if c = CHR ''Z'' then ''+00:00'' else [c]) s)"

record expectations =
  ex_signing_key :: "string option"
  ex_commit :: "string option"
  ex_max_age_seconds :: "int option"
  ex_live_api_url :: "string option"

definition check_generation_time ::
    "evidence_tools \<Rightarrow> clock \<Rightarrow> expectations \<Rightarrow> json \<Rightarrow> evidence_error + unit" where
  "check_generation_time T clk X manifest =
    (case get_key ''generated_at'' manifest of
       JStr raw \<Rightarrow>
         andthen (demand (et_fromisoformat T (replace_z raw))
           (Integrity ''Evidence manifest generation time is invalid'')) (\<lambda>(aware, generated_at).
         andthen (require aware
           (Integrity ''Evidence manifest generation time must include a timezone'')) (\<lambda>_.
         andthen (require (generated_at \<le> clk 0 + seconds 300)
           (Integrity ''Evidence manifest generation time is in the future'')) (\<lambda>_.
         case ex_max_age_seconds X of
           None \<Rightarrow> Inr ()
         | Some age \<Rightarrow>
             andthen (require (0 < age) (Integrity ''Evidence maximum age must be positive'')) (\<lambda>_.
             require (clk 1 - generated_at \<le> seconds age)
               (Integrity ''Evidence manifest is older than the allowed maximum age'')))))
     | _ \<Rightarrow> Inl (Integrity ''Evidence manifest generation time is missing''))"

definition check_git :: "expectations \<Rightarrow> json \<Rightarrow> evidence_error + unit" where
  "check_git X manifest =
    (let git = get_key ''git'' manifest in
     andthen (require (is_dict git) (Integrity ''Evidence manifest Git metadata is missing'')) (\<lambda>_.
     case get_key ''commit'' git of
       JStr commit \<Rightarrow>
         andthen (require (commit \<noteq> []) (Integrity ''Evidence manifest has no Git commit'')) (\<lambda>_.
         andthen (require (get_key ''dirty'' git = JBool False)
           (Integrity ''Evidence was generated from a dirty or unknown Git tree'')) (\<lambda>_.
         require (ex_commit X = None \<or> ex_commit X = Some commit)
           (Integrity ''Evidence Git commit does not match the expected release commit'')))
     | _ \<Rightarrow> Inl (Integrity ''Evidence manifest has no Git commit'')))"

definition check_signed :: "env \<Rightarrow> string \<Rightarrow> string \<Rightarrow> json \<Rightarrow> evidence_error + unit" where
  "check_signed E what key document =
    (let signature = get_key ''signature'' document in
     andthen (require (signature_supported signature)
       (Integrity (what @ '' signature is missing or unsupported''))) (\<lambda>_.
     andthen (require (get_key ''key_id'' signature = JStr (key_id E key))
       (Integrity (what @ '' was signed by a different key''))) (\<lambda>_.
     check_signature_value E what key signature document)))"

text \<open>The manifest's key is read after its signature block was found supported.\<close>

definition check_manifest_signature :: "env \<Rightarrow> expectations \<Rightarrow> json \<Rightarrow> evidence_error + unit" where
  "check_manifest_signature E X manifest =
    andthen (require (signature_supported (get_key ''signature'' manifest))
      (Integrity ''Evidence manifest signature is missing or unsupported'')) (\<lambda>_.
    andthen (evidence_key E (ex_signing_key X)) (\<lambda>key. check_signed E ''Evidence manifest'' key manifest))"

definition check_file :: "env \<Rightarrow> files \<Rightarrow> string \<times> json \<Rightarrow> unit \<Rightarrow> evidence_error + unit" where
  "check_file E fs entry u =
    (case entry of (name, expected) \<Rightarrow>
      andthen (require (safe_filename name) (Integrity ''Evidence manifest contains an unsafe filename'')) (\<lambda>_.
      andthen (demand (map_of fs name) (Integrity (''Evidence artifact is missing: '' @ name))) (\<lambda>content.
      require (expected = JStr (sha256 E content))
        (Integrity (''Evidence artifact digest mismatch: '' @ name)))))"

definition check_files :: "env \<Rightarrow> files \<Rightarrow> json \<Rightarrow> evidence_error + unit" where
  "check_files E fs manifest =
    (case get_key ''files'' manifest of
       JObj entries \<Rightarrow>
         andthen (require (''bundle.json'' \<in> fst ` set entries)
           (Integrity ''Evidence manifest has no file digest map'')) (\<lambda>_.
         andthen (require (fst ` set entries = set required_artifacts)
           (Integrity ''Evidence manifest does not contain the complete fixed artifact set'')) (\<lambda>_.
         foldm (check_file E fs) entries ()))
     | _ \<Rightarrow> Inl (Integrity ''Evidence manifest has no file digest map''))"

definition file_bytes :: "files \<Rightarrow> string \<Rightarrow> evidence_error + string" where
  "file_bytes fs name = demand (map_of fs name) Missing_File"

definition check_artifact ::
    "evidence_tools \<Rightarrow> files \<Rightarrow> json \<Rightarrow> string \<times> string \<Rightarrow> unit \<Rightarrow> evidence_error + unit" where
  "check_artifact T fs bundle entry u =
    (case entry of (name, k) \<Rightarrow>
      andthen (andthen (file_bytes fs name) (load_file T)) (\<lambda>artifact.
      andthen (need_dict bundle) (\<lambda>_.
      require (json_equal artifact (get_or k (if k = ''violations'' then JArr [] else JNull) bundle))
        (Integrity (''Evidence artifact '' @ name @ '' does not match bundle.json'')))))"

definition check_identity :: "json \<Rightarrow> json \<Rightarrow> string \<Rightarrow> string \<Rightarrow> string \<Rightarrow> evidence_error + unit" where
  "check_identity bundle manifest k ident_key what =
    (let part = get_or k (JObj []) bundle in
     andthen (need_dict part) (\<lambda>_.
     require (json_equal (get_key ident_key part) (get_key ident_key manifest)) (Integrity what)))"

definition check_contents :: "evidence_tools \<Rightarrow> files \<Rightarrow> json \<Rightarrow> evidence_error + unit" where
  "check_contents T fs manifest =
    andthen (andthen (file_bytes fs ''bundle.json'') (load_file T)) (\<lambda>bundle.
    andthen (foldm (check_artifact T fs bundle) bundle_artifacts ()) (\<lambda>_.
    andthen (andthen (file_bytes fs ''worker-output.txt'') (\<lambda>b. demand (read_text b) Undecodable)) (\<lambda>output.
    andthen (require (output = py_str T (get_or ''worker_output'' (JStr []) bundle))
      (Integrity ''Evidence artifact worker-output.txt does not match bundle.json'')) (\<lambda>_.
    andthen (check_identity bundle manifest ''run'' ''run_id'' ''Manifest run ID does not match bundle'') (\<lambda>_.
    check_identity bundle manifest ''command'' ''command_id''
      ''Manifest command ID does not match bundle'')))))"

definition verify_manifest ::
    "env \<Rightarrow> evidence_tools \<Rightarrow> clock \<Rightarrow> expectations \<Rightarrow> files \<Rightarrow> json \<Rightarrow> evidence_error + unit" where
  "verify_manifest E T clk X fs manifest =
    andthen (need_dict manifest) (\<lambda>_.
    andthen (require (json_equal (get_key ''manifest_version'' manifest) (JInt 2))
      (Integrity ''Unsupported or unsigned evidence manifest version'')) (\<lambda>_.
    andthen (require (json_equal (get_key ''schema_version'' manifest) (JInt schema_version))
      (Integrity ''Evidence schema version does not match the running application'')) (\<lambda>_.
    andthen (require (get_key ''application_version'' manifest = JStr (et_version T))
      (Integrity ''Evidence application version does not match the running application'')) (\<lambda>_.
    andthen (require (case ex_live_api_url X of None \<Rightarrow> True
        | Some u \<Rightarrow> get_key ''live_api_url'' manifest = JStr (strip_slashes u))
      (Integrity ''Evidence live API does not match the authenticated verification target'')) (\<lambda>_.
    andthen (check_generation_time T clk X manifest) (\<lambda>_.
    andthen (check_git X manifest) (\<lambda>_.
    andthen (check_manifest_signature E X manifest) (\<lambda>_.
    andthen (check_files E fs manifest) (\<lambda>_.
    check_contents T fs manifest)))))))))"

section \<open>Following the pointer\<close>

fun split_path :: "string \<Rightarrow> string list" where
  "split_path [] = [[]]"
| "split_path (c # cs) =
     (if c = CHR ''/'' then [] # split_path cs
      else (case split_path cs of [] \<Rightarrow> [[c]] | w # ws \<Rightarrow> (c # w) # ws))"

definition path_step :: "string \<Rightarrow> string list \<Rightarrow> string list" where
  "path_step w p = (if w = [] \<or> w = ''.'' then p else if w = ''..'' then butlast p else p @ [w])"

definition resolve_path :: "string list \<Rightarrow> string \<Rightarrow> string list" where
  "resolve_path base name =
    fold path_step (split_path name) (if take 1 name = ''/'' then [] else base)"

definition dir_files :: "store \<Rightarrow> string list \<Rightarrow> files option" where
  "dir_files st p = List.find (\<lambda>_. True) (map snd (filter (\<lambda>(n, _). p = es_root st @ [n]) (es_dirs st)))"

definition follow_pointer ::
    "env \<Rightarrow> evidence_tools \<Rightarrow> clock \<Rightarrow> expectations \<Rightarrow> store \<Rightarrow> json \<Rightarrow>
     evidence_error + string list \<times> json" where
  "follow_pointer E T clk X st pointer =
    andthen (evidence_key E (ex_signing_key X)) (\<lambda>key.
    andthen (check_signed E ''Evidence pointer'' key pointer) (\<lambda>_.
    case get_key ''bundle_dir'' pointer of
      JStr name \<Rightarrow>
        andthen (require (name \<noteq> []) (Integrity ''Evidence pointer has no bundle directory'')) (\<lambda>_.
        let dir = resolve_path (es_root st) name in
        andthen (require (strict_prefix (es_root st) dir)
          (Integrity ''Evidence pointer escapes its root directory'')) (\<lambda>_.
        andthen (demand (Option.bind (dir_files st dir) (\<lambda>fs. map_of fs ''manifest.json''))
          (Integrity ''Evidence manifest is missing'')) (\<lambda>manifest_bytes.
        andthen (require (get_key ''manifest_sha256'' pointer = JStr (sha256 E manifest_bytes))
          (Integrity ''Evidence manifest digest does not match pointer'')) (\<lambda>_.
        andthen (load_file T manifest_bytes) (\<lambda>manifest.
        let fs = the (dir_files st dir) in
        andthen (verify_manifest E T clk X fs manifest) (\<lambda>_.
        andthen (file_bytes fs ''bundle.json'') (\<lambda>bundle_bytes.
        andthen (require (get_key ''bundle_sha256'' pointer = JStr (sha256 E bundle_bytes))
          (Integrity ''Evidence bundle digest does not match pointer'')) (\<lambda>_.
        Inr (dir, manifest)))))))))
    | _ \<Rightarrow> Inl (Integrity ''Evidence pointer has no bundle directory'')))"

definition resolve_evidence_path ::
    "env \<Rightarrow> evidence_tools \<Rightarrow> clock \<Rightarrow> expectations \<Rightarrow> bool \<Rightarrow> store \<Rightarrow>
     evidence_error + (string list \<times> json) option" where
  "resolve_evidence_path E T clk X allow_legacy st =
    andthen (demand (es_latest st) Missing_File) (\<lambda>bytes.
    andthen (load_file T bytes) (\<lambda>value.
    if is_dict value \<and> json_equal (get_key ''pointer_version'' value) (JInt 2)
    then andthen (follow_pointer E T clk X st value) (\<lambda>found. Inr (Some found))
    else andthen (require allow_legacy (Integrity ''Unsigned legacy evidence is not accepted''))
           (\<lambda>_. Inr None)))"

section \<open>What an accepted bundle is\<close>

lemma foldm_unit: "foldm f xs () = Inr u \<longleftrightarrow> (\<forall>x \<in> set xs. f x () = Inr ())"
  by (induction xs) (auto simp: outcome)

lemma check_file_returns:
  "check_file E fs (name, expected) u = Inr v \<longleftrightarrow>
     safe_filename name \<and> (\<exists>content. map_of fs name = Some content \<and> expected = JStr (sha256 E content))"
  by (auto simp: check_file_def outcome)

lemma check_files_returns:
  "check_files E fs manifest = Inr u \<longleftrightarrow>
     (\<exists>entries. get_key ''files'' manifest = JObj entries \<and>
        fst ` set entries = set required_artifacts \<and>
        (\<forall>(name, expected) \<in> set entries. safe_filename name \<and>
           (\<exists>content. map_of fs name = Some content \<and> expected = JStr (sha256 E content))))"
proof -
  have "''bundle.json'' \<in> set required_artifacts" by (simp add: required_artifacts_def)
  then show ?thesis
    by (cases "get_key ''files'' manifest") (auto simp: check_files_def outcome foldm_unit check_file_returns)
qed

lemma check_signed_returns:
  "check_signed E what key document = Inr u \<longleftrightarrow>
     signature_supported (get_key ''signature'' document) \<and>
     get_key ''key_id'' (get_key ''signature'' document) = JStr (key_id E key) \<and>
     ascii (document_signature E key document) \<and>
     get_key ''value'' (get_key ''signature'' document) = JStr (document_signature E key document)"
  by (auto simp: check_signed_def check_signature_value_def Let_def outcome split: json.splits)

lemma check_artifact_returns:
  "check_artifact T fs bundle (name, k) u = Inr v \<longleftrightarrow>
     is_dict bundle \<and> (\<exists>bytes artifact. map_of fs name = Some bytes \<and> load_file T bytes = Inr artifact \<and>
       json_equal artifact (get_or k (if k = ''violations'' then JArr [] else JNull) bundle))"
  by (auto simp: check_artifact_def file_bytes_def need_dict_def outcome)

lemma check_identity_returns:
  "check_identity bundle manifest k ident_key what = Inr u \<longleftrightarrow>
     is_dict (get_or k (JObj []) bundle) \<and>
     json_equal (get_key ident_key (get_or k (JObj []) bundle)) (get_key ident_key manifest)"
  by (simp add: check_identity_def need_dict_def outcome Let_def)

lemma check_contents_returns:
  "check_contents T fs manifest = Inr u \<longleftrightarrow>
    (\<exists>bundle_bytes bundle output_bytes output.
       map_of fs ''bundle.json'' = Some bundle_bytes \<and> load_file T bundle_bytes = Inr bundle \<and>
       (\<forall>entry \<in> set bundle_artifacts. check_artifact T fs bundle entry () = Inr ()) \<and>
       map_of fs ''worker-output.txt'' = Some output_bytes \<and> read_text output_bytes = Some output \<and>
       output = py_str T (get_or ''worker_output'' (JStr []) bundle) \<and>
       check_identity bundle manifest ''run'' ''run_id'' ''Manifest run ID does not match bundle'' = Inr () \<and>
       check_identity bundle manifest ''command'' ''command_id''
         ''Manifest command ID does not match bundle'' = Inr ())"
  by (auto simp: check_contents_def file_bytes_def outcome foldm_unit)

lemma check_git_returns:
  "check_git X manifest = Inr u \<longleftrightarrow>
     (\<exists>commit. is_dict (get_key ''git'' manifest) \<and>
        get_key ''commit'' (get_key ''git'' manifest) = JStr commit \<and> commit \<noteq> [] \<and>
        get_key ''dirty'' (get_key ''git'' manifest) = JBool False \<and>
        (ex_commit X = None \<or> ex_commit X = Some commit))"
  by (auto simp: check_git_def outcome Let_def split: json.splits)

lemma check_generation_time_returns:
  "check_generation_time T clk X manifest = Inr u \<longleftrightarrow>
     (\<exists>raw t. get_key ''generated_at'' manifest = JStr raw \<and>
        et_fromisoformat T (replace_z raw) = Some (True, t) \<and> t \<le> clk 0 + seconds 300 \<and>
        (case ex_max_age_seconds X of None \<Rightarrow> True | Some age \<Rightarrow> 0 < age \<and> clk 1 - t \<le> seconds age))"
  by (auto simp: check_generation_time_def outcome split: json.splits option.splits)

lemma verify_manifest_returns:
  "verify_manifest E T clk X fs manifest = Inr u \<longleftrightarrow>
     is_dict manifest \<and> json_equal (get_key ''manifest_version'' manifest) (JInt 2) \<and>
     json_equal (get_key ''schema_version'' manifest) (JInt schema_version) \<and>
     get_key ''application_version'' manifest = JStr (et_version T) \<and>
     (case ex_live_api_url X of None \<Rightarrow> True
        | Some u \<Rightarrow> get_key ''live_api_url'' manifest = JStr (strip_slashes u)) \<and>
     check_generation_time T clk X manifest = Inr () \<and> check_git X manifest = Inr () \<and>
     (\<exists>key. evidence_key E (ex_signing_key X) = Inr key \<and>
        check_signed E ''Evidence manifest'' key manifest = Inr ()) \<and>
     check_files E fs manifest = Inr () \<and> check_contents T fs manifest = Inr ()"
  by (auto simp: verify_manifest_def check_manifest_signature_def need_dict_def outcome
      check_signed_returns)

lemma follow_pointer_returns:
  "follow_pointer E T clk X st pointer = Inr (dir, manifest) \<longleftrightarrow>
     (\<exists>key name fs manifest_bytes bundle_bytes. evidence_key E (ex_signing_key X) = Inr key \<and>
        check_signed E ''Evidence pointer'' key pointer = Inr () \<and>
        get_key ''bundle_dir'' pointer = JStr name \<and> name \<noteq> [] \<and>
        dir = resolve_path (es_root st) name \<and> strict_prefix (es_root st) dir \<and>
        dir_files st dir = Some fs \<and> map_of fs ''manifest.json'' = Some manifest_bytes \<and>
        get_key ''manifest_sha256'' pointer = JStr (sha256 E manifest_bytes) \<and>
        load_file T manifest_bytes = Inr manifest \<and> verify_manifest E T clk X fs manifest = Inr () \<and>
        map_of fs ''bundle.json'' = Some bundle_bytes \<and>
        get_key ''bundle_sha256'' pointer = JStr (sha256 E bundle_bytes))"
  by (auto simp: follow_pointer_def outcome Let_def file_bytes_def bind_eq_Some_conv
      split: json.splits)

lemma resolve_returns:
  "resolve_evidence_path E T clk X allow st = Inr (Some (dir, manifest)) \<longleftrightarrow>
     (\<exists>bytes pointer. es_latest st = Some bytes \<and> load_file T bytes = Inr pointer \<and> is_dict pointer \<and>
        json_equal (get_key ''pointer_version'' pointer) (JInt 2) \<and>
        follow_pointer E T clk X st pointer = Inr (dir, manifest))"
  by (auto simp: resolve_evidence_path_def outcome split: if_splits)

lemma dir_files_member:
  "dir_files st dir = Some fs \<Longrightarrow> \<exists>name. dir = es_root st @ [name] \<and> (name, fs) \<in> set (es_dirs st)"
  by (auto simp: dir_files_def dest!: find_SomeD)

section \<open>Reading back what was written\<close>

text \<open>The representation of a float has no carriage return; nothing else writes one.\<close>

primrec floats_clean :: "json \<Rightarrow> bool" where
  "floats_clean JNull = True"
| "floats_clean (JBool b) = True"
| "floats_clean (JInt i) = True"
| "floats_clean (JFloat r) = (CHR 0x0D \<notin> set r)"
| "floats_clean (JStr s) = True"
| "floats_clean (JTime t) = True"
| "floats_clean (JArr xs) = list_all id (map floats_clean xs)"
| "floats_clean (JObj kvs) = list_all (\<lambda>(_, ok). ok) (map (map_prod id floats_clean) kvs)"

lemma raw_char_clean: "CHR 0x0D \<notin> set (raw_char c)"
proof -
  have "\<forall>c. CHR 0x0D \<notin> set (raw_char c)"
    by code_simp
  then show ?thesis by blast
qed

lemma raw_quote_clean: "CHR 0x0D \<notin> set (raw_quote s)"
  using raw_char_clean by (auto simp: raw_quote_def)

lemma digit_char_code: "d < 10 \<Longrightarrow> of_char (digit_char d) = 48 + d"
  by (simp add: digit_char_def)

lemma dec_digits: "c \<in> set (dec n) \<Longrightarrow> is_digit c"
proof (induction n rule: dec.induct)
  case (1 n)
  have digit: "is_digit (digit_char d)" if "d < 10" for d
    using digit_char_code [OF that] that by (simp add: is_digit_def)
  show ?case
    using 1 digit [of n] digit [of "n mod 10"] by (subst (asm) dec.simps) (auto split: if_splits)
qed

lemma show_int_clean: "CHR 0x0D \<notin> set (show_int i)"
proof -
  have "\<not> is_digit (CHR 0x0D)" by (simp add: is_digit_def)
  then show ?thesis using dec_digits by (auto simp: show_int_def)
qed

lemma join_clean: "x \<notin> set sep \<Longrightarrow> \<forall>s \<in> set ss. x \<notin> set s \<Longrightarrow> x \<notin> set (join sep ss)"
  by (induction sep ss rule: join.induct) auto

lemma canonical_clean: "floats_clean v \<Longrightarrow> CHR 0x0D \<notin> set (canonical_json v)"
proof (induction v)
  case (JArr xs)
  then have "CHR 0x0D \<notin> set (join '','' (map canonical_json xs))"
    by (intro join_clean) (auto simp: list_all_iff)
  then show ?case by simp
next
  case (JObj kvs)
  have parts: "CHR 0x0D \<notin> set (canonical_json v)" if "(k, v) \<in> set kvs" for k v
    using that JObj by (force simp: list_all_iff snds.simps)
  have "CHR 0x0D \<notin> set (join '','' (map (\<lambda>(k, v). raw_quote k @ '':'' @ v)
       (sort_fields (map (map_prod id canonical_json) kvs))))"
    using parts raw_quote_clean by (intro join_clean) (auto simp: sort_fields_def)
  then show ?case by simp
qed (simp_all add: show_int_clean raw_quote_clean)

lemma sorted_clean: "floats_clean v \<Longrightarrow> floats_clean (sorted_json v)"
proof (induction v)
  case (JArr xs)
  then show ?case by (auto simp: list_all_iff)
next
  case (JObj kvs)
  then show ?case by (force simp: list_all_iff sort_fields_def snds.simps)
qed simp_all

text \<open>What \<open>json.loads\<close> is relied on for: it reads back the text \<open>json.dumps\<close> wrote.\<close>

definition reads_back :: "evidence_tools \<Rightarrow> json \<Rightarrow> bool" where
  "reads_back T v \<longleftrightarrow> et_loads T (canonical_json v @ [CHR 0x0A]) = Some (sorted_json v)"

lemma utf8_append: "utf8 (s @ t) = utf8 s @ utf8 t"
  by (simp add: utf8_def)

lemma json_file_text: "json_file v = utf8 (canonical_json v @ [CHR 0x0A])"
  by (simp add: json_file_def canonical_json_bytes_def utf8_append) (simp add: utf8_def utf8_char_def)

lemma load_written:
  assumes "floats_clean v" and "reads_back T v"
  shows "load_file T (json_file v) = Inr (sorted_json v)"
proof -
  have "CHR 0x0D \<notin> set (canonical_json v @ [CHR 0x0A])" using canonical_clean [OF assms(1)] by simp
  then have "read_text (json_file v) = Some (canonical_json v @ [CHR 0x0A])"
    unfolding json_file_text read_text_written by (simp add: universal_newlines_plain)
  then show ?thesis using assms(2) by (simp add: load_file_def reads_back_def)
qed

lemma get_signed:
  "k \<noteq> ''signature'' \<Longrightarrow> get_key k (sorted_json (signed E key kvs)) = sorted_json (get_key k (JObj kvs))"
  unfolding get_key_sorted
  by (rule arg_cong [where f = sorted_json])
    (simp add: get_key_def get_or_def signed_def field_def map_add_def split: option.split)

lemma is_dict_sorted [simp]: "is_dict (sorted_json j) = is_dict j"
  by (cases j) (simp_all add: is_dict_def)

lemma signature_written:
  assumes "''signature'' \<notin> fst ` set kvs" and "ascii (document_signature E key (JObj kvs))"
  shows "check_signed E what key (sorted_json (signed E key kvs)) = Inr ()"
proof -
  have "map_of kvs ''signature'' = None" using assms(1) by (simp add: map_of_eq_None_iff)
  then have sig: "get_key ''signature'' (sorted_json (signed E key kvs)) =
      sorted_json (signature_field E key (JObj kvs))"
    unfolding get_key_sorted by (simp add: get_key_def get_or_def signed_def field_def map_add_def)
  have "filter (\<lambda>(name, _). name \<noteq> ''signature'') kvs = kvs"
    using assms(1) by (intro filter_True) force
  then have "without_key ''signature'' (signed E key kvs) = JObj kvs"
    by (simp add: signed_def without_key_def)
  then have doc: "document_signature E key (sorted_json (signed E key kvs)) = document_signature E key (JObj kvs)"
  proof -
    have "without_key ''signature'' (JObj kvs) = JObj kvs"
      using \<open>filter (\<lambda>(name, _). name \<noteq> ''signature'') kvs = kvs\<close> by (simp add: without_key_def)
    then show ?thesis
      using \<open>without_key ''signature'' (signed E key kvs) = JObj kvs\<close>
      by (simp only: document_signature_def without_key_sorted canonical_json_bytes_def canonical_sorted)
  qed
  have "get_key k (sorted_json (signature_field E key (JObj kvs))) =
      sorted_json (get_key k (signature_field E key (JObj kvs)))" for k
    by (rule get_key_sorted)
  then show ?thesis
    using assms(2)
    by (simp add: check_signed_returns sig doc signature_supported_def)
      (simp add: signature_field_def is_dict_def get_key_def get_or_def field_def)
qed

section \<open>Where the bundle is put\<close>

lemma free_name_candidate: "\<exists>j. free_name taken base k = candidate_name base j"
proof (induction taken base k rule: free_name.induct)
  case (1 taken base k)
  show ?case using 1 by (subst free_name.simps) auto
qed

definition name_char :: "char \<Rightarrow> bool" where
  "name_char c \<longleftrightarrow> is_digit c \<or> c \<in> {CHR ''-'', CHR ''T'', CHR ''.'', CHR ''Z''}"

lemma pad_chars: "c \<in> set (pad w i) \<Longrightarrow> name_char c"
proof -
  have "is_digit (CHR ''0'')" by (simp add: is_digit_def)
  then show "c \<in> set (pad w i) \<Longrightarrow> ?thesis"
    using dec_digits by (auto simp: pad_def Let_def name_char_def split: if_splits)
qed

lemma directory_name_chars: "c \<in> set (directory_name t) \<Longrightarrow> name_char c"
proof -
  have "c \<in> set (show_date t) \<Longrightarrow> name_char c"
    using pad_chars by (auto simp: show_date_def name_char_def split: prod.splits)
  moreover have "c \<in> set (show_clock t) \<Longrightarrow> c \<noteq> CHR '':'' \<Longrightarrow> name_char c"
    using pad_chars by (auto simp: show_clock_def Let_def)
  ultimately show "c \<in> set (directory_name t) \<Longrightarrow> ?thesis"
    using pad_chars [of c 6] by (auto simp: directory_name_def) (auto simp: name_char_def)
qed

lemma candidate_chars: "c \<in> set (candidate_name (directory_name t) k) \<Longrightarrow> name_char c"
  using directory_name_chars dec_digits
  by (auto simp: candidate_name_def show_int_def name_char_def split: if_splits)

lemma split_path_plain: "CHR ''/'' \<notin> set s \<Longrightarrow> split_path s = [s]"
  by (induction s) auto

lemma resolve_candidate:
  assumes "name = free_name taken (directory_name t) k"
  shows "resolve_path base name = base @ [name]" and "name \<noteq> []"
proof -
  obtain j where j: "name = candidate_name (directory_name t) j"
    using free_name_candidate assms by metis
  have "CHR ''T'' \<in> set name" by (simp add: j candidate_name_def directory_name_def)
  then have plain: "name \<noteq> []" "name \<noteq> ''.''" "name \<noteq> ''..''" by auto
  have "\<not> name_char (CHR ''/'')" by (simp add: name_char_def is_digit_def)
  then have slash: "CHR ''/'' \<notin> set name" using candidate_chars j by blast
  then have "take 1 name \<noteq> ''/''" by (cases name) auto
  then show "resolve_path base name = base @ [name]"
    using plain slash by (simp add: resolve_path_def split_path_plain path_step_def)
  show "name \<noteq> []" by (rule plain(1))
qed

lemma dir_files_put: "dir_files (put_dir name fs st) (es_root st @ [name]) = Some fs"
  by (simp add: dir_files_def put_dir_def)

lemma put_dir_root [simp]: "es_root (put_dir name fs st) = es_root st"
  by (simp add: put_dir_def)

section \<open>The files that were written\<close>

lemma artifact_values_returns:
  assumes "artifact_values bundle = Inr parts"
  shows "fst ` set parts = set required_artifacts - {''worker-output.txt''}"
    and "\<And>f k. (f, k) \<in> set bundle_artifacts \<Longrightarrow>
      map_of parts f = Some (get_or k (if k = ''violations'' then JArr [] else JNull) bundle)"
    and "map_of parts ''bundle.json'' = Some bundle" and "is_dict bundle"
    and "distinct (map fst parts)"
proof -
  obtain run command recovery sibling proof' graph actions services where
    f: "field ''run'' bundle = Some run" "field ''command'' bundle = Some command"
      "field ''recovery'' bundle = Some recovery" "field ''sibling_check'' bundle = Some sibling"
      "field ''proof'' bundle = Some proof'" "field ''graph'' bundle = Some graph"
      "field ''actions'' bundle = Some actions" "field ''services'' bundle = Some services"
    and v: "parts = [(''run.json'', run), (''command.json'', command), (''recovery.json'', recovery),
         (''sibling-check.json'', sibling), (''proof.json'', proof'), (''graph.json'', graph),
         (''actions.json'', actions), (''services.json'', services),
         (''violations.json'', get_or ''violations'' (JArr []) bundle), (''bundle.json'', bundle)]"
    using assms by (auto simp: artifact_values_def bundle_entry_def outcome)
  show "fst ` set parts = set required_artifacts - {''worker-output.txt''}"
    by (auto simp: v required_artifacts_def)
  show "map_of parts f = Some (get_or k (if k = ''violations'' then JArr [] else JNull) bundle)"
    if "(f, k) \<in> set bundle_artifacts" for f k
  proof -
    have "list_all (\<lambda>(f, k). map_of parts f =
        Some (get_or k (if k = ''violations'' then JArr [] else JNull) bundle)) bundle_artifacts"
      by (simp add: v bundle_artifacts_def get_or_def f)
    then show ?thesis using that by (auto simp: list_all_iff)
  qed
  show "map_of parts ''bundle.json'' = Some bundle" by (simp add: v)
  show "is_dict bundle" using f(1) by (auto simp: field_def is_dict_def split: json.splits)
  show "distinct (map fst parts)" by (simp add: v)
qed

lemma field_clean: "floats_clean j \<Longrightarrow> field k j = Some v \<Longrightarrow> floats_clean v"
  by (cases j) (auto simp: field_def list_all_iff dest!: map_of_SomeD)

lemma get_or_clean: "floats_clean j \<Longrightarrow> floats_clean d \<Longrightarrow> floats_clean (get_or k d j)"
  using field_clean by (auto simp: get_or_def split: option.split)

lemma written_map_of:
  "map_of (written_files T bundle parts @ rest) f =
    (case map_of parts f of Some v \<Rightarrow> Some (json_file v)
     | None \<Rightarrow> if f = ''worker-output.txt'' then Some (worker_output_file T bundle) else map_of rest f)"
proof -
  have "map_of (map (\<lambda>(f, v). (f, json_file v)) parts) f = map_option json_file (map_of parts f)"
    by (induction parts) auto
  then show ?thesis
    by (auto simp: written_files_def map_add_def split: option.split)
qed

lemma written_contents_ok:
  assumes parts: "artifact_values bundle = Inr parts"
    and clean: "floats_clean bundle" and back': "\<forall>v \<in> snd ` set parts. reads_back T v"
    and printed: "get_or ''worker_output'' (JStr []) bundle = JStr text" "CHR 0x0D \<notin> set text"
    and ids: "Option.bind (field ''run'' bundle) (field ''run_id'') = Some run_id"
      "Option.bind (field ''command'' bundle) (field ''command_id'') = Some command_id"
    and manifest: "get_key ''run_id'' manifest = sorted_json run_id"
      "get_key ''command_id'' manifest = sorted_json command_id"
  shows "check_contents T (written_files T bundle parts @ rest) manifest = Inr ()"
proof -
  let ?fs = "written_files T bundle parts @ rest"
  note p = artifact_values_returns [OF parts]
  have load: "map_of ?fs f = Some (json_file v) \<and> load_file T (json_file v) = Inr (sorted_json v)"
    if "map_of parts f = Some v" "floats_clean v" for f v
  proof
    show "map_of ?fs f = Some (json_file v)" unfolding written_map_of using that by simp
    have "reads_back T v" using that back' by (force dest: map_of_SomeD)
    then show "load_file T (json_file v) = Inr (sorted_json v)" by (rule load_written [OF that(2)])
  qed
  have "check_artifact T ?fs (sorted_json bundle) (f, k) () = Inr ()" if "(f, k) \<in> set bundle_artifacts" for f k
  proof -
    let ?d = "if k = ''violations'' then JArr [] else JNull"
    have "floats_clean (get_or k ?d bundle)" using clean by (intro get_or_clean) auto
    note l = load [OF p(2) [OF that] this]
    have "get_or k ?d (sorted_json bundle) = sorted_json (get_or k ?d bundle)"
      using get_or_sorted [of k ?d "bundle"] by (auto simp: sort_fields_def split: if_splits)
    then show ?thesis using l p(4) by (auto simp: check_artifact_returns json_equal_def)
  qed
  moreover have "read_text (worker_output_file T bundle) = Some text"
    using printed by (simp add: worker_output_file_def read_text_written universal_newlines_plain)
  moreover have "map_of ?fs ''worker-output.txt'' = Some (worker_output_file T bundle)"
  proof -
    have "map_of parts ''worker-output.txt'' = None"
      using p(1) by (simp add: map_of_eq_None_iff)
    then show ?thesis unfolding written_map_of by simp
  qed
  moreover have "py_str T (get_or ''worker_output'' (JStr []) (sorted_json bundle)) = text"
    using get_or_sorted [of "''worker_output''" "JStr []" "bundle"] printed by simp
  moreover have "check_identity (sorted_json bundle) manifest k ident_key what = Inr ()"
    if found: "Option.bind (field k bundle) (field ident_key) = Some i" and same: "get_key ident_key manifest = sorted_json i"
    for k ident_key what i
  proof -
    obtain v where v: "field k bundle = Some v" "field ident_key v = Some i"
      using found by (auto simp: bind_eq_Some_conv)
    then have "is_dict v" by (auto simp: field_def is_dict_def split: json.splits)
    then show ?thesis
      using v same
      by (simp add: check_identity_returns get_or_def get_key_def field_sorted json_equal_def)
  qed
  ultimately show ?thesis
    using load [OF p(3) clean] ids manifest by (auto simp: check_contents_returns)
qed

lemma written_files_names:
  "artifact_values bundle = Inr parts \<Longrightarrow> fst ` set (written_files T bundle parts) = set required_artifacts"
  using artifact_values_returns(1) [of "bundle" parts]
  by (auto simp: written_files_def required_artifacts_def image_image case_prod_beta)

lemma written_files_ok:
  assumes "artifact_values bundle = Inr parts"
    and "get_key ''files'' manifest = sorted_json (file_digests E (written_files T bundle parts))"
  shows "check_files E (written_files T bundle parts @ rest) manifest = Inr ()"
proof -
  let ?fs = "written_files T bundle parts"
  have "distinct (map fst ?fs)"
    using artifact_values_returns(1,5) [OF assms(1)]
    by (auto simp: written_files_def distinct_map comp_def case_prod_beta inj_on_def)
  then have lookup: "map_of (?fs @ rest) f = Some c" if "(f, c) \<in> set ?fs" for f c
    using that by (simp add: map_add_def)
  have safe: "safe_filename f" if "f \<in> set required_artifacts" for f
    using that by (auto simp: required_artifacts_def safe_filename_def)
  have "sorted_json (file_digests E ?fs) =
      JObj (sort_fields (map (\<lambda>(f, c). (f, JStr (sha256 E c))) (sort_fields ?fs)))"
    by (simp add: file_digests_def case_prod_beta' comp_def map_prod_def)
  then show ?thesis
    using assms(2) lookup safe written_files_names [OF assms(1), of T]
    by (force simp: check_files_returns sort_fields_def image_image case_prod_beta)
qed

section \<open>The whole round trip\<close>

text \<open>The JSON values whose text a write puts into the store.\<close>

definition written_values ::
    "env \<Rightarrow> evidence_tools \<Rightarrow> time \<Rightarrow> json \<Rightarrow> string option \<times> bool option \<Rightarrow> string option \<Rightarrow> string option \<Rightarrow>
     store \<Rightarrow> json list" where
  "written_values E T now bundle git signing_key live_api_url st =
    (case (validate_evidence_generation E git signing_key, artifact_values bundle, bundle_ids bundle) of
       (Inr key, Inr parts, Inr ids) \<Rightarrow>
         (let name = free_name (map fst (es_dirs st)) (directory_name now) 0;
              fs = written_files T bundle parts;
              manifest = bundle_manifest E T key now live_api_url git fs ids
          in map snd parts @ [manifest, bundle_pointer E key name fs manifest])
     | _ \<Rightarrow> [])"

lemma write_returns:
  assumes "write_evidence_bundle E T now bundle git signing_key live_api_url st = (Inr u, st')"
  obtains key parts ids name fs manifest where
    "validate_evidence_generation E git signing_key = Inr key" "artifact_values bundle = Inr parts"
    "bundle_ids bundle = Inr ids" "name = free_name (map fst (es_dirs st)) (directory_name now) 0"
    "fs = written_files T bundle parts" "manifest = bundle_manifest E T key now live_api_url git fs ids"
    "st' = (put_dir name (fs @ [(''manifest.json'', json_file manifest)]) st)
       \<lparr>es_latest := Some (json_file (bundle_pointer E key name fs manifest))\<rparr>"
    "set (written_values E T now bundle git signing_key live_api_url st) =
       snd ` set parts \<union> {manifest, bundle_pointer E key name fs manifest}"
  using assms
  by (auto simp: write_evidence_bundle_def written_values_def Let_def split: sum.splits)

text \<open>What the checker is told agrees with what was written.\<close>

definition expected_by :: "env \<Rightarrow> string option \<Rightarrow> string option \<Rightarrow> string option \<Rightarrow> expectations \<Rightarrow> bool" where
  "expected_by E signing_key commit live_api_url X \<longleftrightarrow>
     evidence_key E (ex_signing_key X) = evidence_key E signing_key \<and>
     (ex_commit X = None \<or> ex_commit X = commit) \<and>
     (\<forall>u. ex_live_api_url X = Some u \<longrightarrow>
        (\<exists>w. live_api_url = Some w \<and> w \<noteq> [] \<and> strip_slashes w = strip_slashes u))"

definition timely :: "evidence_tools \<Rightarrow> clock \<Rightarrow> time \<Rightarrow> expectations \<Rightarrow> bool" where
  "timely T clk now X \<longleftrightarrow>
     et_fromisoformat T (replace_z (isoformat_utc now)) = Some (True, now) \<and> now \<le> clk 0 + seconds 300 \<and>
     (\<forall>age. ex_max_age_seconds X = Some age \<longrightarrow> 0 < age \<and> clk 1 - now \<le> seconds age)"

lemma manifest_keys [simp]:
  "''signature'' \<notin> fst ` set (manifest_fields E T now url run_id command_id git fs)"
  "''signature'' \<notin> fst ` set (pointer_fields E name fs bytes)"
  by (simp_all add: manifest_fields_def pointer_fields_def)

lemma manifest_gets:
  assumes "M = sorted_json (bundle_manifest E T key now url git fs ids)"
  shows "get_key ''manifest_version'' M = JInt 2" "get_key ''schema_version'' M = JInt schema_version"
    "get_key ''application_version'' M = JStr (et_version T)"
    "get_key ''live_api_url'' M = (case url of None \<Rightarrow> JNull
        | Some u \<Rightarrow> if u = [] then JNull else JStr (strip_slashes u))"
    "get_key ''generated_at'' M = JStr (isoformat_utc now)"
    "get_key ''run_id'' M = sorted_json (fst ids)" "get_key ''command_id'' M = sorted_json (snd ids)"
    "get_key ''git'' M = sorted_json (JObj [(''commit'', jopt JStr (fst git)), (''dirty'', jopt JBool (snd git))])"
    "get_key ''files'' M = sorted_json (file_digests E fs)" "is_dict M"
proof -
  have get: "get_key k M = sorted_json (get_key k (JObj (manifest_fields E T now url (fst ids) (snd ids) git fs)))"
    if "k \<noteq> ''signature''" for k
    unfolding assms bundle_manifest_def by (rule get_signed [OF that])
  show "get_key ''manifest_version'' M = JInt 2" "get_key ''schema_version'' M = JInt schema_version"
    "get_key ''application_version'' M = JStr (et_version T)"
    "get_key ''live_api_url'' M = (case url of None \<Rightarrow> JNull
        | Some u \<Rightarrow> if u = [] then JNull else JStr (strip_slashes u))"
    "get_key ''generated_at'' M = JStr (isoformat_utc now)"
    "get_key ''run_id'' M = sorted_json (fst ids)" "get_key ''command_id'' M = sorted_json (snd ids)"
    "get_key ''git'' M = sorted_json (JObj [(''commit'', jopt JStr (fst git)), (''dirty'', jopt JBool (snd git))])"
    "get_key ''files'' M = sorted_json (file_digests E fs)"
    by (simp_all add: get, simp_all add: get_key_def get_or_def field_def manifest_fields_def split: option.split)
  show "is_dict M" by (simp add: assms bundle_manifest_def signed_def is_dict_def)
qed

lemma git_written:
  assumes "git = (Some c, Some False)" and "c \<noteq> []" and "ex_commit X = None \<or> ex_commit X = Some c"
    and "get_key ''git'' M = sorted_json (JObj [(''commit'', jopt JStr (fst git)), (''dirty'', jopt JBool (snd git))])"
  shows "check_git X M = Inr ()"
proof -
  have "get_key k (get_key ''git'' M) = sorted_json (get_key k (JObj [(''commit'', JStr c), (''dirty'', JBool False)]))"
    for k
    using assms(1,4) by (simp only: get_key_sorted fst_conv snd_conv jopt_def option.case)
  then show ?thesis
    using assms by (auto simp: check_git_returns is_dict_def get_key_def get_or_def field_def)
qed

lemma validated_generation:
  "validate_evidence_generation E git signing_key = Inr key \<longleftrightarrow>
     evidence_key E signing_key = Inr key \<and> (\<exists>c. git = (Some c, Some False) \<and> c \<noteq> [])"
  by (cases git) (auto simp: validate_evidence_generation_def outcome)

lemma digests_clean: "floats_clean (file_digests E fs)"
  by (simp add: file_digests_def list_all_iff case_prod_beta)

lemma signed_clean: "floats_clean (JObj kvs) \<Longrightarrow> floats_clean (signed E key kvs)"
  by (simp add: signed_def signature_field_def)

lemma written_clean:
  assumes "floats_clean (fst ids)" and "floats_clean (snd ids)"
  shows "floats_clean (bundle_manifest E T key now url git fs ids)"
    and "floats_clean (bundle_pointer E key name fs manifest)"
proof -
  show "floats_clean (bundle_manifest E T key now url git fs ids)"
    unfolding bundle_manifest_def using assms digests_clean
    by (intro signed_clean) (simp add: manifest_fields_def jopt_def split: option.split)
  have "floats_clean (get_key ''bundle.json'' (file_digests E fs))"
    using get_or_clean [OF digests_clean] by (simp add: get_key_def)
  then show "floats_clean (bundle_pointer E key name fs manifest)"
    unfolding bundle_pointer_def by (intro signed_clean) (simp add: pointer_fields_def)
qed

lemma bundle_ids_returns:
  "bundle_ids bundle = Inr ids \<longleftrightarrow>
     Option.bind (field ''run'' bundle) (field ''run_id'') = Some (fst ids) \<and>
     Option.bind (field ''command'' bundle) (field ''command_id'') = Some (snd ids)"
  by (cases ids) (auto simp: bundle_ids_def outcome)

lemma bundle_ids_clean:
  "bundle_ids bundle = Inr ids \<Longrightarrow> floats_clean bundle \<Longrightarrow> floats_clean (fst ids) \<and> floats_clean (snd ids)"
  unfolding bundle_ids_returns bind_eq_Some_conv using field_clean by blast

lemma artifact_parts_clean:
  assumes "artifact_values bundle = Inr parts" and "floats_clean bundle"
  shows "\<forall>v \<in> snd ` set parts. floats_clean v"
  using assms field_clean [OF assms(2)] get_or_clean [OF assms(2), of "JArr []"]
  by (auto simp: artifact_values_def bundle_entry_def outcome)

lemma verify_written:
  assumes key: "validate_evidence_generation E git signing_key = Inr key"
    and parts: "artifact_values bundle = Inr parts" and ids: "bundle_ids bundle = Inr ids"
    and manifest: "manifest = bundle_manifest E T key now url git (written_files T bundle parts) ids"
    and clean: "floats_clean bundle" and reads: "\<forall>v \<in> snd ` set parts. reads_back T v"
    and printed: "get_or ''worker_output'' (JStr []) bundle = JStr text" "CHR 0x0D \<notin> set text"
    and hex: "\<forall>k m. ascii (hmac_sha256 E k m)"
    and X: "expected_by E signing_key (fst git) url X" and clock: "timely T clk now X"
  shows "verify_manifest E T clk X (written_files T bundle parts @ rest) (sorted_json manifest) = Inr ()"
proof -
  let ?M = "sorted_json manifest" and ?fs = "written_files T bundle parts"
  note get = manifest_gets [OF arg_cong [where f = sorted_json, OF manifest]]
  obtain c where git: "git = (Some c, Some False)" "c \<noteq> []" and k: "evidence_key E signing_key = Inr key"
    using key by (auto simp: validated_generation)
  have 1: "check_git X ?M = Inr ()"
    by (rule git_written [OF git _ get(8)]) (use X git in \<open>simp add: expected_by_def\<close>)
  have 2: "check_generation_time T clk X ?M = Inr ()"
    using clock by (auto simp: check_generation_time_returns get timely_def split: option.split)
  have 3: "check_signed E ''Evidence manifest'' key ?M = Inr ()"
    unfolding manifest bundle_manifest_def
    by (rule signature_written) (use hex in \<open>simp_all add: document_signature_def\<close>)
  have 4: "check_files E (?fs @ rest) ?M = Inr ()"
    by (rule written_files_ok [OF parts get(9)])
  have 5: "check_contents T (?fs @ rest) ?M = Inr ()"
    using ids by (intro written_contents_ok [OF parts clean reads printed _ _ get(6,7)])
      (simp_all add: bundle_ids_returns)
  have "evidence_key E (ex_signing_key X) = Inr key" using X k by (simp add: expected_by_def)
  moreover have "case ex_live_api_url X of None \<Rightarrow> True
      | Some u \<Rightarrow> get_key ''live_api_url'' ?M = JStr (strip_slashes u)"
    using X by (auto simp: expected_by_def get split: option.split)
  ultimately show ?thesis
    using 1 2 3 4 5 get by (auto simp: verify_manifest_returns json_equal_def)
qed

lemma pointer_gets:
  assumes "P = sorted_json (bundle_pointer E key name fs manifest)"
  shows "get_key ''bundle_dir'' P = JStr name" "get_key ''pointer_version'' P = JInt 2"
    "get_key ''manifest_sha256'' P = JStr (sha256 E (json_file manifest))"
    "get_key ''bundle_sha256'' P = sorted_json (get_key ''bundle.json'' (file_digests E fs))"
proof -
  have "get_key k P = sorted_json (get_key k (JObj (pointer_fields E name fs (json_file manifest))))"
    if "k \<noteq> ''signature''" for k
    unfolding assms bundle_pointer_def by (rule get_signed [OF that])
  then show "get_key ''bundle_dir'' P = JStr name" "get_key ''pointer_version'' P = JInt 2"
    "get_key ''manifest_sha256'' P = JStr (sha256 E (json_file manifest))"
    "get_key ''bundle_sha256'' P = sorted_json (get_key ''bundle.json'' (file_digests E fs))"
    by (simp_all, simp_all add: get_key_def get_or_def field_def pointer_fields_def)
qed

lemma written_lookups:
  assumes parts: "artifact_values bundle = Inr parts" and fs: "fs = written_files T bundle parts"
  shows "map_of (fs @ [(''manifest.json'', m)]) ''bundle.json'' = Some (json_file bundle)"
    and "map_of (fs @ [(''manifest.json'', m)]) ''manifest.json'' = Some m"
    and "get_key ''bundle.json'' (file_digests E fs) = JStr (sha256 E (json_file bundle))"
proof -
  have "map_of parts ''manifest.json'' = None"
    using artifact_values_returns(1) [OF parts] by (simp add: map_of_eq_None_iff required_artifacts_def)
  then show "map_of (fs @ [(''manifest.json'', m)]) ''manifest.json'' = Some m"
    unfolding fs written_map_of by simp
  show "map_of (fs @ [(''manifest.json'', m)]) ''bundle.json'' = Some (json_file bundle)"
    unfolding fs written_map_of using artifact_values_returns(3) [OF parts] by simp
  have lookup: "map_of fs ''bundle.json'' = Some (json_file bundle)"
    using written_map_of [of T "bundle" parts "[]"] artifact_values_returns(3) [OF parts] by (simp add: fs)
  have mapped: "map_of (map (\<lambda>(f, c). (f, JStr (sha256 E c))) xs) f =
      map_option (\<lambda>c. JStr (sha256 E c)) (map_of xs f)" for xs f
    by (induction xs) auto
  have "map_of (map (\<lambda>(f, c). (f, JStr (sha256 E c))) (sort_fields fs)) ''bundle.json'' =
      Some (JStr (sha256 E (json_file bundle)))"
    by (simp only: mapped map_of_sort_fields lookup option.map)
  then show "get_key ''bundle.json'' (file_digests E fs) = JStr (sha256 E (json_file bundle))"
    by (simp add: get_key_def get_or_def field_def file_digests_def)
qed

lemma written_accepted:
  assumes wrote: "write_evidence_bundle E T now bundle git signing_key url st = (Inr u, st')"
    and clean: "floats_clean bundle"
    and reads: "\<forall>v \<in> set (written_values E T now bundle git signing_key url st). reads_back T v"
    and printed: "get_or ''worker_output'' (JStr []) bundle = JStr text" "CHR 0x0D \<notin> set text"
    and hex: "\<forall>k m. ascii (hmac_sha256 E k m)"
    and X: "expected_by E signing_key (fst git) url X" and clock: "timely T clk now X"
  shows "\<exists>name manifest. resolve_evidence_path E T clk X legacy st' = Inr (Some (es_root st @ [name], manifest)) \<and>
    name \<notin> fst ` set (es_dirs st)"
proof -
  obtain key parts ids name fs manifest where
    key: "validate_evidence_generation E git signing_key = Inr key"
    and parts: "artifact_values bundle = Inr parts" and ids: "bundle_ids bundle = Inr ids"
    and name: "name = free_name (map fst (es_dirs st)) (directory_name now) 0"
    and fs: "fs = written_files T bundle parts"
    and manifest: "manifest = bundle_manifest E T key now url git fs ids"
    and st': "st' = (put_dir name (fs @ [(''manifest.json'', json_file manifest)]) st)
       \<lparr>es_latest := Some (json_file (bundle_pointer E key name fs manifest))\<rparr>"
    and vals: "set (written_values E T now bundle git signing_key url st) =
       snd ` set parts \<union> {manifest, bundle_pointer E key name fs manifest}"
    by (rule write_returns [OF wrote])
  let ?P = "bundle_pointer E key name fs manifest" and ?files = "fs @ [(''manifest.json'', json_file manifest)]"
  have rb: "\<forall>v \<in> snd ` set parts. reads_back T v" "reads_back T manifest" "reads_back T ?P"
    using reads vals by auto
  have cl: "floats_clean manifest" "floats_clean ?P"
    using written_clean bundle_ids_clean [OF ids clean] manifest by blast+
  have k: "evidence_key E (ex_signing_key X) = Inr key"
    using X key by (simp add: expected_by_def validated_generation)
  have sig: "check_signed E ''Evidence pointer'' key (sorted_json ?P) = Inr ()"
    unfolding bundle_pointer_def by (rule signature_written) (use hex in \<open>simp_all add: document_signature_def\<close>)
  note fields = pointer_gets [OF refl, of E key name fs manifest] and lookup = written_lookups [OF parts fs]
  have verified: "verify_manifest E T clk X ?files (sorted_json manifest) = Inr ()"
    unfolding fs by (rule verify_written [OF key parts ids manifest [unfolded fs] clean rb(1) printed hex X clock])
  have dirs: "dir_files st' (es_root st @ [name]) = Some ?files"
    using dir_files_put [of name ?files st] by (simp add: st' dir_files_def)
  have root': "es_root st' = es_root st" by (simp add: st')
  have inside: "strict_prefix (es_root st) (es_root st @ [name])" by (simp add: strict_prefix_def)
  note path = resolve_candidate(1) [OF name, of "es_root st"] resolve_candidate(2) [OF name]
  have "follow_pointer E T clk X st' (sorted_json ?P) = Inr (es_root st @ [name], sorted_json manifest)"
    unfolding follow_pointer_returns root'
    using k sig fields inside path dirs lookup load_written [OF cl(1) rb(2)] verified by auto
  moreover have "load_file T (json_file ?P) = Inr (sorted_json ?P)" by (rule load_written [OF cl(2) rb(3)])
  moreover have "is_dict (sorted_json ?P)" by (simp add: bundle_pointer_def signed_def is_dict_def)
  ultimately have "resolve_evidence_path E T clk X legacy st' = Inr (Some (es_root st @ [name], sorted_json manifest))"
    unfolding resolve_returns using fields(2) by (auto simp: st' json_equal_def)
  moreover have "name \<notin> fst ` set (es_dirs st)" using free_name_free name by (metis set_map)
  ultimately show ?thesis by blast
qed

text \<open>A worker output with a carriage return is changed by text mode when it is read back.\<close>

lemma carriage_return_rejected:
  assumes "map_of fs ''bundle.json'' = Some b" and "load_file T b = Inr bundle"
    and "get_or ''worker_output'' (JStr []) bundle = JStr text" and "CHR 0x0D \<in> set text"
    and "map_of fs ''worker-output.txt'' = Some (utf8 text)"
  shows "check_contents T fs manifest \<noteq> Inr ()"
proof
  assume "check_contents T fs manifest = Inr ()"
  then have "universal_newlines text = text"
    using assms by (auto simp: check_contents_returns read_text_written)
  then show False using universal_newlines_clean [of "text"] assms(4) by simp
qed

end
