(* ===== verification/Worker.thy ===== *)
theory Worker
  imports Config Complex_Main
begin

text \<open>
  \<open>runtime/worker.py\<close>: the worker process, one asyncio program with two tasks.  The main task
  activates the node, passes its checkpoints, waits for its release and then acts or completes; the
  heartbeat task renews the lease with a bounded number of retries and raises the flag
  \<open>lease_lost\<close>.  A state is where both tasks wait; an event is what wakes one of them (a response, a
  timer, the release line, the flag, a SIGTERM), in whatever order the event loop delivers them.  A
  request that was answered just as the flag was raised may be taken either way.  The log of a worker
  holds what was sent and what came back; spans and printed lines are left out.
\<close>

section \<open>Arguments\<close>

datatype worker_mode = Cooperative_Mode | Non_Compliant_Action

record worker_args =
  wa_node_id :: ident
  wa_mode :: worker_mode
  wa_delay :: rat
  wa_wait_for_release :: bool
  wa_heartbeat_interval :: rat
  wa_max_heartbeat_failures :: int
  wa_heartbeat_retry_base :: rat
  wa_heartbeat_retry_max :: rat
  wa_http_timeout :: rat
  wa_tool :: string
  wa_idempotency_key :: string

definition positive_float :: "rat \<Rightarrow> string + rat" where
  "positive_float v = (if v \<le> 0 then Inl ''must be greater than zero'' else Inr v)"

definition nonnegative_float :: "rat \<Rightarrow> string + rat" where
  "nonnegative_float v = (if v < 0 then Inl ''must be zero or greater'' else Inr v)"

definition positive_int :: "int \<Rightarrow> string + int" where
  "positive_int v = (if v \<le> 0 then Inl ''must be greater than zero'' else Inr v)"

text \<open>\<open>parse_args\<close> on the values given for the options; absent options have their defaults.\<close>

definition default_args :: "ident \<Rightarrow> worker_mode \<Rightarrow> worker_args" where
  "default_args node_id mode =
    \<lparr>wa_node_id = node_id, wa_mode = mode, wa_delay = 2, wa_wait_for_release = False,
     wa_heartbeat_interval = 1, wa_max_heartbeat_failures = 3, wa_heartbeat_retry_base = 1 / 4,
     wa_heartbeat_retry_max = 2, wa_http_timeout = 2, wa_tool = ''restart_postgres'',
     wa_idempotency_key = ''worker-action-001''\<rparr>"

definition check_args :: "worker_args \<Rightarrow> string + worker_args" where
  "check_args a =
    andthen (nonnegative_float (wa_delay a)) (\<lambda>_.
    andthen (positive_float (wa_heartbeat_interval a)) (\<lambda>_.
    andthen (positive_int (wa_max_heartbeat_failures a)) (\<lambda>_.
    andthen (positive_float (wa_heartbeat_retry_base a)) (\<lambda>_.
    andthen (positive_float (wa_heartbeat_retry_max a)) (\<lambda>_.
    andthen (positive_float (wa_http_timeout a)) (\<lambda>_. Inr a))))))"

section \<open>Exit codes\<close>

definition exit_success :: int where "exit_success = 0"
definition exit_operation_rejected :: int where "exit_operation_rejected = 2"
definition exit_lease_lost :: int where "exit_lease_lost = 3"
definition exit_failure :: int where "exit_failure = 4"
definition exit_checkpoint_denied :: int where "exit_checkpoint_denied = 5"
definition exit_completion_rejected :: int where "exit_completion_rejected = 6"
definition exit_activation_rejected :: int where "exit_activation_rejected = 7"
definition exit_terminated :: int where "exit_terminated = 143"

lemmas exit_codes = exit_success_def exit_operation_rejected_def exit_lease_lost_def
  exit_failure_def exit_checkpoint_denied_def exit_completion_rejected_def
  exit_activation_rejected_def exit_terminated_def

section \<open>The startup line\<close>

text \<open>What \<open>json.loads\<close> makes of the line is an argument; an empty read is the end of the input.\<close>

definition read_startup_payload :: "(string \<Rightarrow> json option) \<Rightarrow> string \<Rightarrow> string + json" where
  "read_startup_payload loads line =
    (if line = [] then Inl ''Worker startup payload was not provided on stdin''
     else case loads line of
       None \<Rightarrow> Inl ''Invalid worker startup payload''
     | Some payload \<Rightarrow>
         (case field ''activation_token'' payload of
            Some (JStr token) \<Rightarrow> Inr payload
          | _ \<Rightarrow> Inl ''Invalid worker startup payload''))"

section \<open>State\<close>

text \<open>A response: a transport error, or a status with its body when the body is JSON.\<close>

datatype reply = Transport_Error | Response int "json option"

datatype request =
    Post_Activate
  | Post_Checkpoint string
  | Post_Action string string
  | Post_Complete

datatype entry = Sent request | Answered request reply | Released | Lease_Lost

datatype worker_exit = Exited int | Crashed

datatype phase = Activating | Checking_First | Waiting_Release | Acting | Checking_Loop | Completing
  | Ended worker_exit

text \<open>The heartbeat task, with its count of consecutive failures and the sleep it is in.\<close>

datatype heart = Heart_Off | Heart_Asleep int rat | Heart_Posting int | Heart_Backing_Off int rat
  | Heart_Stopped

record worker =
  wk_phase :: phase
  wk_lease_lost :: bool
  wk_heart :: heart
  wk_log :: "entry list"
  wk_terminal :: "string option"

datatype worker_event = Reply reply | Lease_Seen | Release_Line string | Release_Failed | Delay_Over
  | Heart_Timer | Heart_Reply reply | Terminate

definition log_entries :: "entry list \<Rightarrow> worker \<Rightarrow> worker" where
  "log_entries es w = w\<lparr>wk_log := wk_log w @ es\<rparr>"

definition send_request :: "request \<Rightarrow> phase \<Rightarrow> worker \<Rightarrow> worker" where
  "send_request r p w = (log_entries [Sent r] w)\<lparr>wk_phase := p\<rparr>"

definition raise_lease_lost :: "worker \<Rightarrow> worker" where
  "raise_lease_lost w = (log_entries [Lease_Lost] w)\<lparr>wk_lease_lost := True, wk_heart := Heart_Stopped\<rparr>"

text \<open>Leaving the \<open>try\<close> block: the \<open>finally\<close> clause raises the flag and stops the heartbeat.\<close>

definition leave :: "string \<Rightarrow> int \<Rightarrow> worker \<Rightarrow> worker" where
  "leave terminal code w =
    w\<lparr>wk_phase := Ended (Exited code), wk_lease_lost := True, wk_heart := Heart_Stopped,
      wk_terminal := Some terminal\<rparr>"

section \<open>The main task\<close>

definition http_deadline_ok :: "rat \<Rightarrow> worker_args \<Rightarrow> bool" where
  "http_deadline_ok lease_ttl a \<longleftrightarrow>
     \<not> lease_ttl - (wa_heartbeat_retry_max a + wa_heartbeat_interval a) \<le> wa_http_timeout a"

definition start_worker :: "rat \<Rightarrow> worker_args \<Rightarrow> worker" where
  "start_worker lease_ttl a =
    (let w = \<lparr>wk_phase = Activating, wk_lease_lost = False, wk_heart = Heart_Off, wk_log = [],
              wk_terminal = None\<rparr>
     in if http_deadline_ok lease_ttl a then send_request Post_Activate Activating w
        else w\<lparr>wk_phase := Ended (Exited exit_failure)\<rparr>)"

definition activation_token_in :: "json option \<Rightarrow> bool" where
  "activation_token_in body =
    (case body of None \<Rightarrow> False
     | Some j \<Rightarrow> field ''node_token'' j \<noteq> None \<and> field ''run_id'' j \<noteq> None \<and> field ''role'' j \<noteq> None)"

definition allowed_in :: "json \<Rightarrow> bool" where
  "allowed_in j \<longleftrightarrow> field ''allowed'' j = Some (JBool True)"

definition activated :: "worker_args \<Rightarrow> reply \<Rightarrow> worker \<Rightarrow> worker" where
  "activated a r w =
    (case r of
       Transport_Error \<Rightarrow> w\<lparr>wk_phase := Ended (Exited exit_failure)\<rparr>
     | Response status body \<Rightarrow>
         if 400 \<le> status then w\<lparr>wk_phase := Ended (Exited exit_activation_rejected)\<rparr>
         else if \<not> activation_token_in body then w\<lparr>wk_phase := Ended Crashed\<rparr>
         else
           (let w = w\<lparr>wk_heart := Heart_Asleep 0 (wa_heartbeat_interval a)\<rparr> in
            if wa_mode a = Non_Compliant_Action
            then send_request (Post_Checkpoint ''before_protected_action'') Checking_First w
            else w\<lparr>wk_phase := Waiting_Release\<rparr>))"

definition checked :: "reply \<Rightarrow> (worker \<Rightarrow> worker) \<Rightarrow> worker \<Rightarrow> worker" where
  "checked r continue w =
    (case r of
       Transport_Error \<Rightarrow> leave ''TRANSPORT_FAILED'' exit_failure w
     | Response status body \<Rightarrow>
         if status \<noteq> 200 then leave ''CHECKPOINT_REJECTED'' exit_checkpoint_denied w
         else (case body of
             None \<Rightarrow> leave ''FAILED'' exit_failure w
           | Some j \<Rightarrow>
               if allowed_in j then continue w
               else leave ''CHECKPOINT_DENIED'' exit_checkpoint_denied w))"

definition acted :: "reply \<Rightarrow> worker \<Rightarrow> worker" where
  "acted r w =
    (case r of
       Transport_Error \<Rightarrow> leave ''TRANSPORT_FAILED'' exit_failure w
     | Response status body \<Rightarrow>
         if status = 200 then leave ''ACTION_RETURNED'' exit_success w
         else leave ''ACTION_FAILED'' exit_operation_rejected w)"

definition completed :: "reply \<Rightarrow> worker \<Rightarrow> worker" where
  "completed r w =
    (case r of
       Transport_Error \<Rightarrow> leave ''TRANSPORT_FAILED'' exit_failure w
     | Response status body \<Rightarrow>
         if status \<noteq> 204 then leave ''COMPLETION_REJECTED'' exit_completion_rejected w
         else leave ''COMPLETED'' exit_success w)"

text \<open>After \<open>wait_for_work_release\<close>: the flag is read once more before anything is sent.\<close>

definition released :: "worker_args \<Rightarrow> worker \<Rightarrow> worker" where
  "released a w =
    (if wk_lease_lost w then leave ''LEASE_LOST'' exit_lease_lost w
     else if wa_mode a = Non_Compliant_Action
       then send_request (Post_Action (wa_idempotency_key a) (wa_tool a)) Acting (log_entries [Released] w)
     else send_request (Post_Checkpoint ''worker_loop'') Checking_Loop (log_entries [Released] w))"

definition answer :: "request \<Rightarrow> reply \<Rightarrow> worker \<Rightarrow> worker" where
  "answer q r w = log_entries [Answered q r] w"

definition main_reply :: "worker_args \<Rightarrow> reply \<Rightarrow> worker \<Rightarrow> worker option" where
  "main_reply a r w =
    (case wk_phase w of
       Activating \<Rightarrow> Some (activated a r (answer Post_Activate r w))
     | Checking_First \<Rightarrow>
         Some (checked r (\<lambda>w. w\<lparr>wk_phase := Waiting_Release\<rparr>)
           (answer (Post_Checkpoint ''before_protected_action'') r w))
     | Acting \<Rightarrow> Some (acted r (answer (Post_Action (wa_idempotency_key a) (wa_tool a)) r w))
     | Checking_Loop \<Rightarrow>
         Some (checked r (send_request Post_Complete Completing)
           (answer (Post_Checkpoint ''worker_loop'') r w))
     | Completing \<Rightarrow> Some (completed r (answer Post_Complete r w))
     | _ \<Rightarrow> None)"

definition release_line :: "worker_args \<Rightarrow> string \<Rightarrow> worker \<Rightarrow> worker" where
  "release_line a line w =
    (if strip line \<noteq> ''GO'' then leave ''FAILED'' exit_failure w else released a w)"

section \<open>The heartbeat task\<close>

definition backoff_sleep :: "worker_args \<Rightarrow> int \<Rightarrow> rat" where
  "backoff_sleep a failures =
    min (wa_heartbeat_retry_max a) (wa_heartbeat_retry_base a * 2 ^ nat (failures - 1))"

definition heart_loop :: "worker_args \<Rightarrow> int \<Rightarrow> worker \<Rightarrow> worker" where
  "heart_loop a failures w =
    (if wk_lease_lost w then w\<lparr>wk_heart := Heart_Stopped\<rparr>
     else w\<lparr>wk_heart := Heart_Asleep failures (wa_heartbeat_interval a)\<rparr>)"

definition heart_timer :: "worker_args \<Rightarrow> worker \<Rightarrow> worker option" where
  "heart_timer a w =
    (case wk_heart w of
       Heart_Asleep failures _ \<Rightarrow> Some (w\<lparr>wk_heart := Heart_Posting failures\<rparr>)
     | Heart_Backing_Off failures _ \<Rightarrow> Some (heart_loop a failures w)
     | _ \<Rightarrow> None)"

definition heart_reply :: "worker_args \<Rightarrow> reply \<Rightarrow> worker \<Rightarrow> worker option" where
  "heart_reply a r w =
    (case wk_heart w of
       Heart_Posting failures \<Rightarrow>
         (case r of
            Transport_Error \<Rightarrow>
              (let failures = failures + 1 in
               if wa_max_heartbeat_failures a \<le> failures then Some (raise_lease_lost w)
               else Some (w\<lparr>wk_heart := Heart_Backing_Off failures (backoff_sleep a failures)\<rparr>))
          | Response status _ \<Rightarrow>
              if 400 \<le> status then Some (raise_lease_lost w) else Some (heart_loop a 0 w))
     | _ \<Rightarrow> None)"

section \<open>The event loop\<close>

text \<open>
  \<open>post_while_live\<close> gives up the request once the flag is seen; so does the wait for the release.
  SIGTERM cancels the worker wherever it is.
\<close>

definition lease_seen :: "worker \<Rightarrow> worker option" where
  "lease_seen w =
    (if wk_lease_lost w \<and> wk_phase w \<in> {Checking_First, Waiting_Release, Acting, Checking_Loop, Completing}
     then Some (leave ''LEASE_LOST'' exit_lease_lost w) else None)"

definition is_ended :: "worker \<Rightarrow> bool" where
  "is_ended w = (case wk_phase w of Ended _ \<Rightarrow> True | _ \<Rightarrow> False)"

definition terminate :: "worker \<Rightarrow> worker" where
  "terminate w = w\<lparr>wk_phase := Ended (Exited exit_terminated), wk_lease_lost := True,
     wk_heart := (if wk_heart w = Heart_Off then Heart_Off else Heart_Stopped)\<rparr>"

definition worker_step :: "worker_args \<Rightarrow> worker_event \<Rightarrow> worker \<Rightarrow> worker option" where
  "worker_step a ev w =
    (if is_ended w then None
     else case ev of
       Reply r \<Rightarrow> main_reply a r w
     | Lease_Seen \<Rightarrow> lease_seen w
     | Release_Line line \<Rightarrow>
         if wk_phase w = Waiting_Release \<and> wa_wait_for_release a then Some (release_line a line w) else None
     | Release_Failed \<Rightarrow>
         if wk_phase w = Waiting_Release \<and> wa_wait_for_release a
         then Some (leave ''FAILED'' exit_failure w) else None
     | Delay_Over \<Rightarrow>
         if wk_phase w = Waiting_Release \<and> \<not> wa_wait_for_release a then Some (released a w) else None
     | Heart_Timer \<Rightarrow> heart_timer a w
     | Heart_Reply r \<Rightarrow> heart_reply a r w
     | Terminate \<Rightarrow> Some (terminate w))"

fun run_events :: "worker_args \<Rightarrow> worker_event list \<Rightarrow> worker \<Rightarrow> worker option" where
  "run_events a [] w = Some w"
| "run_events a (ev # evs) w = Option.bind (worker_step a ev w) (run_events a evs)"

inductive worker_reachable :: "rat \<Rightarrow> worker_args \<Rightarrow> worker \<Rightarrow> bool" for lease_ttl a where
  started: "worker_reachable lease_ttl a (start_worker lease_ttl a)"
| moved: "worker_reachable lease_ttl a w \<Longrightarrow> worker_step a ev w = Some w' \<Longrightarrow>
    worker_reachable lease_ttl a w'"

lemma run_events_reachable:
  "worker_reachable lease_ttl a w \<Longrightarrow> run_events a evs w = Some w' \<Longrightarrow> worker_reachable lease_ttl a w'"
  by (induction evs arbitrary: w) (auto simp: bind_eq_Some_conv intro: worker_reachable.moved)

section \<open>What the log of a worker shows\<close>

fun allows :: "string \<Rightarrow> entry \<Rightarrow> bool" where
  "allows stage (Answered (Post_Checkpoint s) (Response status (Some j))) =
     (s = stage \<and> status = 200 \<and> allowed_in j)"
| "allows stage _ = False"

fun activates :: "entry \<Rightarrow> bool" where
  "activates (Answered Post_Activate (Response status _)) = (status < 400)"
| "activates _ = False"

fun succeeds :: "entry \<Rightarrow> bool" where
  "succeeds (Answered Post_Complete (Response status _)) = (status = 204)"
| "succeeds (Answered (Post_Action _ _) (Response status _)) = (status = 200)"
| "succeeds _ = False"

text \<open>What must be in the log before a request is sent.\<close>

fun justified :: "worker_args \<Rightarrow> request \<Rightarrow> entry list \<Rightarrow> bool" where
  "justified a Post_Activate before' = (before' = [])"
| "justified a (Post_Checkpoint stage) before' =
     (list_ex activates before' \<and> Sent (Post_Checkpoint stage) \<notin> set before' \<and>
      (stage = ''before_protected_action'' \<and> wa_mode a = Non_Compliant_Action \<or>
       stage = ''worker_loop'' \<and> Released \<in> set before' \<and> Lease_Lost \<notin> set before'))"
| "justified a (Post_Action key tool) before' =
     (wa_mode a = Non_Compliant_Action \<and> key = wa_idempotency_key a \<and> tool = wa_tool a \<and>
      list_ex activates before' \<and> list_ex (allows ''before_protected_action'') before' \<and>
      Released \<in> set before' \<and> Lease_Lost \<notin> set before' \<and>
      Sent (Post_Action key tool) \<notin> set before')"
| "justified a Post_Complete before' =
     (wa_mode a = Cooperative_Mode \<and> list_ex activates before' \<and>
      list_ex (allows ''worker_loop'') before' \<and> Released \<in> set before' \<and>
      Sent Post_Complete \<notin> set before')"

definition log_ok :: "worker_args \<Rightarrow> entry list \<Rightarrow> bool" where
  "log_ok a es \<longleftrightarrow> (\<forall>before' q after'. es = before' @ Sent q # after' \<longrightarrow> justified a q before')"

lemma log_ok_Nil [simp]: "log_ok a []"
  by (simp add: log_ok_def)

lemma log_ok_snoc [simp]:
  "log_ok a (es @ [e]) \<longleftrightarrow> log_ok a es \<and> (case e of Sent q \<Rightarrow> justified a q es | _ \<Rightarrow> True)"
proof
  assume ok: "log_ok a (es @ [e])"
  have "justified a q b" if "es = b @ Sent q # c" for b q c
    using ok that unfolding log_ok_def by simp
  moreover have "justified a q es" if "e = Sent q" for q
    using ok that unfolding log_ok_def by blast
  ultimately show "log_ok a es \<and> (case e of Sent q \<Rightarrow> justified a q es | _ \<Rightarrow> True)"
    by (auto simp: log_ok_def split: entry.split)
next
  assume ok: "log_ok a es \<and> (case e of Sent q \<Rightarrow> justified a q es | _ \<Rightarrow> True)"
  show "log_ok a (es @ [e])"
    unfolding log_ok_def
  proof (intro allI impI)
    fix b q c assume split: "es @ [e] = b @ Sent q # c"
    show "justified a q b"
    proof (cases c rule: rev_cases)
      case Nil
      then show ?thesis using split ok by simp
    next
      case (snoc c' x)
      then have "es = b @ Sent q # c'" using split by simp
      then show ?thesis using ok by (auto simp: log_ok_def)
    qed
  qed
qed

lemma log_ok_entries [simp]:
  "log_ok a (es @ [e1, e2]) \<longleftrightarrow> log_ok a (es @ [e1]) \<and>
     (case e2 of Sent q \<Rightarrow> justified a q (es @ [e1]) | _ \<Rightarrow> True)"
  "log_ok a [e1] \<longleftrightarrow> (case e1 of Sent q \<Rightarrow> justified a q [] | _ \<Rightarrow> True)"
  "log_ok a [e1, e2] \<longleftrightarrow> log_ok a [e1] \<and> (case e2 of Sent q \<Rightarrow> justified a q [e1] | _ \<Rightarrow> True)"
  "log_ok a [e1, e2, e3] \<longleftrightarrow>
     log_ok a [e1, e2] \<and> (case e3 of Sent q \<Rightarrow> justified a q [e1, e2] | _ \<Rightarrow> True)"
  using log_ok_snoc [of a "es @ [e1]" e2] log_ok_snoc [of a "[]" e1] log_ok_snoc [of a "[e1]" e2]
    log_ok_snoc [of a "[e1, e2]" e3]
  by (simp_all del: log_ok_snoc)

definition fresh_work :: "worker_args \<Rightarrow> entry list \<Rightarrow> bool" where
  "fresh_work a es \<longleftrightarrow> Sent (Post_Action (wa_idempotency_key a) (wa_tool a)) \<notin> set es \<and>
     Sent (Post_Checkpoint ''worker_loop'') \<notin> set es \<and> Sent Post_Complete \<notin> set es"

text \<open>Where the worker is, in terms of its log.\<close>

fun phase_ok :: "worker_args \<Rightarrow> phase \<Rightarrow> entry list \<Rightarrow> bool" where
  "phase_ok a Activating es = (es = [Sent Post_Activate])"
| "phase_ok a Checking_First es =
     (wa_mode a = Non_Compliant_Action \<and> list_ex activates es \<and> fresh_work a es)"
| "phase_ok a Waiting_Release es =
     (list_ex activates es \<and> fresh_work a es \<and>
      (wa_mode a = Non_Compliant_Action \<longrightarrow> list_ex (allows ''before_protected_action'') es))"
| "phase_ok a Acting es = (wa_mode a = Non_Compliant_Action)"
| "phase_ok a Checking_Loop es =
     (wa_mode a = Cooperative_Mode \<and> list_ex activates es \<and> Released \<in> set es \<and>
      Sent Post_Complete \<notin> set es)"
| "phase_ok a Completing es = True"
| "phase_ok a (Ended (Exited code)) es =
     ((code = exit_success \<longrightarrow> list_ex succeeds es) \<and>
      (code = exit_lease_lost \<longrightarrow> Lease_Lost \<in> set es) \<and>
      (code = exit_checkpoint_denied \<longrightarrow>
        (\<exists>stage r. Answered (Post_Checkpoint stage) r \<in> set es \<and>
          \<not> allows stage (Answered (Post_Checkpoint stage) r))))"
| "phase_ok a (Ended Crashed) es = True"

definition heart_ok :: "worker_args \<Rightarrow> heart \<Rightarrow> bool" where
  "heart_ok a h =
    (case h of
       Heart_Asleep f s \<Rightarrow> 0 \<le> f \<and> f < wa_max_heartbeat_failures a \<and> s = wa_heartbeat_interval a
     | Heart_Posting f \<Rightarrow> 0 \<le> f \<and> f < wa_max_heartbeat_failures a
     | Heart_Backing_Off f s \<Rightarrow>
         0 < f \<and> f < wa_max_heartbeat_failures a \<and> s = backoff_sleep a f
     | _ \<Rightarrow> True)"

definition worker_ok :: "worker_args \<Rightarrow> worker \<Rightarrow> bool" where
  "worker_ok a w \<longleftrightarrow>
     log_ok a (wk_log w) \<and> phase_ok a (wk_phase w) (wk_log w) \<and> heart_ok a (wk_heart w) \<and>
     (\<not> is_ended w \<longrightarrow> (wk_lease_lost w \<longleftrightarrow> Lease_Lost \<in> set (wk_log w))) \<and>
     (wk_phase w = Activating \<longrightarrow> wk_heart w = Heart_Off)"

lemmas worker_updates = log_entries_def send_request_def raise_lease_lost_def leave_def answer_def

lemma fresh_work_snoc [simp]:
  "fresh_work a (es @ [Answered q r]) = fresh_work a es"
  "fresh_work a (es @ [Lease_Lost]) = fresh_work a es"
  "fresh_work a (es @ [Sent (Post_Checkpoint ''before_protected_action'')]) = fresh_work a es"
  by (simp_all add: fresh_work_def)

lemma start_ok: "worker_ok a (start_worker lease_ttl a)"
  using log_ok_snoc [of a "[]" "Sent Post_Activate"]
  by (simp add: worker_ok_def start_worker_def Let_def worker_updates heart_ok_def is_ended_def exit_codes)

lemma activated_ok:
  assumes "worker_ok a w" and "wk_phase w = Activating" and "0 < wa_max_heartbeat_failures a"
  shows "worker_ok a (activated a r (answer Post_Activate r w))"
  using assms
  by (auto simp: worker_ok_def activated_def worker_updates heart_ok_def is_ended_def exit_codes
      fresh_work_def Let_def split: reply.split)

lemma leave_ok:
  assumes "log_ok a (wk_log w)" and "phase_ok a (Ended (Exited code)) (wk_log w)"
  shows "worker_ok a (leave terminal code w)"
  using assms by (simp add: worker_ok_def leave_def heart_ok_def is_ended_def)

lemma checked_ok:
  assumes "log_ok a (wk_log w)"
    and "\<And>status j. r = Response status (Some j) \<Longrightarrow> allows stage (Answered (Post_Checkpoint stage) r) \<Longrightarrow>
      worker_ok a (continue (answer (Post_Checkpoint stage) r w))"
  shows "worker_ok a (checked r continue (answer (Post_Checkpoint stage) r w))"
proof (cases r)
  case Transport_Error
  have "worker_ok a (leave t exit_failure (answer (Post_Checkpoint stage) r w))" for t
    using assms(1) by (intro leave_ok) (auto simp: worker_updates exit_codes)
  then show ?thesis using Transport_Error by (simp add: checked_def)
next
  case (Response status body)
  have denied: "worker_ok a (leave t exit_checkpoint_denied (answer (Post_Checkpoint stage) r w))"
    if "\<not> allows stage (Answered (Post_Checkpoint stage) r)" for t
    using that assms(1) by (intro leave_ok) (auto simp: worker_updates exit_codes)
  have failed: "worker_ok a (leave t exit_failure (answer (Post_Checkpoint stage) r w))" for t
    using assms(1) by (intro leave_ok) (auto simp: worker_updates exit_codes)
  show ?thesis
    using denied failed assms(2) Response by (auto simp: checked_def split: option.split)
qed

lemma released_ok:
  assumes "worker_ok a w" and "wk_phase w = Waiting_Release"
  shows "worker_ok a (released a w)"
proof (cases "wk_lease_lost w")
  case True
  then show ?thesis
    using assms by (simp add: released_def) (intro leave_ok; simp add: worker_ok_def is_ended_def exit_codes)
next
  case False
  then show ?thesis
    using assms
    by (cases "wa_mode a")
      (auto simp: released_def worker_ok_def worker_updates is_ended_def fresh_work_def)
qed

lemma main_reply_ok:
  assumes ok: "worker_ok a w" and "main_reply a r w = Some w'" and max: "0 < wa_max_heartbeat_failures a"
  shows "worker_ok a w'"
proof -
  have log: "log_ok a (wk_log w)" using ok by (simp add: worker_ok_def)
  show ?thesis
  proof (cases "wk_phase w")
    case Activating
    then show ?thesis using assms activated_ok [OF ok Activating max] by (auto simp: main_reply_def)
  next
    case Checking_First
    then have w': "w' = checked r (\<lambda>w. w\<lparr>wk_phase := Waiting_Release\<rparr>)
        (answer (Post_Checkpoint ''before_protected_action'') r w)"
      using assms by (simp add: main_reply_def)
    show ?thesis
      unfolding w'
      by (rule checked_ok [OF log])
        (use Checking_First ok in \<open>auto simp: worker_ok_def worker_updates is_ended_def\<close>)
  next
    case Acting
    then show ?thesis
      using assms log
      by (auto simp: main_reply_def acted_def answer_def log_entries_def exit_codes intro!: leave_ok
          split: reply.split)
  next
    case Checking_Loop
    then have w': "w' = checked r (send_request Post_Complete Completing)
        (answer (Post_Checkpoint ''worker_loop'') r w)"
      using assms by (simp add: main_reply_def)
    show ?thesis
      unfolding w'
      by (rule checked_ok [OF log])
        (use Checking_Loop ok in \<open>auto simp: worker_ok_def worker_updates is_ended_def\<close>)
  next
    case Completing
    then show ?thesis
      using assms log
      by (auto simp: main_reply_def completed_def answer_def log_entries_def exit_codes intro!: leave_ok
          split: reply.split)
  qed (use assms in \<open>simp_all add: main_reply_def\<close>)
qed

lemma phase_ok_lease_lost:
  "phase_ok a p es \<Longrightarrow> p \<noteq> Activating \<Longrightarrow> phase_ok a p (es @ [Lease_Lost])"
  by (induction a p es rule: phase_ok.induct) auto

lemma heart_step_ok:
  assumes ok: "worker_ok a w" and live: "\<not> is_ended w" and max: "0 < wa_max_heartbeat_failures a"
    and step: "heart_timer a w = Some w' \<or> heart_reply a r w = Some w'"
  shows "worker_ok a w'"
proof -
  have p: "wk_phase w \<noteq> Activating"
    using ok step by (auto simp: worker_ok_def heart_timer_def heart_reply_def)
  have lost: "worker_ok a (raise_lease_lost w)"
    using ok p phase_ok_lease_lost
    by (auto simp: worker_ok_def worker_updates heart_ok_def is_ended_def)
  have asleep: "worker_ok a (heart_loop a f w)" if "0 \<le> f" "f < wa_max_heartbeat_failures a" for f
    using ok that p by (auto simp: worker_ok_def heart_loop_def heart_ok_def is_ended_def)
  show ?thesis
    using step ok lost asleep max p
    by (auto simp: heart_timer_def heart_reply_def Let_def split: heart.splits reply.splits if_splits)
      (auto simp: worker_ok_def heart_ok_def is_ended_def)
qed

lemma worker_step_ok:
  assumes ok: "worker_ok a w" and step: "worker_step a ev w = Some w'"
    and max: "0 < wa_max_heartbeat_failures a"
  shows "worker_ok a w'"
proof -
  have live: "\<not> is_ended w" using step by (auto simp: worker_step_def split: if_splits)
  have log: "log_ok a (wk_log w)" using ok by (simp add: worker_ok_def)
  have failed: "worker_ok a (leave t exit_failure w)" for t
    using log by (intro leave_ok) (simp_all add: exit_codes)
  have lost: "worker_ok a (leave t exit_lease_lost w)" if "wk_lease_lost w" for t
    using log ok live that by (intro leave_ok) (simp_all add: exit_codes worker_ok_def)
  show ?thesis
  proof (cases ev)
    case (Reply r)
    then show ?thesis using step live ok max main_reply_ok by (simp add: worker_step_def)
  next
    case Lease_Seen
    then show ?thesis using step live lost by (auto simp: worker_step_def lease_seen_def split: if_splits)
  next
    case (Release_Line line)
    then show ?thesis
      using step live failed released_ok [OF ok]
      by (auto simp: worker_step_def release_line_def split: if_splits)
  next
    case Terminate
    then show ?thesis
      using step live ok
      by (auto simp: worker_step_def terminate_def worker_ok_def is_ended_def heart_ok_def exit_codes)
  next
    case Heart_Timer
    then show ?thesis using step live heart_step_ok [OF ok live max] by (auto simp: worker_step_def)
  next
    case (Heart_Reply r)
    then show ?thesis
      using step live heart_step_ok [OF ok live max, of w' r] by (auto simp: worker_step_def)
  qed (use step live failed released_ok [OF ok] in \<open>auto simp: worker_step_def split: if_splits\<close>)
qed

lemma reachable_worker_ok:
  assumes "worker_reachable lease_ttl a w" and "0 < wa_max_heartbeat_failures a"
  shows "worker_ok a w"
  using assms by (induction rule: worker_reachable.induct) (auto intro: start_ok worker_step_ok)

end
