(* ===== verification/Operations_Properties.thy ===== *)
theory Operations_Properties
  imports Evidence Worker Sample
begin

text \<open>
  Properties of the programs around the control plane: the worker process and the evidence bundles.
\<close>

section \<open>The worker\<close>

text \<open>C15: whatever order responses, timers, the release, lost leases and SIGTERM arrive in, a worker sends
  its protected action only after its activation and its first checkpoint were answered with an
  allowed response, after its release and while its lease was not lost, at most once and with the
  configured key and tool; it completes only after an allowed second checkpoint, at most once.\<close>

theorem worker_acts_when_allowed:
  assumes "worker_reachable lease_ttl a w" and "0 < wa_max_heartbeat_failures a"
    and "wk_log w = before' @ Sent q # after'"
  shows "(\<forall>key tool. q = Post_Action key tool \<longrightarrow>
      wa_mode a = Non_Compliant_Action \<and> key = wa_idempotency_key a \<and> tool = wa_tool a \<and>
      list_ex activates before' \<and> list_ex (allows ''before_protected_action'') before' \<and>
      Released \<in> set before' \<and> Lease_Lost \<notin> set before' \<and> Sent q \<notin> set before') \<and>
    (q = Post_Complete \<longrightarrow>
      wa_mode a = Cooperative_Mode \<and> list_ex activates before' \<and>
      list_ex (allows ''worker_loop'') before' \<and> Released \<in> set before' \<and> Sent q \<notin> set before')"
proof -
  have "justified a q before'"
    using reachable_worker_ok [OF assms(1,2)] assms(3) by (simp add: worker_ok_def log_ok_def)
  then show ?thesis by auto
qed

definition sample_activation :: json where
  "sample_activation = JObj [(''node_token'', JStr ''t''), (''run_id'', JStr ''r''), (''role'', JStr ''worker'')]"

definition sample_events :: "worker_event list" where
  "sample_events = [Reply (Response 200 (Some sample_activation)),
     Reply (Response 200 (Some (JObj [(''allowed'', JBool True)]))), Heart_Timer,
     Heart_Reply Transport_Error, Delay_Over, Reply (Response 200 None)]"

definition sample_args :: worker_args where
  "sample_args = default_args ''n'' Non_Compliant_Action"

definition sample_log :: "entry list" where
  "sample_log =
    [Sent Post_Activate, Answered Post_Activate (Response 200 (Some sample_activation)),
     Sent (Post_Checkpoint ''before_protected_action''),
     Answered (Post_Checkpoint ''before_protected_action'')
       (Response 200 (Some (JObj [(''allowed'', JBool True)]))),
     Released, Sent (Post_Action ''worker-action-001'' ''restart_postgres''),
     Answered (Post_Action ''worker-action-001'' ''restart_postgres'') (Response 200 None)]"

lemma sample_worker_run:
  "\<exists>w. worker_reachable 15 sample_args w \<and> wk_log w = sample_log \<and> wk_phase w = Ended (Exited 0)"
proof -
  have "run_events sample_args sample_events (start_worker 15 sample_args) =
    Some \<lparr>wk_phase = Ended (Exited 0), wk_lease_lost = True, wk_heart = Heart_Stopped,
      wk_log = sample_log, wk_terminal = Some ''ACTION_RETURNED''\<rparr>"
    by (simp add: sample_events_def sample_args_def default_args_def start_worker_def http_deadline_ok_def
        worker_step_def is_ended_def main_reply_def activated_def checked_def acted_def released_def
        worker_updates activation_token_in_def sample_activation_def field_def allowed_in_def
        heart_timer_def heart_reply_def exit_codes sample_log_def)
  then show ?thesis
    using run_events_reachable [OF worker_reachable.started] by fastforce
qed

theorem worker_acts_when_allowed_witness:
  "Released \<in> set (take 5 sample_log) \<and> Lease_Lost \<notin> set (take 5 sample_log)"
proof -
  obtain w where w: "worker_reachable 15 sample_args w" "wk_log w = sample_log"
    using sample_worker_run by blast
  have split: "wk_log w = take 5 sample_log @ Sent (Post_Action ''worker-action-001'' ''restart_postgres'') #
      drop 6 sample_log"
    unfolding w(2) by (simp add: sample_log_def)
  have "0 < wa_max_heartbeat_failures sample_args" by (simp add: sample_args_def default_args_def)
  from worker_acts_when_allowed [OF w(1) this split] show ?thesis by blast
qed

text \<open>The exit code of a worker tells what happened: 0 means its action was answered 200 or its
  completion 204, 3 that the lease was lost, 5 that a checkpoint was answered and did not allow it,
  and while it runs the heartbeat has fewer consecutive failures than the maximum, backs off no
  longer than the configured bound, and the next attempt, its time-out included, ends within the
  lease.\<close>

theorem worker_exit_and_heartbeat:
  assumes "worker_reachable lease_ttl a w" and "check_args a = Inr a'"
  shows "(\<forall>code. wk_phase w = Ended (Exited code) \<longrightarrow>
      (code = exit_success \<longrightarrow> list_ex succeeds (wk_log w)) \<and>
      (code = exit_lease_lost \<longrightarrow> Lease_Lost \<in> set (wk_log w)) \<and>
      (code = exit_checkpoint_denied \<longrightarrow>
        (\<exists>stage r. Answered (Post_Checkpoint stage) r \<in> set (wk_log w) \<and>
          \<not> allows stage (Answered (Post_Checkpoint stage) r)))) \<and>
    (\<forall>failures pause. wk_heart w = Heart_Backing_Off failures pause \<longrightarrow>
      0 < failures \<and> failures < wa_max_heartbeat_failures a \<and> pause \<le> wa_heartbeat_retry_max a \<and>
      (http_deadline_ok lease_ttl a \<longrightarrow>
        pause + wa_heartbeat_interval a + wa_http_timeout a < lease_ttl))"
proof -
  have max: "0 < wa_max_heartbeat_failures a"
    using assms(2) by (auto simp: check_args_def positive_int_def andthen_returns split: if_splits)
  note ok = reachable_worker_ok [OF assms(1) max]
  have short: "backoff_sleep a f \<le> wa_heartbeat_retry_max a" for f
    by (simp add: backoff_sleep_def)
  have within: "backoff_sleep a f + wa_heartbeat_interval a + wa_http_timeout a < lease_ttl"
    if "http_deadline_ok lease_ttl a" for f
    using that short [of f] by (simp add: http_deadline_ok_def)
  show ?thesis
    using ok short within by (auto simp: worker_ok_def heart_ok_def)
qed

theorem worker_exit_and_heartbeat_witness: "list_ex succeeds sample_log"
proof -
  obtain w where w: "worker_reachable 15 sample_args w" "wk_log w = sample_log"
      "wk_phase w = Ended (Exited 0)"
    using sample_worker_run by blast
  have "check_args sample_args = Inr sample_args"
    by (simp add: check_args_def sample_args_def default_args_def nonnegative_float_def positive_float_def
        positive_int_def)
  from worker_exit_and_heartbeat [OF w(1) this] show ?thesis
    using w(2,3) by (simp add: exit_success_def)
qed

section \<open>Evidence bundles\<close>

text \<open>C16: evidence that is accepted is authentic and complete: the pointer and the manifest carry the
  keyed signature of their own content, the bundle lies in a directory of the store, exactly the
  required artifacts are listed and each file has the signed digest, every JSON artifact says what
  \<open>bundle.json\<close> says and the worker output is, read as text, the one it holds, and the bundle was made
  from a clean tree at the expected commit.\<close>

theorem accepted_evidence_is_authentic:
  assumes "resolve_evidence_path E T clk X legacy st = Inr (Some (dir, manifest))"
  shows "\<exists>key pointer_bytes pointer name fs manifest_bytes entries bundle_bytes bundle output_bytes commit.
    evidence_key E (ex_signing_key X) = Inr key \<and>
    es_latest st = Some pointer_bytes \<and> load_file T pointer_bytes = Inr pointer \<and>
    get_key ''value'' (get_key ''signature'' pointer) = JStr (document_signature E key pointer) \<and>
    dir = es_root st @ [name] \<and> (name, fs) \<in> set (es_dirs st) \<and>
    map_of fs ''manifest.json'' = Some manifest_bytes \<and> load_file T manifest_bytes = Inr manifest \<and>
    get_key ''manifest_sha256'' pointer = JStr (sha256 E manifest_bytes) \<and>
    get_key ''value'' (get_key ''signature'' manifest) = JStr (document_signature E key manifest) \<and>
    get_key ''files'' manifest = JObj entries \<and> fst ` set entries = set required_artifacts \<and>
    (\<forall>(file, digest) \<in> set entries.
      \<exists>content. map_of fs file = Some content \<and> digest = JStr (sha256 E content)) \<and>
    map_of fs ''bundle.json'' = Some bundle_bytes \<and> load_file T bundle_bytes = Inr bundle \<and>
    (\<forall>(file, k) \<in> set bundle_artifacts. \<exists>content artifact.
      map_of fs file = Some content \<and> load_file T content = Inr artifact \<and>
      json_equal artifact (get_or k (if k = ''violations'' then JArr [] else JNull) bundle)) \<and>
    map_of fs ''worker-output.txt'' = Some output_bytes \<and>
    read_text output_bytes = Some (py_str T (get_or ''worker_output'' (JStr []) bundle)) \<and>
    get_key ''commit'' (get_key ''git'' manifest) = JStr commit \<and>
    get_key ''dirty'' (get_key ''git'' manifest) = JBool False \<and>
    (ex_commit X = None \<or> ex_commit X = Some commit)"
proof -
  obtain pointer_bytes pointer where p: "es_latest st = Some pointer_bytes"
      "load_file T pointer_bytes = Inr pointer"
      "follow_pointer E T clk X st pointer = Inr (dir, manifest)"
    using assms unfolding resolve_returns by blast
  obtain key fs manifest_bytes where f: "evidence_key E (ex_signing_key X) = Inr key"
      "check_signed E ''Evidence pointer'' key pointer = Inr ()" "dir_files st dir = Some fs"
      "map_of fs ''manifest.json'' = Some manifest_bytes"
      "get_key ''manifest_sha256'' pointer = JStr (sha256 E manifest_bytes)"
      "load_file T manifest_bytes = Inr manifest" "verify_manifest E T clk X fs manifest = Inr ()"
    using p(3) unfolding follow_pointer_returns by blast
  obtain name where n: "dir = es_root st @ [name]" "(name, fs) \<in> set (es_dirs st)"
    using dir_files_member [OF f(3)] by blast
  have v: "check_signed E ''Evidence manifest'' key manifest = Inr ()" "check_files E fs manifest = Inr ()"
      "check_contents T fs manifest = Inr ()" "check_git X manifest = Inr ()"
    using f(1,7) unfolding verify_manifest_returns by auto
  obtain entries where e: "get_key ''files'' manifest = JObj entries"
      "fst ` set entries = set required_artifacts"
      "\<forall>(file, digest) \<in> set entries.
        \<exists>content. map_of fs file = Some content \<and> digest = JStr (sha256 E content)"
    using v(2) unfolding check_files_returns by fast
  obtain bundle_bytes "bundle" output_bytes where b: "map_of fs ''bundle.json'' = Some bundle_bytes"
      "load_file T bundle_bytes = Inr bundle"
      "\<forall>entry \<in> set bundle_artifacts. check_artifact T fs bundle entry () = Inr ()"
      "map_of fs ''worker-output.txt'' = Some output_bytes"
      "read_text output_bytes = Some (py_str T (get_or ''worker_output'' (JStr []) bundle))"
    using v(3) unfolding check_contents_returns by blast
  have a: "\<forall>(file, k) \<in> set bundle_artifacts. \<exists>content artifact.
      map_of fs file = Some content \<and> load_file T content = Inr artifact \<and>
      json_equal artifact (get_or k (if k = ''violations'' then JArr [] else JNull) bundle)"
    using b(3) by (auto simp: check_artifact_returns)
  obtain commit where c: "get_key ''commit'' (get_key ''git'' manifest) = JStr commit"
      "get_key ''dirty'' (get_key ''git'' manifest) = JBool False"
      "ex_commit X = None \<or> ex_commit X = Some commit"
    using v(4) unfolding check_git_returns by blast
  show ?thesis
    using p f n e b(1,2,4,5) a c v(1) unfolding check_signed_returns by blast
qed

definition sample_bundle :: json where
  "sample_bundle = JObj
    [(''run'', JObj [(''run_id'', JStr ''r1'')]), (''command'', JObj [(''command_id'', JStr ''c1'')]),
     (''recovery'', JNull), (''sibling_check'', JBool True), (''proof'', JObj [(''verdict'', JStr ''VERIFIED'')]),
     (''graph'', JObj [(''nodes'', JArr [])]), (''actions'', JArr [JInt 1]), (''services'', JArr []),
     (''worker_output'', JStr ''ok'')]"

definition plain_env :: env where
  "plain_env = sample_env\<lparr>sha256 := (\<lambda>_. ''00''), hmac_sha256 := (\<lambda>_ _. ''ab'')\<rparr>"

definition plain_tools :: evidence_tools where
  "plain_tools = \<lparr>et_loads = (\<lambda>_. None), et_fromisoformat = (\<lambda>_. Some (True, noon)),
     et_version = ''0.1.0'', et_str = (\<lambda>_. [])\<rparr>"

definition empty_store :: store where
  "empty_store = \<lparr>es_root = [''srv'', ''evidence''], es_dirs = [], es_latest = None\<rparr>"

abbreviation clean_git :: "string option \<times> bool option" where
  "clean_git \<equiv> (Some ''abc'', Some False)"

definition sample_values :: "json list" where
  "sample_values = written_values plain_env plain_tools noon sample_bundle clean_git None None empty_store"

text \<open>A reader that tells the texts of the sample apart by their first four characters.\<close>

definition sample_heads :: "string list" where
  "sample_heads =
    [raw_quote ''ru'', raw_quote ''co'', ''null'', ''true'', raw_quote ''ve'', raw_quote ''no'',
     ''[1]'' @ [CHR 0x0A], ''[]'' @ [CHR 0x0A], ''[]'' @ [CHR 0x0A], raw_quote ''ac'', raw_quote ''ap'',
     raw_quote ''bu'']"

definition text_head :: "string \<Rightarrow> string" where
  "text_head t = (if take 1 t = ''{'' then raw_quote (take 2 (drop 2 t)) else take 4 t)"

definition sample_tools :: evidence_tools where
  "sample_tools = plain_tools\<lparr>et_loads :=
     (\<lambda>t. map_of (zip sample_heads (map sorted_json sample_values)) (text_head t))\<rparr>"

definition no_expectations :: expectations where
  "no_expectations = \<lparr>ex_signing_key = None, ex_commit = Some ''abc'', ex_max_age_seconds = Some 60,
     ex_live_api_url = None\<rparr>"

definition sample_store :: store where
  "sample_store = snd (write_evidence_bundle plain_env sample_tools noon sample_bundle clean_git None None
     empty_store)"

lemma sample_values_written:
  "written_values plain_env sample_tools noon sample_bundle clean_git None None empty_store = sample_values"
proof -
  have same_files: "written_files sample_tools sample_bundle parts = written_files plain_tools sample_bundle parts" for parts
    by (simp add: written_files_def worker_output_file_def sample_tools_def sample_bundle_def get_or_def field_def)
  have same_version: "et_version sample_tools = et_version plain_tools" by (simp add: sample_tools_def)
  show ?thesis
    unfolding sample_values_def written_values_def bundle_manifest_def manifest_fields_def same_files
      same_version ..
qed

lemma object_head:
  assumes "(k, v) \<in> set kvs" and "distinct (map fst kvs)" and "\<And>k'. k' \<in> fst ` set kvs \<Longrightarrow> k \<le> k'"
  shows "\<exists>rest. canonical_json (JObj kvs) = ''{'' @ raw_quote k @ '':'' @ rest"
proof -
  obtain x xs where x: "sort_fields kvs = x # xs"
    using assms(1) by (cases "sort_fields kvs") (auto simp: sort_fields_def dest: arg_cong [where f = set])
  have "set (x # xs) = set kvs" "sorted (map fst (x # xs))"
    unfolding x [symmetric] by (simp_all add: sort_fields_def)
  then have "fst x \<le> k" "x \<in> set kvs" using assms(1) by force+
  then have "fst x = k" using assms(3) by fastforce
  then show ?thesis
    by (cases "map (map_prod id canonical_json) xs") (simp_all add: sort_fields_map x case_prod_beta)
qed

definition sample_parts :: "json list" where
  "sample_parts =
    [JObj [(''run_id'', JStr ''r1'')], JObj [(''command_id'', JStr ''c1'')], JNull, JBool True,
     JObj [(''verdict'', JStr ''VERIFIED'')], JObj [(''nodes'', JArr [])], JArr [JInt 1], JArr [], JArr [],
     sample_bundle]"

lemma sample_values_eq:
  "\<exists>key name fs ids m. sample_values =
     sample_parts @ [bundle_manifest plain_env plain_tools key noon None clean_git fs ids,
       bundle_pointer plain_env key name fs m]"
  by (simp add: sample_values_def written_values_def validate_evidence_generation_def evidence_key_def
      plain_env_def sample_bundle_def artifact_values_def bundle_entry_def bundle_ids_def field_def Let_def
      get_or_def sample_parts_def) blast

lemma first_key:
  assumes "(a # b # k, v) \<in> set kvs" and "distinct (map fst kvs)"
    and "list_all (\<lambda>(k', _). a # b # k \<le> k') kvs" and "raw_char a = [a]" "raw_char b = [b]"
  shows "text_head (canonical_json (JObj kvs) @ t) = raw_quote [a, b]"
proof -
  obtain rest where "canonical_json (JObj kvs) = ''{'' @ raw_quote (a # b # k) @ '':'' @ rest"
    using object_head [OF assms(1,2)] assms(3) by (fastforce simp: list_all_iff)
  then show ?thesis using assms(4,5) by (simp add: text_head_def raw_quote_def del: canonical_json.simps)
qed

lemma sample_object_heads:
  "text_head (canonical_json sample_bundle @ t) = raw_quote ''ac''"
  "text_head (canonical_json (bundle_manifest E T key now url git fs ids) @ t) = raw_quote ''ap''"
  "text_head (canonical_json (bundle_pointer E key name fs m) @ t) = raw_quote ''bu''"
proof -
  show "text_head (canonical_json sample_bundle @ t) = raw_quote ''ac''"
    unfolding sample_bundle_def
    by (rule first_key [of _ _ "''tions''" "JArr [JInt 1]"]) (simp_all add: raw_char_def escape_char_def)
  show "text_head (canonical_json (bundle_manifest E T key now url git fs ids) @ t) = raw_quote ''ap''"
    unfolding bundle_manifest_def signed_def manifest_fields_def
    by (rule first_key [of _ _ "''plication_version''" "JStr (et_version T)"])
      (simp_all add: raw_char_def escape_char_def)
  show "text_head (canonical_json (bundle_pointer E key name fs m) @ t) = raw_quote ''bu''"
    unfolding bundle_pointer_def signed_def pointer_fields_def
    by (rule first_key [of _ _ "''ndle_dir''" "JStr name"]) (simp_all add: raw_char_def escape_char_def)
qed

lemma show_one: "show_int 1 = ''1''"
  by code_simp

lemma sample_small_heads:
  "text_head (canonical_json (JObj [(''run_id'', JStr ''r1'')]) @ [CHR 0x0A]) = raw_quote ''ru''"
  "text_head (canonical_json (JObj [(''command_id'', JStr ''c1'')]) @ [CHR 0x0A]) = raw_quote ''co''"
  "text_head (canonical_json JNull @ [CHR 0x0A]) = ''null''"
  "text_head (canonical_json (JBool True) @ [CHR 0x0A]) = ''true''"
  "text_head (canonical_json (JObj [(''verdict'', JStr ''VERIFIED'')]) @ [CHR 0x0A]) = raw_quote ''ve''"
  "text_head (canonical_json (JObj [(''nodes'', JArr [])]) @ [CHR 0x0A]) = raw_quote ''no''"
  "text_head (canonical_json (JArr [JInt 1]) @ [CHR 0x0A]) = ''[1]'' @ [CHR 0x0A]"
  "text_head (canonical_json (JArr []) @ [CHR 0x0A]) = ''[]'' @ [CHR 0x0A]"
  by (simp_all add: text_head_def raw_quote_def raw_char_def escape_char_def sort_fields_def show_one)

lemma sample_value_heads: "map (\<lambda>v. text_head (canonical_json v @ [CHR 0x0A])) sample_values = sample_heads"
proof -
  obtain key name fs ids m where v: "sample_values =
      sample_parts @ [bundle_manifest plain_env plain_tools key noon None clean_git fs ids,
        bundle_pointer plain_env key name fs m]"
    using sample_values_eq by blast
  show ?thesis
    unfolding v sample_parts_def sample_heads_def append.simps list.map sample_object_heads sample_small_heads ..
qed

lemma sample_heads_lookup:
  assumes "length vs = 12" and "vs ! 7 = vs ! 8" and "i < 12"
  shows "map_of (zip sample_heads vs) (sample_heads ! i) = Some (vs ! i)"
proof -
  obtain v0 v1 v2 v3 v4 v5 v6 v7 v9 v10 v11 where v: "vs = [v0, v1, v2, v3, v4, v5, v6, v7, v7, v9, v10, v11]"
    using assms(1,2) by (auto simp: numeral_eq_Suc length_Suc_conv)
  have "i \<in> {0, 1, 2, 3, 4, 5, 6, 7, 8, 9, 10, 11}"
    using assms(3) by (simp add: numeral_eq_Suc less_Suc_eq)
  then show ?thesis unfolding v
    by (elim insertE emptyE) (simp_all add: sample_heads_def raw_quote_def raw_char_def escape_char_def)
qed

lemma sample_reads_back: "list_all (reads_back sample_tools) sample_values"
proof -
  obtain m p where v: "sample_values = sample_parts @ [m, p]" using sample_values_eq by blast
  have n: "length sample_values = 12" "sample_values ! 7 = sample_values ! 8"
    unfolding v by (simp_all add: sample_parts_def)
  have "reads_back sample_tools (sample_values ! i)" if "i < 12" for i
  proof -
    have "text_head (canonical_json (sample_values ! i) @ [CHR 0x0A]) = sample_heads ! i"
      unfolding sample_value_heads [symmetric] using that n(1) by simp
    then show ?thesis
      using sample_heads_lookup [of "map sorted_json sample_values" i] n that
      by (simp add: reads_back_def sample_tools_def)
  qed
  then show ?thesis using n(1) by (simp add: list_all_length)
qed

lemma sample_written:
  "write_evidence_bundle plain_env sample_tools noon sample_bundle clean_git None None empty_store =
     (Inr (), sample_store)"
proof -
  have "fst (write_evidence_bundle plain_env sample_tools noon sample_bundle clean_git None None empty_store) =
      Inr ()"
    by (simp add: write_evidence_bundle_def validate_evidence_generation_def evidence_key_def plain_env_def
        Let_def sample_bundle_def artifact_values_def bundle_entry_def field_def bundle_ids_def)
  then show ?thesis by (simp add: sample_store_def prod_eq_iff)
qed

lemma sample_expected:
  "expected_by plain_env None (fst clean_git) None no_expectations"
  "timely sample_tools (\<lambda>_. noon + 5) noon no_expectations"
  by (simp_all add: expected_by_def timely_def no_expectations_def evidence_key_def sample_tools_def
      plain_tools_def seconds_def)

text \<open>C17: a bundle that was written is accepted: after \<open>write_evidence_bundle\<close> returned, whoever checks
  the store with the same key, the right commit and address and within the allowed age follows the
  pointer to a new directory and gets the manifest, given that \<open>json.loads\<close> reads back the written
  texts and the worker output has no carriage return.\<close>

theorem written_evidence_is_accepted:
  assumes "write_evidence_bundle E T now bundle git signing_key url st = (Inr u, st')"
    and "floats_clean bundle"
    and "list_all (reads_back T) (written_values E T now bundle git signing_key url st)"
    and "get_or ''worker_output'' (JStr []) bundle = JStr printed" and "CHR 0x0D \<notin> set printed"
    and "\<forall>k m. ascii (hmac_sha256 E k m)"
    and "expected_by E signing_key (fst git) url X" and "timely T clk now X"
  shows "\<exists>name manifest. resolve_evidence_path E T clk X legacy st' = Inr (Some (es_root st @ [name], manifest)) \<and>
    name \<notin> fst ` set (es_dirs st)"
  by (rule written_accepted [OF assms(1,2) _ assms(4-8)]) (use assms(3) in \<open>simp add: list_all_iff\<close>)

lemma sample_facts:
  "floats_clean sample_bundle" "get_or ''worker_output'' (JStr []) sample_bundle = JStr ''ok''"
  "\<forall>k m. ascii (hmac_sha256 plain_env k m)"
  by (simp_all add: sample_bundle_def get_or_def field_def plain_env_def ascii_def)

theorem written_evidence_is_accepted_witness:
  "\<exists>name manifest. resolve_evidence_path plain_env sample_tools (\<lambda>_. noon + 5) no_expectations False sample_store =
     Inr (Some ([''srv'', ''evidence'', name], manifest))"
proof -
  have "\<exists>name manifest. resolve_evidence_path plain_env sample_tools (\<lambda>_. noon + 5) no_expectations False
      sample_store = Inr (Some (es_root empty_store @ [name], manifest))"
    using written_evidence_is_accepted [OF sample_written sample_facts(1) _ sample_facts(2) _ sample_facts(3)
        sample_expected, of False] sample_reads_back
    by (auto simp: sample_values_written)
  then show ?thesis by (simp add: empty_store_def)
qed

text \<open>The same bundle once more, found by the checker.\<close>

lemma sample_found:
  "\<exists>dir manifest. resolve_evidence_path plain_env sample_tools (\<lambda>_. noon + 5) no_expectations False sample_store =
     Inr (Some (dir, manifest))"
  using written_accepted [OF sample_written sample_facts(1) _ sample_facts(2) _ sample_facts(3)
      sample_expected, of False] sample_reads_back
  by (auto simp: sample_values_written list_all_iff)

theorem accepted_evidence_is_authentic_witness:
  "\<exists>name fs manifest_bytes. (name, fs) \<in> set (es_dirs sample_store) \<and>
     map_of fs ''manifest.json'' = Some manifest_bytes"
proof -
  obtain dir manifest where
    "resolve_evidence_path plain_env sample_tools (\<lambda>_. noon + 5) no_expectations False sample_store =
       Inr (Some (dir, manifest))"
    using sample_found by blast
  from accepted_evidence_is_authentic [OF this] show ?thesis by blast
qed

text \<open>C35: a bundle whose worker output holds a carriage return never passes its own check: the bytes are
  written as they are, text mode turns the return into a line feed when they are read, and the two
  texts differ.\<close>

theorem carriage_return_breaks_evidence:
  assumes "map_of fs ''bundle.json'' = Some bundle_bytes" and "load_file T bundle_bytes = Inr bundle"
    and "get_or ''worker_output'' (JStr []) bundle = JStr printed" and "CHR 0x0D \<in> set printed"
    and "map_of fs ''worker-output.txt'' = Some (worker_output_file T bundle)"
  shows "verify_manifest E T clk X fs manifest \<noteq> Inr ()"
proof
  assume "verify_manifest E T clk X fs manifest = Inr ()"
  then have "check_contents T fs manifest = Inr ()" by (simp add: verify_manifest_returns)
  then show False
    using carriage_return_rejected [OF assms(1-4)] assms(3,5) by (simp add: worker_output_file_def)
qed

definition returned_bundle :: json where
  "returned_bundle = JObj [(''worker_output'', JStr [CHR ''a'', CHR 0x0D])]"

definition returned_tools :: evidence_tools where
  "returned_tools = plain_tools\<lparr>et_loads := (\<lambda>_. Some returned_bundle)\<rparr>"

theorem carriage_return_breaks_evidence_witness:
  "verify_manifest plain_env returned_tools (\<lambda>_. noon) no_expectations
     [(''bundle.json'', json_file returned_bundle),
      (''worker-output.txt'', worker_output_file returned_tools returned_bundle)] JNull \<noteq> Inr ()"
proof (rule carriage_return_breaks_evidence [where printed = "[CHR ''a'', CHR 0x0D]"])
  show "load_file returned_tools (json_file returned_bundle) = Inr returned_bundle"
    unfolding load_file_def json_file_text read_text_written by (simp add: returned_tools_def)
qed (simp_all add: returned_bundle_def get_or_def field_def)

end
