(* ===== verification/Middleware.thy ===== *)
theory Middleware
  imports RateLimits Bootstrap
begin

text \<open>
  \<open>api/middleware.py\<close> and the order in which \<open>api/main.py\<close> installs it.  An ASGI application that
  handles one request is a tree: it receives a message (or the exception that receiving raised), sends
  one, returns or raises, so a middleware is a function on such trees.  The CORS middleware and the
  routes behind it are arguments, as are the bytes and own headers of a \<open>JSONResponse\<close> and the
  canonical text of \<open>ipaddress.ip_address\<close>.  Header names and values are bytes.
\<close>

section \<open>Applications\<close>

datatype in_msg = Request_Body string | Disconnected

datatype out_msg = Response_Start int "(string \<times> string) list" | Response_Body string

datatype raised = Too_Large | Other_Error error

datatype app = Returns | Raises raised | Sends out_msg app | Receives "raised + in_msg \<Rightarrow> app"

text \<open>A client is the list of what receiving gives; after its end it has disconnected.\<close>

primrec run_app :: "app \<Rightarrow> (raised + in_msg) list \<Rightarrow> (raised + unit) \<times> out_msg list" where
  "run_app Returns = (\<lambda>ms. (Inr (), []))"
| "run_app (Raises e) = (\<lambda>ms. (Inl e, []))"
| "run_app (Sends m k) = (\<lambda>ms. case run_app k ms of (r, sent) \<Rightarrow> (r, m # sent))"
| "run_app (Receives f) = (\<lambda>ms. case ms of
       [] \<Rightarrow> run_app (f (Inr Disconnected)) []
     | m # rest \<Rightarrow> run_app (f m) rest)"

record http_scope =
  hs_type :: string
  hs_method :: string
  hs_path :: string
  hs_headers :: "(string \<times> string) list"
  hs_client :: "string option"

text \<open>The own headers and the bytes of a JSON response.\<close>

record rendering =
  rd_headers :: "json \<Rightarrow> (string \<times> string) list"
  rd_body :: "json \<Rightarrow> string"

definition json_response :: "rendering \<Rightarrow> int \<Rightarrow> json \<Rightarrow> (string \<times> string) list \<Rightarrow> app" where
  "json_response R status content extra =
    Sends (Response_Start status (extra @ rd_headers R content))
      (Sends (Response_Body (rd_body R content)) Returns)"

definition error_content :: "string \<Rightarrow> string \<Rightarrow> json" where
  "error_content code message = JObj [(''error'', JObj [(''code'', JStr code), (''message'', JStr message)])]"

definition lower_byte :: "char \<Rightarrow> char" where
  "lower_byte c = (let n = of_char c :: nat in if 65 \<le> n \<and> n \<le> 90 then char_of (n + 32) else c)"

text \<open>The dictionary of the headers: of two headers with one name the later counts.\<close>

definition header :: "string \<Rightarrow> http_scope \<Rightarrow> string option" where
  "header k scope = map_of (rev (map (\<lambda>(name, v). (map lower_byte name, v)) (hs_headers scope))) k"

definition is_byte_space :: "char \<Rightarrow> bool" where
  "is_byte_space c = (let n = of_char c :: nat in 9 \<le> n \<and> n \<le> 13 \<or> n = 32)"

definition strip_bytes :: "string \<Rightarrow> string" where
  "strip_bytes s = rev (dropWhile is_byte_space (rev (dropWhile is_byte_space s)))"

definition ascii_text :: "string \<Rightarrow> bool" where
  "ascii_text s = list_all (\<lambda>c. (of_char c :: nat) < 128) s"

section \<open>The size of a request\<close>

definition size_error :: "rendering \<Rightarrow> int \<Rightarrow> string \<Rightarrow> string \<Rightarrow> app" where
  "size_error R status code message = json_response R status (error_content code message) []"

definition send_too_large :: "rendering \<Rightarrow> app" where
  "send_too_large R =
    size_error R 413 ''REQUEST_TOO_LARGE'' ''Request body exceeds the configured limit''"

definition is_start :: "out_msg \<Rightarrow> bool" where
  "is_start m = (case m of Response_Start _ _ \<Rightarrow> True | Response_Body _ \<Rightarrow> False)"

text \<open>
  \<open>limited_receive\<close> counts and raises, \<open>tracked_send\<close> notes that the response has started, and the
  \<open>except\<close> clause answers 413 when it has not.
\<close>

primrec limit_body :: "rendering \<Rightarrow> int \<Rightarrow> app \<Rightarrow> int \<Rightarrow> bool \<Rightarrow> app" where
  "limit_body R max_bytes Returns = (\<lambda>received started. Returns)"
| "limit_body R max_bytes (Raises e) = (\<lambda>received started.
     if e = Too_Large then (if started then Returns else send_too_large R) else Raises e)"
| "limit_body R max_bytes (Sends m k) = (\<lambda>received started.
     Sends m (limit_body R max_bytes k received (started \<or> is_start m)))"
| "limit_body R max_bytes (Receives f) = (\<lambda>received started. Receives (\<lambda>m.
     case m of
       Inr (Request_Body body) \<Rightarrow>
         (let received = received + int (length body) in
          if max_bytes < received then limit_body R max_bytes (f (Inl Too_Large)) received started
          else limit_body R max_bytes (f m) received started)
     | _ \<Rightarrow> limit_body R max_bytes (f m) received started))"

definition limited_method :: "http_scope \<Rightarrow> bool" where
  "limited_method scope \<longleftrightarrow>
     hs_type scope = ''http'' \<and> hs_method scope \<in> {''POST'', ''PUT'', ''PATCH''}"

definition request_size_limit :: "rendering \<Rightarrow> int \<Rightarrow> http_scope \<Rightarrow> app \<Rightarrow> app" where
  "request_size_limit R max_bytes scope inner =
    (if \<not> limited_method scope then inner
     else case header ''content-length'' scope of
       None \<Rightarrow> limit_body R max_bytes inner 0 False
     | Some raw \<Rightarrow>
         (case parse_int (strip_bytes raw) of
            None \<Rightarrow> size_error R 400 ''INVALID_CONTENT_LENGTH'' ''Invalid Content-Length header''
          | Some declared \<Rightarrow>
              if declared < 0
              then size_error R 400 ''INVALID_CONTENT_LENGTH'' ''Invalid Content-Length header''
              else if max_bytes < declared then send_too_large R
              else limit_body R max_bytes inner 0 False))"

section \<open>The rate of requests\<close>

definition client_host ::
    "env \<Rightarrow> (string \<Rightarrow> string option) \<Rightarrow> http_scope \<Rightarrow> string" where
  "client_host E ip_address scope =
    (let direct_host = (case hs_client scope of None \<Rightarrow> ''unknown'' | Some h \<Rightarrow> h) in
     if direct_host \<in> set (trusted_proxy_hosts E)
     then (let forwarded = strip_bytes (takeWhile (\<lambda>c. c \<noteq> CHR '','')
                 (case header ''x-forwarded-for'' scope of None \<Rightarrow> [] | Some v \<Rightarrow> v))
           in case (if ascii_text forwarded then ip_address forwarded else None) of
                None \<Rightarrow> direct_host | Some h \<Rightarrow> h)
     else direct_host)"

definition operator_bucket :: "env \<Rightarrow> http_scope \<Rightarrow> string option" where
  "operator_bucket E scope =
    (case header ''x-operator-key'' scope of
       None \<Rightarrow> None
     | Some raw \<Rightarrow>
         if ascii_text raw \<and> operator_key_matches E (Some raw)
         then Some (''operator:'' @ take 24 (sha256 E raw)) else None)"

text \<open>\<open>_consume\<close> on the ordered dictionary: 0 when admitted, else the seconds to wait.\<close>

definition consume :: "int \<Rightarrow> string \<Rightarrow> int \<Rightarrow> rat \<Rightarrow> limiter \<Rightarrow> (error + int) \<times> limiter" where
  "consume max_buckets key limit now L =
    (case (case map_of L key of
             None \<Rightarrow> andthen (evict max_buckets L) (\<lambda>rest. Inr ([], rest))
           | Some bucket \<Rightarrow> Inr (bucket, filter (\<lambda>(k, _). k \<noteq> key) L)) of
       Inl e \<Rightarrow> (Inl e, L)
     | Inr (bucket, rest) \<Rightarrow>
         (let b = prune_bucket now bucket in
          if limit \<le> int (length b)
          then ((case b of
                   [] \<Rightarrow> Inl (PyException ''IndexError'')
                 | oldest # _ \<Rightarrow> Inr (max 1 \<lceil>60 - (now - oldest)\<rceil>)), rest @ [(key, b)])
          else (Inr 0, rest @ [(key, b @ [now])])))"

definition is_proof_path :: "string \<Rightarrow> bool" where
  "is_proof_path p \<longleftrightarrow> starts_with ''/v1/commands/'' p \<and> starts_with (rev ''/proof'') (rev p)"

definition gate :: "env \<Rightarrow> (string \<Rightarrow> string option) \<Rightarrow> rat \<Rightarrow> http_scope \<Rightarrow> limiter \<Rightarrow> (error + int) \<times> limiter"
where
  "gate E ip_address now scope L =
    (case consume (rate_limit_max_buckets E) (''ip-abuse:'' @ client_host E ip_address scope)
            (rate_limit_per_minute E) now L of
       (Inl e, L1) \<Rightarrow> (Inl e, L1)
     | (Inr retry_after, L1) \<Rightarrow>
         (case operator_bucket E scope of
            None \<Rightarrow> (Inr retry_after, L1)
          | Some operator \<Rightarrow>
              if retry_after \<noteq> 0 then (Inr retry_after, L1)
              else if is_proof_path (hs_path scope)
              then consume (rate_limit_max_buckets E) (''proof:'' @ operator)
                     (proof_rate_limit_per_minute E) now L1
              else consume (rate_limit_max_buckets E) (''operator:'' @ operator)
                     (rate_limit_per_minute E) now L1))"

definition rate_limit_middleware ::
    "env \<Rightarrow> rendering \<Rightarrow> (string \<Rightarrow> string option) \<Rightarrow> rat \<Rightarrow> http_scope \<Rightarrow> app \<Rightarrow> limiter \<Rightarrow> app \<times> limiter"
where
  "rate_limit_middleware E R ip_address now scope inner L =
    (if hs_type scope \<noteq> ''http'' \<or> \<not> starts_with ''/v1/'' (hs_path scope) then (inner, L)
     else case gate E ip_address now scope L of
       (Inl e, L') \<Rightarrow> (Raises (Other_Error e), L')
     | (Inr retry_after, L') \<Rightarrow>
         (if retry_after \<noteq> 0
          then json_response R 429 (error_content ''RATE_LIMIT_EXCEEDED'' ''Request rate limit exceeded'')
                 [(''retry-after'', show_int retry_after)]
          else inner, L'))"

section \<open>Response headers\<close>

definition fixed_headers :: "(string \<times> string) list" where
  "fixed_headers =
    [(''content-security-policy'', ''default-src 'self'; script-src 'self'; style-src 'self' 'unsafe-inline'; connect-src 'self'; img-src 'self' data:; object-src 'none'; base-uri 'none'; frame-ancestors 'none'' @ [CHR 0x27]),
     (''x-content-type-options'', ''nosniff''),
     (''x-frame-options'', ''DENY''),
     (''referrer-policy'', ''no-referrer''),
     (''permissions-policy'', ''camera=(), microphone=(), geolocation=()''),
     (''cross-origin-opener-policy'', ''same-origin'')]"

definition api_path :: "string \<Rightarrow> bool" where
  "api_path p \<longleftrightarrow> p = ''/health'' \<or> starts_with ''/v1/'' p"

definition has_header :: "string \<Rightarrow> (string \<times> string) list \<Rightarrow> bool" where
  "has_header k hs \<longleftrightarrow> list_ex (\<lambda>(name, _). map lower_byte name = k) hs"

definition secured :: "http_scope \<Rightarrow> (string \<times> string) list \<Rightarrow> (string \<times> string) list" where
  "secured scope hs =
    (let hs = hs @ fixed_headers in
     if api_path (hs_path scope) \<and> \<not> has_header ''cache-control'' hs
     then hs @ [(''cache-control'', ''no-store, private'')] else hs)"

definition secure_send :: "http_scope \<Rightarrow> out_msg \<Rightarrow> out_msg" where
  "secure_send scope m =
    (case m of Response_Start status hs \<Rightarrow> Response_Start status (secured scope hs) | Response_Body b \<Rightarrow> m)"

primrec map_sends :: "(out_msg \<Rightarrow> out_msg) \<Rightarrow> app \<Rightarrow> app" where
  "map_sends g Returns = Returns"
| "map_sends g (Raises e) = Raises e"
| "map_sends g (Sends m k) = Sends (g m) (map_sends g k)"
| "map_sends g (Receives f) = Receives (\<lambda>m. map_sends g (f m))"

definition security_headers :: "http_scope \<Rightarrow> app \<Rightarrow> app" where
  "security_headers scope inner = (if hs_type scope \<noteq> ''http'' then inner else map_sends (secure_send scope) inner)"

text \<open>The order of \<open>app.add_middleware\<close>: what is added last is outermost.\<close>

definition http_stack ::
    "env \<Rightarrow> rendering \<Rightarrow> (string \<Rightarrow> string option) \<Rightarrow> rat \<Rightarrow> http_scope \<Rightarrow> app \<Rightarrow> limiter \<Rightarrow> app \<times> limiter"
where
  "http_stack E R ip_address now scope inner L =
    (case rate_limit_middleware E R ip_address now scope
            (request_size_limit R (max_request_bytes E) scope inner) L of
       (a, L') \<Rightarrow> (security_headers scope a, L'))"

section \<open>What the size limit does to a request\<close>

text \<open>
  What the application receives: the messages of the client, with the exception in place of every
  body message after the limit.
\<close>

fun clip :: "int \<Rightarrow> int \<Rightarrow> (raised + in_msg) list \<Rightarrow> (raised + in_msg) list" where
  "clip max_bytes received [] = []"
| "clip max_bytes received (Inr (Request_Body body) # ms) =
     (let received = received + int (length body) in
      (if max_bytes < received then Inl Too_Large else Inr (Request_Body body)) # clip max_bytes received ms)"
| "clip max_bytes received (m # ms) = m # clip max_bytes received ms"

fun body_bytes :: "(raised + in_msg) list \<Rightarrow> int" where
  "body_bytes [] = 0"
| "body_bytes (Inr (Request_Body body) # ms) = int (length body) + body_bytes ms"
| "body_bytes (m # ms) = body_bytes ms"

definition answered ::
    "rendering \<Rightarrow> bool \<Rightarrow> (raised + unit) \<times> out_msg list \<Rightarrow> (raised + unit) \<times> out_msg list" where
  "answered R started outcome =
    (case outcome of (r, sent) \<Rightarrow>
       if r = Inl Too_Large
       then (Inr (), if started \<or> list_ex is_start sent then sent
               else sent @ snd (run_app (send_too_large R) []))
       else outcome)"

lemma run_too_large: "run_app (send_too_large R) ms = (Inr (), snd (run_app (send_too_large R) []))"
  by (simp add: send_too_large_def size_error_def json_response_def)

lemma run_limit_body:
  "run_app (limit_body R max_bytes a received started) ms =
     answered R started (run_app a (clip max_bytes received ms))"
proof (induction a arbitrary: received started ms)
  case (Raises e)
  show ?case using run_too_large [of R ms] by (simp add: answered_def)
next
  case (Sends m k)
  show ?case by (simp add: Sends.IH answered_def split: prod.split)
next
  case (Receives f)
  show ?case
  proof (cases ms)
    case Nil
    then show ?thesis using Receives.IH [of "f (Inr Disconnected)"] by simp
  next
    case (Cons m rest)
    show ?thesis
      unfolding Cons
      by (cases m; (cases "projr m")?) (simp_all add: Receives.IH Let_def split: in_msg.split)
  qed
qed (simp add: answered_def)

lemma body_bytes_nonneg: "0 \<le> body_bytes ms"
  by (induction ms rule: body_bytes.induct) simp_all

lemma clip_past_limit: "max_bytes < received \<Longrightarrow> body_bytes (clip max_bytes received ms) = 0"
  by (induction max_bytes received ms rule: clip.induct) (simp_all add: Let_def)

lemma clip_bytes:
  "received \<le> max_bytes \<Longrightarrow> received + body_bytes (clip max_bytes received ms) \<le> max_bytes"
  by (induction max_bytes received ms rule: clip.induct)
    (auto simp: Let_def clip_past_limit add.assoc [symmetric])

lemma clip_within: "received + body_bytes ms \<le> max_bytes \<Longrightarrow> clip max_bytes received ms = ms"
proof (induction max_bytes received ms rule: clip.induct)
  case (2 max_bytes received body ms)
  then show ?case using body_bytes_nonneg [of ms] by (simp add: Let_def)
qed simp_all

section \<open>What the header middleware does\<close>

lemma run_map_sends:
  "run_app (map_sends g a) ms = (case run_app a ms of (r, sent) \<Rightarrow> (r, map g sent))"
proof (induction a arbitrary: ms)
  case (Receives f)
  show ?case by (cases ms) (simp_all add: Receives.IH)
qed (simp_all split: prod.split)

lemma has_header_append [simp]: "has_header k (hs @ hs') \<longleftrightarrow> has_header k hs \<or> has_header k hs'"
  by (simp add: has_header_def)

lemma secured_keeps: "\<exists>more. secured scope hs = hs @ fixed_headers @ more"
  by (simp add: secured_def Let_def)

lemma cache_control_name: "has_header ''cache-control'' [(''cache-control'', v)]"
  by (simp add: has_header_def lower_byte_def)

lemma secured_cache: "api_path (hs_path scope) \<Longrightarrow> has_header ''cache-control'' (secured scope hs)"
  using cache_control_name by (auto simp: secured_def Let_def)

section \<open>The buckets of the limiter\<close>

definition bucket_limit :: "env \<Rightarrow> string \<Rightarrow> int" where
  "bucket_limit E key =
    (if starts_with ''proof:'' key then proof_rate_limit_per_minute E else rate_limit_per_minute E)"

definition bucket_ok :: "int \<Rightarrow> rat \<Rightarrow> rat list \<Rightarrow> bool" where
  "bucket_ok limit h b \<longleftrightarrow> sorted b \<and> (\<forall>t \<in> set b. t \<le> h) \<and> int (length b) \<le> limit"

definition buckets_ok :: "env \<Rightarrow> rat \<Rightarrow> limiter \<Rightarrow> bool" where
  "buckets_ok E h L \<longleftrightarrow> distinct (map fst L) \<and> (\<forall>(key, b) \<in> set L. bucket_ok (bucket_limit E key) h b)"

lemma bucket_ok_prune:
  assumes "bucket_ok limit h b" and "h \<le> now"
  shows "bucket_ok limit now (prune_bucket now b)" "\<forall>t \<in> set (prune_bucket now b). now - 60 < t"
proof -
  have p: "prune_bucket now b = filter (\<lambda>t. now - 60 < t) b"
    using assms(1) by (simp add: prune_bucket_def dropWhile_le_filter bucket_ok_def)
  have "length (filter (\<lambda>t. now - 60 < t) b) \<le> length b" by (rule length_filter_le)
  then have "int (length (filter (\<lambda>t. now - 60 < t) b)) \<le> limit"
    using assms(1) unfolding bucket_ok_def by linarith
  then show "bucket_ok limit now (prune_bucket now b)"
    using assms sorted_filter [of "\<lambda>t. t" b] unfolding p by (fastforce simp: bucket_ok_def)
  show "\<forall>t \<in> set (prune_bucket now b). now - 60 < t" by (simp add: p)
qed

lemma bucket_ok_admit: "bucket_ok limit now b \<Longrightarrow> int (length b) < limit \<Longrightarrow> bucket_ok limit now (b @ [now])"
  by (auto simp: bucket_ok_def sorted_append)

lemma bucket_ok_later: "bucket_ok limit h b \<Longrightarrow> h \<le> now \<Longrightarrow> bucket_ok limit now b"
  by (auto simp: bucket_ok_def)

lemma bucket_ok_empty: "0 \<le> limit \<Longrightarrow> bucket_ok limit now []"
  by (simp add: bucket_ok_def)

text \<open>\<open>consume\<close> in two steps: the bucket it finds, and what it puts back.\<close>

definition opened_bucket :: "int \<Rightarrow> string \<Rightarrow> limiter \<Rightarrow> error + rat list \<times> limiter" where
  "opened_bucket max_buckets key L =
    (case map_of L key of
       None \<Rightarrow> andthen (evict max_buckets L) (\<lambda>rest. Inr ([], rest))
     | Some bucket \<Rightarrow> Inr (bucket, filter (\<lambda>(k, _). k \<noteq> key) L))"

lemma opened_bucket_ok:
  assumes "buckets_ok E h L" and "opened_bucket m key L = Inr (b, rest)" and "0 \<le> bucket_limit E key"
  shows "bucket_ok (bucket_limit E key) h b" "buckets_ok E h rest" "key \<notin> fst ` set rest"
proof -
  have "bucket_ok (bucket_limit E key) h b \<and> buckets_ok E h rest \<and> key \<notin> fst ` set rest"
  proof (cases "map_of L key")
    case None
    then have fresh: "key \<notin> fst ` set L" by (simp add: map_of_eq_None_iff)
    have b: "b = []" and e: "evict m L = Inr rest"
      using assms(2) None by (simp_all add: opened_bucket_def andthen_returns)
    have "set rest \<subseteq> set L" "distinct (map fst L) \<longrightarrow> distinct (map fst rest)"
      using e by (auto simp: evict_def split: list.splits if_splits)
    then have "buckets_ok E h rest"
      using assms(1) unfolding buckets_ok_def by (meson subsetD)
    moreover have "key \<notin> fst ` set rest" using fresh \<open>set rest \<subseteq> set L\<close> by (meson image_mono subsetD)
    ultimately show ?thesis using assms(3) by (simp add: b bucket_ok_empty)
  next
    case (Some bucket)
    then have "(key, b) \<in> set L" "rest = filter (\<lambda>(k, _). k \<noteq> key) L"
      using assms(2) by (auto simp: opened_bucket_def dest: map_of_SomeD)
    then show ?thesis using assms(1) by (auto simp: buckets_ok_def distinct_map_filter)
  qed
  then show "bucket_ok (bucket_limit E key) h b" "buckets_ok E h rest" "key \<notin> fst ` set rest" by auto
qed

definition settled_bucket :: "string \<Rightarrow> int \<Rightarrow> rat \<Rightarrow> rat list \<times> limiter \<Rightarrow> (error + int) \<times> limiter" where
  "settled_bucket key limit now opened =
    (case opened of (bucket, rest) \<Rightarrow>
       let b = prune_bucket now bucket in
       if limit \<le> int (length b)
       then ((case b of
                [] \<Rightarrow> Inl (PyException ''IndexError'')
              | oldest # _ \<Rightarrow> Inr (max 1 \<lceil>60 - (now - oldest)\<rceil>)), rest @ [(key, b)])
       else (Inr 0, rest @ [(key, b @ [now])]))"

lemma consume_opened:
  "consume m key limit now L =
    (case opened_bucket m key L of Inl e \<Rightarrow> (Inl e, L) | Inr opened \<Rightarrow> settled_bucket key limit now opened)"
  unfolding consume_def opened_bucket_def settled_bucket_def ..

lemma consume_cases:
  assumes "consume m key limit now L = (r, L')"
  obtains e where "opened_bucket m key L = Inl e" "r = Inl e" "L' = L"
  | b rest where "opened_bucket m key L = Inr (b, rest)" "limit \<le> int (length (prune_bucket now b))"
      "L' = rest @ [(key, prune_bucket now b)]"
      "r = (case prune_bucket now b of [] \<Rightarrow> Inl (PyException ''IndexError'')
              | oldest # _ \<Rightarrow> Inr (max 1 \<lceil>60 - (now - oldest)\<rceil>))"
  | b rest where "opened_bucket m key L = Inr (b, rest)" "int (length (prune_bucket now b)) < limit"
      "L' = rest @ [(key, prune_bucket now b @ [now])]" "r = Inr 0"
proof (cases "opened_bucket m key L")
  case (Inl e)
  show thesis by (rule that(1) [OF Inl]) (use assms Inl in \<open>simp_all add: consume_opened\<close>)
next
  case (Inr x)
  obtain b rest where x: "x = (b, rest)" by (cases x)
  have c: "settled_bucket key limit now (b, rest) = (r, L')" using assms Inr x by (simp add: consume_opened)
  show thesis
  proof (cases "limit \<le> int (length (prune_bucket now b))")
    case True
    show thesis
      by (rule that(2) [OF Inr [unfolded x] True])
        (use c True in \<open>simp_all add: settled_bucket_def Let_def\<close>)
  next
    case False
    then have "int (length (prune_bucket now b)) < limit" by simp
    then show thesis
      by (rule that(3) [OF Inr [unfolded x]]) (use c False in \<open>simp_all add: settled_bucket_def Let_def\<close>)
  qed
qed

lemma buckets_ok_put:
  assumes "buckets_ok E h rest" and "h \<le> now" and "key \<notin> fst ` set rest"
    and "bucket_ok (bucket_limit E key) now b"
  shows "buckets_ok E now (rest @ [(key, b)])"
  using assms by (auto simp: buckets_ok_def dest: bucket_ok_later)

lemma consume_keeps:
  assumes "buckets_ok E h L" and "h \<le> now" and "0 \<le> bucket_limit E key"
    and "consume m key (bucket_limit E key) now L = (r, L')"
  shows "buckets_ok E now L'"
  using assms(4)
proof (cases rule: consume_cases)
  case (1 e)
  then show ?thesis using assms(1,2) by (auto simp: buckets_ok_def dest: bucket_ok_later)
next
  case (2 b rest)
  note o = opened_bucket_ok [OF assms(1) 2(1) assms(3)]
  show ?thesis unfolding 2(3) by (rule buckets_ok_put [OF o(2) assms(2) o(3) bucket_ok_prune(1) [OF o(1) assms(2)]])
next
  case (3 b rest)
  note o = opened_bucket_ok [OF assms(1) 3(1) assms(3)]
  show ?thesis unfolding 3(3)
    by (rule buckets_ok_put [OF o(2) assms(2) o(3) bucket_ok_admit [OF bucket_ok_prune(1) [OF o(1) assms(2)] 3(2)]])
qed

text \<open>A key that is in the dictionary is found again.\<close>

lemma consume_again:
  assumes "key \<notin> fst ` set rest"
  shows "fst (consume m key limit t (rest @ [(key, b)])) =
    (if limit \<le> int (length (prune_bucket t b))
     then (case prune_bucket t b of [] \<Rightarrow> Inl (PyException ''IndexError'')
             | oldest # _ \<Rightarrow> Inr (max 1 \<lceil>60 - (t - oldest)\<rceil>))
     else Inr 0)"
proof -
  have "map_of (rest @ [(key, b)]) key = Some b"
    using assms by (simp add: map_add_def map_of_eq_None_iff [THEN iffD2])
  then show ?thesis by (simp add: consume_opened opened_bucket_def settled_bucket_def Let_def split: list.split)
qed

text \<open>The time to wait is the first whole second at which the oldest admission is out of the window.\<close>

lemma wait_exact:
  assumes ok: "buckets_ok E h L" "h \<le> now" and pos: "0 < bucket_limit E key"
    and refused: "consume m key (bucket_limit E key) now L = (Inr k, L')" "k \<noteq> 0"
  shows "1 \<le> k \<and> k \<le> 60 \<and>
    (\<forall>t. now + of_int k \<le> t \<longrightarrow> fst (consume m key (bucket_limit E key) t L') = Inr 0) \<and>
    (\<forall>t. now \<le> t \<and> t \<le> now + of_int (k - 1) \<longrightarrow>
       fst (consume m key (bucket_limit E key) t L') \<noteq> Inr 0)"
  using refused(1)
proof (cases rule: consume_cases)
  case (2 b rest)
  let ?p = "prune_bucket now b"
  note o = opened_bucket_ok [OF ok(1) 2(1) less_imp_le [OF pos]]
  note p = bucket_ok_prune [OF o(1) ok(2)]
  obtain oldest others where q: "?p = oldest # others"
    using 2(2) pos by (cases ?p) auto
  have k: "k = max 1 \<lceil>60 - (now - oldest)\<rceil>" using 2(4) q by simp
  have recent: "now - 60 < oldest" "oldest \<le> now"
    using p q by (auto simp: bucket_ok_def)
  have full: "int (length ?p) = bucket_limit E key"
    using p(1) 2(2) by (auto simp: bucket_ok_def)
  have k1: "k = \<lceil>60 - (now - oldest)\<rceil>" "1 \<le> k" "k \<le> 60"
    using recent unfolding k by (auto simp: max_def ceiling_le_iff)
  have bounds: "oldest + 60 \<le> now + of_int k" "now + of_int (k - 1) < oldest + 60"
    using ceiling_correct [of "60 - (now - oldest)"] unfolding k1(1) by linarith+
  have later: "fst (consume m key (bucket_limit E key) t L') = Inr 0" if "now + of_int k \<le> t" for t
  proof -
    have "prune_bucket t ?p = prune_bucket t others"
      unfolding q using that bounds(1) by (simp add: prune_bucket_def)
    then have "length (prune_bucket t ?p) < length ?p"
      using q by (metis length_Cons length_dropWhile_le less_Suc_eq_le prune_bucket_def)
    then show ?thesis unfolding 2(3) consume_again [OF o(3)] using full by simp
  qed
  have sooner: "fst (consume m key (bucket_limit E key) t L') \<noteq> Inr 0"
    if "now \<le> t" "t \<le> now + of_int (k - 1)" for t
  proof -
    have "prune_bucket t ?p = ?p"
      unfolding q using that bounds(2) by (simp add: prune_bucket_def)
    then show ?thesis unfolding 2(3) consume_again [OF o(3)] using full q by simp
  qed
  show ?thesis using k1 later sooner by blast
qed (use refused(2) in auto)

text \<open>The dictionaries a process can hold at time \<open>h\<close>.\<close>

inductive gate_reached :: "env \<Rightarrow> (string \<Rightarrow> string option) \<Rightarrow> rat \<Rightarrow> limiter \<Rightarrow> bool" for E ip_address where
  gate_start: "gate_reached E ip_address h []"
| gate_request: "gate_reached E ip_address h L \<Longrightarrow> h \<le> now \<Longrightarrow>
    gate_reached E ip_address now (snd (http_stack E R ip_address now scope inner L))"

lemma bucket_limits:
  "bucket_limit E (''ip-abuse:'' @ k) = rate_limit_per_minute E"
  "bucket_limit E (''operator:'' @ k) = rate_limit_per_minute E"
  "bucket_limit E (''proof:'' @ k) = proof_rate_limit_per_minute E"
  by (simp_all add: bucket_limit_def)

lemma gate_keeps:
  assumes "buckets_ok E h L" and "h \<le> now" and "0 \<le> rate_limit_per_minute E"
    and "0 \<le> proof_rate_limit_per_minute E" and "gate E ip_address now scope L = (r, L')"
  shows "buckets_ok E now L'"
proof -
  obtain r1 L1 where 1: "consume (rate_limit_max_buckets E) (''ip-abuse:'' @ client_host E ip_address scope)
      (rate_limit_per_minute E) now L = (r1, L1)" by fastforce
  have ok1: "buckets_ok E now L1"
    using consume_keeps [OF assms(1,2), of "''ip-abuse:'' @ client_host E ip_address scope"] 1 assms(3)
    unfolding bucket_limits by blast
  have second: "buckets_ok E now L2"
    if "consume m (''operator:'' @ k) (rate_limit_per_minute E) now L1 = (r2, L2) \<or>
      consume m (''proof:'' @ k) (proof_rate_limit_per_minute E) now L1 = (r2, L2)" for m k r2 L2
    using consume_keeps [OF ok1 order_refl, of "''operator:'' @ k"]
      consume_keeps [OF ok1 order_refl, of "''proof:'' @ k"] assms(3,4) that
    unfolding bucket_limits by blast
  have "L' = L1 \<or> (\<exists>m k. consume m (''operator:'' @ k) (rate_limit_per_minute E) now L1 = (r, L') \<or>
      consume m (''proof:'' @ k) (proof_rate_limit_per_minute E) now L1 = (r, L'))"
    using assms(5) unfolding gate_def 1 by (force split: sum.splits option.splits if_splits)
  then show ?thesis using ok1 second by blast
qed

lemma reached_buckets_ok:
  assumes "gate_reached E ip_address h L" and "0 \<le> rate_limit_per_minute E"
    and "0 \<le> proof_rate_limit_per_minute E"
  shows "buckets_ok E h L"
  using assms(1)
proof induction
  case (gate_start h)
  show ?case by (simp add: buckets_ok_def)
next
  case (gate_request h L now R scope inner)
  have "buckets_ok E now L"
    using gate_request.IH gate_request.hyps(2) by (auto simp: buckets_ok_def dest: bucket_ok_later)
  then show ?case
    using gate_keeps [OF gate_request.IH gate_request.hyps(2) assms(2,3)]
    by (auto simp: http_stack_def rate_limit_middleware_def split: prod.split sum.split)
qed

end
