(* ===== verification/Executor.thy ===== *)
theory Executor
  imports Domain
begin

text \<open>
  \<open>api/dependencies.py\<close>: \<open>BoundedServiceRuntime\<close>, the bounded pool in which the blocking services run.
  A state has the free permits of the semaphore, the calls between \<open>acquire\<close> and \<open>submit\<close>, the queue
  and the running calls of the current pool, the calls of stopped pools that still run, the calls
  whose future was cancelled by a shutdown, and the callers that still wait.  An event is one atomic
  piece of one method, so that calls, deadlines, worker threads and \<open>stop\<close> interleave in any order.
\<close>

section \<open>State\<close>

datatype pool_answer = Result | Refused error | Future_Cancelled

record executor =
  xc_name :: string
  xc_max_workers :: nat
  xc_max_queue :: nat
  xc_free :: nat
  xc_acquired :: "nat list"
  xc_pool :: "(nat list \<times> nat list) option"
  xc_draining :: "nat list"
  xc_cancelled :: "nat list"
  xc_waiting :: "nat list"
  xc_answers :: "(nat \<times> pool_answer) list"

definition new_executor :: "string \<Rightarrow> nat \<Rightarrow> nat \<Rightarrow> executor" where
  "new_executor name max_workers max_queue =
    \<lparr>xc_name = name, xc_max_workers = max_workers, xc_max_queue = max_queue,
     xc_free = max_workers + max_queue, xc_acquired = [], xc_pool = None, xc_draining = [],
     xc_cancelled = [], xc_waiting = [], xc_answers = []\<rparr>"

text \<open>The current pool: its running calls and its queue.\<close>

definition running :: "executor \<Rightarrow> nat list" where
  "running e = (case xc_pool e of None \<Rightarrow> [] | Some (r, q) \<Rightarrow> r)"

definition queued :: "executor \<Rightarrow> nat list" where
  "queued e = (case xc_pool e of None \<Rightarrow> [] | Some (r, q) \<Rightarrow> q)"

definition in_flight :: "executor \<Rightarrow> nat" where
  "in_flight e = length (xc_acquired e) + length (running e) + length (queued e) + length (xc_draining e)"

section \<open>Operations\<close>

definition start_pool :: "executor \<Rightarrow> executor" where
  "start_pool e = (if xc_pool e = None then e\<lparr>xc_pool := Some ([], [])\<rparr> else e)"

definition answer_call :: "nat \<Rightarrow> pool_answer \<Rightarrow> executor \<Rightarrow> executor" where
  "answer_call j a e =
    (if j \<in> set (xc_waiting e)
     then e\<lparr>xc_waiting := remove1 j (xc_waiting e), xc_answers := xc_answers e @ [(j, a)]\<rparr> else e)"

definition release_permit :: "executor \<Rightarrow> executor" where
  "release_permit e = e\<lparr>xc_free := xc_free e + 1\<rparr>"

text \<open>\<open>run\<close> up to the semaphore.\<close>

definition call_service :: "nat \<Rightarrow> executor \<Rightarrow> executor" where
  "call_service j e =
    (let e = (start_pool e)\<lparr>xc_waiting := xc_waiting e @ [j]\<rparr> in
     if xc_free e = 0
     then answer_call j (Refused (service_unavailable_error (map upper_char (xc_name e) @ ''_EXECUTOR_OVERLOADED''))) e
     else e\<lparr>xc_free := xc_free e - 1, xc_acquired := xc_acquired e @ [j]\<rparr>)"

text \<open>\<open>run\<close> from the semaphore to \<open>executor.submit\<close>, which may raise on a pool shut down meanwhile.\<close>

definition hand_over :: "nat \<Rightarrow> bool \<Rightarrow> executor \<Rightarrow> executor" where
  "hand_over j submit_raises e =
    (let e = e\<lparr>xc_acquired := remove1 j (xc_acquired e)\<rparr> in
     case xc_pool e of
       None \<Rightarrow> answer_call j (Refused (service_unavailable_error
           (map upper_char (xc_name e) @ ''_EXECUTOR_UNAVAILABLE''))) (release_permit e)
     | Some (r, q) \<Rightarrow>
         if submit_raises then answer_call j (Refused (PyException ''RuntimeError'')) (release_permit e)
         else e\<lparr>xc_pool := Some (r, q @ [j])\<rparr>)"

text \<open>A free worker thread takes the oldest call of the queue.\<close>

definition begin_call :: "executor \<Rightarrow> executor option" where
  "begin_call e =
    (case xc_pool e of
       Some (r, j # q) \<Rightarrow>
         if length r < xc_max_workers e then Some (e\<lparr>xc_pool := Some (r @ [j], q)\<rparr>) else None
     | _ \<Rightarrow> None)"

text \<open>The end of \<open>_run_and_release\<close>, in the current pool or in a stopped one.\<close>

definition finish_call :: "nat \<Rightarrow> executor \<Rightarrow> executor option" where
  "finish_call j e =
    (if j \<in> set (running e)
     then Some (answer_call j Result (release_permit (e\<lparr>xc_pool := Some (remove1 j (running e), queued e)\<rparr>)))
     else if j \<in> set (xc_draining e)
     then Some (answer_call j Result (release_permit (e\<lparr>xc_draining := remove1 j (xc_draining e)\<rparr>)))
     else None)"

text \<open>The deadline of \<open>wait_for\<close>; the shielded call goes on.\<close>

definition deadline_passes :: "nat \<Rightarrow> executor \<Rightarrow> executor" where
  "deadline_passes j e =
    answer_call j (Refused (service_unavailable_error
      (map upper_char (xc_name e) @ ''_EXECUTION_DEADLINE_EXCEEDED''))) e"

text \<open>\<open>stop\<close>: the queued futures are cancelled and their calls never run; the running ones are joined.\<close>

definition stop_pool :: "executor \<Rightarrow> executor" where
  "stop_pool e =
    (case xc_pool e of
       None \<Rightarrow> e
     | Some (r, q) \<Rightarrow>
         fold (\<lambda>j. answer_call j Future_Cancelled) q
           (e\<lparr>xc_pool := None, xc_draining := xc_draining e @ r, xc_cancelled := xc_cancelled e @ q\<rparr>))"

definition is_alive :: "executor \<Rightarrow> bool" where
  "is_alive e \<longleftrightarrow> xc_pool e \<noteq> None"

datatype executor_event = Start | Call nat | Hand_Over nat bool | Begin | Finish nat | Deadline nat | Stop

definition executor_step :: "executor_event \<Rightarrow> executor \<Rightarrow> executor option" where
  "executor_step ev e =
    (case ev of
       Start \<Rightarrow> Some (start_pool e)
     | Call j \<Rightarrow>
         if j \<in> set (xc_waiting e) \<union> fst ` set (xc_answers e) then None else Some (call_service j e)
     | Hand_Over j submit_raises \<Rightarrow>
         if j \<in> set (xc_acquired e) then Some (hand_over j submit_raises e) else None
     | Begin \<Rightarrow> begin_call e
     | Finish j \<Rightarrow> finish_call j e
     | Deadline j \<Rightarrow>
         if j \<in> set (running e) \<union> set (queued e) \<union> set (xc_draining e) then Some (deadline_passes j e) else None
     | Stop \<Rightarrow> Some (stop_pool e))"

fun executor_run :: "executor_event list \<Rightarrow> executor \<Rightarrow> executor option" where
  "executor_run [] e = Some e"
| "executor_run (ev # evs) e = Option.bind (executor_step ev e) (executor_run evs)"

inductive executor_reachable :: "string \<Rightarrow> nat \<Rightarrow> nat \<Rightarrow> executor \<Rightarrow> bool" for name w q where
  executor_new: "executor_reachable name w q (new_executor name w q)"
| executor_moved: "executor_reachable name w q e \<Longrightarrow> executor_step ev e = Some e' \<Longrightarrow>
    executor_reachable name w q e'"

lemma executor_run_reachable:
  "executor_reachable name w q e \<Longrightarrow> executor_run evs e = Some e' \<Longrightarrow> executor_reachable name w q e'"
  by (induction evs arbitrary: e) (auto simp: bind_eq_Some_conv intro: executor_reachable.executor_moved)

section \<open>The probe\<close>

text \<open>
  What the probe sees of its own call: an answer, or the end of its second of patience.  Only
  \<open>TimeoutError\<close> and \<open>RuntimeError\<close> are caught.
\<close>

datatype probed = Probe_Answer pool_answer | Probe_Timed_Out

definition probe :: "executor \<Rightarrow> probed \<Rightarrow> error + bool" where
  "probe e seen =
    (if xc_pool e = None then Inr False
     else case seen of
       Probe_Timed_Out \<Rightarrow> Inr False
     | Probe_Answer Result \<Rightarrow> Inr True
     | Probe_Answer (Refused err) \<Rightarrow> if err = PyException ''RuntimeError'' then Inr False else Inl err
     | Probe_Answer Future_Cancelled \<Rightarrow> Inl (PyException ''CancelledError''))"

text \<open>The answer the executor has given to call \<open>j\<close> of the probe; without one its second runs out.\<close>

definition seen_by_probe :: "nat \<Rightarrow> executor \<Rightarrow> probed" where
  "seen_by_probe j e =
    (case map_of (xc_answers e) j of Some a \<Rightarrow> Probe_Answer a | None \<Rightarrow> Probe_Timed_Out)"

section \<open>Where the permits are\<close>

definition callers_ok :: "executor \<Rightarrow> bool" where
  "callers_ok e \<longleftrightarrow> distinct (xc_waiting e @ map fst (xc_answers e))"

definition executor_ok :: "string \<Rightarrow> nat \<Rightarrow> nat \<Rightarrow> executor \<Rightarrow> bool" where
  "executor_ok name w q e \<longleftrightarrow>
     xc_name e = name \<and> xc_max_workers e = w \<and> xc_max_queue e = q \<and>
     xc_free e + in_flight e + length (xc_cancelled e) = w + q \<and> length (running e) \<le> w \<and>
     callers_ok e"

lemma answer_call_fields [simp]:
  "xc_name (answer_call j a e) = xc_name e" "xc_max_workers (answer_call j a e) = xc_max_workers e"
  "xc_max_queue (answer_call j a e) = xc_max_queue e" "xc_free (answer_call j a e) = xc_free e"
  "xc_acquired (answer_call j a e) = xc_acquired e" "xc_pool (answer_call j a e) = xc_pool e"
  "xc_draining (answer_call j a e) = xc_draining e" "xc_cancelled (answer_call j a e) = xc_cancelled e"
  by (simp_all add: answer_call_def)

lemma answer_call_callers [simp]:
  "callers_ok e \<Longrightarrow> callers_ok (answer_call j a e)"
  "callers_ok (e\<lparr>xc_pool := p\<rparr>) = callers_ok e" "callers_ok (e\<lparr>xc_free := n\<rparr>) = callers_ok e"
  "callers_ok (e\<lparr>xc_acquired := xs\<rparr>) = callers_ok e" "callers_ok (e\<lparr>xc_draining := xs\<rparr>) = callers_ok e"
  "callers_ok (e\<lparr>xc_cancelled := xs\<rparr>) = callers_ok e"
  "callers_ok e \<Longrightarrow> j \<notin> set (xc_waiting e) \<union> fst ` set (xc_answers e) \<Longrightarrow>
     callers_ok (e\<lparr>xc_waiting := xc_waiting e @ [j]\<rparr>)"
  by (auto simp: answer_call_def callers_ok_def)

lemma pool_views [simp]:
  "running (answer_call j a e) = running e" "queued (answer_call j a e) = queued e"
  "running (release_permit e) = running e" "queued (release_permit e) = queued e"
  "running (e\<lparr>xc_pool := p\<rparr>) = (case p of None \<Rightarrow> [] | Some (r, q) \<Rightarrow> r)"
  "queued (e\<lparr>xc_pool := p\<rparr>) = (case p of None \<Rightarrow> [] | Some (r, q) \<Rightarrow> q)"
  "running (e\<lparr>xc_acquired := xs\<rparr>) = running e" "queued (e\<lparr>xc_acquired := xs\<rparr>) = queued e"
  "running (e\<lparr>xc_waiting := xs\<rparr>) = running e" "queued (e\<lparr>xc_waiting := xs\<rparr>) = queued e"
  "running (e\<lparr>xc_free := n\<rparr>) = running e" "queued (e\<lparr>xc_free := n\<rparr>) = queued e"
  "running (e\<lparr>xc_draining := xs\<rparr>) = running e" "queued (e\<lparr>xc_draining := xs\<rparr>) = queued e"
  "running (e\<lparr>xc_cancelled := xs\<rparr>) = running e" "queued (e\<lparr>xc_cancelled := xs\<rparr>) = queued e"
  by (simp_all add: running_def queued_def release_permit_def)

text \<open>Answering a caller never disturbs the invariant.\<close>

lemma answer_call_ok: "executor_ok name w q e \<Longrightarrow> executor_ok name w q (answer_call j a e)"
  unfolding executor_ok_def in_flight_def by simp

lemma new_executor_ok: "executor_ok name w q (new_executor name w q)"
  by (simp add: executor_ok_def new_executor_def in_flight_def running_def queued_def callers_ok_def)

lemma start_pool_ok: "executor_ok name w q e \<Longrightarrow> executor_ok name w q (start_pool e)"
  by (auto simp: start_pool_def executor_ok_def in_flight_def running_def queued_def)

lemma call_service_ok:
  assumes ok: "executor_ok name w q e" and fresh: "j \<notin> set (xc_waiting e) \<union> fst ` set (xc_answers e)"
  shows "executor_ok name w q (call_service j e)"
proof -
  let ?e = "(start_pool e)\<lparr>xc_waiting := xc_waiting e @ [j]\<rparr>"
  have s: "executor_ok name w q (start_pool e)" by (rule start_pool_ok [OF ok])
  have same: "xc_waiting (start_pool e) = xc_waiting e" "xc_answers (start_pool e) = xc_answers e"
    by (simp_all add: start_pool_def)
  have "callers_ok (start_pool e)" using s by (simp add: executor_ok_def)
  then have "callers_ok ?e"
    using answer_call_callers(7) [of "start_pool e" j] fresh by (simp add: same)
  then have e: "executor_ok name w q ?e"
    using s unfolding executor_ok_def in_flight_def by simp
  then have "executor_ok name w q (?e\<lparr>xc_free := xc_free ?e - 1, xc_acquired := xc_acquired ?e @ [j]\<rparr>)"
    if "xc_free ?e \<noteq> 0"
    using that unfolding executor_ok_def in_flight_def by simp
  then show ?thesis
    using answer_call_ok [OF e] by (simp add: call_service_def Let_def)
qed

lemma hand_over_ok:
  assumes ok: "executor_ok name w q e" and j: "j \<in> set (xc_acquired e)"
  shows "executor_ok name w q (hand_over j submit_raises e)"
proof -
  let ?e = "e\<lparr>xc_acquired := remove1 j (xc_acquired e)\<rparr>"
  have len: "length (xc_acquired e) = Suc (length (remove1 j (xc_acquired e)))"
    using j by (simp add: length_remove1) (metis Suc_pred length_pos_if_in_set)
  have given: "executor_ok name w q (release_permit ?e)"
    using ok len unfolding executor_ok_def in_flight_def by (auto simp: release_permit_def)
  have "executor_ok name w q (?e\<lparr>xc_pool := Some (r, qs @ [j])\<rparr>)" if "xc_pool e = Some (r, qs)" for r qs
    using ok len j that unfolding executor_ok_def in_flight_def
    by (auto simp: running_def queued_def)
  then show ?thesis
    using answer_call_ok [OF given] by (auto simp: hand_over_def Let_def split: option.split prod.split)
qed

lemma begin_call_ok:
  assumes "executor_ok name w q e" and "begin_call e = Some e'"
  shows "executor_ok name w q e'"
  using assms
  by (auto simp: begin_call_def executor_ok_def in_flight_def running_def queued_def
      split: option.splits prod.splits list.splits if_splits)

lemma finish_call_ok:
  assumes ok: "executor_ok name w q e" and "finish_call j e = Some e'"
  shows "executor_ok name w q e'"
proof -
  have len: "j \<in> set xs \<Longrightarrow> length xs = Suc (length (remove1 j xs))" for xs
    by (simp add: length_remove1) (metis Suc_pred length_pos_if_in_set)
  have 1: "executor_ok name w q (release_permit (e\<lparr>xc_pool := Some (remove1 j (running e), queued e)\<rparr>))"
    if "j \<in> set (running e)"
    using ok len [OF that] unfolding executor_ok_def in_flight_def by (auto simp: release_permit_def)
  have 2: "executor_ok name w q (release_permit (e\<lparr>xc_draining := remove1 j (xc_draining e)\<rparr>))"
    if "j \<in> set (xc_draining e)"
    using ok len [OF that] unfolding executor_ok_def in_flight_def by (auto simp: release_permit_def)
  show ?thesis
    using assms(2) answer_call_ok [OF 1] answer_call_ok [OF 2] by (auto simp: finish_call_def split: if_splits)
qed

lemma stop_pool_ok:
  assumes ok: "executor_ok name w q e"
  shows "executor_ok name w q (stop_pool e)"
proof (cases "xc_pool e")
  case (Some rq)
  obtain r qs where rq: "rq = (r, qs)" by (cases rq)
  let ?e = "e\<lparr>xc_pool := None, xc_draining := xc_draining e @ r, xc_cancelled := xc_cancelled e @ qs\<rparr>"
  have "executor_ok name w q ?e"
    using ok Some rq unfolding executor_ok_def in_flight_def
    by (auto simp: running_def queued_def callers_ok_def)
  moreover have "executor_ok name w q (fold (\<lambda>j. answer_call j a) xs f)" if "executor_ok name w q f" for xs a f
    using that by (induction xs arbitrary: f) (simp_all add: answer_call_ok)
  ultimately show ?thesis by (simp add: stop_pool_def Some rq)
qed (simp add: stop_pool_def ok)

lemma executor_step_ok:
  assumes ok: "executor_ok name w q e" and step: "executor_step ev e = Some e'"
  shows "executor_ok name w q e'"
proof (cases ev)
  case (Call j)
  then show ?thesis using step call_service_ok [OF ok] by (auto simp: executor_step_def split: if_splits)
next
  case (Hand_Over j b)
  then show ?thesis using step hand_over_ok [OF ok] by (auto simp: executor_step_def split: if_splits)
next
  case (Deadline j)
  then show ?thesis
    using step answer_call_ok [OF ok] by (auto simp: executor_step_def deadline_passes_def split: if_splits)
next
  case (Finish j)
  then show ?thesis using step finish_call_ok [OF ok] by (simp add: executor_step_def)
next
  case Begin
  then show ?thesis using step begin_call_ok [OF ok] by (simp add: executor_step_def)
next
  case Start
  then show ?thesis using step start_pool_ok [OF ok] by (simp add: executor_step_def)
next
  case Stop
  then show ?thesis using step stop_pool_ok [OF ok] by (simp add: executor_step_def)
qed

lemma reachable_executor_ok: "executor_reachable name w q e \<Longrightarrow> executor_ok name w q e"
  by (induction rule: executor_reachable.induct) (simp_all add: new_executor_ok executor_step_ok)

text \<open>A call that finds no permit is answered in the same step.\<close>

lemma full_call_refused:
  assumes "executor_reachable name w q e" and "xc_free e = 0" and "executor_step (Call j) e = Some e'"
  shows "map_of (xc_answers e') j =
    Some (Refused (service_unavailable_error (map upper_char name @ ''_EXECUTOR_OVERLOADED'')))"
proof -
  have "xc_name e = name" using reachable_executor_ok [OF assms(1)] by (simp add: executor_ok_def)
  moreover have "e' = call_service j e" and "map_of (xc_answers e) j = None"
    using assms(3) by (auto simp: executor_step_def map_of_eq_None_iff split: if_splits)
  moreover have "xc_free (start_pool e) = xc_free e" "xc_name (start_pool e) = xc_name e"
    "xc_answers (start_pool e) = xc_answers e"
    by (simp_all add: start_pool_def)
  ultimately show ?thesis
    using assms(2)
    by (simp add: call_service_def Let_def answer_call_def map_add_def)
qed

end
