(* ===== verification/Readiness.thy ===== *)
theory Readiness
  imports Executor Tools Complex_Main
begin

text \<open>
  \<open>api/routes/health.py\<close>: the readiness decision on what one computation observes, and the cache that
  shares a computation between requests.  The answers of the database, of the probes, of the exporter
  and \<open>datetime.fromisoformat\<close> are arguments.  The ages shown in the detailed payload, the health of the
  SigNoz client and the time of the check are left out.
\<close>

section \<open>One computation\<close>

record observations =
  ob_readable :: bool
  ob_writable :: bool
  ob_safety_probe :: "error + bool"
  ob_external_probe :: "error + bool"
  ob_external_first :: bool
  ob_scanner_last_success :: "string option"
  ob_scanner_error :: "string option"
  ob_auditor_last_success :: "string option"
  ob_auditor_error :: "string option"
  ob_outbox_pending :: "int option"
  ob_telemetry_status :: string
  ob_telemetry_configured :: bool
  ob_last_flush :: "string option"

text \<open>\<open>_freshness\<close>: whether a text is a recent aware time; up to five seconds ahead are tolerated.\<close>

definition freshness ::
    "(string \<Rightarrow> (bool \<times> time) option) \<Rightarrow> string option \<Rightarrow> int \<Rightarrow> time \<Rightarrow> bool \<times> time option" where
  "freshness fromisoformat v max_age_seconds now =
    (case v of
       None \<Rightarrow> (False, None)
     | Some text_value \<Rightarrow>
         if text_value = [] then (False, None)
         else case fromisoformat (concat (map (\<lambda>c. if c = CHR ''Z'' then ''+00:00'' else [c]) text_value)) of
           None \<Rightarrow> (False, None)
         | Some (aware, parsed) \<Rightarrow>
             if \<not> aware then (False, None)
             else (let age = now - parsed
                   in (- seconds 5 \<le> age \<and> age \<le> seconds max_age_seconds, Some (max age 0))))"

record readiness =
  rd_ready :: bool
  rd_database_ok :: bool
  rd_safety :: bool
  rd_external :: bool
  rd_scanner_fresh :: bool
  rd_auditor_fresh :: bool
  rd_outbox_healthy :: bool
  rd_telemetry_fresh :: bool

text \<open>\<open>asyncio.gather\<close> raises what the first of the two probes raised.\<close>

definition gathered_probes :: "observations \<Rightarrow> error + bool \<times> bool" where
  "gathered_probes ob =
    (case (ob_safety_probe ob, ob_external_probe ob) of
       (Inr s, Inr x) \<Rightarrow> Inr (s, x)
     | (Inl e, Inl e') \<Rightarrow> Inl (if ob_external_first ob then e' else e)
     | (Inl e, Inr _) \<Rightarrow> Inl e
     | (Inr _, Inl e') \<Rightarrow> Inl e')"

definition compute_readiness ::
    "env \<Rightarrow> (string \<Rightarrow> (bool \<times> time) option) \<Rightarrow> clock \<Rightarrow> observations \<Rightarrow> error + readiness" where
  "compute_readiness E fromisoformat clk ob =
    andthen (gathered_probes ob) (\<lambda>(safety_ready, external_ready).
    let limit = max 5 (lease_scan_interval_seconds E * 3);
        scanner_fresh = fst (freshness fromisoformat (ob_scanner_last_success ob) limit (clk 0));
        auditor_fresh = fst (freshness fromisoformat (ob_auditor_last_success ob) limit (clk 1));
        flush_fresh = fst (freshness fromisoformat (ob_last_flush ob)
          (max 30 (lease_scan_interval_seconds E * 5)) (clk 2));
        telemetry_fresh = (if ob_telemetry_configured ob then flush_fresh else True);
        outbox_healthy = (ob_outbox_pending ob = Some 0);
        telemetry_ready = (if ob_telemetry_configured ob then ob_telemetry_status ob = ''READY''
          else ob_telemetry_status ob = ''DISABLED'');
        database_ok = (ob_readable ob \<and> ob_writable ob);
        ready = (database_ok \<and> safety_ready \<and> ob_scanner_error ob = None \<and> scanner_fresh \<and>
          ob_auditor_error ob = None \<and> auditor_fresh \<and>
          (\<not> ob_telemetry_configured ob \<or> outbox_healthy) \<and> telemetry_ready \<and> telemetry_fresh)
    in Inr \<lparr>rd_ready = ready, rd_database_ok = database_ok, rd_safety = safety_ready,
         rd_external = external_ready, rd_scanner_fresh = scanner_fresh, rd_auditor_fresh = auditor_fresh,
         rd_outbox_healthy = outbox_healthy, rd_telemetry_fresh = telemetry_fresh\<rparr>)"

text \<open>\<open>/readyz\<close>: the status of the response; an error has the status of its exception.\<close>

definition error_status :: "error \<Rightarrow> int" where
  "error_status e = (case e of TraceFenceError _ status \<Rightarrow> status | PyException _ \<Rightarrow> 500)"

definition readiness_status :: "error + readiness \<Rightarrow> int" where
  "readiness_status r = (case r of Inl e \<Rightarrow> error_status e | Inr p \<Rightarrow> if rd_ready p then 200 else 503)"

section \<open>The shared computation\<close>

type_synonym readiness_inputs = "string option \<times> bool \<times> string option \<times> bool \<times> int option"

definition truthy_text :: "string option \<Rightarrow> bool" where
  "truthy_text v = (case v of None \<Rightarrow> False | Some s \<Rightarrow> s \<noteq> [])"

definition readiness_key :: "observations \<Rightarrow> readiness_inputs" where
  "readiness_key ob = (ob_scanner_last_success ob, truthy_text (ob_scanner_error ob),
     ob_auditor_last_success ob, truthy_text (ob_auditor_error ob), ob_outbox_pending ob)"

text \<open>
  The cached result with its key and end, the futures in flight with the callers they answer (a caller
  with the key and time of its request), and, for the statements, the computations that ended and the
  answers given.
\<close>

type_synonym caller = "nat \<times> rat"

record readiness_cache =
  rx_cached :: "(readiness_inputs \<times> rat \<times> readiness) option"
  rx_inflight :: "(readiness_inputs \<times> caller list) list"
  rx_done :: "(readiness_inputs \<times> rat \<times> readiness) list"
  rx_answers :: "(caller \<times> readiness_inputs \<times> (error + readiness)) list"

definition empty_cache :: readiness_cache where
  "empty_cache = \<lparr>rx_cached = None, rx_inflight = [], rx_done = [], rx_answers = []\<rparr>"

text \<open>The critical section at the start of \<open>_readiness_payload\<close>.\<close>

definition cached_answer :: "readiness_inputs \<Rightarrow> rat \<Rightarrow> readiness_cache \<Rightarrow> readiness option" where
  "cached_answer key now st =
    (case rx_cached st of
       None \<Rightarrow> None
     | Some (k, until, r) \<Rightarrow> if k = key \<and> now < until then Some r else None)"

definition ask_readiness :: "readiness_inputs \<Rightarrow> caller \<Rightarrow> readiness_cache \<Rightarrow> readiness_cache" where
  "ask_readiness key c st =
    (case cached_answer key (snd c) st of
       Some r \<Rightarrow> st\<lparr>rx_answers := (c, key, Inr r) # rx_answers st\<rparr>
     | None \<Rightarrow>
         (case map_of (rx_inflight st) key of
            None \<Rightarrow> st\<lparr>rx_inflight := (key, [c]) # rx_inflight st\<rparr>
          | Some callers \<Rightarrow>
              st\<lparr>rx_inflight := map (\<lambda>(k, cs). (k, if k = key then c # cs else cs)) (rx_inflight st)\<rparr>))"

definition callers_of :: "readiness_inputs \<Rightarrow> readiness_cache \<Rightarrow> caller list" where
  "callers_of key st = (case map_of (rx_inflight st) key of None \<Rightarrow> [] | Some cs \<Rightarrow> cs)"

definition answer_all :: "readiness_inputs \<Rightarrow> error + readiness \<Rightarrow> readiness_cache \<Rightarrow> readiness_cache" where
  "answer_all key r st =
    st\<lparr>rx_inflight := filter (\<lambda>(k, _). k \<noteq> key) (rx_inflight st),
       rx_answers := map (\<lambda>c. (c, key, r)) (callers_of key st) @ rx_answers st\<rparr>"

text \<open>The owner's computation ends at a time, or raises.\<close>

definition readiness_computed :: "env \<Rightarrow> readiness_inputs \<Rightarrow> rat \<Rightarrow> readiness \<Rightarrow> readiness_cache \<Rightarrow> readiness_cache" where
  "readiness_computed E key now r st =
    (answer_all key (Inr r) st)
      \<lparr>rx_cached := Some (key, now + of_int (readiness_cache_seconds E), r), rx_done := (key, now, r) # rx_done st\<rparr>"

definition readiness_failed :: "readiness_inputs \<Rightarrow> error \<Rightarrow> readiness_cache \<Rightarrow> readiness_cache" where
  "readiness_failed key e st = answer_all key (Inl e) st"

text \<open>Any order of requests, results and failures, on a clock that does not go back.\<close>

inductive readiness_reachable :: "env \<Rightarrow> rat \<Rightarrow> readiness_cache \<Rightarrow> bool" for E where
  cache_empty: "readiness_reachable E h empty_cache"
| asked: "readiness_reachable E h st \<Longrightarrow> h \<le> now \<Longrightarrow>
    readiness_reachable E now (ask_readiness key (i, now) st)"
| computed: "readiness_reachable E h st \<Longrightarrow> h \<le> now \<Longrightarrow> callers_of key st \<noteq> [] \<Longrightarrow>
    readiness_reachable E now (readiness_computed E key now r st)"
| failed_computation: "readiness_reachable E h st \<Longrightarrow> h \<le> now \<Longrightarrow> callers_of key st \<noteq> [] \<Longrightarrow>
    readiness_reachable E now (readiness_failed key e st)"

definition cache_ok :: "env \<Rightarrow> rat \<Rightarrow> readiness_cache \<Rightarrow> bool" where
  "cache_ok E h st \<longleftrightarrow>
     (\<forall>k until r. rx_cached st = Some (k, until, r) \<longrightarrow>
        (k, until - of_int (readiness_cache_seconds E), r) \<in> set (rx_done st)) \<and>
     distinct (map fst (rx_inflight st)) \<and>
     (\<forall>(k, cs) \<in> set (rx_inflight st). cs \<noteq> [] \<and> (\<forall>c \<in> set cs. snd c \<le> h)) \<and>
     (\<forall>(c, k, r) \<in> set (rx_answers st). \<forall>p. r = Inr p \<longrightarrow>
        (\<exists>f. (k, f, p) \<in> set (rx_done st) \<and> snd c \<le> f + of_int (readiness_cache_seconds E)))"

lemma ask_ok:
  assumes "cache_ok E h st" and "h \<le> now"
  shows "cache_ok E now (ask_readiness key (i, now) st)"
proof (cases "cached_answer key now st")
  case (Some r)
  then obtain until where c: "rx_cached st = Some (key, until, r)" "now < until"
    by (auto simp: cached_answer_def split: option.splits if_splits)
  have "ask_readiness key (i, now) st = st\<lparr>rx_answers := ((i, now), key, Inr r) # rx_answers st\<rparr>"
    using Some by (simp add: ask_readiness_def)
  moreover have "(key, until - of_int (readiness_cache_seconds E), r) \<in> set (rx_done st)"
    using assms(1) c(1) by (simp add: cache_ok_def)
  ultimately show ?thesis
    using assms c(2) by (fastforce simp: cache_ok_def)
next
  case miss: None
  show ?thesis
  proof (cases "map_of (rx_inflight st) key")
    case None
    then have "ask_readiness key (i, now) st = st\<lparr>rx_inflight := (key, [(i, now)]) # rx_inflight st\<rparr>"
      using miss by (simp add: ask_readiness_def)
    then show ?thesis using assms None by (fastforce simp: cache_ok_def map_of_eq_None_iff)
  next
    case (Some cs)
    let ?join = "\<lambda>(k, cs). (k, if k = key then (i, now) # cs else cs)"
    have [simp]: "fst \<circ> ?join = fst" by auto
    have "ask_readiness key (i, now) st = st\<lparr>rx_inflight := map ?join (rx_inflight st)\<rparr>"
      using miss Some by (simp add: ask_readiness_def)
    moreover have "cs' \<noteq> [] \<and> (\<forall>c \<in> set cs'. snd c \<le> now)" if "(k, cs') \<in> set (map ?join (rx_inflight st))" for k cs'
    proof -
      obtain cs0 where "(k, cs0) \<in> set (rx_inflight st)" "cs' = (if k = key then (i, now) # cs0 else cs0)"
        using \<open>(k, cs') \<in> _\<close> by auto
      moreover from this have "cs0 \<noteq> []" "\<forall>c \<in> set cs0. snd c \<le> h"
        using assms(1) by (auto simp: cache_ok_def)
      ultimately show ?thesis using assms(2) by auto
    qed
    ultimately show ?thesis using assms(1) unfolding cache_ok_def by (simp add: Ball_def)
  qed
qed

lemma answer_all_ok:
  assumes "cache_ok E h st" and "h \<le> now"
    and "\<And>p. r = Inr p \<Longrightarrow> (key, now, p) \<in> set done'"
    and "set (rx_done st) \<subseteq> set done'" and "0 \<le> readiness_cache_seconds E"
    and "\<And>k until p. cached = Some (k, until, p) \<Longrightarrow>
      (k, until - of_int (readiness_cache_seconds E), p) \<in> set done'"
  shows "cache_ok E now ((answer_all key r st)\<lparr>rx_cached := cached, rx_done := done'\<rparr>)"
proof -
  have callers: "snd c \<le> now" if "c \<in> set (callers_of key st)" for c
    using assms(1,2) that by (fastforce simp: cache_ok_def callers_of_def split: option.splits dest: map_of_SomeD)
  have "\<exists>f. (key, f, p) \<in> set done' \<and> snd c \<le> f + of_int (readiness_cache_seconds E)"
    if "c \<in> set (callers_of key st)" "r = Inr p" for c p
  proof (intro exI conjI)
    show "(key, now, p) \<in> set done'" using assms(3) that(2) .
    have "0 \<le> rat_of_int (readiness_cache_seconds E)" using assms(5) by simp
    then show "snd c \<le> now + of_int (readiness_cache_seconds E)" using callers [OF that(1)] by linarith
  qed
  then show ?thesis
    using assms(1,2,4,6) by (fastforce simp: cache_ok_def answer_all_def distinct_map_filter)
qed

lemma reachable_cache_ok:
  assumes "readiness_reachable E h st" and "0 \<le> readiness_cache_seconds E"
  shows "cache_ok E h st"
  using assms(1)
proof induction
  case (cache_empty h)
  show ?case by (simp add: cache_ok_def empty_cache_def)
next
  case (asked h st now key i)
  then show ?case by (simp add: ask_ok)
next
  case (computed h st now key r)
  have "cache_ok E now ((answer_all key (Inr r) st)
      \<lparr>rx_cached := Some (key, now + of_int (readiness_cache_seconds E), r), rx_done := (key, now, r) # rx_done st\<rparr>)"
    by (rule answer_all_ok [OF computed.IH computed.hyps(2)]) (use assms(2) in auto)
  then show ?case by (simp add: readiness_computed_def)
next
  case (failed_computation h st now key e)
  have "cache_ok E now ((answer_all key (Inl e) st)\<lparr>rx_cached := rx_cached st, rx_done := rx_done st\<rparr>)"
    by (rule answer_all_ok [OF failed_computation.IH failed_computation.hyps(2)])
      (use assms(2) failed_computation.IH in \<open>auto simp: cache_ok_def\<close>)
  then show ?case by (simp add: readiness_failed_def answer_all_def)
qed

end
