(* ===== verification/Http_Properties.thy ===== *)
theory Http_Properties
  imports Middleware Readiness Sample
begin

text \<open>
  Properties of the HTTP side: the middleware of \<open>api/main.py\<close>, the bounded executor and readiness.
\<close>

section \<open>Middleware\<close>

text \<open>C28: behind the size limit the application receives at most the configured number of body bytes of
  a POST, PUT or PATCH request, however the client splits or declares its body: a declared length that is
  invalid or too large is answered before the application runs; otherwise it runs on the client's
  messages with an exception in place of everything past the limit, unchanged when the body is within it,
  and when the exception leaves the application unanswered the client gets 413.  A request of any other
  method is not limited at all: its messages, body included, pass as they are.\<close>

theorem request_body_bounded:
  assumes "0 \<le> max_bytes"
    and "declared = map_option (\<lambda>raw. parse_int (strip_bytes raw)) (header ''content-length'' scope)"
  shows "body_bytes (clip max_bytes 0 ms) \<le> max_bytes \<and>
    (body_bytes ms \<le> max_bytes \<longrightarrow> clip max_bytes 0 ms = ms) \<and>
    run_app (request_size_limit R max_bytes scope inner) ms =
      (if hs_type scope \<noteq> ''http'' \<or> hs_method scope \<notin> {''POST'', ''PUT'', ''PATCH''} then run_app inner ms
       else case declared of
         None \<Rightarrow> answered R False (run_app inner (clip max_bytes 0 ms))
       | Some (Some n) \<Rightarrow>
           if n < 0 then run_app (size_error R 400 ''INVALID_CONTENT_LENGTH'' ''Invalid Content-Length header'') ms
           else if max_bytes < n then run_app (send_too_large R) ms
           else answered R False (run_app inner (clip max_bytes 0 ms))
       | Some None \<Rightarrow>
           run_app (size_error R 400 ''INVALID_CONTENT_LENGTH'' ''Invalid Content-Length header'') ms)"
proof -
  have "body_bytes (clip max_bytes 0 ms) \<le> max_bytes" using clip_bytes [OF assms(1), of ms] by simp
  moreover have "body_bytes ms \<le> max_bytes \<longrightarrow> clip max_bytes 0 ms = ms"
    using clip_within [of 0 ms max_bytes] by simp
  ultimately show ?thesis
    by (auto simp: request_size_limit_def limited_method_def assms(2) run_limit_body split: option.split)
qed

definition post_scope :: "(string \<times> string) list \<Rightarrow> http_scope" where
  "post_scope hs = \<lparr>hs_type = ''http'', hs_method = ''POST'', hs_path = ''/v1/runs'', hs_headers = hs,
     hs_client = Some ''10.0.0.1''\<rparr>"

definition plain_rendering :: rendering where
  "plain_rendering = \<lparr>rd_headers = (\<lambda>_. []), rd_body = (\<lambda>_. ''{}'')\<rparr>"

text \<open>An application that reads two messages, lets an exception through and answers 200.\<close>

definition two_reads :: app where
  "two_reads = Receives (\<lambda>m. case m of Inl e \<Rightarrow> Raises e | Inr _ \<Rightarrow>
     Receives (\<lambda>m. case m of Inl e \<Rightarrow> Raises e | Inr _ \<Rightarrow> Sends (Response_Start 200 []) Returns))"

theorem request_body_bounded_witness:
  "run_app (request_size_limit plain_rendering 3 (post_scope []) two_reads)
     [Inr (Request_Body ''ab''), Inr (Request_Body ''cd'')] =
   run_app (send_too_large plain_rendering) []"
proof -
  have scope: "hs_type (post_scope []) = ''http''" "hs_method (post_scope []) = ''POST''"
    "header ''content-length'' (post_scope []) = None"
    by (simp_all add: post_scope_def header_def)
  note b = request_body_bounded [of 3 None "post_scope []"
      "[Inr (Request_Body ''ab''), Inr (Request_Body ''cd'')]" plain_rendering two_reads]
  show ?thesis
    using b by (simp add: scope answered_def two_reads_def send_too_large_def size_error_def json_response_def)
qed

text \<open>C33: every response that the middlewares or the application behind them send carries the browser
  security headers, behind the headers it was sent with, and for an API path a cache-control header; it
  comes from the application or is the 400, 413 or 429 of a middleware.  (An exception that nobody handles
  leaves the stack as an exception; the plain 500 that the server writes for it outside is not one of
  these responses.)\<close>

theorem every_response_secured:
  assumes "hs_type scope = ''http''"
    and "Response_Start status hs \<in>
      set (snd (run_app (fst (http_stack E R ip_address now scope inner L)) ms))"
  shows "(\<exists>own more. hs = own @ fixed_headers @ more \<and>
      (status \<in> {400, 413, 429} \<or> (\<exists>ms'. Response_Start status own \<in> set (snd (run_app inner ms'))))) \<and>
    (api_path (hs_path scope) \<longrightarrow> has_header ''cache-control'' hs)"
proof -
  let ?sized = "request_size_limit R (max_request_bytes E) scope inner"
  obtain a L' where a: "rate_limit_middleware E R ip_address now scope ?sized L = (a, L')" by fastforce
  have "Response_Start status hs \<in> set (map (secure_send scope) (snd (run_app a ms)))"
    using assms a by (auto simp: http_stack_def security_headers_def run_map_sends split: prod.splits)
  then obtain m where m: "m \<in> set (snd (run_app a ms))" "secure_send scope m = Response_Start status hs"
    by force
  obtain own where own: "m = Response_Start status own" "hs = secured scope own"
    using m(2) by (cases m) (simp_all add: secure_send_def)
  have json: "s = st" if "Response_Start s h \<in> set (snd (run_app (json_response R st c x) ms))" for s h st c x
    using that by (simp add: json_response_def)
  have sized: "status \<in> {400, 413} \<or> (\<exists>ms'. Response_Start status own \<in> set (snd (run_app inner ms')))"
    if "Response_Start status own \<in> set (snd (run_app ?sized ms))"
  proof -
    have large: "status = 413" if "Response_Start status own \<in> set (snd (run_app (send_too_large R) ms'))" for ms'
      using that by (simp add: send_too_large_def size_error_def json_response_def)
    have "Response_Start status own \<in> set (snd (run_app inner ms')) \<or> status = 413"
      if "Response_Start status own \<in> set (snd (answered R s (run_app inner ms')))" for s ms'
      using that large by (auto simp: answered_def split: prod.splits if_splits)
    then show ?thesis
      using that json large
      by (fastforce simp: request_size_limit_def size_error_def run_limit_body split: option.splits if_splits)
  qed
  have "status \<in> {400, 413, 429} \<or> (\<exists>ms'. Response_Start status own \<in> set (snd (run_app inner ms')))"
    using a m(1) own(1) json sized
    by (fastforce simp: rate_limit_middleware_def split: if_splits prod.splits sum.splits)
  then show ?thesis using secured_keeps [of scope own] secured_cache [of scope own] own(2) by auto
qed

theorem every_response_secured_witness:
  "has_header ''cache-control'' (secured (post_scope []) [])"
proof -
  have "Response_Start 200 (secured (post_scope []) []) \<in>
      set (snd (run_app (fst (http_stack (sample_env\<lparr>rate_limit_per_minute := 5, max_request_bytes := 10,
        rate_limit_max_buckets := 4, trusted_proxy_hosts := []\<rparr>) plain_rendering (\<lambda>_. None) 0
        (post_scope []) (Sends (Response_Start 200 []) Returns) [])) []))"
    by (simp add: http_stack_def rate_limit_middleware_def gate_def consume_def evict_def prune_bucket_def
        operator_bucket_def header_def post_scope_def request_size_limit_def limited_method_def
        security_headers_def secure_send_def client_host_def)
  from every_response_secured [OF _ this] show ?thesis
    by (simp add: post_scope_def api_path_def)
qed

text \<open>C29: a refused request is told exactly when to come back: the application behind the limiter does not
  run, the client gets 429 with a number of seconds between 1 and 60, and for the bucket that refused it
  a request at that time or later is admitted, one a second or more earlier is not.\<close>

theorem refused_request_waits:
  assumes "gate_reached E ip_address h L" and "h \<le> now"
    and "0 < rate_limit_per_minute E" and "0 < proof_rate_limit_per_minute E"
    and "hs_type scope = ''http''" and "starts_with ''/v1/'' (hs_path scope)"
    and "gate E ip_address now scope L = (Inr k, L')" and "k \<noteq> 0"
  shows "http_stack E R ip_address now scope inner L =
      (security_headers scope
         (json_response R 429 (error_content ''RATE_LIMIT_EXCEEDED'' ''Request rate limit exceeded'')
            [(''retry-after'', show_int k)]), L') \<and>
    1 \<le> k \<and> k \<le> 60 \<and>
    (\<exists>key. (\<forall>t. now + of_int k \<le> t \<longrightarrow>
        fst (consume (rate_limit_max_buckets E) key (bucket_limit E key) t L') = Inr 0) \<and>
      (\<forall>t. now \<le> t \<and> t \<le> now + of_int (k - 1) \<longrightarrow>
        fst (consume (rate_limit_max_buckets E) key (bucket_limit E key) t L') \<noteq> Inr 0))"
proof -
  have ok: "buckets_ok E h L" using reached_buckets_ok [OF assms(1)] assms(3,4) by simp
  let ?ip = "''ip-abuse:'' @ client_host E ip_address scope"
  obtain r1 L1 where 1: "consume (rate_limit_max_buckets E) ?ip (bucket_limit E ?ip) now L = (r1, L1)" by fastforce
  have ok1: "buckets_ok E now L1"
    by (rule consume_keeps [OF ok assms(2) _ 1]) (use assms(3) in \<open>simp add: bucket_limit_def\<close>)
  have "(r1 = Inr k \<and> L1 = L') \<or>
      (\<exists>op. consume (rate_limit_max_buckets E) (''proof:'' @ op) (proof_rate_limit_per_minute E) now L1 = (Inr k, L') \<or>
         consume (rate_limit_max_buckets E) (''operator:'' @ op) (rate_limit_per_minute E) now L1 = (Inr k, L'))"
    using assms(7) unfolding gate_def 1 [unfolded bucket_limits] by (auto split: sum.splits option.splits if_splits)
  then have "(\<exists>key. consume (rate_limit_max_buckets E) key (bucket_limit E key) now L = (Inr k, L') \<and>
        0 < bucket_limit E key) \<or>
      (\<exists>key. consume (rate_limit_max_buckets E) key (bucket_limit E key) now L1 = (Inr k, L') \<and>
        0 < bucket_limit E key)"
    using assms(3,4) 1 by (metis bucket_limits)
  then have "1 \<le> k \<and> k \<le> 60 \<and>
    (\<exists>key. (\<forall>t. now + of_int k \<le> t \<longrightarrow>
        fst (consume (rate_limit_max_buckets E) key (bucket_limit E key) t L') = Inr 0) \<and>
      (\<forall>t. now \<le> t \<and> t \<le> now + of_int (k - 1) \<longrightarrow>
        fst (consume (rate_limit_max_buckets E) key (bucket_limit E key) t L') \<noteq> Inr 0))"
    using wait_exact [OF ok assms(2) _ _ assms(8)] wait_exact [OF ok1 order_refl _ _ assms(8)] by blast
  moreover have "http_stack E R ip_address now scope inner L =
      (security_headers scope
         (json_response R 429 (error_content ''RATE_LIMIT_EXCEEDED'' ''Request rate limit exceeded'')
            [(''retry-after'', show_int k)]), L')"
    using assms(5-8) by (simp add: http_stack_def rate_limit_middleware_def)
  ultimately show ?thesis by blast
qed

definition strict_env :: env where
  "strict_env = sample_env\<lparr>rate_limit_per_minute := 1, proof_rate_limit_per_minute := 1,
     rate_limit_max_buckets := 4, trusted_proxy_hosts := []\<rparr>"

definition one_request :: limiter where
  "one_request = [(''ip-abuse:10.0.0.1'', [0])]"

lemma one_request_reached: "gate_reached strict_env (\<lambda>_. None) 0 one_request"
proof -
  have "snd (http_stack strict_env plain_rendering (\<lambda>_. None) 0 (post_scope []) Returns []) = one_request"
    by (simp add: http_stack_def rate_limit_middleware_def gate_def consume_def evict_def prune_bucket_def
        operator_bucket_def header_def post_scope_def client_host_def strict_env_def one_request_def)
  then show ?thesis
    using gate_reached.gate_request [OF gate_reached.gate_start [of strict_env "\<lambda>_. None" 0] order_refl,
        of plain_rendering "post_scope []" Returns] by simp
qed

theorem refused_request_waits_witness:
  "\<exists>key. \<forall>t. 60 \<le> t \<longrightarrow>
     fst (consume 4 key (bucket_limit strict_env key) t (snd (gate strict_env (\<lambda>_. None) 10 (post_scope []) one_request))) =
       Inr 0"
proof -
  have g: "gate strict_env (\<lambda>_. None) 10 (post_scope []) one_request = (Inr 50, one_request)"
    by (simp add: gate_def consume_def prune_bucket_def operator_bucket_def header_def post_scope_def
        client_host_def strict_env_def one_request_def)
  have pos: "0 < rate_limit_per_minute strict_env" "0 < proof_rate_limit_per_minute strict_env"
    "rate_limit_max_buckets strict_env = 4"
    by (simp_all add: strict_env_def)
  have scope: "hs_type (post_scope []) = ''http''" "starts_with ''/v1/'' (hs_path (post_scope []))"
    by (simp_all add: post_scope_def)
  show ?thesis
    using refused_request_waits [OF one_request_reached _ pos(1,2) scope g, where R = plain_rendering
        and inner = Returns] by (auto simp: g pos(3))
qed

section \<open>The bounded executor\<close>

text \<open>C31: however calls, deadlines, worker threads and shutdowns interleave, a pool never runs more calls
  than it has workers nor holds more than its workers and its queue, every caller is answered at most
  once, a call without a free permit is refused at once, with the calls in flight and the permits as they
  were, and every permit is free, held by a call in flight, or lost with a call that a shutdown cancelled.\<close>

theorem pool_is_bounded:
  assumes "executor_reachable name w q e"
  shows "length (running e) \<le> w \<and> in_flight e \<le> w + q \<and>
    xc_free e + in_flight e + length (xc_cancelled e) = w + q \<and> distinct (map fst (xc_answers e)) \<and>
    (\<forall>j e'. xc_free e = 0 \<and> executor_step (Call j) e = Some e' \<longrightarrow>
       (j, Refused (service_unavailable_error (map upper_char name @ ''_EXECUTOR_OVERLOADED''))) \<in>
         set (xc_answers e') \<and>
       in_flight e' = in_flight e \<and> xc_free e' = 0)"
proof -
  have ok: "executor_ok name w q e" by (rule reachable_executor_ok [OF assms])
  then have "xc_name e = name" "length (running e) \<le> w"
    "xc_free e + in_flight e + length (xc_cancelled e) = w + q" "distinct (map fst (xc_answers e))"
    by (simp_all add: executor_ok_def callers_ok_def)
  moreover have "(j, Refused (service_unavailable_error (map upper_char name @ ''_EXECUTOR_OVERLOADED''))) \<in>
      set (xc_answers e') \<and> in_flight e' = in_flight e \<and> xc_free e' = 0"
    if "xc_free e = 0" "executor_step (Call j) e = Some e'" for j e'
  proof -
    have start: "xc_free (start_pool e) = xc_free e" "xc_name (start_pool e) = xc_name e"
      "running (start_pool e) = running e" "queued (start_pool e) = queued e"
      "xc_acquired (start_pool e) = xc_acquired e" "xc_draining (start_pool e) = xc_draining e"
      by (simp_all add: start_pool_def running_def queued_def)
    have "e' = call_service j e" using that(2) by (simp add: executor_step_def split: if_splits)
    then show ?thesis
      using that(1) \<open>xc_name e = name\<close> by (simp add: call_service_def Let_def start in_flight_def)
        (simp add: answer_call_def start)
  qed
  ultimately show ?thesis by auto
qed

text \<open>Two calls wait for the one worker when the pool is stopped.\<close>

definition stopped_events :: "executor_event list" where
  "stopped_events = [Call 1, Call 2, Hand_Over 1 False, Hand_Over 2 False, Stop, Start]"

lemma stopped_pool_refuses:
  "\<exists>e. executor_reachable ''safety'' 1 1 e \<and> is_alive e \<and> in_flight e = 0 \<and> xc_free e = 0"
proof -
  have "executor_run stopped_events (new_executor ''safety'' 1 1) \<noteq> None"
    "\<forall>e. executor_run stopped_events (new_executor ''safety'' 1 1) = Some e \<longrightarrow>
       is_alive e \<and> in_flight e = 0 \<and> xc_free e = 0"
    by (simp_all add: stopped_events_def executor_step_def call_service_def start_pool_def new_executor_def
        hand_over_def stop_pool_def is_alive_def in_flight_def running_def queued_def answer_call_def)
  then show ?thesis using executor_run_reachable [OF executor_reachable.executor_new] by blast
qed

theorem pool_is_bounded_witness:
  "\<exists>e e'. xc_free e = 0 \<and> executor_step (Call 3) e = Some e' \<and>
     (3, Refused (service_unavailable_error ''SAFETY_EXECUTOR_OVERLOADED'')) \<in> set (xc_answers e')"
proof -
  obtain e where e: "executor_run stopped_events (new_executor ''safety'' 1 1) = Some e" "xc_free e = 0"
    "executor_step (Call 3) e \<noteq> None"
    by (simp add: stopped_events_def executor_step_def call_service_def start_pool_def new_executor_def
        hand_over_def stop_pool_def answer_call_def)
  then obtain e' where "executor_step (Call 3) e = Some e'" by blast
  moreover have "executor_reachable ''safety'' 1 1 e"
    using executor_run_reachable [OF executor_reachable.executor_new e(1)] .
  moreover have "map upper_char ''safety'' = ''SAFETY''" by code_simp
  ultimately show ?thesis
    using pool_is_bounded [of "''safety''" 1 1 e] e(2) by auto
qed

section \<open>Readiness\<close>

text \<open>C32: a full pool of proofs takes the control plane out of service: when as many proofs are in flight
  as the external executor has workers and queue places, the call of its probe is refused at once, the
  probe raises that refusal instead of answering false, and a process that is ready whatever the external
  executor answers is reported 503.\<close>

theorem external_overload_unready:
  assumes "executor_reachable ''external'' w q external" and "in_flight external = w + q"
    and "is_alive external" and "executor_step (Call j) external = Some external'"
    and "ob_external_probe ob = probe external (seen_by_probe j external')"
    and "compute_readiness E fromisoformat clk (ob\<lparr>ob_external_probe := Inr False\<rparr>) = Inr p" and "rd_ready p"
  shows "compute_readiness E fromisoformat clk ob =
      Inl (service_unavailable_error ''EXTERNAL_EXECUTOR_OVERLOADED'') \<and>
    readiness_status (compute_readiness E fromisoformat clk ob) = 503 \<and>
    readiness_status (compute_readiness E fromisoformat clk (ob\<lparr>ob_external_probe := Inr False\<rparr>)) = 200"
proof -
  have upper: "map upper_char ''external'' @ ''_EXECUTOR_OVERLOADED'' = ''EXTERNAL_EXECUTOR_OVERLOADED''" by code_simp
  have "xc_free external = 0"
    using reachable_executor_ok [OF assms(1)] assms(2) by (simp add: executor_ok_def)
  then have seen: "seen_by_probe j external' =
      Probe_Answer (Refused (service_unavailable_error ''EXTERNAL_EXECUTOR_OVERLOADED''))"
    using full_call_refused [OF assms(1) _ assms(4), unfolded upper] by (simp add: seen_by_probe_def)
  have "ob_external_probe ob = Inl (service_unavailable_error ''EXTERNAL_EXECUTOR_OVERLOADED'')"
    using assms(3,5) by (simp add: seen probe_def is_alive_def service_unavailable_error_def)
  moreover obtain s where "ob_safety_probe ob = Inr s"
    using assms(6) by (cases "ob_safety_probe ob") (simp_all add: compute_readiness_def gathered_probes_def)
  ultimately show ?thesis
    using assms(6,7)
    by (simp add: compute_readiness_def gathered_probes_def readiness_status_def error_status_def
        service_unavailable_error_def)
qed

definition healthy :: observations where
  "healthy = \<lparr>ob_readable = True, ob_writable = True, ob_safety_probe = Inr True,
     ob_external_probe = Inl (service_unavailable_error ''EXTERNAL_EXECUTOR_OVERLOADED''),
     ob_external_first = False, ob_scanner_last_success = Some ''now'', ob_scanner_error = None,
     ob_auditor_last_success = Some ''now'', ob_auditor_error = None, ob_outbox_pending = Some 3,
     ob_telemetry_status = ''DISABLED'', ob_telemetry_configured = False, ob_last_flush = None\<rparr>"

text \<open>One worker, no queue: one proof runs, and the probe comes.\<close>

theorem external_overload_unready_witness:
  "readiness_status (compute_readiness sample_env (\<lambda>_. Some (True, noon)) (\<lambda>_. noon) healthy) = 503"
proof -
  let ?events = "[Call 1, Hand_Over 1 False, Begin]"
  obtain full full' where run: "executor_run ?events (new_executor ''external'' 1 0) = Some full"
    and busy: "in_flight full = 1" "is_alive full" and call: "executor_step (Call 2) full = Some full'"
    and seen: "probe full (seen_by_probe 2 full') =
      Inl (service_unavailable_error (map upper_char ''external'' @ ''_EXECUTOR_OVERLOADED''))"
    by (simp add: executor_step_def call_service_def start_pool_def new_executor_def hand_over_def begin_call_def
        in_flight_def running_def queued_def is_alive_def answer_call_def seen_by_probe_def probe_def
        service_unavailable_error_def)
  have reach: "executor_reachable ''external'' 1 0 full"
    by (rule executor_run_reachable [OF executor_reachable.executor_new run])
  have upper: "map upper_char ''external'' @ ''_EXECUTOR_OVERLOADED'' = ''EXTERNAL_EXECUTOR_OVERLOADED''" by code_simp
  have probed: "ob_external_probe healthy = probe full (seen_by_probe 2 full')"
    by (simp add: seen [unfolded upper] healthy_def)
  obtain p where p: "compute_readiness sample_env (\<lambda>_. Some (True, noon)) (\<lambda>_. noon)
      (healthy\<lparr>ob_external_probe := Inr False\<rparr>) = Inr p" "rd_ready p"
    by (simp add: compute_readiness_def gathered_probes_def healthy_def freshness_def seconds_def Let_def)
  have "in_flight full = 1 + 0" using busy(1) by simp
  from external_overload_unready [OF reach this busy(2) call probed p] show ?thesis by blast
qed

text \<open>Every answer of the readiness endpoint is a computation for the same observed key that ended at most
  \<open>readiness_cache_seconds\<close> before the request, and no key is computed twice at once.\<close>

lemma readiness_answers_fresh:
  assumes "readiness_reachable E h st" and "0 \<le> readiness_cache_seconds E"
  shows "distinct (map fst (rx_inflight st)) \<and>
    (\<forall>((i, t), k, r) \<in> set (rx_answers st). \<forall>p. r = Inr p \<longrightarrow>
       (\<exists>f. (k, f, p) \<in> set (rx_done st) \<and> t \<le> f + of_int (readiness_cache_seconds E)))"
  using reachable_cache_ok [OF assms] by (fastforce simp: cache_ok_def)

end
