(* ===== verification/Routes.thy ===== *)
theory Routes
  imports System Readiness
begin

text \<open>
  The routes: \<open>api/routes/\<close>, the dependencies of \<open>api/dependencies.py\<close>, \<open>api/demo_security.py\<close>, the
  exception handler, and the two background loops of \<open>api/main.py\<close>.  A request has been parsed by
  FastAPI: its path, query and body are values of the schemas and a missing header is \<open>None\<close>.  What a
  handler draws (times, tokens, nonces) and what the executor does with its call are fields of \<open>draws\<close>.
\<close>

section \<open>Who may call\<close>

definition loopback_hosts :: "string list" where
  "loopback_hosts = [''127.0.0.1'', ''::1'', ''localhost'']"

definition demo_hosts :: "string \<Rightarrow> string list" where
  "demo_hosts env_name = loopback_hosts @ (if env_name = ''test'' then [''testclient''] else [])"

definition demo_access_allowed ::
    "bool \<Rightarrow> string \<Rightarrow> string option \<Rightarrow> string option \<Rightarrow> string \<Rightarrow> bool" where
  "demo_access_allowed mode env_name client_host supplied_nonce expected_nonce =
    (if \<not> mode then False
     else case client_host of
       None \<Rightarrow> False
     | Some h \<Rightarrow>
         if h \<notin> set (demo_hosts env_name) then False
         else (case supplied_nonce of None \<Rightarrow> False | Some n \<Rightarrow> n \<noteq> [] \<and> n = expected_nonce))"

text \<open>What a request is refused with: an exception of a service, or a bare status of the framework.\<close>

datatype refusal = Raised error | Http_Status int

definition require_demo_bootstrap :: "env \<Rightarrow> string option \<Rightarrow> refusal option" where
  "require_demo_bootstrap E client_host =
     (if demo_mode E \<and> (case client_host of None \<Rightarrow> False | Some h \<Rightarrow> h \<in> set (demo_hosts (environment E)))
      then None else Some (Http_Status 404))"

definition require_demo_access :: "env \<Rightarrow> string option \<Rightarrow> string option \<Rightarrow> string \<Rightarrow> refusal option" where
  "require_demo_access E client_host supplied_nonce nonce =
     (if demo_access_allowed (demo_mode E) (environment E) client_host supplied_nonce nonce
      then None else Some (Http_Status 404))"

text \<open>\<open>require_operator\<close> and \<open>require_proof_operator\<close> differ in the category of the limiter.\<close>

definition require_key :: "env \<Rightarrow> string \<Rightarrow> rat \<Rightarrow> string option \<Rightarrow> sys \<Rightarrow> (error + unit) \<times> sys" where
  "require_key E category tick x_operator_key s =
    (if \<not> operator_key_matches E x_operator_key then (Inl authentication_error, s)
     else (case limiter_check (category_limits E) (rate_limit_max_buckets E) category
                  (operator_fingerprint E (case x_operator_key of None \<Rightarrow> [] | Some k \<Rightarrow> k)) tick (sy_limiter s) of
             (r, L) \<Rightarrow> (r, s\<lparr>sy_limiter := L\<rparr>)))"

definition require_operator :: "env \<Rightarrow> rat \<Rightarrow> string option \<Rightarrow> sys \<Rightarrow> (error + unit) \<times> sys" where
  "require_operator E = require_key E ''operator_read''"

definition require_proof_operator :: "env \<Rightarrow> rat \<Rightarrow> string option \<Rightarrow> sys \<Rightarrow> (error + unit) \<times> sys" where
  "require_proof_operator E = require_key E ''proof''"

text \<open>The principal of a command: the operator key counts first, then the node.\<close>

definition command_principal ::
    "env \<Rightarrow> string option \<Rightarrow> ident option \<Rightarrow> string option \<Rightarrow> error + principal" where
  "command_principal E x_operator_key x_node_id x_node_token =
    (case x_operator_key of
       Some key \<Rightarrow>
         andthen (require (operator_key_matches E (Some key)) authentication_error) (\<lambda>_.
         Inr \<lparr>pl_issuer_type = Human, pl_node_id = None, pl_principal_id = Some (operator_fingerprint E key)\<rparr>)
     | None \<Rightarrow>
         (case (x_node_id, x_node_token) of
            (Some node_id, Some _) \<Rightarrow>
              Inr \<lparr>pl_issuer_type = Agent, pl_node_id = Some node_id, pl_principal_id = None\<rparr>
          | _ \<Rightarrow> Inl authentication_error))"

section \<open>Requests\<close>

record request_headers =
  rh_operator_key :: "string option"
  rh_node_id :: "ident option"
  rh_node_token :: "string option"

datatype api_call =
    Api_List_Runs int int
  | Api_Create_Run run_create
  | Api_Graph ident
  | Api_Actions ident int int
  | Api_Violations ident int int
  | Api_Services ident int int
  | Api_Proposals ident int int
  | Api_Seed ident
  | Api_Expire ident
  | Api_Review ident proposal_review
  | Api_Spawn ident spawn_create
  | Api_Replacement ident ident spawn_create
  | Api_Activate ident node_activate
  | Api_Heartbeat ident string "string option"
  | Api_Checkpoint ident string
  | Api_Complete ident
  | Api_Propose proposal_create
  | Api_Command command_create
  | Api_Action ident action_execute

datatype api_result =
    Rows "json list" | Run_Made run_created | Graph_View graph_response | No_Content | Expired int
  | Proposal_Row ident proposal_status | Spawned spawn_created | Activated node_activated
  | Checked checkpoint_response | Command_Row command_issued | Action_Row action_result

text \<open>What the executor does with a call: it runs, it is refused, or it runs past the deadline.\<close>

datatype pool_outcome = Ran | Pool_Refused error | Ran_Late

record draws =
  dr_clock :: clock
  dr_tick :: rat
  dr_operator_tick :: rat
  dr_token :: "nat \<Rightarrow> string"
  dr_nonce :: string
  dr_carrier :: carrier
  dr_pool :: pool_outcome

text \<open>The routes behind \<open>Depends(require_operator)\<close>.\<close>

definition operator_route :: "api_call \<Rightarrow> bool" where
  "operator_route call =
    (case call of
       Api_Spawn _ _ \<Rightarrow> False | Api_Replacement _ _ _ \<Rightarrow> False | Api_Activate _ _ \<Rightarrow> False
     | Api_Heartbeat _ _ _ \<Rightarrow> False | Api_Checkpoint _ _ \<Rightarrow> False | Api_Complete _ \<Rightarrow> False
     | Api_Propose _ \<Rightarrow> False | Api_Command _ \<Rightarrow> False | Api_Action _ _ \<Rightarrow> False
     | _ \<Rightarrow> True)"

text \<open>
  The parameters as FastAPI validates them: \<open>Query(ge=1, le=500)\<close>, \<open>Query(ge=0)\<close>, the headers a route
  declares as required, and the body, which the validators of the schemas may rewrite.
\<close>

definition page_ok :: "int \<Rightarrow> int \<Rightarrow> bool" where
  "page_ok limit offset \<longleftrightarrow> 1 \<le> limit \<and> limit \<le> 500 \<and> 0 \<le> offset"

definition headers_ok :: "request_headers \<Rightarrow> api_call \<Rightarrow> bool" where
  "headers_ok hs call =
    (case call of
       Api_Review _ _ \<Rightarrow> rh_operator_key hs \<noteq> None
     | Api_Spawn _ _ \<Rightarrow> rh_node_token hs \<noteq> None
     | Api_Replacement _ _ _ \<Rightarrow> rh_node_token hs \<noteq> None
     | Api_Heartbeat _ _ _ \<Rightarrow> rh_node_token hs \<noteq> None
     | Api_Checkpoint _ _ \<Rightarrow> rh_node_token hs \<noteq> None
     | Api_Complete _ \<Rightarrow> rh_node_token hs \<noteq> None
     | Api_Propose _ \<Rightarrow> rh_node_id hs \<noteq> None \<and> rh_node_token hs \<noteq> None
     | Api_Action _ _ \<Rightarrow> rh_node_token hs \<noteq> None
     | _ \<Rightarrow> True)"

definition validated_body :: "('a \<Rightarrow> api_call) \<Rightarrow> error + 'a \<Rightarrow> api_call option" where
  "validated_body call r = (case r of Inl e \<Rightarrow> None | Inr b \<Rightarrow> Some (call b))"

definition checked_call :: "bool \<Rightarrow> api_call \<Rightarrow> api_call option" where
  "checked_call ok call = (if ok then Some call else None)"

definition parsed_call :: "api_call \<Rightarrow> api_call option" where
  "parsed_call call =
    (case call of
       Api_List_Runs limit offset \<Rightarrow> checked_call (page_ok limit offset) call
     | Api_Actions _ limit offset \<Rightarrow> checked_call (page_ok limit offset) call
     | Api_Violations _ limit offset \<Rightarrow> checked_call (page_ok limit offset) call
     | Api_Services _ limit offset \<Rightarrow> checked_call (page_ok limit offset) call
     | Api_Proposals _ limit offset \<Rightarrow> checked_call (page_ok limit offset) call
     | Api_Create_Run r \<Rightarrow> validated_body Api_Create_Run (validate_run_create r)
     | Api_Review pid r \<Rightarrow> validated_body (Api_Review pid) (validate_proposal_review r)
     | Api_Spawn parent r \<Rightarrow> validated_body (Api_Spawn parent) (validate_spawn_create r)
     | Api_Replacement parent cid r \<Rightarrow> validated_body (Api_Replacement parent cid) (validate_spawn_create r)
     | Api_Command r \<Rightarrow> validated_body Api_Command (validate_command_create r)
     | Api_Activate _ r \<Rightarrow>
         checked_call (opt_ok (\<lambda>k. len_ok 4 k 160) (na_operation_key r) \<and> 16 \<le> length (na_activation_token r) \<and>
           opt_ok (\<lambda>p. 1 \<le> p) (na_process_id r)) call
     | Api_Heartbeat _ worker_state operation \<Rightarrow>
         checked_call (length worker_state \<le> 40 \<and> opt_ok (\<lambda>t. length t \<le> 120) operation) call
     | Api_Checkpoint _ stage \<Rightarrow> checked_call (len_ok 1 stage 80) call
     | Api_Propose r \<Rightarrow> checked_call (len_ok 1 (pc_reason r) 1000) call
     | Api_Action _ r \<Rightarrow>
         checked_call (len_ok 4 (ae_idempotency_key r) 160 \<and> len_ok 1 (ae_tool_name r) 100) call
     | _ \<Rightarrow> Some call)"

definition node_token_of :: "request_headers \<Rightarrow> string" where
  "node_token_of hs = (case rh_node_token hs of None \<Rightarrow> [] | Some t \<Rightarrow> t)"

text \<open>A service call with its result wrapped for the response; a read leaves the state.\<close>

definition wrapped :: "('a \<Rightarrow> api_result) \<Rightarrow> (error + 'a) \<times> sys \<Rightarrow> (error + api_result) \<times> sys" where
  "wrapped w outcome = (case outcome of (Inl e, s) \<Rightarrow> (Inl e, s) | (Inr a, s) \<Rightarrow> (Inr (w a), s))"

definition reading :: "('a \<Rightarrow> api_result) \<Rightarrow> error + 'a \<Rightarrow> sys \<Rightarrow> (error + api_result) \<times> sys" where
  "reading w r s = wrapped w (r, s)"

definition proposal_row :: "proposal \<Rightarrow> api_result" where
  "proposal_row p = Proposal_Row (p_id p) (p_status p)"

section \<open>The routes\<close>

text \<open>\<open>runs.py\<close>.\<close>

definition api_list_runs :: "int \<Rightarrow> int \<Rightarrow> sys \<Rightarrow> (error + api_result) \<times> sys" where
  "api_list_runs limit offset s =
    (Inr (Rows (list_runs (nat limit) (nat offset) (sy_db s))), s)"

definition api_create_run :: "env \<Rightarrow> draws \<Rightarrow> run_create \<Rightarrow> sys \<Rightarrow> (error + api_result) \<times> sys" where
  "api_create_run E D request s =
    wrapped Run_Made (transaction (create_run E request (dr_token D 0) (dr_clock D 0)) s)"

definition api_get_graph :: "draws \<Rightarrow> ident \<Rightarrow> sys \<Rightarrow> (error + api_result) \<times> sys" where
  "api_get_graph D run_id s =
    reading Graph_View (get_graph (dr_clock D 0) run_id (sy_db s)) s"

definition api_list_actions :: "ident \<Rightarrow> int \<Rightarrow> int \<Rightarrow> sys \<Rightarrow> (error + api_result) \<times> sys" where
  "api_list_actions run_id limit offset s =
    reading Rows (list_actions run_id (nat limit) (nat offset) (sy_db s)) s"

definition api_list_violations :: "ident \<Rightarrow> int \<Rightarrow> int \<Rightarrow> sys \<Rightarrow> (error + api_result) \<times> sys" where
  "api_list_violations run_id limit offset s =
    reading Rows (list_violations run_id (nat limit) (nat offset) (sy_db s)) s"

text \<open>\<open>scenario.py\<close>.\<close>

definition api_seed :: "draws \<Rightarrow> ident \<Rightarrow> sys \<Rightarrow> (error + api_result) \<times> sys" where
  "api_seed D run_id s =
    wrapped (\<lambda>_. No_Content) (transaction (seed_scenario (dr_clock D 0) run_id) s)"

definition api_services :: "ident \<Rightarrow> int \<Rightarrow> int \<Rightarrow> sys \<Rightarrow> (error + api_result) \<times> sys" where
  "api_services run_id limit offset s =
    reading Rows (list_states run_id (nat limit) (nat offset) (sy_db s)) s"

definition api_expire_leases :: "env \<Rightarrow> draws \<Rightarrow> ident \<Rightarrow> sys \<Rightarrow> (error + api_result) \<times> sys" where
  "api_expire_leases E D run_id s =
    wrapped Expired (transaction (expire_stale_nodes E (dr_clock D 0) (Some run_id)) s)"

text \<open>\<open>nodes.py\<close>.\<close>

definition api_create_spawn :: "env \<Rightarrow> codecs \<Rightarrow> draws \<Rightarrow> ident \<Rightarrow> string \<Rightarrow> spawn_create \<Rightarrow> sys \<Rightarrow> (error + api_result) \<times> sys" where
  "api_create_spawn E C D parent token request s =
    wrapped Spawned
      (create_spawn E C (dr_clock D) (dr_tick D) (dr_token D 0) (dr_nonce D) (dr_carrier D) parent token request s)"

definition api_create_replacement :: "env \<Rightarrow> codecs \<Rightarrow> draws \<Rightarrow> ident \<Rightarrow> ident \<Rightarrow> string \<Rightarrow> spawn_create \<Rightarrow> sys \<Rightarrow> (error + api_result) \<times> sys" where
  "api_create_replacement E C D parent cid token request s =
    wrapped Spawned
      (create_replacement E C (dr_clock D) (dr_tick D) (dr_token D 0) (dr_nonce D) (dr_carrier D) parent token cid
        request s)"

definition api_activate_node :: "env \<Rightarrow> codecs \<Rightarrow> draws \<Rightarrow> ident \<Rightarrow> node_activate \<Rightarrow> sys \<Rightarrow> (error + api_result) \<times> sys" where
  "api_activate_node E C D node_id request s =
    wrapped Activated
      (activate E C (dr_clock D 0) (dr_clock D 1) (dr_tick D) (dr_token D) (dr_nonce D) node_id request s)"

definition api_heartbeat :: "env \<Rightarrow> draws \<Rightarrow> ident \<Rightarrow> string \<Rightarrow> sys \<Rightarrow> (error + api_result) \<times> sys" where
  "api_heartbeat E D node_id token s =
    wrapped (\<lambda>_. No_Content) (heartbeat E (dr_clock D 0) (dr_tick D) node_id token s)"

definition api_checkpoint :: "env \<Rightarrow> draws \<Rightarrow> ident \<Rightarrow> string \<Rightarrow> string \<Rightarrow> sys \<Rightarrow> (error + api_result) \<times> sys" where
  "api_checkpoint E D node_id token stage s =
    wrapped Checked (checkpoint E (dr_clock D) (dr_tick D) node_id token stage s)"

definition api_complete :: "env \<Rightarrow> draws \<Rightarrow> ident \<Rightarrow> string \<Rightarrow> sys \<Rightarrow> (error + api_result) \<times> sys" where
  "api_complete E D node_id token s =
    wrapped (\<lambda>_. No_Content) (complete E (dr_clock D) (dr_tick D) node_id token s)"

text \<open>\<open>control.py\<close>.\<close>

definition api_create_proposal :: "env \<Rightarrow> draws \<Rightarrow> ident \<Rightarrow> string \<Rightarrow> proposal_create \<Rightarrow> sys \<Rightarrow> (error + api_result) \<times> sys" where
  "api_create_proposal E D node_id token request s =
    wrapped proposal_row (create_proposal E (dr_clock D) (dr_tick D) node_id token request s)"

definition api_review_proposal :: "env \<Rightarrow> draws \<Rightarrow> ident \<Rightarrow> string \<Rightarrow> proposal_review \<Rightarrow> sys \<Rightarrow> (error + api_result) \<times> sys" where
  "api_review_proposal E D pid key review s =
    wrapped proposal_row (transaction (review_proposal E (dr_clock D) pid review (operator_fingerprint E key)) s)"

definition api_list_proposals :: "ident \<Rightarrow> int \<Rightarrow> int \<Rightarrow> sys \<Rightarrow> (error + api_result) \<times> sys" where
  "api_list_proposals run_id limit offset s =
    reading Rows (list_proposals run_id (nat limit) (nat offset) (sy_db s)) s"

definition api_issue_command :: "env \<Rightarrow> draws \<Rightarrow> request_headers \<Rightarrow> command_create \<Rightarrow> sys \<Rightarrow> (error + api_result) \<times> sys" where
  "api_issue_command E D hs request s =
    (case command_principal E (rh_operator_key hs) (rh_node_id hs) (rh_node_token hs) of
       Inl e \<Rightarrow> (Inl e, s)
     | Inr who \<Rightarrow> wrapped Command_Row (issue_command E (dr_clock D) (dr_tick D) request who (rh_node_token hs) s))"

text \<open>\<open>actions.py\<close>.\<close>

definition api_execute_action :: "env \<Rightarrow> draws \<Rightarrow> ident \<Rightarrow> string \<Rightarrow> action_execute \<Rightarrow> sys \<Rightarrow> (error + api_result) \<times> sys" where
  "api_execute_action E D node_id token request s =
    wrapped Action_Row (execute E (dr_clock D) (dr_tick D) node_id token request s)"

lemmas endpoints = api_list_runs_def api_create_run_def api_get_graph_def api_list_actions_def api_list_violations_def api_seed_def api_services_def api_expire_leases_def api_create_spawn_def api_create_replacement_def api_activate_node_def api_heartbeat_def api_checkpoint_def api_complete_def api_create_proposal_def api_review_proposal_def api_list_proposals_def api_issue_command_def api_execute_action_def

text \<open>All routers of the application; the headers a route requires are there (\<open>headers_ok\<close>).\<close>

definition node_id_of :: "request_headers \<Rightarrow> ident" where
  "node_id_of hs = (case rh_node_id hs of None \<Rightarrow> [] | Some k \<Rightarrow> k)"

definition operator_key_of :: "request_headers \<Rightarrow> string" where
  "operator_key_of hs = (case rh_operator_key hs of None \<Rightarrow> [] | Some k \<Rightarrow> k)"

definition perform ::
    "env \<Rightarrow> codecs \<Rightarrow> draws \<Rightarrow> request_headers \<Rightarrow> api_call \<Rightarrow> sys \<Rightarrow> (error + api_result) \<times> sys" where
  "perform E C D hs call s =
    (case call of
       Api_List_Runs limit offset \<Rightarrow> api_list_runs limit offset s
     | Api_Create_Run request \<Rightarrow> api_create_run E D request s
     | Api_Graph run_id \<Rightarrow> api_get_graph D run_id s
     | Api_Actions run_id limit offset \<Rightarrow> api_list_actions run_id limit offset s
     | Api_Violations run_id limit offset \<Rightarrow> api_list_violations run_id limit offset s
     | Api_Services run_id limit offset \<Rightarrow> api_services run_id limit offset s
     | Api_Proposals run_id limit offset \<Rightarrow> api_list_proposals run_id limit offset s
     | Api_Seed run_id \<Rightarrow> api_seed D run_id s
     | Api_Expire run_id \<Rightarrow> api_expire_leases E D run_id s
     | Api_Review pid review \<Rightarrow> api_review_proposal E D pid (operator_key_of hs) review s
     | Api_Spawn parent request \<Rightarrow> api_create_spawn E C D parent (node_token_of hs) request s
     | Api_Replacement parent cid request \<Rightarrow> api_create_replacement E C D parent cid (node_token_of hs) request s
     | Api_Activate node_id request \<Rightarrow> api_activate_node E C D node_id request s
     | Api_Heartbeat node_id _ _ \<Rightarrow> api_heartbeat E D node_id (node_token_of hs) s
     | Api_Checkpoint node_id stage \<Rightarrow> api_checkpoint E D node_id (node_token_of hs) stage s
     | Api_Complete node_id \<Rightarrow> api_complete E D node_id (node_token_of hs) s
     | Api_Propose request \<Rightarrow> api_create_proposal E D (node_id_of hs) (node_token_of hs) request s
     | Api_Command request \<Rightarrow> api_issue_command E D hs request s
     | Api_Action node_id request \<Rightarrow> api_execute_action E D node_id (node_token_of hs) request s)"

text \<open>\<open>call_blocking_service\<close>: a call past its deadline is answered 503 and has its effect all the same.\<close>

definition in_pool ::
    "pool_outcome \<Rightarrow> (sys \<Rightarrow> (error + api_result) \<times> sys) \<Rightarrow> sys \<Rightarrow> (error + api_result) \<times> sys" where
  "in_pool p f s =
    (case p of
       Ran \<Rightarrow> f s
     | Pool_Refused e \<Rightarrow> (Inl e, s)
     | Ran_Late \<Rightarrow> (Inl (service_unavailable_error ''SAFETY_EXECUTION_DEADLINE_EXCEEDED''), snd (f s)))"

text \<open>A principal is checked before the call is handed to the executor.\<close>

definition principal_error :: "env \<Rightarrow> request_headers \<Rightarrow> api_call \<Rightarrow> error option" where
  "principal_error E hs call =
    (case call of
       Api_Command _ \<Rightarrow>
         (case command_principal E (rh_operator_key hs) (rh_node_id hs) (rh_node_token hs) of
            Inl e \<Rightarrow> Some e | Inr _ \<Rightarrow> None)
     | _ \<Rightarrow> None)"

text \<open>A request whose dependencies have passed.\<close>

definition to_refusal :: "(error + api_result) \<times> sys \<Rightarrow> (refusal + api_result) \<times> sys" where
  "to_refusal outcome = (case outcome of (Inl e, s) \<Rightarrow> (Inl (Raised e), s) | (Inr a, s) \<Rightarrow> (Inr a, s))"

definition handle ::
    "env \<Rightarrow> codecs \<Rightarrow> draws \<Rightarrow> request_headers \<Rightarrow> api_call \<Rightarrow> sys \<Rightarrow> (refusal + api_result) \<times> sys" where
  "handle E C D hs call s =
    (case parsed_call call of
       None \<Rightarrow> (Inl (Http_Status 422), s)
     | Some call \<Rightarrow>
         if \<not> headers_ok hs call then (Inl (Http_Status 422), s)
         else case principal_error E hs call of
           Some e \<Rightarrow> (Inl (Raised e), s)
         | None \<Rightarrow> to_refusal (in_pool (dr_pool D) (perform E C D hs call) s))"

definition serve ::
    "env \<Rightarrow> codecs \<Rightarrow> draws \<Rightarrow> request_headers \<Rightarrow> api_call \<Rightarrow> sys \<Rightarrow> (refusal + api_result) \<times> sys" where
  "serve E C D hs call s =
    (if operator_route call
     then (case require_operator E (dr_operator_tick D) (rh_operator_key hs) s of
             (Inl e, s') \<Rightarrow> (Inl (Raised e), s')
           | (Inr _, s') \<Rightarrow> handle E C D hs call s')
     else handle E C D hs call s)"

text \<open>\<open>GET /v1/commands/{id}/proof\<close>: its own category of the limiter, and the other executor.\<close>

definition serve_proof ::
    "env \<Rightarrow> rat \<Rightarrow> string option \<Rightarrow> pool_outcome \<Rightarrow> 'a tx \<Rightarrow> sys \<Rightarrow> (refusal + 'a) \<times> sys" where
  "serve_proof E tick x_operator_key p build s =
    (case require_proof_operator E tick x_operator_key s of
       (Inl e, s') \<Rightarrow> (Inl (Raised e), s')
     | (Inr _, s') \<Rightarrow>
         (case p of
            Pool_Refused e \<Rightarrow> (Inl (Raised e), s')
          | Ran_Late \<Rightarrow> (Inl (Raised (service_unavailable_error ''EXTERNAL_EXECUTION_DEADLINE_EXCEEDED'')),
              snd (transaction build s'))
          | Ran \<Rightarrow> (case transaction build s' of (Inl e, s'') \<Rightarrow> (Inl (Raised e), s'') | (Inr a, s'') \<Rightarrow> (Inr a, s''))))"

text \<open>The exception handler: the status and the code a client sees.\<close>

definition refusal_status :: "refusal \<Rightarrow> int" where
  "refusal_status r = (case r of Raised e \<Rightarrow> error_status e | Http_Status n \<Rightarrow> n)"

definition handled_code :: "error \<Rightarrow> string option" where
  "handled_code e = (case e of TraceFenceError code _ \<Rightarrow> Some code | PyException _ \<Rightarrow> None)"

section \<open>The background loops\<close>

record app_state =
  as_scanner_last_success :: "string option"
  as_scanner_error :: "string option"
  as_auditor_last_success :: "string option"
  as_auditor_error :: "string option"
  as_outbox_pending :: "int option"

definition new_app_state :: app_state where
  "new_app_state = \<lparr>as_scanner_last_success = None, as_scanner_error = None, as_auditor_last_success = None,
     as_auditor_error = None, as_outbox_pending = None\<rparr>"

text \<open>\<open>f"{type(exc).__name__}: {exc}"\<close> is an argument.\<close>

definition lease_scanner_iteration ::
    "env \<Rightarrow> clock \<Rightarrow> pool_outcome \<Rightarrow> (error \<Rightarrow> string) \<Rightarrow> app_state \<times> sys \<Rightarrow> app_state \<times> sys" where
  "lease_scanner_iteration E clk p describe w =
    (case w of (st, s) \<Rightarrow>
      (case in_pool p (\<lambda>s. wrapped Expired (transaction (expire_stale_nodes E (clk 0) None) s)) s of
         (Inr _, s') \<Rightarrow>
           (st\<lparr>as_scanner_last_success := iso_utc (Some (clk 1)), as_scanner_error := None\<rparr>, s')
       | (Inl e, s') \<Rightarrow> (st\<lparr>as_scanner_error := Some (describe e)\<rparr>, s')))"

text \<open>
  The auditor scans, delivers and counts; its three calls run in executors of their own, so other
  requests may come between them (\<open>meanwhile\<close>), and the first error ends the iteration.
\<close>

definition auditor_ends ::
    "time \<Rightarrow> (error \<Rightarrow> string) \<Rightarrow> error + int \<Rightarrow> app_state \<Rightarrow> app_state" where
  "auditor_ends now describe outcome st =
    (case outcome of
       Inl e \<Rightarrow> st\<lparr>as_auditor_error := Some (describe e)\<rparr>
     | Inr pending \<Rightarrow>
         st\<lparr>as_outbox_pending := Some pending, as_auditor_last_success := iso_utc (Some now),
            as_auditor_error := None\<rparr>)"

text \<open>What the readiness check reads of the state of the application.\<close>

definition observed_state :: "app_state \<Rightarrow> observations \<Rightarrow> observations" where
  "observed_state st ob =
    ob\<lparr>ob_scanner_last_success := as_scanner_last_success st, ob_scanner_error := as_scanner_error st,
       ob_auditor_last_success := as_auditor_last_success st, ob_auditor_error := as_auditor_error st,
       ob_outbox_pending := as_outbox_pending st\<rparr>"

end
