(* ===== verification/Web.thy ===== *)
theory Web
  imports Routes
begin

text \<open>
  The process seen from outside: requests, the two background loops and time, against the services
  taken alone.  \<open>service_step\<close> is the abstract specification: one transaction of a service, whatever
  the rate limiter held, or nothing.  \<open>web_step\<close> is one request, or one piece of a loop.
\<close>

section \<open>The services alone\<close>

inductive service_step :: "env \<Rightarrow> codecs \<Rightarrow> time \<times> db \<Rightarrow> time \<times> db \<Rightarrow> bool" for E C where
  served: "step E C (h, \<lparr>sy_db = d, sy_limiter = L\<rparr>) (h', s') \<Longrightarrow> service_step E C (h, d) (h', sy_db s')"
| event_written: "h \<le> h' \<Longrightarrow> service_step E C (h, d) (h', record_runtime_event e d)"
| nothing_written: "h \<le> h' \<Longrightarrow> service_step E C (h, d) (h', d)"

inductive service_reachable :: "env \<Rightarrow> codecs \<Rightarrow> time \<times> db \<Rightarrow> bool" for E C where
  services_start: "service_reachable E C (h, empty_db)"
| services_step: "service_reachable E C c \<Longrightarrow> service_step E C c c' \<Longrightarrow> service_reachable E C c'"

lemma service_served:
  "step E C (h, s) (h', s') \<Longrightarrow> service_step E C (h, sy_db s) (h', sy_db s')"
  using service_step.served [of E C h "sy_db s" "sy_limiter s" h' s'] by (cases s) simp

lemma event_quiet: "quiet d (record_runtime_event e d)"
  by (rule quiet_same) (simp_all add: record_runtime_event_def)

lemma service_step_safe:
  assumes "uuid_inj E" and "safe E (fst c) (snd c)" and "service_step E C c c'"
  shows "safe E (fst c') (snd c')"
  using assms(3)
proof cases
  case (served h d L h' s')
  then show ?thesis using step_safe [OF assms(1) _ served(3)] assms(2) by simp
next
  case (event_written h h' d e)
  have "advances E d (record_runtime_event e d)" by (rule plain_insert_steps)
  then show ?thesis using quiet_safe [OF assms(1) _ _ event_quiet] assms(2) event_written by simp
next
  case (nothing_written h h' d)
  then show ?thesis using assms(2) safe_later by auto
qed

lemma service_reachable_safe:
  assumes "service_reachable E C c" and "uuid_inj E"
  shows "safe E (fst c) (snd c)"
  using assms
  by (induction rule: service_reachable.induct) (auto simp: safe_empty intro: service_step_safe)

section \<open>The process\<close>

type_synonym process = "time \<times> app_state \<times> sys"

definition services_of :: "process \<Rightarrow> time \<times> db" where
  "services_of w = (case w of (h, st, s) \<Rightarrow> (h, sy_db s))"

text \<open>The clock of a request: only a command and an action ask something of it.\<close>

definition call_readings :: "api_call \<Rightarrow> time \<Rightarrow> clock \<Rightarrow> time \<Rightarrow> bool" where
  "call_readings call h clk h' \<longleftrightarrow>
    (case call of
       Api_Command _ \<Rightarrow> readings h clk h'
     | Api_Action _ _ \<Rightarrow> readings h clk h'
     | _ \<Rightarrow> any_readings h clk h')"

lemma call_readings_any: "call_readings call h clk h' \<Longrightarrow> any_readings h clk h'"
  by (cases call) (auto simp: call_readings_def readings_any)

lemma any_le: "any_readings h clk h' \<Longrightarrow> h \<le> h'"
  by (simp add: any_readings_def)

inductive web_step :: "env \<Rightarrow> codecs \<Rightarrow> process \<Rightarrow> process \<Rightarrow> bool" for E C where
  request: "call_readings call h (dr_clock D) h' \<Longrightarrow>
    web_step E C (h, st, s) (h', st, snd (serve E C D hs call s))"
| proof_request: "any_readings h clk h' \<Longrightarrow>
    web_step E C (h, st, s) (h', st, snd (serve_proof E tick key p (build_uncached E clk cid tp) s))"
| scanner: "any_readings h clk h' \<Longrightarrow> lease_scanner_iteration E clk p describe (st, s) = (st', s') \<Longrightarrow>
    web_step E C (h, st, s) (h', st', s')"
| auditor_scans: "any_readings h clk h' \<Longrightarrow>
    web_step E C (h, st, s) (h', st, s\<lparr>sy_db := snd (scan E clk None (sy_db s))\<rparr>)"
| auditor_claims: "any_readings h clk h' \<Longrightarrow>
    web_step E C (h, st, s) (h', st, s\<lparr>sy_db := snd (claim_pending owner limit (clk 0) (sy_db s))\<rparr>)"
| auditor_delivers: "any_readings h clk h' \<Longrightarrow>
    web_step E C (h, st, s)
      (h', st, s\<lparr>sy_db := fst (deliver_one owner (clk 0) flushed id row_id (sy_db s, 0))\<rparr>)"
| auditor_ended: "any_readings h clk h' \<Longrightarrow> (\<forall>n. outcome = Inr n \<longrightarrow> n = pending_count (sy_db s)) \<Longrightarrow>
    web_step E C (h, st, s) (h', auditor_ends (clk 0) describe outcome st, s)"

inductive web_reachable :: "env \<Rightarrow> codecs \<Rightarrow> process \<Rightarrow> bool" for E C where
  process_start: "web_reachable E C (h, new_app_state, \<lparr>sy_db = empty_db, sy_limiter = []\<rparr>)"
| process_step: "web_reachable E C w \<Longrightarrow> web_step E C w w' \<Longrightarrow> web_reachable E C w'"

section \<open>Every request is at most one transaction\<close>

lemma snd_wrapped [simp]: "snd (wrapped w outcome) = snd outcome"
  by (simp add: wrapped_def split: prod.split sum.split)

lemma snd_to_refusal [simp]: "snd (to_refusal outcome) = snd outcome"
  by (simp add: to_refusal_def split: prod.split sum.split)

lemma snd_reading [simp]: "snd (reading w r s) = s"
  by (simp add: reading_def)

lemma require_key_db [simp]: "sy_db (snd (require_key E category tick key s)) = sy_db s"
  by (simp add: require_key_def split: prod.split)

lemma in_pool_state: "snd (in_pool p f s) = (case p of Pool_Refused _ \<Rightarrow> s | _ \<Rightarrow> snd (f s))"
  by (simp add: in_pool_def split: pool_outcome.split)

lemma perform_effect:
  assumes "call_readings call h (dr_clock D) h'"
  shows "service_step E C (h, sy_db s) (h', sy_db (snd (perform E C D hs call s)))"
proof -
  note le = any_le [OF call_readings_any [OF assms]]
  note idle = service_step.nothing_written [OF le]
  have st: "step E C (h, s) (h', s') \<Longrightarrow> service_step E C (h, sy_db s) (h', sy_db s')" for s'
    by (rule service_served)
  show ?thesis
    unfolding perform_def endpoints
    by (use assms in \<open>cases call\<close>)
      (auto simp: idle any_readings_def le call_readings_def simp del: One_nat_def split: sum.split
        intro!: st step.intros)
qed

lemma parsed_readings:
  "parsed_call call = Some call' \<Longrightarrow> call_readings call' h clk h' = call_readings call h clk h'"
  by (cases call) (auto simp: parsed_call_def checked_call_def validated_body_def call_readings_def split: if_splits sum.splits)

lemma handle_effect:
  assumes "call_readings call h (dr_clock D) h'"
  shows "service_step E C (h, sy_db s) (h', sy_db (snd (handle E C D hs call s)))"
proof (cases "parsed_call call")
  case None
  then show ?thesis
    using service_step.nothing_written [OF any_le [OF call_readings_any [OF assms]]] by (simp add: handle_def)
next
  case (Some call')
  then have "call_readings call' h (dr_clock D) h'" using assms parsed_readings by simp
  from perform_effect [OF this] show ?thesis
    using Some service_step.nothing_written [OF any_le [OF call_readings_any [OF assms]]]
    by (simp add: handle_def in_pool_state split: option.split pool_outcome.split)
qed

lemma serve_effect:
  assumes "call_readings call h (dr_clock D) h'"
  shows "service_step E C (h, sy_db s) (h', sy_db (snd (serve E C D hs call s)))"
proof (cases "operator_route call")
  case True
  obtain r s1 where q: "require_operator E (dr_operator_tick D) (rh_operator_key hs) s = (r, s1)"
    by (cases "require_operator E (dr_operator_tick D) (rh_operator_key hs) s")
  then have same: "sy_db s1 = sy_db s"
    using require_key_db [of E "''operator_read''"] unfolding require_operator_def by (metis snd_conv)
  show ?thesis
    using True q handle_effect [OF assms, of E C s1 hs] service_step.nothing_written [OF any_le [OF call_readings_any [OF assms]]]
    by (cases r) (simp_all add: serve_def same)
next
  case False
  then show ?thesis using handle_effect [OF assms] by (simp add: serve_def)
qed

lemma serve_proof_effect:
  assumes "any_readings h clk h'"
  shows "service_step E C (h, sy_db s)
    (h', sy_db (snd (serve_proof E tick key p (build_uncached E clk cid tp) s)))"
proof -
  obtain r s1 where q: "require_proof_operator E tick key s = (r, s1)"
    by (cases "require_proof_operator E tick key s")
  then have same: "sy_db s1 = sy_db s"
    using require_key_db [of E "''proof''"] unfolding require_proof_operator_def by (metis snd_conv)
  have "service_step E C (h, sy_db s1) (h', sy_db (snd (transaction (build_uncached E clk cid tp) s1)))"
    by (rule service_served [OF step.prove [OF assms]])
  then show ?thesis
    using q service_step.nothing_written [OF any_le [OF assms], of E C "sy_db s"]
    by (auto simp: serve_proof_def same split: sum.split prod.split pool_outcome.split)
qed

text \<open>So the process is a refinement of the services: it does in one step what they do in one.\<close>

lemma web_step_services:
  assumes "web_step E C w w'"
  shows "service_step E C (services_of w) (services_of w')"
  using assms
proof cases
  case (request h D h' st s hs call)
  then show ?thesis using serve_effect by (simp add: services_of_def)
next
  case (proof_request h clk h' st s tick key p cid tp)
  then show ?thesis using serve_proof_effect by (simp add: services_of_def)
next
  case (scanner h clk h' p describe st s st' s')
  note clock = scanner(3)
  have "s' = s \<or> s' = snd (transaction (expire_stale_nodes E (clk 0) None) s)"
    using scanner(4)
    by (auto simp: lease_scanner_iteration_def in_pool_def wrapped_def split: prod.splits sum.splits pool_outcome.splits)
  then have "service_step E C (h, sy_db s) (h', sy_db s')"
    using service_served [OF step.expire [OF clock]] service_step.nothing_written [OF any_le [OF clock]]
    by metis
  then show ?thesis using scanner by (simp add: services_of_def)
next
  case (auditor_scans h clk h' st s)
  then show ?thesis
    using service_served [OF step.audit [OF auditor_scans(3)]] by (simp add: services_of_def)
next
  case (auditor_claims h clk h' st s owner limit)
  then show ?thesis
    using service_served [OF step.claim [OF auditor_claims(3)]] by (simp add: services_of_def)
next
  case (auditor_delivers h clk h' st s owner flushed row_id)
  then show ?thesis
    using service_served [OF step.deliver [OF auditor_delivers(3)]] by (simp add: services_of_def)
next
  case (auditor_ended h clk h' outcome s st describe)
  then show ?thesis
    by (simp add: services_of_def service_step.nothing_written any_le)
qed

lemma web_reachable_services: "web_reachable E C w \<Longrightarrow> service_reachable E C (services_of w)"
proof (induction rule: web_reachable.induct)
  case (process_start h)
  show ?case by (simp add: services_of_def service_reachable.services_start)
next
  case (process_step w w')
  then show ?case using service_reachable.services_step web_step_services by blast
qed

section \<open>Who moved the database\<close>

definition node_authenticated :: "env \<Rightarrow> ident \<Rightarrow> string option \<Rightarrow> db \<Rightarrow> bool" where
  "node_authenticated E k token d =
    (case token of
       None \<Rightarrow> False
     | Some t \<Rightarrow> (case authenticate_node E k t d of Inl _ \<Rightarrow> False | Inr _ \<Rightarrow> True))"

definition activation_authenticated :: "env \<Rightarrow> ident \<Rightarrow> string \<Rightarrow> db \<Rightarrow> bool" where
  "activation_authenticated E k token d =
    (case intent_of_child k d of
       None \<Rightarrow> False
     | Some intent \<Rightarrow> token_matches E token (Some (si_activation_token_hash intent)))"

definition caller_authorised :: "env \<Rightarrow> request_headers \<Rightarrow> api_call \<Rightarrow> db \<Rightarrow> bool" where
  "caller_authorised E hs call d =
    (if operator_route call then operator_key_matches E (rh_operator_key hs)
     else case call of
       Api_Spawn parent _ \<Rightarrow> node_authenticated E parent (rh_node_token hs) d
     | Api_Replacement parent _ _ \<Rightarrow> node_authenticated E parent (rh_node_token hs) d
     | Api_Activate k request \<Rightarrow> activation_authenticated E k (na_activation_token request) d
     | Api_Heartbeat k _ _ \<Rightarrow> node_authenticated E k (rh_node_token hs) d
     | Api_Checkpoint k _ \<Rightarrow> node_authenticated E k (rh_node_token hs) d
     | Api_Complete k \<Rightarrow> node_authenticated E k (rh_node_token hs) d
     | Api_Propose _ \<Rightarrow>
         (case rh_node_id hs of None \<Rightarrow> False | Some k \<Rightarrow> node_authenticated E k (rh_node_token hs) d)
     | Api_Command _ \<Rightarrow>
         (case rh_operator_key hs of
            Some key \<Rightarrow> operator_key_matches E (Some key)
          | None \<Rightarrow>
              (case rh_node_id hs of None \<Rightarrow> False | Some k \<Rightarrow> node_authenticated E k (rh_node_token hs) d))
     | Api_Action k _ \<Rightarrow> node_authenticated E k (rh_node_token hs) d
     | _ \<Rightarrow> False)"

text \<open>A refusal: no result and no change.\<close>

definition refused :: "sys \<Rightarrow> ('e + 'a) \<times> sys \<Rightarrow> bool" where
  "refused s outcome \<longleftrightarrow> isl (fst outcome) \<and> snd outcome = s"

lemma refused_iff: "refused s outcome \<longleftrightarrow> (\<exists>e. outcome = (Inl e, s))"
  by (cases outcome) (auto simp: refused_def isl_def)

lemma refused_before:
  assumes "\<And>a. front (sy_db s) \<noteq> Inr a"
  shows "refused s (rate_limited E category now front body s)"
  using assms by (cases "front (sy_db s)") (auto simp: rate_limited_def refused_iff)

lemma refused_wrapped: "refused s x \<Longrightarrow> refused s (wrapped f x)"
  by (auto simp: refused_iff wrapped_def)

lemma refused_denial: "refused s x \<Longrightarrow> refused s (raise_denial x)"
  by (auto simp: refused_iff raise_denial_def)

lemma authenticated: "authenticate_node E k t d = Inr n \<Longrightarrow> node_authenticated E k (Some t) d"
  by (simp add: node_authenticated_def)

lemma front_authenticated:
  "create_spawn_before E C clk token nonce k t spawn_request d = Inr a1 \<Longrightarrow> node_authenticated E k (Some t) d"
  "create_replacement_before E C clk token nonce k t cid spawn_request d = Inr a2 \<Longrightarrow> node_authenticated E k (Some t) d"
  "node_before E k t d = Inr a3 \<Longrightarrow> node_authenticated E k (Some t) d"
  "create_before E k t d = Inr a4 \<Longrightarrow> node_authenticated E k (Some t) d"
  "execute_before E k t action_request d = Inr a5 \<Longrightarrow> node_authenticated E k (Some t) d"
  by (auto simp: create_spawn_before_def create_replacement_before_def node_before_def create_before_def
      execute_before_def andthen_returns dest: authenticated)

lemma activation_before_authenticated:
  "activate_before E C now sealed tok nonce k request d = Inr a \<Longrightarrow>
    activation_authenticated E k (na_activation_token request) d"
  by (auto simp: activation_authenticated_def activate_before_def andthen_returns demand_returns require_returns)

lemma agent_authenticated:
  "issue_before E request \<lparr>pl_issuer_type = Agent, pl_node_id = Some k, pl_principal_id = p\<rparr> (Some t) d = Inr a \<Longrightarrow>
    node_authenticated E k (Some t) d"
  by (auto simp: issue_before_def authorise_command_def resolve_issuer_def andthen_returns dest: authenticated)

lemmas front_handlers = create_spawn_def create_replacement_def heartbeat_def checkpoint_def complete_def
  create_proposal_def execute_def activate_def issue_command_def

lemma perform_refused:
  assumes "\<not> operator_route call" and "\<not> caller_authorised E hs call (sy_db s)" and "headers_ok hs call"
    and "principal_error E hs call = None"
  shows "refused s (perform E C D hs call s)"
proof -
  note body = refused_wrapped [OF refused_before] refused_wrapped [OF refused_denial [OF refused_before]]
  show ?thesis
  proof (cases call)
    case (Api_Command request)
    then obtain k t where hs: "rh_operator_key hs = None" "rh_node_id hs = Some k" "rh_node_token hs = Some t"
        "\<not> node_authenticated E k (Some t) (sy_db s)"
      using assms(2,4)
      by (auto simp: caller_authorised_def operator_route_def principal_error_def command_principal_def
          require_def split: option.splits if_splits)
    show ?thesis
      using Api_Command hs
      by (auto simp: perform_def api_issue_command_def command_principal_def issue_command_def intro!: body dest: agent_authenticated)
  qed (use assms in \<open>auto simp: operator_route_def caller_authorised_def headers_ok_def perform_def endpoints
      node_token_of_def node_id_of_def front_handlers intro!: body
      dest: front_authenticated activation_before_authenticated split: option.splits\<close>)
qed

lemma parsed_authorised:
  "parsed_call call = Some call' \<Longrightarrow>
    operator_route call' = operator_route call \<and> caller_authorised E hs call' d = caller_authorised E hs call d"
  by (cases call)
    (auto simp: parsed_call_def checked_call_def validated_body_def operator_route_def caller_authorised_def
      split: if_splits sum.splits)

lemma handle_refused:
  assumes "\<not> operator_route call" and "\<not> caller_authorised E hs call (sy_db s)"
  shows "refused s (handle E C D hs call s)"
proof (cases "parsed_call call")
  case None
  then show ?thesis by (simp add: handle_def refused_def)
next
  case (Some call')
  have "refused s (to_refusal (in_pool (dr_pool D) (perform E C D hs call') s))"
    if "headers_ok hs call'" "principal_error E hs call' = None"
  proof -
    have "refused s (perform E C D hs call' s)"
      using perform_refused that assms parsed_authorised [OF Some] by blast
    then show ?thesis
      by (auto simp: refused_iff to_refusal_def in_pool_def split: pool_outcome.split)
  qed
  then show ?thesis
    using Some by (auto simp: handle_def refused_def split: option.split)
qed

lemma serve_unauthorised:
  assumes "\<not> caller_authorised E hs call (sy_db s)"
  shows "refused s (serve E C D hs call s)"
proof (cases "operator_route call")
  case True
  then have "\<not> operator_key_matches E (rh_operator_key hs)" using assms by (simp add: caller_authorised_def)
  then show ?thesis
    using True by (simp add: serve_def require_operator_def require_key_def refused_def)
next
  case False
  then show ?thesis using handle_refused [OF False assms] by (simp add: serve_def)
qed

end
