(* ===== verification/Web_Properties.thy ===== *)
theory Web_Properties
  imports Web Lifecycle_Properties
begin

text \<open>
  The properties of the process as a whole: what requests and loops do is what the services do, and a
  request without credentials does nothing.
\<close>

section \<open>A request\<close>

definition sample_draws :: draws where
  "sample_draws = \<lparr>dr_clock = (\<lambda>_. noon + 1), dr_tick = 0, dr_operator_tick = 0, dr_token = (\<lambda>_. ''t''),
     dr_nonce = ''n'', dr_carrier = [], dr_pool = Ran\<rparr>"

definition operator_headers :: request_headers where
  "operator_headers = \<lparr>rh_operator_key = Some ''operator-key-0123456789abcdef'', rh_node_id = None,
     rh_node_token = None\<rparr>"

definition run_request :: run_create where
  "run_request = \<lparr>rc_name = ''incident'', rc_root_role = ''coordinator'', rc_root_instruction = [],
     rc_root_capabilities = [''tool:restart_postgres'']\<rparr>"

definition fresh_process :: sys where
  "fresh_process = \<lparr>sy_db = empty_db, sy_limiter = []\<rparr>"

definition after_request :: sys where
  "after_request = snd (serve sample_env sample_codecs sample_draws operator_headers (Api_Create_Run run_request)
     fresh_process)"

lemma sample_admitted:
  "\<exists>L. require_operator sample_env 0 (rh_operator_key operator_headers) fresh_process =
     (Inr (), fresh_process\<lparr>sy_limiter := L\<rparr>)"
  by (simp add: require_operator_def require_key_def operator_headers_def operator_key_matches_def
      limiter_check_def category_limits_def evict_def admit_def prune_bucket_def fresh_process_def)

lemma sample_parsed: "parsed_call (Api_Create_Run run_request) = Some (Api_Create_Run run_request)"
  by (simp add: parsed_call_def validate_run_create_def run_request_def canonical_capabilities_def
      validated_body_def len_ok_def allowed_capabilities_def)

lemma sample_performed:
  "\<exists>r s'. transaction (create_run sample_env run_request ''t'' (noon + 1)) (fresh_process\<lparr>sy_limiter := L\<rparr>) =
     (Inr r, s') \<and> length (db_runs (sy_db s')) = 1"
  by (simp add: transaction_def create_run_def run_request_def known_capabilities_def tool_registry_def
      tool_specs active_run_count_def empty_db_def Let_def fresh_process_def)

lemma sample_request:
  "\<exists>r. serve sample_env sample_codecs sample_draws operator_headers (Api_Create_Run run_request) fresh_process =
     (Inr r, after_request)"
  "length (db_runs (sy_db after_request)) = 1"
proof -
  obtain L where L: "require_operator sample_env 0 (rh_operator_key operator_headers) fresh_process =
      (Inr (), fresh_process\<lparr>sy_limiter := L\<rparr>)"
    using sample_admitted by blast
  obtain r s' where t: "transaction (create_run sample_env run_request ''t'' (noon + 1))
      (fresh_process\<lparr>sy_limiter := L\<rparr>) = (Inr r, s')" and n: "length (db_runs (sy_db s')) = 1"
    using sample_performed by blast
  have "dr_operator_tick sample_draws = 0" "dr_clock sample_draws 0 = noon + 1" "dr_token sample_draws 0 = ''t''"
    "dr_pool sample_draws = Ran" "operator_route (Api_Create_Run run_request) = True"
    by (simp_all add: sample_draws_def operator_route_def)
  note draws = this
  have "perform sample_env sample_codecs sample_draws operator_headers (Api_Create_Run run_request)
      (fresh_process\<lparr>sy_limiter := L\<rparr>) = (Inr (Run_Made r), s')"
    unfolding perform_def api_create_run_def draws api_call.case t wrapped_def by simp
  then have "handle sample_env sample_codecs sample_draws operator_headers (Api_Create_Run run_request)
      (fresh_process\<lparr>sy_limiter := L\<rparr>) = (Inr (Run_Made r), s')"
    unfolding handle_def sample_parsed headers_ok_def principal_error_def in_pool_def to_refusal_def draws by simp
  then have e: "serve sample_env sample_codecs sample_draws operator_headers (Api_Create_Run run_request) fresh_process =
      (Inr (Run_Made r), s')"
    unfolding serve_def draws L by simp
  show "\<exists>r. serve sample_env sample_codecs sample_draws operator_headers (Api_Create_Run run_request)
      fresh_process = (Inr r, after_request)" "length (db_runs (sy_db after_request)) = 1"
    using n unfolding after_request_def e by simp_all
qed

section \<open>The process and its services\<close>

text \<open>C10: the process refines its services: in every state that requests to the routes of the control
  plane, the proof route, the lease scanner and the auditor can bring it to, in any order and with any of
  them refused, late or failing, the next request or piece of a loop does to the database what one
  transaction of one service does, or nothing; so every state of the process is one the services reach
  alone, and the auditor finds nothing in it.  The clock may read anything, but for one condition, which
  is built into the steps: the readings that the commands and the actions take inside their transactions
  are later than those of the commands and actions before (equal ones would make the auditor report).\<close>

theorem web_refines_services:
  assumes "web_reachable E C w" and "web_step E C w w'" and "uuid_inj E"
  shows "service_reachable E C (services_of w) \<and> service_step E C (services_of w) (services_of w') \<and>
    discover_candidates run_filter (snd (services_of w')) = []"
proof -
  have w: "service_reachable E C (services_of w)" by (rule web_reachable_services [OF assms(1)])
  have s: "service_step E C (services_of w) (services_of w')" by (rule web_step_services [OF assms(2)])
  have "safe E (fst (services_of w')) (snd (services_of w'))"
    by (rule service_reachable_safe [OF service_reachable.services_step [OF w s] assms(3)])
  then have "discover_candidates None (snd (services_of w')) = []"
    by (simp add: safe_def no_stale_commit_def discover_candidates_empty_iff)
  then have "discover_candidates run_filter (snd (services_of w')) = []"
    by (rule discover_candidates_run)
  with w s show ?thesis by (intro conjI)
qed

theorem web_refines_services_witness:
  "\<exists>w w'. web_reachable sample_env sample_codecs w \<and> web_step sample_env sample_codecs w w' \<and>
     db_runs (snd (services_of w)) = [] \<and> length (db_runs (snd (services_of w'))) = 1 \<and>
     service_step sample_env sample_codecs (services_of w) (services_of w') \<and>
     discover_candidates None (snd (services_of w')) = []"
proof -
  let ?w = "(noon, new_app_state, fresh_process)"
  let ?w' = "(noon + 1, new_app_state, after_request)"
  have w: "web_reachable sample_env sample_codecs ?w"
    unfolding fresh_process_def by (rule web_reachable.process_start)
  have s: "web_step sample_env sample_codecs ?w ?w'"
    unfolding after_request_def
    by (rule web_step.request) (simp add: call_readings_def any_readings_def sample_draws_def)
  have "db_runs (snd (services_of ?w)) = []" "length (db_runs (snd (services_of ?w'))) = 1"
    using sample_request(2) by (simp_all add: services_of_def fresh_process_def empty_db_def)
  then show ?thesis
    using web_refines_services [OF w s sample_uuid_inj, of None] w s
    by - (rule exI [of _ ?w], rule exI [of _ ?w'], simp)
qed

text \<open>C11: on the routes of the control plane (runs, nodes, proposals and commands, actions, scenario, leases)
  and on the proof route nobody moves the database anonymously: a request that got a result, or that
  changed a single row, came with the operator key where the route asks for it, as the proof route does,
  or with the token of the very node it names (for a command, the key or the token; for an activation, the
  activation token of that child).  Everybody else is refused without a trace.  The health routes, which
  ask for nothing, and the routes of the demonstration, which are opened by a nonce to a browser on the
  local machine, are not among these routes.\<close>

theorem api_calls_authenticated:
  assumes "serve E C D hs call s = (r, s')" and "sy_db s' \<noteq> sy_db s \<or> (\<exists>a. r = Inr a)"
  shows "caller_authorised E hs call (sy_db s) \<and>
    (\<forall>tick key p q s''. serve_proof E tick key p build s = (q, s'') \<and>
       (sy_db s'' \<noteq> sy_db s \<or> (\<exists>a. q = Inr a)) \<longrightarrow> operator_key_matches E key)"
proof
  show "caller_authorised E hs call (sy_db s)"
  proof (rule ccontr)
    assume "\<not> caller_authorised E hs call (sy_db s)"
    then have "refused s (serve E C D hs call s)" by (rule serve_unauthorised)
    then show False using assms by (auto simp: refused_iff)
  qed
  show "\<forall>tick key p q s''. serve_proof E tick key p build s = (q, s'') \<and>
       (sy_db s'' \<noteq> sy_db s \<or> (\<exists>a. q = Inr a)) \<longrightarrow> operator_key_matches E key"
    by (auto simp: serve_proof_def require_proof_operator_def require_key_def)
qed

theorem api_calls_authenticated_witness:
  "\<exists>r. serve sample_env sample_codecs sample_draws operator_headers (Api_Create_Run run_request) fresh_process =
     (Inr r, after_request) \<and>
   caller_authorised sample_env operator_headers (Api_Create_Run run_request) (sy_db fresh_process)"
proof -
  obtain r where r: "serve sample_env sample_codecs sample_draws operator_headers (Api_Create_Run run_request)
      fresh_process = (Inr r, after_request)"
    using sample_request(1) by blast
  then show ?thesis using api_calls_authenticated [OF r] by blast
qed

text \<open>A call that runs past its deadline is answered 503 and is carried out all the same.\<close>

lemma late_call_is_carried_out:
  assumes "\<not> operator_route call" and "parsed_call call = Some call'" and "headers_ok hs call'"
    and "principal_error E hs call' = None" and "dr_pool D = Ran_Late"
  shows "serve E C D hs call s =
      (Inl (Raised (service_unavailable_error ''SAFETY_EXECUTION_DEADLINE_EXCEEDED'')),
       snd (perform E C D hs call' s))"
    and "refusal_status (Raised (service_unavailable_error c)) = 503"
  using assms
  by (simp_all add: serve_def handle_def in_pool_def to_refusal_def refusal_status_def error_status_def
      service_unavailable_error_def)

end
