(* ===== verification/Plays.thy ===== *)
theory Plays
  imports Web
begin

text \<open>
  Programs that call the services one after another, as the demonstration does: every call is a
  transaction of its own, other requests may come between two calls, and an exception ends the program
  but undoes nothing.  A \<open>world\<close> says what each call draws and what happens before it; a program also
  reads and writes an object of its own.
\<close>

section \<open>Programs\<close>

record world =
  wo_draws :: "nat \<Rightarrow> draws"
  wo_meanwhile :: "nat \<Rightarrow> sys \<Rightarrow> sys"
  wo_ready :: "nat \<Rightarrow> time"
  wo_done :: "nat \<Rightarrow> time"

record 'o stage =
  st_own :: 'o
  st_calls :: nat
  st_sys :: sys

type_synonym ('w, 'o, 'a) play = "'w world_scheme \<Rightarrow> 'o stage \<Rightarrow> (error + 'a) \<times> 'o stage"

definition play_of :: "error + 'a \<Rightarrow> ('w, 'o, 'a) play" where
  "play_of r W st = (r, st)"

definition play_then :: "('w, 'o, 'a) play \<Rightarrow> ('a \<Rightarrow> ('w, 'o, 'b) play) \<Rightarrow> ('w, 'o, 'b) play" where
  "play_then m f W st = (case m W st of (Inl e, st') \<Rightarrow> (Inl e, st') | (Inr a, st') \<Rightarrow> f a W st')"

definition play_look :: "('o \<Rightarrow> 'a) \<Rightarrow> ('w, 'o, 'a) play" where
  "play_look g W st = (Inr (g (st_own st)), st)"

definition play_own :: "('o \<Rightarrow> 'o) \<Rightarrow> ('w, 'o, unit) play" where
  "play_own f W st = (Inr (), st\<lparr>st_own := f (st_own st)\<rparr>)"

definition play_world :: "('w world_scheme \<Rightarrow> 'a) \<Rightarrow> ('w, 'o, 'a) play" where
  "play_world g W st = (Inr (g W), st)"

text \<open>One call of a service: what happened in between, then its transaction.\<close>

definition service_call :: "(draws \<Rightarrow> sys \<Rightarrow> (error + 'a) \<times> sys) \<Rightarrow> ('w, 'o, 'a) play" where
  "service_call f W st =
    (case f (wo_draws W (st_calls st)) (wo_meanwhile W (st_calls st) (st_sys st)) of
       (r, s) \<Rightarrow> (r, st\<lparr>st_calls := st_calls st + 1, st_sys := s\<rparr>))"

definition service_read :: "(draws \<Rightarrow> db \<Rightarrow> error + 'a) \<Rightarrow> ('w, 'o, 'a) play" where
  "service_read g = service_call (\<lambda>D s. (g D (sy_db s), s))"

definition expect :: "bool \<Rightarrow> error \<Rightarrow> ('w, 'o, unit) play" where
  "expect ok e = play_of (require ok e)"

lemma play_then_returns: "m W st = (Inr a, st') \<Longrightarrow> play_then m f W st = f a W st'"
  by (simp add: play_then_def)

text \<open>\<open>try: ... except ConflictError\<close>: the code of a conflict, if there was one.\<close>

definition is_conflict :: "error \<Rightarrow> bool" where
  "is_conflict e = (case e of TraceFenceError _ status \<Rightarrow> status = 409 | PyException _ \<Rightarrow> False)"

definition conflict_code_of :: "('w, 'o, 'a) play \<Rightarrow> ('w, 'o, string option) play" where
  "conflict_code_of m W st =
    (case m W st of
       (Inr _, st') \<Rightarrow> (Inr None, st')
     | (Inl e, st') \<Rightarrow> if is_conflict e then (Inr (Some (err_code e)), st') else (Inl e, st'))"

text \<open>\<open>asyncio.gather\<close>: both run, in either order, and the first exception is raised.\<close>

definition play_both :: "bool \<Rightarrow> ('w, 'o, 'a) play \<Rightarrow> ('w, 'o, 'b) play \<Rightarrow> ('w, 'o, 'a \<times> 'b) play" where
  "play_both swapped m1 m2 W st =
    (if swapped
     then (case m2 W st of (r2, st2) \<Rightarrow> case m1 W st2 of (r1, st1) \<Rightarrow>
             (andthen r2 (\<lambda>b. andthen r1 (\<lambda>a. Inr (a, b))), st1))
     else (case m1 W st of (r1, st1) \<Rightarrow> case m2 W st1 of (r2, st2) \<Rightarrow>
             (andthen r1 (\<lambda>a. andthen r2 (\<lambda>b. Inr (a, b))), st2)))"

section \<open>What a program does to the services\<close>

text \<open>
  A world is fair when what happens between two calls is itself steps of services, and time moves on.
\<close>

definition fair_world :: "env \<Rightarrow> codecs \<Rightarrow> 'w world_scheme \<Rightarrow> bool" where
  "fair_world E C W \<longleftrightarrow>
     (\<forall>n s. (service_step E C)\<^sup>*\<^sup>* (wo_done W n, sy_db s) (wo_ready W n, sy_db (wo_meanwhile W n s))) \<and>
     (\<forall>n. readings (wo_ready W n) (dr_clock (wo_draws W n)) (wo_done W (Suc n)))"

definition place :: "'w world_scheme \<Rightarrow> 'o stage \<Rightarrow> time \<times> db" where
  "place W st = (wo_done W (st_calls st), sy_db (st_sys st))"

definition through_services :: "env \<Rightarrow> codecs \<Rightarrow> ('w, 'o, 'a) play \<Rightarrow> bool" where
  "through_services E C m \<longleftrightarrow>
     (\<forall>W st. fair_world E C W \<longrightarrow> (service_step E C)\<^sup>*\<^sup>* (place W st) (place W (snd (m W st))))"

named_theorems through "programs that reach the database through the services only"

lemma through_of [through]: "through_services E C (play_of r)"
  and through_look [through]: "through_services E C (play_look g)"
  and through_own [through]: "through_services E C (play_own f)"
  and through_world [through]: "through_services E C (play_world h)"
  and through_expect [through]: "through_services E C (expect ok e)"
  by (simp_all add: through_services_def play_of_def play_look_def play_own_def play_world_def expect_def place_def)

lemma through_then [through]:
  fixes m :: "('w, 'o, 'a) play"
  assumes "through_services E C m" and "\<And>a. through_services E C (f a)"
  shows "through_services E C (play_then m f)"
  unfolding through_services_def
proof (intro allI impI)
  fix W :: "'w world_scheme" and st :: "'o stage"
  assume W: "fair_world E C W"
  obtain r st' where m: "m W st = (r, st')" by (cases "m W st")
  have 1: "(service_step E C)\<^sup>*\<^sup>* (place W st) (place W st')"
    using assms(1) W m unfolding through_services_def by (metis snd_conv)
  show "(service_step E C)\<^sup>*\<^sup>* (place W st) (place W (snd (play_then m f W st)))"
  proof (cases r)
    case (Inl e)
    then show ?thesis using 1 m by (simp add: play_then_def)
  next
    case (Inr a)
    have "(service_step E C)\<^sup>*\<^sup>* (place W st') (place W (snd (f a W st')))"
      using assms(2) W unfolding through_services_def by blast
    then show ?thesis using 1 m Inr by (simp add: play_then_def)
  qed
qed

lemma through_call:
  assumes "\<And>D h h' s. readings h (dr_clock D) h' \<Longrightarrow> service_step E C (h, sy_db s) (h', sy_db (snd (f D s)))"
  shows "through_services E C (service_call f :: ('w, 'o, 'a) play)"
  unfolding through_services_def
proof (intro allI impI)
  fix W :: "'w world_scheme" and st :: "'o stage"
  assume W: "fair_world E C W"
  let ?n = "st_calls st" and ?s = "wo_meanwhile W (st_calls st) (st_sys st)"
  have "(service_step E C)\<^sup>*\<^sup>* (place W st) (wo_ready W ?n, sy_db ?s)"
    using W by (simp add: fair_world_def place_def)
  moreover have "service_step E C (wo_ready W ?n, sy_db ?s)
      (wo_done W (Suc ?n), sy_db (snd (f (wo_draws W ?n) ?s)))"
    by (rule assms) (use W in \<open>simp add: fair_world_def\<close>)
  ultimately show "(service_step E C)\<^sup>*\<^sup>* (place W st) (place W (snd (service_call f W st)))"
    by (cases "f (wo_draws W ?n) ?s") (simp add: service_call_def place_def)
qed

lemma through_read [through]: "through_services E C (service_read g)"
  unfolding service_read_def by (rule through_call) (simp add: service_step.nothing_written readings_le)

lemma through_conflict [through]:
  "through_services E C m \<Longrightarrow> through_services E C (conflict_code_of m)"
  by (auto simp: through_services_def conflict_code_of_def case_prod_beta split: sum.split)

lemma through_both [through]:
  fixes m1 :: "('w, 'o, 'a) play"
  assumes "through_services E C m1" and "through_services E C m2"
  shows "through_services E C (play_both swapped m1 m2)"
  unfolding through_services_def
proof (intro allI impI)
  fix W :: "'w world_scheme" and st :: "'o stage"
  assume W: "fair_world E C W"
  have one: "(service_step E C)\<^sup>*\<^sup>* (place W st) (place W (snd (m1 W st)))" for st
    using assms(1) W by (simp add: through_services_def)
  have two: "(service_step E C)\<^sup>*\<^sup>* (place W st) (place W (snd (m2 W st)))" for st
    using assms(2) W by (simp add: through_services_def)
  show "(service_step E C)\<^sup>*\<^sup>* (place W st) (place W (snd (play_both swapped m1 m2 W st)))"
    using rtranclp_trans [OF one two] rtranclp_trans [OF two one]
    by (simp add: play_both_def case_prod_beta)
qed

section \<open>What a program establishes\<close>

text \<open>What no service ever takes back: the rows of the ledger and the identifiers of the commands.\<close>

definition persists :: "db \<Rightarrow> db \<Rightarrow> bool" where
  "persists d d' \<longleftrightarrow> set (db_actions d) \<subseteq> set (db_actions d') \<and>
     c_id ` set (db_commands d) \<subseteq> c_id ` set (db_commands d')"

lemma persists_trans: "persists d1 d2 \<Longrightarrow> persists d2 d3 \<Longrightarrow> persists d1 d3"
  unfolding persists_def by (meson subset_trans)

lemma evolves_persists:
  assumes "evolves d d'"
  shows "persists d d'"
proof -
  have "prefix (db_actions d) (db_actions d')" using assms by (simp add: evolves_def)
  moreover have "c_id ` set (db_commands d) \<subseteq> c_id ` set (db_commands d')"
  proof -
    have "list_all2 command_step (db_commands d) (take (length (db_commands d)) (db_commands d'))"
      using assms by (simp add: evolves_def keeps_rows_def)
    then have "list_all2 (=) (map c_id (db_commands d)) (map c_id (take (length (db_commands d)) (db_commands d')))"
      unfolding list_all2_map1 list_all2_map2 by (rule list_all2_mono) (simp add: command_step_fields)
    then have "map c_id (db_commands d) = map c_id (take (length (db_commands d)) (db_commands d'))"
      by (simp add: list.rel_eq)
    then have "c_id ` set (db_commands d) = c_id ` set (take (length (db_commands d)) (db_commands d'))"
      by (metis list.set_map)
    then show ?thesis using set_take_subset by fastforce
  qed
  ultimately show ?thesis by (simp add: persists_def set_mono_prefix)
qed

lemma service_step_evolves:
  assumes "uuid_inj E" and "safe E (fst c) (snd c)" and "service_step E C c c'"
  shows "evolves (snd c) (snd c')"
  using assms(3)
proof cases
  case (served h d L h' s')
  then show ?thesis using step_advances [OF served(3)] assms(1,2) by (simp add: advances_def safe_def)
next
  case (event_written h h' d e)
  then show ?thesis using plain_insert_steps(4) [of E d e] assms(1,2) by (simp add: advances_def safe_def)
next
  case (nothing_written h h' d)
  then show ?thesis by (simp add: db_history.refl)
qed

lemma service_steps_safe:
  assumes "(service_step E C)\<^sup>*\<^sup>* c c'" and "uuid_inj E" and "safe E (fst c) (snd c)"
  shows "safe E (fst c') (snd c') \<and> persists (snd c) (snd c')"
  using assms(1)
proof (induction rule: rtranclp_induct)
  case base
  then show ?case using assms(3) by (simp add: persists_def)
next
  case (step y z)
  then have "persists (snd y) (snd z)"
    using evolves_persists service_step_evolves assms(2) by blast
  then show ?case using step.IH service_step_safe [OF assms(2) _ step.hyps(2)] persists_trans by blast
qed

definition stable :: "('o \<Rightarrow> db \<Rightarrow> bool) \<Rightarrow> bool" where
  "stable P \<longleftrightarrow> (\<forall>x d d'. P x d \<and> persists d d' \<longrightarrow> P x d')"

text \<open>
  A triple holds in every fair world: from \<open>P\<close>, on the object and the database, the program ends in \<open>Q\<close>,
  whether it returns or raises.
\<close>

definition triple ::
    "env \<Rightarrow> codecs \<Rightarrow> ('o \<Rightarrow> db \<Rightarrow> bool) \<Rightarrow> ('w, 'o, 'a) play \<Rightarrow> (error + 'a \<Rightarrow> 'o \<Rightarrow> db \<Rightarrow> bool) \<Rightarrow> bool"
where
  "triple E C P m Q \<longleftrightarrow>
     (\<forall>W st. fair_world E C W \<and> safe E (fst (place W st)) (snd (place W st)) \<and>
        P (st_own st) (sy_db (st_sys st)) \<longrightarrow>
        Q (fst (m W st)) (st_own (snd (m W st))) (sy_db (st_sys (snd (m W st)))))"

lemma tripleD:
  assumes "triple E C P m Q" and "fair_world E C W" and "safe E (wo_done W (st_calls st)) (sy_db (st_sys st))"
    and "P (st_own st) (sy_db (st_sys st))" and "m W st = (r, st')"
  shows "Q r (st_own st') (sy_db (st_sys st'))"
  using assms unfolding triple_def place_def by (metis fst_conv snd_conv)

lemma triple_of: "(\<And>x d. P x d \<Longrightarrow> Q r x d) \<Longrightarrow> triple E C P (play_of r) Q"
  by (simp add: triple_def play_of_def)

lemma triple_look: "(\<And>x d. P x d \<Longrightarrow> Q (Inr (g x)) x d) \<Longrightarrow> triple E C P (play_look g) Q"
  by (simp add: triple_def play_look_def)

lemma triple_own: "(\<And>x d. P x d \<Longrightarrow> Q (Inr ()) (f x) d) \<Longrightarrow> triple E C P (play_own f) Q"
  by (simp add: triple_def play_own_def)

lemma triple_world: "(\<And>x d v. P x d \<Longrightarrow> Q (Inr v) x d) \<Longrightarrow> triple E C P (play_world g) Q"
  by (simp add: triple_def play_world_def)

lemma triple_expect:
  "(\<And>x d. P x d \<Longrightarrow> ok \<Longrightarrow> Q (Inr ()) x d) \<Longrightarrow> (\<And>x d. P x d \<Longrightarrow> Q (Inl e) x d) \<Longrightarrow> triple E C P (expect ok e) Q"
  by (auto simp: triple_def expect_def play_of_def require_def)

lemma triple_weaken:
  "triple E C P m Q \<Longrightarrow> (\<And>x d. P' x d \<Longrightarrow> P x d) \<Longrightarrow> (\<And>r x d. Q r x d \<Longrightarrow> Q' r x d) \<Longrightarrow> triple E C P' m Q'"
  unfolding triple_def by blast

lemma triple_then:
  fixes m :: "('w, 'o, 'a) play"
  assumes "uuid_inj E" and "through_services E C m"
    and "triple E C P m (\<lambda>r x d. case r of Inl e \<Rightarrow> Q (Inl e) x d | Inr a \<Rightarrow> M a x d)"
    and "\<And>a. triple E C (M a) (f a) Q"
  shows "triple E C P (play_then m f) Q"
  unfolding triple_def
proof (intro allI impI, elim conjE)
  fix W :: "'w world_scheme" and st :: "'o stage"
  assume W: "fair_world E C W" and safe: "safe E (fst (place W st)) (snd (place W st))"
    and P: "P (st_own st) (sy_db (st_sys st))"
  obtain r st' where m: "m W st = (r, st')" by (cases "m W st")
  have steps: "(service_step E C)\<^sup>*\<^sup>* (place W st) (place W st')"
    using assms(2) W m unfolding through_services_def by (metis snd_conv)
  have safe': "safe E (fst (place W st')) (snd (place W st'))"
    using service_steps_safe [OF steps assms(1) safe] by blast
  have q: "case r of Inl e \<Rightarrow> Q (Inl e) (st_own st') (sy_db (st_sys st')) | Inr a \<Rightarrow> M a (st_own st') (sy_db (st_sys st'))"
    using assms(3) W safe P m unfolding triple_def by (metis fst_conv snd_conv)
  show "Q (fst (play_then m f W st)) (st_own (snd (play_then m f W st))) (sy_db (st_sys (snd (play_then m f W st))))"
  proof (cases r)
    case (Inl e)
    then show ?thesis using q m by (simp add: play_then_def)
  next
    case (Inr a)
    then show ?thesis using q m assms(4) [of a] W safe' by (simp add: play_then_def triple_def)
  qed
qed

text \<open>A call: what it returns, on top of what is stable.\<close>

lemma triple_call:
  assumes uuid: "uuid_inj E" and stable: "stable P"
    and call: "\<And>D h h' s. readings h (dr_clock D) h' \<Longrightarrow>
      service_step E C (h, sy_db s) (h', sy_db (snd (f D s)))"
    and gives: "\<And>D s x. P x (sy_db s) \<Longrightarrow> P x (sy_db (snd (f D s))) \<Longrightarrow> Q (fst (f D s)) x (sy_db (snd (f D s)))"
  shows "triple E C P (service_call f :: ('w, 'o, 'a) play) Q"
  unfolding triple_def
proof (intro allI impI, elim conjE)
  fix W :: "'w world_scheme" and st :: "'o stage"
  assume W: "fair_world E C W" and safe: "safe E (fst (place W st)) (snd (place W st))"
    and P: "P (st_own st) (sy_db (st_sys st))"
  let ?n = "st_calls st" and ?s = "wo_meanwhile W (st_calls st) (st_sys st)"
  let ?o = "f (wo_draws W ?n) ?s"
  have 1: "(service_step E C)\<^sup>*\<^sup>* (place W st) (wo_ready W ?n, sy_db ?s)"
    using W by (simp add: fair_world_def place_def)
  have r: "readings (wo_ready W ?n) (dr_clock (wo_draws W ?n)) (wo_done W (Suc ?n))"
    using W by (simp add: fair_world_def)
  have 2: "(service_step E C)\<^sup>*\<^sup>* (wo_ready W ?n, sy_db ?s) (wo_done W (Suc ?n), sy_db (snd ?o))"
    using call [OF r, of ?s] by blast
  note safe1 = service_steps_safe [OF 1 uuid safe]
  have P1: "P (st_own st) (sy_db ?s)"
    using stable P safe1 unfolding stable_def place_def by (metis snd_conv)
  have "persists (sy_db ?s) (sy_db (snd ?o))"
    using service_steps_safe [OF 2 uuid] safe1 by simp
  then have "P (st_own st) (sy_db (snd ?o))"
    using stable P1 unfolding stable_def by blast
  then show "Q (fst (service_call f W st)) (st_own (snd (service_call f W st)))
      (sy_db (st_sys (snd (service_call f W st))))"
    using gives [OF P1] by (simp add: service_call_def case_prod_beta)
qed

text \<open>A calm program leaves its object alone, so all it does to a stable fact is nothing.\<close>

definition calm :: "env \<Rightarrow> codecs \<Rightarrow> ('w, 'o, 'a) play \<Rightarrow> bool" where
  "calm E C m \<longleftrightarrow> through_services E C m \<and> (\<forall>W st. st_own (snd (m W st)) = st_own st)"

named_theorems calms "programs that leave their object alone"

lemma calm_through: "calm E C m \<Longrightarrow> through_services E C m"
  by (simp add: calm_def)

lemma calm_basic [calms]:
  "calm E C (play_of r)" "calm E C (play_look g)" "calm E C (play_world h)" "calm E C (expect ok e)"
  by (simp_all add: calm_def through) (simp_all add: play_of_def play_look_def play_world_def expect_def)

lemma calm_call:
  "through_services E C (service_call f :: ('w, 'o, 'a) play) \<Longrightarrow> calm E C (service_call f :: ('w, 'o, 'a) play)"
  by (simp add: calm_def service_call_def case_prod_beta)

lemma calm_read [calms]: "calm E C (service_read g)"
  unfolding service_read_def by (rule calm_call) (rule through_read [unfolded service_read_def])

lemma calm_then [calms]:
  assumes "calm E C m" and "\<And>a. calm E C (f a)"
  shows "calm E C (play_then m f)"
proof -
  have "through_services E C (play_then m f)" using assms by (intro through calm_through)
  moreover have "st_own (snd (play_then m f W st)) = st_own st" for W st
  proof -
    obtain r st' where m: "m W st = (r, st')" by (cases "m W st")
    have "st_own st' = st_own st" using assms(1) m unfolding calm_def by (metis snd_conv)
    then show ?thesis using m assms(2) by (cases r) (simp_all add: play_then_def calm_def)
  qed
  ultimately show ?thesis by (simp add: calm_def)
qed

lemma calm_both [calms]:
  assumes "calm E C m1" and "calm E C m2"
  shows "calm E C (play_both swapped m1 m2)"
  using assms through_both [of E C m1 m2 swapped] by (simp add: calm_def play_both_def case_prod_beta)

lemma calm_conflict [calms]: "calm E C m \<Longrightarrow> calm E C (conflict_code_of m)"
  using through_conflict [of E C m] by (simp add: calm_def conflict_code_of_def case_prod_beta split: sum.split)

lemma triple_calm:
  fixes m :: "('w, 'o, 'a) play"
  assumes "uuid_inj E" and "calm E C m" and "stable P"
    and "\<And>r x d. P x d \<Longrightarrow> Q r x d"
  shows "triple E C P m Q"
  unfolding triple_def
proof (intro allI impI, elim conjE)
  fix W :: "'w world_scheme" and st :: "'o stage"
  assume W: "fair_world E C W" and safe: "safe E (fst (place W st)) (snd (place W st))"
    and P: "P (st_own st) (sy_db (st_sys st))"
  have steps: "(service_step E C)\<^sup>*\<^sup>* (place W st) (place W (snd (m W st)))"
    using assms(2) W unfolding calm_def through_services_def by blast
  have "persists (sy_db (st_sys st)) (sy_db (st_sys (snd (m W st))))"
    using service_steps_safe [OF steps assms(1) safe] by (simp add: place_def)
  then have "P (st_own st) (sy_db (st_sys (snd (m W st))))"
    using assms(3) P unfolding stable_def by blast
  then show "Q (fst (m W st)) (st_own (snd (m W st))) (sy_db (st_sys (snd (m W st))))"
    using assms(2,4) unfolding calm_def by simp
qed

end
