(* ===== verification/Demo.thy ===== *)
theory Demo
  imports Plays
begin

text \<open>
  \<open>services/demo_controller.py\<close>: the demonstration, as programs over the services.  The answers of the
  worker process, of \<open>time.monotonic\<close> and of \<open>uuid4\<close> are fields of the world.  An object of Python is the
  program's own object: an exception leaves it with the assignments made so far.
\<close>

section \<open>Data\<close>

datatype phase = Phase_Waiting | Phase_Superseded | Phase_Denied | Phase_Recovered | Phase_Proven

definition phase_value :: "phase \<Rightarrow> string" where
  "phase_value p =
    (case p of
       Phase_Waiting \<Rightarrow> ''WAITING_STALE_WORKER''
     | Phase_Superseded \<Rightarrow> ''SUPERSEDED''
     | Phase_Denied \<Rightarrow> ''STALE_DENIED''
     | Phase_Recovered \<Rightarrow> ''RECOVERY_COMMITTED''
     | Phase_Proven \<Rightarrow> ''PROOF_AVAILABLE'')"

definition allowed_transitions :: "phase \<Rightarrow> string list" where
  "allowed_transitions p =
    (case p of
       Phase_Waiting \<Rightarrow> [''SUPERSEDE'']
     | Phase_Superseded \<Rightarrow> [''RELEASE_STALE_WORKER'']
     | Phase_Denied \<Rightarrow> [''RUN_REPLACEMENT'']
     | Phase_Recovered \<Rightarrow> [''BUILD_PROOF'']
     | Phase_Proven \<Rightarrow> [])"

text \<open>\<open>_SubprocessWorker\<close>: the exit code \<open>poll\<close> reports, and whether the pipe is still open.\<close>

record worker_handle =
  wh_exit :: "int option"
  wh_pipe :: bool

record worker_end =
  we_code :: int
  we_stdout :: string

record demo_session =
  de_id :: ident
  de_run_id :: ident
  de_phase :: phase
  de_root_node_id :: ident
  de_database_node_id :: ident
  de_stale_worker_node_id :: ident
  de_sibling_node_id :: ident
  de_worker :: worker_handle
  de_root_token :: string
  de_database_token :: string
  de_sibling_token :: string
  de_command_id :: "ident option"
  de_replacement_node_id :: "ident option"
  de_stale_action_id :: "ident option"
  de_replacement_action_id :: "ident option"
  de_scope_from_version :: "int option"
  de_scope_to_version :: "int option"
  de_proof :: "proof_response option"
  de_heartbeats :: "(ident \<times> string) list option"

record lease_check =
  lc_id :: ident
  lc_run_id :: ident
  lc_root_node_id :: ident
  lc_child_node_id :: ident
  lc_child_token :: string
  lc_expires_at :: time
  lc_heartbeats :: "(ident \<times> string) list option"
  lc_finished :: bool

record demo_world = world +
  wo_id :: ident
  wo_polls :: "int option list"
  wo_stdin :: bool
  wo_worker_end :: "worker_end option"
  wo_killed :: bool
  wo_swapped :: bool
  wo_telemetry :: telemetry_proof
  wo_maintain :: bool

type_synonym ('o, 'a) demo =
  "(\<lparr>wo_id :: ident, wo_polls :: int option list, wo_stdin :: bool, wo_worker_end :: worker_end option,
    wo_killed :: bool, wo_swapped :: bool, wo_telemetry :: telemetry_proof, wo_maintain :: bool\<rparr>, 'o, 'a) play"

definition runtime_error :: error where
  "runtime_error = PyException ''RuntimeError''"

section \<open>The calls\<close>

definition call_create_run :: "env \<Rightarrow> run_create \<Rightarrow> ('o, run_created) demo" where
  "call_create_run E request =
    play_then (play_of (validate_run_create request)) (\<lambda>request.
    service_call (\<lambda>D. transaction (create_run E request (dr_token D 0) (dr_clock D 0))))"

definition call_seed :: "ident \<Rightarrow> ('o, unit) demo" where
  "call_seed run_id = service_call (\<lambda>D. transaction (seed_scenario (dr_clock D 0) run_id))"

definition call_spawn :: "env \<Rightarrow> codecs \<Rightarrow> ident \<Rightarrow> string \<Rightarrow> spawn_create \<Rightarrow> ('o, spawn_created) demo" where
  "call_spawn E C parent token request =
    play_then (play_of (validate_spawn_create request)) (\<lambda>request.
    service_call (\<lambda>D. create_spawn E C (dr_clock D) (dr_tick D) (dr_token D 0) (dr_nonce D) (dr_carrier D)
      parent token request))"

definition call_replacement ::
    "env \<Rightarrow> codecs \<Rightarrow> ident \<Rightarrow> string \<Rightarrow> ident \<Rightarrow> spawn_create \<Rightarrow> ('o, spawn_created) demo" where
  "call_replacement E C parent token cid request =
    play_then (play_of (validate_spawn_create request)) (\<lambda>request.
    service_call (\<lambda>D. create_replacement E C (dr_clock D) (dr_tick D) (dr_token D 0) (dr_nonce D)
      (dr_carrier D) parent token cid request))"

text \<open>\<open>_activation_request\<close> and the activation; \<open>os.getpid()\<close> is some positive number.\<close>

definition activation_request :: "string \<Rightarrow> string \<Rightarrow> node_activate" where
  "activation_request token operation_key =
    \<lparr>na_operation_key = Some operation_key, na_activation_token = token, na_process_id = Some 1\<rparr>"

definition call_activate :: "env \<Rightarrow> codecs \<Rightarrow> spawn_created \<Rightarrow> string \<Rightarrow> ('o, node_activated) demo" where
  "call_activate E C spawned operation_key =
    service_call (\<lambda>D. activate E C (dr_clock D 0) (dr_clock D 1) (dr_tick D) (dr_token D) (dr_nonce D)
      (scd_child_node_id spawned) (activation_request (scd_activation_token spawned) operation_key))"

definition call_checkpoint :: "env \<Rightarrow> ident \<Rightarrow> string \<Rightarrow> string \<Rightarrow> ('o, checkpoint_response) demo" where
  "call_checkpoint E node_id token stage =
    service_call (\<lambda>D. checkpoint E (dr_clock D) (dr_tick D) node_id token stage)"

definition human :: principal where
  "human = \<lparr>pl_issuer_type = Human, pl_node_id = None, pl_principal_id = None\<rparr>"

definition call_command :: "env \<Rightarrow> command_create \<Rightarrow> ('o, command_issued) demo" where
  "call_command E request =
    play_then (play_of (validate_command_create request)) (\<lambda>request.
    service_call (\<lambda>D. issue_command E (dr_clock D) (dr_tick D) request human None))"

definition call_execute :: "env \<Rightarrow> ident \<Rightarrow> string \<Rightarrow> string \<Rightarrow> string \<Rightarrow> ('o, action_result) demo" where
  "call_execute E node_id token key tool =
    service_call (\<lambda>D. execute E (dr_clock D) (dr_tick D) node_id token
      \<lparr>ae_idempotency_key = key, ae_tool_name = tool, ae_arguments = []\<rparr>)"

definition call_complete :: "env \<Rightarrow> ident \<Rightarrow> string \<Rightarrow> ('o, unit) demo" where
  "call_complete E node_id token = service_call (\<lambda>D. complete E (dr_clock D) (dr_tick D) node_id token)"

definition call_heartbeat :: "env \<Rightarrow> ident \<Rightarrow> string \<Rightarrow> ('o, unit) demo" where
  "call_heartbeat E node_id token =
    service_call (\<lambda>D. heartbeat E (dr_clock D 0) (dr_tick D) node_id token)"

definition call_expire :: "env \<Rightarrow> ident \<Rightarrow> ('o, int) demo" where
  "call_expire E run_id =
    service_call (\<lambda>D. transaction (expire_stale_nodes E (dr_clock D 0) (Some run_id)))"

definition call_proof :: "env \<Rightarrow> ident \<Rightarrow> ('o, proof_response) demo" where
  "call_proof E cid =
    play_then (play_world wo_telemetry) (\<lambda>tp.
    service_call (\<lambda>D s. case transaction (build_uncached E (dr_clock D) cid tp) s of
       (Inl e, s') \<Rightarrow> (Inl e, s') | (Inr (r, _), s') \<Rightarrow> (Inr r, s')))"

text \<open>The one row the controller writes itself.\<close>

definition write_event :: "(draws \<Rightarrow> runtime_event) \<Rightarrow> ('o, unit) demo" where
  "write_event e = service_call (\<lambda>D s. (Inr (), s\<lparr>sy_db := record_runtime_event (e D) (sy_db s)\<rparr>))"

text \<open>\<open>scalar_one_or_none\<close>, and nothing is an error.\<close>

fun only_row :: "'a list \<Rightarrow> error + 'a" where
  "only_row [] = Inl runtime_error"
| "only_row [a] = Inr a"
| "only_row (a # b # rows) = Inl (PyException ''MultipleResultsFound'')"

lemma only_row_returns: "only_row rows = Inr a \<longleftrightarrow> rows = [a]"
  by (cases rows rule: only_row.cases) simp_all

definition action_by_key :: "ident \<Rightarrow> string \<Rightarrow> ('o, action) demo" where
  "action_by_key node_id key =
    service_read (\<lambda>_ d. only_row (filter (\<lambda>a. a_node_id a = node_id \<and> a_idempotency_key a = key) (db_actions d)))"

lemma transaction_through:
  "through_services E C (call_create_run E r :: ('o, run_created) demo)"
  "through_services E C (call_seed k :: ('o, unit) demo)"
  "through_services E C (call_spawn E C parent token sp :: ('o, spawn_created) demo)"
  "through_services E C (call_replacement E C parent token cid sp :: ('o, spawn_created) demo)"
  "through_services E C (call_activate E C spawned key :: ('o, node_activated) demo)"
  "through_services E C (call_checkpoint E k token stage :: ('o, checkpoint_response) demo)"
  "through_services E C (call_command E cc :: ('o, command_issued) demo)"
  "through_services E C (call_execute E k token key tool :: ('o, action_result) demo)"
  "through_services E C (call_complete E k token :: ('o, unit) demo)"
  "through_services E C (call_heartbeat E k token :: ('o, unit) demo)"
  "through_services E C (call_expire E k :: ('o, int) demo)"
  "through_services E C (write_event e :: ('o, unit) demo)"
  unfolding call_create_run_def call_seed_def call_spawn_def call_replacement_def call_activate_def
    call_checkpoint_def call_command_def call_execute_def call_complete_def call_heartbeat_def call_expire_def
    write_event_def
  by (intro through through_call; auto intro!: service_served step.intros service_step.event_written readings_le
      readings_any simp del: One_nat_def)+

lemma proof_through: "through_services E C (call_proof E cid :: ('o, proof_response) demo)"
proof -
  have "service_step E C (h, sy_db s) (h', sy_db (snd (case transaction (build_uncached E (dr_clock D) cid tp) s of
      (Inl e, s') \<Rightarrow> (Inl e, s') | (Inr (r, _), s') \<Rightarrow> (Inr r, s'))))"
    if "readings h (dr_clock D) h'" for D h h' s and tp :: telemetry_proof
    using service_served [OF step.prove [OF readings_any [OF that], of E C s cid tp]]
    by (auto split: prod.split sum.split)
  then show ?thesis
    unfolding call_proof_def by (intro through through_call)
qed

lemma action_by_key_through: "through_services E C (action_by_key k key :: ('o, action) demo)"
  unfolding action_by_key_def by (rule through)

lemmas calls_through [through] = transaction_through proof_through action_by_key_through

end
