(* ===== verification/Demo_Session.thy ===== *)
theory Demo_Session
  imports Demo
begin

text \<open>
  \<open>services/demo_controller.py\<close>: a session of the canonical scenario, from \<open>start\<close> to the proof.
\<close>

section \<open>Snapshots\<close>

record demo_snapshot =
  sn_session :: demo_session
  sn_allowed_transitions :: "string list"
  sn_graph :: graph_response
  sn_events :: "json list"
  sn_services :: "json list"
  sn_stale_action :: "json option"
  sn_replacement_action :: "json option"

definition read_action :: "ident \<Rightarrow> ident option \<Rightarrow> ('o, json option) demo" where
  "read_action run_id action_id =
    (case action_id of
       None \<Rightarrow> play_of (Inr None)
     | Some k \<Rightarrow> service_read (\<lambda>_ d. andthen (get_action run_id k d) (\<lambda>j. Inr (Some j))))"

definition snapshot :: "(demo_session, demo_snapshot) demo" where
  "snapshot =
    play_then (play_look (\<lambda>o1. o1)) (\<lambda>demo.
    play_then (service_read (\<lambda>D. get_graph (dr_clock D 0) (de_run_id demo))) (\<lambda>graph.
    play_then (service_read (\<lambda>D. list_states (de_run_id demo) 100 0)) (\<lambda>services.
    play_then (service_read (\<lambda>D. list_events (de_run_id demo) 0 500)) (\<lambda>events.
    play_then (read_action (de_run_id demo) (de_stale_action_id demo)) (\<lambda>stale_action.
    play_then (read_action (de_run_id demo) (de_replacement_action_id demo)) (\<lambda>replacement_action.
    play_of (Inr \<lparr>sn_session = demo, sn_allowed_transitions = allowed_transitions (de_phase demo),
      sn_graph = graph, sn_events = events, sn_services = services, sn_stale_action = stale_action,
      sn_replacement_action = replacement_action\<rparr>)))))))"

text \<open>\<open>_service\<close> and the counter read from it.\<close>

definition json_entry :: "string \<Rightarrow> json \<Rightarrow> json option" where
  "json_entry k j = (case j of JObj kvs \<Rightarrow> map_of kvs k | _ \<Rightarrow> None)"

definition service_named :: "string \<Rightarrow> json list \<Rightarrow> error + json" where
  "service_named name services =
    demand (List.find (\<lambda>j. json_entry ''service_name'' j = Some (JStr name)) services) runtime_error"

definition counter_of :: "string \<Rightarrow> string \<Rightarrow> json list \<Rightarrow> error + json" where
  "counter_of name key services =
    andthen (service_named name services) (\<lambda>j. demand (json_entry key j) (PyException ''KeyError''))"

section \<open>The worker process\<close>

text \<open>\<open>_start_subprocess_worker\<close>: the polls the ten seconds allow, each followed by a look at the node.\<close>

fun await_worker :: "int option list \<Rightarrow> ident \<Rightarrow> ('o, worker_handle) demo" where
  "await_worker [] node_id = play_of (Inl runtime_error)"
| "await_worker (exited # polls) node_id =
    play_then (expect (exited = None) runtime_error) (\<lambda>_.
    play_then (service_read (\<lambda>_ d. Inr (get_node_row node_id d))) (\<lambda>found.
    case found of
      Some n \<Rightarrow> if n_status n = Node_Waiting then play_of (Inr \<lparr>wh_exit = None, wh_pipe = True\<rparr>)
                else await_worker polls node_id
    | None \<Rightarrow> await_worker polls node_id))"

definition start_demo_worker :: "ident \<Rightarrow> ('o, worker_handle) demo" where
  "start_demo_worker node_id =
    play_then (play_world wo_stdin) (\<lambda>stdin.
    play_then (expect stdin runtime_error) (\<lambda>_.
    play_then (play_world wo_polls) (\<lambda>polls. await_worker polls node_id)))"

definition set_worker :: "(worker_handle \<Rightarrow> worker_handle) \<Rightarrow> demo_session \<Rightarrow> demo_session" where
  "set_worker f demo = demo\<lparr>de_worker := f (de_worker demo)\<rparr>"

text \<open>\<open>_release_blocking\<close>.\<close>

definition release_worker :: "(demo_session, unit) demo" where
  "release_worker =
    play_then (play_look de_worker) (\<lambda>w.
    play_then (expect (wh_exit w = None) runtime_error) (\<lambda>_.
    play_then (expect (wh_pipe w) runtime_error) (\<lambda>_.
    play_then (play_own (set_worker (\<lambda>w. w\<lparr>wh_pipe := False\<rparr>))) (\<lambda>_.
    play_then (play_world wo_worker_end) (\<lambda>ended.
    case ended of
      None \<Rightarrow> play_of (Inl (PyException ''TimeoutExpired''))
    | Some e \<Rightarrow>
        play_then (play_own (set_worker (\<lambda>w. w\<lparr>wh_exit := Some (we_code e)\<rparr>))) (\<lambda>_.
        play_then (expect (we_code e = 0) runtime_error) (\<lambda>_.
        expect (\<not> contains ''node_token'' (we_stdout e) \<and> \<not> contains ''activation_token'' (we_stdout e))
          runtime_error)))))))"

definition terminate_worker :: "bool \<Rightarrow> worker_handle \<Rightarrow> worker_handle" where
  "terminate_worker killed w =
    (case wh_exit w of Some _ \<Rightarrow> w | None \<Rightarrow> w\<lparr>wh_exit := Some (if killed then - 9 else - 15)\<rparr>)"

section \<open>Heartbeats\<close>

text \<open>One round of \<open>_DemoHeartbeatManager._run\<close>: a conflict or a missing node ends the renewal of a node.\<close>

definition ends_renewal :: "error \<Rightarrow> bool" where
  "ends_renewal e = (case e of TraceFenceError _ status \<Rightarrow> status = 409 \<or> status = 404 | PyException _ \<Rightarrow> False)"

definition renew :: "env \<Rightarrow> ident \<times> string \<Rightarrow> ('o, bool) demo" where
  "renew E node W st =
    (case call_heartbeat E (fst node) (snd node) W st of
       (Inl e, st') \<Rightarrow> (Inr (\<not> ends_renewal e), st')
     | (Inr _, st') \<Rightarrow> (Inr True, st'))"

fun heartbeat_round :: "env \<Rightarrow> (ident \<times> string) list \<Rightarrow> ('o, (ident \<times> string) list) demo" where
  "heartbeat_round E [] = play_of (Inr [])"
| "heartbeat_round E (node # nodes) =
    play_then (renew E node) (\<lambda>kept.
    play_then (heartbeat_round E nodes) (\<lambda>rest.
    play_of (Inr (if kept then node # rest else rest))))"

definition remove_nodes :: "ident set \<Rightarrow> (ident \<times> string) list \<Rightarrow> (ident \<times> string) list" where
  "remove_nodes ks nodes = filter (\<lambda>(k, _). k \<notin> ks) nodes"

section \<open>Start\<close>

definition demo_root_capabilities :: "string list" where
  "demo_root_capabilities =
    [''control:descendants'', ''tool:read_metrics'', ''tool:restart_postgres'', ''tool:reset_redis_pool'',
     ''tool:propose_correction'']"

definition demo_spawn :: "string \<Rightarrow> string \<Rightarrow> string \<times> string \<Rightarrow> string list \<Rightarrow> string \<Rightarrow> spawn_create" where
  "demo_spawn key role task capabilities behavior =
    \<lparr>sp_operation_key = Some key, sp_role = role, sp_instruction = [(fst task, JStr (snd task))],
     sp_capabilities = capabilities, sp_behavior = behavior\<rparr>"

text \<open>A spawn and the activation of the child.\<close>

definition spawn_and_activate ::
    "env \<Rightarrow> codecs \<Rightarrow> ident \<Rightarrow> string \<Rightarrow> spawn_create \<Rightarrow> string \<Rightarrow> ('o, ident \<times> node_activated) demo" where
  "spawn_and_activate E C parent token request activation_key =
    play_then (call_spawn E C parent token request) (\<lambda>spawned.
    play_then (call_activate E C spawned activation_key) (\<lambda>activated.
    play_of (Inr (scd_child_node_id spawned, activated))))"

definition stale_action_key :: string where
  "stale_action_key = ''demo-stale-restart-postgres''"

definition recovery_action_key :: string where
  "recovery_action_key = ''demo-reset-redis-pool''"

definition new_session ::
    "ident \<Rightarrow> run_created \<Rightarrow> node_activated \<Rightarrow> ident \<Rightarrow> node_activated \<Rightarrow> worker_handle \<Rightarrow>
     (ident \<times> string) list option \<Rightarrow> demo_session" where
  "new_session session_id run database stale sibling worker heartbeats =
    \<lparr>de_id = session_id, de_run_id = rcd_run_id run, de_phase = Phase_Waiting,
     de_root_node_id = rcd_root_node_id run, de_database_node_id = nad_node_id database,
     de_stale_worker_node_id = stale, de_sibling_node_id = nad_node_id sibling, de_worker = worker,
     de_root_token = rcd_root_token run, de_database_token = nad_node_token database,
     de_sibling_token = nad_node_token sibling, de_command_id = None, de_replacement_node_id = None,
     de_stale_action_id = None, de_replacement_action_id = None, de_scope_from_version = None,
     de_scope_to_version = None, de_proof = None, de_heartbeats = heartbeats\<rparr>"

definition start_session :: "env \<Rightarrow> codecs \<Rightarrow> string \<Rightarrow> ('o, demo_session) demo" where
  "start_session E C scenario =
    play_then (expect (scenario = ''stale-supersession'') not_found_error) (\<lambda>_.
    play_then (call_create_run E \<lparr>rc_name = ''TraceFence stale-supersession demo'',
      rc_root_role = ''demo-supervisor'',
      rc_root_instruction = [(''goal'', JStr ''demonstrate runtime authority'')],
      rc_root_capabilities = demo_root_capabilities\<rparr>) (\<lambda>run.
    play_then (call_seed (rcd_run_id run)) (\<lambda>_.
    play_then (spawn_and_activate E C (rcd_root_node_id run) (rcd_root_token run)
      (demo_spawn ''demo-database-branch'' ''postgres-investigation''
        (''task'', ''investigate PostgreSQL latency'') [''tool:read_metrics'', ''tool:restart_postgres'']
        ''cooperative'') ''demo-database-activation'') (\<lambda>(_, database).
    play_then (spawn_and_activate E C (nad_node_id database) (nad_node_token database)
      (demo_spawn ''demo-stale-worker'' ''postgres-worker'' (''task'', ''restart PostgreSQL'')
        [''tool:restart_postgres''] ''non_compliant'') ''demo-stale-worker-activation'') (\<lambda>(stale, stale_worker).
    play_then (spawn_and_activate E C (rcd_root_node_id run) (rcd_root_token run)
      (demo_spawn ''demo-sibling-branch'' ''metrics-sibling'' (''task'', ''observe unrelated metrics'')
        [''tool:read_metrics''] ''cooperative'') ''demo-sibling-activation'') (\<lambda>(_, sibling).
    play_then (play_world wo_maintain) (\<lambda>maintain.
    play_then (start_demo_worker (nad_node_id stale_worker)) (\<lambda>worker.
    play_then (play_world wo_id) (\<lambda>session_id.
    play_of (Inr (new_session session_id run database stale sibling worker
      (if maintain
       then Some [(rcd_root_node_id run, rcd_root_token run), (nad_node_id database, nad_node_token database),
              (nad_node_id stale_worker, nad_node_token stale_worker),
              (nad_node_id sibling, nad_node_token sibling)]
       else None))))))))))))"

section \<open>The transitions\<close>

definition require_phase :: "phase \<Rightarrow> (demo_session, unit) demo" where
  "require_phase p =
    play_then (play_look de_phase) (\<lambda>q. expect (q = p) (conflict_error ''DEMO_INVALID_TRANSITION''))"

definition plain_body :: "command_type \<Rightarrow> ident \<Rightarrow> string \<Rightarrow> string \<Rightarrow> command_body" where
  "plain_body ty target code reason =
    \<lparr>cb_command_type = ty, cb_target_node_id = target, cb_reason_code = code, cb_reason_text = reason,
     cb_replacement_instruction = None, cb_replacement_expected_tool = None, cb_replacement_role = None,
     cb_replacement_behavior = None, cb_replacement_capabilities = None, cb_replacement_arguments = None,
     cb_replacement_max_children = None, cb_recovery_stability_seconds = 0\<rparr>"

definition redis_recovery_body :: "ident \<Rightarrow> string \<Rightarrow> string \<Rightarrow> command_body" where
  "redis_recovery_body target code reason =
    (plain_body Correct_Subtree target code reason)
      \<lparr>cb_replacement_instruction := Some [(''task'', JStr ''reset Redis pool'')],
       cb_replacement_expected_tool := Some ''reset_redis_pool''\<rparr>"

definition demo_command :: "string \<Rightarrow> command_body \<Rightarrow> command_create" where
  "demo_command key body = \<lparr>cc_idempotency_key = key, cc_source_proposal_id = None, cc_body = body\<rparr>"

definition supersede :: "env \<Rightarrow> (demo_session, demo_snapshot) demo" where
  "supersede E =
    play_then (require_phase Phase_Waiting) (\<lambda>_.
    play_then (play_own (\<lambda>demo. demo\<lparr>de_heartbeats := None\<rparr>)) (\<lambda>_.
    play_then (play_look de_database_node_id) (\<lambda>database.
    play_then (play_look de_database_token) (\<lambda>token.
    play_then (call_command E (demo_command ''demo-supersede-postgres''
      (redis_recovery_body database ''WRONG_ROOT_CAUSE''
        ''Redis pool exhaustion is causal; PostgreSQL is healthy''))) (\<lambda>command.
    play_then (call_checkpoint E database token ''after_supersession'') (\<lambda>checkpoint.
    play_then (expect (\<not> cr_allowed checkpoint) runtime_error) (\<lambda>_.
    play_then (play_own (\<lambda>demo. demo\<lparr>de_command_id := Some (ci_command_id command),
      de_scope_from_version := Some (ci_from_version command),
      de_scope_to_version := Some (ci_to_version command), de_phase := Phase_Superseded\<rparr>)) (\<lambda>_.
    snapshot))))))))"

definition released_event :: "demo_session \<Rightarrow> draws \<Rightarrow> runtime_event" where
  "released_event demo D =
    (blank_event (de_run_id demo) ''DEMO_WORKER_RELEASED'' (dr_clock D 0))
      \<lparr>e_node_id := Some (de_stale_worker_node_id demo), e_command_id := de_command_id demo\<rparr>"

definition release_stale_worker :: "(demo_session, demo_snapshot) demo" where
  "release_stale_worker =
    play_then (require_phase Phase_Superseded) (\<lambda>_.
    play_then (play_look (\<lambda>o1. o1)) (\<lambda>demo.
    play_then (write_event (released_event demo)) (\<lambda>_.
    play_then release_worker (\<lambda>_.
    play_then (action_by_key (de_stale_worker_node_id demo) stale_action_key) (\<lambda>attempt.
    play_then (expect (a_decision attempt = Deny \<and> a_denial_reason attempt = Some ''SCOPE_SUPERSEDED'')
      runtime_error) (\<lambda>_.
    play_then (play_own (\<lambda>demo. demo\<lparr>de_stale_action_id := Some (a_id attempt), de_phase := Phase_Denied\<rparr>)) (\<lambda>_.
    play_then snapshot (\<lambda>s.
    play_then (play_of (counter_of ''postgres'' ''restart_count'' (sn_services s))) (\<lambda>n.
    play_then (expect (n = JInt 0) runtime_error) (\<lambda>_.
    play_of (Inr s)))))))))))"

definition run_replacement :: "env \<Rightarrow> codecs \<Rightarrow> (demo_session, demo_snapshot) demo" where
  "run_replacement E C =
    play_then (require_phase Phase_Denied) (\<lambda>_.
    play_then (play_look (\<lambda>o1. o1)) (\<lambda>demo.
    play_then (play_of (demand (de_command_id demo) runtime_error)) (\<lambda>command_id.
    play_then (call_replacement E C (de_root_node_id demo) (de_root_token demo) command_id
      (demo_spawn ''demo-replacement'' ''redis_recovery'' (''task'', ''reset Redis pool'')
        [''tool:reset_redis_pool''] ''cooperative'')) (\<lambda>spawned.
    play_then (call_activate E C spawned ''demo-replacement-activation'') (\<lambda>replacement.
    play_then (call_execute E (nad_node_id replacement) (nad_node_token replacement) recovery_action_key
      ''reset_redis_pool'') (\<lambda>allowed.
    play_then (expect (ar_decision allowed = Allow \<and> ar_committed allowed) runtime_error) (\<lambda>_.
    play_then (call_complete E (nad_node_id replacement) (nad_node_token replacement)) (\<lambda>_.
    play_then (play_own (\<lambda>demo. demo\<lparr>de_replacement_node_id := Some (nad_node_id replacement),
      de_replacement_action_id := Some (ar_action_id allowed), de_phase := Phase_Recovered\<rparr>)) (\<lambda>_.
    play_then snapshot (\<lambda>s.
    play_then (play_of (counter_of ''redis'' ''pool_reset_count'' (sn_services s))) (\<lambda>n.
    play_then (expect (n = JInt 1) runtime_error) (\<lambda>_.
    play_of (Inr s)))))))))))))"

definition build_demo_proof :: "env \<Rightarrow> (demo_session, demo_snapshot) demo" where
  "build_demo_proof E =
    play_then (require_phase Phase_Recovered) (\<lambda>_.
    play_then (play_look de_command_id) (\<lambda>found.
    play_then (play_of (demand found runtime_error)) (\<lambda>command_id.
    play_then (call_proof E command_id) (\<lambda>proof.
    play_then (play_own (\<lambda>demo. demo\<lparr>de_proof := Some proof, de_phase := Phase_Proven,
      de_heartbeats := None\<rparr>)) (\<lambda>_.
    snapshot)))))"

section \<open>Through the services\<close>

lemma read_action_through [through]: "through_services E C (read_action k a :: ('o, json option) demo)"
  by (cases a) (simp_all add: read_action_def through)

lemma snapshot_through [through]: "through_services E C snapshot"
  unfolding snapshot_def by (intro through)

lemma await_worker_through [through]: "through_services E C (await_worker polls k :: ('o, worker_handle) demo)"
  by (induction polls) (auto intro!: through split: option.split)

lemma start_demo_worker_through [through]: "through_services E C (start_demo_worker k :: ('o, worker_handle) demo)"
  unfolding start_demo_worker_def by (intro through)

lemma release_worker_through [through]: "through_services E C release_worker"
  unfolding release_worker_def by (auto intro!: through split: option.split)

lemma renew_through [through]: "through_services E C (renew E node :: ('o, bool) demo)"
proof -
  have "through_services E C (call_heartbeat E (fst node) (snd node) :: ('o, unit) demo)" by (rule through)
  then show ?thesis
    by (auto simp: through_services_def renew_def case_prod_beta split: sum.split)
qed

lemma heartbeat_round_through [through]:
  "through_services E C (heartbeat_round E nodes :: ('o, (ident \<times> string) list) demo)"
  by (induction nodes) (auto intro!: through)

lemma spawn_and_activate_through [through]:
  "through_services E C (spawn_and_activate E C k token sp key :: ('o, ident \<times> node_activated) demo)"
  unfolding spawn_and_activate_def by (intro through)

lemma start_session_through [through]: "through_services E C (start_session E C scenario :: ('o, demo_session) demo)"
  unfolding start_session_def by (auto intro!: through split: prod.split)

lemma require_phase_through [through]: "through_services E C (require_phase p)"
  unfolding require_phase_def by (intro through)

lemma transitions_through [through]:
  "through_services E C (supersede E)" "through_services E C release_stale_worker"
  "through_services E C (run_replacement E C)" "through_services E C (build_demo_proof E)"
  unfolding supersede_def release_stale_worker_def run_replacement_def build_demo_proof_def
  by (intro through)+

end
