(* ===== verification/Demo_Checks.thy ===== *)
theory Demo_Checks
  imports Demo_Session
begin

text \<open>
  \<open>services/demo_controller.py\<close>: the fixed checks, each a program over the services that ends in
  \<open>PASS\<close> only when the gateway decided what the check expects.
\<close>

section \<open>Helpers\<close>

record check_snapshot =
  ks_run_id :: ident
  ks_graph :: graph_response
  ks_events :: "json list"
  ks_services :: "json list"
  ks_actions :: "json list"

record check_result =
  kr_scenario :: string
  kr_expected :: string
  kr_snapshot :: check_snapshot
  kr_replay_duplicate :: "bool option"
  kr_conflict_code :: "string option"
  kr_check_id :: "ident option"

definition check_result_of :: "string \<Rightarrow> check_snapshot \<Rightarrow> string \<Rightarrow> check_result" where
  "check_result_of scenario s expected =
    \<lparr>kr_scenario = scenario, kr_expected = expected, kr_snapshot = s, kr_replay_duplicate = None,
     kr_conflict_code = None, kr_check_id = None\<rparr>"

definition create_check_run :: "env \<Rightarrow> string \<Rightarrow> ('o, run_created) demo" where
  "create_check_run E label =
    play_then (call_create_run E \<lparr>rc_name = ''TraceFence demo check: '' @ label,
      rc_root_role = ''demo-check-supervisor'', rc_root_instruction = [(''scenario'', JStr label)],
      rc_root_capabilities = demo_root_capabilities\<rparr>) (\<lambda>run.
    play_then (call_seed (rcd_run_id run)) (\<lambda>_.
    play_of (Inr run)))"

definition close_check_run :: "env \<Rightarrow> ident \<Rightarrow> ident \<Rightarrow> string \<Rightarrow> ('o, command_issued) demo" where
  "close_check_run E run_id root_node_id scenario =
    call_command E (demo_command (''demo-check-complete-'' @ scenario @ ''-'' @ run_id)
      (plain_body Cancel_Run root_node_id ''DEMO_CHECK_COMPLETE''
        ''Close the completed disposable Runtime Inspector check''))"

definition spawn_check_node ::
    "env \<Rightarrow> codecs \<Rightarrow> ident \<Rightarrow> string \<Rightarrow> string \<Rightarrow> string \<Rightarrow> string list \<Rightarrow> ('o, node_activated) demo" where
  "spawn_check_node E C parent token operation role capabilities =
    play_then (spawn_and_activate E C parent token
      (demo_spawn (''demo-'' @ operation) role (''scenario_step'', operation) capabilities ''cooperative'')
      (''demo-'' @ operation @ ''-activation'')) (\<lambda>(_, activated).
    play_of (Inr activated))"

fun read_actions :: "ident \<Rightarrow> ident list \<Rightarrow> ('o, json list) demo" where
  "read_actions run_id [] = play_of (Inr [])"
| "read_actions run_id (k # ks) =
    play_then (service_read (\<lambda>_. get_action run_id k)) (\<lambda>j.
    play_then (read_actions run_id ks) (\<lambda>js. play_of (Inr (j # js))))"

definition take_check_snapshot :: "ident \<Rightarrow> ident list \<Rightarrow> ('o, check_snapshot) demo" where
  "take_check_snapshot run_id action_ids =
    play_then (service_read (\<lambda>D. get_graph (dr_clock D 0) run_id)) (\<lambda>graph.
    play_then (service_read (\<lambda>D. list_events run_id 0 500)) (\<lambda>events.
    play_then (service_read (\<lambda>D. list_states run_id 100 0)) (\<lambda>services.
    play_then (read_actions run_id action_ids) (\<lambda>actions.
    play_of (Inr \<lparr>ks_run_id = run_id, ks_graph = graph, ks_events = events, ks_services = services,
      ks_actions = actions\<rparr>)))))"

definition check_counter :: "string \<Rightarrow> string \<Rightarrow> int \<Rightarrow> check_snapshot \<Rightarrow> ('o, bool) demo" where
  "check_counter service key n s =
    play_then (play_of (counter_of service key (ks_services s))) (\<lambda>v. play_of (Inr (v = JInt n)))"

section \<open>The checks\<close>

definition check_cancellation :: "env \<Rightarrow> codecs \<Rightarrow> ('o, check_result) demo" where
  "check_cancellation E C =
    play_then (create_check_run E ''cancellation'') (\<lambda>run.
    play_then (spawn_check_node E C (rcd_root_node_id run) (rcd_root_token run) ''cancellation-worker''
      ''cancelled-worker'' [''tool:restart_postgres'']) (\<lambda>child.
    play_then (call_checkpoint E (nad_node_id child) (nad_node_token child) ''before_protected_action'') (\<lambda>checkpoint.
    play_then (expect (cr_allowed checkpoint) runtime_error) (\<lambda>_.
    play_then (call_command E (demo_command ''demo-cancel-subtree'' (plain_body Cancel_Subtree (nad_node_id child)
      ''DEMO_CANCELLATION'' ''Cancel the paused demonstration worker''))) (\<lambda>_.
    play_then (call_execute E (nad_node_id child) (nad_node_token child) ''demo-cancelled-action''
      ''restart_postgres'') (\<lambda>denied.
    play_then (close_check_run E (rcd_run_id run) (rcd_root_node_id run) ''cancellation'') (\<lambda>_.
    play_then (take_check_snapshot (rcd_run_id run) [ar_action_id denied]) (\<lambda>s.
    play_then (check_counter ''postgres'' ''restart_count'' 0 s) (\<lambda>untouched.
    play_then (expect (ar_denial_reason denied = Some ''SCOPE_CANCELLED'' \<and> untouched) runtime_error) (\<lambda>_.
    play_of (Inr (check_result_of ''cancellation'' s ''DENY SCOPE_CANCELLED; postgres restart_count=0''))))))))))))"

definition start_lease_expiry :: "env \<Rightarrow> codecs \<Rightarrow> ('o, lease_check) demo" where
  "start_lease_expiry E C =
    play_then (create_check_run E ''lease expiry'') (\<lambda>run.
    play_then (spawn_check_node E C (rcd_root_node_id run) (rcd_root_token run) ''lease-expiry-worker''
      ''lease-expiry-worker'' [''tool:restart_postgres'']) (\<lambda>child.
    play_then (call_checkpoint E (nad_node_id child) (nad_node_token child) ''before_protected_action'') (\<lambda>checkpoint.
    play_then (expect (cr_allowed checkpoint) runtime_error) (\<lambda>_.
    play_then (play_world wo_maintain) (\<lambda>maintain.
    play_then (play_world wo_id) (\<lambda>check_id.
    play_of (Inr \<lparr>lc_id = check_id, lc_run_id = rcd_run_id run, lc_root_node_id = rcd_root_node_id run,
      lc_child_node_id = nad_node_id child, lc_child_token = nad_node_token child,
      lc_expires_at = nad_lease_expires_at child,
      lc_heartbeats = (if maintain then Some [(rcd_root_node_id run, rcd_root_token run)] else None),
      lc_finished = False\<rparr>)))))))"

text \<open>The own object of this program is the pending check.\<close>

definition finish_lease_expiry :: "env \<Rightarrow> (lease_check, check_result) demo" where
  "finish_lease_expiry E =
    play_then (play_look (\<lambda>o1. o1)) (\<lambda>check.
    play_then (expect (\<not> lc_finished check) (conflict_error ''DEMO_INVALID_TRANSITION'')) (\<lambda>_.
    play_then (service_read (\<lambda>D d. Inr (case get_node_row (lc_child_node_id check) d of
        None \<Rightarrow> False
      | Some n \<Rightarrow> (case n_lease_expires_at n of None \<Rightarrow> False | Some t \<Rightarrow> t < dr_clock D 0)))) (\<lambda>expired.
    play_then (expect expired (conflict_error ''DEMO_LEASE_STILL_LIVE'')) (\<lambda>_.
    play_then (call_execute E (lc_child_node_id check) (lc_child_token check) ''demo-expired-lease-action''
      ''restart_postgres'') (\<lambda>denied.
    play_then (call_expire E (lc_run_id check)) (\<lambda>_.
    play_then (play_own (\<lambda>c. c\<lparr>lc_heartbeats := None, lc_finished := True\<rparr>)) (\<lambda>_.
    play_then (close_check_run E (lc_run_id check) (lc_root_node_id check) ''lease-expiry'') (\<lambda>_.
    play_then (take_check_snapshot (lc_run_id check) [ar_action_id denied]) (\<lambda>s.
    play_then (check_counter ''postgres'' ''restart_count'' 0 s) (\<lambda>untouched.
    play_then (expect (ar_denial_reason denied = Some ''LEASE_EXPIRED'' \<and> untouched) runtime_error) (\<lambda>_.
    play_of (Inr ((check_result_of ''lease-expiry'' s ''DENY LEASE_EXPIRED; postgres restart_count=0'')
      \<lparr>kr_check_id := Some (lc_id check)\<rparr>)))))))))))))"

definition check_idempotency :: "env \<Rightarrow> codecs \<Rightarrow> ('o, check_result) demo" where
  "check_idempotency E C =
    play_then (create_check_run E ''idempotent retry'') (\<lambda>run.
    play_then (spawn_check_node E C (rcd_root_node_id run) (rcd_root_token run) ''idempotency-worker''
      ''idempotency-worker'' [''tool:reset_redis_pool'', ''tool:restart_postgres'']) (\<lambda>worker.
    play_then (call_execute E (nad_node_id worker) (nad_node_token worker) ''demo-idempotent-action''
      ''reset_redis_pool'') (\<lambda>first.
    play_then (call_execute E (nad_node_id worker) (nad_node_token worker) ''demo-idempotent-action''
      ''reset_redis_pool'') (\<lambda>replay.
    play_then (conflict_code_of (call_execute E (nad_node_id worker) (nad_node_token worker)
      ''demo-idempotent-action'' ''restart_postgres'')) (\<lambda>code.
    play_then (close_check_run E (rcd_run_id run) (rcd_root_node_id run) ''idempotent-retry'') (\<lambda>_.
    play_then (take_check_snapshot (rcd_run_id run) [ar_action_id first]) (\<lambda>s.
    play_then (check_counter ''redis'' ''pool_reset_count'' 1 s) (\<lambda>once.
    play_then (expect (ar_duplicate replay \<and> code = Some ''IDEMPOTENCY_PAYLOAD_MISMATCH'' \<and> once)
      runtime_error) (\<lambda>_.
    play_of (Inr ((check_result_of ''idempotent-retry'' s
      ''ALLOW, exact replay, changed-payload conflict; effect_count=1'')
      \<lparr>kr_replay_duplicate := Some (ar_duplicate replay), kr_conflict_code := code\<rparr>)))))))))))"

definition check_manifest_mismatch :: "env \<Rightarrow> codecs \<Rightarrow> ('o, check_result) demo" where
  "check_manifest_mismatch E C =
    play_then (create_check_run E ''recovery manifest mismatch'') (\<lambda>run.
    play_then (spawn_check_node E C (rcd_root_node_id run) (rcd_root_token run) ''manifest-target''
      ''incorrect-investigation'' [''tool:read_metrics'']) (\<lambda>target.
    play_then (call_command E (demo_command ''demo-manifest-correction'' (redis_recovery_body (nad_node_id target)
      ''DEMO_MANIFEST'' ''Require an exact Redis recovery''))) (\<lambda>command.
    play_then (call_replacement E C (rcd_root_node_id run) (rcd_root_token run) (ci_command_id command)
      (demo_spawn ''demo-manifest-replacement'' ''redis_recovery'' (''task'', ''reset Redis pool'')
        [''tool:reset_redis_pool''] ''cooperative'')) (\<lambda>spawned.
    play_then (call_activate E C spawned ''demo-manifest-replacement-activation'') (\<lambda>replacement.
    play_then (call_execute E (nad_node_id replacement) (nad_node_token replacement) ''demo-wrong-recovery-tool''
      ''restart_postgres'') (\<lambda>denied.
    play_then (call_execute E (nad_node_id replacement) (nad_node_token replacement) ''demo-exact-recovery-tool''
      ''reset_redis_pool'') (\<lambda>allowed.
    play_then (close_check_run E (rcd_run_id run) (rcd_root_node_id run) ''recovery-manifest-mismatch'') (\<lambda>_.
    play_then (take_check_snapshot (rcd_run_id run) [ar_action_id denied, ar_action_id allowed]) (\<lambda>s.
    play_then (check_counter ''redis'' ''pool_reset_count'' 1 s) (\<lambda>once.
    play_then (expect (ar_decision denied = Deny \<and> ar_denial_reason denied = Some ''RECOVERY_TOOL_MISMATCH'' \<and>
      ar_decision allowed = Allow \<and> once) runtime_error) (\<lambda>_.
    play_of (Inr (check_result_of ''recovery-manifest-mismatch'' s
      ''wrong tool DENY before execution; exact recovery ALLOW once'')))))))))))))"

definition check_sibling_isolation :: "env \<Rightarrow> codecs \<Rightarrow> ('o, check_result) demo" where
  "check_sibling_isolation E C =
    play_then (create_check_run E ''sibling isolation'') (\<lambda>run.
    play_then (spawn_check_node E C (rcd_root_node_id run) (rcd_root_token run) ''isolated-stale-sibling''
      ''stale-sibling'' [''tool:read_metrics'']) (\<lambda>stale.
    play_then (spawn_check_node E C (rcd_root_node_id run) (rcd_root_token run) ''isolated-live-sibling''
      ''live-sibling'' [''tool:read_metrics'']) (\<lambda>live.
    play_then (call_command E (demo_command ''demo-isolate-sibling'' (plain_body Cancel_Subtree (nad_node_id stale)
      ''DEMO_ISOLATION'' ''Cancel one sibling only''))) (\<lambda>_.
    play_then (play_both False
      (call_execute E (nad_node_id stale) (nad_node_token stale) ''demo-stale-sibling-read'' ''read_metrics'')
      (call_execute E (nad_node_id live) (nad_node_token live) ''demo-live-sibling-read'' ''read_metrics''))
      (\<lambda>(denied, allowed).
    play_then (close_check_run E (rcd_run_id run) (rcd_root_node_id run) ''sibling-isolation'') (\<lambda>_.
    play_then (take_check_snapshot (rcd_run_id run) [ar_action_id denied, ar_action_id allowed]) (\<lambda>s.
    play_then (expect (ar_denial_reason denied = Some ''SCOPE_CANCELLED'' \<and> ar_decision allowed = Allow)
      runtime_error) (\<lambda>_.
    play_of (Inr (check_result_of ''sibling-isolation'' s
      ''cancelled sibling DENY; unrelated sibling ALLOW''))))))))))"

definition check_concurrent_stale_valid :: "env \<Rightarrow> codecs \<Rightarrow> ('o, check_result) demo" where
  "check_concurrent_stale_valid E C =
    play_then (create_check_run E ''concurrent stale and valid actions'') (\<lambda>run.
    play_then (spawn_check_node E C (rcd_root_node_id run) (rcd_root_token run) ''race-target''
      ''stale-race-target'' [''tool:restart_postgres'']) (\<lambda>target.
    play_then (spawn_check_node E C (nad_node_id target) (nad_node_token target) ''race-stale-worker''
      ''stale-race-worker'' [''tool:restart_postgres'']) (\<lambda>stale.
    play_then (call_command E (demo_command ''demo-race-correction'' (redis_recovery_body (nad_node_id target)
      ''DEMO_RACE'' ''Race stale work against the exact replacement''))) (\<lambda>command.
    play_then (call_replacement E C (rcd_root_node_id run) (rcd_root_token run) (ci_command_id command)
      (demo_spawn ''demo-race-replacement'' ''redis_recovery'' (''task'', ''reset Redis pool'')
        [''tool:reset_redis_pool''] ''cooperative'')) (\<lambda>spawned.
    play_then (call_activate E C spawned ''demo-race-replacement-activation'') (\<lambda>replacement.
    play_then (play_world wo_swapped) (\<lambda>swapped.
    play_then (play_both swapped
      (call_execute E (nad_node_id stale) (nad_node_token stale) ''demo-race-stale'' ''restart_postgres'')
      (call_execute E (nad_node_id replacement) (nad_node_token replacement) ''demo-race-valid''
        ''reset_redis_pool'')) (\<lambda>(denied, allowed).
    play_then (close_check_run E (rcd_run_id run) (rcd_root_node_id run) ''concurrent-stale-valid'') (\<lambda>_.
    play_then (take_check_snapshot (rcd_run_id run) [ar_action_id denied, ar_action_id allowed]) (\<lambda>s.
    play_then (check_counter ''postgres'' ''restart_count'' 0 s) (\<lambda>untouched.
    play_then (check_counter ''redis'' ''pool_reset_count'' 1 s) (\<lambda>once.
    play_then (expect (ar_denial_reason denied = Some ''SCOPE_SUPERSEDED'' \<and> ar_decision allowed = Allow \<and>
      untouched \<and> once) runtime_error) (\<lambda>_.
    play_of (Inr (check_result_of ''concurrent-stale-valid'' s
      ''stale DENY; exact replacement ALLOW; effects 0/1'')))))))))))))))"

text \<open>\<open>run_check\<close>: a check passes, or waits for a lease to run out.\<close>

datatype check_outcome = Passed check_result | Waits lease_check

definition demo_passed :: "('o, check_result) demo \<Rightarrow> ('o, check_outcome) demo" where
  "demo_passed m = play_then m (\<lambda>r. play_of (Inr (Passed r)))"

definition dispatch_check :: "env \<Rightarrow> codecs \<Rightarrow> string \<Rightarrow> ('o, check_outcome) demo" where
  "dispatch_check E C scenario =
    (if scenario = ''cancellation'' then demo_passed (check_cancellation E C)
     else if scenario = ''lease-expiry'' then
       play_then (start_lease_expiry E C) (\<lambda>c. play_of (Inr (Waits c)))
     else if scenario = ''idempotent-retry'' then demo_passed (check_idempotency E C)
     else if scenario = ''recovery-manifest-mismatch'' then demo_passed (check_manifest_mismatch E C)
     else if scenario = ''sibling-isolation'' then demo_passed (check_sibling_isolation E C)
     else if scenario = ''concurrent-stale-valid'' then demo_passed (check_concurrent_stale_valid E C)
     else play_of (Inl not_found_error))"

section \<open>Through the services\<close>

lemma check_helpers_through [through]:
  "through_services E C (create_check_run E label :: ('o, run_created) demo)"
  "through_services E C (close_check_run E k root_id scenario :: ('o, command_issued) demo)"
  "through_services E C (spawn_check_node E C parent token operation role caps :: ('o, node_activated) demo)"
  "through_services E C (check_counter service key n s :: ('o, bool) demo)"
  unfolding create_check_run_def close_check_run_def spawn_check_node_def check_counter_def
  by (auto intro!: through split: prod.split)

lemma read_actions_through [through]: "through_services E C (read_actions k ks :: ('o, json list) demo)"
  by (induction ks) (auto intro!: through)

lemma take_check_snapshot_through [through]:
  "through_services E C (take_check_snapshot k ks :: ('o, check_snapshot) demo)"
  unfolding take_check_snapshot_def by (intro through)

lemma check_through [through]:
  "through_services E C (check_cancellation E C :: ('o, check_result) demo)"
  "through_services E C (start_lease_expiry E C :: ('o, lease_check) demo)"
  "through_services E C (finish_lease_expiry E)"
  "through_services E C (check_idempotency E C :: ('o, check_result) demo)"
  "through_services E C (check_manifest_mismatch E C :: ('o, check_result) demo)"
  unfolding check_cancellation_def start_lease_expiry_def finish_lease_expiry_def check_idempotency_def
    check_manifest_mismatch_def
  by (intro through)+

lemma paired_check_through [through]:
  "through_services E C (check_sibling_isolation E C :: ('o, check_result) demo)"
  "through_services E C (check_concurrent_stale_valid E C :: ('o, check_result) demo)"
  unfolding check_sibling_isolation_def check_concurrent_stale_valid_def case_prod_beta
  by (intro through)+

lemma dispatch_check_through [through]: "through_services E C (dispatch_check E C scenario :: ('o, check_outcome) demo)"
  unfolding dispatch_check_def demo_passed_def by (auto intro!: through)

end
