(* ===== verification/Demo_Control.thy ===== *)
theory Demo_Control
  imports Demo_Checks
begin

text \<open>
  \<open>services/demo_controller.py\<close>: the controller, its sessions and checks, and a small logic for what its
  programs establish while other requests come in between.
\<close>

section \<open>The controller\<close>

record demo_controller =
  dc_sessions :: "(ident \<times> demo_session) list"
  dc_checks :: "check_result list"
  dc_lease_checks :: "(ident \<times> lease_check) list"

definition new_controller :: demo_controller where
  "new_controller = \<lparr>dc_sessions = [], dc_checks = [], dc_lease_checks = []\<rparr>"

text \<open>\<open>d[k] = v\<close> on a dictionary in insertion order.\<close>

definition dict_put :: "'k \<Rightarrow> 'v \<Rightarrow> ('k \<times> 'v) list \<Rightarrow> ('k \<times> 'v) list" where
  "dict_put k v kvs =
    (if k \<in> fst ` set kvs then map (\<lambda>(i, x). (i, if i = k then v else x)) kvs else kvs @ [(k, v)])"

text \<open>A program on one object of the controller, found under its key.\<close>

definition on_object ::
    "('c \<Rightarrow> (ident \<times> 'o) list) \<Rightarrow> (((ident \<times> 'o) list \<Rightarrow> (ident \<times> 'o) list) \<Rightarrow> 'c \<Rightarrow> 'c) \<Rightarrow> ident \<Rightarrow>
     ('o, 'a) demo \<Rightarrow> ('c, 'a) demo" where
  "on_object get put k m W st =
    (case map_of (get (st_own st)) k of
       None \<Rightarrow> (Inl not_found_error, st)
     | Some x \<Rightarrow>
         (case m W \<lparr>st_own = x, st_calls = st_calls st, st_sys = st_sys st\<rparr> of
            (r, st') \<Rightarrow> (r, \<lparr>st_own = put (dict_put k (st_own st')) (st_own st), st_calls = st_calls st',
              st_sys = st_sys st'\<rparr>)))"

definition on_session :: "ident \<Rightarrow> (demo_session, 'a) demo \<Rightarrow> (demo_controller, 'a) demo" where
  "on_session = on_object dc_sessions dc_sessions_update"

definition on_lease_check :: "ident \<Rightarrow> (lease_check, 'a) demo \<Rightarrow> (demo_controller, 'a) demo" where
  "on_lease_check = on_object dc_lease_checks dc_lease_checks_update"

text \<open>\<open>self._checks[-50:]\<close>.\<close>

definition add_check :: "check_result \<Rightarrow> demo_controller \<Rightarrow> demo_controller" where
  "add_check r c =
    (let all = dc_checks c @ [r] in c\<lparr>dc_checks := drop (length all - 50) all\<rparr>)"

definition demo_start :: "env \<Rightarrow> codecs \<Rightarrow> string \<Rightarrow> (demo_controller, demo_snapshot) demo" where
  "demo_start E C scenario =
    play_then (start_session E C scenario) (\<lambda>demo.
    play_then (play_own (dc_sessions_update (dict_put (de_id demo) demo))) (\<lambda>_.
    on_session (de_id demo) snapshot))"

definition demo_run_check :: "env \<Rightarrow> codecs \<Rightarrow> string \<Rightarrow> (demo_controller, check_outcome) demo" where
  "demo_run_check E C scenario =
    play_then (dispatch_check E C scenario) (\<lambda>outcome.
    play_then (play_own (case outcome of
        Passed r \<Rightarrow> add_check r
      | Waits c \<Rightarrow> dc_lease_checks_update (dict_put (lc_id c) c))) (\<lambda>_.
    play_of (Inr outcome)))"

definition demo_finish_lease_expiry :: "env \<Rightarrow> ident \<Rightarrow> (demo_controller, check_result) demo" where
  "demo_finish_lease_expiry E check_id =
    play_then (on_lease_check check_id (finish_lease_expiry E)) (\<lambda>r.
    play_then (play_own (add_check r)) (\<lambda>_.
    play_of (Inr r)))"

definition demo_list_checks :: "demo_controller \<Rightarrow> check_result list" where
  "demo_list_checks c = rev (dc_checks c)"

definition demo_list_sessions :: "demo_controller \<Rightarrow> (ident \<times> ident \<times> string) list" where
  "demo_list_sessions c =
    map (\<lambda>(_, s). (de_id s, de_run_id s, phase_value (de_phase s))) (rev (dc_sessions c))"

text \<open>\<open>reset\<close> returns the session it let go of, with its worker ended and its heartbeats stopped.\<close>

definition demo_reset :: "ident \<Rightarrow> (demo_controller, demo_session) demo" where
  "demo_reset session_id =
    play_then (play_look (\<lambda>c. map_of (dc_sessions c) session_id)) (\<lambda>found.
    play_then (play_own (dc_sessions_update (filter (\<lambda>(k, _). k \<noteq> session_id)))) (\<lambda>_.
    play_then (play_of (demand found not_found_error)) (\<lambda>demo.
    play_then (play_world wo_killed) (\<lambda>killed.
    play_of (Inr ((set_worker (terminate_worker killed) demo)\<lparr>de_heartbeats := None\<rparr>))))))"

definition demo_close :: "(demo_controller, unit) demo" where
  "demo_close = play_own (\<lambda>c. c\<lparr>dc_sessions := [], dc_lease_checks := []\<rparr>)"

text \<open>One round of the heartbeats of a session, by its thread; the worker may also end by itself.\<close>

definition beat_session :: "env \<Rightarrow> (demo_session, unit) demo" where
  "beat_session E =
    play_then (play_look de_heartbeats) (\<lambda>nodes.
    case nodes of
      None \<Rightarrow> play_of (Inr ())
    | Some ns \<Rightarrow>
        play_then (heartbeat_round E ns) (\<lambda>ns'. play_own (\<lambda>demo. demo\<lparr>de_heartbeats := Some ns'\<rparr>)))"

definition worker_exits :: "int \<Rightarrow> (demo_session, unit) demo" where
  "worker_exits code = play_own (set_worker (\<lambda>w. w\<lparr>wh_exit := Some code\<rparr>))"

definition beat_lease_check :: "env \<Rightarrow> (lease_check, unit) demo" where
  "beat_lease_check E =
    play_then (play_look lc_heartbeats) (\<lambda>nodes.
    case nodes of
      None \<Rightarrow> play_of (Inr ())
    | Some ns \<Rightarrow>
        play_then (heartbeat_round E ns) (\<lambda>ns'. play_own (\<lambda>c. c\<lparr>lc_heartbeats := Some ns'\<rparr>)))"

datatype demo_event =
    Ev_Start string | Ev_Supersede ident | Ev_Release ident | Ev_Replace ident | Ev_Prove ident | Ev_Get ident
  | Ev_Check string | Ev_Finish ident | Ev_Reset ident | Ev_Close | Ev_Beat ident | Ev_Beat_Check ident
  | Ev_Worker_Exits ident int

definition silent :: "('o, 'a) demo \<Rightarrow> ('o, unit) demo" where
  "silent m = play_then m (\<lambda>_. play_of (Inr ()))"

definition demo_do :: "env \<Rightarrow> codecs \<Rightarrow> demo_event \<Rightarrow> (demo_controller, unit) demo" where
  "demo_do E C ev =
    (case ev of
       Ev_Start scenario \<Rightarrow> silent (demo_start E C scenario)
     | Ev_Supersede k \<Rightarrow> silent (on_session k (supersede E))
     | Ev_Release k \<Rightarrow> silent (on_session k release_stale_worker)
     | Ev_Replace k \<Rightarrow> silent (on_session k (run_replacement E C))
     | Ev_Prove k \<Rightarrow> silent (on_session k (build_demo_proof E))
     | Ev_Get k \<Rightarrow> silent (on_session k snapshot)
     | Ev_Check scenario \<Rightarrow> silent (demo_run_check E C scenario)
     | Ev_Finish k \<Rightarrow> silent (demo_finish_lease_expiry E k)
     | Ev_Reset k \<Rightarrow> silent (demo_reset k)
     | Ev_Close \<Rightarrow> demo_close
     | Ev_Beat k \<Rightarrow> on_session k (beat_session E)
     | Ev_Beat_Check k \<Rightarrow> on_lease_check k (beat_lease_check E)
     | Ev_Worker_Exits k code \<Rightarrow> on_session k (worker_exits code))"

type_synonym demo_state = "time \<times> demo_controller \<times> sys"

text \<open>Anything the services do, and any operation of the controller in any fair world.\<close>

inductive demo_reachable :: "env \<Rightarrow> codecs \<Rightarrow> demo_state \<Rightarrow> bool" for E C where
  demo_begins: "demo_reachable E C (h, new_controller, \<lparr>sy_db = empty_db, sy_limiter = []\<rparr>)"
| demo_outside: "demo_reachable E C (h, c, s) \<Longrightarrow> service_step E C (h, sy_db s) (h', sy_db s') \<Longrightarrow>
    demo_reachable E C (h', c, s')"
| demo_done: "demo_reachable E C (wo_done W 0, c, s) \<Longrightarrow> fair_world E C W \<Longrightarrow>
    demo_do E C ev W \<lparr>st_own = c, st_calls = 0, st_sys = s\<rparr> = (r, st) \<Longrightarrow>
    demo_reachable E C (wo_done W (st_calls st), st_own st, st_sys st)"

section \<open>Through the services\<close>

lemma on_object_through [through]:
  assumes "through_services E C m"
  shows "through_services E C (on_object get put k m)"
proof -
  have "(service_step E C)\<^sup>*\<^sup>* (place W st) (place W (snd (on_object get put k m W st)))"
    if W: "fair_world E C W" for W st
  proof (cases "map_of (get (st_own st)) k")
    case None
    then show ?thesis by (simp add: on_object_def)
  next
    case (Some x)
    obtain r st' where m: "m W \<lparr>st_own = x, st_calls = st_calls st, st_sys = st_sys st\<rparr> = (r, st')"
      by (cases "m W \<lparr>st_own = x, st_calls = st_calls st, st_sys = st_sys st\<rparr>")
    have "(service_step E C)\<^sup>*\<^sup>* (place W \<lparr>st_own = x, st_calls = st_calls st, st_sys = st_sys st\<rparr>) (place W st')"
      using assms W m unfolding through_services_def by (metis snd_conv)
    then show ?thesis using Some m by (simp add: on_object_def place_def)
  qed
  then show ?thesis by (simp add: through_services_def)
qed

lemma controller_through [through]:
  "through_services E C m \<Longrightarrow> through_services E C (on_session k m)"
  "through_services E C m' \<Longrightarrow> through_services E C (on_lease_check k m')"
  "through_services E C m'' \<Longrightarrow> through_services E C (silent m'')"
  "through_services E C (demo_run_check E C scenario)"
  "through_services E C (demo_reset k)" "through_services E C demo_close"
  "through_services E C (beat_session E)" "through_services E C (worker_exits code)"
  "through_services E C (beat_lease_check E)"
  unfolding on_session_def on_lease_check_def silent_def demo_run_check_def demo_reset_def demo_close_def
    beat_session_def worker_exits_def beat_lease_check_def
  by (auto intro!: through split: option.split)

lemma controller_programs_through [through]:
  "through_services E C (demo_start E C scenario)" "through_services E C (demo_finish_lease_expiry E k)"
  unfolding demo_start_def demo_finish_lease_expiry_def by (intro through)+

lemma demo_do_through: "through_services E C (demo_do E C ev)"
  unfolding demo_do_def by (cases ev) (simp_all, (intro through)+)

lemma service_steps_reachable:
  "(service_step E C)\<^sup>*\<^sup>* c c' \<Longrightarrow> service_reachable E C c \<Longrightarrow> service_reachable E C c'"
  by (induction rule: rtranclp_induct) (auto intro: service_reachable.services_step)

lemma demo_reachable_services:
  assumes "demo_reachable E C (h, c, s)"
  shows "service_reachable E C (h, sy_db s)"
  using assms
proof (induction "(h, c, s)" arbitrary: h c s rule: demo_reachable.induct)
  case (demo_begins h)
  show ?case by (simp add: service_reachable.services_start)
next
  case (demo_outside h c s h' s')
  then show ?case using service_reachable.services_step by blast
next
  case (demo_done W c s ev r st)
  have "(service_step E C)\<^sup>*\<^sup>* (place W \<lparr>st_own = c, st_calls = 0, st_sys = s\<rparr>) (place W st)"
    using demo_do_through demo_done.hyps(3,4) unfolding through_services_def by (metis snd_conv)
  then show ?case using demo_done.hyps(2) service_steps_reachable by (auto simp: place_def)
qed

end
