(* ===== verification/Demo_Logic.thy ===== *)
theory Demo_Logic
  imports Demo_Control
begin

text \<open>
  What the transitions of a session establish: \<open>session_ok\<close> says what the phase of a session promises about
  the ledger, and each transition is a triple over it.
\<close>

section \<open>Calm programs\<close>

lemma calls_calm [calms]:
  "calm E C (call_create_run E r :: ('o, run_created) demo)"
  "calm E C (call_seed k :: ('o, unit) demo)"
  "calm E C (call_spawn E C parent token sp :: ('o, spawn_created) demo)"
  "calm E C (call_replacement E C parent token cid sp :: ('o, spawn_created) demo)"
  "calm E C (call_activate E C spawned key :: ('o, node_activated) demo)"
  "calm E C (call_checkpoint E k token stage :: ('o, checkpoint_response) demo)"
  "calm E C (call_command E cc :: ('o, command_issued) demo)"
  "calm E C (call_execute E k token key tool :: ('o, action_result) demo)"
  "calm E C (call_complete E k token :: ('o, unit) demo)"
  "calm E C (call_heartbeat E k token :: ('o, unit) demo)"
  "calm E C (call_expire E k :: ('o, int) demo)"
  "calm E C (write_event e :: ('o, unit) demo)"
  "calm E C (call_proof E cid :: ('o, proof_response) demo)"
  "calm E C (action_by_key k key :: ('o, action) demo)"
  unfolding calm_def
  by (simp_all add: calls_through,
      simp_all add: call_create_run_def call_seed_def call_spawn_def call_replacement_def call_activate_def
        call_checkpoint_def call_command_def call_execute_def call_complete_def call_heartbeat_def call_expire_def
        write_event_def call_proof_def action_by_key_def service_read_def play_then_def play_of_def
        play_world_def service_call_def case_prod_beta split: sum.split)

lemma read_action_calm [calms]: "calm E C (read_action k a :: ('o, json option) demo)"
  by (cases a) (simp_all add: read_action_def calms)

lemma snapshot_calm [calms]: "calm E C snapshot"
  unfolding snapshot_def by (intro calms)

lemma renew_calm [calms]: "calm E C (renew E node :: ('o, bool) demo)"
proof -
  have "calm E C (call_heartbeat E (fst node) (snd node) :: ('o, unit) demo)" by (rule calms)
  then show ?thesis
    unfolding calm_def by (simp add: renew_through) (simp add: renew_def case_prod_beta split: sum.split)
qed

lemma heartbeat_round_calm [calms]:
  "calm E C (heartbeat_round E nodes :: ('o, (ident \<times> string) list) demo)"
  by (induction nodes) (auto intro!: calms)

section \<open>What single calls establish\<close>

definition recorded :: "action_result \<Rightarrow> db \<Rightarrow> bool" where
  "recorded r d \<longleftrightarrow> (\<exists>a \<in> set (db_actions d). a_id a = ar_action_id r \<and> a_decision a = ar_decision r \<and>
     a_denial_reason a = ar_denial_reason r \<and> (a_committed_at a \<noteq> None) = ar_committed r)"

lemma execute_recorded:
  assumes "execute E clk tick k token request s = (Inr r, s')"
  shows "recorded r (sy_db s')"
  using rate_limited_result [OF assms [unfolded execute_def]]
proof (elim disjE exE conjE)
  assume "execute_before E k token request (sy_db s) = Inr (Answer r (sy_db s'))"
  then obtain a where "sy_db s' = sy_db s" "existing_attempt k (ae_idempotency_key request) (sy_db s) = Some a"
      "r = action_result a True"
    using execute_before_answers by blast
  then show ?thesis
    by (auto simp: recorded_def action_result_def existing_attempt_def find_Some_iff intro!: bexI [of _ a])
next
  fix i node
  assume "execute_body E clk request node (sy_db s) = Inr (r, sy_db s')"
  then obtain spec checks denial where
    s: "settle_action E clk request node spec checks denial (sy_db s) = Inr (r, sy_db s')"
    by (auto simp: execute_body_returns)
  show ?thesis
  proof (cases denial)
    case None
    then have "allow_action E clk node spec request (attempt_row E clk request node spec checks None (sy_db s)) (sy_db s) =
        Inr (r, sy_db s')"
      using s by (simp add: settle_allowed)
    then show ?thesis by (elim allow_action_returns) (simp add: recorded_def action_result_def record_runtime_event_def)
  next
    case (Some reason)
    then have "(r, sy_db s') = deny_action E clk node (evaluate_scopes (sy_db s) node)
       (attribute_denial node (evaluate_scopes (sy_db s) node) (Some reason) (sy_db s))
       (attempt_row E clk request node spec checks (Some reason) (sy_db s)) (sy_db s)"
      using s by (simp add: settle_denied)
    then show ?thesis using deny_action_tables by (fastforce simp: recorded_def action_result_def)
  qed
qed

lemma command_recorded:
  assumes "issue_command E clk tick request who token s = (Inr r, s')"
  shows "ci_command_id r \<in> c_id ` set (db_commands (sy_db s'))"
  using rate_limited_result [OF assms [unfolded issue_command_def]]
proof (elim disjE exE conjE)
    assume "issue_before E request who token (sy_db s) = Inr (Answer r (sy_db s'))"
    then show ?thesis
      using issue_before_answers by (fastforce simp: to_response_def existing_command_def find_Some_iff)
  next
    fix i cx
    assume "issue_body E clk request who cx (sy_db s) = Inr (r, sy_db s')"
    then show ?thesis unfolding issue_body_returns by (auto simp: to_response_def)
qed

section \<open>Rules for sequences\<close>

lemma triple_gain_then:
  fixes m :: "('w, 'o, 'a) play"
  assumes "uuid_inj E" and "through_services E C m"
    and "triple E C P m (\<lambda>r x d. P x d \<and> (\<forall>a. r = Inr a \<longrightarrow> G a d))"
    and "\<And>e x d. P x d \<Longrightarrow> Q (Inl e) x d"
    and "\<And>a. triple E C (\<lambda>x d. P x d \<and> G a d) (f a) Q"
  shows "triple E C P (play_then m f) Q"
  by (rule triple_then [OF assms(1,2) triple_weaken [OF assms(3)], where M = "\<lambda>a x d. P x d \<and> G a d"])
    (use assms(4,5) in \<open>auto split: sum.split\<close>)

lemma triple_calm_then:
  fixes m :: "('w, 'o, 'a) play"
  assumes "uuid_inj E" and "calm E C m" and "stable P"
    and "\<And>e x d. P x d \<Longrightarrow> Q (Inl e) x d" and "\<And>a. triple E C P (f a) Q"
  shows "triple E C P (play_then m f) Q"
  by (rule triple_then [OF assms(1) calm_through [OF assms(2)] triple_calm [OF assms(1-3)], where M = "\<lambda>_. P"])
    (use assms(4,5) in \<open>auto split: sum.split\<close>)

lemma triple_expect_then:
  assumes "uuid_inj E" and "\<And>x d. P x d \<Longrightarrow> Q (Inl e) x d" and "ok \<Longrightarrow> triple E C P (f ()) Q"
  shows "triple E C P (play_then (expect ok e) f) Q"
  by (rule triple_then [OF assms(1) through_expect triple_expect, where M = "\<lambda>_ x d. ok \<and> P x d"])
    (use assms(2,3) in \<open>auto simp: triple_def\<close>)

lemma triple_own_then:
  assumes "uuid_inj E" and "\<And>x d. P x d \<Longrightarrow> P' (g x) d" and "triple E C P' (f ()) Q"
  shows "triple E C P (play_then (play_own g) f) Q"
  by (rule triple_then [OF assms(1) through_own triple_own, where M = "\<lambda>_. P'"]) (use assms(2,3) in simp_all)

lemma triple_look_then:
  assumes "uuid_inj E" and "\<And>v. triple E C (\<lambda>x d. P x d \<and> v = g x) (f v) Q"
  shows "triple E C P (play_then (play_look g) f) Q"
  by (rule triple_then [OF assms(1) through_look triple_look, where M = "\<lambda>v x d. P x d \<and> v = g x"])
    (use assms(2) in simp_all)

text \<open>The gains of the calls.\<close>

lemma execute_gain:
  assumes "uuid_inj E" and "stable P"
  shows "triple E C P (call_execute E k token key tool :: ('o, action_result) demo)
    (\<lambda>r x d. P x d \<and> (\<forall>a. r = Inr a \<longrightarrow> recorded a d))"
  unfolding call_execute_def
proof (rule triple_call [OF assms])
  fix D h h' s
  assume "readings h (dr_clock D) h'"
  then show "service_step E C (h, sy_db s) (h', sy_db (snd (execute E (dr_clock D) (dr_tick D) k token
      \<lparr>ae_idempotency_key = key, ae_tool_name = tool, ae_arguments = []\<rparr> s)))"
    by (intro service_served step.execute)
next
  fix D s and x :: 'o
  let ?o = "execute E (dr_clock D) (dr_tick D) k token
      \<lparr>ae_idempotency_key = key, ae_tool_name = tool, ae_arguments = []\<rparr> s"
  assume "P x (sy_db (snd ?o))"
  then show "P x (sy_db (snd ?o)) \<and> (\<forall>a. fst ?o = Inr a \<longrightarrow> recorded a (sy_db (snd ?o)))"
    using execute_recorded by (metis prod.collapse)
qed

lemma command_gain:
  assumes "uuid_inj E" and "stable P"
  shows "triple E C P (call_command E cc :: ('o, command_issued) demo)
    (\<lambda>r x d. P x d \<and> (\<forall>a. r = Inr a \<longrightarrow> ci_command_id a \<in> c_id ` set (db_commands d)))"
  unfolding call_command_def
proof (rule triple_calm_then [OF assms(1) calm_basic(1) assms(2)])
  fix request
  show "triple E C P (service_call (\<lambda>D. issue_command E (dr_clock D) (dr_tick D) request human None) :: ('o, command_issued) demo)
      (\<lambda>r x d. P x d \<and> (\<forall>a. r = Inr a \<longrightarrow> ci_command_id a \<in> c_id ` set (db_commands d)))"
  proof (rule triple_call [OF assms])
    fix D h h' s
    assume "readings h (dr_clock D) h'"
    then show "service_step E C (h, sy_db s) (h', sy_db (snd (issue_command E (dr_clock D) (dr_tick D) request human None s)))"
      by (intro service_served step.issue)
  next
    fix D s and x :: 'o
    let ?o = "issue_command E (dr_clock D) (dr_tick D) request human None s"
    assume "P x (sy_db (snd ?o))"
    then show "P x (sy_db (snd ?o)) \<and> (\<forall>a. fst ?o = Inr a \<longrightarrow> ci_command_id a \<in> c_id ` set (db_commands (sy_db (snd ?o))))"
      using command_recorded by (metis prod.collapse)
  qed
qed simp

lemma action_by_key_gain:
  assumes "uuid_inj E" and "stable P"
  shows "triple E C P (action_by_key k key :: ('o, action) demo)
    (\<lambda>r x d. P x d \<and> (\<forall>a. r = Inr a \<longrightarrow> a \<in> set (db_actions d) \<and> a_node_id a = k))"
  unfolding action_by_key_def service_read_def
proof (rule triple_call [OF assms])
  fix D h h' s
  assume "readings h (dr_clock D) h'"
  then show "service_step E C (h, sy_db s) (h', sy_db (snd (only_row (filter
      (\<lambda>a. a_node_id a = k \<and> a_idempotency_key a = key) (db_actions (sy_db s))), s)))"
    by (simp add: service_step.nothing_written readings_le)
next
  fix D s and x :: 'o
  let ?rows = "filter (\<lambda>a. a_node_id a = k \<and> a_idempotency_key a = key) (db_actions (sy_db s))"
  assume "P x (sy_db (snd (only_row ?rows, s)))"
  moreover have "a \<in> set (db_actions (sy_db s)) \<and> a_node_id a = k" if "only_row ?rows = Inr a" for a
  proof -
    have "set ?rows = {a}" using that by (simp add: only_row_returns)
    then show ?thesis unfolding set_filter by blast
  qed
  ultimately show "P x (sy_db (snd (only_row ?rows, s))) \<and> (\<forall>a. fst (only_row ?rows, s) = Inr a \<longrightarrow>
      a \<in> set (db_actions (sy_db (snd (only_row ?rows, s)))) \<and> a_node_id a = k)"
    unfolding fst_conv snd_conv by blast
qed

section \<open>What a phase promises\<close>

definition denial_recorded :: "demo_session \<Rightarrow> db \<Rightarrow> bool" where
  "denial_recorded x d \<longleftrightarrow> (\<exists>a \<in> set (db_actions d). de_stale_action_id x = Some (a_id a) \<and>
     a_node_id a = de_stale_worker_node_id x \<and> a_decision a = Deny \<and> a_denial_reason a = Some ''SCOPE_SUPERSEDED'')"

definition recovery_recorded :: "demo_session \<Rightarrow> db \<Rightarrow> bool" where
  "recovery_recorded x d \<longleftrightarrow> (\<exists>a \<in> set (db_actions d). de_replacement_action_id x = Some (a_id a) \<and>
     a_decision a = Allow \<and> a_committed_at a \<noteq> None)"

definition command_known :: "demo_session \<Rightarrow> db \<Rightarrow> bool" where
  "command_known x d \<longleftrightarrow> (\<exists>k \<in> c_id ` set (db_commands d). de_command_id x = Some k)"

definition session_ok :: "demo_session \<Rightarrow> db \<Rightarrow> bool" where
  "session_ok x d \<longleftrightarrow>
     (case de_phase x of
        Phase_Waiting \<Rightarrow> True
      | Phase_Superseded \<Rightarrow> de_heartbeats x = None \<and> command_known x d
      | Phase_Denied \<Rightarrow> de_heartbeats x = None \<and> command_known x d \<and> denial_recorded x d
      | Phase_Recovered \<Rightarrow> de_heartbeats x = None \<and> command_known x d \<and> denial_recorded x d \<and> recovery_recorded x d
      | Phase_Proven \<Rightarrow> de_heartbeats x = None \<and> command_known x d \<and> denial_recorded x d \<and>
          recovery_recorded x d \<and> de_proof x \<noteq> None)"

definition phase_follows :: "phase \<Rightarrow> phase \<Rightarrow> bool" where
  "phase_follows p q \<longleftrightarrow> (p, q) \<in> {(Phase_Waiting, Phase_Superseded), (Phase_Superseded, Phase_Denied),
     (Phase_Denied, Phase_Recovered), (Phase_Recovered, Phase_Proven)}"

text \<open>A session of a phase, as it is after one operation.\<close>

definition session_after :: "phase \<Rightarrow> 'r \<Rightarrow> demo_session \<Rightarrow> db \<Rightarrow> bool" where
  "session_after p r x d \<longleftrightarrow> session_ok x d \<and> (de_phase x = p \<or> phase_follows p (de_phase x))"

definition session_in :: "phase \<Rightarrow> demo_session \<Rightarrow> db \<Rightarrow> bool" where
  "session_in p x d \<longleftrightarrow> session_ok x d \<and> de_phase x = p"

lemma facts_persist:
  "persists d d' \<Longrightarrow> denial_recorded x d \<Longrightarrow> denial_recorded x d'"
  "persists d d' \<Longrightarrow> recovery_recorded x d \<Longrightarrow> recovery_recorded x d'"
  "persists d d' \<Longrightarrow> command_known x d \<Longrightarrow> command_known x d'"
  "persists d d' \<Longrightarrow> recorded r d \<Longrightarrow> recorded r d'"
  unfolding persists_def denial_recorded_def recovery_recorded_def command_known_def recorded_def by blast+

lemma session_ok_persists: "persists d d' \<Longrightarrow> session_ok x d \<Longrightarrow> session_ok x d'"
  using facts_persist by (cases "de_phase x") (auto simp: session_ok_def)

named_theorems stability "facts that no service takes back"

lemma stable_facts [stability]:
  "stable session_ok" "stable (session_in p)" "stable (session_after p r)"
  "stable (\<lambda>x d. recorded res d)" "stable (\<lambda>x d. k \<in> c_id ` set (db_commands d))" "stable (\<lambda>x d. a \<in> set (db_actions d))"
  "stable (\<lambda>x d. R x)"
  unfolding stable_def session_in_def session_after_def
  using session_ok_persists facts_persist(4) by (auto simp: persists_def)

lemma stable_conj [stability]: "stable P \<Longrightarrow> stable Q \<Longrightarrow> stable (\<lambda>x d. P x d \<and> Q x d)"
  unfolding stable_def by blast

lemma in_after: "session_in p x d \<Longrightarrow> session_after p r x d"
  by (simp add: session_in_def session_after_def)

end
