(* ===== verification/Demo_Safety.thy ===== *)
theory Demo_Safety
  imports Demo_Logic
begin

text \<open>
  The transitions of a session keep what its phase promises, so every reachable controller does.
\<close>

section \<open>The transitions\<close>

lemma stable_in [stability]: "stable (\<lambda>x d. session_in p x d)" "stable (\<lambda>x d. session_after p r x d)"
  by (rule stable_facts)+

lemma require_phase_calm [calms]: "calm E C (require_phase q)"
  unfolding require_phase_def by (intro calms)

lemma triple_require_then:
  assumes "uuid_inj E" and "\<And>e x d. session_in p x d \<Longrightarrow> Q (Inl e) x d"
    and "p = q \<Longrightarrow> triple E C (session_in p) (f ()) Q"
  shows "triple E C (session_in p) (play_then (require_phase q) f) Q"
proof (rule triple_gain_then [OF assms(1) calm_through [OF require_phase_calm], where G = "\<lambda>_ _. p = q"])
  show "triple E C (session_in p) (require_phase q) (\<lambda>r x d. session_in p x d \<and> (\<forall>a. r = Inr a \<longrightarrow> p = q))"
    by (auto simp: triple_def require_phase_def play_then_def play_look_def expect_def play_of_def require_def
        session_in_def)
  show "triple E C (\<lambda>x d. session_in p x d \<and> p = q) (f a) Q" for a
    using assms(3) by (auto simp: triple_def)
qed (use assms(2) in auto)

lemmas sequence_rules = triple_calm_then triple_expect_then triple_gain_then triple_own_then

text \<open>The steps of a program: a calm one, a test, a gain, an assignment.\<close>

lemma calm_step:
  assumes "uuid_inj E" and "calm E C m" and "stable R" and "\<And>a. triple E C (\<lambda>x d. session_in p x d \<and> R x d) (f a) (session_after p)"
  shows "triple E C (\<lambda>x d. session_in p x d \<and> R x d) (play_then m f) (session_after p)"
  by (rule triple_calm_then [OF assms(1,2)]) (use assms(3,4) in_after in \<open>auto intro!: stability\<close>)

lemma test_step:
  assumes "uuid_inj E" and "ok \<Longrightarrow> triple E C (\<lambda>x d. session_in p x d \<and> R x d) (f ()) (session_after p)"
  shows "triple E C (\<lambda>x d. session_in p x d \<and> R x d) (play_then (expect ok e) f) (session_after p)"
  by (rule triple_expect_then [OF assms(1)]) (use assms(2) in_after in auto)

lemma gain_step:
  assumes "uuid_inj E" and "through_services E C m" and "stable R"
    and "\<And>P. stable P \<Longrightarrow> triple E C P m (\<lambda>r x d. P x d \<and> (\<forall>a. r = Inr a \<longrightarrow> G a d))"
    and "\<And>a. triple E C (\<lambda>x d. session_in p x d \<and> R x d \<and> G a d) (f a) (session_after p)"
  shows "triple E C (\<lambda>x d. session_in p x d \<and> R x d) (play_then m f) (session_after p)"
  by (rule triple_gain_then [OF assms(1,2) assms(4)])
    (use assms(3,5) in_after in \<open>auto intro!: stability simp: conj_assoc\<close>)

lemma enter_phase:
  assumes "uuid_inj E" and "calm E C m"
    and "\<And>x d. session_in p x d \<Longrightarrow> R x d \<Longrightarrow> session_in q (g x) d" and "phase_follows p q"
  shows "triple E C (\<lambda>x d. session_in p x d \<and> R x d) (play_then (play_own g) (\<lambda>_. m)) (session_after p)"
proof (rule triple_own_then [OF assms(1), where P' = "session_in q"])
  have "session_in q x d \<Longrightarrow> session_after p r x d" for r :: "error + 'b" and x d
    using assms(4) by (simp add: session_in_def session_after_def)
  then show "triple E C (session_in q) m (session_after p)"
    by (rule triple_calm [OF assms(1,2) stable_in(1)])
qed (use assms(3) in auto)

lemma begin_phase:
  assumes "uuid_inj E" and "p = q \<Longrightarrow> triple E C (\<lambda>x d. session_in p x d \<and> True) (f ()) (session_after p)"
  shows "triple E C (session_in p) (play_then (require_phase q) f) (session_after p)"
  by (rule triple_require_then [OF assms(1) in_after]) (use assms(2) in auto)

lemma supersede_establishes:
  assumes uuid: "uuid_inj E"
  shows "triple E C (session_in p) (supersede E) (session_after p)"
  unfolding supersede_def
  apply (rule begin_phase [OF uuid])
  apply (rule triple_own_then [OF uuid, where P' = "\<lambda>x d. session_in p x d \<and> de_heartbeats x = None"])
   apply (simp add: session_in_def session_ok_def)
  apply (rule calm_step [OF uuid], (intro calms stability)+)
  apply (rule calm_step [OF uuid], (intro calms stability)+)
  apply (rule gain_step [OF uuid calls_through(7)], (intro stability)+, erule command_gain [OF uuid])
  apply (rule calm_step [OF uuid], (intro calms stability)+)
  apply (rule test_step [OF uuid])
  apply (rule enter_phase [OF uuid snapshot_calm, where q = Phase_Superseded])
   apply (auto simp: session_in_def session_ok_def command_known_def phase_follows_def)
  done

text \<open>The worker process ends; that is all the release changes in a session.\<close>

lemma session_in_worker [simp]: "session_in p (set_worker g x) d = session_in p x d"
  by (cases "de_phase x") (simp_all add: session_in_def session_ok_def set_worker_def denial_recorded_def
    recovery_recorded_def command_known_def)

lemma release_step:
  assumes uuid: "uuid_inj E" and R: "stable R" "\<And>g x d. R x d \<Longrightarrow> R (set_worker g x) d"
    and rest: "\<And>u. triple E C (\<lambda>x d. session_in p x d \<and> R x d) (f u) (session_after p)"
  shows "triple E C (\<lambda>x d. session_in p x d \<and> R x d) (play_then release_worker f) (session_after p)"
proof (rule triple_then [OF uuid release_worker_through _ rest])
  let ?P = "\<lambda>x d. session_in p x d \<and> R x d"
  let ?Q = "\<lambda>(r :: error + unit) x d. case r of Inl e \<Rightarrow> session_after p (Inl e :: error + 'a) x d | Inr a \<Rightarrow> ?P x d"
  have ends: "?Q r x d" if "?P x d" for r x d
    using that in_after by (cases r) auto
  have st: "stable ?P" using R(1) by (intro stability)
  show "triple E C ?P release_worker ?Q"
    unfolding release_worker_def
    apply (rule triple_calm_then [OF uuid _ st ends], (intro calms)+, assumption)
    apply (rule triple_expect_then [OF uuid ends], assumption)
    apply (rule triple_expect_then [OF uuid ends], assumption)
    apply (rule triple_own_then [OF uuid, where P' = ?P], simp add: R(2))
    apply (rule triple_calm_then [OF uuid _ st ends], (intro calms)+, assumption)
    subgoal for w ended
      apply (cases ended)
       apply (simp, rule triple_of, erule ends)
      apply simp
      apply (rule triple_own_then [OF uuid, where P' = ?P], simp add: R(2))
      apply (rule triple_expect_then [OF uuid ends], assumption)
      apply (rule triple_expect, (erule ends)+)
      done
    done
qed

lemma release_establishes:
  assumes uuid: "uuid_inj E"
  shows "triple E C (session_in p) release_stale_worker (session_after p)"
  unfolding release_stale_worker_def
  apply (rule begin_phase [OF uuid])
  apply (rule triple_look_then [OF uuid])
  subgoal for demo
    apply (rule triple_weaken [where P = "\<lambda>x d. session_in p x d \<and>
        de_stale_worker_node_id x = de_stale_worker_node_id demo" and Q = "session_after p"])
      apply (rule calm_step [OF uuid], (intro calms stability)+)
      apply (rule release_step [OF uuid], (intro stability)+, simp add: set_worker_def)
      apply (rule gain_step [OF uuid action_by_key_through], (intro stability)+, erule action_by_key_gain [OF uuid])
      apply (rule test_step [OF uuid])
      apply (rule enter_phase [OF uuid, where q = Phase_Denied], (intro calms)+)
       apply (auto simp: session_in_def session_ok_def command_known_def denial_recorded_def phase_follows_def)
    done
  done

lemma recorded_recovery:
  assumes "recorded r d" and "ar_decision r = Allow" and "ar_committed r"
    and "de_replacement_action_id x = Some (ar_action_id r)"
  shows "recovery_recorded x d"
proof -
  obtain a where "a \<in> set (db_actions d)" "a_id a = ar_action_id r" "a_decision a = ar_decision r"
      "(a_committed_at a \<noteq> None) = ar_committed r"
    using assms(1) unfolding recorded_def by blast
  then show ?thesis using assms(2-4) unfolding recovery_recorded_def by (intro bexI [of _ a]) simp_all
qed

lemma replacement_establishes:
  assumes uuid: "uuid_inj E"
  shows "triple E C (session_in p) (run_replacement E C) (session_after p)"
  unfolding run_replacement_def
  apply (rule begin_phase [OF uuid])
  apply (rule calm_step [OF uuid], (intro calms stability)+)
  apply (rule calm_step [OF uuid], (intro calms stability)+)
  apply (rule calm_step [OF uuid], (intro calms stability)+)
  apply (rule calm_step [OF uuid], (intro calms stability)+)
  apply (rule gain_step [OF uuid calls_through(8)], (intro stability)+, erule execute_gain [OF uuid])
  apply (rule test_step [OF uuid])
  apply (rule calm_step [OF uuid], (intro calms stability)+)
  apply (rule enter_phase [OF uuid, where q = Phase_Recovered], (intro calms)+)
   apply (auto simp: session_in_def session_ok_def command_known_def denial_recorded_def phase_follows_def
      intro: recorded_recovery)
  done

lemma proof_establishes:
  assumes uuid: "uuid_inj E"
  shows "triple E C (session_in p) (build_demo_proof E) (session_after p)"
  unfolding build_demo_proof_def
  apply (rule begin_phase [OF uuid])
  apply (rule calm_step [OF uuid], (intro calms stability)+)
  apply (rule calm_step [OF uuid], (intro calms stability)+)
  apply (rule calm_step [OF uuid], (intro calms stability)+)
  apply (rule enter_phase [OF uuid snapshot_calm, where q = Phase_Proven])
   apply (auto simp: session_in_def session_ok_def command_known_def denial_recorded_def recovery_recorded_def
      phase_follows_def)
  done

end
