(* ===== verification/Demo_Properties.thy ===== *)
theory Demo_Properties
  imports Demo_Safety Web_Properties
begin

text \<open>
  The properties of the demonstration: its controller refines the services, and a phase it shows is earned.
\<close>

section \<open>The controller\<close>

definition controller_ok :: "demo_controller \<Rightarrow> db \<Rightarrow> bool" where
  "controller_ok c d \<longleftrightarrow> (\<forall>(k, x) \<in> set (dc_sessions c). session_ok x d) \<and> length (dc_checks c) \<le> 50"

lemma controller_ok_persists: "persists d d' \<Longrightarrow> controller_ok c d \<Longrightarrow> controller_ok c d'"
  using session_ok_persists by (fastforce simp: controller_ok_def)

lemma stable_controller [stability]: "stable controller_ok"
  unfolding stable_def using controller_ok_persists by blast

lemma dict_put_entries: "(i, v') \<in> set (dict_put k v kvs) \<Longrightarrow> v' = v \<or> (i, v') \<in> set kvs"
  by (auto simp: dict_put_def split: if_splits)

text \<open>A program on an object ends somewhere its own steps lead.\<close>

lemma on_object_cases:
  assumes "fair_world E C W" and "through_services E C m" and "uuid_inj E"
    and "safe E (fst (place W st)) (snd (place W st))"
  obtains "snd (on_object get put k m W st) = st"
  | x st' where "map_of (get (st_own st)) k = Some x"
      "st' = snd (m W \<lparr>st_own = x, st_calls = st_calls st, st_sys = st_sys st\<rparr>)"
      "st_own (snd (on_object get put k m W st)) = put (dict_put k (st_own st')) (st_own st)"
      "st_sys (snd (on_object get put k m W st)) = st_sys st'"
      "persists (sy_db (st_sys st)) (sy_db (st_sys st'))"
proof (cases "map_of (get (st_own st)) k")
  case None
  then show thesis using that(1) by (simp add: on_object_def)
next
  case (Some x)
  let ?st = "\<lparr>st_own = x, st_calls = st_calls st, st_sys = st_sys st\<rparr>"
  have "(service_step E C)\<^sup>*\<^sup>* (place W ?st) (place W (snd (m W ?st)))"
    using assms(1,2) unfolding through_services_def by blast
  then have "persists (sy_db (st_sys st)) (sy_db (st_sys (snd (m W ?st))))"
    using service_steps_safe [OF _ assms(3)] assms(4) by (fastforce simp: place_def)
  then show thesis
    using that(2) [of x "snd (m W ?st)"] Some by (simp add: on_object_def case_prod_beta)
qed

lemma on_session_ok:
  assumes uuid: "uuid_inj E" and m: "through_services E C m"
    and keeps: "\<And>p. triple E C (session_in p) m (session_after p)"
  shows "triple E C controller_ok (on_session k m) (\<lambda>_. controller_ok)"
  unfolding triple_def
proof (intro allI impI, elim conjE)
  fix W :: demo_world and st :: "demo_controller stage"
  assume W: "fair_world E C W" and safe: "safe E (fst (place W st)) (snd (place W st))"
    and ok: "controller_ok (st_own st) (sy_db (st_sys st))"
  show "controller_ok (st_own (snd (on_session k m W st))) (sy_db (st_sys (snd (on_session k m W st))))"
    unfolding on_session_def
  proof (rule on_object_cases [OF W m uuid safe, of dc_sessions dc_sessions_update k])
    assume "snd (on_object dc_sessions dc_sessions_update k m W st) = st"
    then show "controller_ok (st_own (snd (on_object dc_sessions dc_sessions_update k m W st)))
        (sy_db (st_sys (snd (on_object dc_sessions dc_sessions_update k m W st))))"
      using ok by simp
  next
    fix x :: demo_session and st' :: "demo_session stage"
    let ?st = "\<lparr>st_own = x, st_calls = st_calls st, st_sys = st_sys st\<rparr>"
    assume x: "map_of (dc_sessions (st_own st)) k = Some x" and st': "st' = snd (m W ?st)"
      and own: "st_own (snd (on_object dc_sessions dc_sessions_update k m W st)) =
        dc_sessions_update (dict_put k (st_own st')) (st_own st)"
      and sys: "st_sys (snd (on_object dc_sessions dc_sessions_update k m W st)) = st_sys st'"
      and per: "persists (sy_db (st_sys st)) (sy_db (st_sys st'))"
    have "session_ok x (sy_db (st_sys st))"
      using ok map_of_SomeD [OF x] by (auto simp: controller_ok_def)
    then have "session_after (de_phase x) (fst (m W ?st)) (st_own st') (sy_db (st_sys st'))"
      using keeps [of "de_phase x"] W safe unfolding triple_def st'
      by (simp add: session_in_def place_def)
    then have "session_ok (st_own st') (sy_db (st_sys st'))" by (simp add: session_after_def)
    then show "controller_ok (st_own (snd (on_object dc_sessions dc_sessions_update k m W st)))
        (sy_db (st_sys (snd (on_object dc_sessions dc_sessions_update k m W st))))"
      unfolding own sys using controller_ok_persists [OF per ok]
      by (auto simp: controller_ok_def dest!: dict_put_entries)
  qed
qed

lemma on_lease_check_ok:
  assumes uuid: "uuid_inj E" and m: "through_services E C m"
  shows "triple E C controller_ok (on_lease_check k m) (\<lambda>_. controller_ok)"
  unfolding triple_def
proof (intro allI impI, elim conjE)
  fix W :: demo_world and st :: "demo_controller stage"
  assume W: "fair_world E C W" and safe: "safe E (fst (place W st)) (snd (place W st))"
    and ok: "controller_ok (st_own st) (sy_db (st_sys st))"
  show "controller_ok (st_own (snd (on_lease_check k m W st))) (sy_db (st_sys (snd (on_lease_check k m W st))))"
    unfolding on_lease_check_def
    by (rule on_object_cases [OF W m uuid safe, of dc_lease_checks dc_lease_checks_update k])
      (use ok controller_ok_persists in \<open>auto simp: controller_ok_def\<close>)
qed

section \<open>The operations\<close>

lemma spawn_and_activate_calm [calms]:
  "calm E C (spawn_and_activate E C k token sp key :: ('o, ident \<times> node_activated) demo)"
  unfolding spawn_and_activate_def by (intro calms)

lemma await_worker_calm [calms]: "calm E C (await_worker polls k :: ('o, worker_handle) demo)"
  by (induction polls) (auto intro!: calms split: option.split)

lemma start_worker_calm [calms]: "calm E C (start_demo_worker k :: ('o, worker_handle) demo)"
  unfolding start_demo_worker_def by (intro calms)

lemma start_gain:
  assumes uuid: "uuid_inj E" and P: "stable P"
  shows "triple E C P (start_session E C scenario :: ('o, demo_session) demo)
    (\<lambda>r x d. P x d \<and> (\<forall>a. r = Inr a \<longrightarrow> de_phase a = Phase_Waiting))"
  unfolding start_session_def case_prod_beta
  by (rule triple_calm_then [OF uuid _ P], (intro calms)+, simp)+
    (rule triple_of, simp add: new_session_def)

lemma check_helpers_calm [calms]:
  "calm E C (create_check_run E label :: ('o, run_created) demo)"
  "calm E C (close_check_run E k root_id scenario :: ('o, command_issued) demo)"
  "calm E C (spawn_check_node E C parent token operation role caps :: ('o, node_activated) demo)"
  "calm E C (check_counter service key n s :: ('o, bool) demo)"
  unfolding create_check_run_def close_check_run_def spawn_check_node_def check_counter_def case_prod_beta
  by (intro calms)+

lemma read_actions_calm [calms]: "calm E C (read_actions k ks :: ('o, json list) demo)"
  by (induction ks) (auto intro!: calms)

lemma take_check_snapshot_calm [calms]:
  "calm E C (take_check_snapshot k ks :: ('o, check_snapshot) demo)"
  unfolding take_check_snapshot_def by (intro calms)

lemma checks_calm [calms]:
  "calm E C (check_cancellation E C :: ('o, check_result) demo)"
  "calm E C (start_lease_expiry E C :: ('o, lease_check) demo)"
  "calm E C (check_idempotency E C :: ('o, check_result) demo)"
  "calm E C (check_manifest_mismatch E C :: ('o, check_result) demo)"
  "calm E C (check_sibling_isolation E C :: ('o, check_result) demo)"
  "calm E C (check_concurrent_stale_valid E C :: ('o, check_result) demo)"
  unfolding check_cancellation_def start_lease_expiry_def check_idempotency_def check_manifest_mismatch_def
    check_sibling_isolation_def check_concurrent_stale_valid_def case_prod_beta
  by (intro calms)+

lemma run_check_calm [calms]: "calm E C (dispatch_check E C scenario :: ('o, check_outcome) demo)"
  unfolding dispatch_check_def demo_passed_def by (auto intro!: calms)

lemma beat_establishes:
  assumes uuid: "uuid_inj E"
  shows "triple E C (session_in p) (beat_session E) (session_after p)"
  unfolding beat_session_def
proof (rule triple_look_then [OF uuid])
  fix nodes
  let ?P = "\<lambda>x d. session_in p x d \<and> nodes = de_heartbeats x"
  show "triple E C ?P (case nodes of None \<Rightarrow> play_of (Inr ()) | Some ns \<Rightarrow>
      play_then (heartbeat_round E ns) (\<lambda>ns'. play_own (\<lambda>demo. demo\<lparr>de_heartbeats := Some ns'\<rparr>))) (session_after p)"
  proof (cases nodes)
    case None
    then show ?thesis by (auto intro!: triple_of in_after)
  next
    case (Some ns)
    have "session_after p (Inr () :: error + unit) (x\<lparr>de_heartbeats := Some ns'\<rparr>) d" if "?P x d" for x d ns'
      using that Some by (cases "de_phase x") (auto simp: session_in_def session_after_def session_ok_def)
    then show ?thesis
      unfolding Some option.case
      by (intro triple_calm_then [OF uuid] calms stability triple_own) (auto intro: in_after)
  qed
qed

lemma worker_exit_establishes: "triple E C (session_in p) (worker_exits code) (session_after p)"
  unfolding worker_exits_def by (rule triple_own) (simp add: in_after)

lemma silent_ok:
  assumes "uuid_inj E" and "through_services E C m" and "triple E C controller_ok m (\<lambda>_. controller_ok)"
  shows "triple E C controller_ok (silent m) (\<lambda>_. controller_ok)"
  unfolding silent_def
  by (rule triple_then [OF assms(1,2), where M = "\<lambda>_. controller_ok"])
    (use assms(3) in \<open>auto simp: triple_def play_of_def split: sum.split\<close>)

lemma add_check_ok: "controller_ok c d \<Longrightarrow> controller_ok (add_check r c) d"
  by (simp add: controller_ok_def add_check_def Let_def)

lemma demo_start_ok:
  assumes uuid: "uuid_inj E"
  shows "triple E C controller_ok (demo_start E C scenario) (\<lambda>_. controller_ok)"
  unfolding demo_start_def
proof (rule triple_gain_then [OF uuid start_session_through start_gain [OF uuid stable_controller]])
  fix demo :: demo_session
  show "triple E C (\<lambda>x d. controller_ok x d \<and> de_phase demo = Phase_Waiting)
      (play_then (play_own (dc_sessions_update (dict_put (de_id demo) demo))) (\<lambda>_. on_session (de_id demo) snapshot))
      (\<lambda>_. controller_ok)"
  proof (rule triple_own_then [OF uuid])
    show "controller_ok (dc_sessions_update (dict_put (de_id demo) demo) x) d"
      if "controller_ok x d \<and> de_phase demo = Phase_Waiting" for x d
      using that by (auto simp: controller_ok_def session_ok_def dest!: dict_put_entries)
    show "triple E C controller_ok (on_session (de_id demo) snapshot) (\<lambda>_. controller_ok)"
      by (rule on_session_ok [OF uuid snapshot_through])
        (rule triple_calm [OF uuid snapshot_calm stable_in(1)], erule in_after)
  qed
qed simp

lemma demo_run_check_ok:
  assumes uuid: "uuid_inj E"
  shows "triple E C controller_ok (demo_run_check E C scenario) (\<lambda>_. controller_ok)"
  unfolding demo_run_check_def
proof (rule triple_calm_then [OF uuid run_check_calm stable_controller])
  fix outcome
  show "triple E C controller_ok (play_then (play_own (case outcome of Passed r \<Rightarrow> add_check r
      | Waits c \<Rightarrow> dc_lease_checks_update (dict_put (lc_id c) c))) (\<lambda>_. play_of (Inr outcome))) (\<lambda>_. controller_ok)"
  proof (rule triple_own_then [OF uuid, where P' = controller_ok])
    show "controller_ok ((case outcome of Passed r \<Rightarrow> add_check r
        | Waits c \<Rightarrow> dc_lease_checks_update (dict_put (lc_id c) c)) x) d" if "controller_ok x d" for x d
      using that add_check_ok by (cases outcome) (auto simp: controller_ok_def)
  qed (rule triple_of)
qed

lemma demo_finish_ok:
  assumes uuid: "uuid_inj E"
  shows "triple E C controller_ok (demo_finish_lease_expiry E k) (\<lambda>_. controller_ok)"
  unfolding demo_finish_lease_expiry_def
  by (rule triple_then [OF uuid _ triple_weaken [OF on_lease_check_ok [OF uuid]], where M = "\<lambda>_. controller_ok"])
    (auto intro!: through triple_own_then [OF uuid, where P' = controller_ok] triple_of add_check_ok split: sum.split)

lemma demo_reset_ok:
  assumes uuid: "uuid_inj E"
  shows "triple E C controller_ok (demo_reset k) (\<lambda>_. controller_ok)"
  unfolding demo_reset_def
  by (intro triple_calm_then [OF uuid] calms stability triple_own_then [OF uuid, where P' = controller_ok])
    (auto simp: controller_ok_def intro!: triple_of)

lemma demo_close_ok: "triple E C controller_ok demo_close (\<lambda>_. controller_ok)"
  unfolding demo_close_def by (rule triple_own) (simp add: controller_ok_def)

lemma demo_do_ok:
  assumes uuid: "uuid_inj E"
  shows "triple E C controller_ok (demo_do E C ev) (\<lambda>_. controller_ok)"
proof -
  note session = on_session_ok [OF uuid]
  have snap: "triple E C (session_in p) snapshot (session_after p)" for p
    by (rule triple_calm [OF uuid snapshot_calm stable_in(1)]) (erule in_after)
  show ?thesis
    by (cases ev)
      (simp_all add: demo_do_def silent_ok [OF uuid] session through snap demo_start_ok [OF uuid]
        demo_run_check_ok [OF uuid] demo_finish_ok [OF uuid] demo_reset_ok [OF uuid] on_lease_check_ok [OF uuid]
        supersede_establishes [OF uuid] release_establishes [OF uuid] replacement_establishes [OF uuid]
        proof_establishes [OF uuid] beat_establishes [OF uuid] worker_exit_establishes demo_close_ok)
qed

lemma reachable_controller_ok:
  assumes "demo_reachable E C w" and uuid: "uuid_inj E"
  shows "controller_ok (fst (snd w)) (sy_db (snd (snd w)))"
  using assms(1)
proof (induction rule: demo_reachable.induct)
  case (demo_begins h)
  show ?case by (simp add: controller_ok_def new_controller_def)
next
  case (demo_outside h c s h' s')
  have "safe E h (sy_db s)"
    using service_reachable_safe [OF demo_reachable_services [OF demo_outside.hyps(1)] uuid] by simp
  then have "persists (sy_db s) (sy_db s')"
    using evolves_persists service_step_evolves [OF uuid _ demo_outside.hyps(2)] by simp
  then show ?case using demo_outside.IH controller_ok_persists by simp
next
  case (demo_done W c s ev r st)
  have safe: "safe E (wo_done W 0) (sy_db s)"
    using service_reachable_safe [OF demo_reachable_services [OF demo_done.hyps(1)] uuid] by simp
  have "controller_ok (st_own (snd (demo_do E C ev W \<lparr>st_own = c, st_calls = 0, st_sys = s\<rparr>)))
      (sy_db (st_sys (snd (demo_do E C ev W \<lparr>st_own = c, st_calls = 0, st_sys = s\<rparr>))))"
    using demo_do_ok [OF uuid, of C ev] demo_done.hyps(2) demo_done.IH safe
    unfolding triple_def place_def by simp
  then show ?case using demo_done.hyps(3) by simp
qed

section \<open>Properties\<close>

datatype session_op = Op_Supersede | Op_Release | Op_Replace | Op_Prove

definition run_session_op :: "env \<Rightarrow> codecs \<Rightarrow> session_op \<Rightarrow> (demo_session, demo_snapshot) demo" where
  "run_session_op E C op =
    (case op of
       Op_Supersede \<Rightarrow> supersede E
     | Op_Release \<Rightarrow> release_stale_worker
     | Op_Replace \<Rightarrow> run_replacement E C
     | Op_Prove \<Rightarrow> build_demo_proof E)"

definition op_phase :: "session_op \<Rightarrow> phase" where
  "op_phase op = (case op of Op_Supersede \<Rightarrow> Phase_Waiting | Op_Release \<Rightarrow> Phase_Superseded
     | Op_Replace \<Rightarrow> Phase_Denied | Op_Prove \<Rightarrow> Phase_Recovered)"

lemma session_op_establishes:
  "uuid_inj E \<Longrightarrow> triple E C (session_in p) (run_session_op E C op) (session_after p)"
  by (cases op) (simp_all add: run_session_op_def supersede_establishes release_establishes
      replacement_establishes proof_establishes)

text \<open>An operation out of turn is refused before it does anything.\<close>

lemma session_op_out_of_turn:
  "de_phase (st_own st) \<noteq> op_phase op \<Longrightarrow>
    run_session_op E C op W st = (Inl (conflict_error ''DEMO_INVALID_TRANSITION''), st)"
  by (cases op) (simp_all add: run_session_op_def op_phase_def supersede_def release_stale_worker_def
      run_replacement_def build_demo_proof_def require_phase_def play_then_def play_look_def expect_def
      play_of_def require_def)

text \<open>C30: a phase is earned: whatever operation of the controller runs on a session, in any fair world and with
  any outcome, its phase stays or moves one step on, and never shows more than the ledger holds: past
  \<open>SUPERSEDED\<close> the command is recorded, past \<open>STALE_DENIED\<close> the refusal of the stale worker by the
  supersession, past \<open>RECOVERY_COMMITTED\<close> the committed recovery, whatever other requests do in between.\<close>

theorem demo_phase_earned:
  assumes "uuid_inj E" and "fair_world E C W" and "safe E (wo_done W (st_calls st)) (sy_db (st_sys st))"
    and "session_ok (st_own st) (sy_db (st_sys st))" and "run_session_op E C op W st = (r, st')"
  shows "session_ok (st_own st') (sy_db (st_sys st')) \<and>
    (de_phase (st_own st') = de_phase (st_own st) \<or> phase_follows (de_phase (st_own st)) (de_phase (st_own st'))) \<and>
    (de_phase (st_own st') \<in> {Phase_Denied, Phase_Recovered, Phase_Proven} \<longrightarrow>
      (\<exists>a \<in> set (db_actions (sy_db (st_sys st'))). de_stale_action_id (st_own st') = Some (a_id a) \<and>
         a_node_id a = de_stale_worker_node_id (st_own st') \<and> a_decision a = Deny \<and>
         a_denial_reason a = Some ''SCOPE_SUPERSEDED''))"
proof -
  have "session_after (de_phase (st_own st)) r (st_own st') (sy_db (st_sys st'))"
    by (rule tripleD [OF session_op_establishes [OF assms(1)] assms(2,3) _ assms(5)])
      (simp add: session_in_def assms(4))
  then show ?thesis
    by (auto simp: session_after_def session_ok_def denial_recorded_def)
qed

text \<open>The witness: a stale worker was refused, and the session takes notice.\<close>

definition demo_denial :: action where
  "demo_denial =
    \<lparr>a_id = ''a1'', a_run_id = ''-runs'', a_node_id = ''1-nodes'', a_tool_name = ''restart_postgres'',
     a_side_effecting = True, a_idempotency_key = stale_action_key, a_decision = Deny,
     a_denial_reason = Some ''SCOPE_SUPERSEDED'', a_matched_command_id = Some ''-control_commands'',
     a_matched_scope_id = Some ''11-control_scopes'', a_matched_snapshot_version = Some 1,
     a_matched_live_version = Some 2, a_matched_live_status = Some Scope_Superseded,
     a_scope_evaluation = JNull, a_decision_explanation = JNull, a_request_payload_digest = [],
     a_arguments = [], a_arguments_digest = [], a_result = None, a_result_digest = None,
     a_attempted_at = noon, a_committed_at = None\<rparr>"

definition demo_ledger :: db where
  "demo_ledger = sample_db
     \<lparr>db_scopes := [sample_scope ''-control_scopes'' None, sample_scope ''1-control_scopes'' (Some ''-nodes''),
        (sample_scope ''11-control_scopes'' (Some ''1-nodes''))\<lparr>sc_status := Scope_Superseded, sc_version := 2\<rparr>],
      db_commands := [correction_command], db_actions := [demo_denial]\<rparr>"

definition demo_session_sample :: demo_session where
  "demo_session_sample = \<lparr>de_id = ''s'', de_run_id = ''-runs'', de_phase = Phase_Superseded,
     de_root_node_id = ''-nodes'', de_database_node_id = ''1-nodes'', de_stale_worker_node_id = ''1-nodes'',
     de_sibling_node_id = ''-nodes'', de_worker = \<lparr>wh_exit = None, wh_pipe = True\<rparr>, de_root_token = ''t'',
     de_database_token = ''t'', de_sibling_token = ''t'', de_command_id = Some ''-control_commands'',
     de_replacement_node_id = None, de_stale_action_id = None, de_replacement_action_id = None,
     de_scope_from_version = Some 1, de_scope_to_version = Some 2, de_proof = None, de_heartbeats = None\<rparr>"

definition demo_world_sample :: demo_world where
  "demo_world_sample = \<lparr>wo_draws = (\<lambda>n. sample_draws\<lparr>dr_clock := (\<lambda>_. noon + int n + 1)\<rparr>),
     wo_meanwhile = (\<lambda>_ s. s), wo_ready = (\<lambda>n. noon + int n), wo_done = (\<lambda>n. noon + int n), wo_id = ''s'',
     wo_polls = [], wo_stdin = True, wo_worker_end = Some \<lparr>we_code = 0, we_stdout = []\<rparr>, wo_killed = False,
     wo_swapped = False,
     wo_telemetry = \<lparr>tp_verdict = Not_Applicable, tp_discrepancies = [], tp_trace_ids = []\<rparr>, wo_maintain = True\<rparr>"

definition demo_stage_sample :: "demo_session stage" where
  "demo_stage_sample = \<lparr>st_own = demo_session_sample, st_calls = 0, st_sys = \<lparr>sy_db = demo_ledger, sy_limiter = []\<rparr>\<rparr>"

lemma demo_world_fair: "fair_world E C demo_world_sample"
  by (auto simp: fair_world_def demo_world_sample_def readings_def sample_draws_def)

lemma demo_ledger_tables [simp]:
  "db_runs demo_ledger = [sample_run]" "db_nodes demo_ledger = [sample_root, sample_child]"
  "db_commands demo_ledger = [correction_command]" "db_actions demo_ledger = [demo_denial]"
  "db_scopes demo_ledger = [sample_scope ''-control_scopes'' None, sample_scope ''1-control_scopes'' (Some ''-nodes''),
     (sample_scope ''11-control_scopes'' (Some ''1-nodes''))\<lparr>sc_status := Scope_Superseded, sc_version := 2\<rparr>]"
  by (simp_all add: demo_ledger_def)

lemma demo_ledger_safe: "safe sample_env noon demo_ledger"
proof -
  have ids: "ids_ok sample_env demo_ledger"
    by (simp add: ids_ok_def drawn_def upt_rec sample_uuid_def correction_command_def)
  have "command_enforced demo_ledger correction_command"
    by (simp add: command_enforced_def row_get_defs correction_command_def command_scope_status_def)
  moreover have "action_placed demo_ledger demo_denial"
    by (simp add: action_placed_def row_get_defs demo_denial_def)
  moreover have "scopes_explained demo_ledger"
    by (simp add: scopes_explained_def correction_command_def)
  ultimately show ?thesis
    using ids by (simp add: safe_def dated_def no_stale_commit_def stale_commit_def correction_command_def demo_denial_def)
qed

lemma demo_released:
  "de_phase (st_own (snd (release_stale_worker demo_world_sample demo_stage_sample))) = Phase_Denied"
proof -
  let ?W = demo_world_sample and ?x = demo_session_sample
  define d1 where "d1 = record_runtime_event (released_event ?x (wo_draws ?W 0)) demo_ledger"
  define x2 where "x2 = ?x\<lparr>de_worker := \<lparr>wh_exit = Some 0, wh_pipe = False\<rparr>\<rparr>"
  let ?st1 = "\<lparr>st_own = ?x, st_calls = 1, st_sys = \<lparr>sy_db = d1, sy_limiter = []\<rparr>\<rparr>"
  let ?st2 = "\<lparr>st_own = x2, st_calls = 1, st_sys = \<lparr>sy_db = d1, sy_limiter = []\<rparr>\<rparr>"
  let ?st3 = "\<lparr>st_own = x2, st_calls = 2, st_sys = \<lparr>sy_db = d1, sy_limiter = []\<rparr>\<rparr>"
  have ph: "require_phase Phase_Superseded ?W demo_stage_sample = (Inr (), demo_stage_sample)"
    by (simp add: require_phase_def play_then_def play_look_def expect_def play_of_def demo_stage_sample_def
        demo_session_sample_def)
  have look: "play_look (\<lambda>o1. o1) ?W demo_stage_sample = (Inr ?x, demo_stage_sample)"
    by (simp add: play_look_def demo_stage_sample_def)
  have event: "write_event (released_event ?x) ?W demo_stage_sample = (Inr (), ?st1)"
    by (simp add: write_event_def service_call_def demo_stage_sample_def demo_world_sample_def d1_def)
  have worker: "release_worker ?W ?st1 = (Inr (), ?st2)"
    by (simp add: release_worker_def play_then_def play_look_def play_own_def play_world_def expect_def play_of_def
        set_worker_def demo_session_sample_def demo_world_sample_def x2_def)
  have "db_actions d1 = [demo_denial]" by (simp add: d1_def record_runtime_event_def)
  then have key: "action_by_key (de_stale_worker_node_id ?x) stale_action_key ?W ?st2 = (Inr demo_denial, ?st3)"
    by (simp add: action_by_key_def service_read_def service_call_def demo_world_sample_def demo_denial_def
        demo_session_sample_def)
  have tested: "expect (a_decision demo_denial = Deny \<and> a_denial_reason demo_denial = Some ''SCOPE_SUPERSEDED'')
      runtime_error ?W ?st3 = (Inr (), ?st3)"
    by (simp add: expect_def play_of_def demo_denial_def)
  have enter: "de_phase (st_own (snd (play_then (play_own g) (\<lambda>_. m) ?W ?st3))) = de_phase (g x2)"
    if "calm sample_env sample_codecs m" for g and m :: "(demo_session, demo_snapshot) demo"
    using that by (simp add: play_then_def play_own_def calm_def)
  show ?thesis
    unfolding release_stale_worker_def
    apply (subst play_then_returns, rule ph)
    apply (subst play_then_returns, rule look)
    apply (subst play_then_returns, rule event)
    apply (subst play_then_returns, rule worker)
    apply (subst play_then_returns, rule key)
    apply (subst play_then_returns, rule tested)
    apply (subst enter, (intro calms)+)
    apply simp
    done
qed

theorem demo_phase_earned_witness:
  "\<exists>r st'. run_session_op sample_env sample_codecs Op_Release demo_world_sample demo_stage_sample = (r, st') \<and>
     de_phase (st_own st') = Phase_Denied \<and>
     (\<exists>a \<in> set (db_actions (sy_db (st_sys st'))). de_stale_action_id (st_own st') = Some (a_id a) \<and> a_decision a = Deny)"
proof -
  obtain r st' where op: "run_session_op sample_env sample_codecs Op_Release demo_world_sample demo_stage_sample = (r, st')"
    by (cases "run_session_op sample_env sample_codecs Op_Release demo_world_sample demo_stage_sample")
  then have phase: "de_phase (st_own st') = Phase_Denied"
    using demo_released by (simp add: run_session_op_def)
  have "safe sample_env (wo_done demo_world_sample (st_calls demo_stage_sample)) (sy_db (st_sys demo_stage_sample))"
    using demo_ledger_safe by (simp add: demo_world_sample_def demo_stage_sample_def)
  moreover have "session_ok (st_own demo_stage_sample) (sy_db (st_sys demo_stage_sample))"
    by (simp add: demo_stage_sample_def demo_session_sample_def session_ok_def command_known_def correction_command_def)
  ultimately show ?thesis
    using demo_phase_earned [OF sample_uuid_inj demo_world_fair _ _ op] op phase by fastforce
qed

section \<open>A session past its root\<close>

definition no_envelope :: "ident \<Rightarrow> string \<Rightarrow> db \<Rightarrow> bool" where
  "no_envelope caller key d \<longleftrightarrow> List.find (\<lambda>e. cre_operation_type e = ''REPLACEMENT'' \<and> cre_caller_node_id e = caller \<and>
     cre_operation_key e = key) (db_envelopes d) = None"

lemma overdue_replacement:
  assumes "get_node_row k (sy_db s) = Some n" and "\<not> lease_live (clk 0) n"
    and "sp_operation_key request = Some key" and "no_envelope (n_id n) key (sy_db s)"
  shows "isl (fst (create_replacement E C clk tick token nonce carrier k ptoken cid request s))"
proof -
  let ?r = "create_replacement E C clk tick token nonce carrier k ptoken cid request s"
  have "fst ?r \<noteq> Inr a" for a
  proof
    assume "fst ?r = Inr a"
    then have "?r = (Inr a, snd ?r)" by (metis prod.collapse)
    from rate_limited_result [OF this [unfolded create_replacement_def]] show False
    proof (elim disjE exE conjE)
      assume "create_replacement_before E C clk token nonce k ptoken cid request (sy_db s) =
          Inr (Answer a (sy_db (snd (rate_limited E ''spawn'' tick
            (create_replacement_before E C clk token nonce k ptoken cid request)
            (create_replacement_body E C clk token nonce carrier cid request) s))))"
      then show False
        using assms by (auto simp: create_replacement_before_def andthen_returns authenticate_node_returns
            find_envelope_def no_envelope_def Let_def split: option.splits)
    next
      fix i p
      assume p: "create_replacement_before E C clk token nonce k ptoken cid request (sy_db s) = Inr (Proceed i p)"
        and b: "create_replacement_body E C clk token nonce carrier cid request p (sy_db s) =
          Inr (a, sy_db (snd (rate_limited E ''spawn'' tick
            (create_replacement_before E C clk token nonce k ptoken cid request)
            (create_replacement_body E C clk token nonce carrier cid request) s)))"
      have "p = n" using create_replacement_before_proceeds [OF p] assms(1) by simp
      then show False using b assms(2) by (auto simp: create_replacement_body_returns node_live_def)
    qed
  qed
  then show ?thesis by (cases "fst ?r") auto
qed

text \<open>
  \<open>supersede\<close> closes the heartbeats of all four nodes, the root among them, and nothing starts them again:
  past \<open>WAITING_STALE_WORKER\<close> a session has none (\<open>session_ok\<close>).  Once the lease of the root has run out the
  replacement is refused and the session stays in \<open>STALE_DENIED\<close>.
\<close>

lemma overdue_session_stuck:
  assumes "get_node_row (de_root_node_id (st_own st)) (sy_db (wo_meanwhile W (st_calls st) (st_sys st))) = Some n"
    and "\<not> lease_live (dr_clock (wo_draws W (st_calls st)) 0) n"
    and "no_envelope (n_id n) ''demo-replacement'' (sy_db (wo_meanwhile W (st_calls st) (st_sys st)))"
  shows "isl (fst (run_replacement E C W st)) \<and> st_own (snd (run_replacement E C W st)) = st_own st"
proof -
  let ?x = "st_own st" and ?request = "demo_spawn ''demo-replacement'' ''redis_recovery'' (''task'', ''reset Redis pool'')
        [''tool:reset_redis_pool''] ''cooperative''"
  have call: "isl (fst (call_replacement E C (de_root_node_id ?x) (de_root_token ?x) cid ?request W st)) \<and>
      st_own (snd (call_replacement E C (de_root_node_id ?x) (de_root_token ?x) cid ?request W st)) = ?x" for cid
  proof (cases "validate_spawn_create ?request")
    case (Inl e)
    then show ?thesis by (simp add: call_replacement_def play_then_def play_of_def)
  next
    case (Inr request)
    then have "sp_operation_key request = Some ''demo-replacement''"
      by (auto simp: validate_spawn_create_def andthen_returns demo_spawn_def)
    from overdue_replacement [where clk = "dr_clock (wo_draws W (st_calls st))", OF assms(1,2) this assms(3)] show ?thesis
      using Inr by (simp add: call_replacement_def play_then_def play_of_def service_call_def case_prod_beta)
  qed
  have then_isl: "isl (fst (play_then m f W st)) \<and> st_own (snd (play_then m f W st)) = ?x"
    if "isl (fst (m W st)) \<and> st_own (snd (m W st)) = ?x"
    for m :: "(demo_session, 'x) demo" and f :: "'x \<Rightarrow> (demo_session, demo_snapshot) demo"
    using that by (cases "m W st"; cases "fst (m W st)") (auto simp: play_then_def)
  show ?thesis
  proof (cases "de_phase ?x = Phase_Denied")
    case False
    then show ?thesis
      using session_op_out_of_turn [of st Op_Replace E C W] by (simp add: run_session_op_def op_phase_def)
  next
    case True
    have ph: "require_phase Phase_Denied W st = (Inr (), st)"
      using True by (simp add: require_phase_def play_then_def play_look_def expect_def play_of_def)
    have look: "play_look (\<lambda>o1. o1) W st = (Inr ?x, st)" by (simp add: play_look_def)
    show ?thesis
    proof (cases "de_command_id ?x")
      case None
      show ?thesis
        unfolding run_replacement_def
        apply (subst play_then_returns, rule ph)+
        apply (subst play_then_returns, rule look)+
        apply (rule then_isl)
        apply (simp add: None play_of_def)
        done
    next
      case (Some cid)
      have known: "play_of (demand (de_command_id ?x) runtime_error) W st = (Inr cid, st)"
        by (simp add: Some play_of_def)
      show ?thesis
        unfolding run_replacement_def
        apply (subst play_then_returns, rule ph)+
        apply (subst play_then_returns, rule look)+
        apply (subst play_then_returns, rule known)+
        apply (rule then_isl)
        apply (rule call)
        done
    qed
  qed
qed

end
