(* ===== verification/Spec2Isabelle.thy ===== *)
theory Spec2Isabelle
  imports Foundation_Properties Control_Properties Lifecycle_Properties Audit_Properties
    Telemetry_Properties Database_Properties Operations_Properties Http_Properties Web_Properties Demo_Properties
begin

text \<open>
  TraceFence keeps a tree of agents under control.  A run has a tree of nodes; every node inherits
  the control scopes of its ancestors with the versions they had when it was spawned.  A command
  moves one scope to the next version and out of \<open>ACTIVE\<close>, and from then on the gateway refuses
  every side effect of every node below.  This development models the Python services under
  \<open>src/src/tracefence/\<close> and proves what they promise.

  \<^bold>\<open>Conventions.\<close>  A Python exception is \<open>Inl\<close>, a return \<open>Inr\<close> (\<open>andthen\<close>, \<open>require\<close>, \<open>demand\<close>; the
  collection \<open>outcome\<close> turns "this block returned" into the guards it passed).  The database is a
  record of tables, a table the list of its rows in insertion order.  Every service method that
  writes opens one \<open>BEGIN IMMEDIATE\<close> transaction (\<open>checkpoint\<close> a deferred one), so a method is a function
  on the database, and an exception leaves the database as it was.  Times are microseconds (\<open>int\<close>); the clock is an argument \<open>nat \<Rightarrow> time\<close>, one
  reading for each call of \<open>utcnow\<close>, so that a method may see time pass.  Random draws, SHA-256, HMAC,
  AES-GCM and \<open>uuid4\<close> are fields of the environment \<open>env\<close>, next to the settings; the hypotheses on
  them are \<open>uuid_inj\<close> (distinct draws differ) and \<open>cipher_ok\<close> (decryption undoes encryption).

  \<^bold>\<open>Theories.\<close>
  \<^item> \<open>Prelude\<close>: outcomes, keyed rows, the locale \<open>table\<close> (laws of reading after writing).
  \<^item> \<open>Encoding\<close>: decimal numbers, ISO timestamps, JSON and \<open>json.dumps(sort_keys=True)\<close>.
  \<^item> \<open>Config\<close>: \<open>config.py\<close>.  \<open>Domain\<close>: \<open>domain/enums.py\<close>, \<open>domain/errors.py\<close>, \<open>security.py\<close>.
    \<open>Schemas\<close>: \<open>domain/schemas.py\<close> with its validators and the manifest's JSON form.
  \<^item> \<open>Models\<close>: \<open>db/models.py\<close>, a record per table, the check constraints as predicates; one
    interpretation of \<open>table\<close> for each table.
  \<^item> \<open>RateLimits\<close>: \<open>rate_limits.py\<close>.  \<open>Scopes\<close>: \<open>services/common.py\<close>.  \<open>Tools\<close>:
    \<open>services/tool_registry.py\<close>.  \<open>Authority\<close>: \<open>services/authority_service.py\<close>.
  \<^item> \<open>History\<close>: what may happen to a row between two transactions (\<open>scope_step\<close>, \<open>run_step\<close>,
    \<open>node_step\<close>, \<open>command_step\<close>), the relation \<open>evolves\<close> and the locale \<open>history\<close> of the relations
    that compose; \<open>advances\<close> adds the identifiers.  \<open>Transactions\<close>: the shape of a handler
    (\<open>rate_limited\<close>, \<open>transaction\<close>) and the locale \<open>kept_by_handler\<close>, which lifts a relation kept by
    the two phases of a handler to the handler; each handler interprets it.
  \<^item> \<open>Runs\<close>: \<open>run_lifecycle.py\<close>, \<open>run_service.py\<close>.  \<open>Acks\<close>: the acknowledgements, written by three
    services.  \<open>Credentials\<close>: \<open>credential_recovery.py\<close> with base64.  \<open>Proposals\<close>:
    \<open>proposal_service.py\<close>.  \<open>Spawn\<close>, \<open>Nodes\<close>, \<open>Replacement\<close>: \<open>spawn_service.py\<close> (spawn and
    activation; heartbeat, checkpoint and completion; replacements).  \<open>Gateway\<close>:
    \<open>action_gateway.py\<close>.  \<open>Control\<close>: \<open>control_service.py\<close>.  \<open>Lease\<close>: \<open>lease_service.py\<close>.
    \<open>Invariants\<close>: \<open>invariant_service.py\<close>.  \<open>StateGraph\<close>: \<open>state_service.py\<close>, \<open>graph_service.py\<close>.
    \<open>Proof\<close>: \<open>proof_service.py\<close>.
  \<^item> \<open>Payloads\<close>: the JSON values SigNoz sends, Python's equality on them, binary64, advisories, pages
    and rows of \<open>signoz/mcp_client.py\<close>.  \<open>Telemetry\<close>: the rest of that file, strict rows,
    reconciliation, the session and \<open>verify_command\<close>.  \<open>Exporter\<close>: \<open>telemetry/setup.py\<close> as a state
    machine with its invariant.  \<open>Flushes\<close>: the same with the pieces of a flush between its locks, so that
    flushes overlap.  \<open>LiveProof\<close>: the telemetry stage of \<open>proof_service.py\<close>, the locale
    \<open>telemetry_client\<close> between the two and its interpretation on \<open>verify_command\<close>, and the attributes
    the services emit.  \<open>Rounding\<close>, \<open>Admission\<close>, \<open>Reconciliation\<close>: the lemmas on rounding, on accepted
    results and on the exact match of evidence and context.
  \<^item> \<open>System\<close>: the services together, as a step relation with one rule for each operation, and the
    invariant \<open>safe\<close> of every reachable state.
  \<^item> \<open>Integrity\<close>: the foreign keys of \<open>db/models.py\<close>.  \<open>Schema_Shape\<close>: the expected shape of every table.
    \<open>Bootstrap\<close>: \<open>init_db\<close> and the schema guard of \<open>db/engine.py\<close> on a record of the database file.
    \<open>Revision\<close>: the proof-revision triggers on elementary statements.  \<open>Freshness\<close>: why an unchanged
    revision leaves the evidence of a proof unchanged.
  \<^item> \<open>Worker\<close>: \<open>runtime/worker.py\<close> as a state machine with its invariant.  \<open>Canonical\<close>: UTF-8, text mode
    and canonical JSON.  \<open>Evidence\<close>: \<open>evidence.py\<close>, writing and checking a bundle.
  \<^item> \<open>Middleware\<close>: \<open>api/middleware.py\<close>, with a request handler as a tree of receiving and sending.
    \<open>Executor\<close>: the bounded pool of \<open>api/dependencies.py\<close> as a state machine.  \<open>Readiness\<close>:
    \<open>api/routes/health.py\<close>, the decision and the shared computation.  \<open>Routes\<close>: the other routes, one
    definition each, the dependencies in front of them, the loops of \<open>api/main.py\<close>.  \<open>Web\<close>: the process
    of requests and loops (\<open>web_step\<close>) against the services alone (\<open>service_step\<close>).
  \<^item> \<open>Plays\<close>: programs over the services, between whose calls other requests come, and a small logic for
    what they establish (\<open>triple\<close>).  \<open>Demo\<close>, \<open>Demo_Session\<close>, \<open>Demo_Checks\<close>, \<open>Demo_Control\<close>:
    \<open>services/demo_controller.py\<close>, the data and the calls, a session, the checks, the controller.
    \<open>Demo_Logic\<close>, \<open>Demo_Safety\<close>: what a phase of a session says of the ledger, transition by transition.
  \<^item> \<open>Sample\<close>: a concrete environment and database for the witnesses.  \<open>Foundation_Properties\<close>,
    \<open>Control_Properties\<close>, \<open>Lifecycle_Properties\<close>, \<open>Audit_Properties\<close>, \<open>Telemetry_Properties\<close>,
    \<open>Database_Properties\<close>, \<open>Operations_Properties\<close>, \<open>Http_Properties\<close>, \<open>Web_Properties\<close>,
    \<open>Demo_Properties\<close> and this theory: the properties, each with its claim number and a witness at a concrete input.

  \<^bold>\<open>How the main result is proved.\<close>  The abstract specification is the pair of \<open>evolves\<close> (history only
  grows) and \<open>safe\<close> (each command is enforced, and no admitted side effect of an affected node is as
  late as its command).  Each operation refines it: \<open>step_advances\<close> for the first; for the second,
  operations that neither issue a command nor attempt an action are \<open>quiet\<close> and keep \<open>safe\<close> by one
  lemma, and the gateway and the control service have one lemma each.  The clock is a wall clock and may
  read anything (\<open>any_readings\<close>), but for the two operations whose times the auditor compares: what a
  command and an action read inside their transactions has to move forward from one such transaction to
  the next (\<open>readings\<close>), because the auditor compares with \<open>>=\<close> and would report an action of the same
  microsecond that came before the command.

  \<^bold>\<open>Termination and bounds.\<close>  There is no fuel: the ancestor climb and the subtree walk end on every
  table, cyclic ones included, because the visited identifiers grow inside a finite set.  Integers are
  Python's, so \<open>int\<close>.

  \<^bold>\<open>Not modelled.\<close>  The \<open>IntegrityError\<close> branches that need two transactions at once; metrics; the
  \<open>Future\<close> that shares one proof between threads; symbolic links, temporary files and bundles in nested
  directories of the store; the transactions of a scan, one for each candidate, are one step; the 500 that
  the server writes outside the middlewares.  The SigNoz
  server, \<open>json.loads\<close>, \<open>datetime.fromisoformat\<close>, the OpenTelemetry SDK and the texts pydantic writes
  are arguments: the telemetry properties hold whatever they answer.  Of the demonstration, the command
  line and environment of the worker process, the joining of the heartbeat thread, and a reset while a
  transition of the same session runs.  FastAPI's parsing, CORS and the static files, the metric
  catalogues, scripts and migrations.
\<close>

section \<open>A scenario\<close>

text \<open>A run is created, its root restarts a service, and the run is cancelled.\<close>

definition scenario_request :: run_create where
  "scenario_request = \<lparr>rc_name = ''incident'', rc_root_role = ''coordinator'',
     rc_root_instruction = [], rc_root_capabilities = [''tool:restart_postgres'']\<rparr>"

definition scenario_start :: sys where
  "scenario_start = snd (transaction (create_run sample_env scenario_request ''t'' (noon + 1))
     \<lparr>sy_db = empty_db, sy_limiter = []\<rparr>)"

definition scenario_root :: node where
  "scenario_root = root_node sample_env scenario_request ''t'' (noon + 1) ''-runs'' ''-nodes''
     ''-control_scopes'' ''1-control_scopes''"

lemma scenario_tables [simp]:
  "sy_limiter scenario_start = []"
  "db_runs (sy_db scenario_start) = [sample_run\<lparr>r_created_at := noon + 1\<rparr>]"
  "db_nodes (sy_db scenario_start) = [scenario_root]"
  "db_scopes (sy_db scenario_start) =
     [new_scope ''-control_scopes'' ''-runs'' None (noon + 1),
      new_scope ''1-control_scopes'' ''-runs'' (Some ''-nodes'') (noon + 1)]"
  "db_actions (sy_db scenario_start) = []" "db_commands (sy_db scenario_start) = []"
  "db_services (sy_db scenario_start) = []"
  by (simp_all add: scenario_start_def transaction_def create_run_def scenario_request_def
      known_capabilities_def tool_registry_def tool_specs active_run_count_def empty_db_def Let_def
      scenario_root_def sample_run_def sample_uuid_def)

lemma scenario_reached: "reachable sample_env C (noon + 1, scenario_start)"
proof (rule reachable.next_step [OF reachable.start])
  show "step sample_env C (noon, \<lparr>sy_db = empty_db, sy_limiter = []\<rparr>) (noon + 1, scenario_start)"
    unfolding scenario_start_def
    by (rule step.create_run [of noon "\<lambda>_. noon + 1"]) (simp add: any_readings_def)
qed

lemma scenario_root_fields [simp]:
  "n_id scenario_root = ''-nodes''" "n_run_id scenario_root = ''-runs''"
  "n_status scenario_root = Node_Active" "n_own_scope_id scenario_root = ''1-control_scopes''"
  "n_scope_snapshot scenario_root = [(''-control_scopes'', 1), (''1-control_scopes'', 1)]"
  "n_capabilities scenario_root = [''tool:restart_postgres'']"
  "n_token_hash scenario_root = Some (hash_token sample_env ''t'')"
  "n_lease_expires_at scenario_root = Some (noon + 15000001)"
  "n_parent_id scenario_root = None" "n_caused_by_command_id scenario_root = None"
  "n_registered_at scenario_root = noon + 1"
  by (simp_all add: scenario_root_def root_node_def scenario_request_def lease_until_def seconds_def)

lemma scenario_lookups [simp]:
  "get_node_row ''-nodes'' (sy_db scenario_start) = Some scenario_root"
  "get_run_row ''-runs'' (sy_db scenario_start) = Some (sample_run\<lparr>r_created_at := noon + 1\<rparr>)"
  by (simp_all add: row_get_defs)

lemma scenario_authenticated [simp]:
  "authenticate_node sample_env ''-nodes'' ''t'' (sy_db scenario_start) = Inr scenario_root"
  by (simp add: authenticate_node_returns)

lemma scenario_allowed [simp]: "se_allowed (evaluate_scopes (sy_db scenario_start) scenario_root)"
  by (simp add: evaluate_allowed_iff entry_current_def live_scope_def new_scope_def)

lemmas scenario_evaluation = execute_def rate_limited_def execute_before_def existing_attempt_def
  sample_action_def execute_body_def get_tool_spec_def tool_registry_def action_count_def get_run_def
  admission_decision_def live_node_statuses_def lease_live_def recovery_contract_denial_def
  tool_specs validate_arguments_def settle_action_def allow_action_def execute_tool_def
  exec_restart_postgres_def ensure_state_def get_service_def new_attempt_def action_result_def Let_def

lemma scenario_action:
  "\<exists>r s' a. execute sample_env (\<lambda>i. noon + 2) 0 ''-nodes'' ''t'' sample_action scenario_start =
     (Inr r, s') \<and> ar_decision r = Allow \<and> \<not> ar_duplicate r \<and> db_actions (sy_db s') = [a] \<and>
     a_decision a = Allow \<and> a_side_effecting a \<and> db_runs (sy_db s') = db_runs (sy_db scenario_start) \<and>
     db_nodes (sy_db s') = db_nodes (sy_db scenario_start) \<and>
     db_scopes (sy_db s') = db_scopes (sy_db scenario_start) \<and> db_commands (sy_db s') = [] \<and>
     (\<exists>k. sy_limiter s' = [(''action:'' @ k, [0])])"
  by (simp add: scenario_evaluation split: prod.split)

lemma scenario_command:
  assumes "db_runs (sy_db s) = db_runs (sy_db scenario_start)"
    and "db_nodes (sy_db s) = db_nodes (sy_db scenario_start)"
    and "db_scopes (sy_db s) = db_scopes (sy_db scenario_start)" and "db_commands (sy_db s) = []"
    and "sy_limiter s = [(''action:'' @ k, [0])]"
  shows "\<exists>r s'. issue_command sample_env (\<lambda>i. noon + 3) 1 (sample_command Cancel_Run ''-nodes'') operator
     None s = (Inr r, s') \<and> \<not> ci_duplicate r"
proof -
  have "get_node_row ''-nodes'' (sy_db s) = Some scenario_root"
    "get_run_row ''-runs'' (sy_db s) = Some (sample_run\<lparr>r_created_at := noon + 1\<rparr>)"
    using assms(1,2) by (simp_all add: row_get_defs)
  then show ?thesis using assms
    by (simp add: issue_command_def rate_limited_def issue_before_def authorise_command_def
      sample_command_def get_node_def get_run_def resolve_issuer_def operator_def
      may_issue_command_def existing_command_def issue_body_def check_issue_state_def
      command_count_def check_source_proposal_def command_manifest_def command_target_def
      change_scope_def to_response_def transition_run_def transition_matches_def get_scope_row_def
      new_scope_def limiter_check_def category_limits_def evict_def admit_def prune_bucket_def
      update_scope_def Let_def)
qed

lemma scenario:
  "\<exists>c c'. reachable sample_env C c \<and> step sample_env C c c' \<and> reachable sample_env C c' \<and>
     length (db_actions (sy_db (snd c'))) = 1 \<and> db_commands (sy_db (snd c)) = [] \<and>
     (\<exists>cmd. db_commands (sy_db (snd c')) = [cmd])"
proof -
  obtain r s a k where e: "execute sample_env (\<lambda>i. noon + 2) 0 ''-nodes'' ''t'' sample_action
      scenario_start = (Inr r, s)"
    and s: "db_actions (sy_db s) = [a]" "db_runs (sy_db s) = db_runs (sy_db scenario_start)"
      "db_nodes (sy_db s) = db_nodes (sy_db scenario_start)"
      "db_scopes (sy_db s) = db_scopes (sy_db scenario_start)" "db_commands (sy_db s) = []"
      "sy_limiter s = [(''action:'' @ k, [0])]"
    using scenario_action by blast
  obtain r' s' where i: "issue_command sample_env (\<lambda>i. noon + 3) 1
      (sample_command Cancel_Run ''-nodes'') operator None s = (Inr r', s')" and fresh: "\<not> ci_duplicate r'"
    using scenario_command [OF s(2-6)] by blast
  obtain cx where run: "get_run_row (r_id (cx_run cx)) (sy_db s) = Some (cx_run cx)"
    and body: "issue_body sample_env (\<lambda>i. noon + 3) (sample_command Cancel_Run ''-nodes'') operator cx
      (sy_db s) = Inr (r', sy_db s')"
    by (rule issued_context [OF i fresh])
  have "distinct (map r_id (db_runs (sy_db s)))" using s(2) by simp
  then obtain cmd where "db_commands (sy_db s') = db_commands (sy_db s) @ [cmd]"
      "db_actions (sy_db s') = db_actions (sy_db s)"
    using issue_body_effect [OF body run] by blast
  then have tables: "db_commands (sy_db s') = [cmd]" "length (db_actions (sy_db s')) = 1"
    using s(1,5) by simp_all
  have "step sample_env C (noon + 1, scenario_start) (noon + 2, s)"
    using step.execute [of "noon + 1" "\<lambda>i. noon + 2" "noon + 2" sample_env C scenario_start 0
        "''-nodes''" "''t''" sample_action] e by (simp add: readings_def)
  with scenario_reached have 1: "reachable sample_env C (noon + 2, s)" by (rule reachable.next_step)
  have 2: "step sample_env C (noon + 2, s) (noon + 3, s')"
    using step.issue [of "noon + 2" "\<lambda>i. noon + 3" "noon + 3" sample_env C s 1
        "sample_command Cancel_Run ''-nodes''" operator None] i by (simp add: readings_def)
  have 3: "reachable sample_env C (noon + 3, s')" by (rule reachable.next_step [OF 1 2])
  show ?thesis
    by (rule exI [of _ "(noon + 2, s)"], rule exI [of _ "(noon + 3, s')"]) (use 1 2 3 tables s(5) in \<open>simp only: snd_conv, blast\<close>)
qed

section \<open>The services together\<close>

text \<open>C1: in every state the services can reach, in any order and any interleaving of their transactions,
  the auditor finds nothing: no side effect of an affected node is committed at or after the command that
  cut the node off.  One thing is asked of the clock, and built into the steps: what the commands and the
  actions read inside their transactions moves forward from each such transaction to the next (with equal
  or backward readings the auditor, which compares times, would report); the clock of all other
  operations, some of which read it before they have the lock, may read anything.\<close>

theorem no_stale_action_commits:
  assumes "reachable E C c" and "uuid_inj E"
  shows "discover_candidates run_filter (sy_db (snd c)) = []"
  by (rule discover_candidates_run)
    (use reachable_safe [OF assms] in
      \<open>simp add: safe_def no_stale_commit_def discover_candidates_empty_iff\<close>)

theorem no_stale_action_commits_witness:
  "\<exists>c. reachable sample_env sample_codecs c \<and> length (db_actions (sy_db (snd c))) = 1 \<and>
     length (db_commands (sy_db (snd c))) = 1 \<and> discover_candidates None (sy_db (snd c)) = []"
proof -
  obtain c cmd where c: "reachable sample_env sample_codecs c" "length (db_actions (sy_db (snd c))) = 1"
    "db_commands (sy_db (snd c)) = [cmd]"
    using scenario by blast
  then show ?thesis using no_stale_action_commits [OF c(1) sample_uuid_inj] by fastforce
qed

text \<open>C2: a command is enforced for ever: from the moment it is recorded, in every state reachable
  afterwards, its scope has the status of its type at version 2, and no node it affects is ever live
  again, whatever is spawned, activated, renewed or replaced.\<close>

theorem affected_never_live:
  assumes "reachable E C c" and "uuid_inj E" and "cmd \<in> set (db_commands (sy_db (snd c)))"
  shows "(\<exists>s. get_scope_row (c_target_scope_id cmd) (sy_db (snd c)) = Some s \<and>
      sc_status s = command_scope_status (c_command_type cmd) \<and> sc_version s = 2) \<and>
    (\<forall>n. n_run_id n = c_run_id cmd \<and> node_affected cmd n \<longrightarrow> \<not> node_live now n (sy_db (snd c)))"
proof -
  have safe: "safe E (fst c) (sy_db (snd c))" using reachable_safe [OF assms(1,2)] .
  then have enf: "command_enforced (sy_db (snd c)) cmd" and ids: "ids_ok E (sy_db (snd c))"
    using assms(3) by (auto simp: safe_def list_all_iff)
  have "\<not> node_live now n (sy_db (snd c))" if "n_run_id n = c_run_id cmd" "node_affected cmd n" for n
    using live_not_affected [OF assms(2) ids enf _ _ _ that(1)] that(2) by (auto simp: node_live_def)
  then show ?thesis using enf unfolding command_enforced_def by auto
qed

theorem affected_never_live_witness:
  "\<exists>c cmd s. reachable sample_env sample_codecs c \<and> cmd \<in> set (db_commands (sy_db (snd c))) \<and>
     get_scope_row (c_target_scope_id cmd) (sy_db (snd c)) = Some s \<and> sc_version s = 2"
proof -
  obtain c cmd where c: "reachable sample_env sample_codecs c" "cmd \<in> set (db_commands (sy_db (snd c)))"
    using scenario by fastforce
  then show ?thesis using affected_never_live [OF c(1) sample_uuid_inj c(2)] by blast
qed

text \<open>C12: history is only appended to: along any further steps no row of a run, node, scope or command
  disappears or changes its identity, a terminal run keeps its end, a scope leaves \<open>ACTIVE\<close> once, a
  dead node stays dead, a proposal a command has used stays used, and the actions of the ledger are a
  prefix of the later ones.\<close>

theorem history_is_append_only:
  assumes "reachable E C c" and "uuid_inj E" and "(step E C)\<^sup>*\<^sup>* c c'"
  shows "evolves (sy_db (snd c)) (sy_db (snd c'))"
proof -
  have ids: "ids_ok E (sy_db (snd c))" using reachable_safe [OF assms(1,2)] by (simp add: safe_def)
  from assms(3) have "advances E (sy_db (snd c)) (sy_db (snd c'))"
  proof (induction rule: rtranclp_induct)
    case base
    show ?case by (rule db_advance.refl)
  next
    case (step y z)
    show ?case by (rule db_advance.trans [OF step.IH step_advances [OF step.hyps(2)]])
  qed
  then show ?thesis using ids assms(2) by (simp add: advances_def)
qed

theorem history_is_append_only_witness:
  "\<exists>c c'. reachable sample_env sample_codecs c \<and> step sample_env sample_codecs c c' \<and>
     db_commands (sy_db (snd c)) = [] \<and> length (db_commands (sy_db (snd c'))) = 1 \<and> evolves (sy_db (snd c)) (sy_db (snd c'))"
proof -
  obtain c c' cmd where c: "reachable sample_env sample_codecs c" "step sample_env sample_codecs c c'"
    "db_commands (sy_db (snd c)) = []" "db_commands (sy_db (snd c')) = [cmd]"
    using scenario by blast
  have "evolves (sy_db (snd c)) (sy_db (snd c'))"
    by (rule history_is_append_only [OF c(1) sample_uuid_inj r_into_rtranclp]) (rule c(2))
  with c show ?thesis
    by - (rule exI [of _ c], rule exI [of _ c'], simp)
qed

end
